(* ===== verification/Pam_Prelude.thy ===== *)
theory Pam_Prelude
  imports Main "HOL-Library.Word" "HOL-Library.Code_Target_Nat"
begin

text \<open>
  Shared ground of the development: the machine integers of the source, its
  \<^verbatim>\<open>Result\<close> type with the \<^verbatim>\<open>?\<close> operator and the fallible loops the validators
  are written with, and the generic list lemmas the components use.  A
  \<^verbatim>\<open>Result<T, E>\<close> is the sum \<open>'e + 'a\<close> with the error on the left.
\<close>

unbundle bit_operations_syntax

section \<open>Machine integers\<close>

type_synonym u8 = "8 word"
type_synonym u16 = "16 word"
type_synonym u32 = "32 word"
type_synonym u64 = "64 word"

text \<open>\<^verbatim>\<open>uN::checked_add\<close>, \<^verbatim>\<open>uN::checked_sub\<close> and \<^verbatim>\<open>uN::checked_shl\<close> of the standard library.\<close>

definition checked_add :: "'a::len word \<Rightarrow> 'a word \<Rightarrow> 'a word option" where
  "checked_add a b =
     (if unat a + unat b < 2 ^ LENGTH('a) then Some (a + b) else None)"

definition checked_sub :: "'a::len word \<Rightarrow> 'a word \<Rightarrow> 'a word option" where
  "checked_sub a b = (if b \<le> a then Some (a - b) else None)"

definition checked_shl :: "'a::len word \<Rightarrow> nat \<Rightarrow> 'a word option" where
  "checked_shl a n = (if n < LENGTH('a) then Some (push_bit n a) else None)"

text \<open>\<^verbatim>\<open>uN::saturating_sub\<close>.\<close>

definition saturating_sub :: "'a::len word \<Rightarrow> 'a word \<Rightarrow> 'a word" where
  "saturating_sub a b = (if a < b then 0 else a - b)"

section \<open>Results\<close>

abbreviation Err :: "'e \<Rightarrow> 'e + 'a" where
  "Err \<equiv> Inl"

abbreviation Ok :: "'a \<Rightarrow> 'e + 'a" where
  "Ok \<equiv> Inr"

text \<open>The \<^verbatim>\<open>?\<close> operator: go on with the value, or return the error early.\<close>

definition and_then :: "'e + 'a \<Rightarrow> ('a \<Rightarrow> 'e + 'b) \<Rightarrow> 'e + 'b" where
  "and_then r f = (case r of Inl e \<Rightarrow> Inl e | Inr x \<Rightarrow> f x)"

definition map_err :: "('e \<Rightarrow> 'f) \<Rightarrow> 'e + 'a \<Rightarrow> 'f + 'a" where
  "map_err g r = (case r of Inl e \<Rightarrow> Inl (g e) | Inr x \<Rightarrow> Inr x)"

definition ok_or :: "'a option \<Rightarrow> 'e \<Rightarrow> 'e + 'a" where
  "ok_or v e = (case v of None \<Rightarrow> Inl e | Some x \<Rightarrow> Inr x)"

text \<open>\<^verbatim>\<open>Result::is_err\<close>\<close>

definition is_err :: "'e + 'a \<Rightarrow> bool" where
  "is_err r = (case r of Inl _ \<Rightarrow> True | Inr _ \<Rightarrow> False)"

text \<open>\<^verbatim>\<open>if cond { return Err(e) }\<close>, as a guard.\<close>

definition fail_if :: "bool \<Rightarrow> 'e \<Rightarrow> 'e + unit" where
  "fail_if c e = (if c then Inl e else Inr ())"

text \<open>\<^verbatim>\<open>for (index, x) in xs.iter().enumerate() { body(index, x)?; }\<close>\<close>

fun for_each :: "(nat \<Rightarrow> 'a \<Rightarrow> 'e + unit) \<Rightarrow> nat \<Rightarrow> 'a list \<Rightarrow> 'e + unit" where
  "for_each f i [] = Inr ()"
| "for_each f i (x # xs) = and_then (f i x) (\<lambda>_. for_each f (Suc i) xs)"

text \<open>\<^verbatim>\<open>xs.iter().position(p)\<close>\<close>

fun position :: "('a \<Rightarrow> bool) \<Rightarrow> 'a list \<Rightarrow> nat option" where
  "position p [] = None"
| "position p (x # xs) = (if p x then Some 0 else map_option Suc (position p xs))"

text \<open>\<^verbatim>\<open>xs.last()\<close>\<close>

definition last_opt :: "'a list \<Rightarrow> 'a option" where
  "last_opt xs = (if xs = [] then None else Some (last xs))"

text \<open>\<^verbatim>\<open>xs.get(i)\<close>\<close>

definition get_opt :: "'a list \<Rightarrow> nat \<Rightarrow> 'a option" where
  "get_opt xs i = (if i < length xs then Some (xs ! i) else None)"

section \<open>Lemmas on results\<close>

named_theorems result_simps "equations and inversions of the result combinators"

lemma and_then_simps [simp, result_simps]:
  "and_then (Inl e) f = Inl e"
  "and_then (Inr x) f = f x"
  by (simp_all add: and_then_def)

lemma and_then_Inr_iff [result_simps]:
  "and_then r f = Inr y \<longleftrightarrow> (\<exists>x. r = Inr x \<and> f x = Inr y)"
  by (cases r) auto

lemma and_then_Inl_iff [result_simps]:
  "and_then r f = Inl e \<longleftrightarrow> r = Inl e \<or> (\<exists>x. r = Inr x \<and> f x = Inl e)"
  by (cases r) auto

lemma and_then_cong [fundef_cong]:
  "r = s \<Longrightarrow> (\<And>x. s = Inr x \<Longrightarrow> f x = g x) \<Longrightarrow> and_then r f = and_then s g"
  by (cases s) auto

lemma and_then_ok_unit [simp]: "and_then r (\<lambda>_. Inr ()) = r"
  by (cases r) auto

lemma map_err_simps [simp, result_simps]:
  "map_err g (Inl e) = Inl (g e)"
  "map_err g (Inr x) = Inr x"
  by (simp_all add: map_err_def)

lemma map_err_Inr_iff [simp]: "map_err g r = Inr x \<longleftrightarrow> r = Inr x"
  by (cases r) auto

lemma ok_or_simps [simp, result_simps]:
  "ok_or None e = Inl e"
  "ok_or (Some x) e = Inr x"
  by (simp_all add: ok_or_def)

lemma ok_or_Inr_iff [result_simps]: "ok_or v e = Inr x \<longleftrightarrow> v = Some x"
  by (cases v) auto

lemma is_err_simps [simp]: "is_err (Inl e)" "\<not> is_err (Inr x)"
  by (simp_all add: is_err_def)

lemma not_is_errD: "\<not> is_err r \<Longrightarrow> \<exists>x. r = Inr x"
  by (cases r) auto

lemma is_err_and_then: "is_err (and_then r f) \<longleftrightarrow> is_err r \<or> (\<exists>x. r = Inr x \<and> is_err (f x))"
  by (cases r) auto

lemma not_is_err_unit [simp]: "\<not> is_err r \<longleftrightarrow> r = Inr ()"
  for r :: "'e + unit"
  by (cases r) auto

lemma fail_if_Inr_iff [simp, result_simps]: "fail_if c e = Inr u \<longleftrightarrow> \<not> c"
  by (auto simp: fail_if_def)

lemma fail_if_Inl_iff [simp, result_simps]: "fail_if c e = Inl e' \<longleftrightarrow> c \<and> e' = e"
  by (auto simp: fail_if_def)

lemma fail_if_code [simp]:
  "fail_if True e = Inl e"
  "fail_if False e = Inr ()"
  by (simp_all add: fail_if_def)

lemma for_each_Inr_iff [result_simps]:
  "for_each f i xs = Inr u \<longleftrightarrow> (\<forall>k < length xs. f (i + k) (xs ! k) = Inr ())"
proof (induction xs arbitrary: i)
  case Nil
  then show ?case by simp
next
  case (Cons x xs)
  have "for_each f i (x # xs) = Inr u \<longleftrightarrow>
      f i x = Inr () \<and> (\<forall>k < length xs. f (Suc i + k) (xs ! k) = Inr ())"
    using Cons.IH [of "Suc i"] by (auto simp: and_then_Inr_iff)
  also have "\<dots> \<longleftrightarrow> (\<forall>k < length (x # xs). f (i + k) ((x # xs) ! k) = Inr ())"
    by (auto simp: All_less_Suc2)
  finally show ?case .
qed

lemma for_each_ok_all:
  "(\<And>j x. x \<in> set xs \<Longrightarrow> f j x = Inr ()) \<Longrightarrow> for_each f i xs = Inr ()"
  by (induction xs arbitrary: i) auto

section \<open>Lemmas on lists\<close>

lemma position_Some_iff:
  "position p xs = Some i \<longleftrightarrow> i < length xs \<and> p (xs ! i) \<and> (\<forall>j < i. \<not> p (xs ! j))"
proof (induction xs arbitrary: i)
  case Nil
  then show ?case by simp
next
  case (Cons x xs)
  show ?case
    by (cases i) (auto simp: Cons.IH less_Suc_eq_0_disj)
qed

lemma position_None_iff: "position p xs = None \<longleftrightarrow> (\<forall>x \<in> set xs. \<not> p x)"
  by (induction xs) auto

lemma position_SomeD:
  "position p xs = Some i \<Longrightarrow> i < length xs \<and> p (xs ! i)"
  by (simp add: position_Some_iff)

lemma position_map: "position p (map g xs) = position (p \<circ> g) xs"
  by (induction xs) auto

lemma position_cong_key:
  "map g xs = map g ys \<Longrightarrow> position (\<lambda>x. g x = k) xs = position (\<lambda>x. g x = k) ys"
  using position_map [of "\<lambda>y. y = k" g xs] position_map [of "\<lambda>y. y = k" g ys]
  by (simp add: comp_def)

lemma position_distinct:
  assumes "distinct (map g xs)" and "i < length xs"
  shows "position (\<lambda>x. g x = g (xs ! i)) xs = Some i"
proof -
  have "g (xs ! j) \<noteq> g (xs ! i)" if "j < i" for j
    using that assms nth_eq_iff_index_eq [of "map g xs" j i] by fastforce
  with assms(2) show ?thesis by (auto simp: position_Some_iff)
qed

lemma last_opt_simps [simp]:
  "last_opt [] = None"
  "last_opt (xs @ [x]) = Some x"
  "last_opt xs = None \<longleftrightarrow> xs = []"
  by (simp_all add: last_opt_def)

lemma last_opt_Some_iff: "last_opt xs = Some x \<longleftrightarrow> xs \<noteq> [] \<and> last xs = x"
  by (auto simp: last_opt_def)

lemma get_opt_Some_iff [simp]: "get_opt xs i = Some x \<longleftrightarrow> i < length xs \<and> xs ! i = x"
  by (auto simp: get_opt_def)

lemma get_opt_None_iff [simp]: "get_opt xs i = None \<longleftrightarrow> length xs \<le> i"
  by (auto simp: get_opt_def)

lemma map_list_update_same:
  "i < length xs \<Longrightarrow> g y = g (xs ! i) \<Longrightarrow> map g (xs[i := y]) = map g xs"
  by (simp add: map_update list_update_same_conv)

lemma nth_update_cases:
  "k < length xs \<Longrightarrow> xs[i := x] ! k = (if i = k then x else xs ! k)"
  by simp

lemma list_all_update:
  "list_all P xs \<Longrightarrow> P y \<Longrightarrow> list_all P (xs[i := y])"
  by (induction xs arbitrary: i) (auto split: nat.splits)

lemma list_ex_update:
  "i < length xs \<Longrightarrow> list_ex P (xs[i := y]) \<longleftrightarrow> P y \<or> (\<exists>j < length xs. j \<noteq> i \<and> P (xs ! j))"
  by (auto simp: list_ex_length nth_list_update)

section \<open>Lemmas on checked arithmetic\<close>

lemma checked_add_Some:
  "checked_add a b = Some c \<Longrightarrow> c = a + b \<and> unat c = unat a + unat b"
  for a b :: "'a::len word"
  by (auto simp: checked_add_def unat_word_ariths split: if_splits)

lemma checked_add_one:
  "checked_add a 1 = (if a = -1 then None else Some (a + 1))"
  for a :: u64
proof (cases "a = -1")
  case True
  then show ?thesis by (simp add: checked_add_def unsigned_minus_1_eq_mask mask_eq_exp_minus_1)
next
  case False
  have "unat a < 2 ^ 64" using unsigned_less [of a] by simp
  moreover have "unat a \<noteq> 2 ^ 64 - 1"
  proof
    assume "unat a = 2 ^ 64 - 1"
    then have "unat a = unat (-1 :: u64)" by (simp add: unsigned_minus_1_eq_mask mask_eq_exp_minus_1)
    with False show False by (simp only: word_unat_eq_iff)
  qed
  ultimately have "unat a + 1 < 2 ^ 64" by linarith
  with False show ?thesis by (simp add: checked_add_def)
qed

lemma word_succ_bound:
  fixes a m :: "'a::len word"
  assumes "a < m"
  shows "unat (a + 1) = unat a + 1" and "a + 1 \<le> m" and "a + 1 - 1 = a" and "a + 1 \<noteq> 0"
proof -
  have less: "unat a < unat m" using assms by (simp add: word_less_nat_alt)
  moreover have "unat m < 2 ^ LENGTH('a)" by (rule unsigned_less)
  ultimately have "Suc (unat a) < 2 ^ LENGTH('a)" by linarith
  then show eq: "unat (a + 1) = unat a + 1" by (simp add: unat_word_ariths)
  from less show "a + 1 \<le> m" by (simp add: word_le_nat_alt eq)
  from eq show "a + 1 \<noteq> 0" by auto
qed simp

end
