(* ===== verification/Pam_Text.thy ===== *)
theory Pam_Text
  imports Pam_Prelude
begin

text \<open>
  The parts of Rust's string library the program uses.  A Rust \<^verbatim>\<open>String\<close> or
  \<^verbatim>\<open>&[u8]\<close> is its sequence of bytes, a HOL \<open>string\<close> (a \<open>char\<close> is one byte), so
  \<^verbatim>\<open>len()\<close> is \<open>length\<close>.  \<open>chars\<close> decodes UTF-8 with the replacement policy of
  \<^verbatim>\<open>String::from_utf8_lossy\<close>; on well-formed text it is \<^verbatim>\<open>str::chars\<close>.
\<close>

section \<open>Bytes\<close>

abbreviation byte :: "char \<Rightarrow> nat" where
  "byte c \<equiv> of_char c"

definition is_ascii_lowercase :: "char \<Rightarrow> bool" where
  "is_ascii_lowercase c \<longleftrightarrow> 97 \<le> byte c \<and> byte c \<le> 122"

definition is_ascii_uppercase :: "char \<Rightarrow> bool" where
  "is_ascii_uppercase c \<longleftrightarrow> 65 \<le> byte c \<and> byte c \<le> 90"

definition is_ascii_digit :: "char \<Rightarrow> bool" where
  "is_ascii_digit c \<longleftrightarrow> 48 \<le> byte c \<and> byte c \<le> 57"

definition is_ascii_alphabetic :: "char \<Rightarrow> bool" where
  "is_ascii_alphabetic c \<longleftrightarrow> is_ascii_lowercase c \<or> is_ascii_uppercase c"

definition is_ascii_alphanumeric :: "char \<Rightarrow> bool" where
  "is_ascii_alphanumeric c \<longleftrightarrow> is_ascii_alphabetic c \<or> is_ascii_digit c"

definition is_ascii_control :: "char \<Rightarrow> bool" where
  "is_ascii_control c \<longleftrightarrow> byte c < 32 \<or> byte c = 127"

definition is_ascii_whitespace :: "char \<Rightarrow> bool" where
  "is_ascii_whitespace c \<longleftrightarrow> byte c \<in> {9, 10, 12, 13, 32}"

definition to_ascii_lowercase :: "char \<Rightarrow> char" where
  "to_ascii_lowercase c = (if is_ascii_uppercase c then char_of (byte c + 32) else c)"

definition eq_ignore_ascii_case :: "string \<Rightarrow> string \<Rightarrow> bool" where
  "eq_ignore_ascii_case a b \<longleftrightarrow> map to_ascii_lowercase a = map to_ascii_lowercase b"

section \<open>UTF-8\<close>

definition is_continuation :: "nat \<Rightarrow> bool" where
  "is_continuation b \<longleftrightarrow> 128 \<le> b \<and> b \<le> 191"

definition second_of_three :: "nat \<Rightarrow> nat \<Rightarrow> bool" where
  "second_of_three b c \<longleftrightarrow>
     b = 0xE0 \<and> 0xA0 \<le> c \<and> c \<le> 0xBF \<or>
     0xE1 \<le> b \<and> b \<le> 0xEC \<and> 0x80 \<le> c \<and> c \<le> 0xBF \<or>
     b = 0xED \<and> 0x80 \<le> c \<and> c \<le> 0x9F \<or>
     0xEE \<le> b \<and> b \<le> 0xEF \<and> 0x80 \<le> c \<and> c \<le> 0xBF"

definition second_of_four :: "nat \<Rightarrow> nat \<Rightarrow> bool" where
  "second_of_four b c \<longleftrightarrow>
     b = 0xF0 \<and> 0x90 \<le> c \<and> c \<le> 0xBF \<or>
     0xF1 \<le> b \<and> b \<le> 0xF3 \<and> 0x80 \<le> c \<and> c \<le> 0xBF \<or>
     b = 0xF4 \<and> 0x80 \<le> c \<and> c \<le> 0x8F"

abbreviation replacement :: nat where
  "replacement \<equiv> 0xFFFD"

text \<open>
  One replacement character stands for each maximal invalid prefix, as the
  standard library's chunk iterator finds it.
\<close>

fun utf8_chars :: "nat list \<Rightarrow> nat list" where
  "utf8_chars [] = []"
| "utf8_chars (b # bs) =
     (if b < 0x80 then b # utf8_chars bs
      else if 0xC2 \<le> b \<and> b \<le> 0xDF then
        (case bs of
           [] \<Rightarrow> [replacement]
         | c # cs \<Rightarrow>
             if is_continuation c
             then ((b - 0xC0) * 64 + (c - 0x80)) # utf8_chars cs
             else replacement # utf8_chars bs)
      else if 0xE0 \<le> b \<and> b \<le> 0xEF then
        (case bs of
           [] \<Rightarrow> [replacement]
         | c # cs \<Rightarrow>
             if second_of_three b c then
               (case cs of
                  [] \<Rightarrow> [replacement]
                | d # ds \<Rightarrow>
                    if is_continuation d
                    then ((b - 0xE0) * 4096 + (c - 0x80) * 64 + (d - 0x80)) # utf8_chars ds
                    else replacement # utf8_chars cs)
             else replacement # utf8_chars bs)
      else if 0xF0 \<le> b \<and> b \<le> 0xF4 then
        (case bs of
           [] \<Rightarrow> [replacement]
         | c # cs \<Rightarrow>
             if second_of_four b c then
               (case cs of
                  [] \<Rightarrow> [replacement]
                | d # ds \<Rightarrow>
                    if is_continuation d then
                      (case ds of
                         [] \<Rightarrow> [replacement]
                       | e # es \<Rightarrow>
                           if is_continuation e
                           then ((b - 0xF0) * 262144 + (c - 0x80) * 4096
                                 + (d - 0x80) * 64 + (e - 0x80)) # utf8_chars es
                           else replacement # utf8_chars ds)
                    else replacement # utf8_chars cs)
             else replacement # utf8_chars bs)
      else replacement # utf8_chars bs)"

definition utf8_encode :: "nat \<Rightarrow> nat list" where
  "utf8_encode u =
     (if u < 0x80 then [u]
      else if u < 0x800 then [0xC0 + u div 64, 0x80 + u mod 64]
      else if u < 0x10000 then
        [0xE0 + u div 4096, 0x80 + u div 64 mod 64, 0x80 + u mod 64]
      else
        [0xF0 + u div 262144, 0x80 + u div 4096 mod 64, 0x80 + u div 64 mod 64, 0x80 + u mod 64])"

definition is_scalar :: "nat \<Rightarrow> bool" where
  "is_scalar u \<longleftrightarrow> u < 0xD800 \<or> 0xE000 \<le> u \<and> u < 0x110000"

definition chars :: "string \<Rightarrow> nat list" where
  "chars s = utf8_chars (map byte s)"

definition from_chars :: "nat list \<Rightarrow> string" where
  "from_chars us = map char_of (concat (map utf8_encode us))"

text \<open>\<^verbatim>\<open>char::is_control\<close> (general category Cc) and \<^verbatim>\<open>char::is_whitespace\<close> (White\_Space).\<close>

definition is_control :: "nat \<Rightarrow> bool" where
  "is_control u \<longleftrightarrow> u < 32 \<or> 127 \<le> u \<and> u \<le> 159"

definition is_whitespace :: "nat \<Rightarrow> bool" where
  "is_whitespace u \<longleftrightarrow>
     9 \<le> u \<and> u \<le> 13 \<or> u \<in> {0x20, 0x85, 0xA0, 0x1680, 0x2028, 0x2029, 0x202F, 0x205F, 0x3000} \<or>
     0x2000 \<le> u \<and> u \<le> 0x200A"

definition has_control :: "string \<Rightarrow> bool" where
  "has_control s \<longleftrightarrow> list_ex is_control (chars s)"

definition trim_chars :: "nat list \<Rightarrow> nat list" where
  "trim_chars us = rev (dropWhile is_whitespace (rev (dropWhile is_whitespace us)))"

text \<open>\<^verbatim>\<open>s.trim() == s\<close>\<close>

definition is_trimmed :: "string \<Rightarrow> bool" where
  "is_trimmed s \<longleftrightarrow> trim_chars (chars s) = chars s"

section \<open>Searching and splitting\<close>

definition starts_with :: "'a list \<Rightarrow> 'a list \<Rightarrow> bool" where
  "starts_with s p \<longleftrightarrow> take (length p) s = p"

text \<open>\<^verbatim>\<open>s.strip_prefix(p)\<close>\<close>

definition strip_prefix :: "'a list \<Rightarrow> 'a list \<Rightarrow> 'a list option" where
  "strip_prefix p s = (if starts_with s p then Some (drop (length p) s) else None)"

definition ends_with :: "'a list \<Rightarrow> 'a list \<Rightarrow> bool" where
  "ends_with s p \<longleftrightarrow> starts_with (rev s) (rev p)"

fun contains_sub :: "'a list \<Rightarrow> 'a list \<Rightarrow> bool" where
  "contains_sub [] p = (p = [])"
| "contains_sub (x # xs) p = (starts_with (x # xs) p \<or> contains_sub xs p)"

text \<open>\<^verbatim>\<open>s.split(pattern)\<close>: one segment more than there are separators.\<close>

fun split_on :: "('a \<Rightarrow> bool) \<Rightarrow> 'a list \<Rightarrow> 'a list list" where
  "split_on p [] = [[]]"
| "split_on p (x # xs) =
     (if p x then [] # split_on p xs
      else (case split_on p xs of [] \<Rightarrow> [[x]] | y # ys \<Rightarrow> (x # y) # ys))"

text \<open>\<^verbatim>\<open>s.split_once(p)\<close>: what precedes and what follows the first occurrence.\<close>

fun split_once :: "'a list \<Rightarrow> 'a list \<Rightarrow> ('a list \<times> 'a list) option" where
  "split_once [] p = (if p = [] then Some ([], []) else None)"
| "split_once (x # xs) p =
     (if starts_with (x # xs) p then Some ([], drop (length p) (x # xs))
      else map_option (\<lambda>(a, b). (x # a, b)) (split_once xs p))"

text \<open>\<^verbatim>\<open>slice.windows(n).any(p)\<close>\<close>

fun any_window :: "nat \<Rightarrow> ('a list \<Rightarrow> bool) \<Rightarrow> 'a list \<Rightarrow> bool" where
  "any_window n p [] = False"
| "any_window n p (x # xs) =
     (n \<le> length (x # xs) \<and> (p (take n (x # xs)) \<or> any_window n p xs))"

section \<open>Formatting\<close>

definition digit_char :: "nat \<Rightarrow> char" where
  "digit_char d = char_of (if d < 10 then 48 + d else 87 + d)"

fun nat_radix :: "nat \<Rightarrow> nat \<Rightarrow> string" where
  "nat_radix r n =
     (if r < 2 \<or> n < r then [digit_char n] else nat_radix r (n div r) @ [digit_char (n mod r)])"

declare nat_radix.simps [simp del]

text \<open>\<^verbatim>\<open>{}\<close> of an unsigned integer, \<^verbatim>\<open>{:x}\<close> and \<^verbatim>\<open>{:02x}\<close> of a byte.\<close>

definition show_nat :: "nat \<Rightarrow> string" where
  "show_nat n = nat_radix 10 n"

definition show_hex :: "nat \<Rightarrow> string" where
  "show_hex n = nat_radix 16 n"

definition show_hex2 :: "nat \<Rightarrow> string" where
  "show_hex2 n = [digit_char (n div 16), digit_char (n mod 16)]"

definition newline :: string where
  "newline = [CHR 0x0A]"

definition dquote :: string where
  "dquote = [CHR 0x22]"

text \<open>\<^verbatim>\<open>u64::to_be_bytes\<close> of a length.\<close>

definition be_bytes64 :: "nat \<Rightarrow> string" where
  "be_bytes64 n = map (\<lambda>k. char_of (n div 256 ^ (7 - k) mod 256)) [0..<8]"

section \<open>Lemmas on searching and splitting\<close>

lemma starts_with_iff: "starts_with s p \<longleftrightarrow> (\<exists>t. s = p @ t)"
  by (auto simp: starts_with_def) (metis append_take_drop_id)

lemma strip_prefix_append [simp]: "strip_prefix p (p @ s) = Some s"
  by (simp add: strip_prefix_def starts_with_def)

lemma strip_prefix_Some_iff: "strip_prefix p s = Some t \<longleftrightarrow> s = p @ t"
  by (auto simp: strip_prefix_def starts_with_iff)

lemma ends_with_iff: "ends_with s p \<longleftrightarrow> (\<exists>t. s = t @ p)"
proof -
  have "ends_with s p \<longleftrightarrow> (\<exists>t. rev s = rev p @ t)"
    by (simp add: ends_with_def starts_with_iff)
  also have "\<dots> \<longleftrightarrow> (\<exists>t. s = t @ p)"
    by (metis rev_append rev_rev_ident)
  finally show ?thesis .
qed

lemma contains_sub_iff: "contains_sub s p \<longleftrightarrow> (\<exists>a b. s = a @ p @ b)"
proof (induction s)
  case Nil
  then show ?case by auto
next
  case (Cons x xs)
  have "(\<exists>a b. x # xs = a @ p @ b) \<longleftrightarrow> (\<exists>b. x # xs = p @ b) \<or> (\<exists>a b. xs = a @ p @ b)"
    by (auto simp: Cons_eq_append_conv)
  with Cons.IH show ?case
    by (auto simp: starts_with_iff)
qed

lemma contains_sub_singleton: "contains_sub s [c] \<longleftrightarrow> c \<in> set s"
  by (auto simp: contains_sub_iff in_set_conv_decomp)

lemma split_on_neq_Nil [simp]: "split_on p xs \<noteq> []"
  by (induction xs) (auto split: list.splits)

lemma split_on_no_sep: "seg \<in> set (split_on p xs) \<Longrightarrow> x \<in> set seg \<Longrightarrow> \<not> p x"
  by (induction xs arbitrary: seg) (fastforce split: if_splits list.splits)+

lemma split_on_elems: "seg \<in> set (split_on p xs) \<Longrightarrow> x \<in> set seg \<Longrightarrow> x \<in> set xs"
  by (induction xs arbitrary: seg) (fastforce split: if_splits list.splits)+

lemma split_on_covers: "x \<in> set xs \<Longrightarrow> \<not> p x \<Longrightarrow> \<exists>seg \<in> set (split_on p xs). x \<in> set seg"
proof (induction xs)
  case (Cons y ys)
  then show ?case by (cases "split_on p ys") (auto split: if_splits)
qed simp

lemma split_on_id: "(\<And>x. x \<in> set xs \<Longrightarrow> \<not> p x) \<Longrightarrow> split_on p xs = [xs]"
  by (induction xs) auto

section \<open>Lemmas on UTF-8\<close>

lemma is_continuation_mod [simp]: "is_continuation (0x80 + n mod 64)"
  by (simp add: is_continuation_def)

lemma split_64: "u = u div 64 * 64 + u mod 64" for u :: nat
  by simp

lemma split_4096: "u = u div 4096 * 4096 + u div 64 mod 64 * 64 + u mod 64" for u :: nat
proof -
  have "u div 64 = u div 4096 * 64 + u div 64 mod 64"
    using split_64 [of "u div 64"] by (simp add: div_mult2_eq [symmetric])
  with split_64 [of u] show ?thesis by linarith
qed

lemma split_262144:
  "u = u div 262144 * 262144 + u div 4096 mod 64 * 4096 + u div 64 mod 64 * 64 + u mod 64"
  for u :: nat
proof -
  have "u div 4096 = u div 262144 * 64 + u div 4096 mod 64"
    using split_64 [of "u div 4096"] by (simp add: div_mult2_eq [symmetric])
  with split_4096 [of u] show ?thesis by linarith
qed

lemma utf8_chars_encode:
  assumes "is_scalar u"
  shows "utf8_chars (utf8_encode u @ bs) = u # utf8_chars bs"
proof -
  consider "u < 0x80" | "0x80 \<le> u" "u < 0x800" | "0x800 \<le> u" "u < 0x10000"
    | "0x10000 \<le> u" "u < 0x110000"
    using assms unfolding is_scalar_def by linarith
  then show ?thesis
  proof cases
    case 1
    then show ?thesis by (simp add: utf8_encode_def)
  next
    case 2
    then have "2 \<le> u div 64" "u div 64 \<le> 0x1F" by auto
    with 2 show ?thesis by (simp add: utf8_encode_def)
  next
    case 3
    define b c d where "b = u div 4096" and "c = u div 64 mod 64" and "d = u mod 64"
    have b: "b \<le> 15" using 3 by (auto simp: b_def)
    have u: "u = b * 4096 + c * 64 + d"
      unfolding b_def c_def d_def by (rule split_4096)
    have cd: "c < 64" "d < 64" by (auto simp: c_def d_def)
    have "second_of_three (0xE0 + b) (0x80 + c)"
      using 3 assms u cd b by (auto simp: second_of_three_def is_scalar_def)
    moreover have "is_continuation (0x80 + d)" using cd by (simp add: is_continuation_def)
    moreover have "utf8_encode u = [0xE0 + b, 0x80 + c, 0x80 + d]"
      using 3 by (simp add: utf8_encode_def b_def c_def d_def)
    ultimately show ?thesis using b by (simp add: u [symmetric])
  next
    case 4
    define b c d e where "b = u div 262144" and "c = u div 4096 mod 64" and "d = u div 64 mod 64"
      and "e = u mod 64"
    have b: "b \<le> 4" using 4 by (auto simp: b_def)
    have u: "u = b * 262144 + c * 4096 + d * 64 + e"
      unfolding b_def c_def d_def e_def by (rule split_262144)
    have cd: "c < 64" "d < 64" "e < 64" by (auto simp: c_def d_def e_def)
    have "second_of_four (0xF0 + b) (0x80 + c)"
      using 4 assms u cd b by (auto simp: second_of_four_def is_scalar_def)
    moreover have "is_continuation (0x80 + d)" "is_continuation (0x80 + e)"
      using cd by (auto simp: is_continuation_def)
    moreover have "utf8_encode u = [0xF0 + b, 0x80 + c, 0x80 + d, 0x80 + e]"
      using 4 by (simp add: utf8_encode_def b_def c_def d_def e_def)
    ultimately show ?thesis using b by (simp add: u [symmetric])
  qed
qed

lemma utf8_chars_concat:
  "list_all is_scalar us \<Longrightarrow> utf8_chars (concat (map utf8_encode us)) = us"
  by (induction us) (auto simp: utf8_chars_encode)

lemma utf8_encode_bound: "u < 0x110000 \<Longrightarrow> b \<in> set (utf8_encode u) \<Longrightarrow> b < 256"
  by (auto simp: utf8_encode_def split: if_splits)

lemma map_mod_256: "(\<And>b. b \<in> set bs \<Longrightarrow> b < 256) \<Longrightarrow> map (\<lambda>b. b mod 256) bs = bs"
  for bs :: "nat list"
  by (induction bs) auto

lemma is_scalar_less: "is_scalar u \<Longrightarrow> u < 0x110000"
  by (auto simp: is_scalar_def)

text \<open>Decoding what was encoded gives the characters back.\<close>

lemma chars_from_chars: "list_all is_scalar us \<Longrightarrow> chars (from_chars us) = us"
proof -
  assume us: "list_all is_scalar us"
  have "map byte (from_chars us) = concat (map utf8_encode us)"
    using us utf8_encode_bound [OF is_scalar_less]
    by (force simp: from_chars_def list_all_iff comp_def intro!: map_mod_256)
  with us show ?thesis by (simp add: chars_def utf8_chars_concat)
qed

lemma utf8_chars_ascii: "(\<And>b. b \<in> set bs \<Longrightarrow> b < 0x80) \<Longrightarrow> utf8_chars bs = bs"
  by (induction bs) auto

lemma chars_ascii: "(\<And>c. c \<in> set s \<Longrightarrow> byte c < 0x80) \<Longrightarrow> chars s = map byte s"
  unfolding chars_def by (rule utf8_chars_ascii) auto

lemma utf8_encode_length: "1 \<le> length (utf8_encode u) \<and> length (utf8_encode u) \<le> 4"
  by (simp add: utf8_encode_def)

lemma decode_two_scalar:
  "\<lbrakk>b \<le> 0xDF; is_continuation c\<rbrakk> \<Longrightarrow> is_scalar ((b - 0xC0) * 64 + (c - 0x80))"
  by (auto simp: is_scalar_def is_continuation_def)

lemma decode_three_scalar:
  "\<lbrakk>second_of_three b c; is_continuation d\<rbrakk> \<Longrightarrow>
     is_scalar ((b - 0xE0) * 4096 + (c - 0x80) * 64 + (d - 0x80))"
  by (auto simp: is_scalar_def is_continuation_def second_of_three_def)

lemma decode_four_scalar:
  "\<lbrakk>second_of_four b c; is_continuation d; is_continuation e\<rbrakk> \<Longrightarrow>
     is_scalar ((b - 0xF0) * 262144 + (c - 0x80) * 4096 + (d - 0x80) * 64 + (e - 0x80))"
  by (auto simp: is_scalar_def is_continuation_def second_of_four_def)

lemma is_scalar_small [simp]: "u < 0x80 \<Longrightarrow> is_scalar u" "is_scalar replacement"
  by (simp_all add: is_scalar_def)

lemma utf8_chars_scalar: "list_all is_scalar (utf8_chars bs)"
proof (induction bs rule: utf8_chars.induct)
  case (2 b bs)
  then show ?case
    by (auto split: list.splits simp: decode_two_scalar decode_three_scalar decode_four_scalar)
qed simp

lemma chars_scalar: "list_all is_scalar (chars s)"
  by (simp add: chars_def utf8_chars_scalar)

lemma from_chars_append [simp]: "from_chars (us @ vs) = from_chars us @ from_chars vs"
  by (simp add: from_chars_def)

lemma from_chars_ascii: "(\<And>c. c \<in> set s \<Longrightarrow> byte c < 0x80) \<Longrightarrow> from_chars (map byte s) = s"
  by (induction s) (auto simp: from_chars_def utf8_encode_def)

text \<open>Well-formed text whose characters all satisfy \<open>ok\<close>.\<close>

definition text_of :: "(nat \<Rightarrow> bool) \<Rightarrow> string \<Rightarrow> bool" where
  "text_of ok s \<longleftrightarrow> (\<exists>us. s = from_chars us \<and> list_all is_scalar us \<and> list_all ok us)"

lemma text_of_chars: "text_of ok s \<Longrightarrow> list_all ok (chars s)"
  by (auto simp: text_of_def chars_from_chars)

lemma text_of_append [intro]: "text_of ok s \<Longrightarrow> text_of ok t \<Longrightarrow> text_of ok (s @ t)"
proof -
  assume "text_of ok s" "text_of ok t"
  then obtain us vs where "s = from_chars us" "t = from_chars vs" "list_all is_scalar (us @ vs)"
    "list_all ok (us @ vs)" by (auto simp: text_of_def)
  then show "text_of ok (s @ t)" unfolding text_of_def by (intro exI [of _ "us @ vs"]) simp
qed

lemma text_of_Nil [simp]: "text_of ok []"
  unfolding text_of_def by (intro exI [of _ "[]"]) (simp add: from_chars_def)

lemma text_of_concat: "(\<And>s. s \<in> set ss \<Longrightarrow> text_of ok s) \<Longrightarrow> text_of ok (concat ss)"
  by (induction ss) auto

lemma text_of_char: "is_scalar u \<Longrightarrow> ok u \<Longrightarrow> text_of ok (from_chars [u])"
  unfolding text_of_def by (intro exI [of _ "[u]"]) simp

lemma text_of_ascii: "(\<And>c. c \<in> set s \<Longrightarrow> byte c < 0x80 \<and> ok (byte c)) \<Longrightarrow> text_of ok s"
  unfolding text_of_def
  by (intro exI [of _ "map byte s"]) (auto simp: from_chars_ascii list_all_iff)

section \<open>Lemmas on formatting\<close>

lemma nat_radix_digits:
  "2 \<le> r \<Longrightarrow> c \<in> set (nat_radix r n) \<Longrightarrow> \<exists>d < r. c = digit_char d"
proof (induction r n rule: nat_radix.induct)
  case (1 r n)
  then show ?case
    by (subst (asm) (2) nat_radix.simps) (auto split: if_splits intro: exI [of _ "n mod r"])
qed

lemma digit_char_byte: "d < 16 \<Longrightarrow> 48 \<le> byte (digit_char d) \<and> byte (digit_char d) < 0x7F"
  by (auto simp: digit_char_def)

lemma text_of_digits: "(\<And>u. 48 \<le> u \<Longrightarrow> u < 0x7F \<Longrightarrow> ok u) \<Longrightarrow> 2 \<le> r \<Longrightarrow> r \<le> 16 \<Longrightarrow> text_of ok (nat_radix r n)"
proof (rule text_of_ascii)
  fix c assume ok: "\<And>u. 48 \<le> u \<Longrightarrow> u < 0x7F \<Longrightarrow> ok u" and r: "2 \<le> r" "r \<le> 16" and "c \<in> set (nat_radix r n)"
  then obtain d where "d < r" "c = digit_char d" using nat_radix_digits by blast
  with r digit_char_byte [of d] ok [of "byte c"] show "byte c < 0x80 \<and> ok (byte c)" by auto
qed

lemma length_be_bytes64 [simp]: "length (be_bytes64 n) = 8"
  by (simp add: be_bytes64_def)

lemma be_bytes64_inj:
  assumes "be_bytes64 m = be_bytes64 n" and "m < 2 ^ 64" and "n < 2 ^ 64"
  shows "m = n"
proof -
  have step: "m div 256 ^ k mod 256 = n div 256 ^ k mod 256" if "k < 8" for k
  proof -
    have "be_bytes64 m ! (7 - k) = be_bytes64 n ! (7 - k)" using assms(1) by simp
    moreover have "[0..<8] ! (7 - k) = 7 - k" by (subst nth_upt) auto
    ultimately show ?thesis using that by (simp add: be_bytes64_def)
  qed
  have "m div 256 ^ (8 - j) = n div 256 ^ (8 - j)" if "j \<le> 8" for j
    using that
  proof (induction j)
    case 0
    with assms(2,3) show ?case by simp
  next
    case (Suc j)
    have split: "x div 256 ^ (8 - Suc j) = x div 256 ^ (8 - j) * 256 + x div 256 ^ (8 - Suc j) mod 256"
      for x :: nat
    proof -
      have "256 ^ (8 - j) = 256 ^ (8 - Suc j) * (256::nat)"
        using Suc.prems by (metis Suc_diff_Suc Suc_le_lessD power_Suc2)
      then show ?thesis by (simp add: div_mult2_eq)
    qed
    have "m div 256 ^ (8 - Suc j) mod 256 = n div 256 ^ (8 - Suc j) mod 256"
      by (rule step) simp
    moreover have "m div 256 ^ (8 - j) = n div 256 ^ (8 - j)"
      using Suc by simp
    ultimately show ?case using split [of m] split [of n] by simp
  qed
  from this [of 8] show ?thesis by simp
qed

text \<open>A field preceded by its length does not run into what follows it.\<close>

lemma length_prefix_inj:
  assumes "be_bytes64 (length x) @ x @ xs = be_bytes64 (length y) @ y @ ys"
    and "length x < 2 ^ 64" "length y < 2 ^ 64"
  shows "x = y \<and> xs = ys"
proof -
  have "be_bytes64 (length x) = be_bytes64 (length y) \<and> x @ xs = y @ ys"
    using assms(1) by (simp add: append_eq_append_conv)
  with be_bytes64_inj assms(2,3) show ?thesis by (metis append_eq_append_conv)
qed

lemma digit_char_inj: "d < 16 \<Longrightarrow> e < 16 \<Longrightarrow> digit_char d = digit_char e \<Longrightarrow> d = e"
  by (auto simp: digit_char_def split: if_splits dest!: arg_cong [where f = byte])

end
