(* ===== verification/Flow_Definition.thy ===== *)
theory Flow_Definition
  imports Pam_Text
begin

text \<open>
  The declarative flow definition of \<^verbatim>\<open>crates/pam_flow/src/lib.rs\<close>: its data, the
  field-addressed validators, the depth-first cycle check and the normalized TOML the
  definition digest is computed over.  A panic of the source (\<^verbatim>\<open>unreachable!\<close>, a
  missing map key, an index out of range) is the value \<open>ValidationPanic\<close>, which no
  source error equals.  SHA-256 and the TOML reader are third-party code and stay
  parameters (\<open>sha256\<close>, \<open>toml_from_str\<close>).
\<close>

section \<open>Limits\<close>

definition FLOW_SCHEMA_VERSION :: u16 where "FLOW_SCHEMA_VERSION = 2"
definition MIN_FLOW_SCHEMA_VERSION :: u16 where "MIN_FLOW_SCHEMA_VERSION = 1"
definition MAX_FLOW_DOCUMENT_BYTES :: nat where "MAX_FLOW_DOCUMENT_BYTES = 1024 * 1024"
definition MAX_FLOW_STEPS :: nat where "MAX_FLOW_STEPS = 128"
definition MAX_FLOW_ID_BYTES :: nat where "MAX_FLOW_ID_BYTES = 64"
definition MAX_COMMAND_ARGS :: nat where "MAX_COMMAND_ARGS = 64"
definition MAX_COMMAND_ARG_BYTES :: nat where "MAX_COMMAND_ARG_BYTES = 4096"
definition MAX_COMMAND_ARGS_BYTES :: nat where "MAX_COMMAND_ARGS_BYTES = 32 * 1024"
definition MAX_TIMEOUT_SECONDS :: u32 where "MAX_TIMEOUT_SECONDS = 3600"
definition MAX_RETRY_ATTEMPTS :: u8 where "MAX_RETRY_ATTEMPTS = 5"
definition MAX_INITIAL_BACKOFF_MS :: u64 where "MAX_INITIAL_BACKOFF_MS = 60000"
definition MAX_BACKOFF_MS :: u64 where "MAX_BACKOFF_MS = 300000"
definition MAX_OUTCOME_EVIDENCE_HANDLES :: nat where "MAX_OUTCOME_EVIDENCE_HANDLES = 4"
definition MAX_NAME_BYTES :: nat where "MAX_NAME_BYTES = 128"
definition MAX_DESCRIPTION_BYTES :: nat where "MAX_DESCRIPTION_BYTES = 2048"
definition MAX_TEMPLATE_BYTES :: nat where "MAX_TEMPLATE_BYTES = 4096"
definition MAX_WORKING_DIRECTORY_BYTES :: nat where "MAX_WORKING_DIRECTORY_BYTES = 512"
definition MAX_PROGRAM_BYTES :: nat where "MAX_PROGRAM_BYTES = 128"
definition MAX_CONNECTOR_BYTES :: nat where "MAX_CONNECTOR_BYTES = 128"
definition MAX_CAPABILITY_BYTES :: nat where "MAX_CAPABILITY_BYTES = 128"
definition MAX_RESOURCE_KIND_BYTES :: nat where "MAX_RESOURCE_KIND_BYTES = 64"
definition MAX_RESOURCE_ID_BYTES :: nat where "MAX_RESOURCE_ID_BYTES = 1024"
definition MAX_IDEMPOTENCY_KEY_BYTES :: nat where "MAX_IDEMPOTENCY_KEY_BYTES = 128"

section \<open>Data\<close>

record OutcomeTemplate =
  ot_solved :: string
  ot_changed :: string
  ot_verified :: string
  ot_unresolved :: string
  ot_blocked :: string

datatype StepCondition = Always | Succeeded string | Failed string

record RetryPolicy =
  max_attempts :: u8
  initial_backoff_ms :: u64
  max_backoff_ms :: u64

definition RetryPolicy_default :: RetryPolicy where
  "RetryPolicy_default = \<lparr>max_attempts = 1, initial_backoff_ms = 0, max_backoff_ms = 0\<rparr>"

datatype ApprovalMode = NoApproval | Required

fun ApprovalMode_as_str :: "ApprovalMode \<Rightarrow> string" where
  "ApprovalMode_as_str NoApproval = ''none''"
| "ApprovalMode_as_str Required = ''required''"

datatype EffectKind = ReadOnly | Stateful

fun EffectKind_as_str :: "EffectKind \<Rightarrow> string" where
  "EffectKind_as_str ReadOnly = ''read_only''"
| "EffectKind_as_str Stateful = ''stateful''"

datatype StepSemanticRole = Observe | Verify | Change

fun StepSemanticRole_as_str :: "StepSemanticRole \<Rightarrow> string" where
  "StepSemanticRole_as_str Observe = ''observe''"
| "StepSemanticRole_as_str Verify = ''verify''"
| "StepSemanticRole_as_str Change = ''change''"

record ConnectorResource =
  resource_kind :: string
  resource_id :: string

datatype StepAction =
    Command string "string list" string
  | Connector string string ConnectorResource

record FlowStep =
  fs_id :: string
  fs_description :: string
  fs_depends_on :: "string list"
  fs_condition :: StepCondition
  fs_retry :: RetryPolicy
  fs_approval :: ApprovalMode
  fs_idempotency_key :: "string option"
  fs_timeout_seconds :: u32
  fs_effect :: EffectKind
  fs_semantic :: "StepSemanticRole option"
  fs_action :: StepAction

record FlowDefinition =
  fd_schema_version :: u16
  fd_id :: string
  fd_name :: string
  fd_description :: string
  fd_revision :: u64
  fd_steps :: "FlowStep list"
  fd_outcome :: OutcomeTemplate

datatype FlowValidationError =
    ValidationError (ve_path: string) (ve_message: string)
  | ValidationPanic

definition validation_error :: "string \<Rightarrow> string \<Rightarrow> FlowValidationError + 'a" where
  "validation_error path message = Err (ValidationError path message)"

fun referenced_step :: "StepCondition \<Rightarrow> string option" where
  "referenced_step Always = None"
| "referenced_step (StepCondition.Succeeded step) = Some step"
| "referenced_step (StepCondition.Failed step) = Some step"

definition semantic_role :: "FlowStep \<Rightarrow> StepSemanticRole" where
  "semantic_role s =
     (case fs_semantic s of
        Some role \<Rightarrow> role
      | None \<Rightarrow> (case fs_effect s of ReadOnly \<Rightarrow> Observe | Stateful \<Rightarrow> Change))"

section \<open>Secret-shaped text\<close>

definition contains_aws_access_key :: "string \<Rightarrow> bool" where
  "contains_aws_access_key v \<longleftrightarrow>
     any_window 20
       (\<lambda>w. (take 4 w = ''AKIA'' \<or> take 4 w = ''ASIA'') \<and>
            list_all (\<lambda>b. is_ascii_uppercase b \<or> is_ascii_digit b) (drop 4 w)) v"

definition jwt_trim :: "char \<Rightarrow> bool" where
  "jwt_trim c \<longleftrightarrow> c \<in> {CHR 0x22, CHR 0x27, CHR '','', CHR '';'', CHR ''('', CHR '')''}"

definition jwt_part_byte :: "char \<Rightarrow> bool" where
  "jwt_part_byte b \<longleftrightarrow> is_ascii_alphanumeric b \<or> b \<in> {CHR ''-'', CHR ''_'', CHR ''=''}"

definition contains_jwt :: "string \<Rightarrow> bool" where
  "contains_jwt v \<longleftrightarrow>
     list_ex
       (\<lambda>word.
          (case split_on (\<lambda>c. c = CHR ''.'')
                  (rev (dropWhile jwt_trim (rev (dropWhile jwt_trim word)))) of
             [first, second, third] \<Rightarrow>
               8 \<le> length first \<and> 8 \<le> length second \<and> 8 \<le> length third \<and>
               list_all (list_all jwt_part_byte) [first, second, third]
           | _ \<Rightarrow> False))
       (filter (\<lambda>w. w \<noteq> []) (split_on is_ascii_whitespace v))"

definition contains_url_userinfo :: "string \<Rightarrow> bool" where
  "contains_url_userinfo v \<longleftrightarrow>
     (case split_once v ''://'' of
        None \<Rightarrow> False
      | Some (_, remainder) \<Rightarrow>
          CHR ''@'' \<in> set (hd (split_on (\<lambda>c. c = CHR ''/'') remainder)))"

definition secret_prefixes :: "string list" where
  "secret_prefixes =
     [''bearer '', ''-----begin private key-----'', ''-----begin rsa private key-----'',
      ''github_pat_'', ''ghp_'', ''gho_'', ''ghu_'', ''ghs_'', ''ghr_'', ''sk_live_'', ''sk_test_'']"

definition reject_secret_like :: "string \<Rightarrow> string \<Rightarrow> FlowValidationError + unit" where
  "reject_secret_like path v =
     (let lowercase = map to_ascii_lowercase v;
          token_prefix = list_ex (contains_sub lowercase) secret_prefixes
      in if token_prefix \<or> contains_aws_access_key v \<or> contains_jwt v \<or> contains_url_userinfo v
         then validation_error path ''must not contain inline secret-like material''
         else Ok ())"

definition sensitive_argument_names :: "string list" where
  "sensitive_argument_names =
     [''token'', ''accesstoken'', ''authtoken'', ''password'', ''passwd'', ''secret'',
      ''clientsecret'', ''apikey'', ''accesskey'', ''privatekey'', ''credential'']"

definition reject_sensitive_argument_name :: "string \<Rightarrow> string \<Rightarrow> FlowValidationError + unit" where
  "reject_sensitive_argument_name path v =
     (let lowercase = map to_ascii_lowercase v;
          name = (case split_once lowercase ''='' of None \<Rightarrow> lowercase | Some (name, _) \<Rightarrow> name);
          normalized = filter (\<lambda>c. c \<noteq> CHR ''-'' \<and> c \<noteq> CHR ''_'')
                         (dropWhile (\<lambda>c. c = CHR ''-'') name)
      in if normalized \<in> set sensitive_argument_names
         then validation_error path ''must not contain an inline secret option or assignment''
         else Ok ())"

section \<open>Text validators\<close>

definition validate_text :: "string \<Rightarrow> string \<Rightarrow> nat \<Rightarrow> FlowValidationError + unit" where
  "validate_text path v maximum =
     (if v = [] then validation_error path ''must not be empty''
      else if length v > maximum
      then validation_error path (''must be at most '' @ show_nat maximum @ '' UTF-8 bytes'')
      else if has_control v then validation_error path ''must not contain control characters''
      else if \<not> is_trimmed v
      then validation_error path ''must not have leading or trailing whitespace''
      else reject_secret_like path v)"

definition validate_template :: "string \<Rightarrow> string \<Rightarrow> FlowValidationError + unit" where
  "validate_template path v = validate_text path v MAX_TEMPLATE_BYTES"

text \<open>The byte loop of \<^verbatim>\<open>validate_slug\<close>: index, previous separator, bytes left.\<close>

fun slug_bytes :: "nat \<Rightarrow> nat \<Rightarrow> bool \<Rightarrow> string \<Rightarrow> bool" where
  "slug_bytes len index previous_separator [] = True"
| "slug_bytes len index previous_separator (b # bs) =
     (let separator = (b = CHR ''-'' \<or> b = CHR ''_'');
          valid = (is_ascii_lowercase b \<or> is_ascii_digit b \<or> separator)
      in if \<not> valid \<or> index = 0 \<and> \<not> is_ascii_lowercase b
            \<or> separator \<and> previous_separator \<or> separator \<and> index + 1 = len
         then False
         else slug_bytes len (index + 1) separator bs)"

definition validate_slug :: "string \<Rightarrow> string \<Rightarrow> nat \<Rightarrow> FlowValidationError + unit" where
  "validate_slug path v maximum =
     and_then (validate_text path v maximum)
       (\<lambda>_. if slug_bytes (length v) 0 False v then Ok ()
            else validation_error path ''must be a lowercase slug beginning with a letter'')"

definition identity_separator :: "char \<Rightarrow> bool" where
  "identity_separator b \<longleftrightarrow> b \<in> {CHR ''-'', CHR ''_'', CHR ''.'', CHR '':'', CHR ''/''}"

text \<open>\<^verbatim>\<open>value.bytes().enumerate().all(alphanumeric || index > 0 && separator)\<close>\<close>

fun identity_bytes :: "(char \<Rightarrow> bool) \<Rightarrow> string \<Rightarrow> bool" where
  "identity_bytes sep [] = True"
| "identity_bytes sep (b # bs) =
     (is_ascii_alphanumeric b \<and> list_all (\<lambda>c. is_ascii_alphanumeric c \<or> sep c) bs)"

definition validate_identity :: "string \<Rightarrow> string \<Rightarrow> nat \<Rightarrow> FlowValidationError + unit" where
  "validate_identity path v maximum =
     and_then (validate_text path v maximum)
       (\<lambda>_. if identity_bytes identity_separator v then Ok ()
            else validation_error path
              ''must contain only ASCII letters, digits, and internal `-_.:/` separators'')"

definition validate_command_name :: "string \<Rightarrow> string \<Rightarrow> FlowValidationError + unit" where
  "validate_command_name path v =
     and_then (validate_text path v MAX_PROGRAM_BYTES)
       (\<lambda>_. if identity_bytes (\<lambda>b. b \<in> {CHR ''-'', CHR ''_'', CHR ''.'', CHR ''+''}) v then Ok ()
            else validation_error path
              ''must be a command name, not a path, with only ASCII letters, digits, `-_.+`'')"

definition dotted_segment :: "string \<Rightarrow> bool" where
  "dotted_segment segment \<longleftrightarrow>
     segment \<noteq> [] \<and> is_ascii_lowercase (hd segment) \<and> is_ascii_alphanumeric (last segment) \<and>
     list_all (\<lambda>b. is_ascii_lowercase b \<or> is_ascii_digit b \<or> b = CHR ''-'') segment"

definition validate_dotted_name :: "string \<Rightarrow> string \<Rightarrow> string \<Rightarrow> FlowValidationError + unit" where
  "validate_dotted_name path v label =
     (if list_all dotted_segment (split_on (\<lambda>c. c = CHR ''.'') v) then Ok ()
      else validation_error path (''must be a lowercase dotted '' @ label @ '' identity''))"

definition validate_connector_name :: "string \<Rightarrow> string \<Rightarrow> FlowValidationError + unit" where
  "validate_connector_name path v =
     and_then (validate_text path v MAX_CONNECTOR_BYTES)
       (\<lambda>_. validate_dotted_name path v ''connector'')"

definition validate_capability_name :: "string \<Rightarrow> string \<Rightarrow> FlowValidationError + unit" where
  "validate_capability_name path v =
     and_then (validate_text path v MAX_CAPABILITY_BYTES)
       (\<lambda>_. validate_dotted_name path v ''capability'')"

definition is_slash :: "char \<Rightarrow> bool" where
  "is_slash c \<longleftrightarrow> c = CHR ''/'' \<or> c = CHR 0x5C"

definition validate_working_directory :: "string \<Rightarrow> string \<Rightarrow> FlowValidationError + unit" where
  "validate_working_directory path v =
     and_then (validate_text path v MAX_WORKING_DIRECTORY_BYTES)
       (\<lambda>_. if v = ''.'' then Ok ()
            else if v \<noteq> [] \<and> is_slash (hd v) \<or> CHR '':'' \<in> set v \<or> v \<noteq> [] \<and> is_slash (last v) \<or>
                    list_ex (\<lambda>part. part = [] \<or> part = ''.'' \<or> part = ''..'' \<or>
                               list_ex is_whitespace (chars part))
                      (split_on is_slash v)
            then validation_error path
              ''must be a normalized relative path without root, drive, `.` or `..` segments''
            else Ok ())"

definition validate_resource_id :: "string \<Rightarrow> string \<Rightarrow> FlowValidationError + unit" where
  "validate_resource_id path v =
     and_then (validate_text path v MAX_RESOURCE_ID_BYTES)
       (\<lambda>_. if contains_sub v ''//'' \<or>
               list_ex (\<lambda>c. c \<in> {CHR 0x5C, CHR ''?'', CHR ''#'', CHR ''@''}) v \<or>
               list_ex (\<lambda>part. part = [] \<or> part = ''.'' \<or> part = ''..'')
                 (split_on (\<lambda>c. c = CHR '':'' \<or> c = CHR ''/'') v) \<or>
               \<not> list_all (\<lambda>b. is_ascii_alphanumeric b \<or> identity_separator b) v
            then validation_error path
              ''must be a canonical opaque resource identity using ASCII alphanumerics and `-_.:/`''
            else reject_secret_like path v)"

section \<open>Structured validators\<close>

definition OutcomeTemplate_validate :: "OutcomeTemplate \<Rightarrow> FlowValidationError + unit" where
  "OutcomeTemplate_validate t =
     and_then (validate_template ''outcome.solved'' (ot_solved t)) (\<lambda>_.
     and_then (validate_template ''outcome.changed'' (ot_changed t)) (\<lambda>_.
     and_then (validate_template ''outcome.verified'' (ot_verified t)) (\<lambda>_.
     and_then (validate_template ''outcome.unresolved'' (ot_unresolved t)) (\<lambda>_.
     validate_template ''outcome.blocked'' (ot_blocked t)))))"

definition RetryPolicy_validate :: "RetryPolicy \<Rightarrow> string \<Rightarrow> FlowValidationError + unit" where
  "RetryPolicy_validate r path =
     (if max_attempts r = 0 \<or> max_attempts r > MAX_RETRY_ATTEMPTS
      then validation_error (path @ ''.max_attempts'')
             (''must be between 1 and '' @ show_nat (unat MAX_RETRY_ATTEMPTS))
      else if max_attempts r = 1 then
        (if initial_backoff_ms r \<noteq> 0 \<or> max_backoff_ms r \<noteq> 0
         then validation_error path ''backoff must be zero when max_attempts is 1''
         else Ok ())
      else if initial_backoff_ms r = 0 \<or> initial_backoff_ms r > MAX_INITIAL_BACKOFF_MS
      then validation_error (path @ ''.initial_backoff_ms'')
             (''must be between 1 and '' @ show_nat (unat MAX_INITIAL_BACKOFF_MS) @ '' when retrying'')
      else if max_backoff_ms r < initial_backoff_ms r \<or> max_backoff_ms r > MAX_BACKOFF_MS
      then validation_error (path @ ''.max_backoff_ms'')
             (''must be at least initial_backoff_ms and at most '' @ show_nat (unat MAX_BACKOFF_MS))
      else Ok ())"

definition ConnectorResource_validate :: "ConnectorResource \<Rightarrow> string \<Rightarrow> FlowValidationError + unit" where
  "ConnectorResource_validate r path =
     and_then (validate_slug (path @ ''.kind'') (resource_kind r) MAX_RESOURCE_KIND_BYTES)
       (\<lambda>_. validate_resource_id (path @ ''.id'') (resource_id r))"

definition index_path :: "string \<Rightarrow> nat \<Rightarrow> string" where
  "index_path base i = base @ ''['' @ show_nat i @ '']''"

fun StepAction_validate :: "StepAction \<Rightarrow> string \<Rightarrow> FlowValidationError + unit" where
  "StepAction_validate (Command program args working_directory) step_path =
     and_then (validate_command_name (step_path @ ''.action.program'') program) (\<lambda>_.
     and_then (validate_working_directory (step_path @ ''.action.working_directory'')
                 working_directory) (\<lambda>_.
     and_then (if length args > MAX_COMMAND_ARGS
               then validation_error (step_path @ ''.action.args'')
                      (''must contain at most '' @ show_nat MAX_COMMAND_ARGS @ '' arguments'')
               else Ok ()) (\<lambda>_.
     and_then (for_each (\<lambda>i argument.
                 let path = index_path (step_path @ ''.action.args'') i in
                 and_then (validate_text path argument MAX_COMMAND_ARG_BYTES) (\<lambda>_.
                 and_then (reject_secret_like path argument) (\<lambda>_.
                 reject_sensitive_argument_name path argument))) 0 args) (\<lambda>_.
     if sum_list (map length args) > MAX_COMMAND_ARGS_BYTES
     then validation_error (step_path @ ''.action.args'')
            (''must total at most '' @ show_nat MAX_COMMAND_ARGS_BYTES @ '' UTF-8 bytes'')
     else Ok ()))))"
| "StepAction_validate (Connector connector capability resource) step_path =
     and_then (validate_connector_name (step_path @ ''.action.connector'') connector) (\<lambda>_.
     and_then (validate_capability_name (step_path @ ''.action.capability'') capability) (\<lambda>_.
     ConnectorResource_validate resource (step_path @ ''.action.resource'')))"

text \<open>The dependency loop: \<open>seen\<close> is the \<^verbatim>\<open>HashSet\<close> of dependencies inserted so far.\<close>

fun validate_dependencies ::
  "string \<Rightarrow> string \<Rightarrow> (string \<rightharpoonup> nat) \<Rightarrow> nat \<Rightarrow> string list \<Rightarrow> string list \<Rightarrow> FlowValidationError + unit"
where
  "validate_dependencies base self_id step_indices i seen [] = Ok ()"
| "validate_dependencies base self_id step_indices i seen (d # ds) =
     (let path = index_path (base @ ''.depends_on'') i in
      and_then (validate_slug path d MAX_FLOW_ID_BYTES) (\<lambda>_.
      if step_indices d = None
      then validation_error path (''references unknown step `'' @ d @ ''`'')
      else if d = self_id then validation_error path ''cannot reference the step itself''
      else if d \<in> set seen then validation_error path (''duplicates dependency `'' @ d @ ''`'')
      else validate_dependencies base self_id step_indices (i + 1) (d # seen) ds))"

definition FlowStep_validate ::
  "FlowStep \<Rightarrow> nat \<Rightarrow> u16 \<Rightarrow> (string \<rightharpoonup> nat) \<Rightarrow> FlowValidationError + unit" where
  "FlowStep_validate s index schema_version step_indices =
     (let base = index_path ''steps'' index in
      and_then (validate_text (base @ ''.description'') (fs_description s) MAX_DESCRIPTION_BYTES) (\<lambda>_.
      and_then (if fs_timeout_seconds s = 0 \<or> fs_timeout_seconds s > MAX_TIMEOUT_SECONDS
                then validation_error (base @ ''.timeout_seconds'')
                       (''must be between 1 and '' @ show_nat (unat MAX_TIMEOUT_SECONDS))
                else Ok ()) (\<lambda>_.
      and_then (RetryPolicy_validate (fs_retry s) (base @ ''.retry'')) (\<lambda>_.
      and_then (validate_dependencies base (fs_id s) step_indices 0 [] (fs_depends_on s)) (\<lambda>_.
      and_then (case referenced_step (fs_condition s) of
                  None \<Rightarrow> Ok ()
                | Some reference \<Rightarrow>
                    let path = base @ ''.condition.step'' in
                    and_then (validate_slug path reference MAX_FLOW_ID_BYTES) (\<lambda>_.
                    if step_indices reference = None
                    then validation_error path (''references unknown step `'' @ reference @ ''`'')
                    else if reference = fs_id s
                    then validation_error path ''cannot reference the step itself''
                    else Ok ())) (\<lambda>_.
      and_then (if fs_effect s = Stateful then
                  (if fs_approval s \<noteq> Required
                   then validation_error (base @ ''.approval'')
                          ''stateful actions require approval = `required`''
                   else if fs_idempotency_key s = None
                   then validation_error (base @ ''.idempotency_key'')
                          ''stateful actions require an idempotency key''
                   else Ok ())
                else Ok ()) (\<lambda>_.
      and_then (if schema_version = 1 \<and> fs_semantic s \<noteq> None
                then validation_error (base @ ''.semantic'')
                       ''schema version 1 derives semantics and must omit this field''
                else if schema_version = 2 \<and> fs_semantic s = None
                then validation_error (base @ ''.semantic'')
                       ''schema version 2 requires an explicit semantic role''
                else if schema_version = 1 \<or> schema_version = 2 then Ok ()
                else Err ValidationPanic) (\<lambda>_.
      and_then (case (fs_effect s, semantic_role s) of
                  (ReadOnly, Observe) \<Rightarrow> Ok ()
                | (ReadOnly, Verify) \<Rightarrow> Ok ()
                | (Stateful, Change) \<Rightarrow> Ok ()
                | (ReadOnly, Change) \<Rightarrow>
                    validation_error (base @ ''.semantic'')
                      ''change semantics require a stateful effect''
                | (Stateful, _) \<Rightarrow>
                    validation_error (base @ ''.semantic'')
                      ''stateful effects must use change semantics'') (\<lambda>_.
      and_then (case fs_idempotency_key s of
                  None \<Rightarrow> Ok ()
                | Some key \<Rightarrow>
                    validate_identity (base @ ''.idempotency_key'') key MAX_IDEMPOTENCY_KEY_BYTES) (\<lambda>_.
      StepAction_validate (fs_action s) base))))))))))"

section \<open>The cycle check\<close>

datatype Visit = Visiting | Complete

text \<open>\<^verbatim>\<open>step.depends_on.iter().chain(step.condition.referenced_step())\<close>\<close>

definition step_references :: "FlowStep \<Rightarrow> string list" where
  "step_references s =
     fs_depends_on s @ (case referenced_step (fs_condition s) of None \<Rightarrow> [] | Some r \<Rightarrow> [r])"

definition cycle_error :: "FlowStep list \<Rightarrow> nat list \<Rightarrow> nat \<Rightarrow> FlowValidationError" where
  "cycle_error steps stack i =
     (let cycle_start = (case position (\<lambda>k. k = i) stack of None \<Rightarrow> 0 | Some p \<Rightarrow> p);
          cycle = map (\<lambda>k. fs_id (steps ! k)) (drop cycle_start stack) @ [fs_id (steps ! i)]
      in ValidationError (index_path ''steps'' i)
           (''dependency cycle detected: '' @ concat (hd cycle # map (\<lambda>x. '' -> '' @ x) (tl cycle))))"

definition unvisited :: "Visit option list \<Rightarrow> nat" where
  "unvisited states = length (filter (\<lambda>v. v = None) states)"

text \<open>
  \<open>visit_list\<close> is the loop \<^verbatim>\<open>for reference in refs { visit(...)?; }\<close> with the body of
  \<^verbatim>\<open>visit\<close> inlined; a reference that has no index is the panic of \<^verbatim>\<open>step_indices[reference]\<close>.
  Each nested call marks one more step, so the number of unvisited steps decreases.
\<close>

function visit_list ::
  "FlowStep list \<Rightarrow> (string \<rightharpoonup> nat) \<Rightarrow> nat option list \<Rightarrow> Visit option list \<Rightarrow> nat list
     \<Rightarrow> FlowValidationError + Visit option list"
where
  "visit_list steps idx [] states stack = Ok states"
| "visit_list steps idx (None # refs) states stack = Err ValidationPanic"
| "visit_list steps idx (Some i # refs) states stack =
     (if length states \<le> i then Err ValidationPanic
      else case states ! i of
        Some Complete \<Rightarrow> visit_list steps idx refs states stack
      | Some Visiting \<Rightarrow> Err (cycle_error steps stack i)
      | None \<Rightarrow>
          (case visit_list steps idx (map idx (step_references (steps ! i)))
                  (states[i := Some Visiting]) (stack @ [i]) of
             Inl e \<Rightarrow> Inl e
           | Inr states' \<Rightarrow> visit_list steps idx refs (states'[i := Some Complete]) stack))"
  by pat_completeness auto

lemma unvisited_update_le: "unvisited (states[i := Some v]) \<le> unvisited states"
  by (induction states arbitrary: i) (auto simp: unvisited_def split: nat.splits)

lemma unvisited_update_less:
  "i < length states \<Longrightarrow> states ! i = None \<Longrightarrow> unvisited (states[i := Some v]) < unvisited states"
proof (induction states arbitrary: i)
  case (Cons x xs)
  then show ?case by (cases i) (auto simp: unvisited_def)
qed simp

lemma visit_list_unvisited:
  "visit_list_dom (steps, idx, refs, states, stack) \<Longrightarrow>
   visit_list steps idx refs states stack = Inr states' \<Longrightarrow>
   unvisited states' \<le> unvisited states"
proof (induction arbitrary: states' rule: visit_list.pinduct)
  case (3 steps idx i refs states stack)
  note eq = visit_list.psimps(3) [OF 3(1)]
  show ?case
  proof (cases "length states \<le> i")
    case True
    with eq 3(5) show ?thesis by simp
  next
    case False
    show ?thesis
    proof (cases "states ! i")
      case None
      with False eq 3(5) obtain st where
        st: "visit_list steps idx (map idx (step_references (steps ! i)))
               (states[i := Some Visiting]) (stack @ [i]) = Inr st"
        and rest: "visit_list steps idx refs (st[i := Some Complete]) stack = Inr states'"
        by (auto split: sum.splits)
      have "unvisited st \<le> unvisited (states[i := Some Visiting])"
        using 3(2) [OF False None st] .
      moreover have "unvisited states' \<le> unvisited (st[i := Some Complete])"
        using 3(3) [OF False None st rest] .
      moreover have "unvisited (states[i := Some Visiting]) < unvisited states"
        using False None by (intro unvisited_update_less) auto
      ultimately show ?thesis using unvisited_update_le [of st i Complete] by linarith
    next
      case (Some v)
      with False eq 3(4,5) show ?thesis by (cases v) auto
    qed
  qed
qed (auto simp: visit_list.psimps)

termination visit_list
proof (relation "measures [\<lambda>(steps, idx, refs, states, stack). unvisited states,
                           \<lambda>(steps, idx, refs, states, stack). length refs]", goal_cases)
  case (3 steps idx i refs states stack st)
  then have "unvisited st \<le> unvisited (states[i := Some Visiting])"
    by (intro visit_list_unvisited)
  moreover have "unvisited (states[i := Some Visiting]) < unvisited states"
    using 3 by (intro unvisited_update_less) auto
  ultimately show ?case using unvisited_update_le [of st i Complete] by simp
qed (auto intro: unvisited_update_less)

text \<open>\<^verbatim>\<open>for step_index in 0..steps.len() { visit(step_index, ...)?; }\<close>\<close>

definition validate_acyclic :: "FlowStep list \<Rightarrow> (string \<rightharpoonup> nat) \<Rightarrow> FlowValidationError + unit" where
  "validate_acyclic steps step_indices =
     and_then (visit_list steps step_indices (map Some [0..<length steps])
                 (replicate (length steps) None) []) (\<lambda>_. Ok ())"

section \<open>The definition validator\<close>

text \<open>The first loop over the steps: slug and duplicate check, building \<^verbatim>\<open>step_indices\<close>.\<close>

fun index_steps ::
  "nat \<Rightarrow> (string \<rightharpoonup> nat) \<Rightarrow> FlowStep list \<Rightarrow> FlowValidationError + (string \<rightharpoonup> nat)" where
  "index_steps index step_indices [] = Ok step_indices"
| "index_steps index step_indices (s # ss) =
     (let path = index_path ''steps'' index @ ''.id'' in
      and_then (validate_slug path (fs_id s) MAX_FLOW_ID_BYTES) (\<lambda>_.
      case step_indices (fs_id s) of
        Some first \<Rightarrow>
          validation_error path
            (''duplicates '' @ index_path ''steps'' first @ ''.id `'' @ fs_id s @ ''`'')
      | None \<Rightarrow> index_steps (index + 1) (step_indices(fs_id s \<mapsto> index)) ss))"

definition FlowDefinition_validate :: "FlowDefinition \<Rightarrow> FlowValidationError + unit" where
  "FlowDefinition_validate d =
     (if \<not> (MIN_FLOW_SCHEMA_VERSION \<le> fd_schema_version d \<and> fd_schema_version d \<le> FLOW_SCHEMA_VERSION)
      then validation_error ''schema_version''
             (''unsupported schema version '' @ show_nat (unat (fd_schema_version d))
              @ ''; supported versions are '' @ show_nat (unat MIN_FLOW_SCHEMA_VERSION)
              @ '' through '' @ show_nat (unat FLOW_SCHEMA_VERSION))
      else
      and_then (validate_slug ''id'' (fd_id d) MAX_FLOW_ID_BYTES) (\<lambda>_.
      and_then (validate_text ''name'' (fd_name d) MAX_NAME_BYTES) (\<lambda>_.
      and_then (validate_text ''description'' (fd_description d) MAX_DESCRIPTION_BYTES) (\<lambda>_.
      if fd_revision d = 0 then validation_error ''revision'' ''must be greater than zero''
      else if fd_steps d = [] then validation_error ''steps'' ''must contain at least one step''
      else if length (fd_steps d) > MAX_FLOW_STEPS
      then validation_error ''steps''
             (''must contain at most '' @ show_nat MAX_FLOW_STEPS @ '' steps'')
      else
      and_then (OutcomeTemplate_validate (fd_outcome d)) (\<lambda>_.
      and_then (index_steps 0 Map.empty (fd_steps d)) (\<lambda>step_indices.
      and_then (for_each (\<lambda>index s. FlowStep_validate s index (fd_schema_version d) step_indices)
                  0 (fd_steps d)) (\<lambda>_.
      validate_acyclic (fd_steps d) step_indices)))))))"

section \<open>Normalized TOML and the definition digest\<close>

fun push_quoted_char :: "char \<Rightarrow> string" where
  "push_quoted_char c =
     (if c = CHR 0x22 then [CHR 0x5C, CHR 0x22]
      else if c = CHR 0x5C then [CHR 0x5C, CHR 0x5C]
      else [c])"

definition push_quoted :: "string \<Rightarrow> string" where
  "push_quoted v = dquote @ concat (map push_quoted_char v) @ dquote"

definition push_array :: "string list \<Rightarrow> string" where
  "push_array vs =
     ''['' @ (case map push_quoted vs of [] \<Rightarrow> [] | q # qs \<Rightarrow> concat (q # map (\<lambda>x. '', '' @ x) qs)) @ '']''"

definition push_key_integer :: "string \<Rightarrow> nat \<Rightarrow> string" where
  "push_key_integer key v = key @ '' = '' @ show_nat v @ newline"

definition push_key_string :: "string \<Rightarrow> string \<Rightarrow> string" where
  "push_key_string key v = key @ '' = '' @ push_quoted v @ newline"

definition push_key_array :: "string \<Rightarrow> string list \<Rightarrow> string" where
  "push_key_array key vs = key @ '' = '' @ push_array vs @ newline"

fun StepCondition_inline_toml :: "StepCondition \<Rightarrow> string" where
  "StepCondition_inline_toml Always = ''{ kind = '' @ push_quoted ''always'' @ '' }''"
| "StepCondition_inline_toml (StepCondition.Succeeded step) =
     ''{ kind = '' @ push_quoted ''succeeded'' @ '', step = '' @ push_quoted step @ '' }''"
| "StepCondition_inline_toml (StepCondition.Failed step) =
     ''{ kind = '' @ push_quoted ''failed'' @ '', step = '' @ push_quoted step @ '' }''"

definition RetryPolicy_inline_toml :: "RetryPolicy \<Rightarrow> string" where
  "RetryPolicy_inline_toml r =
     ''{ max_attempts = '' @ show_nat (unat (max_attempts r))
     @ '', initial_backoff_ms = '' @ show_nat (unat (initial_backoff_ms r))
     @ '', max_backoff_ms = '' @ show_nat (unat (max_backoff_ms r)) @ '' }''"

fun StepAction_inline_toml :: "StepAction \<Rightarrow> string" where
  "StepAction_inline_toml (Command program args working_directory) =
     ''{ type = '' @ push_quoted ''command'' @ '', program = '' @ push_quoted program
     @ '', args = '' @ push_array args
     @ '', working_directory = '' @ push_quoted working_directory @ '' }''"
| "StepAction_inline_toml (Connector connector capability resource) =
     ''{ type = '' @ push_quoted ''connector'' @ '', connector = '' @ push_quoted connector
     @ '', capability = '' @ push_quoted capability
     @ '', resource = { kind = '' @ push_quoted (resource_kind resource)
     @ '', id = '' @ push_quoted (resource_id resource) @ '' } }''"

definition step_toml :: "u16 \<Rightarrow> FlowStep \<Rightarrow> string" where
  "step_toml schema_version s =
     newline @ ''[[steps]]'' @ newline
     @ push_key_string ''id'' (fs_id s)
     @ push_key_string ''description'' (fs_description s)
     @ push_key_array ''depends_on'' (fs_depends_on s)
     @ ''condition = '' @ StepCondition_inline_toml (fs_condition s) @ newline
     @ ''retry = '' @ RetryPolicy_inline_toml (fs_retry s) @ newline
     @ push_key_string ''approval'' (ApprovalMode_as_str (fs_approval s))
     @ (case fs_idempotency_key s of
          None \<Rightarrow> [] | Some key \<Rightarrow> push_key_string ''idempotency_key'' key)
     @ push_key_integer ''timeout_seconds'' (unat (fs_timeout_seconds s))
     @ push_key_string ''effect'' (EffectKind_as_str (fs_effect s))
     @ (if 2 \<le> schema_version
        then push_key_string ''semantic'' (StepSemanticRole_as_str (semantic_role s)) else [])
     @ ''action = '' @ StepAction_inline_toml (fs_action s) @ newline"

definition to_normalized_toml :: "FlowDefinition \<Rightarrow> FlowValidationError + string" where
  "to_normalized_toml d =
     and_then (FlowDefinition_validate d) (\<lambda>_. Ok (
       push_key_integer ''schema_version'' (unat (fd_schema_version d))
     @ push_key_string ''id'' (fd_id d)
     @ push_key_string ''name'' (fd_name d)
     @ push_key_string ''description'' (fd_description d)
     @ push_key_integer ''revision'' (unat (fd_revision d))
     @ newline @ ''[outcome]'' @ newline
     @ push_key_string ''solved'' (ot_solved (fd_outcome d))
     @ push_key_string ''changed'' (ot_changed (fd_outcome d))
     @ push_key_string ''verified'' (ot_verified (fd_outcome d))
     @ push_key_string ''unresolved'' (ot_unresolved (fd_outcome d))
     @ push_key_string ''blocked'' (ot_blocked (fd_outcome d))
     @ concat (map (step_toml (fd_schema_version d)) (fd_steps d))))"

text \<open>\<open>sha256\<close> maps the hashed bytes to the 32 digest bytes.\<close>

definition normalized_digest :: "(string \<Rightarrow> string) \<Rightarrow> FlowDefinition \<Rightarrow> FlowValidationError + string" where
  "normalized_digest sha256 d =
     and_then (to_normalized_toml d)
       (\<lambda>normalized. Ok (sha256 (''pam-flow-definition-v1'' @ [CHR 0x00] @ normalized)))"

datatype 'te FlowParseError =
    DocumentTooLarge nat nat
  | Toml 'te
  | Validation FlowValidationError

definition parse_toml ::
  "(string \<Rightarrow> 'te + FlowDefinition) \<Rightarrow> string \<Rightarrow> 'te FlowParseError + FlowDefinition" where
  "parse_toml toml_from_str source =
     (if length source > MAX_FLOW_DOCUMENT_BYTES
      then Err (DocumentTooLarge (length source) MAX_FLOW_DOCUMENT_BYTES)
      else
      and_then (map_err Toml (toml_from_str source)) (\<lambda>d.
      and_then (map_err Validation (FlowDefinition_validate d)) (\<lambda>_. Ok d)))"

end
