(* ===== verification/Flow_Types.thy ===== *)
theory Flow_Types
  imports Flow_Definition
begin

text \<open>
  The data of \<^verbatim>\<open>crates/pam_flow/src/engine.rs\<close> (identities, effect reports and
  results, step and run snapshots, decisions, transitions, errors), the bounded text
  validators, the identity hashes and the outcome report built from the recorded
  steps.  Newtypes over \<^verbatim>\<open>String\<close> and \<^verbatim>\<open>[u8; 32]\<close> are their byte strings.  A panic of
  the engine (an \<^verbatim>\<open>expect\<close> or an index out of range) is the extra error \<open>EnginePanic\<close>.
\<close>

section \<open>Limits\<close>

definition FLOW_SNAPSHOT_VERSION :: u16 where "FLOW_SNAPSHOT_VERSION = 2"
definition MAX_RUN_ID_BYTES :: nat where "MAX_RUN_ID_BYTES = 128"
definition MAX_EFFECT_SUMMARY_BYTES :: nat where "MAX_EFFECT_SUMMARY_BYTES = 4096"
definition MAX_EVIDENCE_HANDLES :: nat where "MAX_EVIDENCE_HANDLES = 4"
definition MAX_EVIDENCE_HANDLE_BYTES :: nat where "MAX_EVIDENCE_HANDLE_BYTES = 256"
definition MAX_FLOW_SEMANTIC_EVENTS_PER_TRANSITION :: nat where
  "MAX_FLOW_SEMANTIC_EVENTS_PER_TRANSITION = 3"

section \<open>Data\<close>

record EffectReport =
  er_summary :: string
  er_evidence :: "string list"

datatype EffectResultKind = Succeeded | Failed bool

record EffectResult =
  res_kind :: EffectResultKind
  res_report :: EffectReport

record EffectAttempt =
  ea_step_index :: nat
  ea_step_id :: string
  ea_attempt :: u8
  ea_idempotency_identity :: string
  ea_effect :: EffectKind
  ea_timeout_seconds :: u32

datatype ApprovalDecision = Approve | Deny

datatype ReconciliationResult = NotApplied | Completed EffectResult | Unknown EffectReport

datatype RunStatus =
    Running | WaitingApproval | WaitingRetry | AwaitingEffectEvaluation | EffectInFlight
  | Cancelling | Succeeded | Unresolved | Blocked | Cancelled

fun RunStatus_is_terminal :: "RunStatus \<Rightarrow> bool" where
  "RunStatus_is_terminal RunStatus.Succeeded = True"
| "RunStatus_is_terminal RunStatus.Unresolved = True"
| "RunStatus_is_terminal RunStatus.Blocked = True"
| "RunStatus_is_terminal RunStatus.Cancelled = True"
| "RunStatus_is_terminal _ = False"

datatype StepApprovalState =
    NotRequired | NotRequested | Pending string | Granted string | Denied string

datatype StepState =
    Pending
  | AwaitingEffect u8
  | InFlight u8 u64
  | WaitingRetry u8 u64
  | Succeeded u8
  | Skipped
  | Failed u8
  | Blocked
  | Cancelled

fun StepState_is_terminal :: "StepState \<Rightarrow> bool" where
  "StepState_is_terminal (StepState.Succeeded _) = True"
| "StepState_is_terminal StepState.Skipped = True"
| "StepState_is_terminal (StepState.Failed _) = True"
| "StepState_is_terminal StepState.Blocked = True"
| "StepState_is_terminal StepState.Cancelled = True"
| "StepState_is_terminal _ = False"

record RecordedEffectResult =
  rr_attempt :: u8
  rr_result :: EffectResult

record StepSnapshot =
  ss_id :: string
  ss_idempotency_identity :: string
  ss_semantic_role :: StepSemanticRole
  ss_approval :: StepApprovalState
  ss_state :: StepState
  ss_results :: "RecordedEffectResult list"
  ss_blocked_report :: "EffectReport option"

record FlowSnapshot =
  sn_snapshot_version :: u16
  sn_run_id :: string
  sn_definition_digest :: string
  sn_status :: RunStatus
  sn_cancel_requested :: bool
  sn_transition_sequence :: u64
  sn_steps :: "StepSnapshot list"

datatype RunOutcome = Solved | Unresolved | Blocked | Cancelled

datatype StepRunResultKind = Succeeded | Skipped | Failed | Blocked | Cancelled | NotRun

record StepRunResult =
  sr_step_id :: string
  sr_semantic_role :: StepSemanticRole
  sr_kind :: StepRunResultKind
  sr_result :: "EffectResult option"
  sr_blocked_report :: "EffectReport option"

record FlowOutcomeSection =
  os_summary :: string
  os_satisfied :: bool
  os_step_ids :: "string list"
  os_evidence :: "string list"
  os_evidence_truncated :: bool

record FlowOutcomeReport =
  or_solved :: FlowOutcomeSection
  or_changed :: FlowOutcomeSection
  or_verified :: FlowOutcomeSection
  or_unresolved :: FlowOutcomeSection
  or_blocked :: FlowOutcomeSection

record FlowRunResult =
  fr_run_id :: string
  fr_definition_digest :: string
  fr_outcome :: RunOutcome
  fr_report :: FlowOutcomeReport
  fr_steps :: "StepRunResult list"

datatype RunDecision =
    Continue
  | AwaitApproval string string
  | EvaluateEffect EffectAttempt bool
  | Execute EffectAttempt bool
  | Reconcile EffectAttempt
  | AwaitResult EffectAttempt
  | WaitRetry EffectAttempt u64
  | Terminal FlowRunResult

datatype FlowWaitReason = Approval | EffectResult | Retry | Reconciliation

datatype FlowSemanticEvent =
    Waiting string FlowWaitReason "u64 option"
  | ApprovalRequired string
  | EvidenceFound string "string list"
  | FixApplied string EffectReport
  | VerificationPassed string EffectReport
  | Unresolved string EffectReport
  | Blocked string EffectReport

datatype TransitionKind =
    StepSkipped string
  | ApprovalRequested string
  | ApprovalGranted string
  | ApprovalDenied string
  | EffectEvaluationRequired string u8
  | EffectAuthorizationDenied string u8 bool
  | EffectStarted string u8 bool
  | EffectSucceeded string u8
  | RetryScheduled string u8 u64
  | RetryExhausted string u8
  | EffectFailed string u8
  | ReconciledNotApplied string u8
  | ReconciliationUnknown string u8
  | CancellationRequested
  | RunCompleted RunOutcome

record RunTransition =
  tr_sequence :: u64
  tr_kind :: TransitionKind
  tr_semantic_events :: "FlowSemanticEvent list"

record EngineUpdate =
  up_snapshot :: FlowSnapshot
  up_transition :: "RunTransition option"
  up_decision :: RunDecision

record FlowRun =
  run_definition :: FlowDefinition
  run_snapshot :: FlowSnapshot
  run_issued_attempt :: "EffectAttempt option"

datatype FlowEngineError =
    InvalidValue string string
  | InvalidDefinition FlowValidationError
  | UnsupportedSnapshotVersion u16
  | InvalidInitialSnapshot
  | RunIdMismatch
  | DefinitionDigestMismatch
  | SnapshotShapeMismatch
  | SnapshotStatusMismatch
  | SnapshotIdentityMismatch
  | SnapshotSequenceMismatch
  | SnapshotTransitionMismatch
  | EffectIdentityMismatch
  | ApprovalTokenMismatch
  | NoApprovalPending
  | UnexpectedStepState
  | StatefulReplayRequiresReconcile
  | ConflictingEffectResult string u8
  | TimestampOverflow
  | TransitionSequenceOverflow
  | SchedulerStalled
  | EnginePanic

section \<open>Bounded text and identities\<close>

definition engine_invalid :: "string \<Rightarrow> string \<Rightarrow> FlowEngineError + 'a" where
  "engine_invalid path message = Err (InvalidValue path message)"

text \<open>The message of a \<open>FlowValidationError\<close>; \<open>reject_secret_like\<close> never panics.\<close>

fun validation_message :: "FlowValidationError \<Rightarrow> string" where
  "validation_message (ValidationError path message) = message"
| "validation_message ValidationPanic = []"

definition validate_engine_text :: "string \<Rightarrow> string \<Rightarrow> nat \<Rightarrow> FlowEngineError + unit" where
  "validate_engine_text path v maximum =
     (if v = [] then engine_invalid path ''must not be empty''
      else if length v > maximum
      then engine_invalid path (''must be at most '' @ show_nat maximum @ '' UTF-8 bytes'')
      else if \<not> is_trimmed v \<or> has_control v
      then engine_invalid path ''must be trimmed and contain no control characters''
      else map_err (\<lambda>e. InvalidValue path (validation_message e)) (reject_secret_like path v))"

definition validate_engine_identity :: "string \<Rightarrow> string \<Rightarrow> nat \<Rightarrow> FlowEngineError + unit" where
  "validate_engine_identity path v maximum =
     and_then (validate_engine_text path v maximum)
       (\<lambda>_. if identity_bytes identity_separator v then Ok ()
            else engine_invalid path
              ''must use ASCII letters, digits, and internal `-_.:/` separators'')"

definition RunId_parse :: "string \<Rightarrow> FlowEngineError + string" where
  "RunId_parse v =
     and_then (validate_engine_identity ''run_id'' v MAX_RUN_ID_BYTES) (\<lambda>_. Ok v)"

definition EngineEvidenceHandle_parse :: "string \<Rightarrow> FlowEngineError + string" where
  "EngineEvidenceHandle_parse v =
     and_then (validate_engine_identity ''evidence_handle'' v MAX_EVIDENCE_HANDLE_BYTES) (\<lambda>_. Ok v)"

definition EffectReport_validate :: "EffectReport \<Rightarrow> string \<Rightarrow> FlowEngineError + unit" where
  "EffectReport_validate r path =
     and_then (validate_engine_text (path @ ''.summary'') (er_summary r) MAX_EFFECT_SUMMARY_BYTES) (\<lambda>_.
     if length (er_evidence r) > MAX_EVIDENCE_HANDLES
     then engine_invalid (path @ ''.evidence'')
            (''must contain at most '' @ show_nat MAX_EVIDENCE_HANDLES @ '' handles'')
     else for_each (\<lambda>index handle.
            validate_engine_identity (index_path (path @ ''.evidence'') index) handle
              MAX_EVIDENCE_HANDLE_BYTES) 0 (er_evidence r))"

definition EffectReport_new :: "string \<Rightarrow> string list \<Rightarrow> FlowEngineError + EffectReport" where
  "EffectReport_new summary evidence =
     (let report = \<lparr>er_summary = summary, er_evidence = evidence\<rparr> in
      and_then (EffectReport_validate report ''effect_report'') (\<lambda>_. Ok report))"

definition EffectReport_trusted :: "string \<Rightarrow> EffectReport" where
  "EffectReport_trusted summary = \<lparr>er_summary = summary, er_evidence = []\<rparr>"

definition EffectResult_validate :: "EffectResult \<Rightarrow> string \<Rightarrow> FlowEngineError + unit" where
  "EffectResult_validate r path = EffectReport_validate (res_report r) (path @ ''.report'')"

definition EffectResult_succeeded :: "string \<Rightarrow> string list \<Rightarrow> FlowEngineError + EffectResult" where
  "EffectResult_succeeded summary evidence =
     and_then (EffectReport_new summary evidence)
       (\<lambda>report. Ok \<lparr>res_kind = EffectResultKind.Succeeded, res_report = report\<rparr>)"

definition EffectResult_failed :: "string \<Rightarrow> bool \<Rightarrow> string list \<Rightarrow> FlowEngineError + EffectResult" where
  "EffectResult_failed summary retryable evidence =
     and_then (EffectReport_new summary evidence)
       (\<lambda>report. Ok \<lparr>res_kind = EffectResultKind.Failed retryable, res_report = report\<rparr>)"

definition length_prefixed :: "string \<Rightarrow> string" where
  "length_prefixed v = be_bytes64 (length v) @ v"

text \<open>The bytes fed to SHA-256 by \<^verbatim>\<open>idempotency_identity\<close>.\<close>

definition idempotency_preimage :: "string \<Rightarrow> string \<Rightarrow> string \<Rightarrow> string option \<Rightarrow> string" where
  "idempotency_preimage run_id definition_digest step_id declared_key =
     ''pam-flow-step-idempotency-v1'' @ [CHR 0x00] @ length_prefixed run_id @ definition_digest
     @ length_prefixed step_id
     @ length_prefixed (case declared_key of None \<Rightarrow> step_id | Some key \<Rightarrow> key)"

definition idempotency_identity ::
  "(string \<Rightarrow> string) \<Rightarrow> string \<Rightarrow> string \<Rightarrow> string \<Rightarrow> string option \<Rightarrow> string" where
  "idempotency_identity sha256 run_id definition_digest step_id declared_key =
     sha256 (idempotency_preimage run_id definition_digest step_id declared_key)"

definition approval_token :: "(string \<Rightarrow> string) \<Rightarrow> string \<Rightarrow> string" where
  "approval_token sha256 identity = sha256 (''pam-flow-step-approval-v1'' @ [CHR 0x00] @ identity)"

definition retry_backoff_ms :: "u64 \<Rightarrow> u64 \<Rightarrow> u8 \<Rightarrow> u64" where
  "retry_backoff_ms initial maximum failed_attempt =
     (let shift = unat (saturating_sub failed_attempt 1)
      in min (case checked_shl initial shift of None \<Rightarrow> -1 | Some v \<Rightarrow> v) maximum)"

section \<open>The outcome report\<close>

definition StepRunResult_report :: "StepRunResult \<Rightarrow> EffectReport option" where
  "StepRunResult_report s =
     (case sr_blocked_report s of
        Some r \<Rightarrow> Some r
      | None \<Rightarrow> map_option res_report (sr_result s))"

text \<open>The evidence loop: handles kept so far and whether one was dropped.\<close>

fun collect_evidence :: "string list \<Rightarrow> bool \<Rightarrow> string list \<Rightarrow> string list \<times> bool" where
  "collect_evidence evidence truncated [] = (evidence, truncated)"
| "collect_evidence evidence truncated (h # hs) =
     (if h \<in> set evidence then collect_evidence evidence truncated hs
      else if length evidence = MAX_OUTCOME_EVIDENCE_HANDLES
      then collect_evidence evidence True hs
      else collect_evidence (evidence @ [h]) truncated hs)"

definition build_outcome_section ::
  "string \<Rightarrow> bool \<Rightarrow> StepRunResult list \<Rightarrow> (StepRunResult \<Rightarrow> bool) \<Rightarrow> FlowOutcomeSection" where
  "build_outcome_section summary satisfied steps include =
     (let matching = filter include steps;
          handles = concat (map (\<lambda>s. case StepRunResult_report s of
                                       None \<Rightarrow> [] | Some r \<Rightarrow> er_evidence r) matching);
          collected = collect_evidence [] False handles
      in \<lparr>os_summary = summary, os_satisfied = satisfied, os_step_ids = map sr_step_id matching,
          os_evidence = fst collected, os_evidence_truncated = snd collected\<rparr>)"

definition succeeded_as :: "StepSemanticRole \<Rightarrow> StepRunResult \<Rightarrow> bool" where
  "succeeded_as role s \<longleftrightarrow> sr_kind s = StepRunResultKind.Succeeded \<and> sr_semantic_role s = role"

definition build_outcome_report ::
  "OutcomeTemplate \<Rightarrow> RunOutcome \<Rightarrow> StepRunResult list \<Rightarrow> FlowOutcomeReport" where
  "build_outcome_report template outcome steps =
     (let solved = (outcome = RunOutcome.Solved) in
      \<lparr>or_solved = build_outcome_section (ot_solved template) solved steps
         (\<lambda>s. solved \<and> sr_kind s = StepRunResultKind.Succeeded),
       or_changed = build_outcome_section (ot_changed template)
         (list_ex (succeeded_as Change) steps) steps (succeeded_as Change),
       or_verified = build_outcome_section (ot_verified template)
         (list_ex (succeeded_as Verify) steps) steps (succeeded_as Verify),
       or_unresolved = build_outcome_section (ot_unresolved template)
         (outcome = RunOutcome.Unresolved) steps (\<lambda>s. sr_kind s = StepRunResultKind.Failed),
       or_blocked = build_outcome_section (ot_blocked template)
         (outcome = RunOutcome.Blocked) steps (\<lambda>s. sr_kind s = StepRunResultKind.Blocked)\<rparr>)"

definition build_legacy_outcome_report :: "RunOutcome \<Rightarrow> StepRunResult list \<Rightarrow> FlowOutcomeReport" where
  "build_legacy_outcome_report outcome steps =
     (let solved = (outcome = RunOutcome.Solved) in
      \<lparr>or_solved = build_outcome_section ''Flow work completed successfully.'' solved steps
         (\<lambda>s. solved \<and> sr_kind s = StepRunResultKind.Succeeded),
       or_changed = build_outcome_section ''State changes completed by the flow.''
         False steps (\<lambda>_. False),
       or_verified = build_outcome_section ''Verification checks completed by the flow.''
         False steps (\<lambda>_. False),
       or_unresolved = build_outcome_section ''Work that remains unresolved.''
         (outcome = RunOutcome.Unresolved) steps (\<lambda>s. sr_kind s = StepRunResultKind.Failed),
       or_blocked = build_outcome_section ''Work stopped at an explicit boundary.''
         (outcome = RunOutcome.Blocked) steps (\<lambda>s. sr_kind s = StepRunResultKind.Blocked)\<rparr>)"

definition validate_outcome_report ::
  "FlowOutcomeReport \<Rightarrow> RunOutcome \<Rightarrow> StepRunResult list \<Rightarrow> FlowEngineError + unit" where
  "validate_outcome_report report outcome steps =
     (let solved = (outcome = RunOutcome.Solved);
          expected =
      \<lparr>or_solved = build_outcome_section (os_summary (or_solved report)) solved steps
         (\<lambda>s. solved \<and> sr_kind s = StepRunResultKind.Succeeded),
       or_changed = build_outcome_section (os_summary (or_changed report))
         (list_ex (succeeded_as Change) steps) steps (succeeded_as Change),
       or_verified = build_outcome_section (os_summary (or_verified report))
         (list_ex (succeeded_as Verify) steps) steps (succeeded_as Verify),
       or_unresolved = build_outcome_section (os_summary (or_unresolved report))
         (outcome = RunOutcome.Unresolved) steps (\<lambda>s. sr_kind s = StepRunResultKind.Failed),
       or_blocked = build_outcome_section (os_summary (or_blocked report))
         (outcome = RunOutcome.Blocked) steps (\<lambda>s. sr_kind s = StepRunResultKind.Blocked)\<rparr>
      in if expected = report then Ok ()
         else engine_invalid ''flow_result.report''
                ''does not match the terminal step evidence and truth'')"

section \<open>Terminal results as they are read back\<close>

definition is_failed_kind :: "EffectResultKind \<Rightarrow> bool" where
  "is_failed_kind k \<longleftrightarrow> (case k of EffectResultKind.Failed _ \<Rightarrow> True | EffectResultKind.Succeeded \<Rightarrow> False)"

definition terminal_shape_valid :: "StepRunResult \<Rightarrow> bool" where
  "terminal_shape_valid s =
     (case sr_kind s of
        StepRunResultKind.Succeeded \<Rightarrow>
          (case sr_result s of
             None \<Rightarrow> False
           | Some r \<Rightarrow> res_kind r = EffectResultKind.Succeeded \<and> sr_blocked_report s = None)
      | StepRunResultKind.Failed \<Rightarrow>
          (case sr_result s of
             None \<Rightarrow> False
           | Some r \<Rightarrow> is_failed_kind (res_kind r) \<and> sr_blocked_report s = None)
      | StepRunResultKind.Blocked \<Rightarrow> sr_result s = None \<and> sr_blocked_report s \<noteq> None
      | StepRunResultKind.Cancelled \<Rightarrow>
          sr_blocked_report s = None \<and>
          (case sr_result s of None \<Rightarrow> True | Some r \<Rightarrow> is_failed_kind (res_kind r))
      | StepRunResultKind.Skipped \<Rightarrow> sr_result s = None \<and> sr_blocked_report s = None
      | StepRunResultKind.NotRun \<Rightarrow> sr_result s = None \<and> sr_blocked_report s = None)"

fun terminal_outcome_valid :: "RunOutcome \<Rightarrow> StepRunResult list \<Rightarrow> bool" where
  "terminal_outcome_valid RunOutcome.Solved steps =
     list_all (\<lambda>s. sr_kind s \<in> {StepRunResultKind.Succeeded, StepRunResultKind.Skipped}) steps"
| "terminal_outcome_valid RunOutcome.Unresolved steps =
     (list_ex (\<lambda>s. sr_kind s = StepRunResultKind.Failed) steps \<and>
      list_all (\<lambda>s. sr_kind s \<notin> {StepRunResultKind.Blocked, StepRunResultKind.Cancelled,
                                   StepRunResultKind.NotRun}) steps)"
| "terminal_outcome_valid RunOutcome.Blocked steps =
     (list_ex (\<lambda>s. sr_kind s = StepRunResultKind.Blocked) steps \<and>
      list_all (\<lambda>s. sr_kind s \<noteq> StepRunResultKind.Cancelled) steps)"
| "terminal_outcome_valid RunOutcome.Cancelled steps =
     list_all (\<lambda>s. sr_kind s \<notin> {StepRunResultKind.Blocked, StepRunResultKind.NotRun}) steps"

fun validate_terminal_loop :: "nat \<Rightarrow> string list \<Rightarrow> StepRunResult list \<Rightarrow> FlowEngineError + unit" where
  "validate_terminal_loop index ids [] = Ok ()"
| "validate_terminal_loop index ids (s # ss) =
     and_then (map_err InvalidDefinition
                 (validate_slug (index_path ''flow_result.steps'' index @ ''.step_id'')
                    (sr_step_id s) MAX_FLOW_ID_BYTES)) (\<lambda>_.
     if sr_step_id s \<in> set ids
     then engine_invalid ''flow_result.steps'' ''must not contain duplicate step IDs''
     else if \<not> terminal_shape_valid s
     then engine_invalid (index_path ''flow_result.steps'' index)
            ''terminal kind does not match its report''
     else validate_terminal_loop (index + 1) (sr_step_id s # ids) ss)"

definition validate_terminal_steps :: "RunOutcome \<Rightarrow> StepRunResult list \<Rightarrow> FlowEngineError + unit" where
  "validate_terminal_steps outcome steps =
     (if steps = [] \<or> length steps > MAX_FLOW_STEPS
      then engine_invalid ''flow_result.steps''
             (''must contain between 1 and '' @ show_nat MAX_FLOW_STEPS @ '' steps'')
      else
      and_then (validate_terminal_loop 0 [] steps) (\<lambda>_.
      if terminal_outcome_valid outcome steps then Ok ()
      else engine_invalid ''flow_result.outcome'' ''does not match its terminal step results''))"

text \<open>
  \<^verbatim>\<open>FlowRunResult::deserialize\<close> after serde has read the raw fields; an absent report
  is the legacy report.
\<close>

definition FlowRunResult_from_raw ::
  "string \<Rightarrow> string \<Rightarrow> RunOutcome \<Rightarrow> FlowOutcomeReport option \<Rightarrow> StepRunResult list
     \<Rightarrow> FlowEngineError + FlowRunResult" where
  "FlowRunResult_from_raw run_id digest outcome report steps =
     and_then (validate_terminal_steps outcome steps) (\<lambda>_.
     let report' = (case report of Some r \<Rightarrow> r | None \<Rightarrow> build_legacy_outcome_report outcome steps) in
     and_then (validate_outcome_report report' outcome steps) (\<lambda>_.
     Ok \<lparr>fr_run_id = run_id, fr_definition_digest = digest, fr_outcome = outcome,
         fr_report = report', fr_steps = steps\<rparr>))"

end
