(* ===== verification/Flow_Snapshot.thy ===== *)
theory Flow_Snapshot
  imports Flow_Types
begin

text \<open>
  The snapshot validators of \<^verbatim>\<open>crates/pam_flow/src/engine.rs\<close>: the semantic events a
  transition carries, the standalone and the definition-bound snapshot checks, and the
  successor check the store runs before it commits a checkpoint.  \<open>expected_successor\<close>
  is the \<^verbatim>\<open>match\<close> of \<^verbatim>\<open>validate_transition_successor\<close>: the only snapshot the named
  transition may lead to.
\<close>

section \<open>Semantic events\<close>

definition transition_step_snapshot :: "FlowSnapshot \<Rightarrow> string \<Rightarrow> FlowEngineError + StepSnapshot" where
  "transition_step_snapshot snapshot step_id =
     ok_or (find (\<lambda>s. ss_id s = step_id) (sn_steps snapshot)) SnapshotTransitionMismatch"

definition last_report :: "StepSnapshot \<Rightarrow> FlowEngineError + EffectReport" where
  "last_report s =
     ok_or (map_option (\<lambda>r. res_report (rr_result r)) (last_opt (ss_results s)))
       SnapshotTransitionMismatch"

definition transition_step_report :: "FlowSnapshot \<Rightarrow> string \<Rightarrow> FlowEngineError + EffectReport" where
  "transition_step_report snapshot step_id =
     and_then (transition_step_snapshot snapshot step_id) last_report"

definition evidence_event :: "string \<Rightarrow> EffectReport \<Rightarrow> FlowSemanticEvent list" where
  "evidence_event step_id report =
     (if er_evidence report = [] then [] else [EvidenceFound step_id (er_evidence report)])"

fun role_event :: "StepSemanticRole \<Rightarrow> string \<Rightarrow> EffectReport \<Rightarrow> FlowSemanticEvent list" where
  "role_event Observe step_id report = []"
| "role_event Verify step_id report = [VerificationPassed step_id report]"
| "role_event Change step_id report = [FixApplied step_id report]"

definition unresolved_events :: "FlowSnapshot \<Rightarrow> string \<Rightarrow> FlowEngineError + FlowSemanticEvent list" where
  "unresolved_events snapshot step_id =
     and_then (transition_step_report snapshot step_id) (\<lambda>report.
     Ok (evidence_event step_id report @ [FlowSemanticEvent.Unresolved step_id report]))"

definition blocked_events :: "FlowSnapshot \<Rightarrow> string \<Rightarrow> FlowEngineError + FlowSemanticEvent list" where
  "blocked_events snapshot step_id =
     and_then (transition_step_snapshot snapshot step_id) (\<lambda>s.
     and_then (ok_or (ss_blocked_report s) SnapshotTransitionMismatch) (\<lambda>report.
     Ok (evidence_event step_id report @ [FlowSemanticEvent.Blocked step_id report])))"

definition is_in_flight :: "StepState \<Rightarrow> bool" where
  "is_in_flight st \<longleftrightarrow> (case st of InFlight _ _ \<Rightarrow> True | _ \<Rightarrow> False)"

fun transition_events :: "FlowSnapshot \<Rightarrow> TransitionKind \<Rightarrow> FlowEngineError + FlowSemanticEvent list" where
  "transition_events snapshot (ApprovalRequested step_id) =
     Ok [Waiting step_id Approval None, ApprovalRequired step_id]"
| "transition_events snapshot (EffectStarted step_id attempt replay) =
     Ok [Waiting step_id FlowWaitReason.EffectResult None]"
| "transition_events snapshot (RetryScheduled step_id next_attempt not_before_ms) =
     and_then (transition_step_report snapshot step_id) (\<lambda>report.
     Ok (evidence_event step_id report @ [Waiting step_id Retry (Some not_before_ms)]))"
| "transition_events snapshot (EffectSucceeded step_id attempt) =
     and_then (transition_step_snapshot snapshot step_id) (\<lambda>s.
     and_then (last_report s) (\<lambda>report.
     Ok (evidence_event step_id report @ role_event (ss_semantic_role s) step_id report)))"
| "transition_events snapshot (RetryExhausted step_id attempt) = unresolved_events snapshot step_id"
| "transition_events snapshot (EffectFailed step_id attempt) = unresolved_events snapshot step_id"
| "transition_events snapshot (ApprovalDenied step_id) = blocked_events snapshot step_id"
| "transition_events snapshot (EffectAuthorizationDenied step_id attempt replay) =
     blocked_events snapshot step_id"
| "transition_events snapshot (ReconciliationUnknown step_id attempt) = blocked_events snapshot step_id"
| "transition_events snapshot CancellationRequested =
     and_then (ok_or (find (\<lambda>s. is_in_flight (ss_state s)) (sn_steps snapshot))
                 SnapshotTransitionMismatch) (\<lambda>s.
     Ok [Waiting (ss_id s) Reconciliation None])"
| "transition_events snapshot (StepSkipped step_id) = Ok []"
| "transition_events snapshot (ApprovalGranted step_id) = Ok []"
| "transition_events snapshot (EffectEvaluationRequired step_id attempt) = Ok []"
| "transition_events snapshot (ReconciledNotApplied step_id attempt) = Ok []"
| "transition_events snapshot (RunCompleted outcome) = Ok []"

definition semantic_events_for_transition ::
  "FlowSnapshot \<Rightarrow> TransitionKind \<Rightarrow> FlowEngineError + FlowSemanticEvent list" where
  "semantic_events_for_transition snapshot kind =
     and_then (transition_events snapshot kind) (\<lambda>events.
     if length events > MAX_FLOW_SEMANTIC_EVENTS_PER_TRANSITION
     then Err SnapshotTransitionMismatch else Ok events)"

fun FlowSemanticEvent_step_id :: "FlowSemanticEvent \<Rightarrow> string" where
  "FlowSemanticEvent_step_id (Waiting step_id _ _) = step_id"
| "FlowSemanticEvent_step_id (ApprovalRequired step_id) = step_id"
| "FlowSemanticEvent_step_id (EvidenceFound step_id _) = step_id"
| "FlowSemanticEvent_step_id (FixApplied step_id _) = step_id"
| "FlowSemanticEvent_step_id (VerificationPassed step_id _) = step_id"
| "FlowSemanticEvent_step_id (FlowSemanticEvent.Unresolved step_id _) = step_id"
| "FlowSemanticEvent_step_id (FlowSemanticEvent.Blocked step_id _) = step_id"

fun event_body_validate :: "FlowSemanticEvent \<Rightarrow> string \<Rightarrow> FlowEngineError + unit" where
  "event_body_validate (Waiting step_id reason not_before_ms) path =
     (if (reason = Retry) = (not_before_ms \<noteq> None) then Ok ()
      else engine_invalid (path @ ''.not_before_ms'') ''must be present only for a retry wait'')"
| "event_body_validate (ApprovalRequired step_id) path = Ok ()"
| "event_body_validate (EvidenceFound step_id evidence) path =
     (if evidence = [] \<or> length evidence > MAX_EVIDENCE_HANDLES
      then engine_invalid (path @ ''.evidence'')
             (''must contain between 1 and '' @ show_nat MAX_EVIDENCE_HANDLES @ '' handles'')
      else Ok ())"
| "event_body_validate (FixApplied step_id report) path = EffectReport_validate report (path @ ''.report'')"
| "event_body_validate (VerificationPassed step_id report) path =
     EffectReport_validate report (path @ ''.report'')"
| "event_body_validate (FlowSemanticEvent.Unresolved step_id report) path =
     EffectReport_validate report (path @ ''.report'')"
| "event_body_validate (FlowSemanticEvent.Blocked step_id report) path =
     EffectReport_validate report (path @ ''.report'')"

definition FlowSemanticEvent_validate :: "nat \<Rightarrow> FlowSemanticEvent \<Rightarrow> FlowEngineError + unit" where
  "FlowSemanticEvent_validate index event =
     (let path = index_path ''transition.semantic_events'' index in
      and_then (map_err InvalidDefinition
                  (validate_slug (path @ ''.step_id'') (FlowSemanticEvent_step_id event)
                     MAX_FLOW_ID_BYTES)) (\<lambda>_.
      event_body_validate event path))"

text \<open>
  \<^verbatim>\<open>RunTransition::deserialize\<close> once serde has read the raw fields; the custom serde
  error for too many events is \<open>None\<close>, a validation error is carried.
\<close>

definition RunTransition_from_raw ::
  "u64 \<Rightarrow> TransitionKind \<Rightarrow> FlowSemanticEvent list \<Rightarrow> FlowEngineError option + RunTransition" where
  "RunTransition_from_raw sequence kind semantic_events =
     (if length semantic_events > MAX_FLOW_SEMANTIC_EVENTS_PER_TRANSITION then Err None
      else
      and_then (map_err Some (for_each FlowSemanticEvent_validate 0 semantic_events)) (\<lambda>_.
      Ok \<lparr>tr_sequence = sequence, tr_kind = kind, tr_semantic_events = semantic_events\<rparr>))"

section \<open>Step shapes\<close>

definition is_retryable_failure :: "RecordedEffectResult \<Rightarrow> bool" where
  "is_retryable_failure r \<longleftrightarrow> res_kind (rr_result r) = EffectResultKind.Failed True"

definition previous_retryable_failure :: "StepSnapshot \<Rightarrow> bool" where
  "previous_retryable_failure s \<longleftrightarrow>
     (case last_opt (ss_results s) of None \<Rightarrow> False | Some r \<Rightarrow> is_retryable_failure r)"

definition last_kind :: "StepSnapshot \<Rightarrow> EffectResultKind option" where
  "last_kind s = map_option (\<lambda>r. res_kind (rr_result r)) (last_opt (ss_results s))"

text \<open>\<^verbatim>\<open>u8::try_from(step.results.len())\<close>\<close>

definition completed_attempts :: "StepSnapshot \<Rightarrow> FlowEngineError + u8" where
  "completed_attempts s =
     (if length (ss_results s) < 256 then Ok (of_nat (length (ss_results s)))
      else Err SnapshotShapeMismatch)"

definition approval_shape_valid :: "StepSnapshot \<Rightarrow> bool" where
  "approval_shape_valid s =
     (case ss_approval s of
        NotRequested \<Rightarrow>
          (ss_state s = StepState.Pending \<or> ss_state s = StepState.Cancelled) \<and>
          ss_results s = [] \<and> ss_blocked_report s = None
      | StepApprovalState.Pending _ \<Rightarrow>
          ss_state s = StepState.Pending \<and> ss_results s = [] \<and> ss_blocked_report s = None
      | NotRequired \<Rightarrow> True
      | Granted _ \<Rightarrow> True
      | Denied _ \<Rightarrow> ss_state s = StepState.Blocked \<and> ss_blocked_report s \<noteq> None)"

fun approval_token_of :: "StepApprovalState \<Rightarrow> string option" where
  "approval_token_of (StepApprovalState.Pending token) = Some token"
| "approval_token_of (Granted token) = Some token"
| "approval_token_of (Denied token) = Some token"
| "approval_token_of _ = None"

definition token_mismatch :: "(string \<Rightarrow> string) \<Rightarrow> StepSnapshot \<Rightarrow> bool" where
  "token_mismatch sha256 s \<longleftrightarrow>
     (case approval_token_of (ss_approval s) of
        None \<Rightarrow> False
      | Some token \<Rightarrow> token \<noteq> approval_token sha256 (ss_idempotency_identity s))"

definition is_pending_approval :: "StepApprovalState \<Rightarrow> bool" where
  "is_pending_approval a \<longleftrightarrow> (case a of StepApprovalState.Pending _ \<Rightarrow> True | _ \<Rightarrow> False)"

definition is_granted :: "StepApprovalState \<Rightarrow> bool" where
  "is_granted a \<longleftrightarrow> (case a of Granted _ \<Rightarrow> True | _ \<Rightarrow> False)"

definition step_is_active :: "StepSnapshot \<Rightarrow> bool" where
  "step_is_active s \<longleftrightarrow>
     ss_state s \<noteq> StepState.Pending \<and> \<not> StepState_is_terminal (ss_state s)
     \<or> is_pending_approval (ss_approval s)"

fun structural_prefix_length :: "StepState \<Rightarrow> nat \<Rightarrow> nat" where
  "structural_prefix_length (StepState.Succeeded _) n = n - 1"
| "structural_prefix_length (StepState.Failed _) n = n - 1"
| "structural_prefix_length StepState.Pending n = 0"
| "structural_prefix_length StepState.Skipped n = 0"
| "structural_prefix_length _ n = n"

fun structural_shape :: "StepState \<Rightarrow> u8 \<Rightarrow> StepSnapshot \<Rightarrow> bool" where
  "structural_shape StepState.Pending completed s = (ss_results s = [] \<and> ss_blocked_report s = None)"
| "structural_shape StepState.Skipped completed s = (ss_results s = [] \<and> ss_blocked_report s = None)"
| "structural_shape (AwaitingEffect attempt) completed s =
     (attempt = completed + 1 \<and> attempt \<le> MAX_RETRY_ATTEMPTS \<and>
      (attempt = 1 \<or> previous_retryable_failure s) \<and> ss_blocked_report s = None)"
| "structural_shape (InFlight attempt _) completed s =
     (attempt = completed + 1 \<and> attempt \<le> MAX_RETRY_ATTEMPTS \<and>
      (attempt = 1 \<or> previous_retryable_failure s) \<and> ss_blocked_report s = None)"
| "structural_shape (StepState.WaitingRetry next_attempt _) completed s =
     (next_attempt = completed + 1 \<and> next_attempt \<le> MAX_RETRY_ATTEMPTS \<and>
      previous_retryable_failure s \<and> ss_blocked_report s = None)"
| "structural_shape (StepState.Succeeded attempt) completed s =
     (attempt = completed \<and> last_kind s = Some EffectResultKind.Succeeded \<and> ss_blocked_report s = None)"
| "structural_shape (StepState.Failed attempt) completed s =
     (attempt = completed \<and>
      (case last_kind s of None \<Rightarrow> False | Some k \<Rightarrow> is_failed_kind k) \<and> ss_blocked_report s = None)"
| "structural_shape StepState.Blocked completed s = (ss_blocked_report s \<noteq> None)"
| "structural_shape StepState.Cancelled completed s = (ss_blocked_report s = None)"

definition validate_structural_step_state :: "StepSnapshot \<Rightarrow> FlowEngineError + unit" where
  "validate_structural_step_state s =
     and_then (completed_attempts s) (\<lambda>completed.
     let retry_prefix_length = structural_prefix_length (ss_state s) (length (ss_results s));
         retry_history_valid = list_all is_retryable_failure (take retry_prefix_length (ss_results s))
     in if structural_shape (ss_state s) completed s \<and> retry_history_valid then Ok ()
        else Err SnapshotShapeMismatch)"

fun bound_prefix_length :: "StepState \<Rightarrow> nat \<Rightarrow> nat" where
  "bound_prefix_length (StepState.Succeeded _) n = n - 1"
| "bound_prefix_length (StepState.Failed _) n = n - 1"
| "bound_prefix_length StepState.Cancelled n = n - 1"
| "bound_prefix_length StepState.Pending n = 0"
| "bound_prefix_length StepState.Skipped n = 0"
| "bound_prefix_length _ n = n"

fun bound_shape :: "StepState \<Rightarrow> u8 \<Rightarrow> u8 \<Rightarrow> bool \<Rightarrow> StepSnapshot \<Rightarrow> bool" where
  "bound_shape StepState.Pending completed max_att cancel s =
     (ss_results s = [] \<and> ss_blocked_report s = None)"
| "bound_shape StepState.Skipped completed max_att cancel s =
     (ss_results s = [] \<and> ss_blocked_report s = None)"
| "bound_shape (AwaitingEffect attempt) completed max_att cancel s =
     (attempt = completed + 1 \<and> attempt \<le> max_att \<and>
      (attempt = 1 \<or> previous_retryable_failure s))"
| "bound_shape (InFlight attempt _) completed max_att cancel s =
     (attempt = completed + 1 \<and> attempt \<le> max_att \<and>
      (attempt = 1 \<or> previous_retryable_failure s))"
| "bound_shape (StepState.WaitingRetry next_attempt _) completed max_att cancel s =
     (next_attempt = completed + 1 \<and> next_attempt \<le> max_att \<and> previous_retryable_failure s)"
| "bound_shape (StepState.Succeeded attempt) completed max_att cancel s =
     (attempt = completed \<and> last_kind s = Some EffectResultKind.Succeeded)"
| "bound_shape (StepState.Failed attempt) completed max_att cancel s =
     (attempt = completed \<and>
      (case last_kind s of
         Some (EffectResultKind.Failed retryable) \<Rightarrow>
           \<not> retryable \<or> cancel \<or> attempt = max_att
       | _ \<Rightarrow> False))"
| "bound_shape StepState.Blocked completed max_att cancel s = (ss_blocked_report s \<noteq> None)"
| "bound_shape StepState.Cancelled completed max_att cancel s = (ss_blocked_report s = None)"

definition validate_step_state :: "StepSnapshot \<Rightarrow> u8 \<Rightarrow> bool \<Rightarrow> FlowEngineError + unit" where
  "validate_step_state s max_att cancel_requested =
     and_then (completed_attempts s) (\<lambda>completed.
     let retry_prefix_length = bound_prefix_length (ss_state s) (length (ss_results s));
         retry_history_valid = list_all is_retryable_failure (take retry_prefix_length (ss_results s))
     in if \<not> bound_shape (ss_state s) completed max_att cancel_requested s \<or> \<not> retry_history_valid
        then Err SnapshotShapeMismatch else Ok ())"

definition computed_status :: "FlowSnapshot \<Rightarrow> RunStatus" where
  "computed_status snapshot =
     (let steps = sn_steps snapshot in
      if sn_cancel_requested snapshot then
        (if sn_status snapshot = RunStatus.Blocked then RunStatus.Blocked
         else if sn_status snapshot = RunStatus.Cancelled then RunStatus.Cancelled
         else Cancelling)
      else if list_ex (\<lambda>s. ss_state s = StepState.Blocked) steps then RunStatus.Blocked
      else if list_ex (\<lambda>s. is_pending_approval (ss_approval s)) steps then WaitingApproval
      else if list_ex (\<lambda>s. case ss_state s of StepState.WaitingRetry _ _ \<Rightarrow> True | _ \<Rightarrow> False) steps
      then RunStatus.WaitingRetry
      else if list_ex (\<lambda>s. case ss_state s of AwaitingEffect _ \<Rightarrow> True | _ \<Rightarrow> False) steps
      then AwaitingEffectEvaluation
      else if list_ex (\<lambda>s. is_in_flight (ss_state s)) steps then EffectInFlight
      else if list_all (\<lambda>s. StepState_is_terminal (ss_state s)) steps then
        (if sn_status snapshot = Running then Running
         else if list_ex (\<lambda>s. case ss_state s of StepState.Failed _ \<Rightarrow> True | _ \<Rightarrow> False) steps
         then RunStatus.Unresolved
         else RunStatus.Succeeded)
      else Running)"

definition validate_results :: "nat \<Rightarrow> StepSnapshot \<Rightarrow> FlowEngineError + unit" where
  "validate_results index s =
     for_each (\<lambda>result_index r.
       if unat (rr_attempt r) \<noteq> result_index + 1 then Err SnapshotShapeMismatch
       else EffectResult_validate (rr_result r)
              (index_path (index_path ''snapshot.steps'' index @ ''.results'') result_index))
       0 (ss_results s)"

definition validate_blocked_report :: "nat \<Rightarrow> StepSnapshot \<Rightarrow> FlowEngineError + unit" where
  "validate_blocked_report index s =
     (case ss_blocked_report s of
        None \<Rightarrow> Ok ()
      | Some report \<Rightarrow>
          EffectReport_validate report (index_path ''snapshot.steps'' index @ ''.blocked_report''))"

section \<open>The standalone snapshot check\<close>

text \<open>The loop over the steps: ids seen so far and the number of active steps.\<close>

fun standalone_loop ::
  "(string \<Rightarrow> string) \<Rightarrow> nat \<Rightarrow> string list \<Rightarrow> nat \<Rightarrow> StepSnapshot list \<Rightarrow> FlowEngineError + nat" where
  "standalone_loop sha256 index ids active [] = Ok active"
| "standalone_loop sha256 index ids active (s # ss) =
     (if is_err (validate_slug (index_path ''snapshot.steps'' index @ ''.id'') (ss_id s)
                   MAX_FLOW_ID_BYTES)
         \<or> ss_id s \<in> set ids \<or> length (ss_results s) > unat MAX_RETRY_ATTEMPTS
      then Err SnapshotShapeMismatch
      else if \<not> approval_shape_valid s \<or> token_mismatch sha256 s then Err SnapshotShapeMismatch
      else
      and_then (validate_results index s) (\<lambda>_.
      and_then (validate_blocked_report index s) (\<lambda>_.
      and_then (validate_structural_step_state s) (\<lambda>_.
      standalone_loop sha256 (index + 1) (ss_id s # ids)
        (if step_is_active s then active + 1 else active) ss))))"

definition validate_standalone_snapshot :: "(string \<Rightarrow> string) \<Rightarrow> FlowSnapshot \<Rightarrow> FlowEngineError + unit" where
  "validate_standalone_snapshot sha256 snapshot =
     (if sn_snapshot_version snapshot \<noteq> FLOW_SNAPSHOT_VERSION
      then Err (UnsupportedSnapshotVersion (sn_snapshot_version snapshot))
      else
      and_then (validate_engine_identity ''snapshot.run_id'' (sn_run_id snapshot) MAX_RUN_ID_BYTES) (\<lambda>_.
      if sn_steps snapshot = [] \<or> length (sn_steps snapshot) > MAX_FLOW_STEPS
      then Err SnapshotShapeMismatch
      else
      and_then (standalone_loop sha256 0 [] 0 (sn_steps snapshot)) (\<lambda>active.
      if active > 1 \<or> computed_status snapshot \<noteq> sn_status snapshot
      then Err SnapshotStatusMismatch
      else if sn_status snapshot = RunStatus.Cancelled \<and>
              \<not> list_all (\<lambda>s. StepState_is_terminal (ss_state s)) (sn_steps snapshot)
      then Err SnapshotStatusMismatch
      else Ok ())))"

section \<open>The successor check\<close>

definition validate_successor_identity :: "FlowSnapshot \<Rightarrow> FlowSnapshot \<Rightarrow> FlowEngineError + unit" where
  "validate_successor_identity previous candidate =
     (if sn_snapshot_version previous \<noteq> sn_snapshot_version candidate
         \<or> sn_run_id previous \<noteq> sn_run_id candidate
         \<or> sn_definition_digest previous \<noteq> sn_definition_digest candidate
         \<or> length (sn_steps previous) \<noteq> length (sn_steps candidate)
         \<or> list_ex (\<lambda>(before, after).
              ss_id before \<noteq> ss_id after
              \<or> ss_idempotency_identity before \<noteq> ss_idempotency_identity after
              \<or> ss_semantic_role before \<noteq> ss_semantic_role after)
              (zip (sn_steps previous) (sn_steps candidate))
      then Err SnapshotIdentityMismatch else Ok ())"

definition require_transition :: "bool \<Rightarrow> FlowEngineError + unit" where
  "require_transition c = (if c then Ok () else Err SnapshotTransitionMismatch)"

definition transition_step :: "FlowSnapshot \<Rightarrow> string \<Rightarrow> FlowEngineError + nat" where
  "transition_step snapshot step_id =
     ok_or (position (\<lambda>s. ss_id s = step_id) (sn_steps snapshot)) SnapshotTransitionMismatch"

definition in_flight_attempt :: "StepState \<Rightarrow> u8 \<Rightarrow> bool" where
  "in_flight_attempt st attempt \<longleftrightarrow> (case st of InFlight current _ \<Rightarrow> current = attempt | _ \<Rightarrow> False)"

definition result_transition_origin :: "FlowSnapshot \<Rightarrow> string \<Rightarrow> u8 \<Rightarrow> FlowEngineError + nat" where
  "result_transition_origin snapshot step_id attempt =
     and_then (require_transition (sn_status snapshot = EffectInFlight \<or> sn_status snapshot = Cancelling)) (\<lambda>_.
     and_then (transition_step snapshot step_id) (\<lambda>index.
     and_then (require_transition (in_flight_attempt (ss_state (sn_steps snapshot ! index)) attempt)) (\<lambda>_.
     Ok index)))"

definition candidate_result ::
  "FlowSnapshot \<Rightarrow> nat \<Rightarrow> u8 \<Rightarrow> FlowEngineError + RecordedEffectResult" where
  "candidate_result snapshot step_index attempt =
     (case get_opt (sn_steps snapshot) step_index of
        None \<Rightarrow> Err EnginePanic
      | Some s \<Rightarrow>
          (case last_opt (ss_results s) of
             None \<Rightarrow> Err SnapshotTransitionMismatch
           | Some r \<Rightarrow> if rr_attempt r = attempt then Ok r else Err SnapshotTransitionMismatch))"

definition upd_step :: "FlowSnapshot \<Rightarrow> nat \<Rightarrow> (StepSnapshot \<Rightarrow> StepSnapshot) \<Rightarrow> FlowSnapshot" where
  "upd_step snapshot i f =
     snapshot\<lparr>sn_steps := (sn_steps snapshot)[i := f (sn_steps snapshot ! i)]\<rparr>"

definition push_result :: "RecordedEffectResult \<Rightarrow> StepState \<Rightarrow> StepSnapshot \<Rightarrow> StepSnapshot" where
  "push_result r st s = s\<lparr>ss_results := ss_results s @ [r], ss_state := st\<rparr>"

definition block_step :: "EffectReport \<Rightarrow> StepSnapshot \<Rightarrow> StepSnapshot" where
  "block_step report s = s\<lparr>ss_state := StepState.Blocked, ss_blocked_report := Some report\<rparr>"

text \<open>The per-step loop body of a cancellation, in the engine and in the validator.\<close>

definition cancel_step :: "StepSnapshot \<Rightarrow> StepSnapshot" where
  "cancel_step s =
     (let s1 = (if StepState_is_terminal (ss_state s) then s else s\<lparr>ss_state := StepState.Cancelled\<rparr>)
      in if is_pending_approval (ss_approval s1) then s1\<lparr>ss_approval := NotRequested\<rparr> else s1)"

definition approval_denied_text :: string where
  "approval_denied_text = ''the exact effect approval was denied''"

definition authorization_denied_text :: string where
  "authorization_denied_text = ''fresh authorization for the exact effect was denied''"

definition approval_ready :: "StepApprovalState \<Rightarrow> bool" where
  "approval_ready a \<longleftrightarrow> a = NotRequired \<or> is_granted a"

fun expected_successor ::
  "(string \<Rightarrow> string) \<Rightarrow> FlowSnapshot \<Rightarrow> FlowSnapshot \<Rightarrow> TransitionKind \<Rightarrow> FlowSnapshot
     \<Rightarrow> FlowEngineError + FlowSnapshot" where
  "expected_successor sha256 previous candidate (StepSkipped step_id) expected =
     and_then (require_transition (\<not> sn_cancel_requested previous \<and> sn_status previous = Running)) (\<lambda>_.
     and_then (transition_step previous step_id) (\<lambda>index.
     and_then (require_transition
                 (ss_state (sn_steps previous ! index) = StepState.Pending \<and>
                  approval_ready (ss_approval (sn_steps previous ! index)))) (\<lambda>_.
     Ok (upd_step expected index (\<lambda>s. s\<lparr>ss_state := StepState.Skipped\<rparr>)))))"
| "expected_successor sha256 previous candidate (ApprovalRequested step_id) expected =
     and_then (require_transition (\<not> sn_cancel_requested previous \<and> sn_status previous = Running)) (\<lambda>_.
     and_then (transition_step previous step_id) (\<lambda>index.
     and_then (require_transition
                 (ss_state (sn_steps previous ! index) = StepState.Pending \<and>
                  ss_approval (sn_steps previous ! index) = NotRequested)) (\<lambda>_.
     Ok ((upd_step expected index (\<lambda>s. s\<lparr>ss_approval := StepApprovalState.Pending
            (approval_token sha256 (ss_idempotency_identity (sn_steps previous ! index)))\<rparr>))
         \<lparr>sn_status := WaitingApproval\<rparr>))))"
| "expected_successor sha256 previous candidate (ApprovalGranted step_id) expected =
     and_then (require_transition
       (\<not> sn_cancel_requested previous \<and> sn_status previous = WaitingApproval)) (\<lambda>_.
     and_then (transition_step previous step_id) (\<lambda>index.
     (case ss_approval (sn_steps previous ! index) of
        StepApprovalState.Pending token \<Rightarrow>
          Ok ((upd_step expected index (\<lambda>s. s\<lparr>ss_approval := Granted token\<rparr>))\<lparr>sn_status := Running\<rparr>)
      | _ \<Rightarrow> Err SnapshotTransitionMismatch)))"
| "expected_successor sha256 previous candidate (ApprovalDenied step_id) expected =
     and_then (require_transition
       (\<not> sn_cancel_requested previous \<and> sn_status previous = WaitingApproval)) (\<lambda>_.
     and_then (transition_step previous step_id) (\<lambda>index.
     (case ss_approval (sn_steps previous ! index) of
        StepApprovalState.Pending token \<Rightarrow>
          Ok ((upd_step expected index (\<lambda>s.
                 (block_step (EffectReport_trusted approval_denied_text) s)\<lparr>ss_approval := Denied token\<rparr>))
              \<lparr>sn_status := RunStatus.Blocked\<rparr>)
      | _ \<Rightarrow> Err SnapshotTransitionMismatch)))"
| "expected_successor sha256 previous candidate (EffectEvaluationRequired step_id attempt) expected =
     and_then (require_transition (\<not> sn_cancel_requested previous)) (\<lambda>_.
     and_then (transition_step previous step_id) (\<lambda>index.
     and_then (require_transition
       (case ss_state (sn_steps previous ! index) of
          StepState.Pending \<Rightarrow>
            attempt = 1 \<and> sn_status previous = Running \<and>
            approval_ready (ss_approval (sn_steps previous ! index))
        | StepState.WaitingRetry next_attempt _ \<Rightarrow>
            attempt = next_attempt \<and> sn_status previous = RunStatus.WaitingRetry
        | _ \<Rightarrow> False)) (\<lambda>_.
     Ok ((upd_step expected index (\<lambda>s. s\<lparr>ss_state := AwaitingEffect attempt\<rparr>))
         \<lparr>sn_status := AwaitingEffectEvaluation\<rparr>))))"
| "expected_successor sha256 previous candidate (EffectAuthorizationDenied step_id attempt replay) expected =
     and_then (require_transition (\<not> sn_cancel_requested previous)) (\<lambda>_.
     and_then (transition_step previous step_id) (\<lambda>index.
     and_then (if replay
               then require_transition
                 (sn_status previous = EffectInFlight \<and>
                  in_flight_attempt (ss_state (sn_steps previous ! index)) attempt)
               else require_transition
                 (sn_status previous = AwaitingEffectEvaluation \<and>
                  ss_state (sn_steps previous ! index) = AwaitingEffect attempt)) (\<lambda>_.
     Ok ((upd_step expected index (block_step (EffectReport_trusted authorization_denied_text)))
         \<lparr>sn_status := RunStatus.Blocked\<rparr>))))"
| "expected_successor sha256 previous candidate (EffectStarted step_id attempt replay) expected =
     and_then (require_transition (\<not> sn_cancel_requested previous)) (\<lambda>_.
     and_then (transition_step previous step_id) (\<lambda>index.
     and_then (if replay
               then and_then (require_transition
                 (sn_status previous = EffectInFlight \<and>
                  in_flight_attempt (ss_state (sn_steps previous ! index)) attempt)) (\<lambda>_. Ok expected)
               else and_then (require_transition
                 (sn_status previous = AwaitingEffectEvaluation \<and>
                  ss_state (sn_steps previous ! index) = AwaitingEffect attempt)) (\<lambda>_.
                 case get_opt (sn_steps candidate) index of
                   None \<Rightarrow> Err EnginePanic
                 | Some after \<Rightarrow>
                     (case ss_state after of
                        InFlight candidate_attempt started_at_ms \<Rightarrow>
                          and_then (require_transition (candidate_attempt = attempt)) (\<lambda>_.
                          Ok (upd_step expected index (\<lambda>s. s\<lparr>ss_state := InFlight attempt started_at_ms\<rparr>)))
                      | _ \<Rightarrow> Err SnapshotTransitionMismatch))) (\<lambda>e.
     Ok (e\<lparr>sn_status := EffectInFlight\<rparr>))))"
| "expected_successor sha256 previous candidate (EffectSucceeded step_id attempt) expected =
     and_then (result_transition_origin previous step_id attempt) (\<lambda>index.
     and_then (candidate_result candidate index attempt) (\<lambda>r.
     and_then (require_transition (res_kind (rr_result r) = EffectResultKind.Succeeded)) (\<lambda>_.
     Ok ((upd_step expected index (push_result r (StepState.Succeeded attempt)))
         \<lparr>sn_status := (if sn_cancel_requested previous then Cancelling else Running)\<rparr>))))"
| "expected_successor sha256 previous candidate (RetryScheduled step_id next_attempt not_before_ms) expected =
     and_then (require_transition (\<not> sn_cancel_requested previous)) (\<lambda>_.
     and_then (ok_or (checked_sub next_attempt 1) SnapshotTransitionMismatch) (\<lambda>attempt.
     and_then (result_transition_origin previous step_id attempt) (\<lambda>index.
     and_then (candidate_result candidate index attempt) (\<lambda>r.
     and_then (require_transition
       (res_kind (rr_result r) = EffectResultKind.Failed True \<and> next_attempt \<le> MAX_RETRY_ATTEMPTS)) (\<lambda>_.
     Ok ((upd_step expected index (push_result r (StepState.WaitingRetry next_attempt not_before_ms)))
         \<lparr>sn_status := RunStatus.WaitingRetry\<rparr>))))))"
| "expected_successor sha256 previous candidate (RetryExhausted step_id attempt) expected =
     and_then (require_transition (\<not> sn_cancel_requested previous)) (\<lambda>_.
     and_then (result_transition_origin previous step_id attempt) (\<lambda>index.
     and_then (candidate_result candidate index attempt) (\<lambda>r.
     and_then (require_transition (res_kind (rr_result r) = EffectResultKind.Failed True)) (\<lambda>_.
     Ok ((upd_step expected index (push_result r (StepState.Failed attempt)))\<lparr>sn_status := Running\<rparr>)))))"
| "expected_successor sha256 previous candidate (EffectFailed step_id attempt) expected =
     and_then (result_transition_origin previous step_id attempt) (\<lambda>index.
     and_then (candidate_result candidate index attempt) (\<lambda>r.
     and_then (require_transition
       (case res_kind (rr_result r) of
          EffectResultKind.Failed retryable \<Rightarrow> sn_cancel_requested previous \<or> \<not> retryable
        | EffectResultKind.Succeeded \<Rightarrow> False)) (\<lambda>_.
     Ok ((upd_step expected index (push_result r (StepState.Failed attempt)))
         \<lparr>sn_status := (if sn_cancel_requested previous then Cancelling else Running)\<rparr>))))"
| "expected_successor sha256 previous candidate (ReconciledNotApplied step_id attempt) expected =
     and_then (require_transition
       (\<not> sn_cancel_requested previous \<and> sn_status previous = EffectInFlight)) (\<lambda>_.
     and_then (transition_step previous step_id) (\<lambda>index.
     and_then (require_transition (in_flight_attempt (ss_state (sn_steps previous ! index)) attempt)) (\<lambda>_.
     Ok ((upd_step expected index (\<lambda>s. s\<lparr>ss_state := AwaitingEffect attempt\<rparr>))
         \<lparr>sn_status := AwaitingEffectEvaluation\<rparr>))))"
| "expected_successor sha256 previous candidate (ReconciliationUnknown step_id attempt) expected =
     and_then (require_transition (sn_status previous = EffectInFlight \<or> sn_status previous = Cancelling)) (\<lambda>_.
     and_then (transition_step previous step_id) (\<lambda>index.
     and_then (require_transition (in_flight_attempt (ss_state (sn_steps previous ! index)) attempt)) (\<lambda>_.
     (case get_opt (sn_steps candidate) index of
        None \<Rightarrow> Err EnginePanic
      | Some after \<Rightarrow>
          and_then (ok_or (ss_blocked_report after) SnapshotTransitionMismatch) (\<lambda>report.
          Ok ((upd_step expected index (block_step report))\<lparr>sn_status := RunStatus.Blocked\<rparr>))))))"
| "expected_successor sha256 previous candidate CancellationRequested expected =
     and_then (require_transition
       (\<not> sn_cancel_requested previous \<and> sn_status previous = EffectInFlight \<and>
        list_ex (\<lambda>s. is_in_flight (ss_state s)) (sn_steps previous))) (\<lambda>_.
     Ok (expected\<lparr>sn_cancel_requested := True, sn_status := Cancelling\<rparr>))"
| "expected_successor sha256 previous candidate (RunCompleted RunOutcome.Solved) expected =
     and_then (require_transition
       (\<not> sn_cancel_requested previous \<and> sn_status previous = Running \<and>
        list_all (\<lambda>s. StepState_is_terminal (ss_state s)) (sn_steps previous) \<and>
        \<not> list_ex (\<lambda>s. case ss_state s of StepState.Failed _ \<Rightarrow> True | StepState.Blocked \<Rightarrow> True
                          | StepState.Cancelled \<Rightarrow> True | _ \<Rightarrow> False) (sn_steps previous))) (\<lambda>_.
     Ok (expected\<lparr>sn_status := RunStatus.Succeeded\<rparr>))"
| "expected_successor sha256 previous candidate (RunCompleted RunOutcome.Unresolved) expected =
     and_then (require_transition
       (\<not> sn_cancel_requested previous \<and> sn_status previous = Running \<and>
        list_all (\<lambda>s. StepState_is_terminal (ss_state s)) (sn_steps previous) \<and>
        list_ex (\<lambda>s. case ss_state s of StepState.Failed _ \<Rightarrow> True | _ \<Rightarrow> False) (sn_steps previous) \<and>
        \<not> list_ex (\<lambda>s. case ss_state s of StepState.Blocked \<Rightarrow> True
                          | StepState.Cancelled \<Rightarrow> True | _ \<Rightarrow> False) (sn_steps previous))) (\<lambda>_.
     Ok (expected\<lparr>sn_status := RunStatus.Unresolved\<rparr>))"
| "expected_successor sha256 previous candidate (RunCompleted RunOutcome.Cancelled) expected =
     and_then (require_transition (\<not> RunStatus_is_terminal (sn_status previous))) (\<lambda>_.
     Ok (expected\<lparr>sn_cancel_requested := True, sn_status := RunStatus.Cancelled,
                  sn_steps := map cancel_step (sn_steps expected)\<rparr>))"
| "expected_successor sha256 previous candidate (RunCompleted RunOutcome.Blocked) expected =
     Err SnapshotTransitionMismatch"

definition validate_transition_successor ::
  "(string \<Rightarrow> string) \<Rightarrow> FlowSnapshot \<Rightarrow> FlowSnapshot \<Rightarrow> RunTransition \<Rightarrow> FlowEngineError + unit" where
  "validate_transition_successor sha256 previous candidate transition =
     and_then (expected_successor sha256 previous candidate (tr_kind transition)
                 (previous\<lparr>sn_transition_sequence := tr_sequence transition\<rparr>)) (\<lambda>expected.
     and_then (semantic_events_for_transition expected (tr_kind transition)) (\<lambda>expected_semantic_events.
     and_then (require_transition (tr_semantic_events transition = expected_semantic_events)) (\<lambda>_.
     if expected = candidate then Ok () else Err SnapshotTransitionMismatch)))"

definition initial_snapshot_valid :: "FlowSnapshot \<Rightarrow> RunTransition option \<Rightarrow> bool" where
  "initial_snapshot_valid candidate transition \<longleftrightarrow>
     \<not> (transition \<noteq> None
        \<or> sn_transition_sequence candidate \<noteq> 0
        \<or> sn_status candidate \<noteq> Running
        \<or> sn_cancel_requested candidate
        \<or> sn_steps candidate = []
        \<or> list_ex (\<lambda>s. ss_state s \<noteq> StepState.Pending
                      \<or> \<not> (ss_approval s = NotRequired \<or> ss_approval s = NotRequested)
                      \<or> ss_results s \<noteq> []
                      \<or> ss_blocked_report s \<noteq> None) (sn_steps candidate))"

definition validate_snapshot_successor ::
  "(string \<Rightarrow> string) \<Rightarrow> FlowSnapshot option \<Rightarrow> FlowSnapshot \<Rightarrow> RunTransition option
     \<Rightarrow> FlowEngineError + unit" where
  "validate_snapshot_successor sha256 previous_opt candidate transition_opt =
     and_then (validate_standalone_snapshot sha256 candidate) (\<lambda>_.
     (case previous_opt of
        None \<Rightarrow>
          if initial_snapshot_valid candidate transition_opt then Ok () else Err InvalidInitialSnapshot
      | Some previous \<Rightarrow>
          and_then (validate_standalone_snapshot sha256 previous) (\<lambda>_.
          and_then (validate_successor_identity previous candidate) (\<lambda>_.
          (case transition_opt of
             None \<Rightarrow> if previous = candidate then Ok () else Err SnapshotTransitionMismatch
           | Some transition \<Rightarrow>
               and_then (ok_or (checked_add (sn_transition_sequence previous) 1)
                           TransitionSequenceOverflow) (\<lambda>expected_sequence.
               if sn_transition_sequence candidate \<noteq> expected_sequence
                  \<or> tr_sequence transition \<noteq> expected_sequence
               then Err SnapshotSequenceMismatch
               else validate_transition_successor sha256 previous candidate transition))))))"

definition validate_snapshot_upgrade ::
  "(string \<Rightarrow> string) \<Rightarrow> FlowSnapshot \<Rightarrow> FlowSnapshot \<Rightarrow> FlowEngineError + unit" where
  "validate_snapshot_upgrade sha256 previous candidate =
     (if sn_snapshot_version previous \<noteq> 1 \<or> sn_snapshot_version candidate \<noteq> FLOW_SNAPSHOT_VERSION
      then Err SnapshotIdentityMismatch
      else if length (sn_steps previous) \<noteq> length (sn_steps candidate)
              \<or> list_ex (\<lambda>s. ss_semantic_role s = Verify) (sn_steps candidate)
      then Err SnapshotShapeMismatch
      else
      let expected = previous\<lparr>sn_snapshot_version := FLOW_SNAPSHOT_VERSION,
            sn_steps := map (\<lambda>(stored, upgraded). stored\<lparr>ss_semantic_role := ss_semantic_role upgraded\<rparr>)
                          (zip (sn_steps previous) (sn_steps candidate))\<rparr> in
      and_then (validate_standalone_snapshot sha256 candidate) (\<lambda>_.
      if expected = candidate then Ok () else Err SnapshotTransitionMismatch))"

section \<open>The definition-bound snapshot check\<close>

definition snapshot_state_by_id :: "FlowDefinition \<Rightarrow> FlowSnapshot \<Rightarrow> string \<Rightarrow> StepState option" where
  "snapshot_state_by_id d snapshot sid =
     (case position (\<lambda>s. fs_id s = sid) (fd_steps d) of
        None \<Rightarrow> None
      | Some index \<Rightarrow> map_option ss_state (get_opt (sn_steps snapshot) index))"

definition declared_condition_true :: "FlowDefinition \<Rightarrow> FlowSnapshot \<Rightarrow> StepCondition \<Rightarrow> bool" where
  "declared_condition_true d snapshot c =
     (case c of
        Always \<Rightarrow> True
      | StepCondition.Succeeded step \<Rightarrow>
          (case snapshot_state_by_id d snapshot step of
             Some (StepState.Succeeded _) \<Rightarrow> True | _ \<Rightarrow> False)
      | StepCondition.Failed step \<Rightarrow>
          (case snapshot_state_by_id d snapshot step of
             Some (StepState.Failed _) \<Rightarrow> True | _ \<Rightarrow> False))"

definition references_terminal :: "FlowDefinition \<Rightarrow> FlowSnapshot \<Rightarrow> FlowStep \<Rightarrow> bool" where
  "references_terminal d snapshot declared =
     list_all (\<lambda>reference.
       case snapshot_state_by_id d snapshot reference of
         None \<Rightarrow> False | Some st \<Rightarrow> StepState_is_terminal st) (step_references declared)"

definition graph_step_check ::
  "FlowDefinition \<Rightarrow> FlowSnapshot \<Rightarrow> nat \<Rightarrow> StepSnapshot \<times> FlowStep \<Rightarrow> FlowEngineError + unit" where
  "graph_step_check d snapshot index p =
     (case p of (stored, declared) \<Rightarrow>
      if ss_state stored = StepState.Cancelled then
        (if \<not> sn_cancel_requested snapshot then Err SnapshotShapeMismatch else Ok ())
      else if ss_state stored = StepState.Pending \<and>
              \<not> (is_pending_approval (ss_approval stored) \<or> is_granted (ss_approval stored))
      then Ok ()
      else if \<not> references_terminal d snapshot declared then Err SnapshotShapeMismatch
      else if (ss_state stored = StepState.Skipped)
              = declared_condition_true d snapshot (fs_condition declared)
      then engine_invalid (index_path ''snapshot.steps'' index @ ''.state'')
             ''does not match the declared condition outcome''
      else Ok ())"

definition validate_snapshot_graph :: "FlowDefinition \<Rightarrow> FlowSnapshot \<Rightarrow> FlowEngineError + unit" where
  "validate_snapshot_graph d snapshot =
     for_each (graph_step_check d snapshot) 0 (zip (sn_steps snapshot) (fd_steps d))"

definition approval_matches_mode :: "StepApprovalState \<Rightarrow> ApprovalMode \<Rightarrow> bool" where
  "approval_matches_mode a m \<longleftrightarrow> (a = NotRequired) = (m = NoApproval)"

definition bound_step_check ::
  "(string \<Rightarrow> string) \<Rightarrow> FlowSnapshot \<Rightarrow> nat \<Rightarrow> StepSnapshot \<times> FlowStep \<Rightarrow> FlowEngineError + unit" where
  "bound_step_check sha256 snapshot index p =
     (case p of (stored, declared) \<Rightarrow>
      if ss_id stored \<noteq> fs_id declared
         \<or> ss_semantic_role stored \<noteq> semantic_role declared
         \<or> ss_idempotency_identity stored \<noteq>
             idempotency_identity sha256 (sn_run_id snapshot) (sn_definition_digest snapshot)
               (fs_id declared) (fs_idempotency_key declared)
         \<or> length (ss_results stored) > unat (max_attempts (fs_retry declared))
      then Err SnapshotShapeMismatch
      else if \<not> approval_matches_mode (ss_approval stored) (fs_approval declared)
      then Err SnapshotShapeMismatch
      else if \<not> approval_shape_valid stored then Err SnapshotShapeMismatch
      else if token_mismatch sha256 stored then Err SnapshotShapeMismatch
      else
      and_then (validate_results index stored) (\<lambda>_.
      and_then (validate_blocked_report index stored) (\<lambda>_.
      validate_step_state stored (max_attempts (fs_retry declared)) (sn_cancel_requested snapshot))))"

definition validate_snapshot ::
  "(string \<Rightarrow> string) \<Rightarrow> FlowDefinition \<Rightarrow> FlowSnapshot \<Rightarrow> FlowEngineError + unit" where
  "validate_snapshot sha256 d snapshot =
     (if sn_snapshot_version snapshot \<noteq> FLOW_SNAPSHOT_VERSION
      then Err (UnsupportedSnapshotVersion (sn_snapshot_version snapshot))
      else if sn_transition_sequence snapshot = -1 \<and> \<not> RunStatus_is_terminal (sn_status snapshot)
      then Err TransitionSequenceOverflow
      else
      and_then (validate_engine_identity ''snapshot.run_id'' (sn_run_id snapshot) MAX_RUN_ID_BYTES) (\<lambda>_.
      if length (sn_steps snapshot) \<noteq> length (fd_steps d) then Err SnapshotShapeMismatch
      else
      and_then (for_each (bound_step_check sha256 snapshot) 0
                  (zip (sn_steps snapshot) (fd_steps d))) (\<lambda>_.
      if length (filter step_is_active (sn_steps snapshot)) > 1
         \<or> computed_status snapshot \<noteq> sn_status snapshot
      then Err SnapshotStatusMismatch
      else if sn_status snapshot = RunStatus.Cancelled \<and>
              \<not> list_all (\<lambda>s. StepState_is_terminal (ss_state s)) (sn_steps snapshot)
      then Err SnapshotStatusMismatch
      else validate_snapshot_graph d snapshot)))"

end
