(* ===== verification/Flow_Engine.thy ===== *)
theory Flow_Engine
  imports Flow_Snapshot
begin

text \<open>
  The operations of \<^verbatim>\<open>FlowRun\<close> (\<^verbatim>\<open>crates/pam_flow/src/engine.rs\<close>): the deterministic
  coordinator that schedules the steps of a flow, asks for approvals, hands out effect
  attempts and records their results.  A \<^verbatim>\<open>&mut self\<close> method is a function from the run
  to its result and the run it leaves behind, on the error paths too.  A panic
  (\<^verbatim>\<open>expect\<close>, an index out of range) is the error \<open>EnginePanic\<close>.
\<close>

type_synonym engine_result = "(FlowEngineError + EngineUpdate) \<times> FlowRun"

section \<open>Plumbing\<close>

text \<open>The \<^verbatim>\<open>?\<close> operator inside a method: an early error leaves the run as it is.\<close>

definition early :: "FlowEngineError + 'a \<Rightarrow> FlowRun \<Rightarrow> ('a \<Rightarrow> engine_result) \<Rightarrow> engine_result" where
  "early r run f = (case r of Inl e \<Rightarrow> (Inl e, run) | Inr x \<Rightarrow> f x)"

abbreviation run_steps :: "FlowRun \<Rightarrow> StepSnapshot list" where
  "run_steps run \<equiv> sn_steps (run_snapshot run)"

abbreviation declared_steps :: "FlowRun \<Rightarrow> FlowStep list" where
  "declared_steps run \<equiv> fd_steps (run_definition run)"

definition on_snapshot :: "(FlowSnapshot \<Rightarrow> FlowSnapshot) \<Rightarrow> FlowRun \<Rightarrow> FlowRun" where
  "on_snapshot f run = run\<lparr>run_snapshot := f (run_snapshot run)\<rparr>"

definition set_status :: "RunStatus \<Rightarrow> FlowSnapshot \<Rightarrow> FlowSnapshot" where
  "set_status st snapshot = snapshot\<lparr>sn_status := st\<rparr>"

definition set_state :: "nat \<Rightarrow> StepState \<Rightarrow> FlowSnapshot \<Rightarrow> FlowSnapshot" where
  "set_state i st snapshot = upd_step snapshot i (\<lambda>s. s\<lparr>ss_state := st\<rparr>)"

definition set_approval :: "nat \<Rightarrow> StepApprovalState \<Rightarrow> FlowSnapshot \<Rightarrow> FlowSnapshot" where
  "set_approval i a snapshot = upd_step snapshot i (\<lambda>s. s\<lparr>ss_approval := a\<rparr>)"

definition set_issued :: "EffectAttempt option \<Rightarrow> FlowRun \<Rightarrow> FlowRun" where
  "set_issued a run = run\<lparr>run_issued_attempt := a\<rparr>"

definition ensure_can_change :: "FlowRun \<Rightarrow> FlowEngineError + unit" where
  "ensure_can_change run =
     (if sn_transition_sequence (run_snapshot run) = -1
      then Err TransitionSequenceOverflow else Ok ())"

definition observed :: "RunDecision \<Rightarrow> FlowRun \<Rightarrow> EngineUpdate" where
  "observed decision run =
     \<lparr>up_snapshot = run_snapshot run, up_transition = None, up_decision = decision\<rparr>"

definition observe :: "RunDecision \<Rightarrow> FlowRun \<Rightarrow> engine_result" where
  "observe decision run = (Ok (observed decision run), run)"

definition changed :: "TransitionKind \<Rightarrow> RunDecision \<Rightarrow> FlowRun \<Rightarrow> engine_result" where
  "changed kind decision run =
     early (ok_or (checked_add (sn_transition_sequence (run_snapshot run)) 1)
              TransitionSequenceOverflow) run (\<lambda>sequence.
     let run' = on_snapshot (\<lambda>snapshot. snapshot\<lparr>sn_transition_sequence := sequence\<rparr>) run in
     early (semantic_events_for_transition (run_snapshot run') kind) run' (\<lambda>semantic_events.
     (Ok \<lparr>up_snapshot = run_snapshot run',
          up_transition = Some \<lparr>tr_sequence = sequence, tr_kind = kind,
                                tr_semantic_events = semantic_events\<rparr>,
          up_decision = decision\<rparr>, run')))"

section \<open>Start and resume\<close>

definition initial_step :: "(string \<Rightarrow> string) \<Rightarrow> string \<Rightarrow> string \<Rightarrow> FlowStep \<Rightarrow> StepSnapshot" where
  "initial_step sha256 run_id definition_digest step =
     \<lparr>ss_id = fs_id step,
      ss_idempotency_identity =
        idempotency_identity sha256 run_id definition_digest (fs_id step) (fs_idempotency_key step),
      ss_semantic_role = semantic_role step,
      ss_approval = (case fs_approval step of
                       NoApproval \<Rightarrow> NotRequired | Required \<Rightarrow> NotRequested),
      ss_state = StepState.Pending, ss_results = [], ss_blocked_report = None\<rparr>"

definition FlowRun_start ::
  "(string \<Rightarrow> string) \<Rightarrow> string \<Rightarrow> FlowDefinition \<Rightarrow> FlowEngineError + FlowRun" where
  "FlowRun_start sha256 run_id d =
     and_then (map_err InvalidDefinition (FlowDefinition_validate d)) (\<lambda>_.
     and_then (validate_engine_identity ''run_id'' run_id MAX_RUN_ID_BYTES) (\<lambda>_.
     and_then (map_err InvalidDefinition (normalized_digest sha256 d)) (\<lambda>definition_digest.
     Ok \<lparr>run_definition = d,
         run_snapshot =
           \<lparr>sn_snapshot_version = FLOW_SNAPSHOT_VERSION, sn_run_id = run_id,
            sn_definition_digest = definition_digest, sn_status = Running,
            sn_cancel_requested = False, sn_transition_sequence = 0,
            sn_steps = map (initial_step sha256 run_id definition_digest) (fd_steps d)\<rparr>,
         run_issued_attempt = None\<rparr>)))"

text \<open>The in-place upgrade of a version 1 snapshot: the roles come from the definition.\<close>

definition upgrade_snapshot :: "FlowDefinition \<Rightarrow> FlowSnapshot \<Rightarrow> FlowEngineError + FlowSnapshot" where
  "upgrade_snapshot d snapshot =
     (if sn_snapshot_version snapshot = 1 then
        (if length (sn_steps snapshot) \<noteq> length (fd_steps d) then Err SnapshotShapeMismatch
         else Ok (snapshot\<lparr>sn_snapshot_version := FLOW_SNAPSHOT_VERSION,
                           sn_steps := map (\<lambda>(stored, declared).
                             stored\<lparr>ss_semantic_role := semantic_role declared\<rparr>)
                             (zip (sn_steps snapshot) (fd_steps d))\<rparr>))
      else Ok snapshot)"

definition FlowRun_resume ::
  "(string \<Rightarrow> string) \<Rightarrow> string \<Rightarrow> FlowDefinition \<Rightarrow> FlowSnapshot \<Rightarrow> FlowEngineError + FlowRun" where
  "FlowRun_resume sha256 expected_run_id d snapshot =
     and_then (map_err InvalidDefinition (FlowDefinition_validate d)) (\<lambda>_.
     if sn_run_id snapshot \<noteq> expected_run_id then Err RunIdMismatch
     else
     and_then (map_err InvalidDefinition (normalized_digest sha256 d)) (\<lambda>digest.
     if sn_definition_digest snapshot \<noteq> digest then Err DefinitionDigestMismatch
     else
     and_then (upgrade_snapshot d snapshot) (\<lambda>snapshot'.
     and_then (validate_snapshot sha256 d snapshot') (\<lambda>_.
     Ok \<lparr>run_definition = d, run_snapshot = snapshot', run_issued_attempt = None\<rparr>))))"

section \<open>Queries\<close>

definition effect_attempt :: "FlowRun \<Rightarrow> nat \<Rightarrow> u8 \<Rightarrow> FlowEngineError + EffectAttempt" where
  "effect_attempt run index attempt =
     (case (get_opt (run_steps run) index, get_opt (declared_steps run) index) of
        (Some s, Some declared) \<Rightarrow>
          Ok \<lparr>ea_step_index = index, ea_step_id = ss_id s, ea_attempt = attempt,
              ea_idempotency_identity = ss_idempotency_identity s,
              ea_effect = fs_effect declared, ea_timeout_seconds = fs_timeout_seconds declared\<rparr>
      | _ \<Rightarrow> Err EnginePanic)"

definition validate_effect :: "FlowRun \<Rightarrow> EffectAttempt \<Rightarrow> FlowEngineError + unit" where
  "validate_effect run effect =
     (case get_opt (run_steps run) (ea_step_index effect) of
        None \<Rightarrow> Err EffectIdentityMismatch
      | Some s \<Rightarrow>
          if ea_step_id effect \<noteq> ss_id s
             \<or> ea_idempotency_identity effect \<noteq> ss_idempotency_identity s
          then Err EffectIdentityMismatch
          else
          (case get_opt (declared_steps run) (ea_step_index effect) of
             None \<Rightarrow> Err EnginePanic
           | Some declared \<Rightarrow>
               if ea_effect effect \<noteq> fs_effect declared
                  \<or> ea_timeout_seconds effect \<noteq> fs_timeout_seconds declared
                  \<or> ea_attempt effect = 0
                  \<or> ea_attempt effect > max_attempts (fs_retry declared)
               then Err EffectIdentityMismatch
               else Ok ()))"

definition state_by_id :: "FlowRun \<Rightarrow> string \<Rightarrow> FlowEngineError + StepState" where
  "state_by_id run sid =
     (case position (\<lambda>s. fs_id s = sid) (declared_steps run) of
        None \<Rightarrow> Err EnginePanic
      | Some index \<Rightarrow> ok_or (map_option ss_state (get_opt (run_steps run) index)) EnginePanic)"

text \<open>\<^verbatim>\<open>.all(|reference| ...is_terminal())\<close>, which stops at the first false.\<close>

fun all_references_terminal :: "FlowRun \<Rightarrow> string list \<Rightarrow> FlowEngineError + bool" where
  "all_references_terminal run [] = Ok True"
| "all_references_terminal run (r # rs) =
     and_then (state_by_id run r) (\<lambda>st.
     if StepState_is_terminal st then all_references_terminal run rs else Ok False)"

definition prerequisites_complete :: "FlowRun \<Rightarrow> nat \<Rightarrow> FlowEngineError + bool" where
  "prerequisites_complete run index =
     (case get_opt (declared_steps run) index of
        None \<Rightarrow> Err EnginePanic
      | Some step \<Rightarrow> all_references_terminal run (step_references step))"

definition condition_is_true :: "FlowRun \<Rightarrow> nat \<Rightarrow> FlowEngineError + bool" where
  "condition_is_true run index =
     (case get_opt (declared_steps run) index of
        None \<Rightarrow> Err EnginePanic
      | Some declared \<Rightarrow>
          (case fs_condition declared of
             Always \<Rightarrow> Ok True
           | StepCondition.Succeeded step \<Rightarrow>
               and_then (state_by_id run step) (\<lambda>st.
               Ok (case st of StepState.Succeeded _ \<Rightarrow> True | _ \<Rightarrow> False))
           | StepCondition.Failed step \<Rightarrow>
               and_then (state_by_id run step) (\<lambda>st.
               Ok (case st of StepState.Failed _ \<Rightarrow> True | _ \<Rightarrow> False))))"

definition retry_schedule ::
  "FlowRun \<Rightarrow> nat \<Rightarrow> EffectAttempt \<Rightarrow> EffectResultKind \<Rightarrow> u64 \<Rightarrow> FlowEngineError + (u8 \<times> u64) option" where
  "retry_schedule run index effect result_kind now_ms =
     (let retry = fs_retry (declared_steps run ! index) in
      if result_kind \<noteq> EffectResultKind.Failed True
         \<or> sn_cancel_requested (run_snapshot run)
         \<or> ea_attempt effect \<ge> max_attempts retry
      then Ok None
      else
      and_then (ok_or (checked_add now_ms
                  (retry_backoff_ms (initial_backoff_ms retry) (max_backoff_ms retry)
                     (ea_attempt effect))) TimestampOverflow) (\<lambda>not_before_ms.
      Ok (Some (ea_attempt effect + 1, not_before_ms))))"

text \<open>\<^verbatim>\<open>find_map\<close> over the steps: the first one in flight.\<close>

definition in_flight_effect :: "FlowRun \<Rightarrow> FlowEngineError + EffectAttempt option" where
  "in_flight_effect run =
     (case position (\<lambda>s. is_in_flight (ss_state s)) (run_steps run) of
        None \<Rightarrow> Ok None
      | Some index \<Rightarrow>
          (case ss_state (run_steps run ! index) of
             InFlight attempt _ \<Rightarrow>
               and_then (effect_attempt run index attempt) (\<lambda>effect. Ok (Some effect))
           | _ \<Rightarrow> Ok None))"

fun result_kind_of_state :: "StepState \<Rightarrow> StepRunResultKind" where
  "result_kind_of_state (StepState.Succeeded _) = StepRunResultKind.Succeeded"
| "result_kind_of_state StepState.Skipped = StepRunResultKind.Skipped"
| "result_kind_of_state (StepState.Failed _) = StepRunResultKind.Failed"
| "result_kind_of_state StepState.Blocked = StepRunResultKind.Blocked"
| "result_kind_of_state StepState.Cancelled = StepRunResultKind.Cancelled"
| "result_kind_of_state _ = StepRunResultKind.NotRun"

definition is_failed_state :: "StepState \<Rightarrow> bool" where
  "is_failed_state st \<longleftrightarrow> (case st of StepState.Failed _ \<Rightarrow> True | _ \<Rightarrow> False)"

definition run_outcome :: "FlowSnapshot \<Rightarrow> RunOutcome" where
  "run_outcome snapshot =
     (case sn_status snapshot of
        RunStatus.Succeeded \<Rightarrow> Solved
      | RunStatus.Unresolved \<Rightarrow> RunOutcome.Unresolved
      | RunStatus.Blocked \<Rightarrow> RunOutcome.Blocked
      | RunStatus.Cancelled \<Rightarrow> RunOutcome.Cancelled
      | _ \<Rightarrow>
          if list_ex (\<lambda>s. ss_state s = StepState.Blocked) (sn_steps snapshot) then RunOutcome.Blocked
          else if sn_cancel_requested snapshot then RunOutcome.Cancelled
          else if list_ex (\<lambda>s. is_failed_state (ss_state s)) (sn_steps snapshot)
          then RunOutcome.Unresolved
          else Solved)"

definition step_run_result :: "StepSnapshot \<Rightarrow> StepRunResult" where
  "step_run_result s =
     \<lparr>sr_step_id = ss_id s, sr_semantic_role = ss_semantic_role s,
      sr_kind = result_kind_of_state (ss_state s),
      sr_result = map_option rr_result (last_opt (ss_results s)),
      sr_blocked_report = ss_blocked_report s\<rparr>"

definition build_result :: "FlowRun \<Rightarrow> FlowRunResult" where
  "build_result run =
     (let outcome = run_outcome (run_snapshot run);
          steps = map step_run_result (run_steps run)
      in \<lparr>fr_run_id = sn_run_id (run_snapshot run),
          fr_definition_digest = sn_definition_digest (run_snapshot run),
          fr_outcome = outcome,
          fr_report = build_outcome_report (fd_outcome (run_definition run)) outcome steps,
          fr_steps = steps\<rparr>)"

definition FlowRun_result :: "FlowRun \<Rightarrow> FlowRunResult option" where
  "FlowRun_result run =
     (if RunStatus_is_terminal (sn_status (run_snapshot run)) then Some (build_result run) else None)"

section \<open>Scheduling\<close>

definition finish_cancelled :: "FlowRun \<Rightarrow> engine_result" where
  "finish_cancelled run =
     early (ensure_can_change run) run (\<lambda>_.
     let run' = set_issued None (on_snapshot (\<lambda>snapshot.
           snapshot\<lparr>sn_steps := map cancel_step (sn_steps snapshot),
                    sn_cancel_requested := True, sn_status := RunStatus.Cancelled\<rparr>) run) in
     changed (RunCompleted RunOutcome.Cancelled) (Terminal (build_result run')) run')"

definition decision_for_active :: "nat \<Rightarrow> StepState \<Rightarrow> u64 \<Rightarrow> FlowRun \<Rightarrow> engine_result" where
  "decision_for_active index st now_ms run =
     (case st of
        AwaitingEffect attempt \<Rightarrow>
          early (effect_attempt run index attempt) run (\<lambda>effect.
          observe (EvaluateEffect effect False) run)
      | InFlight attempt _ \<Rightarrow>
          early (effect_attempt run index attempt) run (\<lambda>effect.
          if run_issued_attempt run = Some effect then observe (AwaitResult effect) run
          else if ea_effect effect = ReadOnly then observe (EvaluateEffect effect True) run
          else observe (Reconcile effect) run)
      | StepState.WaitingRetry next_attempt not_before_ms \<Rightarrow>
          if now_ms < not_before_ms then
            early (effect_attempt run index next_attempt) run (\<lambda>effect.
            observe (WaitRetry effect not_before_ms) run)
          else
            early (ensure_can_change run) run (\<lambda>_.
            let run' = on_snapshot (\<lambda>snapshot.
                  set_status AwaitingEffectEvaluation
                    (set_state index (AwaitingEffect next_attempt) snapshot)) run in
            early (effect_attempt run' index next_attempt) run' (\<lambda>effect.
            changed (EffectEvaluationRequired (ea_step_id effect) next_attempt)
              (EvaluateEffect effect False) run'))
      | _ \<Rightarrow> (Err UnexpectedStepState, run))"

definition schedule_step :: "(string \<Rightarrow> string) \<Rightarrow> nat \<Rightarrow> u8 \<Rightarrow> FlowRun \<Rightarrow> engine_result" where
  "schedule_step sha256 index attempt run =
     early (ensure_can_change run) run (\<lambda>_.
     let s = run_steps run ! index in
     (case ss_approval s of
        NotRequested \<Rightarrow>
          let token = approval_token sha256 (ss_idempotency_identity s);
              run' = on_snapshot (\<lambda>snapshot.
                set_status WaitingApproval
                  (set_approval index (StepApprovalState.Pending token) snapshot)) run
          in changed (ApprovalRequested (ss_id s)) (AwaitApproval (ss_id s) token) run'
      | StepApprovalState.Pending token \<Rightarrow> observe (AwaitApproval (ss_id s) token) run
      | Denied _ \<Rightarrow> (Err UnexpectedStepState, run)
      | _ \<Rightarrow>
          let run' = on_snapshot (\<lambda>snapshot.
                set_status AwaitingEffectEvaluation
                  (set_state index (AwaitingEffect attempt) snapshot)) run in
          early (effect_attempt run' index attempt) run' (\<lambda>effect.
          changed (EffectEvaluationRequired (ea_step_id effect) attempt)
            (EvaluateEffect effect False) run')))"

text \<open>The scheduling loop up to its first iteration that does not \<^verbatim>\<open>continue\<close>.\<close>

fun first_ready :: "FlowRun \<Rightarrow> nat list \<Rightarrow> FlowEngineError + nat option" where
  "first_ready run [] = Ok None"
| "first_ready run (index # rest) =
     (if ss_state (run_steps run ! index) \<noteq> StepState.Pending then first_ready run rest
      else and_then (prerequisites_complete run index) (\<lambda>complete.
           if complete then Ok (Some index) else first_ready run rest))"

definition cancelling_decision :: "FlowRun \<Rightarrow> engine_result" where
  "cancelling_decision run =
     early (in_flight_effect run) run (\<lambda>in_flight.
     (case in_flight of
        Some effect \<Rightarrow>
          if ea_effect effect = ReadOnly then finish_cancelled run
          else observe (Reconcile effect) run
      | None \<Rightarrow> finish_cancelled run))"

definition is_active_state :: "StepState \<Rightarrow> bool" where
  "is_active_state st \<longleftrightarrow> st \<noteq> StepState.Pending \<and> \<not> StepState_is_terminal st"

definition complete_run :: "FlowRun \<Rightarrow> engine_result" where
  "complete_run run =
     early (ensure_can_change run) run (\<lambda>_.
     let unresolved = list_ex (\<lambda>s. is_failed_state (ss_state s)) (run_steps run);
         outcome = (if unresolved then RunOutcome.Unresolved else Solved);
         run' = on_snapshot (set_status
                  (if unresolved then RunStatus.Unresolved else RunStatus.Succeeded)) run
     in changed (RunCompleted outcome) (Terminal (build_result run')) run')"

definition skip_step :: "nat \<Rightarrow> FlowRun \<Rightarrow> engine_result" where
  "skip_step index run =
     early (ensure_can_change run) run (\<lambda>_.
     changed (StepSkipped (ss_id (run_steps run ! index))) Continue
       (on_snapshot (set_state index StepState.Skipped) run))"

definition next_decision :: "(string \<Rightarrow> string) \<Rightarrow> u64 \<Rightarrow> FlowRun \<Rightarrow> engine_result" where
  "next_decision sha256 now_ms run =
     (if RunStatus_is_terminal (sn_status (run_snapshot run))
      then observe (Terminal (build_result run)) run
      else if sn_cancel_requested (run_snapshot run) then cancelling_decision run
      else
      (case position (\<lambda>s. is_active_state (ss_state s)) (run_steps run) of
         Some index \<Rightarrow> decision_for_active index (ss_state (run_steps run ! index)) now_ms run
       | None \<Rightarrow>
           early (first_ready run [0..<length (run_steps run)]) run (\<lambda>ready.
           (case ready of
              Some index \<Rightarrow>
                early (condition_is_true run index) run (\<lambda>c.
                if \<not> c then skip_step index run else schedule_step sha256 index 1 run)
            | None \<Rightarrow>
                if list_all (\<lambda>s. StepState_is_terminal (ss_state s)) (run_steps run)
                then complete_run run
                else (Err SchedulerStalled, run)))))"

section \<open>Approvals\<close>

definition resolve_approval :: "string \<Rightarrow> ApprovalDecision \<Rightarrow> FlowRun \<Rightarrow> engine_result" where
  "resolve_approval token decision run =
     (case position (\<lambda>s. ss_approval s = StepApprovalState.Pending token) (run_steps run) of
        None \<Rightarrow>
          if list_ex (\<lambda>s. is_pending_approval (ss_approval s)) (run_steps run)
          then (Err ApprovalTokenMismatch, run)
          else (Err NoApprovalPending, run)
      | Some index \<Rightarrow>
          let step_id = ss_id (run_steps run ! index) in
          early (ensure_can_change run) run (\<lambda>_.
          (case decision of
             Approve \<Rightarrow>
               changed (ApprovalGranted step_id) Continue
                 (on_snapshot (\<lambda>snapshot. set_status Running (set_approval index (Granted token) snapshot)) run)
           | Deny \<Rightarrow>
               let run' = on_snapshot (\<lambda>snapshot. set_status RunStatus.Blocked
                     (upd_step (set_approval index (Denied token) snapshot) index
                        (block_step (EffectReport_trusted approval_denied_text)))) run
               in changed (ApprovalDenied step_id) (Terminal (build_result run')) run')))"

section \<open>Effects\<close>

definition prepare_effect :: "EffectAttempt \<Rightarrow> u64 \<Rightarrow> FlowRun \<Rightarrow> engine_result" where
  "prepare_effect effect now_ms run =
     early (validate_effect run effect) run (\<lambda>_.
     early (ensure_can_change run) run (\<lambda>_.
     let index = ea_step_index effect;
         begin_effect = (\<lambda>replay run'.
           changed (EffectStarted (ea_step_id effect) (ea_attempt effect) replay)
             (Execute effect replay)
             (set_issued (Some effect) (on_snapshot (set_status EffectInFlight) run')))
     in
     (case ss_state (run_steps run ! index) of
        AwaitingEffect attempt \<Rightarrow>
          if attempt = ea_attempt effect
          then begin_effect False (on_snapshot (set_state index (InFlight attempt now_ms)) run)
          else (Err UnexpectedStepState, run)
      | InFlight attempt _ \<Rightarrow>
          if attempt = ea_attempt effect \<and> ea_effect effect = ReadOnly then begin_effect True run
          else (Err StatefulReplayRequiresReconcile, run)
      | _ \<Rightarrow> (Err UnexpectedStepState, run))))"

definition authorization_replay :: "FlowRun \<Rightarrow> EffectAttempt \<Rightarrow> FlowEngineError + bool" where
  "authorization_replay run effect =
     (case ss_state (run_steps run ! ea_step_index effect) of
        AwaitingEffect attempt \<Rightarrow>
          if attempt = ea_attempt effect
             \<and> sn_status (run_snapshot run) = AwaitingEffectEvaluation
          then Ok False else Err UnexpectedStepState
      | InFlight attempt _ \<Rightarrow>
          if attempt = ea_attempt effect \<and> sn_status (run_snapshot run) = EffectInFlight
             \<and> ea_effect effect = ReadOnly
          then Ok True else Err UnexpectedStepState
      | _ \<Rightarrow> Err UnexpectedStepState)"

definition block_run :: "nat \<Rightarrow> EffectReport \<Rightarrow> FlowRun \<Rightarrow> FlowRun" where
  "block_run index report run =
     on_snapshot (\<lambda>snapshot.
       set_status RunStatus.Blocked (upd_step snapshot index (block_step report))) run"

definition deny_effect_authorization :: "EffectAttempt \<Rightarrow> FlowRun \<Rightarrow> engine_result" where
  "deny_effect_authorization effect run =
     early (validate_effect run effect) run (\<lambda>_.
     if sn_cancel_requested (run_snapshot run) then (Err UnexpectedStepState, run)
     else
     early (authorization_replay run effect) run (\<lambda>replay.
     early (ensure_can_change run) run (\<lambda>_.
     let run' = set_issued None (block_run (ea_step_index effect)
                  (EffectReport_trusted authorization_denied_text) run)
     in changed (EffectAuthorizationDenied (ea_step_id effect) (ea_attempt effect) replay)
          (Terminal (build_result run')) run')))"

definition decision_for_current_state :: "FlowRun \<Rightarrow> nat \<Rightarrow> FlowEngineError + RunDecision" where
  "decision_for_current_state run index =
     (if RunStatus_is_terminal (sn_status (run_snapshot run)) then Ok (Terminal (build_result run))
      else
      (case ss_state (run_steps run ! index) of
         StepState.WaitingRetry next_attempt not_before_ms \<Rightarrow>
           and_then (effect_attempt run index next_attempt) (\<lambda>effect.
           Ok (WaitRetry effect not_before_ms))
       | StepState.Succeeded _ \<Rightarrow> Ok Continue
       | StepState.Failed _ \<Rightarrow> Ok Continue
       | StepState.Skipped \<Rightarrow> Ok Continue
       | StepState.Cancelled \<Rightarrow> Ok Continue
       | StepState.Blocked \<Rightarrow>
           if sn_status (run_snapshot run) = RunStatus.Blocked then Ok (Terminal (build_result run))
           else Err UnexpectedStepState
       | AwaitingEffect attempt \<Rightarrow>
           and_then (effect_attempt run index attempt) (\<lambda>effect. Ok (EvaluateEffect effect False))
       | InFlight attempt _ \<Rightarrow>
           and_then (effect_attempt run index attempt) (\<lambda>effect. Ok (AwaitResult effect))
       | StepState.Pending \<Rightarrow> Err UnexpectedStepState))"

text \<open>The tail of \<^verbatim>\<open>record_effect_result\<close>, once the result has been pushed.\<close>

definition settle_result ::
  "nat \<Rightarrow> EffectAttempt \<Rightarrow> EffectResultKind \<Rightarrow> (u8 \<times> u64) option \<Rightarrow> FlowRun \<Rightarrow> engine_result" where
  "settle_result index effect result_kind schedule run =
     (let settle = (\<lambda>st status. on_snapshot (\<lambda>snapshot. set_status status (set_state index st snapshot)) run);
          step_id = ea_step_id effect; attempt = ea_attempt effect
      in if sn_cancel_requested (run_snapshot run) then
        (case result_kind of
           EffectResultKind.Succeeded \<Rightarrow>
             changed (EffectSucceeded step_id attempt) Continue
               (settle (StepState.Succeeded attempt) Cancelling)
         | EffectResultKind.Failed _ \<Rightarrow>
             changed (EffectFailed step_id attempt) Continue
               (settle (StepState.Failed attempt) Cancelling))
      else
        (case (result_kind, schedule) of
           (EffectResultKind.Succeeded, _) \<Rightarrow>
             changed (EffectSucceeded step_id attempt) Continue
               (settle (StepState.Succeeded attempt) Running)
         | (EffectResultKind.Failed _, Some (next_attempt, not_before_ms)) \<Rightarrow>
             let run' = settle (StepState.WaitingRetry next_attempt not_before_ms) RunStatus.WaitingRetry in
             early (effect_attempt run' index next_attempt) run' (\<lambda>next_effect.
             changed (RetryScheduled step_id next_attempt not_before_ms)
               (WaitRetry next_effect not_before_ms) run')
         | (EffectResultKind.Failed retryable, None) \<Rightarrow>
             changed (if retryable then RetryExhausted step_id attempt else EffectFailed step_id attempt)
               Continue (settle (StepState.Failed attempt) Running)))"

definition record_effect_result :: "EffectAttempt \<Rightarrow> EffectResult \<Rightarrow> u64 \<Rightarrow> FlowRun \<Rightarrow> engine_result" where
  "record_effect_result effect result now_ms run =
     early (EffectResult_validate result ''effect_result'') run (\<lambda>_.
     early (validate_effect run effect) run (\<lambda>_.
     let index = ea_step_index effect in
     (case find (\<lambda>r. rr_attempt r = ea_attempt effect) (ss_results (run_steps run ! index)) of
        Some recorded \<Rightarrow>
          if rr_result recorded = result
          then early (decision_for_current_state run index) run (\<lambda>decision. observe decision run)
          else (Err (ConflictingEffectResult (ea_step_id effect) (ea_attempt effect)), run)
      | None \<Rightarrow>
          if \<not> in_flight_attempt (ss_state (run_steps run ! index)) (ea_attempt effect)
          then (Err UnexpectedStepState, run)
          else
          early (retry_schedule run index effect (res_kind result) now_ms) run (\<lambda>schedule.
          early (ensure_can_change run) run (\<lambda>_.
          settle_result index effect (res_kind result) schedule
            (set_issued None (on_snapshot (\<lambda>snapshot. upd_step snapshot index (\<lambda>s.
               s\<lparr>ss_results := ss_results s
                  @ [\<lparr>rr_attempt = ea_attempt effect, rr_result = result\<rparr>]\<rparr>)) run)))))))"

definition record_reconciliation ::
  "EffectAttempt \<Rightarrow> ReconciliationResult \<Rightarrow> u64 \<Rightarrow> FlowRun \<Rightarrow> engine_result" where
  "record_reconciliation effect reconciliation now_ms run =
     early (validate_effect run effect) run (\<lambda>_.
     let index = ea_step_index effect in
     if ea_effect effect \<noteq> Stateful
        \<or> \<not> in_flight_attempt (ss_state (run_steps run ! index)) (ea_attempt effect)
     then (Err UnexpectedStepState, run)
     else
     (case reconciliation of
        Completed result \<Rightarrow> record_effect_result effect result now_ms run
      | NotApplied \<Rightarrow>
          early (ensure_can_change run) run (\<lambda>_.
          if sn_cancel_requested (run_snapshot run) then finish_cancelled run
          else changed (ReconciledNotApplied (ea_step_id effect) (ea_attempt effect))
                 (EvaluateEffect effect False)
                 (on_snapshot (\<lambda>snapshot. set_status AwaitingEffectEvaluation
                    (set_state index (AwaitingEffect (ea_attempt effect)) snapshot)) run))
      | Unknown report \<Rightarrow>
          early (ensure_can_change run) run (\<lambda>_.
          early (EffectReport_validate report ''reconciliation.unknown'') run (\<lambda>_.
          let run' = block_run index report run in
          changed (ReconciliationUnknown (ea_step_id effect) (ea_attempt effect))
            (Terminal (build_result run')) run'))))"

definition cancel :: "FlowRun \<Rightarrow> engine_result" where
  "cancel run =
     (if RunStatus_is_terminal (sn_status (run_snapshot run))
      then observe (Terminal (build_result run)) run
      else if sn_cancel_requested (run_snapshot run) then cancelling_decision run
      else
      early (ensure_can_change run) run (\<lambda>_.
      let run' = on_snapshot (\<lambda>snapshot. snapshot\<lparr>sn_cancel_requested := True\<rparr>) run in
      early (in_flight_effect run') run' (\<lambda>in_flight.
      (case in_flight of
         Some effect \<Rightarrow>
           if ea_effect effect = ReadOnly then finish_cancelled run'
           else changed CancellationRequested (Reconcile effect)
                  (on_snapshot (set_status Cancelling) run')
       | None \<Rightarrow> finish_cancelled run'))))"

end
