(* ===== verification/Flow_Graph.thy ===== *)
theory Flow_Graph
  imports Flow_Definition
begin

text \<open>
  What a definition accepted by \<^verbatim>\<open>FlowDefinition::validate\<close> guarantees.  The depth-first
  search of \<^verbatim>\<open>validate_acyclic\<close> accepts exactly the acyclic reference graphs; the step ids
  are distinct slugs; every reference resolves to a declared step; retry policies are
  bounded.
\<close>

section \<open>The depth-first search\<close>

text \<open>\<open>(j, i)\<close> is an edge when step \<open>i\<close> refers to step \<open>j\<close>.\<close>

definition reference_edges :: "FlowStep list \<Rightarrow> (string \<rightharpoonup> nat) \<Rightarrow> (nat \<times> nat) set" where
  "reference_edges steps idx =
     {(j, i). i < length steps \<and> Some j \<in> idx ` set (step_references (steps ! i))}"

definition references_resolve :: "FlowStep list \<Rightarrow> (string \<rightharpoonup> nat) \<Rightarrow> bool" where
  "references_resolve steps idx \<longleftrightarrow>
     (\<forall>s \<in> set steps. \<forall>r \<in> set (step_references s). \<exists>j < length steps. idx r = Some j)"

declare visit_list.simps(3) [simp del]

lemma visit_list_Cons_Inr:
  assumes "visit_list steps idx (Some i # refs) states stack = Inr states'"
  obtains
    (black) "\<not> length states \<le> i" "states ! i = Some Complete"
      "visit_list steps idx refs states stack = Inr states'"
  | (white) st where "\<not> length states \<le> i" "states ! i = None"
      "visit_list steps idx (map idx (step_references (steps ! i)))
         (states[i := Some Visiting]) (stack @ [i]) = Inr st"
      "visit_list steps idx refs (st[i := Some Complete]) stack = Inr states'"
  using assms
  by (auto simp: visit_list.simps(3) split: if_splits option.splits Visit.splits sum.splits)

lemma visit_list_length:
  "visit_list steps idx refs states stack = Inr states' \<Longrightarrow> length states' = length states"
proof (induction steps idx refs states stack arbitrary: states' rule: visit_list.induct)
  case (3 steps idx i refs states stack)
  from "3.prems" show ?case
  proof (cases rule: visit_list_Cons_Inr)
    case black
    then show ?thesis using 3(3) by simp
  next
    case (white st)
    then show ?thesis using 3(1) [OF white(1-3)] 3(2) [OF white] by simp
  qed
qed auto

lemma visit_list_grey:
  "visit_list steps idx refs states stack = Inr states' \<Longrightarrow>
   (states' ! k = Some Visiting) = (states ! k = Some Visiting)"
proof (induction steps idx refs states stack arbitrary: states' rule: visit_list.induct)
  case (3 steps idx i refs states stack)
  from "3.prems" show ?case
  proof (cases rule: visit_list_Cons_Inr)
    case black
    then show ?thesis using 3(3) by simp
  next
    case (white st)
    have "length st = length states" using visit_list_length [OF white(3)] by simp
    with white 3(1) [OF white(1-3)] 3(2) [OF white] show ?thesis
      by (cases "k = i") auto
  qed
qed auto

lemma visit_list_black_mono:
  "visit_list steps idx refs states stack = Inr states' \<Longrightarrow>
   states ! k = Some Complete \<Longrightarrow> k < length states \<Longrightarrow> states' ! k = Some Complete"
proof (induction steps idx refs states stack arbitrary: states' rule: visit_list.induct)
  case (3 steps idx i refs states stack)
  from "3.prems"(1) show ?case
  proof (cases rule: visit_list_Cons_Inr)
    case black
    then show ?thesis using 3(3) "3.prems"(2,3) by simp
  next
    case (white st)
    have len: "length st = length states" using visit_list_length [OF white(3)] by simp
    have ne: "k \<noteq> i" using white(2) "3.prems"(2) by auto
    have "st ! k = Some Complete"
      using 3(1) [OF white(1-3)] ne "3.prems"(2,3) by simp
    with 3(2) [OF white] ne len "3.prems"(3) show ?thesis by simp
  qed
qed auto

text \<open>A finished step is in the well-founded part of the reference relation.\<close>

lemma visit_list_sound:
  assumes "visit_list steps idx refs states stack = Inr states'"
    and "length states = length steps"
    and "\<And>k. k < length states \<Longrightarrow> states ! k = Some Complete \<Longrightarrow>
           k \<in> Wellfounded.acc (reference_edges steps idx)"
  shows "(\<forall>k < length states. states' ! k = Some Complete \<longrightarrow>
             k \<in> Wellfounded.acc (reference_edges steps idx))
       \<and> (\<forall>j. Some j \<in> set refs \<longrightarrow> j < length states \<and> states' ! j = Some Complete)
       \<and> None \<notin> set refs"
  using assms
proof (induction steps idx refs states stack arbitrary: states' rule: visit_list.induct)
  case (3 steps idx i refs states stack)
  from "3.prems"(1) show ?case
  proof (cases rule: visit_list_Cons_Inr)
    case (white st)
    have len: "length st = length states" using visit_list_length [OF white(3)] by simp
    have inner: "(\<forall>k < length states. st ! k = Some Complete \<longrightarrow>
             k \<in> Wellfounded.acc (reference_edges steps idx))
       \<and> (\<forall>j. Some j \<in> set (map idx (step_references (steps ! i))) \<longrightarrow>
             j < length states \<and> st ! j = Some Complete)"
    proof -
      have "k \<in> Wellfounded.acc (reference_edges steps idx)"
        if "k < length (states[i := Some Visiting])" "states[i := Some Visiting] ! k = Some Complete" for k
        using that "3.prems"(3) [of k] by (cases "k = i") simp_all
      then have "(\<forall>k < length (states[i := Some Visiting]). st ! k = Some Complete \<longrightarrow>
             k \<in> Wellfounded.acc (reference_edges steps idx))
       \<and> (\<forall>j. Some j \<in> set (map idx (step_references (steps ! i))) \<longrightarrow>
             j < length (states[i := Some Visiting]) \<and> st ! j = Some Complete)
       \<and> None \<notin> set (map idx (step_references (steps ! i)))"
        by (intro 3(1) [OF white(1-3)]) (use "3.prems"(2) in simp)
      then show ?thesis unfolding length_list_update by blast
    qed
    have "i \<in> Wellfounded.acc (reference_edges steps idx)"
      using inner by (rule_tac Wellfounded.accI) (auto simp: reference_edges_def image_iff)
    then have black: "k \<in> Wellfounded.acc (reference_edges steps idx)"
      if "k < length (st[i := Some Complete])" "st[i := Some Complete] ! k = Some Complete" for k
      using that inner len by (cases "k = i") simp_all
    have "states' ! i = Some Complete"
      using visit_list_black_mono [OF white(4), of i] len white(1) by simp
    moreover have "(\<forall>k < length (st[i := Some Complete]). states' ! k = Some Complete \<longrightarrow>
             k \<in> Wellfounded.acc (reference_edges steps idx))
       \<and> (\<forall>j. Some j \<in> set refs \<longrightarrow>
             j < length (st[i := Some Complete]) \<and> states' ! j = Some Complete)
       \<and> None \<notin> set refs"
      by (intro 3(2) [OF white] black) (use "3.prems"(2) len in simp)
    ultimately show ?thesis using white(1) len unfolding length_list_update by auto
  next
    case black
    have "states' ! i = Some Complete"
      using visit_list_black_mono [OF black(3), of i] black by simp
    then show ?thesis
      using 3(3) [OF black(1) black(2) refl black(3) "3.prems"(2,3)] black(1) by auto
  qed
qed auto

text \<open>On an acyclic graph whose references resolve the search never fails.\<close>

lemma visit_list_complete:
  assumes "acyclic (reference_edges steps idx)" and "references_resolve steps idx"
    and "length states = length steps"
    and "\<forall>r \<in> set refs. \<exists>j < length steps. r = Some j"
    and "\<forall>g < length steps. states ! g = Some Visiting \<longrightarrow>
           (\<forall>j. Some j \<in> set refs \<longrightarrow> (j, g) \<in> (reference_edges steps idx)\<^sup>+)"
  shows "\<exists>states'. visit_list steps idx refs states stack = Inr states'"
  using assms
proof (induction steps idx refs states stack rule: visit_list.induct)
  case (3 steps idx i refs states stack)
  then have i: "\<not> length states \<le> i" by auto
  have white_or_black: "states ! i \<noteq> Some Visiting"
  proof
    assume "states ! i = Some Visiting"
    with "3.prems"(3,5) i have "(i, i) \<in> (reference_edges steps idx)\<^sup>+" by simp
    with "3.prems"(1) show False by (simp add: acyclic_def)
  qed
  show ?case
  proof (cases "states ! i")
    case None
    have edge: "(j, i) \<in> reference_edges steps idx"
      if "Some j \<in> set (map idx (step_references (steps ! i)))" for j
      using that i "3.prems"(3) by (auto simp: reference_edges_def image_iff)
    have "\<forall>g < length steps. (states[i := Some Visiting]) ! g = Some Visiting \<longrightarrow>
        (\<forall>j. Some j \<in> set (map idx (step_references (steps ! i))) \<longrightarrow>
           (j, g) \<in> (reference_edges steps idx)\<^sup>+)"
      using edge "3.prems"(3,5) i by (auto simp: nth_list_update intro: trancl_into_trancl2)
    moreover have "\<forall>r \<in> set (map idx (step_references (steps ! i))). \<exists>j < length steps. r = Some j"
      using "3.prems"(2,3) i by (auto simp: references_resolve_def)
    ultimately obtain st where
      st: "visit_list steps idx (map idx (step_references (steps ! i)))
             (states[i := Some Visiting]) (stack @ [i]) = Inr st"
      using 3(1) [OF i None "3.prems"(1,2)] "3.prems"(3) by auto
    have len: "length st = length states" using visit_list_length [OF st] by simp
    have grey: "st[i := Some Complete] ! g = Some Visiting \<Longrightarrow> states ! g = Some Visiting"
      if "g < length steps" for g
      using visit_list_grey [OF st, of g] that len "3.prems"(3) i
      by (cases "g = i") auto
    obtain st' where "visit_list steps idx refs (st[i := Some Complete]) stack = Inr st'"
      using 3(2) [OF i None st "3.prems"(1,2)] "3.prems"(3-5) len grey by auto
    with i None st show ?thesis by (simp add: visit_list.simps(3))
  next
    case (Some v)
    with white_or_black have v: "v = Complete" by (cases v) auto
    show ?thesis using 3(3) [OF i Some v "3.prems"(1,2,3)] "3.prems"(4,5) i Some v
      by (simp add: visit_list.simps(3))
  qed
qed auto

lemma acyclic_if_all_acc:
  assumes "\<And>k. k < length steps \<Longrightarrow> k \<in> Wellfounded.acc (reference_edges steps idx)"
  shows "wf (reference_edges steps idx)"
proof (rule acc_wfI, rule allI)
  fix x
  show "x \<in> Wellfounded.acc (reference_edges steps idx)"
  proof (cases "x < length steps")
    case True
    then show ?thesis by (rule assms)
  next
    case False
    then show ?thesis by (rule_tac Wellfounded.accI) (simp add: reference_edges_def)
  qed
qed

lemma validate_acyclic_wf:
  assumes "validate_acyclic steps idx = Ok ()"
  shows "wf (reference_edges steps idx)"
proof (rule acyclic_if_all_acc)
  fix k assume k: "k < length steps"
  obtain st where "visit_list steps idx (map Some [0..<length steps])
      (replicate (length steps) None) [] = Inr st"
    using assms by (auto simp: validate_acyclic_def and_then_Inr_iff)
  note sound = visit_list_sound [OF this]
  have "st ! k = Some Complete"
    by (rule sound [THEN conjunct2, THEN conjunct1, THEN spec, THEN mp, THEN conjunct2])
       (use k in auto)
  moreover have "\<forall>k < length (replicate (length steps) (None :: Visit option)). st ! k = Some Complete \<longrightarrow>
      k \<in> Wellfounded.acc (reference_edges steps idx)"
    by (rule sound [THEN conjunct1]) simp_all
  ultimately show "k \<in> Wellfounded.acc (reference_edges steps idx)" using k by simp
qed

lemma validate_acyclic_complete:
  assumes "acyclic (reference_edges steps idx)" and "references_resolve steps idx"
  shows "validate_acyclic steps idx = Ok ()"
proof -
  have "\<exists>st. visit_list steps idx (map Some [0..<length steps]) (replicate (length steps) None) [] = Inr st"
    using assms by (intro visit_list_complete) auto
  then show ?thesis by (auto simp: validate_acyclic_def)
qed

section \<open>Text validators do not depend on the reported path\<close>

lemma reject_secret_like_path:
  "reject_secret_like path v = Ok u \<Longrightarrow> reject_secret_like path' v = Ok u'"
  by (auto simp: reject_secret_like_def validation_error_def Let_def split: if_splits)

lemma validate_text_path:
  "validate_text path v m = Ok u \<Longrightarrow> validate_text path' v m = Ok u'"
  by (auto simp: validate_text_def validation_error_def intro: reject_secret_like_path split: if_splits)

lemma validate_slug_path:
  "validate_slug path v m = Ok u \<Longrightarrow> validate_slug path' v m = Ok u'"
  by (auto simp: validate_slug_def validation_error_def and_then_Inr_iff
           intro: validate_text_path split: if_splits)

section \<open>The step index\<close>

lemma index_steps_Ok:
  assumes "index_steps i m steps = Ok m'"
  shows "distinct (map fs_id steps) \<and> (\<forall>s \<in> set steps. m (fs_id s) = None)
       \<and> (\<forall>s \<in> set steps. \<forall>path. validate_slug path (fs_id s) MAX_FLOW_ID_BYTES = Ok ())
       \<and> (\<forall>r. m' r = (case position (\<lambda>s. fs_id s = r) steps of
                         None \<Rightarrow> m r | Some k \<Rightarrow> Some (i + k)))"
  using assms
proof (induction steps arbitrary: i m)
  case (Cons s ss)
  then have slug: "validate_slug (index_path ''steps'' i @ ''.id'') (fs_id s) MAX_FLOW_ID_BYTES = Ok ()"
    and fresh: "m (fs_id s) = None"
    and rest: "index_steps (i + 1) (m(fs_id s \<mapsto> i)) ss = Ok m'"
    by (auto simp: Let_def and_then_Inr_iff validation_error_def split: option.splits)
  note IH = Cons.IH [OF rest]
  have notin: "fs_id s \<notin> fs_id ` set ss" using IH by auto
  have fresh': "m (fs_id t) = None" if "t \<in> set ss" for t
    using that IH notin by (auto split: if_splits)
  have "m' r = (case position (\<lambda>s. fs_id s = r) (s # ss) of
                  None \<Rightarrow> m r | Some k \<Rightarrow> Some (i + k))" for r
  proof (cases "fs_id s = r")
    case True
    with notin have "position (\<lambda>s. fs_id s = r) ss = None"
      unfolding position_None_iff by (blast intro: rev_image_eqI)
    with IH True show ?thesis by simp
  next
    case False
    with IH show ?thesis by (auto split: option.splits)
  qed
  then show ?case
    using IH slug validate_slug_path [OF slug] notin fresh fresh' by auto
qed simp

lemma validate_dependencies_Ok:
  "validate_dependencies base self idx i seen ds = Ok () \<Longrightarrow>
   (\<forall>d \<in> set ds. idx d \<noteq> None \<and> d \<noteq> self) \<and> distinct ds \<and> set ds \<inter> set seen = {}"
proof (induction ds arbitrary: i seen)
  case (Cons a ds)
  then have "validate_dependencies base self idx (i + 1) (a # seen) ds = Ok ()"
    and "idx a \<noteq> None" "a \<noteq> self" "a \<notin> set seen"
    by (auto simp: Let_def and_then_Inr_iff validation_error_def split: if_splits)
  with Cons.IH [of "i + 1" "a # seen"] show ?case by auto
qed simp

section \<open>What a validated definition guarantees\<close>

lemma FlowStep_validate_Ok:
  assumes "FlowStep_validate s index v idx = Ok ()"
  shows "RetryPolicy_validate (fs_retry s) (index_path ''steps'' index @ ''.retry'') = Ok ()"
    and "\<forall>r \<in> set (step_references s). idx r \<noteq> None \<and> r \<noteq> fs_id s"
    and "fs_effect s = Stateful \<longrightarrow> fs_approval s = Required \<and> fs_idempotency_key s \<noteq> None"
    and "0 < fs_timeout_seconds s \<and> fs_timeout_seconds s \<le> MAX_TIMEOUT_SECONDS"
proof -
  note split = assms [unfolded FlowStep_validate_def Let_def and_then_Inr_iff]
  show "RetryPolicy_validate (fs_retry s) (index_path ''steps'' index @ ''.retry'') = Ok ()"
    using split by auto
  show "fs_effect s = Stateful \<longrightarrow> fs_approval s = Required \<and> fs_idempotency_key s \<noteq> None"
    using split by (auto simp: validation_error_def split: if_splits)
  show "0 < fs_timeout_seconds s \<and> fs_timeout_seconds s \<le> MAX_TIMEOUT_SECONDS"
    using split by (auto simp: validation_error_def word_gt_0 split: if_splits)
  have deps: "\<forall>d \<in> set (fs_depends_on s). idx d \<noteq> None \<and> d \<noteq> fs_id s"
    using split validate_dependencies_Ok [of "index_path ''steps'' index" "fs_id s" idx 0 "[]"]
    by fastforce
  have "idx r \<noteq> None \<and> r \<noteq> fs_id s" if "referenced_step (fs_condition s) = Some r" for r
  proof -
    from split that have "and_then (validate_slug (index_path ''steps'' index @ ''.condition.step'') r
        MAX_FLOW_ID_BYTES) (\<lambda>_.
        if idx r = None
        then validation_error (index_path ''steps'' index @ ''.condition.step'')
               (''references unknown step `'' @ r @ ''`'')
        else if r = fs_id s
        then validation_error (index_path ''steps'' index @ ''.condition.step'')
               ''cannot reference the step itself''
        else Ok ()) = Ok ()" by auto
    then show ?thesis by (auto simp: and_then_Inr_iff validation_error_def split: if_splits)
  qed
  with deps show "\<forall>r \<in> set (step_references s). idx r \<noteq> None \<and> r \<noteq> fs_id s"
    by (cases "referenced_step (fs_condition s)") (auto simp: step_references_def)
qed

lemma RetryPolicy_validate_Ok:
  assumes "RetryPolicy_validate r path = Ok ()"
  shows "0 < max_attempts r" and "max_attempts r \<le> MAX_RETRY_ATTEMPTS"
    and "1 < max_attempts r \<Longrightarrow> 0 < initial_backoff_ms r \<and> initial_backoff_ms r \<le> max_backoff_ms r
           \<and> initial_backoff_ms r \<le> MAX_INITIAL_BACKOFF_MS \<and> max_backoff_ms r \<le> MAX_BACKOFF_MS"
  using assms
  by (auto simp: RetryPolicy_validate_def validation_error_def word_gt_0 not_less split: if_splits)

text \<open>The index every reference of the engine is looked up with.\<close>

definition step_index :: "FlowStep list \<Rightarrow> string \<Rightarrow> nat option" where
  "step_index steps r = position (\<lambda>s. fs_id s = r) steps"

lemma FlowDefinition_validate_Ok:
  assumes "FlowDefinition_validate d = Ok ()"
  shows "fd_steps d \<noteq> []" and "length (fd_steps d) \<le> MAX_FLOW_STEPS"
    and "distinct (map fs_id (fd_steps d))"
    and "\<And>s path. s \<in> set (fd_steps d) \<Longrightarrow> validate_slug path (fs_id s) MAX_FLOW_ID_BYTES = Ok ()"
    and "references_resolve (fd_steps d) (step_index (fd_steps d))"
    and "wf (reference_edges (fd_steps d) (step_index (fd_steps d)))"
    and "\<And>s. s \<in> set (fd_steps d) \<Longrightarrow> \<exists>path. RetryPolicy_validate (fs_retry s) path = Ok ()"
    and "\<And>s. s \<in> set (fd_steps d) \<Longrightarrow> fs_effect s = Stateful \<Longrightarrow>
           fs_approval s = Required \<and> fs_idempotency_key s \<noteq> None"
    and "OutcomeTemplate_validate (fd_outcome d) = Ok ()"
proof -
  obtain idx where ix: "index_steps 0 Map.empty (fd_steps d) = Ok idx"
    and each: "for_each (\<lambda>index s. FlowStep_validate s index (fd_schema_version d) idx) 0 (fd_steps d) = Ok ()"
    and acyclic: "validate_acyclic (fd_steps d) idx = Ok ()"
    and "fd_steps d \<noteq> []" "length (fd_steps d) \<le> MAX_FLOW_STEPS"
    and "OutcomeTemplate_validate (fd_outcome d) = Ok ()"
    using assms
    by (auto simp: FlowDefinition_validate_def and_then_Inr_iff validation_error_def split: if_splits)
  then show "fd_steps d \<noteq> []" "length (fd_steps d) \<le> MAX_FLOW_STEPS"
    "OutcomeTemplate_validate (fd_outcome d) = Ok ()" by simp_all
  note steps = index_steps_Ok [OF ix]
  have idx: "idx = step_index (fd_steps d)"
    using steps by (auto simp: step_index_def fun_eq_iff split: option.splits)
  show "distinct (map fs_id (fd_steps d))" using steps by blast
  show "\<And>s path. s \<in> set (fd_steps d) \<Longrightarrow> validate_slug path (fs_id s) MAX_FLOW_ID_BYTES = Ok ()"
    using steps by blast
  have valid: "\<exists>index. FlowStep_validate s index (fd_schema_version d) idx = Ok ()"
    if "s \<in> set (fd_steps d)" for s
    using each that by (auto simp: for_each_Inr_iff in_set_conv_nth)
  show "wf (reference_edges (fd_steps d) (step_index (fd_steps d)))"
    using validate_acyclic_wf [OF acyclic] idx by simp
  show "\<And>s. s \<in> set (fd_steps d) \<Longrightarrow> \<exists>path. RetryPolicy_validate (fs_retry s) path = Ok ()"
    using valid FlowStep_validate_Ok(1) by blast
  show "fs_approval s = Required \<and> fs_idempotency_key s \<noteq> None"
    if "s \<in> set (fd_steps d)" "fs_effect s = Stateful" for s
    using valid [OF that(1)] FlowStep_validate_Ok(3) that(2) by blast
  have "\<exists>j < length (fd_steps d). idx r = Some j"
    if "s \<in> set (fd_steps d)" "r \<in> set (step_references s)" for s r
  proof -
    have "idx r \<noteq> None" using valid [OF that(1)] FlowStep_validate_Ok(2) that(2) by blast
    then show ?thesis by (auto simp: idx step_index_def dest: position_SomeD)
  qed
  then show "references_resolve (fd_steps d) (step_index (fd_steps d))"
    by (auto simp: references_resolve_def idx)
qed

end
