(* ===== verification/Flow_Machine.thy ===== *)
theory Flow_Machine
  imports Flow_Engine Flow_Graph
begin

text \<open>
  The specification of the flow engine: the invariant of a run's snapshot and an
  inductive transition relation, one rule per transition the engine may append.  The
  relation preserves the invariant; terminal step states and recorded results are never
  rewritten.
\<close>

section \<open>Reports\<close>

definition report_valid :: "EffectReport \<Rightarrow> bool" where
  "report_valid r \<longleftrightarrow> EffectReport_validate r [] = Ok ()"

lemma validate_engine_text_path:
  "validate_engine_text path v m = Ok u \<longleftrightarrow> validate_engine_text path' v m = Ok ()"
  by (auto simp: validate_engine_text_def engine_invalid_def intro: reject_secret_like_path)

lemma validate_engine_identity_path:
  "validate_engine_identity path v m = Ok u \<longleftrightarrow> validate_engine_identity path' v m = Ok ()"
  using validate_engine_text_path [of path v m _ path']
  by (auto simp: validate_engine_identity_def engine_invalid_def and_then_Inr_iff)

lemma EffectReport_validate_iff [simp]: "EffectReport_validate r path = Ok u \<longleftrightarrow> report_valid r"
  unfolding report_valid_def EffectReport_validate_def and_then_Inr_iff
  using validate_engine_text_path [of "path @ ''.summary''" "er_summary r" MAX_EFFECT_SUMMARY_BYTES]
    validate_engine_identity_path
  by (auto simp: engine_invalid_def for_each_Inr_iff) metis+

lemma EffectResult_validate_iff [simp]:
  "EffectResult_validate r path = Ok u \<longleftrightarrow> report_valid (res_report r)"
  by (simp add: EffectResult_validate_def)

lemma trusted_reports_valid [simp]:
  "report_valid (EffectReport_trusted approval_denied_text)"
  "report_valid (EffectReport_trusted authorization_denied_text)"
  unfolding report_valid_def by code_simp+

section \<open>The step invariant\<close>

definition quiet :: "StepSnapshot \<Rightarrow> bool" where
  "quiet s \<longleftrightarrow> \<not> step_is_active s \<and> ss_state s \<noteq> StepState.Blocked \<and> ss_state s \<noteq> StepState.Cancelled"

definition results_inv :: "StepSnapshot \<Rightarrow> bool" where
  "results_inv s \<longleftrightarrow>
     (\<forall>k < length (ss_results s). unat (rr_attempt (ss_results s ! k)) = k + 1
        \<and> report_valid (res_report (rr_result (ss_results s ! k))))"

definition approval_inv :: "StepSnapshot \<Rightarrow> bool" where
  "approval_inv s =
     (case ss_approval s of
        NotRequested \<Rightarrow>
          ss_state s \<in> {StepState.Pending, StepState.Skipped, StepState.Cancelled} \<and> ss_results s = []
      | StepApprovalState.Pending _ \<Rightarrow> ss_state s = StepState.Pending
      | Denied _ \<Rightarrow> ss_state s = StepState.Blocked
      | _ \<Rightarrow> True)"

text \<open>How many results a step in each state has, and that all but a settled last one are
  failures that may be retried.\<close>

fun history_inv :: "StepState \<Rightarrow> u8 \<Rightarrow> bool \<Rightarrow> RecordedEffectResult list \<Rightarrow> bool" where
  "history_inv StepState.Pending m c rs = (rs = [])"
| "history_inv StepState.Skipped m c rs = (rs = [])"
| "history_inv (AwaitingEffect a) m c rs =
     (unat a = length rs + 1 \<and> a \<le> m \<and> list_all is_retryable_failure rs)"
| "history_inv (InFlight a _) m c rs =
     (unat a = length rs + 1 \<and> a \<le> m \<and> list_all is_retryable_failure rs)"
| "history_inv (StepState.WaitingRetry a _) m c rs =
     (unat a = length rs + 1 \<and> a \<le> m \<and> list_all is_retryable_failure rs \<and> rs \<noteq> [])"
| "history_inv (StepState.Succeeded a) m c rs =
     (unat a = length rs \<and> a \<le> m \<and> rs \<noteq> [] \<and> list_all is_retryable_failure (butlast rs)
      \<and> res_kind (rr_result (last rs)) = EffectResultKind.Succeeded)"
| "history_inv (StepState.Failed a) m c rs =
     (unat a = length rs \<and> a \<le> m \<and> rs \<noteq> [] \<and> list_all is_retryable_failure (butlast rs)
      \<and> (\<exists>retryable. res_kind (rr_result (last rs)) = EffectResultKind.Failed retryable
           \<and> (\<not> retryable \<or> c \<or> a = m)))"
| "history_inv StepState.Blocked m c rs = (length rs \<le> unat m \<and> list_all is_retryable_failure rs)"
| "history_inv StepState.Cancelled m c rs = (length rs \<le> unat m \<and> list_all is_retryable_failure rs)"

definition step_inv ::
  "(string \<Rightarrow> string) \<Rightarrow> string \<Rightarrow> string \<Rightarrow> bool \<Rightarrow> FlowStep \<Rightarrow> StepSnapshot \<Rightarrow> bool" where
  "step_inv sha256 run_id digest c declared s \<longleftrightarrow>
     ss_id s = fs_id declared
   \<and> ss_semantic_role s = semantic_role declared
   \<and> ss_idempotency_identity s =
       idempotency_identity sha256 run_id digest (fs_id declared) (fs_idempotency_key declared)
   \<and> approval_matches_mode (ss_approval s) (fs_approval declared)
   \<and> \<not> token_mismatch sha256 s
   \<and> approval_inv s
   \<and> results_inv s
   \<and> history_inv (ss_state s) (max_attempts (fs_retry declared)) c (ss_results s)
   \<and> (ss_blocked_report s \<noteq> None) = (ss_state s = StepState.Blocked)
   \<and> (\<forall>r. ss_blocked_report s = Some r \<longrightarrow> report_valid r)"

section \<open>The snapshot invariant\<close>

definition quiet_except :: "nat \<Rightarrow> FlowSnapshot \<Rightarrow> bool" where
  "quiet_except i sn \<longleftrightarrow> (\<forall>j < length (sn_steps sn). j \<noteq> i \<longrightarrow> quiet (sn_steps sn ! j))"

definition all_quiet :: "FlowSnapshot \<Rightarrow> bool" where
  "all_quiet sn \<longleftrightarrow> (\<forall>j < length (sn_steps sn). quiet (sn_steps sn ! j))"

text \<open>\<open>P\<close> holds of one step and every other step is quiet.\<close>

definition focused :: "(nat \<Rightarrow> StepSnapshot \<Rightarrow> bool) \<Rightarrow> FlowSnapshot \<Rightarrow> bool" where
  "focused P sn \<longleftrightarrow> (\<exists>i < length (sn_steps sn). P i (sn_steps sn ! i) \<and> quiet_except i sn)"

definition is_waiting_retry :: "StepState \<Rightarrow> bool" where
  "is_waiting_retry st \<longleftrightarrow> (case st of StepState.WaitingRetry _ _ \<Rightarrow> True | _ \<Rightarrow> False)"

definition is_awaiting_effect :: "StepState \<Rightarrow> bool" where
  "is_awaiting_effect st \<longleftrightarrow> (case st of AwaitingEffect _ \<Rightarrow> True | _ \<Rightarrow> False)"

definition all_terminal :: "FlowSnapshot \<Rightarrow> bool" where
  "all_terminal sn \<longleftrightarrow> (\<forall>s \<in> set (sn_steps sn). StepState_is_terminal (ss_state s))"

definition any_failed :: "FlowSnapshot \<Rightarrow> bool" where
  "any_failed sn \<longleftrightarrow> (\<exists>s \<in> set (sn_steps sn). is_failed_state (ss_state s))"

text \<open>A step that was asked for approval, started or skipped: its references are settled
  and its condition decides between running and skipping.\<close>

definition started :: "StepSnapshot \<Rightarrow> bool" where
  "started s \<longleftrightarrow>
     ss_state s \<noteq> StepState.Cancelled \<and>
     (ss_state s = StepState.Pending \<longrightarrow>
        is_pending_approval (ss_approval s) \<or> is_granted (ss_approval s))"

definition ready :: "FlowDefinition \<Rightarrow> FlowSnapshot \<Rightarrow> nat \<Rightarrow> bool" where
  "ready d sn i \<longleftrightarrow> references_terminal d sn (fd_steps d ! i)"

definition condition_holds :: "FlowDefinition \<Rightarrow> FlowSnapshot \<Rightarrow> nat \<Rightarrow> bool" where
  "condition_holds d sn i \<longleftrightarrow> declared_condition_true d sn (fs_condition (fd_steps d ! i))"

text \<open>No earlier step could have been scheduled instead.\<close>

definition first_pending :: "FlowDefinition \<Rightarrow> FlowSnapshot \<Rightarrow> nat \<Rightarrow> bool" where
  "first_pending d sn i \<longleftrightarrow> (\<forall>j < i. ss_state (sn_steps sn ! j) = StepState.Pending \<longrightarrow> \<not> ready d sn j)"

fun status_inv :: "RunStatus \<Rightarrow> FlowDefinition \<Rightarrow> FlowSnapshot \<Rightarrow> bool" where
  "status_inv Running d sn = (\<not> sn_cancel_requested sn \<and> all_quiet sn)"
| "status_inv WaitingApproval d sn =
     (\<not> sn_cancel_requested sn \<and> focused (\<lambda>i s. is_pending_approval (ss_approval s) \<and> first_pending d sn i) sn)"
| "status_inv RunStatus.WaitingRetry d sn =
     (\<not> sn_cancel_requested sn \<and> focused (\<lambda>i s. is_waiting_retry (ss_state s)) sn)"
| "status_inv AwaitingEffectEvaluation d sn =
     (\<not> sn_cancel_requested sn \<and> focused (\<lambda>i s. is_awaiting_effect (ss_state s)) sn)"
| "status_inv EffectInFlight d sn =
     (\<not> sn_cancel_requested sn \<and> focused (\<lambda>i s. is_in_flight (ss_state s)) sn)"
| "status_inv Cancelling d sn =
     (sn_cancel_requested sn \<and>
      (all_quiet sn \<or>
       focused (\<lambda>i s. is_in_flight (ss_state s) \<and> fs_effect (fd_steps d ! i) = Stateful) sn))"
| "status_inv RunStatus.Succeeded d sn =
     (\<not> sn_cancel_requested sn \<and> all_quiet sn \<and> all_terminal sn \<and> \<not> any_failed sn)"
| "status_inv RunStatus.Unresolved d sn =
     (\<not> sn_cancel_requested sn \<and> all_quiet sn \<and> all_terminal sn \<and> any_failed sn)"
| "status_inv RunStatus.Blocked d sn = focused (\<lambda>i s. ss_state s = StepState.Blocked) sn"
| "status_inv RunStatus.Cancelled d sn =
     (sn_cancel_requested sn \<and> all_terminal sn \<and>
      (\<forall>s \<in> set (sn_steps sn). ss_state s \<noteq> StepState.Blocked \<and> \<not> is_pending_approval (ss_approval s)))"

definition order_inv :: "FlowDefinition \<Rightarrow> FlowSnapshot \<Rightarrow> nat \<Rightarrow> bool" where
  "order_inv d sn i \<longleftrightarrow>
     (started (sn_steps sn ! i) \<longrightarrow>
        ready d sn i \<and>
        (ss_state (sn_steps sn ! i) = StepState.Skipped) \<noteq> condition_holds d sn i)"

definition snap_inv :: "(string \<Rightarrow> string) \<Rightarrow> FlowDefinition \<Rightarrow> FlowSnapshot \<Rightarrow> bool" where
  "snap_inv sha256 d sn \<longleftrightarrow>
     sn_snapshot_version sn = FLOW_SNAPSHOT_VERSION
   \<and> validate_engine_identity ''snapshot.run_id'' (sn_run_id sn) MAX_RUN_ID_BYTES = Ok ()
   \<and> length (sn_steps sn) = length (fd_steps d)
   \<and> (\<forall>i < length (sn_steps sn).
        step_inv sha256 (sn_run_id sn) (sn_definition_digest sn) (sn_cancel_requested sn)
          (fd_steps d ! i) (sn_steps sn ! i))
   \<and> (\<forall>i < length (sn_steps sn). order_inv d sn i)
   \<and> status_inv (sn_status sn) d sn"

definition run_inv :: "(string \<Rightarrow> string) \<Rightarrow> FlowRun \<Rightarrow> bool" where
  "run_inv sha256 run \<longleftrightarrow>
     FlowDefinition_validate (run_definition run) = Ok ()
   \<and> normalized_digest sha256 (run_definition run) = Ok (sn_definition_digest (run_snapshot run))
   \<and> snap_inv sha256 (run_definition run) (run_snapshot run)"

section \<open>The transition relation\<close>

definition bump :: "FlowSnapshot \<Rightarrow> FlowSnapshot" where
  "bump sn = sn\<lparr>sn_transition_sequence := sn_transition_sequence sn + 1\<rparr>"

definition in_flight_status :: "FlowSnapshot \<Rightarrow> bool" where
  "in_flight_status sn \<longleftrightarrow> sn_status sn = EffectInFlight \<or> sn_status sn = Cancelling"

definition resume_status :: "FlowSnapshot \<Rightarrow> RunStatus" where
  "resume_status sn = (if sn_cancel_requested sn then Cancelling else Running)"

definition recorded :: "u8 \<Rightarrow> EffectResult \<Rightarrow> RecordedEffectResult" where
  "recorded a r = \<lparr>rr_attempt = a, rr_result = r\<rparr>"

inductive flow_rule ::
  "(string \<Rightarrow> string) \<Rightarrow> FlowDefinition \<Rightarrow> FlowSnapshot \<Rightarrow> TransitionKind \<Rightarrow> FlowSnapshot \<Rightarrow> bool"
  for sha256 d sn
where
  skip: "\<lbrakk>sn_status sn = Running; i < length (sn_steps sn); ss_state (sn_steps sn ! i) = StepState.Pending;
          ready d sn i; \<not> condition_holds d sn i\<rbrakk> \<Longrightarrow>
    flow_rule sha256 d sn (StepSkipped (ss_id (sn_steps sn ! i))) (set_state i StepState.Skipped sn)"
| request: "\<lbrakk>sn_status sn = Running; i < length (sn_steps sn); ss_state (sn_steps sn ! i) = StepState.Pending;
          ss_approval (sn_steps sn ! i) = NotRequested; ready d sn i; condition_holds d sn i;
          first_pending d sn i\<rbrakk> \<Longrightarrow>
    flow_rule sha256 d sn (ApprovalRequested (ss_id (sn_steps sn ! i)))
      (set_status WaitingApproval (set_approval i (StepApprovalState.Pending
         (approval_token sha256 (ss_idempotency_identity (sn_steps sn ! i)))) sn))"
| grant: "\<lbrakk>i < length (sn_steps sn); ss_approval (sn_steps sn ! i) = StepApprovalState.Pending token\<rbrakk> \<Longrightarrow>
    flow_rule sha256 d sn (ApprovalGranted (ss_id (sn_steps sn ! i)))
      (set_status Running (set_approval i (Granted token) sn))"
| deny: "\<lbrakk>i < length (sn_steps sn); ss_approval (sn_steps sn ! i) = StepApprovalState.Pending token\<rbrakk> \<Longrightarrow>
    flow_rule sha256 d sn (ApprovalDenied (ss_id (sn_steps sn ! i)))
      (set_status RunStatus.Blocked (upd_step (set_approval i (Denied token) sn) i
         (block_step (EffectReport_trusted approval_denied_text))))"
| evaluate: "\<lbrakk>sn_status sn = Running; i < length (sn_steps sn); ss_state (sn_steps sn ! i) = StepState.Pending;
          approval_ready (ss_approval (sn_steps sn ! i)); ready d sn i; condition_holds d sn i\<rbrakk> \<Longrightarrow>
    flow_rule sha256 d sn (EffectEvaluationRequired (ss_id (sn_steps sn ! i)) 1)
      (set_status AwaitingEffectEvaluation (set_state i (AwaitingEffect 1) sn))"
| retry_due: "\<lbrakk>sn_status sn = RunStatus.WaitingRetry; i < length (sn_steps sn);
          ss_state (sn_steps sn ! i) = StepState.WaitingRetry a t\<rbrakk> \<Longrightarrow>
    flow_rule sha256 d sn (EffectEvaluationRequired (ss_id (sn_steps sn ! i)) a)
      (set_status AwaitingEffectEvaluation (set_state i (AwaitingEffect a) sn))"
| unauthorized: "\<lbrakk>sn_status sn = AwaitingEffectEvaluation; i < length (sn_steps sn);
          ss_state (sn_steps sn ! i) = AwaitingEffect a\<rbrakk> \<Longrightarrow>
    flow_rule sha256 d sn (EffectAuthorizationDenied (ss_id (sn_steps sn ! i)) a False)
      (set_status RunStatus.Blocked
         (upd_step sn i (block_step (EffectReport_trusted authorization_denied_text))))"
| unauthorized_replay: "\<lbrakk>sn_status sn = EffectInFlight; i < length (sn_steps sn);
          ss_state (sn_steps sn ! i) = InFlight a t; fs_effect (fd_steps d ! i) = ReadOnly\<rbrakk> \<Longrightarrow>
    flow_rule sha256 d sn (EffectAuthorizationDenied (ss_id (sn_steps sn ! i)) a True)
      (set_status RunStatus.Blocked
         (upd_step sn i (block_step (EffectReport_trusted authorization_denied_text))))"
| start: "\<lbrakk>sn_status sn = AwaitingEffectEvaluation; i < length (sn_steps sn);
          ss_state (sn_steps sn ! i) = AwaitingEffect a\<rbrakk> \<Longrightarrow>
    flow_rule sha256 d sn (EffectStarted (ss_id (sn_steps sn ! i)) a False)
      (set_status EffectInFlight (set_state i (InFlight a t) sn))"
| replay: "\<lbrakk>sn_status sn = EffectInFlight; i < length (sn_steps sn);
          ss_state (sn_steps sn ! i) = InFlight a t; fs_effect (fd_steps d ! i) = ReadOnly\<rbrakk> \<Longrightarrow>
    flow_rule sha256 d sn (EffectStarted (ss_id (sn_steps sn ! i)) a True) sn"
| succeed: "\<lbrakk>in_flight_status sn; i < length (sn_steps sn); ss_state (sn_steps sn ! i) = InFlight a t;
          report_valid (res_report r); res_kind r = EffectResultKind.Succeeded\<rbrakk> \<Longrightarrow>
    flow_rule sha256 d sn (EffectSucceeded (ss_id (sn_steps sn ! i)) a)
      (set_status (resume_status sn)
         (upd_step sn i (push_result (recorded a r) (StepState.Succeeded a))))"
| fail: "\<lbrakk>in_flight_status sn; i < length (sn_steps sn); ss_state (sn_steps sn ! i) = InFlight a t;
          report_valid (res_report r); res_kind r = EffectResultKind.Failed retryable;
          sn_cancel_requested sn \<or> \<not> retryable\<rbrakk> \<Longrightarrow>
    flow_rule sha256 d sn (EffectFailed (ss_id (sn_steps sn ! i)) a)
      (set_status (resume_status sn)
         (upd_step sn i (push_result (recorded a r) (StepState.Failed a))))"
| exhaust: "\<lbrakk>sn_status sn = EffectInFlight; i < length (sn_steps sn); ss_state (sn_steps sn ! i) = InFlight a t;
          report_valid (res_report r); res_kind r = EffectResultKind.Failed True;
          max_attempts (fs_retry (fd_steps d ! i)) \<le> a\<rbrakk> \<Longrightarrow>
    flow_rule sha256 d sn (RetryExhausted (ss_id (sn_steps sn ! i)) a)
      (set_status Running (upd_step sn i (push_result (recorded a r) (StepState.Failed a))))"
| retry: "\<lbrakk>sn_status sn = EffectInFlight; i < length (sn_steps sn); ss_state (sn_steps sn ! i) = InFlight a t;
          report_valid (res_report r); res_kind r = EffectResultKind.Failed True;
          a < max_attempts (fs_retry (fd_steps d ! i));
          checked_add now (retry_backoff_ms (initial_backoff_ms (fs_retry (fd_steps d ! i)))
             (max_backoff_ms (fs_retry (fd_steps d ! i))) a) = Some t'\<rbrakk> \<Longrightarrow>
    flow_rule sha256 d sn (RetryScheduled (ss_id (sn_steps sn ! i)) (a + 1) t')
      (set_status RunStatus.WaitingRetry
         (upd_step sn i (push_result (recorded a r) (StepState.WaitingRetry (a + 1) t'))))"
| reconciled: "\<lbrakk>sn_status sn = EffectInFlight; i < length (sn_steps sn);
          ss_state (sn_steps sn ! i) = InFlight a t; fs_effect (fd_steps d ! i) = Stateful\<rbrakk> \<Longrightarrow>
    flow_rule sha256 d sn (ReconciledNotApplied (ss_id (sn_steps sn ! i)) a)
      (set_status AwaitingEffectEvaluation (set_state i (AwaitingEffect a) sn))"
| unknown: "\<lbrakk>in_flight_status sn; i < length (sn_steps sn); ss_state (sn_steps sn ! i) = InFlight a t;
          fs_effect (fd_steps d ! i) = Stateful; report_valid report\<rbrakk> \<Longrightarrow>
    flow_rule sha256 d sn (ReconciliationUnknown (ss_id (sn_steps sn ! i)) a)
      (set_status RunStatus.Blocked (upd_step sn i (block_step report)))"
| request_cancel: "\<lbrakk>sn_status sn = EffectInFlight; i < length (sn_steps sn);
          is_in_flight (ss_state (sn_steps sn ! i)); fs_effect (fd_steps d ! i) = Stateful\<rbrakk> \<Longrightarrow>
    flow_rule sha256 d sn CancellationRequested
      (set_status Cancelling (sn\<lparr>sn_cancel_requested := True\<rparr>))"
| solve: "\<lbrakk>sn_status sn = Running; all_terminal sn; \<not> any_failed sn\<rbrakk> \<Longrightarrow>
    flow_rule sha256 d sn (RunCompleted Solved) (set_status RunStatus.Succeeded sn)"
| unresolve: "\<lbrakk>sn_status sn = Running; all_terminal sn; any_failed sn\<rbrakk> \<Longrightarrow>
    flow_rule sha256 d sn (RunCompleted RunOutcome.Unresolved) (set_status RunStatus.Unresolved sn)"
| cancelled: "\<lbrakk>\<not> RunStatus_is_terminal (sn_status sn)\<rbrakk> \<Longrightarrow>
    flow_rule sha256 d sn (RunCompleted RunOutcome.Cancelled)
      (sn\<lparr>sn_steps := map cancel_step (sn_steps sn), sn_cancel_requested := True,
         sn_status := RunStatus.Cancelled\<rparr>)"

definition flow_trans ::
  "(string \<Rightarrow> string) \<Rightarrow> FlowDefinition \<Rightarrow> FlowSnapshot \<Rightarrow> TransitionKind \<Rightarrow> FlowSnapshot \<Rightarrow> bool" where
  "flow_trans sha256 d sn kind sn' \<longleftrightarrow>
     sn_transition_sequence sn \<noteq> -1 \<and> (\<exists>sn1. flow_rule sha256 d sn kind sn1 \<and> sn' = bump sn1)"

end
