(* ===== verification/Flow_Invariant.thy ===== *)
theory Flow_Invariant
  imports Flow_Machine
begin

text \<open>
  Every transition of the specification preserves the snapshot invariant, never rewrites
  a settled step and never loses a recorded result.
\<close>

section \<open>Snapshot updates\<close>

lemma upd_step_sel [simp]:
  "sn_steps (upd_step sn i f) = (sn_steps sn)[i := f (sn_steps sn ! i)]"
  "sn_status (upd_step sn i f) = sn_status sn"
  "sn_cancel_requested (upd_step sn i f) = sn_cancel_requested sn"
  "sn_transition_sequence (upd_step sn i f) = sn_transition_sequence sn"
  "sn_snapshot_version (upd_step sn i f) = sn_snapshot_version sn"
  "sn_run_id (upd_step sn i f) = sn_run_id sn"
  "sn_definition_digest (upd_step sn i f) = sn_definition_digest sn"
  by (simp_all add: upd_step_def)

lemma set_status_sel [simp]:
  "sn_steps (set_status st sn) = sn_steps sn"
  "sn_status (set_status st sn) = st"
  "sn_cancel_requested (set_status st sn) = sn_cancel_requested sn"
  "sn_transition_sequence (set_status st sn) = sn_transition_sequence sn"
  "sn_snapshot_version (set_status st sn) = sn_snapshot_version sn"
  "sn_run_id (set_status st sn) = sn_run_id sn"
  "sn_definition_digest (set_status st sn) = sn_definition_digest sn"
  by (simp_all add: set_status_def)

lemma bump_sel [simp]:
  "sn_steps (bump sn) = sn_steps sn"
  "sn_status (bump sn) = sn_status sn"
  "sn_cancel_requested (bump sn) = sn_cancel_requested sn"
  "sn_transition_sequence (bump sn) = sn_transition_sequence sn + 1"
  "sn_snapshot_version (bump sn) = sn_snapshot_version sn"
  "sn_run_id (bump sn) = sn_run_id sn"
  "sn_definition_digest (bump sn) = sn_definition_digest sn"
  by (simp_all add: bump_def)

lemmas set_defs = set_state_def set_approval_def

lemma quiet_except_upd [simp]: "quiet_except i (upd_step sn i f) = quiet_except i sn"
  by (auto simp: quiet_except_def)

lemma all_quiet_upd:
  "quiet_except i sn \<Longrightarrow> quiet (f (sn_steps sn ! i)) \<Longrightarrow> all_quiet (upd_step sn i f)"
  by (auto simp: quiet_except_def all_quiet_def nth_update_cases)

lemma focused_upd:
  "quiet_except i sn \<Longrightarrow> i < length (sn_steps sn) \<Longrightarrow> P i (f (sn_steps sn ! i)) \<Longrightarrow>
   focused P (upd_step sn i f)"
  by (auto simp: focused_def intro!: exI [of _ i])

lemma all_quiet_except: "all_quiet sn \<Longrightarrow> quiet_except i sn"
  by (auto simp: all_quiet_def quiet_except_def)

lemma quiet_depends:
  "sn_steps sn = sn_steps sn' \<Longrightarrow> quiet_except i sn = quiet_except i sn'"
  "sn_steps sn = sn_steps sn' \<Longrightarrow> all_quiet sn = all_quiet sn'"
  "sn_steps sn = sn_steps sn' \<Longrightarrow> focused P sn = focused P sn'"
  "sn_steps sn = sn_steps sn' \<Longrightarrow> all_terminal sn = all_terminal sn'"
  "sn_steps sn = sn_steps sn' \<Longrightarrow> any_failed sn = any_failed sn'"
  by (simp_all add: quiet_except_def all_quiet_def focused_def all_terminal_def any_failed_def)

lemma states_depend:
  assumes "map ss_state (sn_steps sn) = map ss_state (sn_steps sn')"
  shows "ready d sn i = ready d sn' i" and "condition_holds d sn i = condition_holds d sn' i"
proof -
  have "map_option ss_state (get_opt (sn_steps sn) k) = map_option ss_state (get_opt (sn_steps sn') k)" for k
    using map_eq_imp_length_eq [OF assms] arg_cong [OF assms, of "\<lambda>xs. xs ! k"]
    by (cases "k < length (sn_steps sn)") (simp_all add: get_opt_def)
  then have "snapshot_state_by_id d sn = snapshot_state_by_id d sn'"
    by (intro ext) (simp add: snapshot_state_by_id_def split: option.split)
  then show "ready d sn i = ready d sn' i" and "condition_holds d sn i = condition_holds d sn' i"
    unfolding ready_def condition_holds_def references_terminal_def declared_condition_true_def
    by (simp_all only:)
qed

lemmas order_depends = states_depend [OF arg_cong [where f = "map ss_state"]]

lemma first_pending_depends:
  "sn_steps sn = sn_steps sn' \<Longrightarrow> first_pending d sn i = first_pending d sn' i"
  using order_depends(1) [of sn sn'] by (simp add: first_pending_def)

lemma status_inv_depends:
  assumes "sn_steps sn = sn_steps sn'" and "sn_cancel_requested sn = sn_cancel_requested sn'"
  shows "status_inv st d sn = status_inv st d sn'"
  by (cases st)
     (simp_all only: status_inv.simps quiet_depends [OF assms(1)] first_pending_depends [OF assms(1)]
        assms(1) assms(2))

lemma snap_inv_bump [simp]: "snap_inv sha256 d (bump sn) = snap_inv sha256 d sn"
  using status_inv_depends [of "bump sn" sn] order_depends [of "bump sn" sn]
  by (simp add: snap_inv_def order_inv_def)

section \<open>Settled steps stay settled\<close>

definition keeps_terminal :: "FlowSnapshot \<Rightarrow> FlowSnapshot \<Rightarrow> bool" where
  "keeps_terminal sn sn' \<longleftrightarrow>
     length (sn_steps sn') = length (sn_steps sn) \<and>
     (\<forall>i < length (sn_steps sn). StepState_is_terminal (ss_state (sn_steps sn ! i)) \<longrightarrow>
        ss_state (sn_steps sn' ! i) = ss_state (sn_steps sn ! i))"

lemma keeps_terminal_upd:
  "\<not> StepState_is_terminal (ss_state (sn_steps sn ! i)) \<or> ss_state (f (sn_steps sn ! i)) = ss_state (sn_steps sn ! i) \<Longrightarrow>
   keeps_terminal sn (upd_step sn i f)"
  by (auto simp: keeps_terminal_def nth_update_cases)

lemma snapshot_state_terminal:
  assumes "keeps_terminal sn sn'" and "snapshot_state_by_id d sn r = Some st" and "StepState_is_terminal st"
  shows "snapshot_state_by_id d sn' r = Some st"
  using assms by (auto simp: snapshot_state_by_id_def keeps_terminal_def split: option.splits)

lemma ready_mono: "keeps_terminal sn sn' \<Longrightarrow> ready d sn i \<Longrightarrow> ready d sn' i"
  unfolding ready_def references_terminal_def
  by (fastforce simp: list_all_iff dest: snapshot_state_terminal split: option.splits)

lemma ready_reference:
  assumes "ready d sn i" and "r \<in> set (step_references (fd_steps d ! i))"
  obtains st where "snapshot_state_by_id d sn r = Some st" "StepState_is_terminal st"
  using assms by (auto simp: ready_def references_terminal_def list_all_iff split: option.splits)

lemma condition_stable:
  assumes "keeps_terminal sn sn'" and "ready d sn i"
  shows "condition_holds d sn' i = condition_holds d sn i"
proof -
  have "snapshot_state_by_id d sn' r = snapshot_state_by_id d sn r"
    if "referenced_step (fs_condition (fd_steps d ! i)) = Some r" for r
  proof -
    have "r \<in> set (step_references (fd_steps d ! i))" using that by (simp add: step_references_def)
    with assms(2) obtain st where "snapshot_state_by_id d sn r = Some st" "StepState_is_terminal st"
      by (rule ready_reference)
    with assms(1) show ?thesis by (simp add: snapshot_state_terminal)
  qed
  then show ?thesis
    by (cases "fs_condition (fd_steps d ! i)")
       (simp_all add: condition_holds_def declared_condition_true_def)
qed

section \<open>One active step\<close>

lemma focused_unique:
  "focused P sn \<Longrightarrow> j < length (sn_steps sn) \<Longrightarrow> \<not> quiet (sn_steps sn ! j) \<Longrightarrow>
   P j (sn_steps sn ! j) \<and> quiet_except j sn"
  by (auto simp: focused_def quiet_except_def)

lemma active_focus:
  assumes "status_inv (sn_status sn) d sn" and "sn_status sn \<noteq> RunStatus.Cancelled"
    and "j < length (sn_steps sn)" and "\<not> quiet (sn_steps sn ! j)"
  shows "quiet_except j sn"
  using assms by (cases "sn_status sn") (auto dest: focused_unique simp: all_quiet_def)

lemma not_quiet:
  "is_pending_approval (ss_approval s) \<Longrightarrow> \<not> quiet s"
  "ss_state s = AwaitingEffect a \<Longrightarrow> \<not> quiet s"
  "ss_state s = InFlight a t \<Longrightarrow> \<not> quiet s"
  "ss_state s = StepState.WaitingRetry a t \<Longrightarrow> \<not> quiet s"
  "ss_state s = StepState.Blocked \<Longrightarrow> \<not> quiet s"
  "ss_state s = StepState.Cancelled \<Longrightarrow> \<not> quiet s"
  by (auto simp: quiet_def step_is_active_def)

lemma active_status_cases:
  assumes "status_inv (sn_status sn) d sn" and "j < length (sn_steps sn)"
    and "\<not> quiet (sn_steps sn ! j)"
  shows "sn_status sn = WaitingApproval \<and> is_pending_approval (ss_approval (sn_steps sn ! j))
       \<or> sn_status sn = RunStatus.WaitingRetry \<and> is_waiting_retry (ss_state (sn_steps sn ! j))
       \<or> sn_status sn = AwaitingEffectEvaluation \<and> is_awaiting_effect (ss_state (sn_steps sn ! j))
       \<or> sn_status sn = EffectInFlight \<and> is_in_flight (ss_state (sn_steps sn ! j))
       \<or> sn_status sn = Cancelling \<and> is_in_flight (ss_state (sn_steps sn ! j))
           \<and> fs_effect (fd_steps d ! j) = Stateful
       \<or> sn_status sn = RunStatus.Blocked \<and> ss_state (sn_steps sn ! j) = StepState.Blocked
       \<or> sn_status sn = RunStatus.Cancelled \<and> StepState_is_terminal (ss_state (sn_steps sn ! j))
           \<and> ss_state (sn_steps sn ! j) \<noteq> StepState.Blocked
           \<and> \<not> is_pending_approval (ss_approval (sn_steps sn ! j))"
  using assms nth_mem [OF assms(2)]
  by (cases "sn_status sn") (auto dest: focused_unique simp: all_quiet_def all_terminal_def)

lemmas state_tests = is_in_flight_def is_awaiting_effect_def is_waiting_retry_def is_failed_state_def

lemma active_status:
  assumes inv: "status_inv (sn_status sn) d sn" and j: "j < length (sn_steps sn)"
    and ai: "approval_inv (sn_steps sn ! j)"
  shows "is_pending_approval (ss_approval (sn_steps sn ! j)) \<Longrightarrow> sn_status sn = WaitingApproval"
    and "ss_state (sn_steps sn ! j) = AwaitingEffect a \<Longrightarrow> sn_status sn = AwaitingEffectEvaluation"
    and "ss_state (sn_steps sn ! j) = StepState.WaitingRetry a t \<Longrightarrow> sn_status sn = RunStatus.WaitingRetry"
    and "ss_state (sn_steps sn ! j) = InFlight a t \<Longrightarrow>
           sn_status sn = EffectInFlight \<or>
           sn_status sn = Cancelling \<and> fs_effect (fd_steps d ! j) = Stateful"
    and "ss_state (sn_steps sn ! j) = StepState.Blocked \<Longrightarrow> sn_status sn = RunStatus.Blocked"
    and "ss_state (sn_steps sn ! j) = StepState.Cancelled \<Longrightarrow> sn_status sn = RunStatus.Cancelled"
proof -
  have pending: "ss_state (sn_steps sn ! j) = StepState.Pending"
    if "is_pending_approval (ss_approval (sn_steps sn ! j))"
    using ai that by (auto simp: approval_inv_def is_pending_approval_def split: StepApprovalState.splits)
  note active = active_status_cases [OF inv j] state_tests
  show "is_pending_approval (ss_approval (sn_steps sn ! j)) \<Longrightarrow> sn_status sn = WaitingApproval"
    using active pending by (simp add: not_quiet)
  show "ss_state (sn_steps sn ! j) = AwaitingEffect a \<Longrightarrow> sn_status sn = AwaitingEffectEvaluation"
    using active pending by (auto simp: not_quiet)
  show "ss_state (sn_steps sn ! j) = StepState.WaitingRetry a t \<Longrightarrow> sn_status sn = RunStatus.WaitingRetry"
    using active pending by (auto simp: not_quiet)
  show "ss_state (sn_steps sn ! j) = InFlight a t \<Longrightarrow>
           sn_status sn = EffectInFlight \<or>
           sn_status sn = Cancelling \<and> fs_effect (fd_steps d ! j) = Stateful"
    using active pending by (auto simp: not_quiet)
  show "ss_state (sn_steps sn ! j) = StepState.Blocked \<Longrightarrow> sn_status sn = RunStatus.Blocked"
    using active pending by (auto simp: not_quiet)
  show "ss_state (sn_steps sn ! j) = StepState.Cancelled \<Longrightarrow> sn_status sn = RunStatus.Cancelled"
    using active pending by (auto simp: not_quiet)
qed

section \<open>Preservation\<close>

lemma snap_invD:
  assumes "snap_inv sha256 d sn"
  shows "length (sn_steps sn) = length (fd_steps d)"
    and "\<And>i. i < length (sn_steps sn) \<Longrightarrow>
           step_inv sha256 (sn_run_id sn) (sn_definition_digest sn) (sn_cancel_requested sn)
             (fd_steps d ! i) (sn_steps sn ! i)"
    and "\<And>i. i < length (sn_steps sn) \<Longrightarrow> approval_inv (sn_steps sn ! i)"
    and "\<And>i. i < length (sn_steps sn) \<Longrightarrow> order_inv d sn i"
    and "status_inv (sn_status sn) d sn"
  using assms by (auto simp: snap_inv_def step_inv_def)

lemma snap_inv_upd:
  assumes inv: "snap_inv sha256 d sn" and i: "i < length (sn_steps sn)"
    and open_step: "\<not> StepState_is_terminal (ss_state (sn_steps sn ! i))"
    and step: "step_inv sha256 (sn_run_id sn) (sn_definition_digest sn) (sn_cancel_requested sn)
                 (fd_steps d ! i) (f (sn_steps sn ! i))"
    and order: "started (f (sn_steps sn ! i)) \<Longrightarrow>
        ready d sn i \<and> (ss_state (f (sn_steps sn ! i)) = StepState.Skipped) \<noteq> condition_holds d sn i"
    and status: "status_inv st d (upd_step sn i f)"
  shows "snap_inv sha256 d (set_status st (upd_step sn i f))"
proof -
  let ?sn' = "set_status st (upd_step sn i f)"
  have keeps: "keeps_terminal sn ?sn'"
    using keeps_terminal_upd [of sn i f] open_step by (simp add: keeps_terminal_def)
  have "order_inv d ?sn' k" if k: "k < length (sn_steps sn)" for k
  proof (cases "k = i")
    case True
    then show ?thesis
      using order i ready_mono [OF keeps] condition_stable [OF keeps] by (auto simp: order_inv_def)
  next
    case False
    then show ?thesis
      using snap_invD(4) [OF inv k] ready_mono [OF keeps] condition_stable [OF keeps]
      by (auto simp: order_inv_def)
  qed
  moreover have "status_inv st d ?sn'"
    using status status_inv_depends [of ?sn' "upd_step sn i f"] by simp
  ultimately show ?thesis
    using inv step i by (simp add: snap_inv_def nth_update_cases)
qed

lemma snap_inv_upd_running:
  assumes "snap_inv sha256 d sn" "i < length (sn_steps sn)"
    and "\<not> StepState_is_terminal (ss_state (sn_steps sn ! i))"
    and "step_inv sha256 (sn_run_id sn) (sn_definition_digest sn) (sn_cancel_requested sn)
           (fd_steps d ! i) (f (sn_steps sn ! i))"
    and "started (f (sn_steps sn ! i)) \<Longrightarrow>
        ready d sn i \<and> (ss_state (f (sn_steps sn ! i)) = StepState.Skipped) \<noteq> condition_holds d sn i"
    and "status_inv (sn_status sn) d (upd_step sn i f)"
  shows "snap_inv sha256 d (upd_step sn i f)"
proof -
  have "set_status (sn_status sn) (upd_step sn i f) = upd_step sn i f"
    by (simp add: set_status_def upd_step_def)
  then show ?thesis using snap_inv_upd [OF assms] by (simp only:)
qed

lemma token_mismatch_iff:
  "token_mismatch sha256 s \<longleftrightarrow>
     (\<exists>token. approval_token_of (ss_approval s) = Some token
        \<and> token \<noteq> approval_token sha256 (ss_idempotency_identity s))"
  by (auto simp: token_mismatch_def split: option.splits)

lemma results_inv_push:
  "results_inv s \<Longrightarrow> unat a = length (ss_results s) + 1 \<Longrightarrow> report_valid (res_report r) \<Longrightarrow>
   results_inv (push_result (recorded a r) st s)"
  by (auto simp: results_inv_def push_result_def recorded_def nth_append less_Suc_eq)

text \<open>A step in flight is followed by a settled, retrying, waiting or blocked step.\<close>

lemma step_inv_push:
  assumes "step_inv sha256 rid dig c declared s" and "ss_state s = InFlight a t"
    and "report_valid (res_report r)"
    and "history_inv st (max_attempts (fs_retry declared)) c (ss_results s @ [recorded a r])"
    and "st \<noteq> StepState.Blocked" "st \<noteq> StepState.Pending"
  shows "step_inv sha256 rid dig c declared (push_result (recorded a r) st s)"
proof -
  have "results_inv (push_result (recorded a r) st s)"
    using assms by (intro results_inv_push) (auto simp: step_inv_def)
  moreover have "approval_inv (push_result (recorded a r) st s)"
    using assms by (auto simp: step_inv_def approval_inv_def push_result_def split: StepApprovalState.splits)
  ultimately show ?thesis
    using assms by (auto simp: step_inv_def push_result_def token_mismatch_iff)
qed

lemma step_inv_state:
  assumes "step_inv sha256 rid dig c declared s"
    and "history_inv st (max_attempts (fs_retry declared)) c (ss_results s)"
    and "ss_state s \<noteq> StepState.Blocked" "st \<noteq> StepState.Blocked"
    and "approval_inv (s\<lparr>ss_state := st\<rparr>)"
  shows "step_inv sha256 rid dig c declared (s\<lparr>ss_state := st\<rparr>)"
  using assms by (auto simp: step_inv_def results_inv_def token_mismatch_iff)

lemma step_inv_block:
  assumes "step_inv sha256 rid dig c declared s" and "report_valid report"
    and "ss_state s \<in> {AwaitingEffect a, InFlight a t} \<or> is_pending_approval (ss_approval s)"
    and "approval_inv (block_step report s)"
  shows "step_inv sha256 rid dig c declared (block_step report s)"
  using assms
  by (auto simp: step_inv_def results_inv_def token_mismatch_iff block_step_def word_le_nat_alt
      approval_inv_def is_pending_approval_def split: StepApprovalState.splits)

text \<open>What a step in an active state satisfies.\<close>

lemma snap_inv_focus:
  assumes inv: "snap_inv sha256 d sn" and i: "i < length (sn_steps sn)"
  shows "ss_state (sn_steps sn ! i) = AwaitingEffect a \<Longrightarrow>
           quiet_except i sn \<and> ready d sn i \<and> condition_holds d sn i"
    and "ss_state (sn_steps sn ! i) = InFlight a t \<Longrightarrow>
           quiet_except i sn \<and> ready d sn i \<and> condition_holds d sn i"
    and "ss_state (sn_steps sn ! i) = StepState.WaitingRetry a t \<Longrightarrow>
           quiet_except i sn \<and> ready d sn i \<and> condition_holds d sn i"
    and "is_pending_approval (ss_approval (sn_steps sn ! i)) \<Longrightarrow>
           quiet_except i sn \<and> ready d sn i \<and> condition_holds d sn i
           \<and> ss_state (sn_steps sn ! i) = StepState.Pending"
proof -
  note st = snap_invD(5) [OF inv] and act = active_status [OF snap_invD(5) [OF inv] i snap_invD(3) [OF inv i]]
  note order = snap_invD(4) [OF inv i, unfolded order_inv_def started_def]
  show "ss_state (sn_steps sn ! i) = AwaitingEffect a \<Longrightarrow>
           quiet_except i sn \<and> ready d sn i \<and> condition_holds d sn i"
    using active_focus [OF st _ i] act(2) order by (auto simp: not_quiet)
  show "ss_state (sn_steps sn ! i) = InFlight a t \<Longrightarrow>
           quiet_except i sn \<and> ready d sn i \<and> condition_holds d sn i"
    using active_focus [OF st _ i] act(4) order by (auto simp: not_quiet)
  show "ss_state (sn_steps sn ! i) = StepState.WaitingRetry a t \<Longrightarrow>
           quiet_except i sn \<and> ready d sn i \<and> condition_holds d sn i"
    using active_focus [OF st _ i] act(3) order by (auto simp: not_quiet)
  show "is_pending_approval (ss_approval (sn_steps sn ! i)) \<Longrightarrow>
           quiet_except i sn \<and> ready d sn i \<and> condition_holds d sn i
           \<and> ss_state (sn_steps sn ! i) = StepState.Pending"
    using active_focus [OF st _ i] act(1) order snap_invD(3) [OF inv i]
    by (auto simp: not_quiet approval_inv_def is_pending_approval_def split: StepApprovalState.splits)
qed

lemma cancel_step_sel [simp]:
  "ss_id (cancel_step s) = ss_id s"
  "ss_semantic_role (cancel_step s) = ss_semantic_role s"
  "ss_idempotency_identity (cancel_step s) = ss_idempotency_identity s"
  "ss_results (cancel_step s) = ss_results s"
  "ss_blocked_report (cancel_step s) = ss_blocked_report s"
  "ss_state (cancel_step s) =
     (if StepState_is_terminal (ss_state s) then ss_state s else StepState.Cancelled)"
  "ss_approval (cancel_step s) =
     (if is_pending_approval (ss_approval s) then NotRequested else ss_approval s)"
  by (simp_all add: cancel_step_def Let_def)

lemma history_inv_cancel:
  "history_inv st m c rs \<Longrightarrow> \<not> StepState_is_terminal st \<Longrightarrow> history_inv StepState.Cancelled m True rs"
  "history_inv st m c rs \<Longrightarrow> history_inv st m True rs"
  by (cases st; auto simp: word_le_nat_alt)+

lemma step_inv_cancel:
  assumes "step_inv sha256 rid dig c declared s"
  shows "step_inv sha256 rid dig True declared (cancel_step s)"
proof -
  have "approval_inv (cancel_step s)"
    using assms by (auto simp: step_inv_def approval_inv_def is_pending_approval_def split: StepApprovalState.splits)
  moreover have "approval_matches_mode (ss_approval (cancel_step s)) (fs_approval declared)"
    using assms by (auto simp: step_inv_def approval_matches_mode_def is_pending_approval_def)
  moreover have "\<not> token_mismatch sha256 (cancel_step s)"
    using assms by (auto simp: step_inv_def token_mismatch_iff is_pending_approval_def)
  moreover have "history_inv (ss_state (cancel_step s)) (max_attempts (fs_retry declared)) True (ss_results s)"
    using assms history_inv_cancel by (auto simp: step_inv_def)
  ultimately show ?thesis
    using assms by (auto simp: step_inv_def results_inv_def)
qed

lemma snap_inv_cancel:
  assumes inv: "snap_inv sha256 d sn" and st: "\<not> RunStatus_is_terminal (sn_status sn)"
  shows "snap_inv sha256 d (sn\<lparr>sn_steps := map cancel_step (sn_steps sn), sn_cancel_requested := True,
           sn_status := RunStatus.Cancelled\<rparr>)" (is "snap_inv _ _ ?sn'")
proof -
  have keeps: "keeps_terminal sn ?sn'" by (simp add: keeps_terminal_def)
  have "order_inv d ?sn' k" if k: "k < length (sn_steps sn)" for k
    using snap_invD(4) [OF inv k] k ready_mono [OF keeps] condition_stable [OF keeps]
    by (auto simp: order_inv_def started_def split: if_splits)
  moreover have "ss_state s \<noteq> StepState.Blocked" if "s \<in> set (sn_steps sn)" for s
    using that st active_status(5) [OF snap_invD(5) [OF inv] _ snap_invD(3) [OF inv]]
    by (auto simp: in_set_conv_nth)
  then have "status_inv RunStatus.Cancelled d ?sn'"
    by (auto simp: all_terminal_def is_pending_approval_def)
  ultimately show ?thesis
    using inv step_inv_cancel by (auto simp: snap_inv_def)
qed

lemma history_inv_retry:
  assumes "history_inv (InFlight a t) m c rs" and "a < m"
    and "res_kind r = EffectResultKind.Failed True"
  shows "history_inv (StepState.WaitingRetry (a + 1) t') m c (rs @ [recorded a r])"
  using assms word_succ_bound [OF assms(2)]
  by (simp add: is_retryable_failure_def recorded_def)

lemma approval_inv_active:
  assumes "approval_inv s" and "ss_state s \<in> {AwaitingEffect a, InFlight a t, StepState.WaitingRetry a t}"
  shows "approval_ready (ss_approval s)"
  using assms by (cases "ss_approval s") (auto simp: approval_inv_def approval_ready_def is_granted_def)

lemma approval_inv_ready:
  "approval_ready (ss_approval s) \<Longrightarrow> approval_inv s"
  by (cases "ss_approval s") (auto simp: approval_inv_def approval_ready_def is_granted_def)

lemma approval_ready_not_pending:
  "approval_ready a \<Longrightarrow> \<not> is_pending_approval a"
  by (cases a) (auto simp: approval_ready_def is_granted_def is_pending_approval_def)

text \<open>Blocking and settling the active step.\<close>

lemma snap_inv_block:
  assumes inv: "snap_inv sha256 d sn" and i: "i < length (sn_steps sn)"
    and st: "ss_state (sn_steps sn ! i) \<in> {AwaitingEffect a, InFlight a t}"
    and rep: "report_valid report"
  shows "snap_inv sha256 d (set_status RunStatus.Blocked (upd_step sn i (block_step report)))"
proof -
  have focus: "quiet_except i sn \<and> ready d sn i \<and> condition_holds d sn i"
    using snap_inv_focus(1,2) [OF inv i] st by auto
  have "approval_ready (ss_approval (sn_steps sn ! i))"
    using approval_inv_active [OF snap_invD(3) [OF inv i]] st by blast
  then have "approval_inv (block_step report (sn_steps sn ! i))"
    by (intro approval_inv_ready) (simp add: block_step_def)
  then have "step_inv sha256 (sn_run_id sn) (sn_definition_digest sn) (sn_cancel_requested sn)
      (fd_steps d ! i) (block_step report (sn_steps sn ! i))"
    using step_inv_block [OF snap_invD(2) [OF inv i] rep] st by blast
  then show ?thesis
    using focus st i focused_upd [of i sn]
    by (intro snap_inv_upd [OF inv i]) (auto simp: block_step_def)
qed

lemma snap_inv_settle:
  assumes inv: "snap_inv sha256 d sn" and i: "i < length (sn_steps sn)"
    and st: "ss_state (sn_steps sn ! i) = InFlight a t" and rep: "report_valid (res_report r)"
    and hist: "history_inv st' (max_attempts (fs_retry (fd_steps d ! i))) (sn_cancel_requested sn)
                 (ss_results (sn_steps sn ! i) @ [recorded a r])"
    and st': "st' \<in> {StepState.Succeeded a, StepState.Failed a}"
    and status: "status = resume_status sn"
  shows "snap_inv sha256 d (set_status status (upd_step sn i (push_result (recorded a r) st')))"
proof -
  have focus: "quiet_except i sn \<and> ready d sn i \<and> condition_holds d sn i"
    using snap_inv_focus(2) [OF inv i st] .
  have "approval_ready (ss_approval (sn_steps sn ! i))"
    using approval_inv_active [OF snap_invD(3) [OF inv i]] st by blast
  then have "quiet (push_result (recorded a r) st' (sn_steps sn ! i))"
    using st' by (auto simp: quiet_def step_is_active_def push_result_def approval_ready_not_pending)
  then have "all_quiet (upd_step sn i (push_result (recorded a r) st'))"
    using focus by (intro all_quiet_upd) auto
  then have "status_inv status d (upd_step sn i (push_result (recorded a r) st'))"
    by (auto simp: status resume_status_def)
  moreover have "step_inv sha256 (sn_run_id sn) (sn_definition_digest sn) (sn_cancel_requested sn)
      (fd_steps d ! i) (push_result (recorded a r) st' (sn_steps sn ! i))"
    using st' by (intro step_inv_push [OF snap_invD(2) [OF inv i] st rep hist]) auto
  ultimately show ?thesis
    using focus st st' by (intro snap_inv_upd [OF inv i]) (auto simp: push_result_def)
qed

text \<open>Moving an active or schedulable step to another active state.\<close>

lemma snap_inv_state:
  assumes inv: "snap_inv sha256 d sn" and i: "i < length (sn_steps sn)"
    and open_step: "\<not> StepState_is_terminal (ss_state (sn_steps sn ! i))"
    and focus: "quiet_except i sn \<and> ready d sn i \<and> condition_holds d sn i"
    and hist: "history_inv st (max_attempts (fs_retry (fd_steps d ! i))) (sn_cancel_requested sn)
                 (ss_results (sn_steps sn ! i))"
    and "approval_ready (ss_approval (sn_steps sn ! i))"
    and st: "st = AwaitingEffect a \<and> status = AwaitingEffectEvaluation \<or> st = InFlight a t \<and> status = EffectInFlight"
    and c: "\<not> sn_cancel_requested sn"
  shows "snap_inv sha256 d (set_status status (set_state i st sn))"
proof -
  let ?f = "\<lambda>s. s\<lparr>ss_state := st\<rparr>"
  have "step_inv sha256 (sn_run_id sn) (sn_definition_digest sn) (sn_cancel_requested sn)
      (fd_steps d ! i) (?f (sn_steps sn ! i))"
    using assms by (intro step_inv_state [OF snap_invD(2) [OF inv i] hist]) (auto intro: approval_inv_ready)
  moreover have "status_inv status d (upd_step sn i ?f)"
    using st c focus i by (auto simp: state_tests intro!: focused_upd)
  ultimately show ?thesis
    unfolding set_defs using focus st by (intro snap_inv_upd [OF inv i open_step]) auto
qed

lemma step_inv_history:
  "step_inv sha256 rid dig c declared s \<Longrightarrow>
   history_inv (ss_state s) (max_attempts (fs_retry declared)) c (ss_results s)"
  by (simp add: step_inv_def)

lemma history_inv_settle:
  assumes "history_inv (InFlight a t) m c rs"
  shows "res_kind r = EffectResultKind.Succeeded \<Longrightarrow>
           history_inv (StepState.Succeeded a) m c (rs @ [recorded a r])"
    and "res_kind r = EffectResultKind.Failed retryable \<Longrightarrow> \<not> retryable \<or> c \<or> a = m \<Longrightarrow>
           history_inv (StepState.Failed a) m c (rs @ [recorded a r])"
  using assms by (auto simp: recorded_def)

lemma snap_inv_running:
  assumes inv: "snap_inv sha256 d sn" and "sn_status sn = Running"
  shows "\<not> sn_cancel_requested sn" and "all_quiet sn"
  using snap_invD(5) [OF inv] assms(2) by simp_all

lemma snap_inv_cancel_flag:
  assumes inv: "snap_inv sha256 d sn"
  shows "sn_status sn \<in> {WaitingApproval, RunStatus.WaitingRetry, AwaitingEffectEvaluation, EffectInFlight} \<Longrightarrow>
     \<not> sn_cancel_requested sn"
  using snap_invD(5) [OF inv] by auto

lemma pending_approval_step:
  assumes inv: "snap_inv sha256 d sn" and i: "i < length (sn_steps sn)"
    and tok: "ss_approval (sn_steps sn ! i) = StepApprovalState.Pending token"
  shows "quiet_except i sn" "ready d sn i" "condition_holds d sn i"
    and "ss_state (sn_steps sn ! i) = StepState.Pending" and "\<not> sn_cancel_requested sn"
    and "sn_status sn = WaitingApproval"
proof -
  have p: "is_pending_approval (ss_approval (sn_steps sn ! i))" by (simp add: tok is_pending_approval_def)
  then show "quiet_except i sn" "ready d sn i" "condition_holds d sn i"
    "ss_state (sn_steps sn ! i) = StepState.Pending"
    using snap_inv_focus(4) [OF inv i] by simp_all
  show "sn_status sn = WaitingApproval"
    using active_status(1) [OF snap_invD(5) [OF inv] i snap_invD(3) [OF inv i] p] .
  then show "\<not> sn_cancel_requested sn" using snap_inv_cancel_flag [OF inv] by simp
qed

lemma rule_skip:
  assumes inv: "snap_inv sha256 d sn" and run: "sn_status sn = Running" and i: "i < length (sn_steps sn)"
    and p: "ss_state (sn_steps sn ! i) = StepState.Pending" and r: "ready d sn i" "\<not> condition_holds d sn i"
  shows "snap_inv sha256 d (set_state i StepState.Skipped sn)"
proof -
  let ?f = "\<lambda>s. s\<lparr>ss_state := StepState.Skipped\<rparr>"
  have quiet: "all_quiet sn" using snap_inv_running [OF inv run] by simp
  have "approval_inv (?f (sn_steps sn ! i))"
    using snap_invD(3) [OF inv i] quiet i p snap_inv_running(1) [OF inv run]
    by (auto simp: approval_inv_def all_quiet_def quiet_def step_is_active_def is_pending_approval_def
             split: StepApprovalState.splits)
  then have step: "step_inv sha256 (sn_run_id sn) (sn_definition_digest sn) (sn_cancel_requested sn)
      (fd_steps d ! i) (?f (sn_steps sn ! i))"
    using step_inv_history [OF snap_invD(2) [OF inv i]] p
    by (intro step_inv_state [OF snap_invD(2) [OF inv i]]) auto
  have "all_quiet (upd_step sn i ?f)"
    using quiet i by (intro all_quiet_upd all_quiet_except) (auto simp: all_quiet_def quiet_def step_is_active_def)
  then have "status_inv (sn_status sn) d (upd_step sn i ?f)"
    using snap_inv_running [OF inv run] by (simp add: run)
  then show ?thesis
    unfolding set_defs using step p r by (intro snap_inv_upd_running [OF inv i]) auto
qed

lemma rule_approval:
  assumes inv: "snap_inv sha256 d sn" and i: "i < length (sn_steps sn)"
    and p: "ss_state (sn_steps sn ! i) = StepState.Pending"
    and r: "ready d sn i" "condition_holds d sn i" "quiet_except i sn"
    and c: "\<not> sn_cancel_requested sn"
    and mode: "ss_approval (sn_steps sn ! i) \<noteq> NotRequired"
    and a: "a = StepApprovalState.Pending tok \<and> status = WaitingApproval \<and> first_pending d sn i
          \<or> a = Granted tok \<and> status = Running"
    and tok: "tok = approval_token sha256 (ss_idempotency_identity (sn_steps sn ! i))"
  shows "snap_inv sha256 d (set_status status (set_approval i a sn))"
proof -
  let ?f = "\<lambda>s. s\<lparr>ss_approval := a\<rparr>"
  have step: "step_inv sha256 (sn_run_id sn) (sn_definition_digest sn) (sn_cancel_requested sn)
      (fd_steps d ! i) (?f (sn_steps sn ! i))"
    using snap_invD(2) [OF inv i] p a tok mode
    by (auto simp: step_inv_def results_inv_def approval_inv_def token_mismatch_iff approval_matches_mode_def)
  have "status_inv status d (upd_step sn i ?f)"
    using a
  proof
    assume a: "a = StepApprovalState.Pending tok \<and> status = WaitingApproval \<and> first_pending d sn i"
    have "map ss_state (sn_steps (upd_step sn i ?f)) = map ss_state (sn_steps sn)"
      using i by (simp add: map_list_update_same)
    from states_depend(1) [OF this] have "first_pending d (upd_step sn i ?f) i"
      using a i by (auto simp: first_pending_def)
    then show ?thesis using a c r i by (auto simp: is_pending_approval_def intro!: focused_upd)
  next
    assume "a = Granted tok \<and> status = Running"
    then show ?thesis
      using c r p by (auto simp: quiet_def step_is_active_def is_pending_approval_def intro!: all_quiet_upd)
  qed
  then show ?thesis
    unfolding set_defs using step p r by (intro snap_inv_upd [OF inv i]) auto
qed

lemma rule_deny:
  assumes inv: "snap_inv sha256 d sn" and i: "i < length (sn_steps sn)"
    and tok: "ss_approval (sn_steps sn ! i) = StepApprovalState.Pending token"
  shows "snap_inv sha256 d (set_status RunStatus.Blocked (upd_step (set_approval i (Denied token) sn) i
           (block_step (EffectReport_trusted approval_denied_text))))"
proof -
  let ?f = "\<lambda>s. block_step (EffectReport_trusted approval_denied_text) (s\<lparr>ss_approval := Denied token\<rparr>)"
  note pend = pending_approval_step [OF inv i tok]
  have step: "step_inv sha256 (sn_run_id sn) (sn_definition_digest sn) (sn_cancel_requested sn)
      (fd_steps d ! i) (?f (sn_steps sn ! i))"
    using snap_invD(2) [OF inv i] pend(4) tok
    by (auto simp: step_inv_def results_inv_def approval_inv_def token_mismatch_iff
             approval_matches_mode_def block_step_def)
  have "status_inv RunStatus.Blocked d (upd_step sn i ?f)"
    using pend(1) i by (auto simp: block_step_def intro!: focused_upd)
  then have "snap_inv sha256 d (set_status RunStatus.Blocked (upd_step sn i ?f))"
    using step pend by (intro snap_inv_upd [OF inv i]) (auto simp: block_step_def)
  moreover have "upd_step (set_approval i (Denied token) sn) i
      (block_step (EffectReport_trusted approval_denied_text)) = upd_step sn i ?f"
    using i by (simp add: set_defs upd_step_def)
  ultimately show ?thesis by simp
qed

lemma token_exact:
  assumes inv: "snap_inv sha256 d sn" and i: "i < length (sn_steps sn)"
    and "approval_token_of (ss_approval (sn_steps sn ! i)) = Some token"
  shows "token = approval_token sha256 (ss_idempotency_identity (sn_steps sn ! i))"
  using snap_invD(2) [OF inv i] assms(3) by (auto simp: step_inv_def token_mismatch_iff)

lemma max_attempts_positive:
  assumes "FlowDefinition_validate d = Ok ()" and "i < length (fd_steps d)"
  shows "0 < max_attempts (fs_retry (fd_steps d ! i))"
    and "max_attempts (fs_retry (fd_steps d ! i)) \<le> MAX_RETRY_ATTEMPTS"
  using FlowDefinition_validate_Ok(7) [OF assms(1) nth_mem [OF assms(2)]] RetryPolicy_validate_Ok(1,2)
  by blast+

lemma rule_await:
  assumes inv: "snap_inv sha256 d sn" and i: "i < length (sn_steps sn)"
    and st: "ss_state (sn_steps sn ! i) \<in> {AwaitingEffect a, StepState.WaitingRetry a t, InFlight a t}"
    and c: "\<not> sn_cancel_requested sn"
  shows "snap_inv sha256 d (set_status AwaitingEffectEvaluation (set_state i (AwaitingEffect a) sn))"
    and "snap_inv sha256 d (set_status EffectInFlight (set_state i (InFlight a t') sn))"
proof -
  have focus: "quiet_except i sn \<and> ready d sn i \<and> condition_holds d sn i"
    using snap_inv_focus(1-3) [OF inv i] st by auto
  have hist: "history_inv (AwaitingEffect a) (max_attempts (fs_retry (fd_steps d ! i)))
      (sn_cancel_requested sn) (ss_results (sn_steps sn ! i))"
    using step_inv_history [OF snap_invD(2) [OF inv i]] st by auto
  have ready: "approval_ready (ss_approval (sn_steps sn ! i))"
    using approval_inv_active [OF snap_invD(3) [OF inv i]] st by blast
  have open_step: "\<not> StepState_is_terminal (ss_state (sn_steps sn ! i))" using st by auto
  show "snap_inv sha256 d (set_status AwaitingEffectEvaluation (set_state i (AwaitingEffect a) sn))"
    using hist ready c by (intro snap_inv_state [OF inv i open_step focus]) auto
  show "snap_inv sha256 d (set_status EffectInFlight (set_state i (InFlight a t') sn))"
    using hist ready c by (intro snap_inv_state [OF inv i open_step focus]) auto
qed

lemma rule_evaluate:
  assumes valid: "FlowDefinition_validate d = Ok ()" and inv: "snap_inv sha256 d sn"
    and run: "sn_status sn = Running" and i: "i < length (sn_steps sn)"
    and p: "ss_state (sn_steps sn ! i) = StepState.Pending"
    and a: "approval_ready (ss_approval (sn_steps sn ! i))"
    and r: "ready d sn i" "condition_holds d sn i"
  shows "snap_inv sha256 d (set_status AwaitingEffectEvaluation (set_state i (AwaitingEffect 1) sn))"
proof -
  have pos: "0 < max_attempts (fs_retry (fd_steps d ! i))"
    using max_attempts_positive(1) [OF valid] i snap_invD(1) [OF inv] by simp
  have "(1 :: u8) \<le> max_attempts (fs_retry (fd_steps d ! i))"
    using word_succ_bound(2) [OF pos] by simp
  then have "history_inv (AwaitingEffect 1) (max_attempts (fs_retry (fd_steps d ! i)))
      (sn_cancel_requested sn) (ss_results (sn_steps sn ! i))"
    using step_inv_history [OF snap_invD(2) [OF inv i]] p by simp
  then show ?thesis
    using snap_inv_running [OF inv run] all_quiet_except p r a
    by (intro snap_inv_state [OF inv i]) auto
qed

lemma rule_retry:
  assumes inv: "snap_inv sha256 d sn" and fl: "sn_status sn = EffectInFlight" and i: "i < length (sn_steps sn)"
    and st: "ss_state (sn_steps sn ! i) = InFlight a t" and rep: "report_valid (res_report r)"
    and k: "res_kind r = EffectResultKind.Failed True" and m: "a < max_attempts (fs_retry (fd_steps d ! i))"
  shows "snap_inv sha256 d (set_status RunStatus.WaitingRetry
           (upd_step sn i (push_result (recorded a r) (StepState.WaitingRetry (a + 1) t'))))"
proof -
  let ?f = "push_result (recorded a r) (StepState.WaitingRetry (a + 1) t')"
  have focus: "quiet_except i sn \<and> ready d sn i \<and> condition_holds d sn i"
    using snap_inv_focus(2) [OF inv i st] .
  have "history_inv (StepState.WaitingRetry (a + 1) t') (max_attempts (fs_retry (fd_steps d ! i)))
      (sn_cancel_requested sn) (ss_results (sn_steps sn ! i) @ [recorded a r])"
    using step_inv_history [OF snap_invD(2) [OF inv i]] st m k by (intro history_inv_retry) auto
  then have step: "step_inv sha256 (sn_run_id sn) (sn_definition_digest sn) (sn_cancel_requested sn)
      (fd_steps d ! i) (?f (sn_steps sn ! i))"
    by (intro step_inv_push [OF snap_invD(2) [OF inv i] st rep]) auto
  have "status_inv RunStatus.WaitingRetry d (upd_step sn i ?f)"
    using focus i snap_inv_cancel_flag [OF inv] fl
    by (auto simp: state_tests push_result_def intro!: focused_upd)
  then show ?thesis
    using step focus st by (intro snap_inv_upd [OF inv i]) (auto simp: push_result_def)
qed

lemma snap_inv_status_only:
  assumes inv: "snap_inv sha256 d sn" and "status_inv st d sn"
  shows "snap_inv sha256 d (set_status st sn)"
  using assms status_inv_depends [of "set_status st sn" sn] order_depends [of "set_status st sn" sn]
  by (simp add: snap_inv_def order_inv_def)

lemma rule_request_cancel:
  assumes inv: "snap_inv sha256 d sn" and fl: "sn_status sn = EffectInFlight" and i: "i < length (sn_steps sn)"
    and st: "is_in_flight (ss_state (sn_steps sn ! i))" and e: "fs_effect (fd_steps d ! i) = Stateful"
  shows "snap_inv sha256 d (set_status Cancelling (sn\<lparr>sn_cancel_requested := True\<rparr>))"
proof -
  let ?sn = "sn\<lparr>sn_cancel_requested := True\<rparr>" and ?sn' = "set_status Cancelling (sn\<lparr>sn_cancel_requested := True\<rparr>)"
  have "quiet_except i sn"
    using snap_inv_focus(2) [OF inv i] st by (auto simp: is_in_flight_def split: StepState.splits)
  then have "status_inv Cancelling d ?sn'"
    using i st e by (auto simp: focused_def quiet_except_def)
  moreover have "step_inv sha256 rid dig True declared s" if "step_inv sha256 rid dig c declared s"
    for rid dig c declared s
    using that history_inv_cancel(2) by (auto simp: step_inv_def)
  ultimately show ?thesis
    using inv order_depends [of ?sn' sn] by (auto simp: snap_inv_def order_inv_def)
qed

text \<open>Every rule preserves the invariant.\<close>

lemma flow_rule_inv:
  assumes valid: "FlowDefinition_validate d = Ok ()" and inv: "snap_inv sha256 d sn"
    and rule: "flow_rule sha256 d sn kind sn'"
  shows "snap_inv sha256 d sn'"
  using rule
proof cases
  case (skip i)
  then show ?thesis using rule_skip [OF inv] by simp
next
  case (request i)
  then show ?thesis
    using rule_approval [OF inv] snap_inv_running [OF inv] all_quiet_except by simp
next
  case (grant i token)
  then show ?thesis
    using rule_approval [OF inv] pending_approval_step [OF inv] token_exact [OF inv] by simp
next
  case (deny i token)
  then show ?thesis using rule_deny [OF inv] by simp
next
  case (evaluate i)
  then show ?thesis using rule_evaluate [OF valid inv] by simp
next
  case (retry_due i a t)
  then show ?thesis using rule_await(1) [OF inv] snap_inv_cancel_flag [OF inv] by simp
next
  case (unauthorized i a)
  then show ?thesis using snap_inv_block [OF inv] by simp
next
  case (unauthorized_replay i a t)
  then show ?thesis using snap_inv_block [OF inv] by simp
next
  case (start i a t)
  then show ?thesis using rule_await(2) [OF inv] snap_inv_cancel_flag [OF inv] by simp
next
  case (replay i a t)
  then show ?thesis using inv by simp
next
  case (succeed i a t r)
  then have "history_inv (InFlight a t) (max_attempts (fs_retry (fd_steps d ! i))) (sn_cancel_requested sn)
      (ss_results (sn_steps sn ! i))"
    using step_inv_history [OF snap_invD(2) [OF inv]] by fastforce
  from history_inv_settle(1) [OF this] succeed show ?thesis using snap_inv_settle [OF inv] by simp
next
  case (fail i a t r retryable)
  have "history_inv (StepState.Failed a) (max_attempts (fs_retry (fd_steps d ! i))) (sn_cancel_requested sn)
      (ss_results (sn_steps sn ! i) @ [recorded a r])"
    using fail step_inv_history [OF snap_invD(2) [OF inv]] by (intro history_inv_settle(2)) fastforce+
  with fail show ?thesis using snap_inv_settle [OF inv] by simp
next
  case (exhaust i a t r)
  have hist: "history_inv (InFlight a t) (max_attempts (fs_retry (fd_steps d ! i))) (sn_cancel_requested sn)
      (ss_results (sn_steps sn ! i))"
    using exhaust step_inv_history [OF snap_invD(2) [OF inv]] by fastforce
  have "history_inv (StepState.Failed a) (max_attempts (fs_retry (fd_steps d ! i))) (sn_cancel_requested sn)
      (ss_results (sn_steps sn ! i) @ [recorded a r])"
    using exhaust hist by (intro history_inv_settle(2) [OF hist]) auto
  then show ?thesis
    unfolding exhaust(2) using exhaust(3) snap_inv_cancel_flag [OF inv]
    by (intro snap_inv_settle [OF inv exhaust(4-6)]) (simp_all add: resume_status_def)
next
  case (retry i a t r now t')
  then show ?thesis using rule_retry [OF inv] by simp
next
  case (reconciled i a t)
  then show ?thesis using rule_await(1) [OF inv] snap_inv_cancel_flag [OF inv] by simp
next
  case (unknown i a t report)
  then show ?thesis using snap_inv_block [OF inv] by simp
next
  case (request_cancel i)
  then show ?thesis using rule_request_cancel [OF inv] by simp
next
  case solve
  then show ?thesis using snap_inv_status_only [OF inv] snap_inv_running [OF inv] by simp
next
  case unresolve
  then show ?thesis using snap_inv_status_only [OF inv] snap_inv_running [OF inv] by simp
next
  case cancelled
  then show ?thesis using snap_inv_cancel [OF inv] by simp
qed

lemma flow_trans_inv:
  assumes "FlowDefinition_validate d = Ok ()" and "snap_inv sha256 d sn"
    and "flow_trans sha256 d sn kind sn'"
  shows "snap_inv sha256 d sn'"
  using assms flow_rule_inv by (auto simp: flow_trans_def)

text \<open>No transition touches the identity of the run or of a step.\<close>

definition step_identity :: "StepSnapshot \<Rightarrow> string \<times> string \<times> StepSemanticRole" where
  "step_identity s = (ss_id s, ss_idempotency_identity s, ss_semantic_role s)"

definition same_identity :: "FlowSnapshot \<Rightarrow> FlowSnapshot \<Rightarrow> bool" where
  "same_identity sn sn' \<longleftrightarrow>
     sn_snapshot_version sn' = sn_snapshot_version sn \<and> sn_run_id sn' = sn_run_id sn
   \<and> sn_definition_digest sn' = sn_definition_digest sn
   \<and> map step_identity (sn_steps sn') = map step_identity (sn_steps sn)"

lemma step_identity_simps [simp]:
  "step_identity (block_step r s) = step_identity s"
  "step_identity (push_result rr st s) = step_identity s"
  "step_identity (s\<lparr>ss_state := st\<rparr>) = step_identity s"
  "step_identity (s\<lparr>ss_approval := a\<rparr>) = step_identity s"
  "step_identity (cancel_step s) = step_identity s"
  by (simp_all add: step_identity_def block_step_def push_result_def)

lemma map_update_id: "g (f (xs ! i)) = g (xs ! i) \<Longrightarrow> map g (xs[i := f (xs ! i)]) = map g xs"
  by (cases "i < length xs") (simp_all add: map_list_update_same list_update_beyond)

lemma same_identity_upd [simp]:
  "step_identity (f (sn_steps sn ! i)) = step_identity (sn_steps sn ! i) \<Longrightarrow>
   same_identity sn (upd_step sn i f)"
  by (simp add: same_identity_def map_update_id)

lemma same_identity_simps [simp]:
  "same_identity sn sn"
  "same_identity sn (set_status st sn') = same_identity sn sn'"
  "same_identity sn (sn'\<lparr>sn_cancel_requested := c\<rparr>) = same_identity sn sn'"
  "same_identity sn (bump sn') = same_identity sn sn'"
  by (simp_all add: same_identity_def)

lemma flow_rule_identity:
  assumes "flow_rule sha256 d sn kind sn'"
  shows "sn_transition_sequence sn' = sn_transition_sequence sn \<and> same_identity sn sn'"
  using assms
proof cases
  case (deny i token)
  have "upd_step (set_approval i (Denied token) sn) i f = upd_step sn i (\<lambda>s. f (s\<lparr>ss_approval := Denied token\<rparr>))" for f
    using deny(3) by (simp add: set_defs upd_step_def)
  with deny show ?thesis by simp
next
  case cancelled
  then show ?thesis by (simp add: same_identity_def)
qed (simp_all add: set_defs)

end
