(* ===== verification/Flow_Refinement.thy ===== *)
theory Flow_Refinement
  imports Flow_Invariant
begin

text \<open>
  The engine operations refine the transition relation: from a run that satisfies the
  invariant, an operation reports an error and leaves the run as it was, observes the
  run, or appends exactly one transition of \<open>flow_trans\<close> with its semantic events.  In
  particular no operation panics and the scheduler never stalls.
\<close>

section \<open>Step lookup\<close>

lemma find_position: "find p xs = map_option (\<lambda>i. xs ! i) (position p xs)"
  by (induction xs) (auto simp: option.map_comp comp_def)

lemma snap_inv_ids:
  assumes "snap_inv sha256 d sn"
  shows "map ss_id (sn_steps sn) = map fs_id (fd_steps d)"
  using assms by (auto simp: snap_inv_def step_inv_def intro: nth_equalityI)

lemma snap_inv_distinct:
  assumes "FlowDefinition_validate d = Ok ()" and "snap_inv sha256 d sn"
  shows "distinct (map ss_id (sn_steps sn))"
  using FlowDefinition_validate_Ok(3) [OF assms(1)] snap_inv_ids [OF assms(2)] by simp

lemma step_position:
  assumes "distinct (map ss_id (sn_steps sn))" and "i < length (sn_steps sn)"
  shows "position (\<lambda>s. ss_id s = ss_id (sn_steps sn ! i)) (sn_steps sn) = Some i"
  using position_distinct [OF assms] .

lemma step_position_upd:
  assumes "distinct (map ss_id (sn_steps sn))" and "i < length (sn_steps sn)"
    and "ss_id y = ss_id (sn_steps sn ! i)"
  shows "position (\<lambda>s. ss_id s = ss_id (sn_steps sn ! i)) ((sn_steps sn)[i := y]) = Some i"
proof -
  have "map ss_id ((sn_steps sn)[i := y]) = map ss_id (sn_steps sn)"
    using assms(2,3) by (rule map_list_update_same)
  then show ?thesis using position_cong_key step_position [OF assms(1,2)] by metis
qed

section \<open>Semantic events exist\<close>

lemma evidence_event_length: "length (evidence_event i r) \<le> 1"
  by (simp add: evidence_event_def)

lemma role_event_length: "length (role_event k i r) \<le> 1"
  by (cases k) auto

lemma evidence_role_length: "length (evidence_event i r) + length (role_event k i' r') \<le> 2"
  using add_mono [OF evidence_event_length [of i r] role_event_length [of k i' r']] by simp

lemma transition_events_length:
  "transition_events sn kind = Ok events \<Longrightarrow> length events \<le> 2"
  using evidence_event_length
  by (cases kind)
     (auto simp: and_then_Inr_iff unresolved_events_def blocked_events_def ok_or_Inr_iff evidence_role_length)

lemma semantic_events_eq:
  "semantic_events_for_transition sn kind = transition_events sn kind"
proof (cases "transition_events sn kind")
  case (Inr events)
  with transition_events_length [OF Inr] show ?thesis
    by (simp add: semantic_events_for_transition_def MAX_FLOW_SEMANTIC_EVENTS_PER_TRANSITION_def)
qed (simp add: semantic_events_for_transition_def)

lemma events_of_updated_step:
  assumes dist: "distinct (map ss_id (sn_steps sn))" and i: "i < length (sn_steps sn)"
    and steps: "sn_steps sn' = (sn_steps sn)[i := y]" and id: "ss_id y = ss_id (sn_steps sn ! i)"
  shows "ss_results y \<noteq> [] \<Longrightarrow> \<exists>r. transition_step_report sn' (ss_id (sn_steps sn ! i)) = Ok r"
    and "ss_results y \<noteq> [] \<Longrightarrow> \<exists>s r. transition_step_snapshot sn' (ss_id (sn_steps sn ! i)) = Ok s \<and> last_report s = Ok r"
    and "ss_blocked_report y \<noteq> None \<Longrightarrow> \<exists>ev. blocked_events sn' (ss_id (sn_steps sn ! i)) = Ok ev"
  using step_position_upd [OF dist i id] i
  by (auto simp: transition_step_report_def transition_step_snapshot_def find_position steps
        last_report_def last_opt_def blocked_events_def)

lemma flow_rule_events:
  assumes valid: "FlowDefinition_validate d = Ok ()" and inv: "snap_inv sha256 d sn"
    and rule: "flow_rule sha256 d sn kind sn'"
  shows "\<exists>events. semantic_events_for_transition (bump sn') kind = Ok events"
proof -
  have dist: "distinct (map ss_id (sn_steps sn))" using snap_inv_distinct [OF valid inv] .
  note upd = events_of_updated_step [OF dist]
  have blocked: "\<exists>ev. blocked_events (bump (set_status st (upd_step sn i (block_step rep))))
      (ss_id (sn_steps sn ! i)) = Ok ev" if "i < length (sn_steps sn)" for st i rep
    by (rule upd(3) [OF that, where y = "block_step rep (sn_steps sn ! i)"])
       (simp_all add: block_step_def)
  have pushed:
    "\<exists>r. transition_step_report (bump (set_status st (upd_step sn i (push_result rr st'))))
       (ss_id (sn_steps sn ! i)) = Ok r"
    "\<exists>s r. transition_step_snapshot (bump (set_status st (upd_step sn i (push_result rr st'))))
       (ss_id (sn_steps sn ! i)) = Ok s \<and> last_report s = Ok r"
    if "i < length (sn_steps sn)" for st i rr st'
    by (rule upd [OF that, where y = "push_result rr st' (sn_steps sn ! i)"];
        simp add: push_result_def)+
  from rule show ?thesis
  proof cases
    case (deny i token)
    let ?y = "block_step (EffectReport_trusted approval_denied_text)
                ((sn_steps sn ! i)\<lparr>ss_approval := Denied token\<rparr>)"
    have "sn_steps (bump sn') = (sn_steps sn)[i := ?y]" using deny by (simp add: set_defs)
    from upd(3) [OF deny(3) this] deny show ?thesis
      by (auto simp: semantic_events_eq block_step_def)
  next
    case (unauthorized i a)
    then show ?thesis using blocked by (simp add: semantic_events_eq)
  next
    case (unauthorized_replay i a t)
    then show ?thesis using blocked by (simp add: semantic_events_eq)
  next
    case (unknown i a t report)
    then show ?thesis using blocked by (simp add: semantic_events_eq)
  next
    case (succeed i a t r)
    obtain s rep where "transition_step_snapshot (bump sn') (ss_id (sn_steps sn ! i)) = Ok s"
      "last_report s = Ok rep"
      using pushed(2) [OF succeed(4)] unfolding succeed(2) by blast
    then show ?thesis unfolding succeed(1) by (simp add: semantic_events_eq)
  next
    case (fail i a t r retryable)
    obtain rep where "transition_step_report (bump sn') (ss_id (sn_steps sn ! i)) = Ok rep"
      using pushed(1) [OF fail(4)] unfolding fail(2) by blast
    then show ?thesis unfolding fail(1) by (simp add: semantic_events_eq unresolved_events_def)
  next
    case (exhaust i a t r)
    obtain rep where "transition_step_report (bump sn') (ss_id (sn_steps sn ! i)) = Ok rep"
      using pushed(1) [OF exhaust(4)] unfolding exhaust(2) by blast
    then show ?thesis unfolding exhaust(1) by (simp add: semantic_events_eq unresolved_events_def)
  next
    case (retry i a t r now t')
    obtain rep where "transition_step_report (bump sn') (ss_id (sn_steps sn ! i)) = Ok rep"
      using pushed(1) [OF retry(4)] unfolding retry(2) by blast
    then show ?thesis unfolding retry(1) by (simp add: semantic_events_eq unresolved_events_def)
  next
    case (request_cancel i)
    then have "\<exists>s. find (\<lambda>s. is_in_flight (ss_state s)) (sn_steps sn) = Some s"
      by (metis find_None_iff nth_mem option.exhaust)
    with request_cancel show ?thesis by (auto simp: semantic_events_eq)
  qed (auto simp: semantic_events_eq)
qed

section \<open>What one operation may do\<close>

definition update_refines :: "(string \<Rightarrow> string) \<Rightarrow> FlowRun \<Rightarrow> EngineUpdate \<Rightarrow> FlowRun \<Rightarrow> bool" where
  "update_refines sha256 run u run' \<longleftrightarrow>
     run_definition run' = run_definition run \<and> up_snapshot u = run_snapshot run' \<and>
     (case up_transition u of
        None \<Rightarrow> run' = run
      | Some t \<Rightarrow>
          flow_trans sha256 (run_definition run) (run_snapshot run) (tr_kind t) (run_snapshot run')
          \<and> tr_sequence t = sn_transition_sequence (run_snapshot run')
          \<and> semantic_events_for_transition (run_snapshot run') (tr_kind t) = Ok (tr_semantic_events t))"

definition refines :: "(string \<Rightarrow> string) \<Rightarrow> FlowRun \<Rightarrow> engine_result \<Rightarrow> bool" where
  "refines sha256 run res \<longleftrightarrow>
     (case res of
        (Inl e, run') \<Rightarrow> run' = run \<and> e \<noteq> EnginePanic \<and> e \<noteq> SchedulerStalled
      | (Inr u, run') \<Rightarrow> update_refines sha256 run u run')"

lemma refines_error [intro]:
  "e \<noteq> EnginePanic \<Longrightarrow> e \<noteq> SchedulerStalled \<Longrightarrow> refines sha256 run (Inl e, run)"
  by (simp add: refines_def)

lemma refines_observe [intro, simp]: "refines sha256 run (observe decision run)"
  by (simp add: refines_def update_refines_def observe_def observed_def)

lemma early_simps [simp]:
  "early (Inl e) run f = (Inl e, run)"
  "early (Inr x) run f = f x"
  by (simp_all add: early_def)

lemma refines_early:
  assumes "\<And>e. r = Inl e \<Longrightarrow> e \<noteq> EnginePanic \<and> e \<noteq> SchedulerStalled"
    and "\<And>x. r = Inr x \<Longrightarrow> refines sha256 run (f x)"
  shows "refines sha256 run (early r run f)"
  using assms by (cases r) (auto simp: refines_def)

lemma ensure_can_change_iff [simp]:
  "ensure_can_change run = Inr u \<longleftrightarrow> sn_transition_sequence (run_snapshot run) \<noteq> -1"
  "ensure_can_change run = Inl e \<longleftrightarrow>
     sn_transition_sequence (run_snapshot run) = -1 \<and> e = TransitionSequenceOverflow"
  by (auto simp: ensure_can_change_def)

lemma refines_ensure:
  assumes "sn_transition_sequence (run_snapshot run) \<noteq> -1 \<Longrightarrow> refines sha256 run (f ())"
  shows "refines sha256 run (early (ensure_can_change run) run f)"
  using assms by (intro refines_early) auto

lemma on_snapshot_sel [simp]:
  "run_snapshot (on_snapshot f run) = f (run_snapshot run)"
  "run_definition (on_snapshot f run) = run_definition run"
  "run_issued_attempt (on_snapshot f run) = run_issued_attempt run"
  "run_snapshot (set_issued a run) = run_snapshot run"
  "run_definition (set_issued a run) = run_definition run"
  "run_issued_attempt (set_issued a run) = a"
  "run_snapshot (block_run i r run) =
     set_status RunStatus.Blocked (upd_step (run_snapshot run) i (block_step r))"
  "run_definition (block_run i r run) = run_definition run"
  by (simp_all add: on_snapshot_def set_issued_def block_run_def)

text \<open>An appended transition whose snapshot change is a rule of the relation.\<close>

lemma refines_changed:
  assumes inv: "run_inv sha256 run"
    and rule: "flow_rule sha256 (run_definition run) (run_snapshot run) kind (run_snapshot run')"
    and seq: "sn_transition_sequence (run_snapshot run) \<noteq> -1"
      "sn_transition_sequence (run_snapshot run') = sn_transition_sequence (run_snapshot run)"
    and d: "run_definition run' = run_definition run"
  shows "refines sha256 run (changed kind decision run')"
proof -
  obtain events where ev: "semantic_events_for_transition (bump (run_snapshot run')) kind = Ok events"
    using flow_rule_events [OF _ _ rule] inv by (auto simp: run_inv_def)
  have bump: "(run_snapshot run')\<lparr>sn_transition_sequence := sn_transition_sequence (run_snapshot run') + 1\<rparr>
      = bump (run_snapshot run')" by (simp add: bump_def)
  show ?thesis
    using seq d rule ev
    by (auto simp: changed_def refines_def update_refines_def checked_add_one on_snapshot_def bump_def
          flow_trans_def Let_def)
qed

section \<open>Queries under the invariant\<close>

lemma run_invD:
  assumes "run_inv sha256 run"
  shows "FlowDefinition_validate (run_definition run) = Ok ()"
    and "snap_inv sha256 (run_definition run) (run_snapshot run)"
    and "length (run_steps run) = length (declared_steps run)"
  using assms snap_invD(1) by (auto simp: run_inv_def)

lemma effect_attempt_eq:
  assumes "length (run_steps run) = length (declared_steps run)" and "i < length (run_steps run)"
  shows "effect_attempt run i a =
     Ok \<lparr>ea_step_index = i, ea_step_id = ss_id (run_steps run ! i), ea_attempt = a,
         ea_idempotency_identity = ss_idempotency_identity (run_steps run ! i),
         ea_effect = fs_effect (declared_steps run ! i),
         ea_timeout_seconds = fs_timeout_seconds (declared_steps run ! i)\<rparr>"
  using assms by (simp add: effect_attempt_def get_opt_def)

lemma state_by_id_eq:
  "state_by_id run r = ok_or (snapshot_state_by_id (run_definition run) (run_snapshot run) r) EnginePanic"
  by (auto simp: state_by_id_def snapshot_state_by_id_def split: option.splits)

lemma reference_state:
  assumes inv: "run_inv sha256 run" and i: "i < length (run_steps run)"
    and r: "r \<in> set (step_references (declared_steps run ! i))"
  obtains j where "j < length (run_steps run)" "step_index (declared_steps run) r = Some j"
    "snapshot_state_by_id (run_definition run) (run_snapshot run) r = Some (ss_state (run_steps run ! j))"
proof -
  have i': "declared_steps run ! i \<in> set (declared_steps run)" using i run_invD(3) [OF inv] by simp
  obtain j where j: "j < length (declared_steps run)" "step_index (declared_steps run) r = Some j"
    using FlowDefinition_validate_Ok(5) [OF run_invD(1) [OF inv]] i' r
    by (auto simp: references_resolve_def)
  then show ?thesis
    using run_invD(3) [OF inv] that by (auto simp: snapshot_state_by_id_def step_index_def get_opt_def)
qed

lemma prerequisites_complete_eq:
  assumes inv: "run_inv sha256 run" and i: "i < length (run_steps run)"
  shows "prerequisites_complete run i = Ok (ready (run_definition run) (run_snapshot run) i)"
proof -
  have "all_references_terminal run rs =
      Ok (list_all (\<lambda>r. case snapshot_state_by_id (run_definition run) (run_snapshot run) r of
            None \<Rightarrow> False | Some st \<Rightarrow> StepState_is_terminal st) rs)"
    if "set rs \<subseteq> set (step_references (declared_steps run ! i))" for rs
    using that
  proof (induction rs)
    case (Cons r rs)
    then have "r \<in> set (step_references (declared_steps run ! i))" by simp
    with inv i obtain j where
      "snapshot_state_by_id (run_definition run) (run_snapshot run) r = Some (ss_state (run_steps run ! j))"
      by (rule reference_state)
    with Cons show ?case by (simp add: state_by_id_eq)
  qed simp
  then show ?thesis
    using i run_invD(3) [OF inv]
    by (simp add: prerequisites_complete_def get_opt_def ready_def references_terminal_def)
qed

lemma condition_is_true_eq:
  assumes inv: "run_inv sha256 run" and i: "i < length (run_steps run)"
  shows "condition_is_true run i = Ok (condition_holds (run_definition run) (run_snapshot run) i)"
proof -
  have "\<exists>st. snapshot_state_by_id (run_definition run) (run_snapshot run) r = Some st"
    if "referenced_step (fs_condition (declared_steps run ! i)) = Some r" for r
  proof -
    have "r \<in> set (step_references (declared_steps run ! i))" using that by (simp add: step_references_def)
    with inv i show ?thesis by (rule reference_state) blast
  qed
  then have st: "\<exists>st. snapshot_state_by_id (run_definition run) (run_snapshot run) r = Some st \<and>
      state_by_id run r = Ok st"
    if "referenced_step (fs_condition (declared_steps run ! i)) = Some r" for r
    using that by (metis state_by_id_eq ok_or_simps(2))
  have get: "get_opt (declared_steps run) i = Some (declared_steps run ! i)"
    using i run_invD(3) [OF inv] by simp
  show ?thesis
  proof (cases "fs_condition (declared_steps run ! i)")
    case Always
    then show ?thesis
      unfolding condition_is_true_def get
      by (simp add: condition_holds_def declared_condition_true_def)
  next
    case (Succeeded r)
    with st [of r] show ?thesis
      unfolding condition_is_true_def get
      by (auto simp: condition_holds_def declared_condition_true_def split: StepState.split)
  next
    case (Failed r)
    with st [of r] show ?thesis
      unfolding condition_is_true_def get
      by (auto simp: condition_holds_def declared_condition_true_def split: StepState.split)
  qed
qed

lemma first_ready_eq:
  assumes inv: "run_inv sha256 run" and "set is \<subseteq> {..<length (run_steps run)}"
  shows "\<exists>res. first_ready run is = Ok res \<and>
     (\<forall>i. res = Some i \<longrightarrow> ss_state (run_steps run ! i) = StepState.Pending
            \<and> ready (run_definition run) (run_snapshot run) i
            \<and> (\<exists>pre suf. is = pre @ i # suf \<and>
                 (\<forall>j \<in> set pre. ss_state (run_steps run ! j) = StepState.Pending \<longrightarrow>
                    \<not> ready (run_definition run) (run_snapshot run) j))) \<and>
     (res = None \<longrightarrow> (\<forall>i \<in> set is. ss_state (run_steps run ! i) = StepState.Pending \<longrightarrow>
            \<not> ready (run_definition run) (run_snapshot run) i))"
  using assms(2)
proof (induction "is")
  case (Cons k "is")
  then obtain res where IH: "first_ready run is = Ok res"
     "\<And>i. res = Some i \<Longrightarrow> ss_state (run_steps run ! i) = StepState.Pending
            \<and> ready (run_definition run) (run_snapshot run) i
            \<and> (\<exists>pre suf. is = pre @ i # suf \<and>
                 (\<forall>j \<in> set pre. ss_state (run_steps run ! j) = StepState.Pending \<longrightarrow>
                    \<not> ready (run_definition run) (run_snapshot run) j))"
     "res = None \<Longrightarrow> \<forall>i \<in> set is. ss_state (run_steps run ! i) = StepState.Pending \<longrightarrow>
            \<not> ready (run_definition run) (run_snapshot run) i"
    by auto
  have k: "prerequisites_complete run k = Ok (ready (run_definition run) (run_snapshot run) k)"
    using Cons.prems by (intro prerequisites_complete_eq [OF inv]) simp
  show ?case
  proof (cases "ss_state (run_steps run ! k) = StepState.Pending \<and>
      ready (run_definition run) (run_snapshot run) k")
    case True
    then have "first_ready run (k # is) = Ok (Some k)" using k by simp
    moreover have "\<exists>pre suf. k # is = pre @ k # suf \<and>
        (\<forall>j \<in> set pre. ss_state (run_steps run ! j) = StepState.Pending \<longrightarrow>
           \<not> ready (run_definition run) (run_snapshot run) j)"
      by (intro exI [of _ "[]"] exI [of _ "is"]) simp
    ultimately show ?thesis using True by (simp del: first_ready.simps)
  next
    case False
    then have eq: "first_ready run (k # is) = Ok res" using IH(1) k by auto
    have "\<exists>pre suf. k # is = pre @ i # suf \<and>
        (\<forall>j \<in> set pre. ss_state (run_steps run ! j) = StepState.Pending \<longrightarrow>
           \<not> ready (run_definition run) (run_snapshot run) j)" if i: "res = Some i" for i
    proof -
      from IH(2) [OF i] obtain pre suf where "is = pre @ i # suf"
        "\<forall>j \<in> set pre. ss_state (run_steps run ! j) = StepState.Pending \<longrightarrow>
           \<not> ready (run_definition run) (run_snapshot run) j" by blast
      with False show ?thesis by (intro exI [of _ "k # pre"] exI [of _ suf]) auto
    qed
    with eq IH(2,3) False show ?thesis by auto
  qed
qed simp

lemma first_ready_all:
  assumes inv: "run_inv sha256 run"
  obtains
    (some) i where "first_ready run [0..<length (run_steps run)] = Ok (Some i)"
      "i < length (run_steps run)" "ss_state (run_steps run ! i) = StepState.Pending"
      "ready (run_definition run) (run_snapshot run) i"
      "first_pending (run_definition run) (run_snapshot run) i"
  | (none) "first_ready run [0..<length (run_steps run)] = Ok None"
      "\<And>i. i < length (run_steps run) \<Longrightarrow> ss_state (run_steps run ! i) = StepState.Pending \<Longrightarrow>
         \<not> ready (run_definition run) (run_snapshot run) i"
proof -
  obtain res where res: "first_ready run [0..<length (run_steps run)] = Ok res"
    and found: "\<And>i. res = Some i \<Longrightarrow> ss_state (run_steps run ! i) = StepState.Pending
        \<and> ready (run_definition run) (run_snapshot run) i
        \<and> (\<exists>pre suf. [0..<length (run_steps run)] = pre @ i # suf \<and>
             (\<forall>j \<in> set pre. ss_state (run_steps run ! j) = StepState.Pending \<longrightarrow>
                \<not> ready (run_definition run) (run_snapshot run) j))"
    and unready: "res = None \<Longrightarrow> \<forall>i < length (run_steps run). ss_state (run_steps run ! i) = StepState.Pending \<longrightarrow>
        \<not> ready (run_definition run) (run_snapshot run) i"
    using first_ready_eq [OF inv, of "[0..<length (run_steps run)]"] by (auto simp: subset_eq)
  show ?thesis
  proof (cases res)
    case None
    then show ?thesis using res unready none by blast
  next
    case (Some i)
    then obtain pre suf where split: "[0..<length (run_steps run)] = pre @ i # suf"
      and before: "\<forall>j \<in> set pre. ss_state (run_steps run ! j) = StepState.Pending \<longrightarrow>
                \<not> ready (run_definition run) (run_snapshot run) j"
      using found by blast
    have pre: "length pre < length (run_steps run)" using arg_cong [OF split, of length] by simp
    have i: "i = length pre" using arg_cong [OF split, of "\<lambda>xs. xs ! length pre"] pre by (simp add: nth_append)
    have "pre = [0..<i]" using arg_cong [OF split, of "take i"] pre i by (simp add: take_upt)
    with before have "first_pending (run_definition run) (run_snapshot run) i"
      by (simp add: first_pending_def)
    then show ?thesis using some res Some found pre i by simp
  qed
qed

text \<open>Acyclicity: when no step is active and one is pending, some pending step is ready.\<close>

lemma some_step_ready:
  assumes inv: "run_inv sha256 run"
    and idle: "\<And>i. i < length (run_steps run) \<Longrightarrow> \<not> is_active_state (ss_state (run_steps run ! i))"
    and k: "k < length (run_steps run)" "ss_state (run_steps run ! k) = StepState.Pending"
  shows "\<exists>i < length (run_steps run). ss_state (run_steps run ! i) = StepState.Pending
           \<and> ready (run_definition run) (run_snapshot run) i"
proof -
  let ?edges = "reference_edges (declared_steps run) (step_index (declared_steps run))"
  let ?pending = "{i. i < length (run_steps run) \<and> ss_state (run_steps run ! i) = StepState.Pending}"
  have "wf ?edges" using FlowDefinition_validate_Ok(6) [OF run_invD(1) [OF inv]] .
  then obtain i where i: "i \<in> ?pending" and least: "\<And>j. (j, i) \<in> ?edges \<Longrightarrow> j \<notin> ?pending"
    using wfE_min [of ?edges k ?pending] k by blast
  have "case snapshot_state_by_id (run_definition run) (run_snapshot run) r of
          None \<Rightarrow> False | Some st \<Rightarrow> StepState_is_terminal st"
    if r: "r \<in> set (step_references (declared_steps run ! i))" for r
  proof -
    obtain j where j: "j < length (run_steps run)" "step_index (declared_steps run) r = Some j"
      "snapshot_state_by_id (run_definition run) (run_snapshot run) r = Some (ss_state (run_steps run ! j))"
      using reference_state [OF inv _ r] i by blast
    have "(j, i) \<in> ?edges"
      using i r j(2) run_invD(3) [OF inv] by (force simp: reference_edges_def image_iff)
    then have "ss_state (run_steps run ! j) \<noteq> StepState.Pending" using least j(1) by blast
    then show ?thesis using idle [OF j(1)] j(3) by (simp add: is_active_state_def)
  qed
  then have "ready (run_definition run) (run_snapshot run) i"
    by (simp add: ready_def references_terminal_def list_all_iff)
  then show ?thesis using i by blast
qed

section \<open>Scheduling refines the relation\<close>

lemma finish_cancelled_refines:
  assumes inv: "run_inv sha256 run" and st: "\<not> RunStatus_is_terminal (sn_status (run_snapshot run))"
  shows "refines sha256 run (finish_cancelled run)"
  unfolding finish_cancelled_def Let_def
  by (rule refines_ensure, rule refines_changed [OF inv])
     (unfold on_snapshot_sel, rule flow_rule.cancelled [OF st], simp_all)

lemma in_flight_effect_cases:
  assumes "length (run_steps run) = length (declared_steps run)"
  obtains
    (none) "in_flight_effect run = Ok None" "\<forall>s \<in> set (run_steps run). \<not> is_in_flight (ss_state s)"
  | (some) i a t effect where "in_flight_effect run = Ok (Some effect)"
      "i < length (run_steps run)" "ss_state (run_steps run ! i) = InFlight a t"
      "ea_step_index effect = i" "ea_attempt effect = a" "ea_step_id effect = ss_id (run_steps run ! i)"
      "ea_effect effect = fs_effect (declared_steps run ! i)"
proof (cases "position (\<lambda>s. is_in_flight (ss_state s)) (run_steps run)")
  case None
  then have "in_flight_effect run = Ok None" by (simp add: in_flight_effect_def)
  with None show ?thesis using none by (simp add: position_None_iff)
next
  case (Some i)
  then have i: "i < length (run_steps run)" "is_in_flight (ss_state (run_steps run ! i))"
    using position_SomeD by fastforce+
  then obtain a t where "ss_state (run_steps run ! i) = InFlight a t"
    by (auto simp: is_in_flight_def split: StepState.splits)
  moreover from this Some have "in_flight_effect run =
      and_then (effect_attempt run i a) (\<lambda>effect. Ok (Some effect))"
    by (simp add: in_flight_effect_def)
  ultimately show ?thesis
    using some i by (simp add: effect_attempt_eq [OF assms i(1)])
qed

lemma cancelling_decision_refines:
  assumes inv: "run_inv sha256 run" and st: "\<not> RunStatus_is_terminal (sn_status (run_snapshot run))"
  shows "refines sha256 run (cancelling_decision run)"
  using run_invD(3) [OF inv]
proof (cases rule: in_flight_effect_cases)
  case none
  then show ?thesis using finish_cancelled_refines [OF assms] by (simp add: cancelling_decision_def)
next
  case (some i a t effect)
  then show ?thesis using finish_cancelled_refines [OF assms] by (simp add: cancelling_decision_def)
qed

lemma cancel_refines:
  assumes inv: "run_inv sha256 run"
  shows "refines sha256 run (cancel run)"
proof (cases "RunStatus_is_terminal (sn_status (run_snapshot run)) \<or> sn_cancel_requested (run_snapshot run)")
  case True
  then show ?thesis using cancelling_decision_refines [OF inv] by (auto simp: cancel_def)
next
  case False
  let ?run' = "on_snapshot (\<lambda>snapshot. snapshot\<lparr>sn_cancel_requested := True\<rparr>) run"
  have len: "length (run_steps ?run') = length (declared_steps ?run')" using run_invD(3) [OF inv] by simp
  show ?thesis
  proof (cases "sn_transition_sequence (run_snapshot run) = -1")
    case True
    with False show ?thesis by (simp add: cancel_def ensure_can_change_def early_def refines_def)
  next
    case seq: False
    then have fin: "finish_cancelled ?run' = finish_cancelled run"
      by (simp add: finish_cancelled_def ensure_can_change_def on_snapshot_def)
    from seq have eq: "cancel run = early (in_flight_effect ?run') ?run' (\<lambda>in_flight.
      (case in_flight of
         Some effect \<Rightarrow>
           if ea_effect effect = ReadOnly then finish_cancelled ?run'
           else changed CancellationRequested (Reconcile effect)
                  (on_snapshot (set_status Cancelling) ?run')
       | None \<Rightarrow> finish_cancelled ?run'))"
      using False by (simp add: cancel_def ensure_can_change_def Let_def)
    from len show ?thesis
    proof (cases rule: in_flight_effect_cases)
      case none
      then show ?thesis using finish_cancelled_refines [OF inv] False fin eq by simp
    next
      case (some i a t effect)
      show ?thesis
      proof (cases "ea_effect effect")
        case ReadOnly
        with some show ?thesis using finish_cancelled_refines [OF inv] False fin eq by simp
      next
        case Stateful
        have st: "sn_status (run_snapshot run) = EffectInFlight"
        proof -
          note snap = run_invD(2) [OF inv]
          have "sn_status (run_snapshot run) = EffectInFlight \<or> sn_status (run_snapshot run) = Cancelling"
            using active_status(4) [OF snap_invD(5) [OF snap] _ snap_invD(3) [OF snap]] some by auto
          then show ?thesis using snap_invD(5) [OF snap] False by auto
        qed
        have "flow_rule sha256 (run_definition run) (run_snapshot run) CancellationRequested
            (set_status Cancelling ((run_snapshot run)\<lparr>sn_cancel_requested := True\<rparr>))"
          using some Stateful st by (intro flow_rule.request_cancel [of _ i]) (auto simp: is_in_flight_def)
        then have "refines sha256 run (changed CancellationRequested (Reconcile effect)
            (on_snapshot (set_status Cancelling) ?run'))"
          using seq by (intro refines_changed [OF inv]) simp_all
        with eq some Stateful show ?thesis by simp
      qed
    qed
  qed
qed

lemma decision_for_active_refines:
  assumes inv: "run_inv sha256 run" and i: "i < length (run_steps run)"
    and act: "is_active_state (ss_state (run_steps run ! i))"
  shows "refines sha256 run (decision_for_active i (ss_state (run_steps run ! i)) now run)"
proof -
  note len = run_invD(3) [OF inv] and snap = run_invD(2) [OF inv]
  have attempt: "effect_attempt run i a = Ok effect \<Longrightarrow> early (effect_attempt run i a) r f = f effect"
    for a effect r f by simp
  show ?thesis
  proof (cases "ss_state (run_steps run ! i)")
    case (AwaitingEffect a)
    then show ?thesis by (simp add: decision_for_active_def effect_attempt_eq [OF len i])
  next
    case (InFlight a t)
    then show ?thesis by (simp add: decision_for_active_def effect_attempt_eq [OF len i])
  next
    case (WaitingRetry a t)
    show ?thesis
    proof (cases "now < t")
      case True
      with WaitingRetry show ?thesis by (simp add: decision_for_active_def effect_attempt_eq [OF len i])
    next
      case False
      let ?run' = "on_snapshot (\<lambda>snapshot. set_status AwaitingEffectEvaluation
                    (set_state i (AwaitingEffect a) snapshot)) run"
      have "effect_attempt ?run' i a = Ok \<lparr>ea_step_index = i, ea_step_id = ss_id (run_steps run ! i), ea_attempt = a,
         ea_idempotency_identity = ss_idempotency_identity (run_steps run ! i),
         ea_effect = fs_effect (declared_steps run ! i),
         ea_timeout_seconds = fs_timeout_seconds (declared_steps run ! i)\<rparr>"
        using len i by (simp add: effect_attempt_def get_opt_def set_defs)
      moreover have "sn_status (run_snapshot run) = RunStatus.WaitingRetry"
        using active_status(3) [OF snap_invD(5) [OF snap] i snap_invD(3) [OF snap i] WaitingRetry] .
      then have "flow_rule sha256 (run_definition run) (run_snapshot run)
          (EffectEvaluationRequired (ss_id (run_steps run ! i)) a)
          (set_status AwaitingEffectEvaluation (set_state i (AwaitingEffect a) (run_snapshot run)))"
        using i WaitingRetry by (rule flow_rule.retry_due)
      ultimately show ?thesis
        using WaitingRetry False
        by (auto simp: decision_for_active_def Let_def set_defs
                 intro!: refines_ensure refines_changed [OF inv])
    qed
  qed (use act in \<open>auto simp: is_active_state_def\<close>)
qed

lemma schedule_step_refines:
  assumes inv: "run_inv sha256 run" and i: "i < length (run_steps run)"
    and run: "sn_status (run_snapshot run) = Running \<or> is_pending_approval (ss_approval (run_steps run ! i))"
    and first: "first_pending (run_definition run) (run_snapshot run) i"
    and p: "ss_state (run_steps run ! i) = StepState.Pending"
    and r: "ready (run_definition run) (run_snapshot run) i"
      "condition_holds (run_definition run) (run_snapshot run) i"
  shows "refines sha256 run (schedule_step sha256 i 1 run)"
  unfolding schedule_step_def Let_def
proof (rule refines_ensure)
  note len = run_invD(3) [OF inv] and snap = run_invD(2) [OF inv]
  assume seq: "sn_transition_sequence (run_snapshot run) \<noteq> -1"
  let ?goal = "\<lambda>res. refines sha256 run res"
  let ?run' = "on_snapshot (\<lambda>snapshot. set_status AwaitingEffectEvaluation
                    (set_state i (AwaitingEffect 1) snapshot)) run"
  have attempt: "effect_attempt ?run' i 1 = Ok \<lparr>ea_step_index = i, ea_step_id = ss_id (run_steps run ! i),
      ea_attempt = 1, ea_idempotency_identity = ss_idempotency_identity (run_steps run ! i),
      ea_effect = fs_effect (declared_steps run ! i),
      ea_timeout_seconds = fs_timeout_seconds (declared_steps run ! i)\<rparr>"
    using len i by (simp add: effect_attempt_def get_opt_def set_defs)
  have eval: "refines sha256 run (early (effect_attempt ?run' i 1) ?run' (\<lambda>effect.
      changed (EffectEvaluationRequired (ea_step_id effect) 1) (EvaluateEffect effect False) ?run'))"
    if "approval_ready (ss_approval (run_steps run ! i))"
  proof -
    have "flow_rule sha256 (run_definition run) (run_snapshot run)
        (EffectEvaluationRequired (ss_id (run_steps run ! i)) 1)
        (set_status AwaitingEffectEvaluation (set_state i (AwaitingEffect 1) (run_snapshot run)))"
      using run approval_ready_not_pending [OF that] by (intro flow_rule.evaluate i p that r) simp
    then show ?thesis unfolding attempt using seq
      by (auto simp: set_defs intro!: refines_changed [OF inv])
  qed
  show "?goal (case ss_approval (run_steps run ! i) of
        NotRequested \<Rightarrow>
          changed (ApprovalRequested (ss_id (run_steps run ! i)))
            (AwaitApproval (ss_id (run_steps run ! i))
               (approval_token sha256 (ss_idempotency_identity (run_steps run ! i))))
            (on_snapshot (\<lambda>snapshot.
                set_status WaitingApproval
                  (set_approval i (StepApprovalState.Pending
                     (approval_token sha256 (ss_idempotency_identity (run_steps run ! i)))) snapshot)) run)
      | StepApprovalState.Pending token \<Rightarrow> observe (AwaitApproval (ss_id (run_steps run ! i)) token) run
      | Denied _ \<Rightarrow> (Err UnexpectedStepState, run)
      | _ \<Rightarrow> early (effect_attempt ?run' i 1) ?run' (\<lambda>effect.
          changed (EffectEvaluationRequired (ea_step_id effect) 1) (EvaluateEffect effect False) ?run'))"
  proof (cases "ss_approval (run_steps run ! i)")
    case NotRequested
    then have "flow_rule sha256 (run_definition run) (run_snapshot run)
        (ApprovalRequested (ss_id (run_steps run ! i)))
        (set_status WaitingApproval (set_approval i (StepApprovalState.Pending
           (approval_token sha256 (ss_idempotency_identity (run_steps run ! i)))) (run_snapshot run)))"
      using run by (intro flow_rule.request i p r first) (simp_all add: is_pending_approval_def)
    with NotRequested seq show ?thesis
      by (auto simp: set_defs intro!: refines_changed [OF inv])
  qed (use eval in \<open>auto simp: approval_ready_def is_granted_def\<close>)
qed

lemma skip_step_refines:
  assumes inv: "run_inv sha256 run" and i: "i < length (run_steps run)"
    and run: "sn_status (run_snapshot run) = Running"
    and p: "ss_state (run_steps run ! i) = StepState.Pending"
    and r: "ready (run_definition run) (run_snapshot run) i"
      "\<not> condition_holds (run_definition run) (run_snapshot run) i"
  shows "refines sha256 run (skip_step i run)"
  unfolding skip_step_def
  using flow_rule.skip [OF run i p r]
  by (auto intro!: refines_ensure refines_changed [OF inv] simp: set_defs)

lemma complete_run_refines:
  assumes inv: "run_inv sha256 run" and run: "sn_status (run_snapshot run) = Running"
    and settled: "list_all (\<lambda>s. StepState_is_terminal (ss_state s)) (run_steps run)"
  shows "refines sha256 run (complete_run run)"
proof -
  have t: "all_terminal (run_snapshot run)" using settled by (simp add: all_terminal_def list_all_iff)
  have f: "list_ex (\<lambda>s. is_failed_state (ss_state s)) (run_steps run) = any_failed (run_snapshot run)"
    by (auto simp: any_failed_def list_ex_iff)
  show ?thesis
    unfolding complete_run_def Let_def f
    using flow_rule.solve [OF run t] flow_rule.unresolve [OF run t]
    by (cases "any_failed (run_snapshot run)")
       (auto intro!: refines_ensure refines_changed [OF inv])
qed

lemma pending_condition:
  assumes inv: "snap_inv sha256 d sn" and i: "i < length (sn_steps sn)"
    and p: "is_pending_approval (ss_approval (sn_steps sn ! i))"
  shows "condition_holds d sn i"
  using snap_inv_focus(4) [OF inv i p] by simp

lemma idle_status:
  assumes inv: "snap_inv sha256 d sn"
    and idle: "\<And>i. i < length (sn_steps sn) \<Longrightarrow> \<not> is_active_state (ss_state (sn_steps sn ! i))"
    and st: "\<not> RunStatus_is_terminal (sn_status sn)" "\<not> sn_cancel_requested sn"
  shows "sn_status sn = Running \<or>
     (\<exists>k < length (sn_steps sn). is_pending_approval (ss_approval (sn_steps sn ! k)) \<and> first_pending d sn k
        \<and> ss_state (sn_steps sn ! k) = StepState.Pending \<and> ready d sn k)"
proof -
  have active: "is_active_state st" if "is_in_flight st \<or> is_awaiting_effect st \<or> is_waiting_retry st" for st
    using that by (cases st) (simp_all add: is_active_state_def state_tests)
  have inactive: "\<not> focused P sn" if "\<And>i s. P i s \<Longrightarrow> is_active_state (ss_state s)" for P
    using that idle by (auto simp: focused_def)
  show ?thesis
  proof (cases "sn_status sn = WaitingApproval")
    case True
    then obtain k where "k < length (sn_steps sn)" "is_pending_approval (ss_approval (sn_steps sn ! k))"
      "first_pending d sn k"
      using snap_invD(5) [OF inv] by (auto simp: focused_def)
    then show ?thesis using snap_inv_focus(4) [OF inv] by blast
  next
    case False
    then show ?thesis
      using snap_invD(5) [OF inv] st inactive active by (cases "sn_status sn") auto
  qed
qed

lemma waiting_is_first:
  assumes inv: "snap_inv sha256 d sn"
    and idle: "\<And>i. i < length (sn_steps sn) \<Longrightarrow> \<not> is_active_state (ss_state (sn_steps sn ! i))"
    and st: "\<not> RunStatus_is_terminal (sn_status sn) \<and> \<not> sn_cancel_requested sn"
    and i: "i < length (sn_steps sn)" "ss_state (sn_steps sn ! i) = StepState.Pending"
      "ready d sn i" "first_pending d sn i"
  shows "sn_status sn = Running \<or> is_pending_approval (ss_approval (sn_steps sn ! i))"
proof -
  from idle_status [OF inv idle] st consider "sn_status sn = Running"
    | k where "k < length (sn_steps sn)" "is_pending_approval (ss_approval (sn_steps sn ! k))"
        "first_pending d sn k" "ss_state (sn_steps sn ! k) = StepState.Pending" "ready d sn k" by blast
  then show ?thesis
  proof cases
    case (2 k)
    then have "i = k" using i by (metis first_pending_def linorder_cases)
    with 2 show ?thesis by simp
  qed simp
qed

lemma settled_status:
  assumes inv: "snap_inv sha256 d sn"
    and st: "\<not> RunStatus_is_terminal (sn_status sn) \<and> \<not> sn_cancel_requested sn"
    and settled: "list_all (\<lambda>s. StepState_is_terminal (ss_state s)) (sn_steps sn)"
  shows "sn_status sn = Running"
proof -
  have t: "StepState_is_terminal (ss_state (sn_steps sn ! i))" if "i < length (sn_steps sn)" for i
    using settled that by (simp add: list_all_length)
  then show ?thesis
    using idle_status [OF inv] st by (fastforce simp: is_active_state_def)
qed

lemma next_decision_refines:
  assumes inv: "run_inv sha256 run"
  shows "refines sha256 run (next_decision sha256 now run)"
proof (cases "RunStatus_is_terminal (sn_status (run_snapshot run)) \<or> sn_cancel_requested (run_snapshot run)")
  case True
  then show ?thesis using cancelling_decision_refines [OF inv] by (auto simp: next_decision_def)
next
  case open_run: False
  note snap = run_invD(2) [OF inv]
  show ?thesis
  proof (cases "position (\<lambda>s. is_active_state (ss_state s)) (run_steps run)")
    case (Some i)
    then show ?thesis
      using decision_for_active_refines [OF inv] position_SomeD [OF Some] open_run
      by (simp add: next_decision_def)
  next
    case None
    then have idle: "\<not> is_active_state (ss_state (run_steps run ! i))" if "i < length (run_steps run)" for i
      using that by (simp add: position_None_iff)
    have status: "sn_status (run_snapshot run) = Running \<or> is_pending_approval (ss_approval (run_steps run ! i))"
      if i: "i < length (run_steps run)" "ss_state (run_steps run ! i) = StepState.Pending"
        "ready (run_definition run) (run_snapshot run) i"
        "first_pending (run_definition run) (run_snapshot run) i" for i
      using waiting_is_first [OF snap idle _ i] open_run by blast
    from inv show ?thesis
    proof (cases rule: first_ready_all)
      case (some i)
      then show ?thesis
        using open_run None condition_is_true_eq [OF inv some(2)] status [OF some(2-5)]
          schedule_step_refines [OF inv some(2) status [OF some(2-5)] some(5,3,4)]
          skip_step_refines [OF inv some(2) _ some(3,4)] pending_condition [OF snap some(2)]
        by (auto simp: next_decision_def)
    next
      case none
      have settled: "list_all (\<lambda>s. StepState_is_terminal (ss_state s)) (run_steps run)"
        using some_step_ready [OF inv idle] none(2) idle
        by (metis is_active_state_def list_all_length)
      then have "sn_status (run_snapshot run) = Running"
        using settled_status [OF snap] open_run by blast
      with settled none None open_run show ?thesis
        using complete_run_refines [OF inv] by (simp add: next_decision_def)
    qed
  qed
qed

section \<open>Approvals and effects refine the relation\<close>

lemma resolve_approval_refines:
  assumes inv: "run_inv sha256 run"
  shows "refines sha256 run (resolve_approval token decision run)"
proof (cases "position (\<lambda>s. ss_approval s = StepApprovalState.Pending token) (run_steps run)")
  case None
  then show ?thesis by (auto simp: resolve_approval_def)
next
  case (Some i)
  then have i: "i < length (run_steps run)" "ss_approval (run_steps run ! i) = StepApprovalState.Pending token"
    using position_SomeD [OF Some] by simp_all
  show ?thesis
    unfolding resolve_approval_def Some option.case Let_def
  proof (rule refines_ensure)
    assume seq: "sn_transition_sequence (run_snapshot run) \<noteq> -1"
    show "refines sha256 run (case decision of
        Approve \<Rightarrow> changed (ApprovalGranted (ss_id (run_steps run ! i))) Continue
          (on_snapshot (\<lambda>snapshot. set_status Running (set_approval i (Granted token) snapshot)) run)
      | Deny \<Rightarrow> changed (ApprovalDenied (ss_id (run_steps run ! i)))
          (Terminal (build_result (on_snapshot (\<lambda>snapshot. set_status RunStatus.Blocked
             (upd_step (set_approval i (Denied token) snapshot) i
                (block_step (EffectReport_trusted approval_denied_text)))) run)))
          (on_snapshot (\<lambda>snapshot. set_status RunStatus.Blocked
             (upd_step (set_approval i (Denied token) snapshot) i
                (block_step (EffectReport_trusted approval_denied_text)))) run))"
      using flow_rule.grant [OF i] flow_rule.deny [OF i] seq
      by (cases decision) (auto simp: set_defs intro!: refines_changed [OF inv])
  qed
qed

lemma validate_effect_cases:
  assumes inv: "run_inv sha256 run"
  obtains
    (bad) "validate_effect run effect = Err EffectIdentityMismatch"
  | (good) "validate_effect run effect = Ok ()" "ea_step_index effect < length (run_steps run)"
      "ea_step_id effect = ss_id (run_steps run ! ea_step_index effect)"
      "ea_effect effect = fs_effect (declared_steps run ! ea_step_index effect)"
      "ea_idempotency_identity effect = ss_idempotency_identity (run_steps run ! ea_step_index effect)"
      "0 < ea_attempt effect"
      "ea_attempt effect \<le> max_attempts (fs_retry (declared_steps run ! ea_step_index effect))"
proof (cases "validate_effect run effect = Ok ()")
  case True
  then show ?thesis
    using run_invD(3) [OF inv]
    by (intro good) (auto simp: validate_effect_def get_opt_def word_gt_0 split: if_splits)
next
  case False
  then have "validate_effect run effect = Err EffectIdentityMismatch"
    using run_invD(3) [OF inv] by (auto simp: validate_effect_def get_opt_def split: if_splits)
  then show ?thesis by (rule bad)
qed

lemma in_flight_is_status:
  assumes inv: "run_inv sha256 run" and i: "i < length (run_steps run)"
    and st: "ss_state (run_steps run ! i) = InFlight a t"
  shows "in_flight_status (run_snapshot run)"
    and "\<not> sn_cancel_requested (run_snapshot run) \<Longrightarrow> sn_status (run_snapshot run) = EffectInFlight"
    and "sn_cancel_requested (run_snapshot run) \<Longrightarrow>
           sn_status (run_snapshot run) = Cancelling \<and> fs_effect (declared_steps run ! i) = Stateful"
  using active_status(4) [OF snap_invD(5) [OF run_invD(2) [OF inv]] i snap_invD(3) [OF run_invD(2) [OF inv] i] st]
    snap_invD(5) [OF run_invD(2) [OF inv]]
  by (auto simp: in_flight_status_def)

lemma prepare_effect_refines:
  assumes inv: "run_inv sha256 run"
  shows "refines sha256 run (prepare_effect effect now run)"
  using inv
proof (cases rule: validate_effect_cases [where effect = effect])
  case bad
  then show ?thesis by (auto simp: prepare_effect_def)
next
  case good
  note snap = run_invD(2) [OF inv]
  let ?i = "ea_step_index effect" and ?sn = "run_snapshot run" and ?d = "run_definition run"
  have start: "flow_rule sha256 ?d ?sn (EffectStarted (ss_id (run_steps run ! ?i)) a False)
      (set_status EffectInFlight (set_state ?i (InFlight a now) ?sn))"
    if "ss_state (run_steps run ! ?i) = AwaitingEffect a" for a
    using active_status(2) [OF snap_invD(5) [OF snap] good(2) snap_invD(3) [OF snap good(2)] that] good(2) that
    by (rule flow_rule.start)
  have replay: "flow_rule sha256 ?d ?sn (EffectStarted (ss_id (run_steps run ! ?i)) a True)
      (set_status EffectInFlight ?sn)"
    if "ss_state (run_steps run ! ?i) = InFlight a t" "ea_effect effect = ReadOnly" for a t
  proof -
    have ro: "fs_effect (declared_steps run ! ?i) = ReadOnly" using good(4) that(2) by simp
    have st: "sn_status ?sn = EffectInFlight"
      using in_flight_is_status(2,3) [OF inv good(2) that(1)] ro by auto
    then have "set_status EffectInFlight ?sn = ?sn" by (simp add: set_status_def)
    with flow_rule.replay [OF st good(2) that(1) ro] show ?thesis by simp
  qed
  show ?thesis
    unfolding prepare_effect_def good(1) early_simps Let_def
  proof (rule refines_ensure)
    assume seq: "sn_transition_sequence ?sn \<noteq> -1"
    show "refines sha256 run (case ss_state (run_steps run ! ?i) of
        AwaitingEffect attempt \<Rightarrow>
          if attempt = ea_attempt effect
          then changed (EffectStarted (ea_step_id effect) (ea_attempt effect) False) (Execute effect False)
             (set_issued (Some effect) (on_snapshot (set_status EffectInFlight)
                (on_snapshot (set_state ?i (InFlight attempt now)) run)))
          else (Err UnexpectedStepState, run)
      | InFlight attempt _ \<Rightarrow>
          if attempt = ea_attempt effect \<and> ea_effect effect = ReadOnly
          then changed (EffectStarted (ea_step_id effect) (ea_attempt effect) True) (Execute effect True)
             (set_issued (Some effect) (on_snapshot (set_status EffectInFlight) run))
          else (Err StatefulReplayRequiresReconcile, run)
      | _ \<Rightarrow> (Err UnexpectedStepState, run))"
      using start replay seq good(3)
      by (cases "ss_state (run_steps run ! ?i)")
         (auto simp: set_defs intro!: refines_changed [OF inv])
  qed
qed

lemma deny_effect_authorization_refines:
  assumes inv: "run_inv sha256 run"
  shows "refines sha256 run (deny_effect_authorization effect run)"
  using inv
proof (cases rule: validate_effect_cases [where effect = effect])
  case bad
  then show ?thesis by (auto simp: deny_effect_authorization_def)
next
  case good
  let ?i = "ea_step_index effect" and ?sn = "run_snapshot run" and ?d = "run_definition run"
  have rule: "flow_rule sha256 ?d ?sn
      (EffectAuthorizationDenied (ea_step_id effect) (ea_attempt effect) replay)
      (set_status RunStatus.Blocked
         (upd_step ?sn ?i (block_step (EffectReport_trusted authorization_denied_text))))"
    if "authorization_replay run effect = Ok replay" for replay
    using that good(2-4) flow_rule.unauthorized [of ?sn ?i] flow_rule.unauthorized_replay [of ?sn ?i]
    by (auto simp: authorization_replay_def split: StepState.splits if_splits)
  have err: "e = UnexpectedStepState" if "authorization_replay run effect = Inl e" for e
    using that by (auto simp: authorization_replay_def split: StepState.splits if_splits)
  show ?thesis
    unfolding deny_effect_authorization_def good(1) early_simps Let_def
    using rule err
    by (auto intro!: refines_early refines_ensure refines_changed [OF inv])
qed

lemma push_then_settle:
  assumes "i < length (sn_steps sn)"
  shows "set_state i st (upd_step sn i (\<lambda>s. s\<lparr>ss_results := ss_results s @ [r]\<rparr>)) =
     upd_step sn i (push_result r st)"
  using assms by (simp add: set_defs upd_step_def push_result_def)

lemma settle_result_refines:
  assumes inv: "run_inv sha256 run" and i: "i < length (run_steps run)"
    and st: "ss_state (run_steps run ! i) = InFlight (ea_attempt effect) t"
    and id: "ea_step_id effect = ss_id (run_steps run ! i)"
    and bound: "ea_attempt effect \<le> max_attempts (fs_retry (declared_steps run ! i))"
    and rep: "report_valid (res_report result)"
    and sched: "retry_schedule run i effect (res_kind result) now = Ok schedule"
    and seq: "sn_transition_sequence (run_snapshot run) \<noteq> -1"
  shows "refines sha256 run (settle_result i effect (res_kind result) schedule
     (set_issued None (on_snapshot (\<lambda>snapshot. upd_step snapshot i (\<lambda>s.
        s\<lparr>ss_results := ss_results s @ [\<lparr>rr_attempt = ea_attempt effect, rr_result = result\<rparr>]\<rparr>)) run)))"
proof -
  let ?sn = "run_snapshot run" and ?d = "run_definition run" and ?a = "ea_attempt effect"
  let ?run' = "set_issued None (on_snapshot (\<lambda>snapshot. upd_step snapshot i (\<lambda>s.
        s\<lparr>ss_results := ss_results s @ [\<lparr>rr_attempt = ?a, rr_result = result\<rparr>]\<rparr>)) run)"
  note in_flight = in_flight_is_status [OF inv i st]
  have settled: "refines sha256 run (changed kind decision
      (on_snapshot (\<lambda>snapshot. set_status status (set_state i st' snapshot)) ?run'))"
    if "flow_rule sha256 ?d ?sn kind (set_status status (upd_step ?sn i (push_result (recorded ?a result) st')))"
    for kind decision status st'
  proof (rule refines_changed [OF inv _ seq])
    have "run_snapshot (on_snapshot (\<lambda>snapshot. set_status status (set_state i st' snapshot)) ?run') =
        set_status status (upd_step ?sn i (push_result (recorded ?a result) st'))"
      using push_then_settle [OF i, of st'] by (simp add: recorded_def)
    with that show "flow_rule sha256 ?d ?sn kind
      (run_snapshot (on_snapshot (\<lambda>snapshot. set_status status (set_state i st' snapshot)) ?run'))"
      by simp
  qed (simp_all add: set_defs)
  have attempt: "\<exists>e. effect_attempt (on_snapshot (\<lambda>snapshot. set_status status (set_state i st' snapshot)) ?run') i a = Ok e"
    for status st' a
    using i run_invD(3) [OF inv] by (simp add: effect_attempt_def get_opt_def set_defs)
  show ?thesis
  proof (cases "res_kind result")
    case Succeeded
    have "flow_rule sha256 ?d ?sn (EffectSucceeded (ss_id (run_steps run ! i)) ?a)
        (set_status (resume_status ?sn) (upd_step ?sn i (push_result (recorded ?a result) (StepState.Succeeded ?a))))"
      using in_flight(1) i st rep Succeeded by (rule flow_rule.succeed)
    then show ?thesis
      using Succeeded settled
      by (cases "sn_cancel_requested ?sn") (simp_all add: settle_result_def id resume_status_def Let_def)
  next
    case (Failed retryable)
    have fail: "flow_rule sha256 ?d ?sn (EffectFailed (ss_id (run_steps run ! i)) ?a)
        (set_status (resume_status ?sn) (upd_step ?sn i (push_result (recorded ?a result) (StepState.Failed ?a))))"
      if "sn_cancel_requested ?sn \<or> \<not> retryable"
      using in_flight(1) i st rep Failed that by (rule flow_rule.fail)
    show ?thesis
    proof (cases "sn_cancel_requested ?sn \<or> \<not> retryable")
      case True
      then have "schedule = None \<or> sn_cancel_requested ?sn"
        using sched Failed by (auto simp: retry_schedule_def Let_def)
      with True fail settled show ?thesis
        by (auto simp: settle_result_def id resume_status_def Let_def Failed)
    next
      case False
      then have fl: "sn_status ?sn = EffectInFlight" using in_flight(2) by simp
      show ?thesis
      proof (cases "?a < max_attempts (fs_retry (declared_steps run ! i))")
        case True
        with False sched Failed obtain t' where
          t': "checked_add now (retry_backoff_ms (initial_backoff_ms (fs_retry (declared_steps run ! i)))
             (max_backoff_ms (fs_retry (declared_steps run ! i))) ?a) = Some t'"
          and schedule: "schedule = Some (?a + 1, t')"
          by (auto simp: retry_schedule_def Let_def and_then_Inr_iff ok_or_Inr_iff split: if_splits)
        have "res_kind result = EffectResultKind.Failed True" using Failed False by simp
        from flow_rule.retry [OF fl i st rep this True t']
        have "flow_rule sha256 ?d ?sn (RetryScheduled (ss_id (run_steps run ! i)) (?a + 1) t')
          (set_status RunStatus.WaitingRetry (upd_step ?sn i
             (push_result (recorded ?a result) (StepState.WaitingRetry (?a + 1) t'))))" .
        moreover obtain e where "effect_attempt (on_snapshot (\<lambda>snapshot. set_status RunStatus.WaitingRetry
            (set_state i (StepState.WaitingRetry (?a + 1) t') snapshot)) ?run') i (?a + 1) = Ok e"
          using attempt by blast
        ultimately show ?thesis
          using settled False by (simp add: settle_result_def id Let_def Failed schedule)
      next
        case exhausted: False
        have "flow_rule sha256 ?d ?sn (RetryExhausted (ss_id (run_steps run ! i)) ?a)
          (set_status Running (upd_step ?sn i (push_result (recorded ?a result) (StepState.Failed ?a))))"
          using Failed False exhausted by (intro flow_rule.exhaust [OF fl i st rep]) simp_all
        moreover have "schedule = None" using sched exhausted by (simp add: retry_schedule_def Let_def not_less)
        ultimately show ?thesis
          using settled False by (simp add: settle_result_def id Let_def Failed)
      qed
    qed
  qed
qed

lemma decision_for_current_state_ok:
  assumes inv: "run_inv sha256 run" and i: "i < length (run_steps run)"
  shows "decision_for_current_state run i = Inl e \<Longrightarrow> e = UnexpectedStepState"
  using effect_attempt_eq [OF run_invD(3) [OF inv] i]
  by (auto simp: decision_for_current_state_def split: if_splits StepState.splits)

lemma retry_schedule_error:
  "retry_schedule run i effect k now = Inl e \<Longrightarrow> e = TimestampOverflow"
  by (auto simp: retry_schedule_def Let_def and_then_Inl_iff ok_or_def split: if_splits option.splits)

lemma EffectReport_validate_error:
  "EffectReport_validate r path = Inl e \<Longrightarrow> e \<noteq> EnginePanic \<and> e \<noteq> SchedulerStalled"
proof -
  have plain: "validate_engine_text p v m = Inl e \<Longrightarrow> e \<noteq> EnginePanic \<and> e \<noteq> SchedulerStalled" for p v m
    by (auto simp: validate_engine_text_def engine_invalid_def map_err_def split: if_splits sum.splits)
  have ident: "validate_engine_identity p v m = Inl e \<Longrightarrow> e \<noteq> EnginePanic \<and> e \<noteq> SchedulerStalled" for p v m
    using plain by (auto simp: validate_engine_identity_def engine_invalid_def and_then_Inl_iff split: if_splits)
  have each: "for_each (\<lambda>i h. validate_engine_identity (f i) h m) k hs = Inl e \<Longrightarrow>
      e \<noteq> EnginePanic \<and> e \<noteq> SchedulerStalled" for f m k hs
    using ident by (induction hs arbitrary: k) (auto simp: and_then_Inl_iff)
  show "EffectReport_validate r path = Inl e \<Longrightarrow> e \<noteq> EnginePanic \<and> e \<noteq> SchedulerStalled"
    using plain each by (auto simp: EffectReport_validate_def engine_invalid_def and_then_Inl_iff split: if_splits)
qed

lemma record_effect_result_refines:
  assumes inv: "run_inv sha256 run"
  shows "refines sha256 run (record_effect_result effect result now run)"
  unfolding record_effect_result_def
proof (rule refines_early)
  show "EffectResult_validate result ''effect_result'' = Inl e \<Longrightarrow> e \<noteq> EnginePanic \<and> e \<noteq> SchedulerStalled" for e
    using EffectReport_validate_error by (auto simp: EffectResult_validate_def)
next
  fix u
  assume "EffectResult_validate result ''effect_result'' = Inr u"
  then have rep: "report_valid (res_report result)" by simp
  let ?i = "ea_step_index effect"
  from inv show "refines sha256 run (early (validate_effect run effect) run (\<lambda>_.
     let index = ea_step_index effect in
     (case find (\<lambda>r. rr_attempt r = ea_attempt effect) (ss_results (run_steps run ! index)) of
        Some stored \<Rightarrow>
          if rr_result stored = result
          then early (decision_for_current_state run index) run (\<lambda>decision. observe decision run)
          else (Err (ConflictingEffectResult (ea_step_id effect) (ea_attempt effect)), run)
      | None \<Rightarrow>
          if \<not> in_flight_attempt (ss_state (run_steps run ! index)) (ea_attempt effect)
          then (Err UnexpectedStepState, run)
          else
          early (retry_schedule run index effect (res_kind result) now) run (\<lambda>schedule.
          early (ensure_can_change run) run (\<lambda>_.
          settle_result index effect (res_kind result) schedule
            (set_issued None (on_snapshot (\<lambda>snapshot. upd_step snapshot index (\<lambda>s.
               s\<lparr>ss_results := ss_results s
                  @ [\<lparr>rr_attempt = ea_attempt effect, rr_result = result\<rparr>]\<rparr>)) run)))))))"
  proof (cases rule: validate_effect_cases [where effect = effect])
    case bad
    then show ?thesis by auto
  next
    case good
    have current: "refines sha256 run (early (decision_for_current_state run ?i) run (\<lambda>decision. observe decision run))"
      using decision_for_current_state_ok [OF inv good(2)] by (intro refines_early) auto
    have fresh: "refines sha256 run (early (retry_schedule run ?i effect (res_kind result) now) run (\<lambda>schedule.
          early (ensure_can_change run) run (\<lambda>_.
          settle_result ?i effect (res_kind result) schedule
            (set_issued None (on_snapshot (\<lambda>snapshot. upd_step snapshot ?i (\<lambda>s.
               s\<lparr>ss_results := ss_results s
                  @ [\<lparr>rr_attempt = ea_attempt effect, rr_result = result\<rparr>]\<rparr>)) run)))))"
      if fl: "in_flight_attempt (ss_state (run_steps run ! ?i)) (ea_attempt effect)"
    proof -
      obtain t where st: "ss_state (run_steps run ! ?i) = InFlight (ea_attempt effect) t"
        using fl by (auto simp: in_flight_attempt_def split: StepState.splits)
      show ?thesis
        using settle_result_refines [OF inv good(2) st good(3) good(7) rep]
        by (intro refines_early refines_ensure) (auto dest: retry_schedule_error)
    qed
    show ?thesis
      using good(1) current fresh by (auto simp: Let_def split: option.splits)
  qed
qed

lemma record_reconciliation_refines:
  assumes inv: "run_inv sha256 run"
  shows "refines sha256 run (record_reconciliation effect reconciliation now run)"
  using inv
proof (cases rule: validate_effect_cases [where effect = effect])
  case bad
  then show ?thesis by (auto simp: record_reconciliation_def)
next
  case good
  let ?i = "ea_step_index effect" and ?sn = "run_snapshot run" and ?d = "run_definition run"
  show ?thesis
  proof (cases "ea_effect effect \<noteq> Stateful
      \<or> \<not> in_flight_attempt (ss_state (run_steps run ! ?i)) (ea_attempt effect)")
    case True
    then show ?thesis using good(1) by (auto simp: record_reconciliation_def)
  next
    case False
    then obtain t where st: "ss_state (run_steps run ! ?i) = InFlight (ea_attempt effect) t"
      and stateful: "fs_effect (declared_steps run ! ?i) = Stateful"
      using good(4) by (auto simp: in_flight_attempt_def split: StepState.splits)
    note in_flight = in_flight_is_status [OF inv good(2) st]
    show ?thesis
    proof (cases reconciliation)
      case (Completed result)
      then show ?thesis
        using False good(1) record_effect_result_refines [OF inv] by (simp add: record_reconciliation_def)
    next
      case NotApplied
      have fin: "refines sha256 run (finish_cancelled run)" if "sn_cancel_requested ?sn"
        using finish_cancelled_refines [OF inv] in_flight(3) that by simp
      have "refines sha256 run (changed (ReconciledNotApplied (ea_step_id effect) (ea_attempt effect))
          (EvaluateEffect effect False)
          (on_snapshot (\<lambda>snapshot. set_status AwaitingEffectEvaluation
             (set_state ?i (AwaitingEffect (ea_attempt effect)) snapshot)) run))"
        if "\<not> sn_cancel_requested ?sn" "sn_transition_sequence ?sn \<noteq> -1"
        using flow_rule.reconciled [OF in_flight(2) good(2) st stateful] that good(3)
        by (intro refines_changed [OF inv]) (simp_all add: set_defs)
      with fin False good(1) NotApplied show ?thesis
        by (auto simp: record_reconciliation_def intro!: refines_ensure)
    next
      case (Unknown report)
      have "refines sha256 run (changed (ReconciliationUnknown (ea_step_id effect) (ea_attempt effect))
          (Terminal (build_result (block_run ?i report run))) (block_run ?i report run))"
        if "report_valid report" "sn_transition_sequence ?sn \<noteq> -1"
        using flow_rule.unknown [OF in_flight(1) good(2) st stateful that(1)] that good(3)
        by (intro refines_changed [OF inv]) simp_all
      then show ?thesis
        using False good(1) Unknown EffectReport_validate_error
        by (auto simp: record_reconciliation_def Let_def intro!: refines_ensure refines_early)
    qed
  qed
qed

end
