(* ===== verification/Flow_Examples.thy ===== *)
theory Flow_Examples
  imports Flow_Engine
begin

text \<open>
  Two small flows used as concrete inputs, with a stand-in for the digest function.
  \<open>demo_flow\<close> observes and then applies an approved, retryable change; in
  \<open>conditional_flow\<close> the approved change runs only when the observation failed.
\<close>

definition demo_hash :: "string \<Rightarrow> string" where
  "demo_hash bytes = take 2 (rev bytes)"

definition no_retry :: RetryPolicy where
  "no_retry = \<lparr>max_attempts = 1, initial_backoff_ms = 0, max_backoff_ms = 0\<rparr>"

definition two_attempts :: RetryPolicy where
  "two_attempts = \<lparr>max_attempts = 2, initial_backoff_ms = 100, max_backoff_ms = 400\<rparr>"

definition scan_step :: FlowStep where
  "scan_step =
     \<lparr>fs_id = ''scan'', fs_description = ''look'', fs_depends_on = [], fs_condition = Always,
      fs_retry = no_retry, fs_approval = NoApproval, fs_idempotency_key = None,
      fs_timeout_seconds = 60, fs_effect = ReadOnly, fs_semantic = Some Observe,
      fs_action = Command ''ls'' [] ''.''\<rparr>"

definition apply_step :: "StepCondition \<Rightarrow> FlowStep" where
  "apply_step c =
     \<lparr>fs_id = ''apply'', fs_description = ''edit'', fs_depends_on = [''scan''], fs_condition = c,
      fs_retry = two_attempts, fs_approval = Required, fs_idempotency_key = Some ''key'',
      fs_timeout_seconds = 60, fs_effect = Stateful, fs_semantic = Some Change,
      fs_action = Command ''ed'' [] ''.''\<rparr>"

definition demo_with :: "StepCondition \<Rightarrow> FlowDefinition" where
  "demo_with c =
     \<lparr>fd_schema_version = 2, fd_id = ''demo'', fd_name = ''Demo'', fd_description = ''demo'',
      fd_revision = 1, fd_steps = [scan_step, apply_step c],
      fd_outcome = \<lparr>ot_solved = ''s'', ot_changed = ''c'', ot_verified = ''v'',
                    ot_unresolved = ''u'', ot_blocked = ''b''\<rparr>\<rparr>"

definition demo_flow :: FlowDefinition where "demo_flow = demo_with Always"

definition conditional_flow :: FlowDefinition where
  "conditional_flow = demo_with (StepCondition.Failed ''scan'')"

definition demo_start :: "FlowDefinition \<Rightarrow> FlowRun" where
  "demo_start d =
     \<lparr>run_definition = d,
      run_snapshot =
        \<lparr>sn_snapshot_version = 2, sn_run_id = ''run-1'', sn_definition_digest = [newline ! 0, CHR ''}''],
         sn_status = Running, sn_cancel_requested = False, sn_transition_sequence = 0,
         sn_steps =
           [\<lparr>ss_id = ''scan'', ss_idempotency_identity = ''na'', ss_semantic_role = Observe,
             ss_approval = NotRequired, ss_state = StepState.Pending, ss_results = [],
             ss_blocked_report = None\<rparr>,
            \<lparr>ss_id = ''apply'', ss_idempotency_identity = ''ye'', ss_semantic_role = Change,
             ss_approval = NotRequested, ss_state = StepState.Pending, ss_results = [],
             ss_blocked_report = None\<rparr>]\<rparr>,
      run_issued_attempt = None\<rparr>"

definition demo_run :: FlowRun where "demo_run = demo_start demo_flow"

definition conditional_run :: FlowRun where "conditional_run = demo_start conditional_flow"

definition ok_result :: EffectResult where
  "ok_result = \<lparr>res_kind = EffectResultKind.Succeeded, res_report = \<lparr>er_summary = ''done'', er_evidence = []\<rparr>\<rparr>"

definition retryable_result :: EffectResult where
  "retryable_result = \<lparr>res_kind = EffectResultKind.Failed True, res_report = \<lparr>er_summary = ''busy'', er_evidence = []\<rparr>\<rparr>"

text \<open>The attempts of the two steps and the approval token of the second one.\<close>

definition scan_attempt :: EffectAttempt where
  "scan_attempt =
     \<lparr>ea_step_index = 0, ea_step_id = ''scan'', ea_attempt = 1, ea_idempotency_identity = ''na'',
      ea_effect = ReadOnly, ea_timeout_seconds = 60\<rparr>"

definition apply_attempt :: "u8 \<Rightarrow> EffectAttempt" where
  "apply_attempt a =
     \<lparr>ea_step_index = 1, ea_step_id = ''apply'', ea_attempt = a, ea_idempotency_identity = ''ye'',
      ea_effect = Stateful, ea_timeout_seconds = 60\<rparr>"

definition apply_token :: string where "apply_token = ''ey''"

lemma demo_flow_valid: "FlowDefinition_validate demo_flow = Ok ()"
  by code_simp

lemma demo_run_start: "FlowRun_start demo_hash ''run-1'' demo_flow = Ok demo_run"
  by code_simp

lemma conditional_run_start: "FlowRun_start demo_hash ''run-1'' conditional_flow = Ok conditional_run"
  by code_simp

end
