(* ===== verification/Pam_System.thy ===== *)
theory Pam_System
  imports Pam_Prelude
begin

text \<open>
  Labelled transition systems, shared by the components that are state machines (flow
  runs, approval receipts, project queues): reachable states, paths with their labels,
  and the interfaces their invariants are proved through.  A component discharges the
  assumptions of \<open>invariant_system\<close> for its own operations; a component whose steps are
  checked by another one (the store checks what the engine emits) those of
  \<open>checked_system\<close> too.
\<close>

inductive reachable :: "('s \<Rightarrow> bool) \<Rightarrow> ('s \<Rightarrow> 'l \<Rightarrow> 's \<Rightarrow> bool) \<Rightarrow> 's \<Rightarrow> bool"
  for init step
where
  initial: "init s \<Longrightarrow> reachable init step s"
| step: "reachable init step s \<Longrightarrow> step s l s' \<Longrightarrow> reachable init step s'"

inductive path :: "('s \<Rightarrow> 'l \<Rightarrow> 's \<Rightarrow> bool) \<Rightarrow> 's \<Rightarrow> 'l list \<Rightarrow> 's \<Rightarrow> bool"
  for step
where
  nil: "path step s [] s"
| cons: "step s l s' \<Longrightarrow> path step s' ls s'' \<Longrightarrow> path step s (l # ls) s''"

inductive_cases path_NilE [elim!]: "path step s [] s'"
inductive_cases path_ConsE [elim!]: "path step s (l # ls) s'"
inductive_simps path_simps [simp]: "path step s [] s'" "path step s (l # ls) s'"

lemma path_append: "path step s (ls @ ks) s' \<longleftrightarrow> (\<exists>t. path step s ls t \<and> path step t ks s')"
  by (induction ls arbitrary: s) auto

lemma reachable_path: "reachable init step s \<Longrightarrow> path step s ls s' \<Longrightarrow> reachable init step s'"
  by (induction ls arbitrary: s) (auto intro: reachable.step)

locale invariant_system =
  fixes init :: "'s \<Rightarrow> bool" and step :: "'s \<Rightarrow> 'l \<Rightarrow> 's \<Rightarrow> bool" and inv :: "'s \<Rightarrow> bool"
  assumes init_inv: "init s \<Longrightarrow> inv s"
    and step_inv: "inv s \<Longrightarrow> step s l s' \<Longrightarrow> inv s'"
begin

lemma reachable_inv: "reachable init step s \<Longrightarrow> inv s"
  by (induction rule: reachable.induct) (auto intro: init_inv step_inv)

lemma path_inv: "path step s ls s' \<Longrightarrow> inv s \<Longrightarrow> inv s'"
  by (induction rule: path.induct) (auto intro: step_inv)

text \<open>A property every step keeps under the invariant holds along a path.\<close>

lemma path_keeps:
  assumes "path step s ls s'" and "inv s" and "P s"
    and "\<And>s l s'. inv s \<Longrightarrow> P s \<Longrightarrow> l \<in> set ls \<Longrightarrow> step s l s' \<Longrightarrow> P s'"
  shows "P s'"
  using assms
proof (induction rule: path.induct)
  case (cons s l s' ls s'')
  have "P s'" by (rule cons.prems(3) [OF cons.prems(1,2) _ cons.hyps(1)]) simp
  with step_inv [OF cons.prems(1) cons.hyps(1)] show ?case
  proof (rule cons.IH)
    show "P t'" if "inv t" "P t" "l' \<in> set ls" "step t l' t'" for t l' t'
      using that by (intro cons.prems(3) [of t l' t']) simp_all
  qed
qed

end

locale checked_system = invariant_system init step inv
  for init :: "'s \<Rightarrow> bool" and step :: "'s \<Rightarrow> 'l \<Rightarrow> 's \<Rightarrow> bool" and inv +
  fixes accepts :: "'s \<Rightarrow> 'l \<Rightarrow> 's \<Rightarrow> bool"
  assumes step_accepted: "inv s \<Longrightarrow> step s l s' \<Longrightarrow> accepts s l s'"
begin

lemma path_accepted: "path step s ls s' \<Longrightarrow> inv s \<Longrightarrow> path accepts s ls s'"
  by (induction rule: path.induct) (auto intro: step_accepted step_inv)

end

text \<open>
  A system whose steps use up a potential, up to what a label puts back: the length of a path
  is bounded by the potential it starts with and the labels' gains.
\<close>

locale bounded_system = invariant_system init step inv
  for init :: "'s \<Rightarrow> bool" and step :: "'s \<Rightarrow> 'l \<Rightarrow> 's \<Rightarrow> bool" and inv +
  fixes potential :: "'s \<Rightarrow> nat" and gain :: "'l \<Rightarrow> nat"
  assumes step_potential: "inv s \<Longrightarrow> step s l s' \<Longrightarrow> potential s' + 1 \<le> potential s + gain l"
begin

lemma path_length:
  "path step s ls s' \<Longrightarrow> inv s \<Longrightarrow> potential s' + length ls \<le> potential s + sum_list (map gain ls)"
proof (induction rule: path.induct)
  case (cons s l s' ls s'')
  have "potential s' + 1 \<le> potential s + gain l" by (rule step_potential [OF cons.prems cons.hyps(1)])
  moreover have "potential s'' + length ls \<le> potential s' + sum_list (map gain ls)"
    by (rule cons.IH) (rule step_inv [OF cons.prems cons.hyps(1)])
  ultimately show ?case by simp
qed simp

end

text \<open>
  A system that keeps logs and only appends to them: what a reader saw of a log stays its beginning,
  and reading on from the length seen gives the rest.
\<close>

locale log_system = invariant_system init step inv
  for init :: "'s \<Rightarrow> bool" and step :: "'s \<Rightarrow> 'l \<Rightarrow> 's \<Rightarrow> bool" and inv +
  fixes log :: "'s \<Rightarrow> 'k \<Rightarrow> 'e list"
  assumes step_appends: "inv s \<Longrightarrow> step s l s' \<Longrightarrow> \<exists>new. log s' k = log s k @ new"
begin

lemma path_appends: "path step s ls s' \<Longrightarrow> inv s \<Longrightarrow> \<exists>new. log s' k = log s k @ new"
proof (induction rule: path.induct)
  case (cons s l s' ls s'')
  obtain a where "log s' k = log s k @ a" using step_appends [OF cons.prems cons.hyps(1)] by blast
  moreover obtain b where "log s'' k = log s' k @ b" using cons.IH [OF step_inv [OF cons.prems cons.hyps(1)]] by blast
  ultimately show ?case by simp
qed simp

lemma read_on: "path step s ls s' \<Longrightarrow> inv s \<Longrightarrow> log s' k = log s k @ drop (length (log s k)) (log s' k)"
  by (metis path_appends append_eq_conv_conj)

end

end
