(* ===== verification/Flow_Runs.thy ===== *)
theory Flow_Runs
  imports Flow_Refinement Flow_Examples Pam_System
begin

text \<open>
  Runs of the flow engine: any sequence of engine calls and of process restarts that
  resume from the persisted snapshot.  Every such run satisfies the invariant; no call
  panics; effects start only with their exact approval, in dependency order, and a
  stateful effect is never executed twice without a reconciliation in between.
\<close>

section \<open>Engine calls\<close>

datatype EngineOp =
    NextDecision u64
  | ResolveApproval string ApprovalDecision
  | PrepareEffect EffectAttempt u64
  | DenyEffectAuthorization EffectAttempt
  | RecordEffectResult EffectAttempt EffectResult u64
  | RecordReconciliation EffectAttempt ReconciliationResult u64
  | CancelRun

fun apply_op :: "(string \<Rightarrow> string) \<Rightarrow> EngineOp \<Rightarrow> FlowRun \<Rightarrow> engine_result" where
  "apply_op sha256 (NextDecision now_ms) run = next_decision sha256 now_ms run"
| "apply_op sha256 (ResolveApproval token decision) run = resolve_approval token decision run"
| "apply_op sha256 (PrepareEffect effect now_ms) run = prepare_effect effect now_ms run"
| "apply_op sha256 (DenyEffectAuthorization effect) run = deny_effect_authorization effect run"
| "apply_op sha256 (RecordEffectResult effect result now_ms) run =
     record_effect_result effect result now_ms run"
| "apply_op sha256 (RecordReconciliation effect reconciliation now_ms) run =
     record_reconciliation effect reconciliation now_ms run"
| "apply_op sha256 CancelRun run = cancel run"

lemma apply_op_refines:
  "run_inv sha256 run \<Longrightarrow> refines sha256 run (apply_op sha256 op run)"
  by (cases op)
     (simp_all add: next_decision_refines resolve_approval_refines prepare_effect_refines
        deny_effect_authorization_refines record_effect_result_refines
        record_reconciliation_refines cancel_refines)

lemma refines_inv:
  assumes inv: "run_inv sha256 run" and "refines sha256 run (r, run')"
  shows "run_inv sha256 run'"
proof (cases r)
  case (Inl e)
  with assms show ?thesis by (simp add: refines_def)
next
  case (Inr u)
  with assms(2) have ref: "update_refines sha256 run u run'" by (simp add: refines_def)
  show ?thesis
  proof (cases "up_transition u")
    case None
    with ref inv show ?thesis by (simp add: update_refines_def)
  next
    case (Some t)
    with ref have d: "run_definition run' = run_definition run"
      and trans: "flow_trans sha256 (run_definition run) (run_snapshot run) (tr_kind t) (run_snapshot run')"
      by (simp_all add: update_refines_def)
    have "sn_definition_digest (run_snapshot run') = sn_definition_digest (run_snapshot run)"
      using trans flow_rule_identity by (auto simp: flow_trans_def same_identity_def)
    with inv d trans show ?thesis
      using flow_trans_inv [OF run_invD(1) [OF inv] run_invD(2) [OF inv] trans] by (simp add: run_inv_def)
  qed
qed

section \<open>Runs with restarts\<close>

datatype RunEvent = Call EngineOp | Restart

fun run_step :: "(string \<Rightarrow> string) \<Rightarrow> FlowRun \<Rightarrow> RunEvent \<Rightarrow> FlowRun \<Rightarrow> bool" where
  "run_step sha256 run (Call op) run' \<longleftrightarrow> snd (apply_op sha256 op run) = run'"
| "run_step sha256 run Restart run' \<longleftrightarrow>
     FlowRun_resume sha256 (sn_run_id (run_snapshot run)) (run_definition run) (run_snapshot run) = Ok run'"

definition run_init :: "(string \<Rightarrow> string) \<Rightarrow> FlowRun \<Rightarrow> bool" where
  "run_init sha256 run \<longleftrightarrow> (\<exists>run_id d. FlowRun_start sha256 run_id d = Ok run)"

abbreviation reachable_run :: "(string \<Rightarrow> string) \<Rightarrow> FlowRun \<Rightarrow> bool" where
  "reachable_run sha256 \<equiv> reachable (run_init sha256) (run_step sha256)"

lemma FlowRun_start_Ok:
  assumes "FlowRun_start sha256 run_id d = Ok run"
  shows "FlowDefinition_validate d = Ok ()" and "run_definition run = d"
    and "run_issued_attempt run = None"
    and "validate_engine_identity ''snapshot.run_id'' run_id MAX_RUN_ID_BYTES = Ok ()"
    and "\<exists>digest. normalized_digest sha256 d = Ok digest \<and> run_snapshot run =
           \<lparr>sn_snapshot_version = FLOW_SNAPSHOT_VERSION, sn_run_id = run_id,
            sn_definition_digest = digest, sn_status = Running,
            sn_cancel_requested = False, sn_transition_sequence = 0,
            sn_steps = map (initial_step sha256 run_id digest) (fd_steps d)\<rparr>"
  using assms validate_engine_identity_path [of "''run_id''" run_id MAX_RUN_ID_BYTES _ "''snapshot.run_id''"]
  by (auto simp: FlowRun_start_def and_then_Inr_iff)

lemma initial_step_inv:
  "step_inv sha256 rid dig False s (initial_step sha256 rid dig s)"
  by (auto simp: step_inv_def initial_step_def approval_matches_mode_def token_mismatch_iff
      approval_inv_def results_inv_def split: ApprovalMode.splits)

lemma initial_step_quiet:
  "quiet (initial_step sha256 rid dig s)" "\<not> started (initial_step sha256 rid dig s)"
  by (auto simp: quiet_def step_is_active_def started_def initial_step_def is_pending_approval_def
      is_granted_def split: ApprovalMode.splits)

lemma run_init_inv:
  assumes "run_init sha256 run"
  shows "run_inv sha256 run"
proof -
  obtain run_id d where start: "FlowRun_start sha256 run_id d = Ok run"
    using assms by (auto simp: run_init_def)
  note facts = FlowRun_start_Ok [OF start]
  then show ?thesis
    by (auto simp: run_inv_def snap_inv_def all_quiet_def order_inv_def initial_step_inv initial_step_quiet)
qed

lemma start_inv: "FlowRun_start sha256 run_id d = Ok run \<Longrightarrow> run_inv sha256 run"
  by (rule run_init_inv) (auto simp: run_init_def)

lemma FlowRun_resume_Ok:
  assumes "FlowRun_resume sha256 run_id d sn = Ok run" and "sn_snapshot_version sn = FLOW_SNAPSHOT_VERSION"
  shows "run = \<lparr>run_definition = d, run_snapshot = sn, run_issued_attempt = None\<rparr>"
  using assms
  by (auto simp: FlowRun_resume_def and_then_Inr_iff upgrade_snapshot_def FLOW_SNAPSHOT_VERSION_def
      split: if_splits)

lemma run_step_inv:
  assumes inv: "run_inv sha256 run" and "run_step sha256 run ev run'"
  shows "run_inv sha256 run'"
proof (cases ev)
  case (Call op)
  obtain r where "apply_op sha256 op run = (r, run')"
    using assms(2) Call by (cases "apply_op sha256 op run") auto
  then show ?thesis using refines_inv [OF inv, of r run'] apply_op_refines [OF inv, of op] by simp
next
  case Restart
  with assms(2) have "FlowRun_resume sha256 (sn_run_id (run_snapshot run)) (run_definition run) (run_snapshot run) = Ok run'"
    by simp
  then have "run' = \<lparr>run_definition = run_definition run, run_snapshot = run_snapshot run, run_issued_attempt = None\<rparr>"
    using run_invD(2) [OF inv] by (intro FlowRun_resume_Ok) (auto simp: snap_inv_def)
  with inv show ?thesis by (simp add: run_inv_def)
qed

interpretation flow_runs: invariant_system "run_init sha256" "run_step sha256" "run_inv sha256" for sha256
  by unfold_locales (auto intro: run_init_inv run_step_inv)

text \<open>The engine's transitions as a system of their own, over snapshots of one definition.\<close>

definition valid_snapshot :: "(string \<Rightarrow> string) \<Rightarrow> FlowDefinition \<Rightarrow> FlowSnapshot \<Rightarrow> bool" where
  "valid_snapshot sha256 d sn \<longleftrightarrow> FlowDefinition_validate d = Ok () \<and> snap_inv sha256 d sn"

interpretation flow_snapshots: invariant_system "valid_snapshot sha256 d" "flow_trans sha256 d"
    "valid_snapshot sha256 d" for sha256 d
  by unfold_locales (auto simp: valid_snapshot_def intro: flow_trans_inv)

section \<open>Traces\<close>

text \<open>The transitions a sequence of calls and restarts appends, and the run it leaves.\<close>

definition emitted :: "FlowEngineError + EngineUpdate \<Rightarrow> TransitionKind list" where
  "emitted r =
     (case r of
        Inl _ \<Rightarrow> []
      | Inr u \<Rightarrow> (case up_transition u of None \<Rightarrow> [] | Some t \<Rightarrow> [tr_kind t]))"

fun run_trace :: "(string \<Rightarrow> string) \<Rightarrow> FlowRun \<Rightarrow> RunEvent list \<Rightarrow> TransitionKind list \<times> FlowRun" where
  "run_trace sha256 run [] = ([], run)"
| "run_trace sha256 run (Call op # evs) =
     (case apply_op sha256 op run of
        (r, run') \<Rightarrow> (case run_trace sha256 run' evs of (kinds, run'') \<Rightarrow> (emitted r @ kinds, run'')))"
| "run_trace sha256 run (Restart # evs) =
     (case FlowRun_resume sha256 (sn_run_id (run_snapshot run)) (run_definition run) (run_snapshot run) of
        Inl _ \<Rightarrow> run_trace sha256 run evs
      | Inr run' \<Rightarrow> run_trace sha256 run' evs)"

lemma run_trace_path:
  assumes "run_inv sha256 run" and "run_trace sha256 run evs = (kinds, run')"
  shows "path (flow_trans sha256 (run_definition run)) (run_snapshot run) kinds (run_snapshot run')
       \<and> run_inv sha256 run' \<and> run_definition run' = run_definition run"
  using assms
proof (induction sha256 run evs arbitrary: kinds run' rule: run_trace.induct)
  case (2 sha256 run op evs)
  obtain r run1 where op: "apply_op sha256 op run = (r, run1)" by fastforce
  obtain ks where ks: "run_trace sha256 run1 evs = (ks, run')" "kinds = emitted r @ ks"
    using "2.prems"(2) op by (auto split: prod.splits)
  have ref: "refines sha256 run (r, run1)" using apply_op_refines [OF "2.prems"(1), of op] op by simp
  note IH = "2.IH" [OF op [symmetric] refines_inv [OF "2.prems"(1) ref] ks(1)]
  show ?case
  proof (cases r)
    case (Inl e)
    with ref IH ks(2) show ?thesis by (simp add: refines_def emitted_def)
  next
    case (Inr u)
    with ref have "update_refines sha256 run u run1" by (simp add: refines_def)
    then have "run_definition run1 = run_definition run"
      and "path (flow_trans sha256 (run_definition run)) (run_snapshot run) (emitted r) (run_snapshot run1)"
      using Inr by (auto simp: update_refines_def emitted_def split: option.splits)
    with IH ks(2) show ?thesis unfolding ks(2) path_append by auto
  qed
next
  case (3 sha256 run evs)
  show ?case
  proof (cases "FlowRun_resume sha256 (sn_run_id (run_snapshot run)) (run_definition run) (run_snapshot run)")
    case (Inl e)
    then have "run_trace sha256 run evs = (kinds, run')" using "3.prems"(2) by simp
    then show ?thesis by (rule "3.IH"(1) [OF Inl "3.prems"(1)])
  next
    case (Inr run1)
    then have "run1 = \<lparr>run_definition = run_definition run, run_snapshot = run_snapshot run, run_issued_attempt = None\<rparr>"
      using run_invD(2) [OF "3.prems"(1)] by (intro FlowRun_resume_Ok) (auto simp: snap_inv_def)
    moreover have "run_inv sha256 run1"
      by (rule run_step_inv [OF "3.prems"(1), of Restart]) (simp only: run_step.simps Inr)
    moreover have "run_trace sha256 run1 evs = (kinds, run')" using "3.prems"(2) Inr by simp
    ultimately show ?thesis using "3.IH"(2) [OF Inr, of kinds run'] by (simp only: FlowRun.simps)
  qed
qed simp

section \<open>Effects are not repeated blindly\<close>

text \<open>Attempt \<open>a\<close> of a step has been started and can not be started afresh.\<close>

definition spent :: "u8 \<Rightarrow> StepSnapshot \<Rightarrow> bool" where
  "spent a s \<longleftrightarrow>
     (\<exists>t. ss_state s = InFlight a t) \<or> StepState_is_terminal (ss_state s) \<or> unat a \<le> length (ss_results s)"

lemma pending_not_spent:
  assumes "snap_inv sha256 d sn" and "i < length (sn_steps sn)" and "0 < a"
    and "ss_state (sn_steps sn ! i) = StepState.Pending"
  shows "\<not> spent a (sn_steps sn ! i)"
  using step_inv_history [OF snap_invD(2) [OF assms(1,2)]] assms(3,4)
  by (auto simp: spent_def word_gt_0 unat_eq_0)

lemma flow_rule_spent:
  assumes inv: "snap_inv sha256 d sn" and rule: "flow_rule sha256 d sn kind sn'"
    and i: "i < length (sn_steps sn)" and spent: "spent a (sn_steps sn ! i)" and a: "0 < a"
    and kind: "kind \<noteq> ReconciledNotApplied (ss_id (sn_steps sn ! i)) a"
  shows "spent a (sn_steps sn' ! i)"
proof -
  note not_pending = pending_not_spent [OF inv i a]
  have pending: "ss_state (sn_steps sn ! i) = StepState.Pending"
    if "ss_approval (sn_steps sn ! i) = StepApprovalState.Pending token" for token
    using pending_approval_step(4) [OF inv i that] .
  have upd: "spent a (sn_steps (upd_step sn j f) ! i)"
    if "j = i \<Longrightarrow> spent a (f (sn_steps sn ! i))" for j f
    using that spent i by (simp add: nth_update_cases)
  have hist: "history_inv (ss_state (sn_steps sn ! i)) (max_attempts (fs_retry (fd_steps d ! i)))
      (sn_cancel_requested sn) (ss_results (sn_steps sn ! i))"
    by (rule step_inv_history [OF snap_invD(2) [OF inv i]])
  from rule show ?thesis
  proof cases
    case (grant j token)
    then show ?thesis using not_pending pending spent by (auto simp: set_defs intro!: upd [simplified])
  next
    case (deny j token)
    then show ?thesis
      using not_pending pending spent i by (cases "j = i") (auto simp: set_defs nth_update_cases)
  next
    case (cancelled)
    then show ?thesis using spent i by (auto simp: spent_def)
  next
    case (request_cancel j)
    then show ?thesis using spent by simp
  qed (use spent not_pending hist kind in
       \<open>auto simp: set_defs spent_def block_step_def push_result_def intro!: upd [simplified]\<close>)
qed

lemma path_spent:
  assumes "path (flow_trans sha256 d) sn kinds sn'" and "valid_snapshot sha256 d sn"
    and "i < length (sn_steps sn)" and "spent a (sn_steps sn ! i)" and "0 < a"
    and "ReconciledNotApplied (fs_id (fd_steps d ! i)) a \<notin> set kinds"
  shows "spent a (sn_steps sn' ! i)"
proof -
  let ?P = "\<lambda>sn. i < length (sn_steps sn) \<and> spent a (sn_steps sn ! i)"
  have "?P sn'"
  proof (rule flow_snapshots.path_keeps [where P = ?P, OF assms(1,2)])
    show "?P sn" using assms(3,4) by simp
  next
    fix s l s'
    assume inv: "valid_snapshot sha256 d s" and p: "?P s" and l: "l \<in> set kinds" and "flow_trans sha256 d s l s'"
    then obtain s1 where rule: "flow_rule sha256 d s l s1" and s': "s' = bump s1"
      by (auto simp: flow_trans_def)
    have snap: "snap_inv sha256 d s" using inv by (simp add: valid_snapshot_def)
    have "ss_id (sn_steps s ! i) = fs_id (fd_steps d ! i)"
      using snap_invD(2) [OF snap] p by (simp add: step_inv_def)
    then have "l \<noteq> ReconciledNotApplied (ss_id (sn_steps s ! i)) a" using l assms(6) by auto
    then have "spent a (sn_steps s1 ! i)" using flow_rule_spent [OF snap rule] p assms(5) by simp
    moreover have "length (sn_steps s1) = length (sn_steps s)"
      using flow_rule_identity [OF rule] by (metis same_identity_def length_map)
    ultimately show "?P s'" using p s' by simp
  qed
  then show ?thesis by simp
qed

lemma effect_started_rule:
  assumes valid: "valid_snapshot sha256 d sn" and trans: "flow_trans sha256 d sn (EffectStarted sid a replay) sn'"
  obtains i where "i < length (sn_steps sn)" "ss_id (sn_steps sn ! i) = sid" "0 < a"
    "spent a (sn_steps sn' ! i)" "length (sn_steps sn') = length (sn_steps sn)"
    "\<not> spent a (sn_steps sn ! i) \<or> fs_effect (fd_steps d ! i) = ReadOnly"
proof -
  have snap: "snap_inv sha256 d sn" using valid by (simp add: valid_snapshot_def)
  obtain sn1 where rule: "flow_rule sha256 d sn (EffectStarted sid a replay) sn1" and sn': "sn' = bump sn1"
    using trans by (auto simp: flow_trans_def)
  note hist = step_inv_history [OF snap_invD(2) [OF snap]]
  from rule show ?thesis
  proof cases
    case (start i t)
    then have u: "unat a = length (ss_results (sn_steps sn ! i)) + 1" using hist [of i] by simp
    then have "0 < a" by (metis add_gr_0 less_one unat_gt_0 word_gt_0)
    moreover have "\<not> spent a (sn_steps sn ! i)" using start u by (simp add: spent_def)
    moreover have "spent a (sn_steps sn' ! i)" using start sn' by (simp add: set_defs spent_def)
    ultimately show ?thesis using that [of i] start sn' by (simp add: set_defs)
  next
    case (replay i t)
    then have u: "unat a = length (ss_results (sn_steps sn ! i)) + 1" using hist [of i] by simp
    then have "0 < a" by (metis add_gr_0 less_one unat_gt_0 word_gt_0)
    then show ?thesis using that [of i] replay sn' by (simp add: spent_def)
  qed
qed

text \<open>C1: Whatever calls and restarts a run goes through, an attempt of a stateful step that was
  started is started again only after a reconciliation reported it as not applied.\<close>

theorem no_blind_replay:
  assumes start: "FlowRun_start sha256 run_id d = Ok run"
    and trace: "run_trace sha256 run evs =
      (before @ EffectStarted sid a r1 # between @ EffectStarted sid a r2 # after, run')"
    and step: "s \<in> set (fd_steps d)" "fs_id s = sid" "fs_effect s = Stateful"
  shows "ReconciledNotApplied sid a \<in> set between"
proof (rule ccontr)
  assume none: "ReconciledNotApplied sid a \<notin> set between"
  have d: "run_definition run = d" using FlowRun_start_Ok(2) [OF start] .
  have inv: "run_inv sha256 run" using start_inv [OF start] .
  obtain s1 s2 s3 s4 where
    p1: "path (flow_trans sha256 d) (run_snapshot run) before s1"
    and t1: "flow_trans sha256 d s1 (EffectStarted sid a r1) s2"
    and p2: "path (flow_trans sha256 d) s2 between s3"
    and t2: "flow_trans sha256 d s3 (EffectStarted sid a r2) s4"
    using run_trace_path [OF inv trace] d by (auto simp: path_append)
  have v0: "valid_snapshot sha256 d (run_snapshot run)"
    using run_invD(1,2) [OF inv] d by (simp add: valid_snapshot_def)
  note v1 = flow_snapshots.path_inv [OF p1 v0]
  note v2 = flow_snapshots.step_inv [OF v1 t1]
  note v3 = flow_snapshots.path_inv [OF p2 v2]
  have ids: "map ss_id (sn_steps t) = map fs_id (fd_steps d)" if "valid_snapshot sha256 d t" for t
    using that snap_inv_ids by (auto simp: valid_snapshot_def)
  obtain i where i: "i < length (sn_steps s1)" "ss_id (sn_steps s1 ! i) = sid" "0 < a"
    "spent a (sn_steps s2 ! i)" "length (sn_steps s2) = length (sn_steps s1)"
    using effect_started_rule [OF v1 t1] by metis
  have id_i: "fs_id (fd_steps d ! i) = sid" "i < length (fd_steps d)"
    using i ids [OF v1] by (metis length_map nth_map)+
  have "spent a (sn_steps s3 ! i)"
    using path_spent [OF p2 v2 _ i(4,3)] i(1,5) none id_i by simp
  moreover obtain j where j: "j < length (sn_steps s3)" "ss_id (sn_steps s3 ! j) = sid"
    "\<not> spent a (sn_steps s3 ! j) \<or> fs_effect (fd_steps d ! j) = ReadOnly"
    using effect_started_rule [OF v3 t2] by metis
  have id_j: "fs_id (fd_steps d ! j) = sid" "j < length (fd_steps d)"
    using j ids [OF v3] by (metis length_map nth_map)+
  have dist: "distinct (map fs_id (fd_steps d))"
    using v1 FlowDefinition_validate_Ok(3) by (auto simp: valid_snapshot_def)
  have "j = i" using dist id_i id_j by (metis distinct_conv_nth length_map nth_map)
  moreover have "fd_steps d ! i = s"
    using step dist id_i by (metis distinct_conv_nth in_set_conv_nth length_map nth_map)
  ultimately show False using j(3) step(3) by simp
qed

text \<open>A run of \<open>demo_flow\<close>: the change is approved and started, the process restarts, the
  reconciliation finds it was not applied, and it is started again.\<close>

definition demo_events :: "RunEvent list" where
  "demo_events =
     [Call (NextDecision 0), Call (PrepareEffect scan_attempt 5),
      Call (RecordEffectResult scan_attempt ok_result 9),
      Call (NextDecision 10), Call (ResolveApproval apply_token Approve),
      Call (NextDecision 11), Call (PrepareEffect (apply_attempt 1) 12), Restart,
      Call (RecordReconciliation (apply_attempt 1) NotApplied 13),
      Call (PrepareEffect (apply_attempt 1) 14)]"

lemma demo_kinds:
  "fst (run_trace demo_hash demo_run demo_events) =
     [EffectEvaluationRequired ''scan'' 1, EffectStarted ''scan'' 1 False, EffectSucceeded ''scan'' 1,
      ApprovalRequested ''apply'', ApprovalGranted ''apply'', EffectEvaluationRequired ''apply'' 1,
      EffectStarted ''apply'' 1 False, ReconciledNotApplied ''apply'' 1, EffectStarted ''apply'' 1 False]"
  by code_simp

lemma demo_trace:
  "run_trace demo_hash demo_run demo_events =
     ([EffectEvaluationRequired ''scan'' 1, EffectStarted ''scan'' 1 False, EffectSucceeded ''scan'' 1,
       ApprovalRequested ''apply'', ApprovalGranted ''apply'', EffectEvaluationRequired ''apply'' 1] @
      EffectStarted ''apply'' 1 False # [ReconciledNotApplied ''apply'' 1] @ EffectStarted ''apply'' 1 False # [],
      snd (run_trace demo_hash demo_run demo_events))"
  using demo_kinds by (simp add: prod_eq_iff)

theorem no_blind_replay_witness:
  "FlowRun_start demo_hash ''run-1'' demo_flow = Ok demo_run \<and>
   ReconciledNotApplied ''apply'' 1 \<in> set [ReconciledNotApplied ''apply'' 1]"
proof -
  have "apply_step Always \<in> set (fd_steps demo_flow)" "fs_id (apply_step Always) = ''apply''"
    "fs_effect (apply_step Always) = Stateful"
    by (simp_all add: demo_flow_def demo_with_def apply_step_def)
  from no_blind_replay [OF demo_run_start demo_trace this] demo_run_start show ?thesis by blast
qed

section \<open>Every call of a reachable run\<close>

lemma trace_reachable:
  "reachable_run sha256 run \<Longrightarrow> reachable_run sha256 (snd (run_trace sha256 run evs))"
proof (induction sha256 run evs rule: run_trace.induct)
  case (2 sha256 run op evs)
  obtain r run1 where op: "apply_op sha256 op run = (r, run1)" by fastforce
  have "reachable_run sha256 run1"
    by (rule reachable.step [OF "2.prems", where l = "Call op"]) (simp add: op)
  from "2.IH" [OF op [symmetric] this] show ?case by (simp add: op case_prod_beta)
next
  case (3 sha256 run evs)
  show ?case
  proof (cases "FlowRun_resume sha256 (sn_run_id (run_snapshot run)) (run_definition run) (run_snapshot run)")
    case (Inl e)
    from "3.IH"(1) [OF Inl "3.prems"] Inl show ?thesis by simp
  next
    case (Inr run1)
    have "reachable_run sha256 run1"
      by (rule reachable.step [OF "3.prems", where l = Restart]) (simp add: Inr)
    from "3.IH"(2) [OF Inr this] Inr show ?thesis by simp
  qed
qed simp

lemma demo_run_reachable: "reachable_run demo_hash demo_run"
  by (intro reachable.initial) (use demo_run_start in \<open>auto simp: run_init_def\<close>)

lemmas demo_reachable = trace_reachable [OF demo_run_reachable]

text \<open>C2: Every successful call of a reachable run is one step of the transition relation (with the
  semantic events that belong to it and the next sequence number) or leaves the run as it was.\<close>

theorem engine_refines:
  assumes "reachable_run sha256 run" and "apply_op sha256 op run = (Ok u, run')"
  shows "update_refines sha256 run u run'"
  using apply_op_refines [OF flow_runs.reachable_inv [OF assms(1)], of op] assms(2)
  by (simp add: refines_def)

theorem engine_refines_witness:
  "\<exists>u run'. apply_op demo_hash (NextDecision 0) demo_run = (Ok u, run')
     \<and> up_transition u \<noteq> None \<and> update_refines demo_hash demo_run u run'"
proof -
  obtain r run' where op: "apply_op demo_hash (NextDecision 0) demo_run = (r, run')" by fastforce
  have "\<not> is_err (fst (apply_op demo_hash (NextDecision 0) demo_run))
      \<and> emitted (fst (apply_op demo_hash (NextDecision 0) demo_run)) \<noteq> []" by code_simp
  then obtain u where "r = Ok u" "up_transition u \<noteq> None"
    using op by (cases r) (auto simp: emitted_def split: option.splits)
  with op engine_refines [OF demo_run_reachable] show ?thesis by blast
qed

text \<open>C3: Every reachable run satisfies the run invariant: one active step at most, statuses that match
  the steps, exact approval tokens, numbered and bounded attempts, references settled before a step starts.\<close>

theorem reachable_runs_invariant:
  assumes "reachable_run sha256 run"
  shows "run_inv sha256 run"
  by (rule flow_runs.reachable_inv [OF assms])

theorem reachable_runs_invariant_witness: "run_inv demo_hash (snd (run_trace demo_hash demo_run demo_events))"
  by (rule reachable_runs_invariant [OF demo_reachable])

text \<open>C10: A call of a reachable run that fails leaves the run as it was; no call panics, and the
  scheduler never stalls on a validated definition.\<close>

theorem failed_calls_harmless:
  assumes "reachable_run sha256 run" and "apply_op sha256 op run = (Err e, run')"
  shows "run' = run \<and> e \<noteq> EnginePanic \<and> e \<noteq> SchedulerStalled"
  using apply_op_refines [OF flow_runs.reachable_inv [OF assms(1)], of op] assms(2)
  by (simp add: refines_def)

theorem failed_calls_harmless_witness:
  "apply_op demo_hash (PrepareEffect (apply_attempt 1) 0) demo_run = (Err UnexpectedStepState, demo_run)
   \<and> UnexpectedStepState \<noteq> EnginePanic"
proof -
  have "fst (apply_op demo_hash (PrepareEffect (apply_attempt 1) 0) demo_run) = Err UnexpectedStepState"
    by code_simp
  then have op: "apply_op demo_hash (PrepareEffect (apply_attempt 1) 0) demo_run
      = (Err UnexpectedStepState, snd (apply_op demo_hash (PrepareEffect (apply_attempt 1) 0) demo_run))"
    by (metis prod.collapse)
  from failed_calls_harmless [OF demo_run_reachable op] op show ?thesis by simp
qed

end
