(* ===== verification/Flow_Checkpoints.thy ===== *)
theory Flow_Checkpoints
  imports Flow_Runs
begin

text \<open>
  The engine and the checks on its checkpoints agree: a snapshot that satisfies the run
  invariant passes the standalone check and the definition-bound check of \<^verbatim>\<open>resume\<close>, and
  each transition passes the successor check the store runs before it commits, as long
  as no step was skipped before its approval was asked for (\<open>approved_skips\<close>).  For such
  a skip the checks refuse the engine's own snapshot.
\<close>

definition approved_skips :: "FlowSnapshot \<Rightarrow> bool" where
  "approved_skips sn \<longleftrightarrow>
     (\<forall>s \<in> set (sn_steps sn). ss_approval s = NotRequested \<longrightarrow> ss_state s \<noteq> StepState.Skipped)"

section \<open>Step checks\<close>

lemma approval_shape_from_inv:
  assumes "step_inv sha256 rid dig c declared s"
    and "ss_approval s = NotRequested \<longrightarrow> ss_state s \<noteq> StepState.Skipped"
  shows "approval_shape_valid s"
  using assms
  by (cases "ss_approval s") (auto simp: step_inv_def approval_inv_def approval_shape_valid_def)

lemma previous_retryable_from_history:
  "rs \<noteq> [] \<Longrightarrow> list_all is_retryable_failure rs \<Longrightarrow> is_retryable_failure (last rs)"
  by (simp add: list_all_iff)

lemma completed_attempts_Ok:
  assumes "step_inv sha256 rid dig c declared s" and "max_attempts (fs_retry declared) \<le> MAX_RETRY_ATTEMPTS"
  shows "completed_attempts s = Ok (of_nat (length (ss_results s)))" and "length (ss_results s) \<le> 5"
    and "length (ss_results s) \<le> unat (max_attempts (fs_retry declared))"
proof -
  have m: "unat (max_attempts (fs_retry declared)) \<le> 5"
    using assms(2) by (simp add: word_le_nat_alt MAX_RETRY_ATTEMPTS_def)
  show le: "length (ss_results s) \<le> unat (max_attempts (fs_retry declared))"
    using assms(1) by (cases "ss_state s") (auto simp: step_inv_def word_le_nat_alt)
  with m show "length (ss_results s) \<le> 5" by linarith
  then show "completed_attempts s = Ok (of_nat (length (ss_results s)))" by (simp add: completed_attempts_def)
qed

lemma of_nat_attempt:
  "unat a = n \<Longrightarrow> (of_nat n :: u8) = a"
  "unat a = Suc n \<Longrightarrow> (of_nat n :: u8) + 1 = a"
proof -
  show first: "unat a = n \<Longrightarrow> (of_nat n :: u8) = a" for n by auto
  show "unat a = Suc n \<Longrightarrow> (of_nat n :: u8) + 1 = a" using first [of "Suc n"] by (simp add: add.commute)
qed

lemma attempt_one: "unat a = Suc 0 \<Longrightarrow> a = (1 :: u8)"
  using of_nat_attempt(1) [of a "Suc 0"] by simp

lemma take_butlast: "take (length rs - Suc 0) rs = butlast rs"
  by (simp add: butlast_conv_take)

lemma structural_from_inv:
  assumes inv: "step_inv sha256 rid dig c declared s"
    and m: "max_attempts (fs_retry declared) \<le> MAX_RETRY_ATTEMPTS"
  shows "validate_structural_step_state s = Ok ()"
proof -
  note completed = completed_attempts_Ok(1) [OF inv m]
  have hist: "history_inv (ss_state s) (max_attempts (fs_retry declared)) c (ss_results s)"
    and rep: "(ss_blocked_report s \<noteq> None) = (ss_state s = StepState.Blocked)"
    using inv by (simp_all add: step_inv_def)
  have "structural_shape (ss_state s) (of_nat (length (ss_results s))) s
      \<and> list_all is_retryable_failure
          (take (structural_prefix_length (ss_state s) (length (ss_results s))) (ss_results s))"
    using hist rep m previous_retryable_from_history [of "ss_results s"]
    by (cases "ss_state s")
       (auto simp: of_nat_attempt take_butlast last_kind_def last_opt_def is_failed_kind_def
          previous_retryable_failure_def dest: attempt_one)
  then show ?thesis by (simp add: validate_structural_step_state_def completed Let_def)
qed

lemma bound_from_inv:
  assumes inv: "step_inv sha256 rid dig c declared s"
    and m: "max_attempts (fs_retry declared) \<le> MAX_RETRY_ATTEMPTS"
  shows "validate_step_state s (max_attempts (fs_retry declared)) c = Ok ()"
proof -
  note completed = completed_attempts_Ok(1) [OF inv m]
  have hist: "history_inv (ss_state s) (max_attempts (fs_retry declared)) c (ss_results s)"
    and rep: "(ss_blocked_report s \<noteq> None) = (ss_state s = StepState.Blocked)"
    using inv by (simp_all add: step_inv_def)
  have "bound_shape (ss_state s) (of_nat (length (ss_results s))) (max_attempts (fs_retry declared)) c s
      \<and> list_all is_retryable_failure
          (take (bound_prefix_length (ss_state s) (length (ss_results s))) (ss_results s))"
    using hist rep previous_retryable_from_history [of "ss_results s"]
    by (cases "ss_state s")
       (auto simp: of_nat_attempt take_butlast last_kind_def last_opt_def
          previous_retryable_failure_def list_all_iff dest: attempt_one in_set_butlastD)
  then show ?thesis by (simp add: validate_step_state_def completed Let_def)
qed

lemma validate_results_from_inv: "results_inv s \<Longrightarrow> validate_results index s = Ok ()"
  by (simp add: validate_results_def results_inv_def for_each_Inr_iff)

lemma validate_blocked_from_inv:
  "step_inv sha256 rid dig c declared s \<Longrightarrow> validate_blocked_report index s = Ok ()"
  by (auto simp: validate_blocked_report_def step_inv_def split: option.splits)

section \<open>The computed status\<close>

lemma quiet_tests:
  assumes "quiet s"
  shows "\<not> is_pending_approval (ss_approval s)" "\<not> is_waiting_retry (ss_state s)"
    "\<not> is_awaiting_effect (ss_state s)" "\<not> is_in_flight (ss_state s)"
    "ss_state s \<noteq> StepState.Blocked" "ss_state s \<noteq> StepState.Cancelled" "\<not> step_is_active s"
  using assms by (auto simp: quiet_def step_is_active_def state_tests split: StepState.splits)

lemma step_phase_tests:
  "is_waiting_retry st = (case st of StepState.WaitingRetry _ _ \<Rightarrow> True | _ \<Rightarrow> False)"
  "is_awaiting_effect st = (case st of AwaitingEffect _ \<Rightarrow> True | _ \<Rightarrow> False)"
  "is_failed_state st = (case st of StepState.Failed _ \<Rightarrow> True | _ \<Rightarrow> False)"
  by (simp_all add: state_tests)

lemma computed_status_eq:
  "computed_status sn =
     (let any = (\<lambda>P. \<exists>s \<in> set (sn_steps sn). P s) in
      if sn_cancel_requested sn then
        (if sn_status sn = RunStatus.Blocked then RunStatus.Blocked
         else if sn_status sn = RunStatus.Cancelled then RunStatus.Cancelled else Cancelling)
      else if any (\<lambda>s. ss_state s = StepState.Blocked) then RunStatus.Blocked
      else if any (\<lambda>s. is_pending_approval (ss_approval s)) then WaitingApproval
      else if any (\<lambda>s. is_waiting_retry (ss_state s)) then RunStatus.WaitingRetry
      else if any (\<lambda>s. is_awaiting_effect (ss_state s)) then AwaitingEffectEvaluation
      else if any (\<lambda>s. is_in_flight (ss_state s)) then EffectInFlight
      else if all_terminal sn then
        (if sn_status sn = Running then Running
         else if any_failed sn then RunStatus.Unresolved else RunStatus.Succeeded)
      else Running)"
  by (simp add: computed_status_def Let_def list_ex_iff list_all_iff all_terminal_def any_failed_def
      step_phase_tests)

lemma no_quiet_phase:
  assumes "all_quiet sn"
  shows "\<not> (\<exists>s \<in> set (sn_steps sn). ss_state s = StepState.Blocked)"
    "\<not> (\<exists>s \<in> set (sn_steps sn). is_pending_approval (ss_approval s))"
    "\<not> (\<exists>s \<in> set (sn_steps sn). is_waiting_retry (ss_state s))"
    "\<not> (\<exists>s \<in> set (sn_steps sn). is_awaiting_effect (ss_state s))"
    "\<not> (\<exists>s \<in> set (sn_steps sn). is_in_flight (ss_state s))"
proof -
  have q: "quiet s" if "s \<in> set (sn_steps sn)" for s
    using assms that by (auto simp: all_quiet_def in_set_conv_nth)
  show "\<not> (\<exists>s \<in> set (sn_steps sn). ss_state s = StepState.Blocked)"
    "\<not> (\<exists>s \<in> set (sn_steps sn). is_pending_approval (ss_approval s))"
    "\<not> (\<exists>s \<in> set (sn_steps sn). is_waiting_retry (ss_state s))"
    "\<not> (\<exists>s \<in> set (sn_steps sn). is_awaiting_effect (ss_state s))"
    "\<not> (\<exists>s \<in> set (sn_steps sn). is_in_flight (ss_state s))"
    using q quiet_tests by blast+
qed

text \<open>A test that fails on quiet steps only looks at the focused step.\<close>

lemma focus_ex:
  assumes "quiet_except i sn" and "i < length (sn_steps sn)" and "\<And>s. quiet s \<Longrightarrow> \<not> Q s"
  shows "(\<exists>s \<in> set (sn_steps sn). Q s) = Q (sn_steps sn ! i)"
proof
  assume "\<exists>s \<in> set (sn_steps sn). Q s"
  then obtain j where j: "j < length (sn_steps sn)" "Q (sn_steps sn ! j)" by (auto simp: in_set_conv_nth)
  then have "j = i" using assms(1,3) by (auto simp: quiet_except_def)
  with j show "Q (sn_steps sn ! i)" by simp
next
  assume "Q (sn_steps sn ! i)"
  then show "\<exists>s \<in> set (sn_steps sn). Q s" using nth_mem [OF assms(2)] by blast
qed

lemma focus_any:
  assumes "quiet_except i sn" and "i < length (sn_steps sn)"
  shows "(\<exists>s \<in> set (sn_steps sn). ss_state s = StepState.Blocked) = (ss_state (sn_steps sn ! i) = StepState.Blocked)"
    "(\<exists>s \<in> set (sn_steps sn). is_pending_approval (ss_approval s)) = is_pending_approval (ss_approval (sn_steps sn ! i))"
    "(\<exists>s \<in> set (sn_steps sn). is_waiting_retry (ss_state s)) = is_waiting_retry (ss_state (sn_steps sn ! i))"
    "(\<exists>s \<in> set (sn_steps sn). is_awaiting_effect (ss_state s)) = is_awaiting_effect (ss_state (sn_steps sn ! i))"
    "(\<exists>s \<in> set (sn_steps sn). is_in_flight (ss_state s)) = is_in_flight (ss_state (sn_steps sn ! i))"
  by (rule focus_ex [OF assms]; blast dest: quiet_tests)+

lemma focusedD:
  assumes "focused P sn" and "snap_inv sha256 d sn"
  obtains i where "i < length (sn_steps sn)" "P i (sn_steps sn ! i)" "quiet_except i sn"
    "approval_inv (sn_steps sn ! i)"
  using assms snap_invD(3) by (auto simp: focused_def)

lemma phase_not_pending:
  assumes "approval_inv s"
  shows "is_pending_approval (ss_approval s) \<Longrightarrow> ss_state s = StepState.Pending"
    and "is_waiting_retry (ss_state s) \<or> is_awaiting_effect (ss_state s) \<or> is_in_flight (ss_state s)
           \<or> ss_state s = StepState.Blocked \<Longrightarrow> \<not> is_pending_approval (ss_approval s)"
  using assms
  by (cases "ss_approval s"; auto simp: approval_inv_def is_pending_approval_def state_tests)+

lemma phase_chain:
  "(if b1 then s1 else if b2 then s2 else if b3 then s3 else if b4 then s4 else if b5 then s5 else r) = s \<Longrightarrow>
   s \<noteq> r \<Longrightarrow>
   (if b1 then s1 else if b2 then s2 else if b3 then s3 else if b4 then s4 else if b5 then s5 else x) = s"
  by (simp split: if_splits)

lemma computed_status_inv:
  assumes inv: "snap_inv sha256 d sn"
  shows "computed_status sn = sn_status sn"
proof -
  note st = snap_invD(5) [OF inv]
  have exclusive: "is_waiting_retry x \<Longrightarrow> x \<noteq> StepState.Blocked \<and> \<not> is_awaiting_effect x \<and> \<not> is_in_flight x"
    "is_awaiting_effect x \<Longrightarrow> x \<noteq> StepState.Blocked \<and> \<not> is_waiting_retry x \<and> \<not> is_in_flight x"
    "is_in_flight x \<Longrightarrow> x \<noteq> StepState.Blocked \<and> \<not> is_awaiting_effect x \<and> \<not> is_waiting_retry x" for x
    by (cases x; simp add: state_tests)+
  have focus: "computed_status sn = s"
    if "focused P sn" and c: "\<not> sn_cancel_requested sn"
      and "\<And>i x. P i x \<Longrightarrow> approval_inv x \<Longrightarrow>
        (if ss_state x = StepState.Blocked then RunStatus.Blocked
         else if is_pending_approval (ss_approval x) then WaitingApproval
         else if is_waiting_retry (ss_state x) then RunStatus.WaitingRetry
         else if is_awaiting_effect (ss_state x) then AwaitingEffectEvaluation
         else if is_in_flight (ss_state x) then EffectInFlight else Running) = s" and "s \<noteq> Running" for P s
  proof -
    from that(1) inv obtain i where i: "i < length (sn_steps sn)" "P i (sn_steps sn ! i)" "quiet_except i sn"
      "approval_inv (sn_steps sn ! i)" by (rule focusedD)
    have "(if ss_state (sn_steps sn ! i) = StepState.Blocked then RunStatus.Blocked
         else if is_pending_approval (ss_approval (sn_steps sn ! i)) then WaitingApproval
         else if is_waiting_retry (ss_state (sn_steps sn ! i)) then RunStatus.WaitingRetry
         else if is_awaiting_effect (ss_state (sn_steps sn ! i)) then AwaitingEffectEvaluation
         else if is_in_flight (ss_state (sn_steps sn ! i)) then EffectInFlight else Running) = s"
      using that(3) i by blast
    from phase_chain [OF this \<open>s \<noteq> Running\<close>] show ?thesis
      using c unfolding computed_status_eq Let_def focus_any [OF i(3,1)] by (simp only: if_False)
  qed
  show ?thesis
  proof (cases "sn_status sn")
    case Running
    then show ?thesis using st no_quiet_phase [of sn] by (simp add: computed_status_eq Let_def)
  next
    case WaitingApproval
    then show ?thesis using st phase_not_pending(1) by (auto intro!: focus)
  next
    case WaitingRetry
    then have "focused (\<lambda>i s. is_waiting_retry (ss_state s)) sn" "\<not> sn_cancel_requested sn" using st by simp_all
    then show ?thesis
      unfolding WaitingRetry by (rule focus) (simp_all add: exclusive(1) phase_not_pending(2))
  next
    case AwaitingEffectEvaluation
    then have "focused (\<lambda>i s. is_awaiting_effect (ss_state s)) sn" "\<not> sn_cancel_requested sn" using st by simp_all
    then show ?thesis
      unfolding AwaitingEffectEvaluation by (rule focus) (simp_all add: exclusive(2) phase_not_pending(2))
  next
    case EffectInFlight
    then have "focused (\<lambda>i s. is_in_flight (ss_state s)) sn" "\<not> sn_cancel_requested sn" using st by simp_all
    then show ?thesis
      unfolding EffectInFlight by (rule focus) (simp_all add: exclusive(3) phase_not_pending(2))
  next
    case Cancelling
    then show ?thesis using st by (simp add: computed_status_eq Let_def)
  next
    case Succeeded
    then show ?thesis using st no_quiet_phase [of sn] by (simp add: computed_status_eq Let_def)
  next
    case Unresolved
    then show ?thesis using st no_quiet_phase [of sn] by (simp add: computed_status_eq Let_def)
  next
    case Blocked
    show ?thesis
    proof (cases "sn_cancel_requested sn")
      case True
      then show ?thesis using Blocked by (simp add: computed_status_eq Let_def)
    next
      case False
      then show ?thesis using st Blocked by (auto intro!: focus)
    qed
  next
    case Cancelled
    then show ?thesis using st by (simp add: computed_status_eq Let_def)
  qed
qed

lemma one_active:
  assumes inv: "snap_inv sha256 d sn"
  shows "length (filter step_is_active (sn_steps sn)) \<le> 1"
proof -
  have "i = j" if "i < length (sn_steps sn)" "step_is_active (sn_steps sn ! i)"
      "j < length (sn_steps sn)" "step_is_active (sn_steps sn ! j)" for i j
  proof -
    have "\<not> quiet (sn_steps sn ! i)" "\<not> quiet (sn_steps sn ! j)" using that quiet_tests(7) by blast+
    moreover have "sn_status sn \<noteq> RunStatus.Cancelled"
    proof
      assume "sn_status sn = RunStatus.Cancelled"
      with snap_invD(5) [OF inv] nth_mem [OF that(1)] that(2) show False
        by (auto simp: all_terminal_def step_is_active_def)
    qed
    ultimately show ?thesis
      using active_focus [OF snap_invD(5) [OF inv] _ that(1)] that(3) by (auto simp: quiet_except_def)
  qed
  then have "card {i. i < length (sn_steps sn) \<and> step_is_active (sn_steps sn ! i)} \<le> Suc 0"
    by (subst card_le_Suc0_iff_eq) auto
  then show ?thesis by (simp add: length_filter_conv_card)
qed

section \<open>The snapshot checks accept the invariant\<close>

definition standalone_step_ok :: "(string \<Rightarrow> string) \<Rightarrow> StepSnapshot \<Rightarrow> bool" where
  "standalone_step_ok sha256 s \<longleftrightarrow>
     (\<forall>path. validate_slug path (ss_id s) MAX_FLOW_ID_BYTES = Ok ())
   \<and> length (ss_results s) \<le> unat MAX_RETRY_ATTEMPTS \<and> approval_shape_valid s \<and> \<not> token_mismatch sha256 s
   \<and> (\<forall>index. validate_results index s = Ok () \<and> validate_blocked_report index s = Ok ())
   \<and> validate_structural_step_state s = Ok ()"

lemma standalone_loop_Ok:
  assumes "\<forall>s \<in> set ss. standalone_step_ok sha256 s" and "distinct (map ss_id ss)"
    and "set ids \<inter> ss_id ` set ss = {}"
  shows "standalone_loop sha256 index ids active ss = Ok (active + length (filter step_is_active ss))"
  using assms
proof (induction ss arbitrary: index ids active)
  case (Cons s ss)
  then have "standalone_loop sha256 (index + 1) (ss_id s # ids) (if step_is_active s then active + 1 else active) ss
      = Ok ((if step_is_active s then active + 1 else active) + length (filter step_is_active ss))"
    by (intro Cons.IH) auto
  moreover have "standalone_step_ok sha256 s" and "ss_id s \<notin> set ids" using Cons.prems by auto
  ultimately show ?case
    by (simp add: standalone_step_ok_def is_err_def not_less)
qed simp

lemma snap_inv_steps:
  assumes valid: "FlowDefinition_validate d = Ok ()" and inv: "snap_inv sha256 d sn"
    and s: "s \<in> set (sn_steps sn)"
  obtains declared where "declared \<in> set (fd_steps d)" "fs_id declared = ss_id s"
    "max_attempts (fs_retry declared) \<le> MAX_RETRY_ATTEMPTS"
    "step_inv sha256 (sn_run_id sn) (sn_definition_digest sn) (sn_cancel_requested sn) declared s"
proof -
  obtain i where i: "i < length (sn_steps sn)" "s = sn_steps sn ! i" using s by (auto simp: in_set_conv_nth)
  show ?thesis
    using that [of "fd_steps d ! i"] snap_invD(1,2) [OF inv] i max_attempts_positive(2) [OF valid]
    by (auto simp: step_inv_def)
qed

lemma standalone_step_from_inv:
  assumes valid: "FlowDefinition_validate d = Ok ()" and inv: "snap_inv sha256 d sn"
    and skips: "approved_skips sn" and s: "s \<in> set (sn_steps sn)"
  shows "standalone_step_ok sha256 s"
proof -
  obtain declared where dec: "declared \<in> set (fd_steps d)" "fs_id declared = ss_id s"
    and m: "max_attempts (fs_retry declared) \<le> MAX_RETRY_ATTEMPTS"
    and step: "step_inv sha256 (sn_run_id sn) (sn_definition_digest sn) (sn_cancel_requested sn) declared s"
    using snap_inv_steps [OF valid inv s] .
  have "approval_shape_valid s"
    using approval_shape_from_inv [OF step] skips s by (auto simp: approved_skips_def)
  then show ?thesis
    unfolding standalone_step_ok_def
    using FlowDefinition_validate_Ok(4) [OF valid dec(1)] dec(2) completed_attempts_Ok(2) [OF step m] step
      structural_from_inv [OF step m] validate_results_from_inv validate_blocked_from_inv [OF step]
    by (auto simp: step_inv_def MAX_RETRY_ATTEMPTS_def)
qed

lemma cancelled_all_terminal:
  assumes "snap_inv sha256 d sn" and "sn_status sn = RunStatus.Cancelled"
  shows "list_all (\<lambda>s. StepState_is_terminal (ss_state s)) (sn_steps sn)"
  using snap_invD(5) [OF assms(1)] assms(2) by (simp add: all_terminal_def list_all_iff)

lemma standalone_from_inv:
  assumes valid: "FlowDefinition_validate d = Ok ()" and inv: "snap_inv sha256 d sn"
    and skips: "approved_skips sn"
  shows "validate_standalone_snapshot sha256 sn = Ok ()"
proof -
  have loop: "standalone_loop sha256 0 [] 0 (sn_steps sn) = Ok (length (filter step_is_active (sn_steps sn)))"
    using standalone_loop_Ok [of "sn_steps sn" sha256 "[]" 0 0]
      standalone_step_from_inv [OF valid inv skips] snap_inv_distinct [OF valid inv] by simp
  have size: "sn_steps sn \<noteq> []" "length (sn_steps sn) \<le> MAX_FLOW_STEPS"
    using FlowDefinition_validate_Ok(1,2) [OF valid] snap_invD(1) [OF inv] by auto
  have "sn_snapshot_version sn = FLOW_SNAPSHOT_VERSION"
    "validate_engine_identity ''snapshot.run_id'' (sn_run_id sn) MAX_RUN_ID_BYTES = Ok ()"
    using inv by (simp_all add: snap_inv_def)
  with loop size show ?thesis
    using one_active [OF inv] computed_status_inv [OF inv] cancelled_all_terminal [OF inv]
    by (simp add: validate_standalone_snapshot_def not_less)
qed

lemma bound_step_from_inv:
  assumes "step_inv sha256 (sn_run_id sn) (sn_definition_digest sn) (sn_cancel_requested sn) declared s"
    and "max_attempts (fs_retry declared) \<le> MAX_RETRY_ATTEMPTS"
    and "ss_approval s = NotRequested \<longrightarrow> ss_state s \<noteq> StepState.Skipped"
  shows "bound_step_check sha256 sn index (s, declared) = Ok ()"
  using assms approval_shape_from_inv [OF assms(1,3)] completed_attempts_Ok(3) [OF assms(1,2)]
    bound_from_inv [OF assms(1,2)] validate_results_from_inv [of s index]
    validate_blocked_from_inv [OF assms(1), of index]
  by (simp add: bound_step_check_def step_inv_def not_less)

lemma graph_step_from_inv:
  assumes inv: "snap_inv sha256 d sn" and i: "i < length (sn_steps sn)"
  shows "graph_step_check d sn index (sn_steps sn ! i, fd_steps d ! i) = Ok ()"
proof -
  have "sn_cancel_requested sn" if "ss_state (sn_steps sn ! i) = StepState.Cancelled"
    using active_status(6) [OF snap_invD(5) [OF inv] i snap_invD(3) [OF inv i] that] snap_invD(5) [OF inv]
    by simp
  then show ?thesis
    using snap_invD(4) [OF inv i]
    by (auto simp: graph_step_check_def order_inv_def started_def ready_def condition_holds_def)
qed

lemma bound_check_from_inv:
  assumes valid: "FlowDefinition_validate d = Ok ()" and inv: "snap_inv sha256 d sn"
    and skips: "approved_skips sn"
    and seq: "sn_transition_sequence sn \<noteq> -1 \<or> RunStatus_is_terminal (sn_status sn)"
  shows "validate_snapshot sha256 d sn = Ok ()"
proof -
  have len: "length (sn_steps sn) = length (fd_steps d)" using snap_invD(1) [OF inv] .
  have "for_each (bound_step_check sha256 sn) 0 (zip (sn_steps sn) (fd_steps d)) = Ok ()"
    using len snap_invD(2) [OF inv] max_attempts_positive(2) [OF valid] skips
    by (auto simp: for_each_Inr_iff approved_skips_def intro!: bound_step_from_inv)
  moreover have "validate_snapshot_graph d sn = Ok ()"
    using len graph_step_from_inv [OF inv] by (simp add: validate_snapshot_graph_def for_each_Inr_iff)
  ultimately show ?thesis
    using inv len seq one_active [OF inv] computed_status_inv [OF inv] cancelled_all_terminal [OF inv]
    by (auto simp: validate_snapshot_def snap_inv_def not_less)
qed

lemma resume_from_inv:
  assumes inv: "run_inv sha256 run" and "approved_skips (run_snapshot run)"
    and "sn_transition_sequence (run_snapshot run) \<noteq> -1 \<or> RunStatus_is_terminal (sn_status (run_snapshot run))"
  shows "FlowRun_resume sha256 (sn_run_id (run_snapshot run)) (run_definition run) (run_snapshot run) =
     Ok (run\<lparr>run_issued_attempt := None\<rparr>)"
proof -
  have "validate_snapshot sha256 (run_definition run) (run_snapshot run) = Ok ()"
    using bound_check_from_inv [OF run_invD(1,2) [OF inv] assms(2,3)] .
  moreover have "sn_snapshot_version (run_snapshot run) = FLOW_SNAPSHOT_VERSION"
    using run_invD(2) [OF inv] by (simp add: snap_inv_def)
  ultimately show ?thesis
    using inv by (simp add: FlowRun_resume_def run_inv_def upgrade_snapshot_def FLOW_SNAPSHOT_VERSION_def)
qed



section \<open>The successor check accepts the engine's transitions\<close>

lemma bump_update:
  "bump (set_status st (upd_step sn i f)) =
     (upd_step (sn\<lparr>sn_transition_sequence := sn_transition_sequence sn + 1\<rparr>) i f)\<lparr>sn_status := st\<rparr>"
  "bump (upd_step sn i f) =
     upd_step (sn\<lparr>sn_transition_sequence := sn_transition_sequence sn + 1\<rparr>) i f"
  by (simp_all add: bump_def set_status_def upd_step_def)

lemma block_step_approval:
  "block_step r (s\<lparr>ss_approval := a\<rparr>) = (block_step r s)\<lparr>ss_approval := a\<rparr>"
  by (cases s) (simp add: block_step_def)

lemma bump_simple:
  "bump (set_status st sn) = (sn\<lparr>sn_transition_sequence := sn_transition_sequence sn + 1\<rparr>)\<lparr>sn_status := st\<rparr>"
  "bump (set_status st (sn\<lparr>sn_cancel_requested := c\<rparr>)) =
     (sn\<lparr>sn_transition_sequence := sn_transition_sequence sn + 1\<rparr>)\<lparr>sn_cancel_requested := c, sn_status := st\<rparr>"
  "bump (sn\<lparr>sn_steps := ss, sn_cancel_requested := c, sn_status := st\<rparr>) =
     (sn\<lparr>sn_transition_sequence := sn_transition_sequence sn + 1\<rparr>)
       \<lparr>sn_cancel_requested := c, sn_status := st, sn_steps := ss\<rparr>"
  by (cases sn; simp add: bump_def set_status_def)+

lemma candidate_pushed:
  assumes "i < length (sn_steps sn)"
  shows "candidate_result (bump (set_status st (upd_step sn i (push_result (recorded a r) st')))) i a =
     Ok (recorded a r)"
  using assms by (simp add: candidate_result_def get_opt_def push_result_def recorded_def)

lemma require_transition_simps [simp]:
  "require_transition True = Ok ()"
  "require_transition c = Ok () \<longleftrightarrow> c"
  by (simp_all add: require_transition_def)

lemma checked_sub_succ: "a < (m :: u8) \<Longrightarrow> checked_sub (a + 1) 1 = Some a"
  using word_succ_bound [of a m]
  by (simp add: checked_sub_def word_le_nat_alt)

lemma transition_step_at:
  assumes "distinct (map ss_id (sn_steps sn))" and "i < length (sn_steps sn)"
  shows "transition_step sn (ss_id (sn_steps sn ! i)) = Ok i"
  using step_position [OF assms] by (simp add: transition_step_def)

lemma result_origin_at:
  assumes "distinct (map ss_id (sn_steps sn))" and "i < length (sn_steps sn)"
    and "in_flight_status sn" and "ss_state (sn_steps sn ! i) = InFlight a t"
  shows "result_transition_origin sn (ss_id (sn_steps sn ! i)) a = Ok i"
  using assms transition_step_at [OF assms(1,2)]
  by (simp add: result_transition_origin_def require_transition_def in_flight_status_def in_flight_attempt_def)

lemma skip_approval_ready:
  assumes inv: "snap_inv sha256 d sn" and run: "sn_status sn = Running" and i: "i < length (sn_steps sn)"
    and p: "ss_state (sn_steps sn ! i) = StepState.Pending"
    and skips: "approved_skips (set_state i StepState.Skipped sn)"
  shows "approval_ready (ss_approval (sn_steps sn ! i))"
proof -
  have "quiet (sn_steps sn ! i)" using snap_inv_running(2) [OF inv run] i by (simp add: all_quiet_def)
  moreover have "ss_approval (sn_steps sn ! i) \<noteq> NotRequested"
  proof
    assume nr: "ss_approval (sn_steps sn ! i) = NotRequested"
    have "(sn_steps sn ! i)\<lparr>ss_state := StepState.Skipped\<rparr> \<in> set (sn_steps (set_state i StepState.Skipped sn))"
      using i by (simp add: set_defs set_update_memI)
    then show False using skips nr by (auto simp: approved_skips_def)
  qed
  ultimately show ?thesis
    using snap_invD(3) [OF inv i] p quiet_tests(1) [of "sn_steps sn ! i"]
    by (cases "ss_approval (sn_steps sn ! i)")
       (auto simp: approval_ready_def is_granted_def approval_inv_def is_pending_approval_def)
qed

lemma settled_quiet:
  "all_quiet sn \<Longrightarrow> s \<in> set (sn_steps sn) \<Longrightarrow>
   ss_state s \<noteq> StepState.Blocked \<and> ss_state s \<noteq> StepState.Cancelled"
  by (auto simp: all_quiet_def in_set_conv_nth quiet_def)

lemma expected_successor_rule:
  assumes valid: "FlowDefinition_validate d = Ok ()" and inv: "snap_inv sha256 d sn"
    and rule: "flow_rule sha256 d sn kind sn1" and skips: "approved_skips sn1"
  shows "expected_successor sha256 sn (bump sn1) kind
     (sn\<lparr>sn_transition_sequence := sn_transition_sequence sn + 1\<rparr>) = Ok (bump sn1)"
proof -
  note dist = snap_inv_distinct [OF valid inv]
  note at = transition_step_at [OF dist] and origin = result_origin_at [OF dist]
  note flag = snap_inv_cancel_flag [OF inv] and running = snap_inv_running(1) [OF inv]
  from rule show ?thesis
  proof cases
    case (skip i)
    then show ?thesis
      using skip_approval_ready [OF inv] skips at running by (simp add: set_defs bump_update)
  next
    case (request i)
    then show ?thesis using at running by (simp add: set_defs bump_update)
  next
    case (grant i token)
    then show ?thesis
      using at pending_approval_step(5,6) [OF inv] by (simp add: set_defs bump_update)
  next
    case (deny i token)
    have "bump sn1 = (upd_step (sn\<lparr>sn_transition_sequence := sn_transition_sequence sn + 1\<rparr>) i (\<lambda>s.
        (block_step (EffectReport_trusted approval_denied_text) s)\<lparr>ss_approval := Denied token\<rparr>))
        \<lparr>sn_status := RunStatus.Blocked\<rparr>"
      using deny by (simp add: set_defs upd_step_def bump_def set_status_def block_step_approval)
    with deny show ?thesis using at pending_approval_step(5,6) [OF inv] by simp
  next
    case (evaluate i)
    then show ?thesis using at running by (simp add: set_defs bump_update)
  next
    case (retry_due i a t)
    then show ?thesis using at flag by (simp add: set_defs bump_update)
  next
    case (unauthorized i a)
    then show ?thesis using at flag by (simp add: bump_update)
  next
    case (unauthorized_replay i a t)
    then show ?thesis using at flag by (simp add: bump_update in_flight_attempt_def)
  next
    case (start i a t)
    then show ?thesis using at flag by (simp add: set_defs bump_update get_opt_def)
  next
    case (replay i a t)
    then show ?thesis using at flag by (simp add: bump_def in_flight_attempt_def)
  next
    case (succeed i a t r)
    then show ?thesis
      using origin candidate_pushed by (simp add: bump_update resume_status_def recorded_def)
  next
    case (fail i a t r retryable)
    then show ?thesis
      using origin candidate_pushed by (simp add: bump_update resume_status_def recorded_def)
  next
    case (exhaust i a t r)
    then show ?thesis
      using origin candidate_pushed flag by (simp add: bump_update in_flight_status_def recorded_def)
  next
    case (retry i a t r now t')
    then have "a + 1 \<le> MAX_RETRY_ATTEMPTS"
      using word_succ_bound(2) [OF retry(8)] max_attempts_positive(2) [OF valid] snap_invD(1) [OF inv]
      by (metis order.trans)
    with retry show ?thesis
      using origin candidate_pushed flag checked_sub_succ [OF retry(8)]
      by (simp add: bump_update in_flight_status_def recorded_def)
  next
    case (reconciled i a t)
    then show ?thesis using at flag by (simp add: set_defs bump_update in_flight_attempt_def)
  next
    case (unknown i a t report)
    then show ?thesis
      using at by (auto simp: bump_update in_flight_attempt_def in_flight_status_def get_opt_def block_step_def)
  next
    case (request_cancel i)
    then have "\<exists>s \<in> set (sn_steps sn). is_in_flight (ss_state s)" using nth_mem by blast
    with request_cancel show ?thesis using flag by (simp add: bump_simple list_ex_iff)
  next
    case solve
    have "\<not> (\<exists>s \<in> set (sn_steps sn). case ss_state s of StepState.Failed _ \<Rightarrow> True
        | StepState.Blocked \<Rightarrow> True | StepState.Cancelled \<Rightarrow> True | _ \<Rightarrow> False)"
      using solve settled_quiet [OF snap_inv_running(2) [OF inv]]
      by (auto simp: any_failed_def is_failed_state_def split: StepState.splits)
    with solve show ?thesis
      using running by (simp add: bump_simple list_ex_iff list_all_iff all_terminal_def)
  next
    case unresolve
    have "\<not> (\<exists>s \<in> set (sn_steps sn). case ss_state s of StepState.Blocked \<Rightarrow> True
        | StepState.Cancelled \<Rightarrow> True | _ \<Rightarrow> False)"
      using unresolve settled_quiet [OF snap_inv_running(2) [OF inv]] by (auto split: StepState.splits)
    moreover have "\<exists>s \<in> set (sn_steps sn). case ss_state s of StepState.Failed _ \<Rightarrow> True | _ \<Rightarrow> False"
      using unresolve by (simp add: any_failed_def is_failed_state_def)
    ultimately show ?thesis
      using unresolve running by (simp add: bump_simple list_ex_iff list_all_iff all_terminal_def)
  next
    case cancelled
    then show ?thesis by (simp add: bump_simple)
  qed
qed

lemma same_identity_accepted:
  assumes "same_identity sn sn'"
  shows "validate_successor_identity sn sn' = Ok ()"
proof -
  have len: "length (sn_steps sn') = length (sn_steps sn)"
    using assms by (metis same_identity_def length_map)
  have "step_identity (sn_steps sn' ! k) = step_identity (sn_steps sn ! k)" if "k < length (sn_steps sn)" for k
    using assms that len by (metis same_identity_def nth_map)
  then show ?thesis
    using assms len
    by (auto simp: validate_successor_identity_def same_identity_def list_ex_iff set_zip step_identity_def)
qed

lemma successor_accepted:
  assumes valid: "FlowDefinition_validate d = Ok ()" and inv: "snap_inv sha256 d sn"
    and trans: "flow_trans sha256 d sn kind sn'"
    and skips: "approved_skips sn" "approved_skips sn'"
    and events: "semantic_events_for_transition sn' kind = Ok events"
  shows "validate_snapshot_successor sha256 (Some sn) sn'
     (Some \<lparr>tr_sequence = sn_transition_sequence sn', tr_kind = kind, tr_semantic_events = events\<rparr>) = Ok ()"
proof -
  obtain sn1 where seq: "sn_transition_sequence sn \<noteq> -1" and rule: "flow_rule sha256 d sn kind sn1"
    and sn': "sn' = bump sn1" using trans by (auto simp: flow_trans_def)
  note ident = flow_rule_identity [OF rule]
  have sn'_seq: "sn_transition_sequence sn' = sn_transition_sequence sn + 1" using ident sn' by simp
  have skips1: "approved_skips sn1" using skips(2) sn' by (simp add: approved_skips_def)
  have "expected_successor sha256 sn sn' kind
      (sn\<lparr>sn_transition_sequence := sn_transition_sequence sn + 1\<rparr>) = Ok sn'"
    using expected_successor_rule [OF valid inv rule skips1] sn' by simp
  moreover have "validate_successor_identity sn sn' = Ok ()"
    using ident sn' by (intro same_identity_accepted) simp
  moreover have "validate_standalone_snapshot sha256 sn = Ok ()" "validate_standalone_snapshot sha256 sn' = Ok ()"
    using standalone_from_inv [OF valid] inv flow_trans_inv [OF valid inv trans] skips by blast+
  ultimately show ?thesis
    using seq events
    by (simp add: validate_snapshot_successor_def validate_transition_successor_def checked_add_one sn'_seq)
qed

text \<open>C6: Every update a reachable run hands out, with or without a transition, passes the check the
  store applies to a checkpoint before committing it, provided no step was skipped unapproved.\<close>

theorem checkpoints_accepted:
  assumes reach: "reachable_run sha256 run" and op: "apply_op sha256 op run = (Ok u, run')"
    and skips: "approved_skips (run_snapshot run)" "approved_skips (up_snapshot u)"
  shows "validate_snapshot_successor sha256 (Some (run_snapshot run)) (up_snapshot u) (up_transition u) = Ok ()"
proof -
  have inv: "run_inv sha256 run" using flow_runs.reachable_inv [OF reach] .
  have ref: "update_refines sha256 run u run'"
    using apply_op_refines [OF inv, of op] op by (simp add: refines_def)
  show ?thesis
  proof (cases "up_transition u")
    case None
    then show ?thesis
      using ref standalone_from_inv [OF run_invD(1,2) [OF inv] skips(1)]
        same_identity_accepted [OF same_identity_simps(1)]
      by (simp add: update_refines_def validate_snapshot_successor_def)
  next
    case (Some t)
    then have t: "t = \<lparr>tr_sequence = sn_transition_sequence (up_snapshot u), tr_kind = tr_kind t,
        tr_semantic_events = tr_semantic_events t\<rparr>"
      using ref by (simp add: update_refines_def)
    have "validate_snapshot_successor sha256 (Some (run_snapshot run)) (up_snapshot u)
      (Some \<lparr>tr_sequence = sn_transition_sequence (up_snapshot u), tr_kind = tr_kind t,
         tr_semantic_events = tr_semantic_events t\<rparr>) = Ok ()"
      using ref Some skips
      by (intro successor_accepted [OF run_invD(1,2) [OF inv]]) (simp_all add: update_refines_def)
    then show ?thesis unfolding Some using t by simp
  qed
qed

text \<open>The snapshot a run starts with passes the store's check for a first checkpoint.\<close>

lemma start_accepted:
  assumes start: "FlowRun_start sha256 run_id d = Ok run"
  shows "validate_snapshot_successor sha256 None (run_snapshot run) None = Ok ()"
proof -
  have inv: "run_inv sha256 run" using start_inv [OF start] .
  note facts = FlowRun_start_Ok [OF start]
  have "approved_skips (run_snapshot run)"
    using facts(5) by (auto simp: approved_skips_def initial_step_def)
  then have "validate_standalone_snapshot sha256 (run_snapshot run) = Ok ()"
    using standalone_from_inv [OF run_invD(1,2) [OF inv]] by simp
  moreover have "initial_snapshot_valid (run_snapshot run) None"
    using facts(5) FlowDefinition_validate_Ok(1) [OF facts(1)]
    by (auto simp: initial_snapshot_valid_def list_ex_iff initial_step_def split: ApprovalMode.splits)
  ultimately show ?thesis by (simp add: validate_snapshot_successor_def)
qed

section \<open>Flows whose approvals are unconditional\<close>

definition unconditional_approvals :: "FlowDefinition \<Rightarrow> bool" where
  "unconditional_approvals d \<longleftrightarrow>
     (\<forall>s \<in> set (fd_steps d). fs_approval s = Required \<longrightarrow> fs_condition s = Always)"

lemma unconditional_skips:
  assumes inv: "snap_inv sha256 d sn" and d: "unconditional_approvals d"
  shows "approved_skips sn"
  unfolding approved_skips_def
proof (intro ballI impI notI)
  fix s assume s: "s \<in> set (sn_steps sn)" "ss_approval s = NotRequested" "ss_state s = StepState.Skipped"
  then obtain i where i: "i < length (sn_steps sn)" "s = sn_steps sn ! i" by (auto simp: in_set_conv_nth)
  have "fs_approval (fd_steps d ! i) \<noteq> NoApproval"
    using snap_invD(2) [OF inv i(1)] s(2) i(2) by (auto simp: step_inv_def approval_matches_mode_def)
  then have "fs_approval (fd_steps d ! i) = Required" by (cases "fs_approval (fd_steps d ! i)") auto
  then have "condition_holds d sn i"
    using d i snap_invD(1) [OF inv]
    by (simp add: unconditional_approvals_def condition_holds_def declared_condition_true_def)
  then show False
    using snap_invD(4) [OF inv i(1)] s(3) i(2) by (simp add: order_inv_def started_def)
qed

definition unconditional_snapshot :: "(string \<Rightarrow> string) \<Rightarrow> FlowDefinition \<Rightarrow> FlowSnapshot \<Rightarrow> bool" where
  "unconditional_snapshot sha256 d sn \<longleftrightarrow> unconditional_approvals d \<and> valid_snapshot sha256 d sn"

text \<open>What the store commits: a snapshot and a transition its successor check accepts.\<close>

definition commits :: "(string \<Rightarrow> string) \<Rightarrow> FlowSnapshot \<Rightarrow> TransitionKind \<Rightarrow> FlowSnapshot \<Rightarrow> bool" where
  "commits sha256 sn kind sn' \<longleftrightarrow>
     (\<exists>events. validate_snapshot_successor sha256 (Some sn) sn'
        (Some \<lparr>tr_sequence = sn_transition_sequence sn', tr_kind = kind, tr_semantic_events = events\<rparr>) = Ok ())"

interpretation committed_flow: checked_system "unconditional_snapshot sha256 d" "flow_trans sha256 d"
    "unconditional_snapshot sha256 d" "commits sha256" for sha256 d
proof unfold_locales
  fix s l s'
  assume inv: "unconditional_snapshot sha256 d s" and trans: "flow_trans sha256 d s l s'"
  then show inv': "unconditional_snapshot sha256 d s'"
    by (auto simp: unconditional_snapshot_def intro: flow_snapshots.step_inv)
  obtain events where "semantic_events_for_transition s' l = Ok events"
    using flow_rule_events inv trans
    by (fastforce simp: flow_trans_def unconditional_snapshot_def valid_snapshot_def)
  then show "commits sha256 s l s'"
    using inv inv' trans unconditional_skips
    by (auto simp: commits_def unconditional_snapshot_def valid_snapshot_def intro!: successor_accepted)
qed

text \<open>C7: For a definition that asks for approvals only on unconditional steps, the whole history of a run
  through any calls and restarts is a sequence of commits the store accepts.\<close>

theorem history_committed:
  assumes start: "FlowRun_start sha256 run_id d = Ok run" and d: "unconditional_approvals d"
    and trace: "run_trace sha256 run evs = (kinds, run')"
  shows "path (commits sha256) (run_snapshot run) kinds (run_snapshot run')"
proof -
  have inv: "run_inv sha256 run" using start_inv [OF start] .
  have "run_definition run = d" using FlowRun_start_Ok(2) [OF start] .
  then have "path (flow_trans sha256 d) (run_snapshot run) kinds (run_snapshot run')"
    and "unconditional_snapshot sha256 d (run_snapshot run)"
    using run_trace_path [OF inv trace] run_invD(1,2) [OF inv] d
    by (auto simp: unconditional_snapshot_def valid_snapshot_def)
  then show ?thesis by (rule committed_flow.path_accepted)
qed

lemma demo_unconditional: "unconditional_approvals demo_flow"
  by (simp add: unconditional_approvals_def demo_flow_def demo_with_def scan_step_def apply_step_def)

theorem history_committed_witness:
  "\<exists>kinds (run' :: FlowRun). kinds \<noteq> [] \<and> path (commits demo_hash) (run_snapshot demo_run) kinds (run_snapshot run')"
proof (rule exI [of _ "fst (run_trace demo_hash demo_run demo_events)"],
       rule exI [of _ "snd (run_trace demo_hash demo_run demo_events)"], rule conjI)
  show "fst (run_trace demo_hash demo_run demo_events) \<noteq> []"
    by (simp only: demo_kinds list.distinct not_False_eq_True)
  show "path (commits demo_hash) (run_snapshot demo_run)
      (fst (run_trace demo_hash demo_run demo_events))
      (run_snapshot (snd (run_trace demo_hash demo_run demo_events)))"
    by (rule history_committed [OF demo_run_start demo_unconditional prod.collapse [symmetric]])
qed

theorem checkpoints_accepted_witness:
  "\<exists>u run'. apply_op demo_hash (NextDecision 0) demo_run = (Ok u, run') \<and> up_transition u \<noteq> None \<and>
     validate_snapshot_successor demo_hash (Some (run_snapshot demo_run)) (up_snapshot u) (up_transition u) = Ok ()"
proof -
  obtain r run' where op: "apply_op demo_hash (NextDecision 0) demo_run = (r, run')" by fastforce
  have "\<not> is_err (fst (apply_op demo_hash (NextDecision 0) demo_run))
      \<and> emitted (fst (apply_op demo_hash (NextDecision 0) demo_run)) \<noteq> []" by code_simp
  then obtain u where u: "r = Ok u" "up_transition u \<noteq> None"
    using op by (cases r) (auto simp: emitted_def split: option.splits)
  have inv: "run_inv demo_hash demo_run" using flow_runs.reachable_inv [OF demo_run_reachable] .
  have "run_inv demo_hash run'" "up_snapshot u = run_snapshot run'" "run_definition run' = demo_flow"
    using apply_op_refines [OF inv, of "NextDecision 0"] refines_inv [OF inv, of r run'] op u(1)
    by (simp_all add: refines_def update_refines_def demo_run_def demo_start_def)
  then have skips: "approved_skips (up_snapshot u)"
    using unconditional_skips demo_unconditional run_invD(2) by metis
  have "approved_skips (run_snapshot demo_run)"
    by (simp add: approved_skips_def demo_run_def demo_start_def)
  with checkpoints_accepted [OF demo_run_reachable] op u skips show ?thesis by blast
qed

section \<open>A conditional step that needs approval\<close>

lemma is_err_unit: "is_err r \<longleftrightarrow> r \<noteq> Ok ()" for r :: "'e + unit"
  by (cases r) auto

lemma standalone_loop_refuses:
  "\<exists>s \<in> set ss. \<not> approval_shape_valid s \<Longrightarrow> is_err (standalone_loop sha256 index ids active ss)"
proof (induction ss arbitrary: index ids active)
  case (Cons s ss)
  show ?case
  proof (cases "approval_shape_valid s")
    case True
    with Cons.prems have "\<exists>s \<in> set ss. \<not> approval_shape_valid s" by auto
    note IH = Cons.IH [OF this]
    show ?thesis
      using IH by (auto simp: is_err_and_then is_err_unit)
  next
    case False
    then show ?thesis by simp
  qed
qed simp

lemma unapproved_skip_shape:
  "\<not> approved_skips sn \<Longrightarrow> \<exists>s \<in> set (sn_steps sn). \<not> approval_shape_valid s"
  by (force simp: approved_skips_def approval_shape_valid_def)

lemma standalone_refuses: "\<not> approved_skips sn \<Longrightarrow> is_err (validate_standalone_snapshot sha256 sn)"
  using standalone_loop_refuses [OF unapproved_skip_shape, of sn sha256 0 "[]" 0]
  by (auto simp: validate_standalone_snapshot_def is_err_and_then) (auto simp: is_err_def split: sum.splits)

text \<open>C9: The scheduler skips a step whose condition is false without asking for its approval first, but
  every check of the snapshot it hands out refuses a skipped step whose approval was never requested: the
  store does not commit the checkpoint and the run can not be resumed from it.\<close>

theorem unapproved_skip_refused:
  assumes "reachable_run sha256 run" and "apply_op sha256 (NextDecision now) run = (Ok u, run')"
    and "\<not> approved_skips (up_snapshot u)"
  shows "is_err (validate_snapshot_successor sha256 (Some (run_snapshot run)) (up_snapshot u) (up_transition u))
     \<and> is_err (FlowRun_resume sha256 (sn_run_id (up_snapshot u)) (run_definition run') (up_snapshot u))"
proof -
  have inv: "run_inv sha256 run" using flow_runs.reachable_inv [OF assms(1)] .
  have inv': "run_inv sha256 run'" and up: "up_snapshot u = run_snapshot run'"
    using apply_op_refines [OF inv, of "NextDecision now"] refines_inv [OF inv, of "Ok u" run'] assms(2)
    by (simp_all add: refines_def update_refines_def)
  note bad = unapproved_skip_shape [OF assms(3)]
  have "is_err (validate_standalone_snapshot sha256 (up_snapshot u))" by (rule standalone_refuses [OF assms(3)])
  then have refused: "is_err (validate_snapshot_successor sha256 (Some (run_snapshot run)) (up_snapshot u) (up_transition u))"
    by (simp add: validate_snapshot_successor_def is_err_and_then)
  have len: "length (run_steps run') = length (declared_steps run')" using run_invD(3) [OF inv'] .
  from bad up obtain i where i: "i < length (run_steps run')" "\<not> approval_shape_valid (run_steps run' ! i)"
    by (auto simp: in_set_conv_nth)
  have "for_each (bound_step_check sha256 (run_snapshot run')) 0 (zip (run_steps run') (declared_steps run')) \<noteq> Ok ()"
    using i len by (auto simp: for_each_Inr_iff bound_step_check_def)
  then have "validate_snapshot sha256 (run_definition run') (run_snapshot run') \<noteq> Ok ()"
    by (auto simp: validate_snapshot_def and_then_Inr_iff)
  moreover have "upgrade_snapshot (run_definition run') (run_snapshot run') = Ok (run_snapshot run')"
    using run_invD(2) [OF inv'] by (simp add: snap_inv_def upgrade_snapshot_def FLOW_SNAPSHOT_VERSION_def)
  ultimately have "is_err (FlowRun_resume sha256 (sn_run_id (up_snapshot u)) (run_definition run') (up_snapshot u))"
    using inv' unfolding up
    by (cases "validate_snapshot sha256 (run_definition run') (run_snapshot run')")
       (auto simp: FlowRun_resume_def run_inv_def)
  with refused show ?thesis by simp
qed

text \<open>\<open>conditional_flow\<close> after its observation succeeded: the approved change is skipped.\<close>

definition conditional_events :: "RunEvent list" where
  "conditional_events =
     [Call (NextDecision 0), Call (PrepareEffect scan_attempt 5),
      Call (RecordEffectResult scan_attempt ok_result 9)]"

definition skipping_run :: FlowRun where
  "skipping_run = snd (run_trace demo_hash conditional_run conditional_events)"

lemma skipping_step:
  "(case apply_op demo_hash (NextDecision 10) skipping_run of
      (Inr u, _) \<Rightarrow> emitted (Inr u) = [StepSkipped ''apply'']
        \<and> list_ex (\<lambda>s. ss_approval s = NotRequested \<and> ss_state s = StepState.Skipped) (sn_steps (up_snapshot u))
    | _ \<Rightarrow> False)"
  by code_simp

theorem unapproved_skip_refused_witness:
  "\<exists>u run'. apply_op demo_hash (NextDecision 10) skipping_run = (Ok u, run') \<and>
     is_err (validate_snapshot_successor demo_hash (Some (run_snapshot skipping_run)) (up_snapshot u) (up_transition u)) \<and>
     is_err (FlowRun_resume demo_hash (sn_run_id (up_snapshot u)) (run_definition run') (up_snapshot u))"
proof -
  obtain r run' where op: "apply_op demo_hash (NextDecision 10) skipping_run = (r, run')" by fastforce
  with skipping_step obtain u where u: "r = Ok u"
    and skipped: "list_ex (\<lambda>s. ss_approval s = NotRequested \<and> ss_state s = StepState.Skipped) (sn_steps (up_snapshot u))"
    by (auto split: sum.splits)
  have "reachable_run demo_hash conditional_run"
    by (rule reachable.initial) (use conditional_run_start in \<open>auto simp: run_init_def\<close>)
  then have reach: "reachable_run demo_hash skipping_run"
    unfolding skipping_run_def by (rule trace_reachable)
  have bad: "\<not> approved_skips (up_snapshot u)" using skipped by (auto simp: approved_skips_def list_ex_iff)
  from unapproved_skip_refused [OF reach _ bad, of 10 run'] op u show ?thesis by blast
qed

end
