(* ===== verification/Flow_Safety.thy ===== *)
theory Flow_Safety
  imports Flow_Checkpoints
begin

text \<open>
  What the flow engine guarantees about effects: an effect starts only when the exact
  approval was granted, its references are settled and its condition holds; results are
  recorded once; a finished run stays finished; retries back off as declared; the number
  of transitions of a run is bounded; and what a run reports can be read back.
\<close>

section \<open>Starting effects\<close>

lemma prepare_effect_Ok:
  assumes inv: "run_inv sha256 run" and prep: "prepare_effect effect now run = (Ok u, run')"
  obtains replay where "validate_effect run effect = Ok ()" "up_decision u = Execute effect replay"
    "replay \<Longrightarrow> ea_effect effect = ReadOnly"
    "\<not> replay \<Longrightarrow> ss_state (run_steps run ! ea_step_index effect) = AwaitingEffect (ea_attempt effect)"
    "replay \<Longrightarrow> \<exists>t. ss_state (run_steps run ! ea_step_index effect) = InFlight (ea_attempt effect) t"
proof -
  have ok: "validate_effect run effect = Ok ()"
    using prep by (cases "validate_effect run effect") (auto simp: prepare_effect_def)
  have seq: "ensure_can_change run = Ok ()"
    using prep ok by (cases "ensure_can_change run") (auto simp: prepare_effect_def)
  have decision: "up_decision u = dec" if "changed kind dec r = (Ok u, run')" for kind dec r
    using that by (auto simp: changed_def early_def Let_def split: sum.splits)
  show ?thesis
  proof (cases "ss_state (run_steps run ! ea_step_index effect)")
    case (AwaitingEffect a)
    with prep ok seq show ?thesis
      by (auto simp: prepare_effect_def Let_def split: if_splits intro!: that [of False] dest: decision)
  next
    case (InFlight a t)
    with prep ok seq show ?thesis
      by (auto simp: prepare_effect_def Let_def split: if_splits intro!: that [of True] dest: decision)
  qed (use prep ok seq in \<open>auto simp: prepare_effect_def Let_def\<close>)
qed

lemma effect_start_facts:
  assumes reach: "reachable_run sha256 run" and prep: "prepare_effect effect now run = (Ok u, run')"
    and d: "d = run_definition run" and i: "i = ea_step_index effect"
    and s: "s = run_steps run ! i" and declared: "declared = fd_steps d ! i"
  shows "i < length (fd_steps d) \<and> ea_step_id effect = fs_id declared
     \<and> references_terminal d (run_snapshot run) declared
     \<and> declared_condition_true d (run_snapshot run) (fs_condition declared)"
    and "1 \<le> unat (ea_attempt effect) \<and> ea_attempt effect \<le> max_attempts (fs_retry declared)"
    and "fs_approval declared = Required \<longrightarrow>
           ss_approval s = Granted (approval_token sha256 (ss_idempotency_identity s))"
    and "\<exists>replay. up_decision u = Execute effect replay
           \<and> (fs_effect declared = Stateful \<longrightarrow> fs_approval declared = Required \<and> \<not> replay)"
proof -
  have inv: "run_inv sha256 run" using flow_runs.reachable_inv [OF reach] .
  note snap = run_invD(2) [OF inv]
  obtain replay where ok: "validate_effect run effect = Ok ()" and dec: "up_decision u = Execute effect replay"
    and ro: "replay \<Longrightarrow> ea_effect effect = ReadOnly"
    and st: "ss_state s = AwaitingEffect (ea_attempt effect) \<or> (\<exists>t. ss_state s = InFlight (ea_attempt effect) t)"
    using prepare_effect_Ok [OF inv prep] s i by metis
  from inv have facts: "ea_step_index effect < length (run_steps run)"
      "ea_step_id effect = ss_id (run_steps run ! ea_step_index effect)"
      "ea_effect effect = fs_effect (declared_steps run ! ea_step_index effect)"
      "0 < ea_attempt effect"
      "ea_attempt effect \<le> max_attempts (fs_retry (declared_steps run ! ea_step_index effect))"
    by (cases rule: validate_effect_cases [where effect = effect]; use ok in simp)+
  have i_len: "i < length (run_steps run)" using facts(1) i by simp
  have step: "step_inv sha256 (sn_run_id (run_snapshot run)) (sn_definition_digest (run_snapshot run))
      (sn_cancel_requested (run_snapshot run)) declared s"
    using snap_invD(2) [OF snap i_len] s declared d by simp
  have "ready d (run_snapshot run) i \<and> condition_holds d (run_snapshot run) i"
    using snap_inv_focus(1,2) [OF snap i_len] st s d by blast
  moreover have "ea_step_id effect = fs_id declared" using facts(2) step s i by (simp add: step_inv_def)
  ultimately show "i < length (fd_steps d) \<and> ea_step_id effect = fs_id declared
     \<and> references_terminal d (run_snapshot run) declared
     \<and> declared_condition_true d (run_snapshot run) (fs_condition declared)"
    using i_len snap_invD(1) [OF snap] d declared by (simp add: ready_def condition_holds_def)
  show "1 \<le> unat (ea_attempt effect) \<and> ea_attempt effect \<le> max_attempts (fs_retry declared)"
    using facts(4,5) i d declared by (simp add: Suc_le_eq unat_gt_0 word_gt_0)
  have granted: "fs_approval declared = Required \<longrightarrow>
           ss_approval s = Granted (approval_token sha256 (ss_idempotency_identity s))"
  proof
    assume "fs_approval declared = Required"
    then have "ss_approval s \<noteq> NotRequired" using step by (auto simp: step_inv_def approval_matches_mode_def)
    moreover have "approval_ready (ss_approval s)"
      using approval_inv_active [OF snap_invD(3) [OF snap i_len]] st s by blast
    ultimately obtain token where "ss_approval s = Granted token"
      by (cases "ss_approval s") (auto simp: approval_ready_def is_granted_def)
    with token_exact [OF snap i_len, of token] s
    show "ss_approval s = Granted (approval_token sha256 (ss_idempotency_identity s))" by simp
  qed
  then show "fs_approval declared = Required \<longrightarrow>
           ss_approval s = Granted (approval_token sha256 (ss_idempotency_identity s))" .
  have "declared \<in> set (fd_steps d)"
    using i_len snap_invD(1) [OF snap] d declared by simp
  then have "fs_effect declared = Stateful \<Longrightarrow> fs_approval declared = Required"
    using FlowDefinition_validate_Ok(8) [OF run_invD(1) [OF inv]] d by blast
  then show "\<exists>replay. up_decision u = Execute effect replay
           \<and> (fs_effect declared = Stateful \<longrightarrow> fs_approval declared = Required \<and> \<not> replay)"
    using dec ro facts(3) i d declared by auto
qed

text \<open>C4: An effect is handed out for execution only for a declared step whose references are settled and
  whose condition holds, on an attempt within the declared maximum; a step that requires approval has the
  grant of its exact token; a stateful effect always has such a grant and is never a replay.\<close>

theorem effect_start_authorized:
  assumes "reachable_run sha256 run" and "prepare_effect effect now run = (Ok u, run')"
    and "d = run_definition run" and "i = ea_step_index effect"
    and "s = run_steps run ! i" and "declared = fd_steps d ! i"
  shows "i < length (fd_steps d) \<and> ea_step_id effect = fs_id declared
     \<and> references_terminal d (run_snapshot run) declared
     \<and> declared_condition_true d (run_snapshot run) (fs_condition declared)
     \<and> 1 \<le> unat (ea_attempt effect) \<and> ea_attempt effect \<le> max_attempts (fs_retry declared)
     \<and> (fs_approval declared = Required \<longrightarrow>
           ss_approval s = Granted (approval_token sha256 (ss_idempotency_identity s)))
     \<and> (\<exists>replay. up_decision u = Execute effect replay
           \<and> (fs_effect declared = Stateful \<longrightarrow> fs_approval declared = Required \<and> \<not> replay))"
  using effect_start_facts [OF assms] by blast

text \<open>The run of \<open>demo_flow\<close> that is about to start its approved change.\<close>

definition approved_run :: FlowRun where
  "approved_run = snd (run_trace demo_hash demo_run (take 6 demo_events))"

lemma approved_run_prepares:
  "\<not> is_err (fst (prepare_effect (apply_attempt 1) 12 approved_run))"
  by code_simp

theorem effect_start_authorized_witness:
  "\<exists>s. ss_approval s = Granted (approval_token demo_hash (ss_idempotency_identity s))
     \<and> s = run_steps approved_run ! 1"
proof -
  obtain r run' where prep: "prepare_effect (apply_attempt 1) 12 approved_run = (r, run')" by fastforce
  with approved_run_prepares obtain u where u: "r = Ok u" by (cases r) auto
  have reach: "reachable_run demo_hash approved_run"
    unfolding approved_run_def by (rule demo_reachable)
  have d: "run_definition approved_run = demo_flow"
    using run_trace_path [OF start_inv [OF demo_run_start] prod.collapse [symmetric], of "take 6 demo_events"]
    by (simp add: approved_run_def demo_run_def demo_start_def)
  have "ss_approval (run_steps approved_run ! ea_step_index (apply_attempt 1)) =
      Granted (approval_token demo_hash (ss_idempotency_identity (run_steps approved_run ! ea_step_index (apply_attempt 1))))"
    using effect_start_authorized [OF reach prep [unfolded u] refl refl refl refl] d
    by (simp add: apply_attempt_def demo_flow_def demo_with_def apply_step_def)
  then show ?thesis by (simp add: apply_attempt_def)
qed

section \<open>Finished runs\<close>

lemma flow_rule_not_terminal:
  assumes inv: "snap_inv sha256 d sn" and "flow_rule sha256 d sn kind sn'"
  shows "\<not> RunStatus_is_terminal (sn_status sn)"
  using assms(2)
  by cases (auto simp: in_flight_status_def pending_approval_step(6) [OF inv])

text \<open>C12: A finished run stays as it is: no call changes it or appends a transition.\<close>

theorem finished_runs_stay:
  assumes "reachable_run sha256 run" and "RunStatus_is_terminal (sn_status (run_snapshot run))"
    and "apply_op sha256 op run = (r, run')"
  shows "run' = run \<and> emitted r = []"
proof -
  have inv: "run_inv sha256 run" using flow_runs.reachable_inv [OF assms(1)] .
  have ref: "refines sha256 run (r, run')" using apply_op_refines [OF inv, of op] assms(3) by simp
  show ?thesis
  proof (cases r)
    case (Inl e)
    with ref show ?thesis by (simp add: refines_def emitted_def)
  next
    case (Inr u)
    with ref have up: "update_refines sha256 run u run'" by (simp add: refines_def)
    have "up_transition u = None"
      using up flow_rule_not_terminal [OF run_invD(2) [OF inv]] assms(2)
      by (auto simp: update_refines_def flow_trans_def split: option.splits)
    with up Inr show ?thesis by (simp add: update_refines_def emitted_def)
  qed
qed

definition cancelled_run :: FlowRun where
  "cancelled_run = snd (run_trace demo_hash demo_run [Call CancelRun])"

theorem finished_runs_stay_witness:
  "sn_status (run_snapshot cancelled_run) = RunStatus.Cancelled
   \<and> snd (apply_op demo_hash (NextDecision 3) cancelled_run) = cancelled_run"
proof -
  have st: "sn_status (run_snapshot cancelled_run) = RunStatus.Cancelled" by code_simp
  have "reachable_run demo_hash cancelled_run"
    unfolding cancelled_run_def by (rule demo_reachable)
  from finished_runs_stay [OF this _ prod.collapse [symmetric], of "NextDecision 3"] st show ?thesis
    by (simp del: apply_op.simps)
qed

section \<open>Results are recorded once\<close>

lemma recorded_attempt_found:
  assumes "results_inv s" and "\<lparr>rr_attempt = a, rr_result = r\<rparr> \<in> set (ss_results s)"
  shows "find (\<lambda>x. rr_attempt x = a) (ss_results s) = Some \<lparr>rr_attempt = a, rr_result = r\<rparr>"
proof -
  obtain k where k: "k < length (ss_results s)" "ss_results s ! k = \<lparr>rr_attempt = a, rr_result = r\<rparr>"
    using assms(2) by (auto simp: in_set_conv_nth)
  have "rr_attempt (ss_results s ! j) \<noteq> a" if "j < k" for j
  proof
    assume "rr_attempt (ss_results s ! j) = a"
    then have "unat (rr_attempt (ss_results s ! j)) = unat (rr_attempt (ss_results s ! k))" using k by simp
    then show False using assms(1) k(1) that by (simp add: results_inv_def)
  qed
  then have "position (\<lambda>x. rr_attempt x = a) (ss_results s) = Some k"
    using k by (simp add: position_Some_iff)
  then show ?thesis using k by (simp add: find_position)
qed

lemma settled_decision:
  assumes inv: "run_inv sha256 run" and i: "i < length (run_steps run)" and rs: "ss_results (run_steps run ! i) \<noteq> []"
  shows "\<exists>decision. decision_for_current_state run i = Ok decision"
proof -
  note snap = run_invD(2) [OF inv]
  have hist: "history_inv (ss_state (run_steps run ! i)) (max_attempts (fs_retry (declared_steps run ! i)))
      (sn_cancel_requested (run_snapshot run)) (ss_results (run_steps run ! i))"
    using step_inv_history [OF snap_invD(2) [OF snap i]] .
  have "sn_status (run_snapshot run) = RunStatus.Blocked"
    if "ss_state (run_steps run ! i) = StepState.Blocked"
    using active_status(5) [OF snap_invD(5) [OF snap] i snap_invD(3) [OF snap i] that] .
  then show ?thesis
    using hist rs effect_attempt_eq [OF run_invD(3) [OF inv] i]
    by (cases "ss_state (run_steps run ! i)") (auto simp: decision_for_current_state_def)
qed

text \<open>C11: Reporting the recorded result of an attempt again is answered without any change; reporting a
  different result for it is refused as a conflict.\<close>

theorem duplicate_results:
  assumes reach: "reachable_run sha256 run" and ok: "validate_effect run effect = Ok ()"
    and res: "EffectResult_validate result ''effect_result'' = Ok ()"
    and stored: "\<lparr>rr_attempt = ea_attempt effect, rr_result = r\<rparr> \<in> set (ss_results (run_steps run ! ea_step_index effect))"
  shows "if result = r
     then \<exists>decision. record_effect_result effect result now run = (Ok (observed decision run), run)
     else record_effect_result effect result now run =
       (Err (ConflictingEffectResult (ea_step_id effect) (ea_attempt effect)), run)"
proof -
  have inv: "run_inv sha256 run" using flow_runs.reachable_inv [OF reach] .
  have i: "ea_step_index effect < length (run_steps run)"
    using ok by (auto simp: validate_effect_def get_opt_def split: if_splits)
  have "results_inv (run_steps run ! ea_step_index effect)"
    using snap_invD(2) [OF run_invD(2) [OF inv] i] by (simp add: step_inv_def)
  note found = recorded_attempt_found [OF this stored]
  obtain decision where "decision_for_current_state run (ea_step_index effect) = Ok decision"
    using settled_decision [OF inv i] stored by fastforce
  with ok found show ?thesis
    unfolding record_effect_result_def res early_simps by (auto simp: Let_def observe_def)
qed

definition scanned_run :: FlowRun where
  "scanned_run = snd (run_trace demo_hash demo_run (take 3 demo_events))"

lemma scanned_run_facts:
  "validate_effect scanned_run scan_attempt = Ok ()"
  "EffectResult_validate retryable_result ''effect_result'' = Ok ()"
  "ss_results (run_steps scanned_run ! 0) = [\<lparr>rr_attempt = 1, rr_result = ok_result\<rparr>]"
  "ok_result \<noteq> retryable_result"
  by code_simp+

theorem duplicate_results_witness:
  "record_effect_result scan_attempt retryable_result 20 scanned_run =
     (Err (ConflictingEffectResult ''scan'' 1), scanned_run)"
proof -
  have reach: "reachable_run demo_hash scanned_run"
    unfolding scanned_run_def by (rule demo_reachable)
  have "\<lparr>rr_attempt = ea_attempt scan_attempt, rr_result = ok_result\<rparr> \<in>
      set (ss_results (run_steps scanned_run ! ea_step_index scan_attempt))"
    by (simp add: scan_attempt_def scanned_run_facts(3))
  from duplicate_results [OF reach scanned_run_facts(1,2) this] scanned_run_facts(4)
  show ?thesis by (simp add: scan_attempt_def)
qed

section \<open>Retry backoff\<close>

text \<open>C15: With a validated retry policy the delay before the next attempt is the initial backoff doubled
  once per earlier failure, capped at the maximum; no bit is lost in the shift.\<close>

theorem retry_backoff_exact:
  assumes policy: "RetryPolicy_validate p field = Ok ()" and a: "1 \<le> a" "a < max_attempts p"
  shows "unat (retry_backoff_ms (initial_backoff_ms p) (max_backoff_ms p) a) =
     min (unat (initial_backoff_ms p) * 2 ^ (unat a - 1)) (unat (max_backoff_ms p))"
proof -
  note bounds = RetryPolicy_validate_Ok [OF policy]
  have "1 < max_attempts p" using a by (simp add: word_less_nat_alt word_le_nat_alt)
  then have init: "unat (initial_backoff_ms p) \<le> 60000"
    using bounds(3) by (simp add: word_le_nat_alt MAX_INITIAL_BACKOFF_MS_def)
  have "unat a < 5" using a(2) bounds(2) by (simp add: word_less_nat_alt word_le_nat_alt MAX_RETRY_ATTEMPTS_def)
  then have exp: "unat a - 1 \<le> 3" by simp
  have "(2 :: nat) ^ (unat a - 1) \<le> 2 ^ 3" using exp by (intro power_increasing) simp_all
  with init have "unat (initial_backoff_ms p) * 2 ^ (unat a - 1) \<le> 60000 * 2 ^ 3"
    by (intro mult_le_mono) simp_all
  then have small: "unat (initial_backoff_ms p) * 2 ^ (unat a - 1) < 2 ^ 64" by simp
  have shift: "unat (saturating_sub a 1) = unat a - 1"
    using a(1) by (simp add: saturating_sub_def unat_sub not_less)
  have "unat (push_bit (unat a - 1) (initial_backoff_ms p)) = unat (initial_backoff_ms p) * 2 ^ (unat a - 1)"
    unfolding unsigned_push_bit_eq using small by (simp add: push_bit_eq_mult take_bit_nat_eq_self)
  then show ?thesis
    using exp shift by (simp add: retry_backoff_ms_def checked_shl_def Let_def min_def word_le_nat_alt)
qed

theorem retry_backoff_exact_witness:
  "RetryPolicy_validate two_attempts ''retry'' = Ok () \<and>
   unat (retry_backoff_ms (initial_backoff_ms two_attempts) (max_backoff_ms two_attempts) 1) = 100"
proof -
  have ok: "RetryPolicy_validate two_attempts ''retry'' = Ok ()" by code_simp
  have "(1 :: u8) \<le> 1" "1 < max_attempts two_attempts" by code_simp+
  from retry_backoff_exact [OF ok this] ok show ?thesis by (simp add: two_attempts_def)
qed

end
