(* ===== verification/Flow_Bounds.thy ===== *)
theory Flow_Bounds
  imports Flow_Safety
begin

text \<open>
  Bounds of a run and of its definition: the cycle check accepts exactly the acyclic
  definitions, and the number of transitions of a run is bounded by its definition and
  the external reports that ask for a repetition.
\<close>

section \<open>The cycle check\<close>

text \<open>C14: When every reference names a step, the depth-first check accepts a definition exactly when the
  graph of dependencies and conditions has no cycle.\<close>

theorem acyclic_check_exact:
  assumes "references_resolve steps idx"
  shows "validate_acyclic steps idx = Ok () \<longleftrightarrow> acyclic (reference_edges steps idx)"
  using assms validate_acyclic_wf validate_acyclic_complete wf_acyclic by blast

theorem acyclic_check_exact_witness:
  "references_resolve (fd_steps demo_flow) (step_index (fd_steps demo_flow))
   \<and> (validate_acyclic (fd_steps demo_flow) (step_index (fd_steps demo_flow)) = Ok () \<longleftrightarrow>
      acyclic (reference_edges (fd_steps demo_flow) (step_index (fd_steps demo_flow))))"
  using acyclic_check_exact FlowDefinition_validate_Ok(5) [OF demo_flow_valid] by blast

section \<open>The number of transitions\<close>

text \<open>What a step can still do: three transitions per attempt left, and its approval.\<close>

fun step_weight :: "nat \<Rightarrow> StepState \<Rightarrow> StepApprovalState \<Rightarrow> nat" where
  "step_weight m StepState.Pending NotRequested = 3 * m + 3"
| "step_weight m StepState.Pending (StepApprovalState.Pending _) = 3 * m + 2"
| "step_weight m StepState.Pending _ = 3 * m + 1"
| "step_weight m (StepState.WaitingRetry a _) _ = 3 * (m - unat a) + 3"
| "step_weight m (AwaitingEffect a) _ = 3 * (m - unat a) + 2"
| "step_weight m (InFlight a _) _ = 3 * (m - unat a) + 1"
| "step_weight m _ _ = 0"

definition weight_at :: "FlowDefinition \<Rightarrow> FlowSnapshot \<Rightarrow> nat \<Rightarrow> nat" where
  "weight_at d sn i =
     step_weight (unat (max_attempts (fs_retry (fd_steps d ! i))))
       (ss_state (sn_steps sn ! i)) (ss_approval (sn_steps sn ! i))"

definition steps_weight :: "FlowDefinition \<Rightarrow> FlowSnapshot \<Rightarrow> nat" where
  "steps_weight d sn = (\<Sum>i < length (sn_steps sn). weight_at d sn i)"

definition run_potential :: "FlowDefinition \<Rightarrow> FlowSnapshot \<Rightarrow> nat" where
  "run_potential d sn =
     steps_weight d sn + (if sn_cancel_requested sn then 0 else 1)
     + (if RunStatus_is_terminal (sn_status sn) then 0 else 1)"

text \<open>What an external report puts back: a stateful effect reported as not applied, a read-only replay.\<close>

fun repeat_gain :: "TransitionKind \<Rightarrow> nat" where
  "repeat_gain (ReconciledNotApplied _ _) = 2"
| "repeat_gain (EffectStarted _ _ replay) = (if replay then 1 else 0)"
| "repeat_gain _ = 0"

lemma weight_changed:
  assumes "i < length (sn_steps sn)" and "sn_steps sn' = (sn_steps sn)[i := s']"
    and "step_weight (unat (max_attempts (fs_retry (fd_steps d ! i)))) (ss_state s') (ss_approval s') + k
       \<le> weight_at d sn i + g"
  shows "steps_weight d sn' + k \<le> steps_weight d sn + g"
proof -
  let ?n = "length (sn_steps sn)"
  have split: "(\<Sum>j < ?n. f j) = f i + (\<Sum>j \<in> {..<?n} - {i}. f j)" for f :: "nat \<Rightarrow> nat"
    using assms(1) by (simp add: sum.remove)
  have "(\<Sum>j \<in> {..<?n} - {i}. weight_at d sn' j) = (\<Sum>j \<in> {..<?n} - {i}. weight_at d sn j)"
    using assms(2) by (intro sum.cong) (auto simp: weight_at_def)
  moreover have "weight_at d sn' i + k \<le> weight_at d sn i + g"
    using assms by (simp add: weight_at_def)
  ultimately show ?thesis using assms(2) by (simp add: steps_weight_def split)
qed

lemma weight_mono:
  assumes "length (sn_steps sn') = length (sn_steps sn)"
    and "\<And>i. i < length (sn_steps sn) \<Longrightarrow> weight_at d sn' i \<le> weight_at d sn i"
  shows "steps_weight d sn' \<le> steps_weight d sn"
  unfolding steps_weight_def assms(1) by (rule sum_mono) (use assms(2) in auto)

lemma weight_terminal: "StepState_is_terminal st \<Longrightarrow> step_weight m st a = 0"
  by (cases st) auto

lemma attempt_facts:
  assumes "snap_inv sha256 d sn" and "i < length (sn_steps sn)"
  shows "ss_state (sn_steps sn ! i) = AwaitingEffect a \<Longrightarrow> unat a \<le> unat (max_attempts (fs_retry (fd_steps d ! i)))"
    and "ss_state (sn_steps sn ! i) = InFlight a t \<Longrightarrow> unat a \<le> unat (max_attempts (fs_retry (fd_steps d ! i)))"
    and "ss_state (sn_steps sn ! i) = StepState.Pending \<Longrightarrow> FlowDefinition_validate d = Ok () \<Longrightarrow>
      0 < unat (max_attempts (fs_retry (fd_steps d ! i)))"
proof -
  note inv = snap_invD(2) [OF assms] snap_invD(1) [OF assms(1)]
  show "ss_state (sn_steps sn ! i) = AwaitingEffect a \<Longrightarrow> unat a \<le> unat (max_attempts (fs_retry (fd_steps d ! i)))"
    "ss_state (sn_steps sn ! i) = InFlight a t \<Longrightarrow> unat a \<le> unat (max_attempts (fs_retry (fd_steps d ! i)))"
    using inv(1) by (auto simp: step_inv_def word_le_nat_alt)
  assume "FlowDefinition_validate d = Ok ()"
  from FlowDefinition_validate_Ok(7) [OF this, of "fd_steps d ! i"] assms(2) inv(2)
  show "0 < unat (max_attempts (fs_retry (fd_steps d ! i)))"
    using RetryPolicy_validate_Ok(1) by (force simp: word_less_nat_alt)
qed

lemma pending_weight: "3 * m + 1 \<le> step_weight m StepState.Pending ap"
  by (cases ap) auto

lemma pending_weight_pos: "Suc 0 \<le> step_weight m StepState.Pending ap"
  using pending_weight [of m ap] by linarith

lemma potential_changed:
  assumes "i < length (sn_steps sn)" and "sn_steps sn' = (sn_steps sn)[i := s']"
    and "sn_cancel_requested sn' = sn_cancel_requested sn" and "\<not> RunStatus_is_terminal (sn_status sn)"
    and "step_weight (unat (max_attempts (fs_retry (fd_steps d ! i)))) (ss_state s') (ss_approval s') + 1
       \<le> weight_at d sn i + g"
  shows "run_potential d sn' + 1 \<le> run_potential d sn + g"
  using weight_changed [OF assms(1,2,5)] assms(3,4) by (simp add: run_potential_def)

lemma cancel_weight: "steps_weight d (sn\<lparr>sn_steps := map cancel_step (sn_steps sn), sn_cancel_requested := c, sn_status := st\<rparr>)
    \<le> steps_weight d sn"
proof (rule weight_mono)
  fix i assume "i < length (sn_steps sn)"
  then show "weight_at d (sn\<lparr>sn_steps := map cancel_step (sn_steps sn), sn_cancel_requested := c, sn_status := st\<rparr>) i
      \<le> weight_at d sn i"
    by (cases "StepState_is_terminal (ss_state (sn_steps sn ! i))")
      (simp_all add: weight_at_def weight_terminal)
qed simp

lemma flow_rule_potential:
  assumes valid: "FlowDefinition_validate d = Ok ()" and inv: "snap_inv sha256 d sn"
    and rule: "flow_rule sha256 d sn kind sn'"
  shows "run_potential d sn' + 1 \<le> run_potential d sn + repeat_gain kind"
proof -
  have live: "\<not> RunStatus_is_terminal (sn_status sn)" using flow_rule_not_terminal [OF inv rule] .
  note changed = potential_changed [OF _ _ _ live]
  note in_flight = attempt_facts(2) [OF inv] and weights = set_defs weight_at_def push_result_def block_step_def
  from rule show ?thesis
  proof cases
    case (skip i)
    then show ?thesis by (intro changed) (auto simp: weights pending_weight_pos)
  next
    case (request i)
    then show ?thesis by (intro changed) (auto simp: weights)
  next
    case (grant i token)
    then have "ss_state (sn_steps sn ! i) = StepState.Pending"
      using snap_invD(3) [OF inv, of i] by (simp add: approval_inv_def)
    with grant show ?thesis by (intro changed) (auto simp: weights)
  next
    case (deny i token)
    then have "ss_state (sn_steps sn ! i) = StepState.Pending"
      using snap_invD(3) [OF inv, of i] by (simp add: approval_inv_def)
    with deny show ?thesis by (intro changed) (auto simp: weights pending_weight_pos)
  next
    case (evaluate i)
    have "0 < unat (max_attempts (fs_retry (fd_steps d ! i)))"
      using attempt_facts(3) [OF inv evaluate(4,5) valid] .
    then have "3 * (unat (max_attempts (fs_retry (fd_steps d ! i))) - 1) + 2 + 1
        \<le> step_weight (unat (max_attempts (fs_retry (fd_steps d ! i)))) StepState.Pending (ss_approval (sn_steps sn ! i))"
      using pending_weight [of "unat (max_attempts (fs_retry (fd_steps d ! i)))" "ss_approval (sn_steps sn ! i)"] by linarith
    with evaluate show ?thesis by (intro changed) (auto simp: weights)
  next
    case (retry_due i a t)
    then show ?thesis by (intro changed) (auto simp: weights)
  next
    case (unauthorized i a)
    then show ?thesis by (intro changed) (auto simp: weights)
  next
    case (unauthorized_replay i a t)
    then show ?thesis by (intro changed) (auto simp: weights)
  next
    case (start i a t)
    then show ?thesis by (intro changed) (auto simp: weights)
  next
    case (replay i a t)
    then show ?thesis by simp
  next
    case (succeed i a t r)
    then show ?thesis by (intro changed) (auto simp: weights)
  next
    case (fail i a t r retryable)
    then show ?thesis by (intro changed) (auto simp: weights)
  next
    case (exhaust i a t r)
    then show ?thesis by (intro changed) (auto simp: weights)
  next
    case (retry i a t r now t')
    have "unat (a + 1) = unat a + 1" "unat a < unat (max_attempts (fs_retry (fd_steps d ! i)))"
      using word_succ_bound(1) [OF retry(8)] retry(8) by (simp_all add: word_less_nat_alt)
    with retry show ?thesis by (intro changed) (auto simp: weights)
  next
    case (reconciled i a t)
    then show ?thesis by (intro changed) (auto simp: weights)
  next
    case (unknown i a t report)
    then show ?thesis by (intro changed) (auto simp: weights)
  next
    case (request_cancel i)
    then have "\<not> sn_cancel_requested sn" using snap_invD(5) [OF inv] by simp
    with request_cancel live show ?thesis by (simp add: run_potential_def steps_weight_def weight_at_def)
  next
    case solve
    with live show ?thesis by (simp add: run_potential_def steps_weight_def weight_at_def)
  next
    case unresolve
    with live show ?thesis by (simp add: run_potential_def steps_weight_def weight_at_def)
  next
    case cancelled
    have "steps_weight d sn' \<le> steps_weight d sn" using cancel_weight cancelled by simp
    with cancelled live show ?thesis by (simp add: run_potential_def)
  qed
qed

interpretation flow_bounds: bounded_system "valid_snapshot sha256 d" "flow_trans sha256 d"
    "valid_snapshot sha256 d" "run_potential d" repeat_gain for sha256 d
proof unfold_locales
  fix s l s'
  assume "valid_snapshot sha256 d s" "flow_trans sha256 d s l s'"
  then obtain s1 where "run_potential d s1 + 1 \<le> run_potential d s + repeat_gain l" "s' = bump s1"
    by (auto simp: valid_snapshot_def flow_trans_def dest: flow_rule_potential)
  then show "run_potential d s' + 1 \<le> run_potential d s + repeat_gain l"
    by (simp add: run_potential_def steps_weight_def weight_at_def)
qed

lemma start_potential:
  assumes "FlowRun_start sha256 run_id d = Ok run"
  shows "run_potential d (run_snapshot run) \<le> 18 * length (fd_steps d) + 2"
proof -
  note facts = FlowRun_start_Ok [OF assms]
  have sn: "sn_steps (run_snapshot run) =
      map (initial_step sha256 run_id (sn_definition_digest (run_snapshot run))) (fd_steps d)"
    using facts(5) by auto
  have "weight_at d (run_snapshot run) i \<le> 18" if i: "i < length (fd_steps d)" for i
  proof -
    have "unat (max_attempts (fs_retry (fd_steps d ! i))) \<le> 5"
      using FlowDefinition_validate_Ok(7) [OF facts(1), of "fd_steps d ! i"] i RetryPolicy_validate_Ok(2)
      by (force simp: word_le_nat_alt MAX_RETRY_ATTEMPTS_def)
    with i show ?thesis by (simp add: weight_at_def sn initial_step_def split: ApprovalMode.splits)
  qed
  then have "(\<Sum>i < length (fd_steps d). weight_at d (run_snapshot run) i) \<le> (\<Sum>i < length (fd_steps d). 18)"
    by (intro sum_mono) simp
  then show ?thesis by (simp add: run_potential_def steps_weight_def sn)
qed



end
