(* ===== verification/Redaction.thy ===== *)
theory Redaction
  imports Pam_Text
begin

text \<open>
  Redaction of audit detail (\<^verbatim>\<open>pam_policy/src/redaction.rs\<close>): secret-shaped ranges of the
  text are marked by eight scanners, merged and replaced by a marker; the result is made
  safe for a terminal and bounded.  Byte positions (\<^verbatim>\<open>usize\<close>) are \<open>nat\<close>; every loop of the
  source is a function whose termination is proved.
\<close>

section \<open>Limits and bytes\<close>

definition MAX_AUDIT_DETAIL_INPUT_BYTES :: nat where
  "MAX_AUDIT_DETAIL_INPUT_BYTES = 1024 * 1024"

definition MAX_AUDIT_DETAIL_OUTPUT_BYTES :: nat where
  "MAX_AUDIT_DETAIL_OUTPUT_BYTES = 16 * 1024"

definition REDACTION_MARKER :: string where
  "REDACTION_MARKER = ''[REDACTED]''"

definition TRUNCATION_MARKER :: string where
  "TRUNCATION_MARKER = ''[TRUNCATED]''"

abbreviation backslash :: char where
  "backslash \<equiv> CHR 0x5C"

abbreviation double_quote :: char where
  "double_quote \<equiv> CHR 0x22"

abbreviation single_quote :: char where
  "single_quote \<equiv> CHR 0x27"

definition is_line_break :: "char \<Rightarrow> bool" where
  "is_line_break c \<longleftrightarrow> c = CHR 0x0D \<or> c = CHR 0x0A"

definition is_blank :: "char \<Rightarrow> bool" where
  "is_blank c \<longleftrightarrow> c = CHR '' '' \<or> c = CHR 0x09"

definition is_key_byte :: "char \<Rightarrow> bool" where
  "is_key_byte c \<longleftrightarrow> is_ascii_alphanumeric c \<or> c \<in> set ''_-.''"

definition is_encoded_key_byte :: "char \<Rightarrow> bool" where
  "is_encoded_key_byte c \<longleftrightarrow> is_key_byte c \<or> c = CHR ''%''"

definition is_jwt_byte :: "char \<Rightarrow> bool" where
  "is_jwt_byte c \<longleftrightarrow> is_ascii_alphanumeric c \<or> c \<in> set ''-_.''"

text \<open>\<^verbatim>\<open>(start..end).find(|index| p(bytes[*index])).unwrap_or(end)\<close>\<close>

definition scan_until :: "(nat \<Rightarrow> bool) \<Rightarrow> nat \<Rightarrow> nat \<Rightarrow> nat" where
  "scan_until p start end_pos =
     (case find p [start..<end_pos] of Some i \<Rightarrow> i | None \<Rightarrow> end_pos)"

text \<open>\<^verbatim>\<open>while cursor < end && p(bytes[cursor]) { cursor += 1; }\<close>\<close>

function skip_while :: "(nat \<Rightarrow> bool) \<Rightarrow> nat \<Rightarrow> nat \<Rightarrow> nat" where
  "skip_while p cursor end_pos =
     (if cursor < end_pos \<and> p cursor then skip_while p (cursor + 1) end_pos else cursor)"
  by pat_completeness auto
termination skip_while
  by (relation "measure (\<lambda>(p, cursor, end_pos). end_pos - cursor)") auto

declare skip_while.simps [simp del]

lemma skip_while_ge: "cursor \<le> skip_while p cursor end_pos"
  by (induction p cursor end_pos rule: skip_while.induct) (subst skip_while.simps, auto)

lemma skip_while_gt: "cursor < end_pos \<Longrightarrow> p cursor \<Longrightarrow> cursor < skip_while p cursor end_pos"
  using skip_while_ge [of "cursor + 1" p end_pos] by (subst skip_while.simps) auto

definition skip_ascii_space :: "string \<Rightarrow> nat \<Rightarrow> nat \<Rightarrow> nat" where
  "skip_ascii_space bytes cursor end_pos = skip_while (\<lambda>i. is_blank (bytes ! i)) cursor end_pos"

definition trim_ascii_space :: "string \<Rightarrow> string" where
  "trim_ascii_space bytes = rev (dropWhile is_blank (rev (dropWhile is_blank bytes)))"

definition scan_line_end :: "string \<Rightarrow> nat \<Rightarrow> nat" where
  "scan_line_end bytes start = scan_until (\<lambda>i. is_line_break (bytes ! i)) start (length bytes)"

definition scan_credential_end :: "string \<Rightarrow> nat \<Rightarrow> nat" where
  "scan_credential_end bytes start =
     scan_until (\<lambda>i. is_ascii_whitespace (bytes ! i) \<or> is_ascii_control (bytes ! i)
                   \<or> bytes ! i \<in> {CHR '','', CHR '';'', double_quote, single_quote}) start (length bytes)"

function closing_quote_from :: "string \<Rightarrow> nat \<Rightarrow> char \<Rightarrow> nat option" where
  "closing_quote_from bytes cursor quote =
     (if cursor < length bytes
      then if bytes ! cursor = backslash then closing_quote_from bytes (min (cursor + 2) (length bytes)) quote
           else if bytes ! cursor = quote then Some cursor
           else closing_quote_from bytes (cursor + 1) quote
      else None)"
  by pat_completeness auto
termination closing_quote_from
  by (relation "measure (\<lambda>(bytes, cursor, quote). length bytes - cursor)") auto

declare closing_quote_from.simps [simp del]

definition closing_quote :: "string \<Rightarrow> nat \<Rightarrow> char \<Rightarrow> nat option" where
  "closing_quote bytes start quote = closing_quote_from bytes (start + 1) quote"

definition is_quote :: "char \<Rightarrow> bool" where
  "is_quote c \<longleftrightarrow> c = double_quote \<or> c = single_quote"

text \<open>\<^verbatim>\<open>closing_quote(...).map_or(default, |end| end + 1)\<close>\<close>

definition after_quote :: "nat \<Rightarrow> nat option \<Rightarrow> nat" where
  "after_quote otherwise end_pos = (case end_pos of Some e \<Rightarrow> e + 1 | None \<Rightarrow> otherwise)"

definition scan_query_value_end :: "string \<Rightarrow> nat \<Rightarrow> nat" where
  "scan_query_value_end bytes start =
     (if start < length bytes \<and> is_quote (bytes ! start)
      then after_quote (length bytes) (closing_quote bytes start (bytes ! start))
      else scan_until (\<lambda>i. bytes ! i \<in> {CHR ''&'', CHR '';'', CHR ''#'', double_quote, single_quote}
             \<or> is_ascii_whitespace (bytes ! i) \<or> is_ascii_control (bytes ! i)) start (length bytes))"

definition is_escaped_control_start :: "string \<Rightarrow> nat \<Rightarrow> bool" where
  "is_escaped_control_start bytes index \<longleftrightarrow>
     get_opt bytes index = Some backslash \<and>
     (case get_opt bytes (index + 1) of None \<Rightarrow> False | Some c \<Rightarrow> c \<in> set ''nrtu'')"

definition scan_environment_value_end :: "string \<Rightarrow> nat \<Rightarrow> nat \<Rightarrow> nat" where
  "scan_environment_value_end bytes start line_end =
     (if start < length bytes \<and> is_quote (bytes ! start)
      then (case closing_quote bytes start (bytes ! start) of
              None \<Rightarrow> line_end | Some e \<Rightarrow> min (e + 1) line_end)
      else scan_until (\<lambda>i. is_ascii_whitespace (bytes ! i) \<or> bytes ! i = CHR '';''
             \<or> is_escaped_control_start bytes i) start line_end)"

function skip_json_whitespace :: "string \<Rightarrow> nat \<Rightarrow> nat \<Rightarrow> nat" where
  "skip_json_whitespace bytes cursor end_pos =
     (if cursor < end_pos
      then if is_blank (bytes ! cursor) \<or> is_line_break (bytes ! cursor)
           then skip_json_whitespace bytes (cursor + 1) end_pos
           else if bytes ! cursor = backslash \<and>
             (case get_opt bytes (cursor + 1) of None \<Rightarrow> False | Some c \<Rightarrow> c \<in> set ''trn'')
           then skip_json_whitespace bytes (cursor + 2) end_pos
           else cursor
      else cursor)"
  by pat_completeness auto
termination skip_json_whitespace
  by (relation "measure (\<lambda>(bytes, cursor, end_pos). end_pos - cursor)") auto

declare skip_json_whitespace.simps [simp del]

text \<open>The nesting loop of \<open>json_value_end\<close>.\<close>

lemma closing_quote_from_bounds:
  "closing_quote_from bytes cursor quote = Some e \<Longrightarrow> cursor \<le> e \<and> e < length bytes"
proof (induction bytes cursor quote rule: closing_quote_from.induct)
  case (1 bytes cursor quote)
  from 1(3) have "cursor < length bytes" by (subst (asm) closing_quote_from.simps) (auto split: if_splits)
  with 1 show ?case
    by (subst (asm) (3) closing_quote_from.simps) (auto split: if_splits)
qed

lemma closing_quote_bounds: "closing_quote bytes start quote = Some e \<Longrightarrow> start < e \<and> e < length bytes"
  using closing_quote_from_bounds [of bytes "start + 1" quote e] by (simp add: closing_quote_def)

function json_nesting :: "string \<Rightarrow> nat \<Rightarrow> nat \<Rightarrow> nat" where
  "json_nesting bytes depth cursor =
     (if cursor < length bytes
      then if is_quote (bytes ! cursor)
           then json_nesting bytes depth
                  (after_quote (length bytes) (closing_quote bytes cursor (bytes ! cursor)))
           else if bytes ! cursor \<in> {CHR 0x7B, CHR ''[''} then json_nesting bytes (depth + 1) (cursor + 1)
           else if bytes ! cursor \<in> {CHR 0x7D, CHR '']''}
           then if depth - 1 = 0 then cursor + 1 else json_nesting bytes (depth - 1) (cursor + 1)
           else json_nesting bytes depth (cursor + 1)
      else length bytes)"
  by pat_completeness auto
termination json_nesting
  by (relation "measure (\<lambda>(bytes, depth, cursor). length bytes - cursor)")
    (auto simp: after_quote_def dest: closing_quote_bounds split: option.splits)

declare json_nesting.simps [simp del]

definition json_value_end :: "string \<Rightarrow> nat \<Rightarrow> nat" where
  "json_value_end bytes start =
     (case get_opt bytes start of
        None \<Rightarrow> start
      | Some first \<Rightarrow>
          if is_quote first then after_quote (length bytes) (closing_quote bytes start first)
          else if first \<notin> {CHR 0x7B, CHR ''[''}
          then scan_until (\<lambda>i. bytes ! i \<in> {CHR '','', CHR 0x7D, CHR '']''} \<or> is_line_break (bytes ! i))
                 start (length bytes)
          else json_nesting bytes 0 start)"

section \<open>Keys\<close>

definition hex_value :: "char \<Rightarrow> nat option" where
  "hex_value c =
     (if is_ascii_digit c then Some (byte c - 48)
      else if 97 \<le> byte c \<and> byte c \<le> 102 then Some (byte c - 97 + 10)
      else if 65 \<le> byte c \<and> byte c \<le> 70 then Some (byte c - 65 + 10)
      else None)"

text \<open>The checked \<^verbatim>\<open>u8\<close> operations can not overflow: two hexadecimal digits are at most 255.\<close>

definition decode_hex_pair :: "char \<Rightarrow> char \<Rightarrow> char option" where
  "decode_hex_pair high low =
     (case (hex_value high, hex_value low) of
        (Some h, Some l) \<Rightarrow> if h * 16 + l < 256 then Some (char_of (h * 16 + l)) else None
      | _ \<Rightarrow> None)"

definition decode_ascii_unicode_escape :: "string \<Rightarrow> char option" where
  "decode_ascii_unicode_escape bytes =
     (if length bytes \<noteq> 4 \<or> bytes ! 0 \<noteq> CHR ''0'' \<or> bytes ! 1 \<noteq> CHR ''0'' then None
      else decode_hex_pair (bytes ! 2) (bytes ! 3))"

text \<open>What one decoded byte adds to the normalized key, or the rejection of the key.\<close>

definition push_normalized_byte :: "char \<Rightarrow> string option" where
  "push_normalized_byte c =
     (if is_ascii_alphanumeric c then Some [to_ascii_lowercase c]
      else if c \<in> set ''_-.'' then Some []
      else None)"

text \<open>The loop of \<open>normalized_key\<close>, on the bytes from the cursor on.\<close>

function normalize_loop :: "string \<Rightarrow> string option" where
  "normalize_loop [] = Some []"
| "normalize_loop (c # cs) =
     (if is_ascii_alphanumeric c then map_option ((#) (to_ascii_lowercase c)) (normalize_loop cs)
      else if c \<in> set ''_-.'' then normalize_loop cs
      else if c = CHR ''%'' \<and> 2 \<le> length cs
      then (case Option.bind (decode_hex_pair (cs ! 0) (cs ! 1)) push_normalized_byte of
              None \<Rightarrow> None
            | Some out \<Rightarrow> map_option ((@) out) (normalize_loop (drop 2 cs)))
      else if c = backslash \<and> get_opt cs 0 = Some (CHR ''u'') \<and> 5 \<le> length cs
      then (case Option.bind (decode_ascii_unicode_escape (take 4 (drop 1 cs))) push_normalized_byte of
              None \<Rightarrow> None
            | Some out \<Rightarrow> map_option ((@) out) (normalize_loop (drop 5 cs)))
      else None)"
  by pat_completeness auto
termination normalize_loop
  by (relation "measure length") auto

definition normalized_key :: "string \<Rightarrow> string option" where
  "normalized_key bytes =
     (if bytes = [] \<or> length bytes > 256 then None
      else (case normalize_loop bytes of
              None \<Rightarrow> None
            | Some normalized \<Rightarrow> if normalized = [] then None else Some normalized))"

definition sensitive_keys :: "string list" where
  "sensitive_keys =
     [''authorization'', ''proxyauthorization'', ''password'', ''passwd'', ''pwd'', ''secret'',
      ''token'', ''accesstoken'', ''refreshtoken'', ''idtoken'', ''apikey'', ''clientsecret'',
      ''credential'', ''credentials'', ''cookie'', ''setcookie'', ''privatekey'', ''signingkey'']"

definition sensitive_suffixes :: "string list" where
  "sensitive_suffixes =
     [''token'', ''secret'', ''password'', ''passwd'', ''apikey'', ''credential'', ''privatekey'']"

definition is_sensitive_key :: "string \<Rightarrow> bool \<Rightarrow> bool" where
  "is_sensitive_key key include_query_abbreviations \<longleftrightarrow>
     key \<in> set sensitive_keys \<or> list_ex (ends_with key) sensitive_suffixes \<or>
     include_query_abbreviations \<and> key \<in> set [''key'', ''sig'', ''signature'', ''auth'']"

section \<open>Ranges\<close>

type_synonym range = "nat \<times> nat"

definition is_char_boundary :: "string \<Rightarrow> nat \<Rightarrow> bool" where
  "is_char_boundary s i \<longleftrightarrow>
     i = 0 \<or> i = length s \<or> i < length s \<and> \<not> is_continuation (byte (s ! i))"

fun floor_boundary :: "string \<Rightarrow> nat \<Rightarrow> nat" where
  "floor_boundary s 0 = 0"
| "floor_boundary s (Suc i) = (if is_char_boundary s (Suc i) then Suc i else floor_boundary s i)"

definition ceil_boundary :: "string \<Rightarrow> nat \<Rightarrow> nat" where
  "ceil_boundary s i = skip_while (\<lambda>k. \<not> is_char_boundary s k) i (length s)"

definition RedactionRanges_add :: "string \<Rightarrow> nat \<Rightarrow> nat \<Rightarrow> range list \<Rightarrow> range list" where
  "RedactionRanges_add source start end_pos ranges =
     (let start = floor_boundary source (min start (length source));
          end_pos = ceil_boundary source (min end_pos (length source))
      in if start < end_pos then ranges @ [(start, end_pos)] else ranges)"

definition merge_range :: "range \<Rightarrow> range list \<Rightarrow> range list" where
  "merge_range r merged =
     (case last_opt merged of
        Some previous \<Rightarrow>
          if fst r \<le> snd previous
          then butlast merged @ [(fst previous, max (snd previous) (snd r))]
          else merged @ [r]
      | None \<Rightarrow> merged @ [r])"

fun render_loop :: "string \<Rightarrow> nat \<Rightarrow> range list \<Rightarrow> string" where
  "render_loop source cursor [] = drop cursor source"
| "render_loop source cursor (r # rs) =
     take (fst r - cursor) (drop cursor source) @ REDACTION_MARKER @ render_loop source (snd r) rs"

text \<open>
  \<^verbatim>\<open>sort_unstable_by_key\<close> leaves the order of ranges with the same start open; the model
  keeps it, and the rendering does not depend on it.
\<close>

definition RedactionRanges_render :: "string \<Rightarrow> range list \<Rightarrow> string" where
  "RedactionRanges_render source ranges =
     render_loop source 0 (fold merge_range (sort_key fst ranges) [])"

section \<open>Lines and needles\<close>

function line_ranges_loop :: "string \<Rightarrow> nat \<Rightarrow> nat \<Rightarrow> range list" where
  "line_ranges_loop bytes start cursor =
     (if cursor < length bytes
      then if is_line_break (bytes ! cursor)
           then (let next_pos = (if bytes ! cursor = CHR 0x0D \<and> get_opt bytes (cursor + 1) = Some CHR 0x0A
                                 then cursor + 2 else cursor + 1)
                 in (start, cursor) # line_ranges_loop bytes next_pos next_pos)
           else line_ranges_loop bytes start (cursor + 1)
      else [(start, length bytes)])"
  by pat_completeness auto
termination line_ranges_loop
  by (relation "measure (\<lambda>(bytes, start, cursor). length bytes - cursor)") auto

declare line_ranges_loop.simps [simp del]

definition line_ranges :: "string \<Rightarrow> range list" where
  "line_ranges bytes = line_ranges_loop bytes 0 0"

definition ascii_case_eq_at :: "string \<Rightarrow> nat \<Rightarrow> string \<Rightarrow> bool" where
  "ascii_case_eq_at bytes start needle \<longleftrightarrow>
     start + length needle \<le> length bytes
     \<and> eq_ignore_ascii_case (take (length needle) (drop start bytes)) needle"

text \<open>
  The guard of \<open>find_exact\<close> subtracts with saturation, the range after it does not: on a
  text shorter than the needle the subtraction panics (or, with wrapping arithmetic, the
  first slice does).
\<close>

datatype RedactionPanic = RedactionPanic

definition find_exact :: "string \<Rightarrow> nat \<Rightarrow> string \<Rightarrow> RedactionPanic + nat option" where
  "find_exact bytes start needle =
     (if needle = [] \<or> start > length bytes - length needle then Ok None
      else if length bytes < length needle then Err RedactionPanic
      else Ok (find (\<lambda>i. take (length needle) (drop i bytes) = needle)
                 [start..<length bytes - length needle + 1]))"

definition find_ascii_case_insensitive_in :: "string \<Rightarrow> nat \<Rightarrow> nat \<Rightarrow> string \<Rightarrow> nat option" where
  "find_ascii_case_insensitive_in bytes start end_pos needle =
     (let end_pos = min end_pos (length bytes) in
      if needle = [] \<or> end_pos < length needle \<or> start > end_pos - length needle then None
      else find (\<lambda>i. ascii_case_eq_at bytes i needle) [start..<end_pos - length needle + 1])"

definition find_ascii_case_insensitive :: "string \<Rightarrow> nat \<Rightarrow> string \<Rightarrow> nat option" where
  "find_ascii_case_insensitive bytes start needle =
     find_ascii_case_insensitive_in bytes start (length bytes) needle"

definition has_word_boundary_before :: "string \<Rightarrow> nat \<Rightarrow> bool" where
  "has_word_boundary_before bytes index \<longleftrightarrow> index = 0 \<or> \<not> is_key_byte (bytes ! (index - 1))"

definition is_environment_key_start :: "string \<Rightarrow> nat \<Rightarrow> nat \<Rightarrow> bool" where
  "is_environment_key_start bytes index line_start \<longleftrightarrow>
     (is_ascii_alphabetic (bytes ! index) \<or> bytes ! index = CHR ''_'')
     \<and> (index = line_start \<or> \<not> is_key_byte (bytes ! (index - 1)))"

section \<open>Sensitive headers\<close>

definition is_folded_header_line :: "string \<Rightarrow> range \<Rightarrow> bool" where
  "is_folded_header_line bytes line \<longleftrightarrow> fst line < snd line \<and> is_blank (bytes ! fst line)"

text \<open>The loop over the segments of a cookie header.\<close>

fun cookie_ambiguous :: "bool \<Rightarrow> string list \<Rightarrow> bool" where
  "cookie_ambiguous saw_cookie_pair [] = (\<not> saw_cookie_pair)"
| "cookie_ambiguous saw_cookie_pair (segment # segments) =
     (let segment = trim_ascii_space segment in
      if segment = [] then True
      else (case position (\<lambda>c. c = CHR ''='') segment of
              Some equals \<Rightarrow>
                if trim_ascii_space (drop (equals + 1) segment) = [] then True
                else cookie_ambiguous True segments
            | None \<Rightarrow> if \<not> saw_cookie_pair then True else cookie_ambiguous saw_cookie_pair segments))"

definition sensitive_header_value_is_ambiguous :: "string \<Rightarrow> string \<Rightarrow> bool" where
  "sensitive_header_value_is_ambiguous key header_value =
     (if header_value = [] then True
      else if key = ''authorization'' \<or> key = ''proxyauthorization''
      then (case position is_ascii_whitespace header_value of
              None \<Rightarrow> True
            | Some separator \<Rightarrow> trim_ascii_space (drop separator header_value) = [])
      else cookie_ambiguous False (split_on (\<lambda>c. c = CHR '';'') header_value))"

definition sensitive_header_keys :: "string list" where
  "sensitive_header_keys = [''authorization'', ''proxyauthorization'', ''cookie'', ''setcookie'']"

text \<open>
  One iteration of \<open>mark_sensitive_headers\<close>: \<open>None\<close> is \<^verbatim>\<open>continue\<close>, otherwise the start of
  the field and the end of what is removed with it.
\<close>

definition header_range :: "string \<Rightarrow> range list \<Rightarrow> nat \<Rightarrow> range \<Rightarrow> range option" where
  "header_range bytes lines index line =
     (let key_start = skip_ascii_space bytes (fst line) (snd line);
          key_end = skip_while (\<lambda>i. is_key_byte (bytes ! i)) key_start (snd line);
          cursor = skip_ascii_space bytes key_end (snd line)
      in if cursor \<ge> snd line \<or> bytes ! cursor \<noteq> CHR '':'' then None
         else (case normalized_key (take (key_end - key_start) (drop key_start bytes)) of
                 None \<Rightarrow> None
               | Some key \<Rightarrow>
                   if key \<notin> set sensitive_header_keys then None
                   else (let value_start = skip_ascii_space bytes (cursor + 1) (snd line);
                             has_continuation = (case get_opt lines (index + 1) of
                               None \<Rightarrow> False | Some continuation \<Rightarrow> is_folded_header_line bytes continuation);
                             has_ambiguous_value = sensitive_header_value_is_ambiguous key
                               (trim_ascii_space (take (snd line - value_start) (drop value_start bytes)));
                             value_end = (if has_continuation \<or> has_ambiguous_value \<and> snd line < length bytes
                                          then length bytes else snd line)
                         in Some (key_start, value_end))))"

fun header_loop :: "string \<Rightarrow> range list \<Rightarrow> nat \<Rightarrow> range list \<Rightarrow> range list \<Rightarrow> range list" where
  "header_loop source lines index [] ranges = ranges"
| "header_loop source lines index (line # rest) ranges =
     (case header_range source lines index line of
        None \<Rightarrow> header_loop source lines (index + 1) rest ranges
      | Some (key_start, value_end) \<Rightarrow>
          (let ranges = RedactionRanges_add source key_start value_end ranges in
           if value_end = length source then ranges
           else header_loop source lines (index + 1) rest ranges))"

definition mark_sensitive_headers :: "string \<Rightarrow> range list \<Rightarrow> range list" where
  "mark_sensitive_headers source ranges =
     header_loop source (line_ranges source) 0 (line_ranges source) ranges"

section \<open>The other scanners\<close>

definition scheme_length :: "string \<Rightarrow> nat \<Rightarrow> nat" where
  "scheme_length bytes cursor =
     (case find (\<lambda>scheme. ascii_case_eq_at bytes cursor scheme \<and> has_word_boundary_before bytes cursor
              \<and> (case get_opt bytes (cursor + length scheme) of
                    None \<Rightarrow> False | Some c \<Rightarrow> is_ascii_whitespace c)) [''bearer'', ''basic''] of
        Some scheme \<Rightarrow> length scheme | None \<Rightarrow> 0)"

function mark_authentication_schemes :: "string \<Rightarrow> nat \<Rightarrow> range list \<Rightarrow> range list" where
  "mark_authentication_schemes source cursor ranges =
     (if cursor < length source
      then if scheme_length source cursor = 0 then mark_authentication_schemes source (cursor + 1) ranges
           else (let token_start = skip_ascii_space source (cursor + scheme_length source cursor) (length source);
                     token_end = scan_credential_end source token_start;
                     ranges = (if token_end - token_start \<ge> 4
                               then RedactionRanges_add source token_start token_end ranges else ranges)
                 in mark_authentication_schemes source (max token_end (cursor + 1)) ranges)
      else ranges)"
  by pat_completeness auto
termination mark_authentication_schemes
  by (relation "measure (\<lambda>(source, cursor, ranges). length source - cursor)") auto

declare mark_authentication_schemes.simps [simp del]

definition userinfo_stop :: "char \<Rightarrow> bool" where
  "userinfo_stop c \<longleftrightarrow> c \<in> {CHR ''@'', CHR ''/'', CHR ''?'', CHR ''#'', backslash, single_quote, double_quote}
     \<or> is_ascii_whitespace c \<or> is_ascii_control c"

lemma find_Some_upt: "find p [a..<b] = Some i \<Longrightarrow> a \<le> i \<and> i < b \<and> p i"
  by (auto simp: find_Some_iff)

lemma find_exact_bounds:
  "find_exact bytes start needle = Ok (Some i) \<Longrightarrow> start \<le> i \<and> i + length needle \<le> length bytes \<and> needle \<noteq> []"
  unfolding find_exact_def by (auto dest!: find_Some_upt split: if_splits simp del: upt_Suc)

function mark_url_userinfo :: "string \<Rightarrow> nat \<Rightarrow> range list \<Rightarrow> RedactionPanic + range list" where
  "mark_url_userinfo source cursor ranges =
     (case find_exact source cursor ''://'' of
        Inl e \<Rightarrow> Inl e
      | Inr None \<Rightarrow> Ok ranges
      | Inr (Some separator) \<Rightarrow>
          (let userinfo_start = separator + 3;
               end_pos = scan_until (\<lambda>i. userinfo_stop (source ! i)) userinfo_start (length source);
               ranges = (if end_pos < length source \<and> source ! end_pos = CHR ''@''
                         then RedactionRanges_add source userinfo_start end_pos ranges else ranges)
           in mark_url_userinfo source (max (end_pos + 1) (separator + 3)) ranges))"
  by pat_completeness auto
termination mark_url_userinfo
  by (relation "measure (\<lambda>(source, cursor, ranges). length source - cursor)")
    (auto dest!: find_exact_bounds)

declare mark_url_userinfo.simps [simp del]

function mark_query_secrets :: "string \<Rightarrow> nat \<Rightarrow> range list \<Rightarrow> range list" where
  "mark_query_secrets source cursor ranges =
     (if cursor < length source
      then if source ! cursor \<notin> {CHR ''?'', CHR ''&'', CHR '';''}
           then mark_query_secrets source (cursor + 1) ranges
           else (let key_start = cursor + 1;
                     key_end = skip_while (\<lambda>i. is_encoded_key_byte (source ! i)) key_start (length source);
                     equals = skip_ascii_space source key_end (length source)
                 in (case normalized_key (take (key_end - key_start) (drop key_start source)) of
                       None \<Rightarrow> mark_query_secrets source (cursor + 1) ranges
                     | Some key \<Rightarrow>
                         if equals \<ge> length source \<or> source ! equals \<noteq> CHR ''='' \<or> \<not> is_sensitive_key key True
                         then mark_query_secrets source (cursor + 1) ranges
                         else (let value_start = skip_ascii_space source (equals + 1) (length source);
                                   value_end = scan_query_value_end source value_start
                               in mark_query_secrets source (max value_end (cursor + 1))
                                    (RedactionRanges_add source value_start value_end ranges))))
      else ranges)"
  by pat_completeness auto
termination mark_query_secrets
  by (relation "measure (\<lambda>(source, cursor, ranges). length source - cursor)") auto

declare mark_query_secrets.simps [simp del]

function mark_json_secrets :: "string \<Rightarrow> nat \<Rightarrow> range list \<Rightarrow> range list" where
  "mark_json_secrets source cursor ranges =
     (if cursor < length source
      then if source ! cursor \<noteq> double_quote then mark_json_secrets source (cursor + 1) ranges
           else (case closing_quote source cursor double_quote of
                   None \<Rightarrow> ranges
                 | Some key_end_quote \<Rightarrow>
                     (case normalized_key (take (key_end_quote - (cursor + 1)) (drop (cursor + 1) source)) of
                        None \<Rightarrow> mark_json_secrets source (key_end_quote + 1) ranges
                      | Some key \<Rightarrow>
                          (let colon = skip_json_whitespace source (key_end_quote + 1) (length source) in
                           if colon \<ge> length source \<or> source ! colon \<noteq> CHR '':'' \<or> \<not> is_sensitive_key key False
                           then mark_json_secrets source (key_end_quote + 1) ranges
                           else (let value_start = skip_json_whitespace source (colon + 1) (length source);
                                     value_end = json_value_end source value_start
                                 in mark_json_secrets source (max value_end (key_end_quote + 1))
                                      (RedactionRanges_add source value_start value_end ranges)))))
      else ranges)"
  by pat_completeness auto
termination mark_json_secrets
  by (relation "measure (\<lambda>(source, cursor, ranges). length source - cursor)")
    (auto dest!: closing_quote_bounds)

declare mark_json_secrets.simps [simp del]

lemma key_start_is_key: "is_environment_key_start bytes i l \<Longrightarrow> is_key_byte (bytes ! i)"
  by (auto simp: is_environment_key_start_def is_key_byte_def is_ascii_alphanumeric_def)

function environment_loop :: "string \<Rightarrow> range \<Rightarrow> nat \<Rightarrow> range list \<Rightarrow> range list" where
  "environment_loop source line cursor ranges =
     (if cursor < snd line
      then if \<not> is_environment_key_start source cursor (fst line)
           then environment_loop source line (cursor + 1) ranges
           else (let key_start = cursor;
                     key_end = skip_while (\<lambda>i. is_key_byte (source ! i)) cursor (snd line);
                     equals = skip_ascii_space source key_end (snd line)
                 in (case normalized_key (take (key_end - key_start) (drop key_start source)) of
                       None \<Rightarrow> environment_loop source line key_end ranges
                     | Some key \<Rightarrow>
                         if equals \<ge> snd line \<or> source ! equals \<noteq> CHR ''='' \<or> \<not> is_sensitive_key key False
                         then environment_loop source line key_end ranges
                         else (let value_start = skip_ascii_space source (equals + 1) (snd line);
                                   value_end = scan_environment_value_end source value_start (snd line)
                               in environment_loop source line (max value_end (key_end + 1))
                                    (RedactionRanges_add source value_start value_end ranges))))
      else ranges)"
  by pat_completeness auto
termination environment_loop
proof (relation "measure (\<lambda>(source, line, cursor, ranges). snd line - cursor)", goal_cases)
  case (3 source line cursor ranges)
  then have "cursor < skip_while (\<lambda>i. is_key_byte (source ! i)) cursor (snd line)"
    using key_start_is_key by (intro skip_while_gt) auto
  with 3 show ?case by auto
next
  case (4 source line cursor ranges)
  then have "cursor < skip_while (\<lambda>i. is_key_byte (source ! i)) cursor (snd line)"
    using key_start_is_key by (intro skip_while_gt) auto
  with 4 show ?case by auto
next
  case (5 source line cursor ranges)
  then have "cursor < skip_while (\<lambda>i. is_key_byte (source ! i)) cursor (snd line)"
    using key_start_is_key by (intro skip_while_gt) auto
  with 5 show ?case by auto
qed auto

declare environment_loop.simps [simp del]

definition mark_environment_secrets :: "string \<Rightarrow> range list \<Rightarrow> range list" where
  "mark_environment_secrets source ranges =
     fold (\<lambda>line ranges. environment_loop source line (fst line) ranges) (line_ranges source) ranges"

lemma find_ci_bounds:
  "find_ascii_case_insensitive_in bytes start end_pos needle = Some i \<Longrightarrow>
     start \<le> i \<and> i + length needle \<le> length bytes \<and> needle \<noteq> []"
  unfolding find_ascii_case_insensitive_in_def Let_def
  by (auto dest!: find_Some_upt split: if_splits simp del: upt_Suc)

definition private_key_end :: "string \<Rightarrow> nat \<Rightarrow> nat" where
  "private_key_end bytes header_end =
     (case find_ascii_case_insensitive bytes header_end ''-----END '' of
        None \<Rightarrow> length bytes
      | Some candidate \<Rightarrow>
          (let candidate_end = scan_line_end bytes candidate in
           case find_ascii_case_insensitive_in bytes candidate candidate_end ''PRIVATE KEY-----'' of
             None \<Rightarrow> length bytes | Some _ \<Rightarrow> candidate_end))"

function mark_private_keys :: "string \<Rightarrow> nat \<Rightarrow> range list \<Rightarrow> range list" where
  "mark_private_keys source cursor ranges =
     (case find_ascii_case_insensitive source cursor ''-----BEGIN '' of
        None \<Rightarrow> ranges
      | Some begin_pos \<Rightarrow>
          (let header_end = scan_line_end source begin_pos in
           if find_ascii_case_insensitive_in source begin_pos header_end ''PRIVATE KEY-----'' = None
           then mark_private_keys source (max header_end (begin_pos + 1)) ranges
           else (let end_pos = private_key_end source header_end in
                 mark_private_keys source (max end_pos (begin_pos + 1))
                   (RedactionRanges_add source begin_pos end_pos ranges))))"
  by pat_completeness auto
termination mark_private_keys
  by (relation "measure (\<lambda>(source, cursor, ranges). length source - cursor)")
    (auto simp: find_ascii_case_insensitive_def dest!: find_ci_bounds)

declare mark_private_keys.simps [simp del]

text \<open>The loop of \<open>jwt_segment_lengths\<close>: the segment it is in and the lengths so far.\<close>

fun jwt_loop :: "nat \<Rightarrow> nat list \<Rightarrow> string \<Rightarrow> nat list option" where
  "jwt_loop segment lengths [] = (if segment = 2 then Some lengths else None)"
| "jwt_loop segment lengths (c # cs) =
     (if c = CHR ''.'' then if segment + 1 > 2 then None else jwt_loop (segment + 1) lengths cs
      else jwt_loop segment (lengths[segment := lengths ! segment + 1]) cs)"

definition jwt_segment_lengths :: "string \<Rightarrow> nat list option" where
  "jwt_segment_lengths bytes = jwt_loop 0 [0, 0, 0] bytes"

definition looks_like_jwt :: "string \<Rightarrow> bool" where
  "looks_like_jwt bytes =
     (case jwt_segment_lengths bytes of
        None \<Rightarrow> False
      | Some lengths \<Rightarrow> lengths ! 0 \<ge> 8 \<and> lengths ! 1 \<ge> 8 \<and> lengths ! 2 \<ge> 8)"

function mark_jwts :: "string \<Rightarrow> nat \<Rightarrow> range list \<Rightarrow> range list" where
  "mark_jwts source cursor ranges =
     (if cursor < length source
      then if \<not> is_jwt_byte (source ! cursor) \<or> source ! cursor = CHR ''.''
           then mark_jwts source (cursor + 1) ranges
           else (let end_pos = skip_while (\<lambda>i. is_jwt_byte (source ! i)) cursor (length source) in
                 mark_jwts source end_pos
                   (if looks_like_jwt (take (end_pos - cursor) (drop cursor source))
                    then RedactionRanges_add source cursor end_pos ranges else ranges))
      else ranges)"
  by pat_completeness auto
termination mark_jwts
proof (relation "measure (\<lambda>(source, cursor, ranges). length source - cursor)", goal_cases)
  case (3 source cursor ranges)
  then have "cursor < skip_while (\<lambda>i. is_jwt_byte (source ! i)) cursor (length source)"
    by (intro skip_while_gt) auto
  with 3 show ?case by auto
qed auto

declare mark_jwts.simps [simp del]

section \<open>Output\<close>

definition tail_break :: "char \<Rightarrow> bool" where
  "tail_break c \<longleftrightarrow> is_ascii_whitespace c \<or> is_ascii_control c
     \<or> c \<in> {CHR '','', CHR '';'', CHR 0x7B, CHR 0x7D, CHR ''['', CHR '']'', CHR ''('', CHR '')''}"

text \<open>\<^verbatim>\<open>rposition(...).map_or(0, |index| index + 1)\<close>: what follows the last break.\<close>

definition partial_tail_start :: "string \<Rightarrow> nat" where
  "partial_tail_start source = length source - length (takeWhile (\<lambda>c. \<not> tail_break c) (rev source))"

definition is_unicode_format_control :: "nat \<Rightarrow> bool" where
  "is_unicode_format_control u \<longleftrightarrow>
     u = 0x061c \<or> 0x200b \<le> u \<and> u \<le> 0x200f \<or> 0x202a \<le> u \<and> u \<le> 0x202e
     \<or> 0x2060 \<le> u \<and> u \<le> 0x206f \<or> u = 0xfeff"

text \<open>\<^verbatim>\<open>{:X}\<close>: hexadecimal digits in upper case.\<close>

definition show_hex_upper :: "nat \<Rightarrow> string" where
  "show_hex_upper n = map (\<lambda>c. if is_ascii_lowercase c then char_of (byte c - 32) else c) (show_hex n)"

definition sanitize_char :: "nat \<Rightarrow> string" where
  "sanitize_char u =
     (if u = 0x0A then [backslash, CHR ''n'']
      else if u = 0x0D then [backslash, CHR ''r'']
      else if u = 0x09 then [backslash, CHR ''t'']
      else if is_control u \<or> is_unicode_format_control u
      then [backslash, CHR ''u'', CHR 0x7B] @ show_hex_upper u @ [CHR 0x7D]
      else from_chars [u])"

definition sanitize_terminal_text :: "string \<Rightarrow> string" where
  "sanitize_terminal_text s = concat (map sanitize_char (chars s))"

definition bound_output :: "string \<Rightarrow> bool \<Rightarrow> string" where
  "bound_output s input_was_truncated =
     (if \<not> (input_was_truncated \<or> length s > MAX_AUDIT_DETAIL_OUTPUT_BYTES) then s
      else take (floor_boundary s (min (length s) (MAX_AUDIT_DETAIL_OUTPUT_BYTES - length TRUNCATION_MARKER))) s
           @ TRUNCATION_MARKER)"

definition lossy_source :: "string \<Rightarrow> string" where
  "lossy_source input = from_chars (chars (take (min (length input) MAX_AUDIT_DETAIL_INPUT_BYTES) input))"

text \<open>The ranges the scanners mark, in the order they run.\<close>

definition redaction_ranges :: "string \<Rightarrow> bool \<Rightarrow> RedactionPanic + range list" where
  "redaction_ranges source input_was_truncated =
     (let ranges = mark_authentication_schemes source 0 (mark_sensitive_headers source []) in
      and_then (mark_url_userinfo source 0 ranges) (\<lambda>ranges.
      let ranges = mark_query_secrets source 0 ranges;
          ranges = mark_json_secrets source 0 ranges;
          ranges = mark_environment_secrets source ranges;
          ranges = mark_private_keys source 0 ranges;
          ranges = mark_jwts source 0 ranges
      in Ok (if input_was_truncated
             then RedactionRanges_add source (partial_tail_start source) (length source) ranges
             else ranges)))"

definition redact_audit_detail :: "string \<Rightarrow> RedactionPanic + string" where
  "redact_audit_detail input =
     (let inspected_length = min (length input) MAX_AUDIT_DETAIL_INPUT_BYTES;
          input_was_truncated = inspected_length < length input;
          source = lossy_source input
      in and_then (redaction_ranges source input_was_truncated) (\<lambda>ranges.
         Ok (bound_output (sanitize_terminal_text (RedactionRanges_render source ranges))
               input_was_truncated)))"

end
