(* ===== verification/Redacted_Output.thy ===== *)
theory Redacted_Output
  imports Redaction "HOL-Library.Multiset"
begin

text \<open>
  What redaction guarantees: marked ranges are cut on character boundaries and merged
  exactly, sensitive headers and tokens are covered, the output is bounded and safe for a
  terminal; and the inputs on which the code panics.
\<close>

section \<open>Scanners only add well-formed ranges\<close>

definition range_ok :: "string \<Rightarrow> range \<Rightarrow> bool" where
  "range_ok source r \<longleftrightarrow> fst r < snd r \<and> snd r \<le> length source
     \<and> is_char_boundary source (fst r) \<and> is_char_boundary source (snd r)"

definition grown :: "string \<Rightarrow> range list \<Rightarrow> range list \<Rightarrow> bool" where
  "grown source ranges ranges' \<longleftrightarrow> (\<exists>new. ranges' = ranges @ new \<and> list_all (range_ok source) new)"

lemma grown_refl [simp, intro]: "grown source ranges ranges"
  by (simp add: grown_def)

lemma grown_trans: "grown source a b \<Longrightarrow> grown source b c \<Longrightarrow> grown source a c"
  by (auto simp: grown_def)

lemma floor_boundary_props: "floor_boundary s i \<le> i \<and> is_char_boundary s (floor_boundary s i)"
  by (induction i) (auto simp: is_char_boundary_def)

lemma skip_while_stop:
  "cursor \<le> end_pos \<Longrightarrow> skip_while p cursor end_pos \<le> end_pos
     \<and> (skip_while p cursor end_pos < end_pos \<longrightarrow> \<not> p (skip_while p cursor end_pos))"
proof (induction p cursor end_pos rule: skip_while.induct)
  case (1 p cursor end_pos)
  then show ?case by (subst (1 2 3) skip_while.simps) auto
qed

lemma skip_while_run: "cursor \<le> i \<Longrightarrow> i < skip_while p cursor end_pos \<Longrightarrow> p i"
proof (induction p cursor end_pos rule: skip_while.induct)
  case (1 p cursor end_pos)
  then show ?case
    by (subst (asm) (2) skip_while.simps) (cases "i = cursor", auto split: if_splits)
qed

lemma skip_while_eq:
  assumes "cursor \<le> k" and "k \<le> end_pos" and "\<And>i. cursor \<le> i \<Longrightarrow> i < k \<Longrightarrow> p i"
    and "k < end_pos \<Longrightarrow> \<not> p k"
  shows "skip_while p cursor end_pos = k"
proof (rule antisym)
  have le: "skip_while p cursor end_pos \<le> end_pos" using assms(1,2) skip_while_stop by simp
  have "\<not> k < skip_while p cursor end_pos"
    using assms(1,4) skip_while_run [of cursor k p end_pos] le by auto
  then show "skip_while p cursor end_pos \<le> k" by simp
  show "k \<le> skip_while p cursor end_pos"
    using assms skip_while_stop [of cursor end_pos p] skip_while_ge [of cursor p end_pos] by (meson le_less_trans not_le order_less_le_trans)
qed

lemma ceil_boundary_props:
  "i \<le> length s \<Longrightarrow> i \<le> ceil_boundary s i \<and> ceil_boundary s i \<le> length s \<and> is_char_boundary s (ceil_boundary s i)"
  using skip_while_stop [of i "length s" "\<lambda>k. \<not> is_char_boundary s k"]
    skip_while_ge [of i "\<lambda>k. \<not> is_char_boundary s k" "length s"]
  by (cases "ceil_boundary s i < length s") (auto simp: ceil_boundary_def is_char_boundary_def)

lemma add_grown: "grown source ranges (RedactionRanges_add source a b ranges)"
  using floor_boundary_props [of source "min a (length source)"]
    ceil_boundary_props [of "min b (length source)" source]
  by (auto simp: RedactionRanges_add_def Let_def grown_def range_ok_def)

lemma grown_add: "grown source ranges ranges' \<Longrightarrow> grown source ranges (RedactionRanges_add source a b ranges')"
  using add_grown grown_trans by blast

lemma grown_add_if: "grown source ranges (if c then RedactionRanges_add source a b ranges else ranges)"
  by (simp add: add_grown)

lemma header_loop_grown: "grown source ranges (header_loop source lines index rest ranges)"
proof (induction source lines index rest ranges rule: header_loop.induct)
  case (2 source lines index line rest ranges)
  show ?case
  proof (cases "header_range source lines index line")
    case None
    with 2(1) show ?thesis by simp
  next
    case (Some r)
    obtain a b where r: "r = (a, b)" by fastforce
    show ?thesis
    proof (cases "b = length source")
      case True
      then show ?thesis using Some r by (simp add: add_grown)
    next
      case False
      then show ?thesis
        using Some r grown_trans [OF add_grown 2(2) [OF Some r [symmetric] refl False]] by simp
    qed
  qed
qed simp

lemma schemes_grown: "grown source ranges (mark_authentication_schemes source cursor ranges)"
proof (induction source cursor ranges rule: mark_authentication_schemes.induct)
  case (1 source cursor ranges)
  show ?case
  proof (cases "cursor < length source \<and> scheme_length source cursor \<noteq> 0")
    case True
    then show ?thesis
      using grown_trans [OF grown_add_if 1(2) [OF _ _ refl refl refl]]
      by (subst mark_authentication_schemes.simps) (simp add: Let_def)
  next
    case False
    with 1(1) show ?thesis by (subst mark_authentication_schemes.simps) auto
  qed
qed

lemma userinfo_grown:
  "mark_url_userinfo source cursor ranges = Ok ranges' \<Longrightarrow> grown source ranges ranges'"
proof (induction source cursor ranges rule: mark_url_userinfo.induct)
  case (1 source cursor ranges)
  note eq = 1(2) [unfolded mark_url_userinfo.simps [of source cursor ranges]]
  show ?case
  proof (cases "find_exact source cursor ''://''")
    case (Inl e)
    with eq show ?thesis by simp
  next
    case (Inr found)
    show ?thesis
    proof (cases found)
      case None
      with eq Inr show ?thesis by simp
    next
      case (Some separator)
      show ?thesis
        using eq Inr Some grown_trans [OF grown_add_if 1(1) [OF Inr Some refl refl refl]] by (simp add: Let_def)
    qed
  qed
qed

lemma query_grown: "grown source ranges (mark_query_secrets source cursor ranges)"
proof (induction source cursor ranges rule: mark_query_secrets.induct)
  case (1 source cursor ranges)
  then show ?case
    using 1(1) 1(2) [OF _ _ refl refl refl] 1(3) [OF _ _ refl refl refl]
      grown_trans [OF add_grown 1(4) [OF _ _ refl refl refl _ _ refl refl]]
    by (subst mark_query_secrets.simps) (simp add: Let_def split: option.splits)
qed

lemma json_grown: "grown source ranges (mark_json_secrets source cursor ranges)"
proof (induction source cursor ranges rule: mark_json_secrets.induct)
  case (1 source cursor ranges)
  then show ?case
    using 1(1) 1(2) 1(3) [OF _ _ _ _ refl] grown_trans [OF add_grown 1(4) [OF _ _ _ _ refl _ refl refl]]
    by (subst mark_json_secrets.simps) (simp add: Let_def split: option.splits)
qed

lemma environment_loop_grown: "grown source ranges (environment_loop source line cursor ranges)"
proof (induction source line cursor ranges rule: environment_loop.induct)
  case (1 source line cursor ranges)
  then show ?case
    using 1(1) 1(2) [OF _ _ refl refl refl] 1(3) [OF _ _ refl refl refl]
      grown_trans [OF add_grown 1(4) [OF _ _ refl refl refl _ _ refl refl]]
    by (subst environment_loop.simps) (simp add: Let_def split: option.splits)
qed

lemma environment_grown: "grown source ranges (mark_environment_secrets source ranges)"
proof -
  have "grown source ranges (fold (\<lambda>line. environment_loop source line (fst line)) lines ranges)" for lines
    by (induction lines arbitrary: ranges) (auto intro: grown_trans environment_loop_grown)
  then show ?thesis by (simp add: mark_environment_secrets_def)
qed

lemma private_keys_grown: "grown source ranges (mark_private_keys source cursor ranges)"
proof (induction source cursor ranges rule: mark_private_keys.induct)
  case (1 source cursor ranges)
  then show ?case
    using 1(1) [OF _ refl] grown_trans [OF add_grown 1(2) [OF _ refl _ refl]]
    by (subst mark_private_keys.simps) (simp add: Let_def split: option.splits)
qed

lemma jwts_grown: "grown source ranges (mark_jwts source cursor ranges)"
proof (induction source cursor ranges rule: mark_jwts.induct)
  case (1 source cursor ranges)
  then show ?case
    using 1(1) grown_trans [OF grown_add_if 1(2) [OF _ _ refl]]
    by (subst mark_jwts.simps) (simp add: Let_def)
qed

lemmas scanners_grown = header_loop_grown schemes_grown query_grown json_grown environment_grown
  private_keys_grown jwts_grown

lemmas grown_through = scanners_grown [THEN [2] grown_trans]

lemma redaction_ranges_steps:
  assumes "redaction_ranges source truncated = Ok ranges"
  shows "grown source (mark_sensitive_headers source []) ranges \<and> list_all (range_ok source) ranges
     \<and> (\<exists>before. grown source (mark_jwts source 0 before) ranges)"
proof -
  let ?h = "mark_sensitive_headers source []" and ?s = "mark_authentication_schemes source 0 (mark_sensitive_headers source [])"
  obtain u where u: "mark_url_userinfo source 0 ?s = Ok u"
    using assms by (auto simp: redaction_ranges_def Let_def and_then_Inr_iff)
  define b where "b = mark_private_keys source 0 (mark_environment_secrets source
      (mark_json_secrets source 0 (mark_query_secrets source 0 u)))"
  have ranges: "ranges = (if truncated
      then RedactionRanges_add source (partial_tail_start source) (length source) (mark_jwts source 0 b)
      else mark_jwts source 0 b)"
    using assms u by (auto simp: redaction_ranges_def Let_def b_def)
  have last: "grown source (mark_jwts source 0 b) ranges" using ranges by (simp add: add_grown)
  have "grown source ?h u" using grown_trans [OF schemes_grown userinfo_grown [OF u]] .
  then have "grown source ?h b"
    unfolding b_def by (intro grown_through)
  then have "grown source ?h ranges" using grown_trans [OF grown_through(7) last] by simp
  moreover have "grown source [] ?h" by (simp add: mark_sensitive_headers_def header_loop_grown)
  ultimately have "grown source [] ranges" by (meson grown_trans)
  with \<open>grown source ?h ranges\<close> last show ?thesis by (auto simp: grown_def)
qed

section \<open>Rendering\<close>

definition covered :: "range list \<Rightarrow> nat \<Rightarrow> bool" where
  "covered ranges i \<longleftrightarrow> (\<exists>r \<in> set ranges. fst r \<le> i \<and> i < snd r)"

text \<open>The reference: every maximal run of covered bytes becomes one marker, other bytes are kept.\<close>

fun mask :: "(nat \<Rightarrow> bool) \<Rightarrow> bool \<Rightarrow> nat \<Rightarrow> string \<Rightarrow> string" where
  "mask hide hidden i [] = []"
| "mask hide hidden i (c # cs) =
     (if hide i then (if hidden then [] else REDACTION_MARKER) @ mask hide True (i + 1) cs
      else c # mask hide False (i + 1) cs)"

lemma mask_cong:
  "(\<And>k. i \<le> k \<Longrightarrow> k < i + length cs \<Longrightarrow> hide k = hide' k) \<Longrightarrow> mask hide hidden i cs = mask hide' hidden i cs"
  by (induction hide hidden i cs rule: mask.induct) auto

lemma mask_visible:
  "(\<And>k. i \<le> k \<Longrightarrow> k < i + n \<Longrightarrow> \<not> hide k) \<Longrightarrow> n \<le> length cs \<Longrightarrow>
   mask hide hidden i cs = take n cs @ mask hide (hidden \<and> n = 0) (i + n) (drop n cs)"
proof (induction n arbitrary: hidden i cs)
  case (Suc n)
  then obtain c cs' where cs: "cs = c # cs'" by (cases cs) auto
  have "\<not> hide i" using Suc.prems(1) by simp
  then show ?case using Suc.IH [of "i + 1" cs' False] Suc.prems by (simp add: cs)
qed simp

lemma mask_hidden:
  "(\<And>k. i \<le> k \<Longrightarrow> k < i + n \<Longrightarrow> hide k) \<Longrightarrow> n \<le> length cs \<Longrightarrow>
   mask hide True i cs = mask hide True (i + n) (drop n cs)"
proof (induction n arbitrary: i cs)
  case (Suc n)
  then obtain c cs' where cs: "cs = c # cs'" by (cases cs) auto
  have "hide i" using Suc.prems(1) by simp
  then show ?case using Suc.IH [of "i + 1" cs'] Suc.prems by (simp add: cs)
qed simp

lemma mask_hidden_start:
  "(\<And>k. i \<le> k \<Longrightarrow> k < i + n \<Longrightarrow> hide k) \<Longrightarrow> n \<le> length cs \<Longrightarrow> 0 < n \<Longrightarrow>
   mask hide False i cs = REDACTION_MARKER @ mask hide True (i + n) (drop n cs)"
proof (cases n)
  case (Suc m)
  assume all: "\<And>k. i \<le> k \<Longrightarrow> k < i + n \<Longrightarrow> hide k" and "n \<le> length cs"
  then obtain c cs' where cs: "cs = c # cs'" using Suc by (cases cs) auto
  have "hide i" using all Suc by simp
  then show ?thesis
    using mask_hidden [of "i + 1" m hide cs'] all \<open>n \<le> length cs\<close> Suc by (simp add: cs)
qed simp

text \<open>Merged ranges: increasing, with a gap between one and the next.\<close>

fun separated :: "nat \<Rightarrow> range list \<Rightarrow> bool" where
  "separated low [] = True"
| "separated low (r # rs) = (low \<le> fst r \<and> fst r < snd r \<and> separated (Suc (snd r)) rs)"

lemma separated_ge: "separated low rs \<Longrightarrow> r \<in> set rs \<Longrightarrow> low \<le> fst r"
  by (induction low rs rule: separated.induct) auto

lemma covered_Cons: "covered (r # rs) i \<longleftrightarrow> fst r \<le> i \<and> i < snd r \<or> covered rs i"
  by (auto simp: covered_def)

lemma render_loop_mask:
  "\<lbrakk>separated low rs; cursor \<le> low; hidden \<Longrightarrow> cursor < low; \<forall>r \<in> set rs. snd r \<le> length source;
    cursor \<le> length source\<rbrakk> \<Longrightarrow>
   render_loop source cursor rs = mask (covered rs) hidden cursor (drop cursor source)"
proof (induction rs arbitrary: low cursor hidden)
  case Nil
  have "mask (covered []) hidden cursor (drop cursor source) = drop cursor source @ mask (covered [])
      (hidden \<and> length source - cursor = 0) (cursor + (length source - cursor)) []"
    using mask_visible [of cursor "length source - cursor" "covered []" "drop cursor source" hidden]
    by (simp add: covered_def)
  then show ?case by simp
next
  case (Cons r rs)
  let ?n = "fst r - cursor" and ?m = "snd r - fst r"
  have r: "low \<le> fst r" "fst r < snd r" "separated (Suc (snd r)) rs" "snd r \<le> length source"
    using Cons.prems by auto
  have gap: "snd r < fst q" if "q \<in> set rs" for q using separated_ge [OF r(3) that] by simp
  have "\<not> covered (r # rs) k" if "cursor \<le> k" "k < cursor + ?n" for k
    using that gap r(2) by (force simp: covered_def)
  then have "mask (covered (r # rs)) hidden cursor (drop cursor source) = take ?n (drop cursor source)
      @ mask (covered (r # rs)) (hidden \<and> ?n = 0) (cursor + ?n) (drop ?n (drop cursor source))"
    using r Cons.prems by (intro mask_visible) auto
  also have "mask (covered (r # rs)) (hidden \<and> ?n = 0) (cursor + ?n) (drop ?n (drop cursor source)) =
      mask (covered (r # rs)) False (fst r) (drop (fst r) source)"
    using Cons.prems(2,3) r(1) by (cases "hidden \<and> ?n = 0") auto
  also have "\<dots> = REDACTION_MARKER @ mask (covered (r # rs)) True (fst r + ?m) (drop ?m (drop (fst r) source))"
    using r by (intro mask_hidden_start) (auto simp: covered_Cons)
  also have "mask (covered (r # rs)) True (fst r + ?m) (drop ?m (drop (fst r) source)) =
      mask (covered rs) True (snd r) (drop (snd r) source)"
    using r(2) by (auto simp: covered_Cons intro: mask_cong)
  also have "\<dots> = render_loop source (snd r) rs"
    using Cons.IH [OF r(3), of "snd r" True] Cons.prems(4) r(4) by simp
  finally show ?case by simp
qed

lemma separated_snoc:
  "separated low (rs @ [r]) \<longleftrightarrow> separated low rs \<and> fst r < snd r
     \<and> (case last_opt rs of None \<Rightarrow> low \<le> fst r | Some p \<Rightarrow> snd p < fst r)"
  by (induction low rs rule: separated.induct) (auto simp: last_opt_def)

lemma covered_snoc: "covered (rs @ [r]) i \<longleftrightarrow> covered rs i \<or> fst r \<le> i \<and> i < snd r"
  by (auto simp: covered_def)

lemma merge_range_step:
  assumes "separated 0 merged" and "fst r < snd r"
    and "\<And>p. last_opt merged = Some p \<Longrightarrow> fst p \<le> fst r"
  shows "separated 0 (merge_range r merged)
     \<and> covered (merge_range r merged) = (\<lambda>i. covered merged i \<or> fst r \<le> i \<and> i < snd r)
     \<and> (\<exists>p. last_opt (merge_range r merged) = Some p \<and> fst p \<le> fst r)"
proof (cases merged rule: rev_cases)
  case Nil
  with assms(2) show ?thesis by (auto simp: merge_range_def covered_def last_opt_def fun_eq_iff)
next
  case (snoc before p)
  then have last: "last_opt merged = Some p" by simp
  show ?thesis
  proof (cases "fst r \<le> snd p")
    case True
    then have "merge_range r merged = before @ [(fst p, max (snd p) (snd r))]"
      using last snoc by (simp add: merge_range_def)
    with assms last snoc True show ?thesis
      by (auto simp: separated_snoc covered_snoc fun_eq_iff split: option.splits)
  next
    case False
    then have "merge_range r merged = merged @ [r]" using last by (simp add: merge_range_def)
    with assms(1,2) last False show ?thesis by (simp add: separated_snoc covered_snoc fun_eq_iff)
  qed
qed

lemma merge_ranges:
  "\<lbrakk>sorted (map fst rs); \<forall>r \<in> set rs. fst r < snd r; separated 0 merged;
    \<And>p r. last_opt merged = Some p \<Longrightarrow> r \<in> set rs \<Longrightarrow> fst p \<le> fst r\<rbrakk> \<Longrightarrow>
   separated 0 (fold merge_range rs merged)
   \<and> covered (fold merge_range rs merged) = (\<lambda>i. covered merged i \<or> covered rs i)"
proof (induction rs arbitrary: merged)
  case (Cons r rs)
  have step: "separated 0 (merge_range r merged)"
    "covered (merge_range r merged) = (\<lambda>i. covered merged i \<or> fst r \<le> i \<and> i < snd r)"
    "\<exists>p. last_opt (merge_range r merged) = Some p \<and> fst p \<le> fst r"
    using merge_range_step [of merged r] Cons.prems by auto
  have "fst p \<le> fst q" if "last_opt (merge_range r merged) = Some p" "q \<in> set rs" for p q
    using that step(3) Cons.prems(1) by fastforce
  with Cons.IH [OF _ _ step(1)] Cons.prems(1,2) show ?case
    by (auto simp: step(2) covered_Cons fun_eq_iff)
qed (simp add: covered_def fun_eq_iff)

lemma covered_bound:
  "covered rs i \<Longrightarrow> \<forall>r \<in> set rs. snd r \<le> n \<Longrightarrow> i < n"
  by (force simp: covered_def)

lemma separated_bound:
  assumes "separated low rs" and "\<And>i. covered rs i \<Longrightarrow> i < n" and "r \<in> set rs"
  shows "snd r \<le> n"
proof -
  have "fst r < snd r" using assms(1,3) by (induction low rs rule: separated.induct) auto
  then have "covered rs (snd r - 1)" using assms(3) by (force simp: covered_def)
  with assms(2) \<open>fst r < snd r\<close> show ?thesis by fastforce
qed

text \<open>C37: Whatever order the unstable sort leaves ranges of equal start in, rendering replaces every
  maximal run of covered bytes by one marker and keeps every other byte.\<close>

theorem render_masks:
  assumes ok: "list_all (range_ok source) ranges"
    and perm: "mset sorted_ranges = mset ranges" "sorted (map fst sorted_ranges)"
  shows "render_loop source 0 (fold merge_range sorted_ranges []) = mask (covered ranges) False 0 source"
proof -
  let ?merged = "fold merge_range sorted_ranges []"
  have same: "set sorted_ranges = set ranges" using perm(1) by (rule mset_eq_setD)
  have wf: "\<forall>r \<in> set sorted_ranges. fst r < snd r" "\<forall>r \<in> set ranges. snd r \<le> length source"
    using ok same by (auto simp: list_all_iff range_ok_def)
  have "separated 0 ?merged \<and> covered ?merged = (\<lambda>i. covered [] i \<or> covered sorted_ranges i)"
    by (rule merge_ranges [OF perm(2) wf(1)]) simp_all
  then have merged: "separated 0 ?merged" "covered ?merged = covered ranges"
    using same by (auto simp: covered_def fun_eq_iff)
  then have "\<forall>r \<in> set ?merged. snd r \<le> length source"
    using separated_bound [OF merged(1)] covered_bound [OF _ wf(2)] by auto
  then show ?thesis using render_loop_mask [OF merged(1), of 0 False source] merged(2) by simp
qed

theorem render_masks_witness:
  "render_loop ''a: secret!'' 0 (fold merge_range [(3, 6), (3, 4), (6, 9)] []) = ''a: [REDACTED]!''
   \<and> mask (covered [(6, 9), (3, 4), (3, 6)]) False 0 ''a: secret!'' = ''a: [REDACTED]!''"
proof -
  have "list_all (range_ok ''a: secret!'') [(6, 9), (3, 4), (3, 6)]" by code_simp
  then have "render_loop ''a: secret!'' 0 (fold merge_range [(3, 6), (3, 4), (6, 9)] []) =
      mask (covered [(6, 9), (3, 4), (3, 6)]) False 0 ''a: secret!''"
    by (rule render_masks) simp_all
  moreover have "render_loop ''a: secret!'' 0 (fold merge_range [(3, 6), (3, 4), (6, 9)] []) = ''a: [REDACTED]!''"
    by code_simp
  ultimately show ?thesis by simp
qed

section \<open>The output\<close>

abbreviation terminal_safe :: "nat \<Rightarrow> bool" where
  "terminal_safe u \<equiv> \<not> is_control u \<and> \<not> is_unicode_format_control u"

lemma safe_ascii:
  "(\<And>c. c \<in> set s \<Longrightarrow> 32 \<le> byte c \<and> byte c < 0x7F) \<Longrightarrow> text_of terminal_safe s"
  by (rule text_of_ascii) (fastforce simp: is_control_def is_unicode_format_control_def)

lemma safe_hex_upper: "text_of terminal_safe (show_hex_upper n)"
proof (rule safe_ascii)
  fix c assume "c \<in> set (show_hex_upper n)"
  then obtain e where e: "e \<in> set (nat_radix 16 n)" "c = (if is_ascii_lowercase e then char_of (byte e - 32) else e)"
    by (auto simp: show_hex_upper_def show_hex_def)
  obtain d where "d < 16" "e = digit_char d" using nat_radix_digits [of 16 e n] e(1) by auto
  with digit_char_byte [of d] e(2) show "32 \<le> byte c \<and> byte c < 0x7F"
    by (auto simp: is_ascii_lowercase_def)
qed

lemma safe_sanitize_char: "is_scalar u \<Longrightarrow> text_of terminal_safe (sanitize_char u)"
proof -
  assume u: "is_scalar u"
  have "text_of terminal_safe [backslash, CHR ''n'']" "text_of terminal_safe [backslash, CHR ''r'']"
    "text_of terminal_safe [backslash, CHR ''t'']" "text_of terminal_safe [backslash, CHR ''u'', CHR 0x7B]"
    "text_of terminal_safe [CHR 0x7D]"
    by (auto intro!: safe_ascii)
  then show ?thesis
    using safe_hex_upper [of u] u text_of_append
    by (simp add: sanitize_char_def text_of_char del: append_Cons)
qed

lemma safe_sanitized: "text_of terminal_safe (sanitize_terminal_text s)"
  unfolding sanitize_terminal_text_def using chars_scalar [of s]
  by (auto intro!: text_of_concat safe_sanitize_char simp: list_all_iff)

lemma utf8_encode_tail:
  "\<lbrakk>is_scalar u; 0 < k; k < length (utf8_encode u)\<rbrakk> \<Longrightarrow> is_continuation (utf8_encode u ! k)"
  by (auto simp: utf8_encode_def nth_Cons' is_continuation_def split: if_splits)

lemma from_chars_Cons: "from_chars (u # us) = map char_of (utf8_encode u) @ from_chars us"
  by (simp add: from_chars_def)

lemma text_of_take:
  assumes "text_of ok s" and "is_char_boundary s i"
  shows "text_of ok (take i s)"
proof -
  obtain us where "s = from_chars us" "list_all is_scalar us" "list_all ok us"
    using assms(1) by (auto simp: text_of_def)
  with assms(2) show ?thesis
  proof (induction us arbitrary: s i)
    case Nil
    then show ?case by (simp add: from_chars_def)
  next
    case (Cons u us)
    let ?e = "map char_of (utf8_encode u) :: string"
    have s: "s = ?e @ from_chars us" using Cons.prems(2) by (simp add: from_chars_Cons)
    have u: "is_scalar u" "ok u" using Cons.prems by simp_all
    show ?case
    proof (cases "length ?e \<le> i")
      case True
      have "is_char_boundary (from_chars us) (i - length ?e)"
        using Cons.prems(1) True unfolding s is_char_boundary_def by (auto simp: nth_append)
      then have "text_of ok (take (i - length ?e) (from_chars us))"
        using Cons.IH Cons.prems(3,4) by simp
      moreover have "text_of ok ?e" using text_of_char [of u ok] u by (simp add: from_chars_def)
      ultimately show ?thesis using True by (auto simp: s intro: text_of_append)
    next
      case False
      have "utf8_encode u ! i < 256" if "i < length (utf8_encode u)"
        using utf8_encode_bound [OF is_scalar_less [OF u(1)]] that by simp
      then have "i = 0"
        using Cons.prems(1) False utf8_encode_tail [OF u(1), of i]
        unfolding s is_char_boundary_def by (auto simp: nth_append)
      then show ?thesis by simp
    qed
  qed
qed


abbreviation demo_detail :: string where
  "demo_detail \<equiv> ''api_key=StableSecret'' @ newline @ ''visible''"

lemma demo_detail_redacted:
  "redact_audit_detail demo_detail = Ok (''api_key=[REDACTED]'' @ [backslash] @ ''nvisible'')"
  by code_simp


section \<open>Inputs that panic\<close>

lemma find_exact_total: "length needle \<le> length bytes \<Longrightarrow> \<exists>found. find_exact bytes start needle = Ok found"
  by (simp add: find_exact_def)

lemma userinfo_total: "3 \<le> length source \<Longrightarrow> \<exists>r. mark_url_userinfo source cursor ranges = Ok r"
proof (induction source cursor ranges rule: mark_url_userinfo.induct)
  case (1 source cursor ranges)
  obtain found where found: "find_exact source cursor ''://'' = Ok found"
    using find_exact_total [of "''://''" source cursor] 1(2) by auto
  show ?case
  proof (cases found)
    case None
    with found show ?thesis by (subst mark_url_userinfo.simps) simp
  next
    case (Some separator)
    then show ?thesis
      using found 1(1) [OF found Some refl refl refl 1(2)] by (subst mark_url_userinfo.simps) (simp add: Let_def)
  qed
qed

text \<open>C40: Redaction panics exactly on the inputs whose decoded text is shorter than three bytes: the search
  for a URL separator subtracts its length from that of the text unchecked.\<close>

theorem redaction_panics_iff:
  "redact_audit_detail input = Err RedactionPanic \<longleftrightarrow> length (lossy_source input) < 3"
proof (cases "length (lossy_source input) < 3")
  case True
  then have "find_exact (lossy_source input) 0 ''://'' = Err RedactionPanic" by (simp add: find_exact_def)
  then have "mark_url_userinfo (lossy_source input) 0 ranges = Err RedactionPanic" for ranges
    by (subst mark_url_userinfo.simps) simp
  with True show ?thesis by (simp add: redact_audit_detail_def redaction_ranges_def Let_def)
next
  case False
  then have "\<exists>r. mark_url_userinfo (lossy_source input) 0 ranges = Ok r" for ranges
    by (intro userinfo_total) simp
  then have "redact_audit_detail input \<noteq> Err RedactionPanic"
    by (auto simp: redact_audit_detail_def redaction_ranges_def Let_def and_then_Inl_iff
        dest: spec [of _ "mark_authentication_schemes _ _ _"]) (metis sum.distinct(1))
  with False show ?thesis by simp
qed

section \<open>Sensitive headers are covered\<close>

lemma covered_grown: "grown source a b \<Longrightarrow> covered a i \<Longrightarrow> covered b i"
  by (auto simp: grown_def covered_def)

lemma add_covers:
  assumes "a \<le> i" and "i < b" and "i < length source"
  shows "covered (RedactionRanges_add source a b ranges) i"
  using floor_boundary_props [of source "min a (length source)"] assms
    ceil_boundary_props [of "min b (length source)" source]
  by (auto simp: RedactionRanges_add_def Let_def covered_def)

definition line_start :: "string \<Rightarrow> nat \<Rightarrow> bool" where
  "line_start bytes p \<longleftrightarrow> p = 0 \<or> bytes ! (p - 1) = CHR 0x0A
     \<or> bytes ! (p - 1) = CHR 0x0D \<and> get_opt bytes p \<noteq> Some CHR 0x0A"

definition is_line :: "string \<Rightarrow> nat \<Rightarrow> nat \<Rightarrow> bool" where
  "is_line bytes p e \<longleftrightarrow> line_start bytes p \<and> p \<le> e \<and> e \<le> length bytes
     \<and> (\<forall>i. p \<le> i \<and> i < e \<longrightarrow> \<not> is_line_break (bytes ! i))
     \<and> (e < length bytes \<longrightarrow> is_line_break (bytes ! e))"

lemma line_ranges_loop_complete:
  "\<lbrakk>is_line bytes p e; p = start \<and> cursor \<le> e \<or> cursor < p; start \<le> cursor; cursor \<le> length bytes\<rbrakk> \<Longrightarrow>
   (p, e) \<in> set (line_ranges_loop bytes start cursor)"
proof (induction bytes start cursor rule: line_ranges_loop.induct)
  case (1 bytes start cursor)
  note line = 1(3) [unfolded is_line_def]
  show ?case
  proof (cases "cursor < length bytes")
    case False
    with 1(4-6) line show ?thesis by (subst line_ranges_loop.simps) auto
  next
    case True
    show ?thesis
    proof (cases "is_line_break (bytes ! cursor)")
      case brk: True
      let ?crlf = "bytes ! cursor = CHR 0x0D \<and> get_opt bytes (cursor + 1) = Some CHR 0x0A"
      let ?next = "if ?crlf then cursor + 2 else cursor + 1"
      have bound: "?next \<le> length bytes" using True by auto
      show ?thesis
      proof (cases "p = start \<and> cursor \<le> e")
        case True
        with line brk 1(5) have "\<not> cursor < e" by blast
        with True have "e = cursor" by simp
        with True \<open>cursor < length bytes\<close> brk show ?thesis
          by (subst line_ranges_loop.simps) (simp add: Let_def)
      next
        case False
        then have "cursor < p" using 1(4) by blast
        moreover have "\<not> (?crlf \<and> p = cursor + 1)" using line by (auto simp: line_start_def)
        ultimately have "p = ?next \<and> ?next \<le> e \<or> ?next < p" using line by auto
        then have "(p, e) \<in> set (line_ranges_loop bytes ?next ?next)"
          using 1(1) [OF True brk refl 1(3) _ order_refl bound] by simp
        then show ?thesis using True brk by (subst line_ranges_loop.simps) (simp add: Let_def)
      qed
    next
      case plain: False
      have "p = start \<and> cursor + 1 \<le> e \<or> cursor + 1 < p"
      proof (cases "p = start \<and> cursor \<le> e")
        case True
        then show ?thesis using line plain \<open>cursor < length bytes\<close> by (metis Suc_eq_plus1 Suc_leI le_neq_implies_less)
      next
        case False
        then have "cursor < p" using 1(4) by blast
        moreover have "p \<noteq> cursor + 1" using line plain by (auto simp: line_start_def is_line_break_def)
        ultimately show ?thesis by simp
      qed
      then have "(p, e) \<in> set (line_ranges_loop bytes start (cursor + 1))"
        using 1(2) [OF True plain 1(3)] 1(5) True by simp
      then show ?thesis using True plain by (subst line_ranges_loop.simps) simp
    qed
  qed
qed

lemma line_ranges_complete: "is_line bytes p e \<Longrightarrow> (p, e) \<in> set (line_ranges bytes)"
  unfolding line_ranges_def
  by (rule line_ranges_loop_complete) (auto simp: is_line_def)

text \<open>Lines come in order.\<close>

lemma line_ranges_loop_low:
  "\<lbrakk>r \<in> set (line_ranges_loop bytes start cursor); start \<le> cursor\<rbrakk> \<Longrightarrow> start \<le> fst r"
proof (induction bytes start cursor rule: line_ranges_loop.induct)
  case (1 bytes start cursor)
  then show ?case
    by (subst (asm) (3) line_ranges_loop.simps) (fastforce simp: Let_def split: if_splits)
qed

lemma line_ranges_loop_ordered:
  "start \<le> cursor \<Longrightarrow> sorted_wrt (\<lambda>a b. snd a \<le> fst b) (line_ranges_loop bytes start cursor)"
proof (induction bytes start cursor rule: line_ranges_loop.induct)
  case (1 bytes start cursor)
  have "cursor \<le> fst r" if "r \<in> set (line_ranges_loop bytes n n)" "cursor < n" for r n
    using line_ranges_loop_low [OF that(1)] that(2) by simp
  with 1 show ?case by (subst line_ranges_loop.simps) (auto simp: Let_def)
qed

lemma header_range_within:
  assumes "header_range bytes lines index line = Some (a, b)"
  shows "a < snd line \<and> (b = snd line \<or> b = length bytes)"
proof -
  let ?s = "skip_ascii_space bytes (fst line) (snd line)"
  let ?k = "skip_while (\<lambda>i. is_key_byte (bytes ! i)) ?s (snd line)"
  have "?s \<le> ?k" "?k \<le> skip_ascii_space bytes ?k (snd line)"
    using skip_while_ge by (simp_all add: skip_ascii_space_def)
  with assms show ?thesis
    by (auto simp: header_range_def Let_def split: if_splits option.splits)
qed

lemma header_loop_covers:
  "\<lbrakk>rest = before @ line # after; header_range source lines (index + length before) line = Some (a, b);
    sorted_wrt (\<lambda>x y. snd x \<le> fst y) rest; fst line \<le> a; snd line \<le> length source; a \<le> i; i < snd line\<rbrakk> \<Longrightarrow>
   covered (header_loop source lines index rest ranges) i"
proof (induction before arbitrary: rest index ranges)
  case Nil
  have "i < b" using header_range_within [OF Nil.prems(2)] Nil.prems(5,7) by auto
  then have "covered (RedactionRanges_add source a b ranges) i"
    using Nil.prems(5-7) by (intro add_covers) simp_all
  then show ?case
    using Nil.prems(1,2) covered_grown [OF header_loop_grown] by (auto simp: Let_def)
next
  case (Cons l before)
  have sorted: "sorted_wrt (\<lambda>x y. snd x \<le> fst y) (before @ line # after)" "snd l \<le> fst line"
    using Cons.prems(1,3) by simp_all
  have rest: "covered (header_loop source lines (index + 1) (before @ line # after) ranges') i" for ranges'
    using Cons.IH [OF refl _ sorted(1) Cons.prems(4-7), of "index + 1" ranges'] Cons.prems(2) by simp
  show ?case
  proof (cases "header_range source lines index l")
    case None
    with rest show ?thesis by (simp add: Cons.prems(1))
  next
    case (Some r)
    obtain a' b' where r: "r = (a', b')" by fastforce
    have "a' < snd l" using header_range_within Some r by blast
    then have "covered (RedactionRanges_add source a' (length source) ranges) i"
      using sorted(2) Cons.prems(4-7) by (intro add_covers) simp_all
    then show ?thesis using rest Some r by (simp add: Cons.prems(1) Let_def)
  qed
qed

lemma key_byte_visible: "is_key_byte c \<Longrightarrow> \<not> is_blank c \<and> \<not> is_line_break c"
  by (auto simp: is_key_byte_def is_blank_def is_line_break_def is_ascii_alphanumeric_def is_ascii_alphabetic_def
      is_ascii_lowercase_def is_ascii_uppercase_def is_ascii_digit_def)

lemma blank_no_break: "is_blank c \<Longrightarrow> \<not> is_line_break c"
  by (auto simp: is_blank_def is_line_break_def)

lemma nth_between: "length a \<le> i \<Longrightarrow> i < length (a @ b) \<Longrightarrow> (a @ b @ c) ! i \<in> set b"
  by (auto simp: nth_append less_diff_conv2)

text \<open>A field of the form \<open>blanks key blanks : value\<close> on a line of its own is recognized.\<close>

lemma header_recognized:
  assumes source: "source = pre @ bl @ key @ bl' @ CHR '':'' # val @ post"
    and line: "line = (length pre, length (pre @ bl @ key @ bl' @ CHR '':'' # val))"
    and blank: "list_all is_blank bl" "list_all is_blank bl'"
    and key: "list_all is_key_byte key" "normalized_key key = Some k" "k \<in> set sensitive_header_keys"
  shows "\<exists>b. header_range source lines index line = Some (length (pre @ bl), b)"
proof -
  let ?e = "length (pre @ bl @ key @ bl' @ CHR '':'' # val)"
  have nonempty: "key \<noteq> []" using key(2) by (auto simp: normalized_key_def)
  note key_byte = key_byte_visible
  have s: "skip_ascii_space source (length pre) ?e = length (pre @ bl)"
    unfolding skip_ascii_space_def
  proof (rule skip_while_eq)
    show "is_blank (source ! i)" if "length pre \<le> i" "i < length (pre @ bl)" for i
      using nth_between [OF that] blank(1) by (auto simp: source list_all_iff)
    show "\<not> is_blank (source ! length (pre @ bl))"
      using nonempty key(1) key_byte by (cases key) (simp_all add: source nth_append)
  qed simp_all
  have k: "skip_while (\<lambda>i. is_key_byte (source ! i)) (length (pre @ bl)) ?e = length (pre @ bl @ key)"
  proof (rule skip_while_eq)
    show "is_key_byte (source ! i)" if "length (pre @ bl) \<le> i" "i < length (pre @ bl @ key)" for i
      using nth_between [of "pre @ bl" i key] that key(1) by (auto simp: source list_all_iff)
    show "\<not> is_key_byte (source ! length (pre @ bl @ key))"
      using blank(2) key_byte
      by (cases bl') (auto simp: source nth_append is_key_byte_def is_ascii_alphanumeric_def is_ascii_alphabetic_def
          is_ascii_lowercase_def is_ascii_uppercase_def is_ascii_digit_def)
  qed simp_all
  have c: "skip_ascii_space source (length (pre @ bl @ key)) ?e = length (pre @ bl @ key @ bl')"
    unfolding skip_ascii_space_def
  proof (rule skip_while_eq)
    show "is_blank (source ! i)" if "length (pre @ bl @ key) \<le> i" "i < length (pre @ bl @ key @ bl')" for i
      using nth_between [of "pre @ bl @ key" i bl'] that blank(2) by (auto simp: source list_all_iff)
  qed (simp_all add: source nth_append is_blank_def)
  have colon: "source ! length (pre @ bl @ key @ bl') = CHR '':''" by (simp add: source nth_append)
  have cut: "take (length (pre @ bl @ key) - length (pre @ bl)) (drop (length (pre @ bl)) source) = key"
    by (simp add: source)
  show ?thesis
    unfolding header_range_def Let_def line fst_conv snd_conv s k c colon cut
    using key(2,3) by simp
qed

text \<open>C38: A line that is an authorization or cookie header, in whatever case and spelling the key
  normalization accepts, is covered from the key to the end of the line, so that no byte of its value is
  rendered.\<close>

theorem sensitive_header_hidden:
  assumes ranges: "redaction_ranges source truncated = Ok ranges"
    and source: "source = pre @ bl @ key @ bl' @ CHR '':'' # val @ post"
    and line: "pre = [] \<or> is_line_break (last pre)" "post = [] \<or> is_line_break (hd post)"
      "list_all (\<lambda>c. \<not> is_line_break c) val"
    and blank: "list_all is_blank bl" "list_all is_blank bl'"
    and key: "list_all is_key_byte key" "normalized_key key = Some k" "k \<in> set sensitive_header_keys"
    and i: "length (pre @ bl) \<le> i" "i < length (pre @ bl @ key @ bl' @ CHR '':'' # val)"
  shows "covered ranges i"
proof -
  let ?field = "bl @ key @ bl' @ CHR '':'' # val"
  let ?p = "length pre" and ?e = "length (pre @ ?field)"
  have "list_all (\<lambda>c. \<not> is_line_break c) bl" "list_all (\<lambda>c. \<not> is_line_break c) bl'"
    "list_all (\<lambda>c. \<not> is_line_break c) key"
    using blank key(1) key_byte_visible blank_no_break by (auto elim!: list.pred_mono_strong)
  moreover have "\<not> is_line_break CHR '':''" by (simp add: is_line_break_def)
  ultimately have "list_all (\<lambda>c. \<not> is_line_break c) ?field" using line(3) by simp
  then have no_break: "\<not> is_line_break c" if "c \<in> set ?field" for c
    using that unfolding list_all_iff by blast
  have src: "source = pre @ ?field @ post" by (simp add: source)
  have inside: "source ! j \<in> set ?field" if "?p \<le> j" "j < ?e" for j
    unfolding src by (rule nth_between [OF that])
  have first: "source ! ?p \<in> set ?field" by (rule inside) simp_all
  have "source ! (?p - 1) = last pre" if "pre \<noteq> []"
    using that unfolding src by (simp add: nth_append last_conv_nth)
  moreover have "source ! ?p \<noteq> CHR 0x0A" using no_break [OF first] by (auto simp: is_line_break_def)
  ultimately have "line_start source ?p"
    using line(1) by (cases "pre = []") (auto simp: line_start_def is_line_break_def)
  moreover have "\<not> is_line_break (source ! j)" if "?p \<le> j" "j < ?e" for j
    using inside [OF that] no_break by blast
  moreover have "is_line_break (source ! ?e)" if "?e < length source"
    using that line(2) by (cases post) (simp_all add: src nth_append)
  ultimately have "is_line source ?p ?e" by (auto simp: is_line_def src)
  then have "(?p, ?e) \<in> set (line_ranges source)" by (rule line_ranges_complete)
  then obtain before after where split: "line_ranges source = before @ (?p, ?e) # after"
    by (auto simp: in_set_conv_decomp)
  obtain b where "header_range source (line_ranges source) (0 + length before) (?p, ?e) = Some (length (pre @ bl), b)"
    using header_recognized [OF source refl blank key] by auto
  moreover have "sorted_wrt (\<lambda>x y. snd x \<le> fst y) (line_ranges source)"
    by (simp add: line_ranges_def line_ranges_loop_ordered)
  ultimately have "covered (mark_sensitive_headers source []) i"
    unfolding mark_sensitive_headers_def
    by (rule header_loop_covers [OF split]) (use i in \<open>simp_all add: src\<close>)
  then show ?thesis using redaction_ranges_steps [OF ranges] covered_grown by blast
qed

abbreviation demo_header :: string where
  "demo_header \<equiv> ''x'' @ newline @ ''Authorization: Bearer abc'' @ newline @ ''y''"

lemma demo_header_ranges: "redaction_ranges demo_header False = Ok [(2, 27)]"
  by code_simp

theorem sensitive_header_hidden_witness:
  "redaction_ranges demo_header False = Ok [(2, 27)] \<and> list_all (covered [(2, 27)]) [2..<27]"
proof -
  have key: "list_all is_key_byte ''Authorization''" "normalized_key ''Authorization'' = Some ''authorization''"
    "''authorization'' \<in> set sensitive_header_keys"
    by code_simp+
  have parts: "demo_header = (''x'' @ newline) @ [] @ ''Authorization'' @ [] @ CHR '':'' # '' Bearer abc'' @ (newline @ ''y'')"
    by (simp add: newline_def)
  have "covered [(2, 27)] i" if "i \<in> {2..<27}" for i
    by (rule sensitive_header_hidden [OF demo_header_ranges parts _ _ _ _ _ key])
      (use that in \<open>simp_all add: newline_def is_line_break_def\<close>)
  then show ?thesis using demo_header_ranges by (simp add: list_all_iff)
qed

section \<open>Tokens are covered\<close>

definition token_at :: "string \<Rightarrow> nat \<Rightarrow> nat \<Rightarrow> bool" where
  "token_at source a b \<longleftrightarrow> a < b \<and> b \<le> length source \<and> source ! a \<noteq> CHR ''.''
     \<and> list_all (\<lambda>i. is_jwt_byte (source ! i)) [a..<b]
     \<and> (a = 0 \<or> \<not> is_jwt_byte (source ! (a - 1))) \<and> (b = length source \<or> \<not> is_jwt_byte (source ! b))"

lemma mark_jwts_covers:
  "\<lbrakk>token_at source a b; looks_like_jwt (take (b - a) (drop a source)); cursor \<le> a; a \<le> i; i < b\<rbrakk> \<Longrightarrow>
   covered (mark_jwts source cursor ranges) i"
proof (induction source cursor ranges rule: mark_jwts.induct)
  case (1 source cursor ranges)
  note tok = 1(3) [unfolded token_at_def list_all_iff]
  let ?stop = "skip_while (\<lambda>i. is_jwt_byte (source ! i)) cursor (length source)"
  have here: "cursor < length source" using tok 1(5) by simp
  show ?case
  proof (cases "cursor = a")
    case True
    have "?stop = b" unfolding True by (rule skip_while_eq) (use tok in auto)
    moreover have "covered (RedactionRanges_add source a b ranges) i"
      using 1(6,7) tok by (intro add_covers) simp_all
    ultimately show ?thesis
      using True here tok 1(4) covered_grown [OF jwts_grown] by (subst mark_jwts.simps) (simp add: Let_def)
  next
    case False
    then have less: "cursor < a" using 1(5) by simp
    show ?thesis
    proof (cases "\<not> is_jwt_byte (source ! cursor) \<or> source ! cursor = CHR ''.''")
      case True
      then show ?thesis using here less 1(1) [OF here True 1(3,4)] 1(6,7) by (subst mark_jwts.simps) simp
    next
      case jwt: False
      have "?stop \<le> a"
      proof (rule ccontr)
        assume "\<not> ?stop \<le> a"
        then have "is_jwt_byte (source ! (a - 1))"
          using skip_while_run [of cursor "a - 1" "\<lambda>i. is_jwt_byte (source ! i)" "length source"] less by simp
        with tok less show False by simp
      qed
      then show ?thesis
        using here jwt 1(2) [OF here jwt refl 1(3,4) _ 1(6,7)] by (subst mark_jwts.simps) (simp add: Let_def)
    qed
  qed
qed

text \<open>A run of token characters with three segments of at least eight characters each, the shape of a
  JSON web token, is covered wherever it stands in the text.\<close>

lemma tokens_hidden:
  assumes ranges: "redaction_ranges source truncated = Ok ranges"
    and token: "token_at source a b" "looks_like_jwt (take (b - a) (drop a source))"
    and i: "a \<le> i" "i < b"
  shows "covered ranges i"
proof -
  have "covered (mark_jwts source 0 before) i" for before
    using mark_jwts_covers [OF token _ i] by simp
  then show ?thesis using redaction_ranges_steps [OF ranges] covered_grown by blast
qed

abbreviation demo_token :: string where
  "demo_token \<equiv> ''t eyJhbGci.eyJzdWIi.c2lnbmVk x''"

text \<open>A full stop after a token is part of the run and makes a fourth segment: the token stays.\<close>

theorem trailing_dot_kept:
  "redact_audit_detail ''eyJhbGci.eyJzdWIi.c2lnbmVk.'' = Ok ''eyJhbGci.eyJzdWIi.c2lnbmVk.''"
  by code_simp

end
