(* ===== verification/Pam_Core.thy ===== *)
theory Pam_Core
  imports Pam_Text Pam_System
begin

text \<open>
  The core crate (\<^verbatim>\<open>pam_core\<close>): caller credentials and the reserved daemon scope
  (\<^verbatim>\<open>identity.rs\<close>), evidence handles and content digests (\<^verbatim>\<open>evidence.rs\<close>), and the
  per-project queue (\<^verbatim>\<open>queue.rs\<close>).
\<close>

section \<open>Identities\<close>

type_synonym IdempotencyKey = string
type_synonym RequestId = string
type_synonym CallerCredential = string

definition MAX_CALLER_CREDENTIAL_LENGTH :: nat where
  "MAX_CALLER_CREDENTIAL_LENGTH = 256"

definition CallerCredential_is_valid :: "string \<Rightarrow> bool" where
  "CallerCredential_is_valid secret \<longleftrightarrow>
     secret \<noteq> [] \<and> length secret \<le> MAX_CALLER_CREDENTIAL_LENGTH"

definition DAEMON_SCOPE_PROJECT_ID :: string where
  "DAEMON_SCOPE_PROJECT_ID = ''daemon''"

definition daemon_scope :: string where
  "daemon_scope = DAEMON_SCOPE_PROJECT_ID"

definition is_daemon_scope :: "string \<Rightarrow> bool" where
  "is_daemon_scope project_id \<longleftrightarrow> project_id = DAEMON_SCOPE_PROJECT_ID"

section \<open>Evidence handles\<close>

definition EVIDENCE_PREFIX :: string where
  "EVIDENCE_PREFIX = ''evidence://''"

definition MAX_EVIDENCE_HANDLE_LENGTH :: nat where
  "MAX_EVIDENCE_HANDLE_LENGTH = 512"

type_synonym EvidenceHandle = string

datatype InvalidEvidenceHandle = InvalidEvidenceHandle

definition handle_byte :: "char \<Rightarrow> bool" where
  "handle_byte c \<longleftrightarrow> is_ascii_lowercase c \<or> is_ascii_digit c \<or> c \<in> set ''-_.~''"

definition handle_segment_invalid :: "string \<Rightarrow> bool" where
  "handle_segment_invalid segment \<longleftrightarrow>
     segment = [] \<or> segment = ''.'' \<or> segment = ''..'' \<or> \<not> list_all handle_byte segment"

definition EvidenceHandle_parse :: "string \<Rightarrow> InvalidEvidenceHandle + EvidenceHandle" where
  "EvidenceHandle_parse handle =
     (case strip_prefix EVIDENCE_PREFIX handle of
        None \<Rightarrow> Err InvalidEvidenceHandle
      | Some uri_path \<Rightarrow>
          if length handle > MAX_EVIDENCE_HANDLE_LENGTH
            \<or> length (split_on (\<lambda>c. c = CHR ''/'') uri_path) < 2
            \<or> list_ex handle_segment_invalid (split_on (\<lambda>c. c = CHR ''/'') uri_path)
          then Err InvalidEvidenceHandle else Ok handle)"

text \<open>\<open>hyphenated\<close> is \<^verbatim>\<open>Uuid::hyphenated\<close> of the crate \<^verbatim>\<open>uuid\<close>.\<close>

definition EvidenceHandle_from_uuid :: "('uuid \<Rightarrow> string) \<Rightarrow> 'uuid \<Rightarrow> EvidenceHandle" where
  "EvidenceHandle_from_uuid hyphenated u = EVIDENCE_PREFIX @ ''pam/'' @ hyphenated u"

section \<open>Content digests\<close>

definition SHA256_PREFIX :: string where
  "SHA256_PREFIX = ''sha256:''"

definition SHA256_HEX_LENGTH :: nat where
  "SHA256_HEX_LENGTH = 64"

type_synonym ContentDigest = string

datatype InvalidContentDigest = InvalidContentDigest

definition from_sha256 :: "string \<Rightarrow> ContentDigest" where
  "from_sha256 bytes = SHA256_PREFIX @ concat (map (\<lambda>b. show_hex2 (byte b)) bytes)"

definition digest_hex_byte :: "char \<Rightarrow> bool" where
  "digest_hex_byte c \<longleftrightarrow> is_ascii_digit c \<or> 97 \<le> byte c \<and> byte c \<le> 102"

definition ContentDigest_parse :: "string \<Rightarrow> InvalidContentDigest + ContentDigest" where
  "ContentDigest_parse digest =
     (case strip_prefix SHA256_PREFIX digest of
        None \<Rightarrow> Err InvalidContentDigest
      | Some hex \<Rightarrow>
          if length hex \<noteq> SHA256_HEX_LENGTH \<or> \<not> list_all digest_hex_byte hex
          then Err InvalidContentDigest else Ok digest)"

definition sha256_hex :: "ContentDigest \<Rightarrow> string" where
  "sha256_hex digest = drop (length SHA256_PREFIX) digest"

record EvidenceReference =
  er_handle :: EvidenceHandle
  er_offset :: u64
  er_length :: u64

section \<open>Digests and handles round trip\<close>

lemma show_hex2_byte:
  "length (show_hex2 (byte b)) = 2 \<and> list_all digest_hex_byte (show_hex2 (byte b))"
proof -
  have "digest_hex_byte (digit_char d)" if "d < 16" for d
    using that by (auto simp: digit_char_def digest_hex_byte_def is_ascii_digit_def)
  moreover have "byte b div 16 < 16" by (rule less_mult_imp_div_less) simp
  ultimately show ?thesis by (simp add: show_hex2_def)
qed

lemma show_hex2_inj: "show_hex2 (byte a) = show_hex2 (byte b) \<Longrightarrow> a = b"
proof -
  assume eq: "show_hex2 (byte a) = show_hex2 (byte b)"
  have small: "byte c div 16 < 16" for c
    by (rule less_mult_imp_div_less) simp
  have "byte a div 16 = byte b div 16" "byte a mod 16 = byte b mod 16"
    using eq digit_char_inj small by (auto simp: show_hex2_def)
  then have "byte a = byte b" by (metis div_mult_mod_eq)
  then show "a = b" by simp
qed

lemma hex_text:
  "length (concat (map (\<lambda>b. show_hex2 (byte b)) bytes)) = 2 * length bytes
   \<and> list_all digest_hex_byte (concat (map (\<lambda>b. show_hex2 (byte b)) bytes))"
  using show_hex2_byte by (induction bytes) auto

lemma hex_text_inj:
  "concat (map (\<lambda>b. show_hex2 (byte b)) xs) = concat (map (\<lambda>b. show_hex2 (byte b)) ys) \<Longrightarrow> xs = ys"
proof (induction xs arbitrary: ys)
  case Nil
  then show ?case by (cases ys) (auto simp: show_hex2_def)
next
  case (Cons x xs)
  then obtain y ys' where ys: "ys = y # ys'" by (cases ys) (auto simp: show_hex2_def)
  with Cons.prems show_hex2_byte show_hex2_inj Cons.IH [of ys'] show ?case
    by (auto simp: append_eq_append_conv)
qed

text \<open>A digest built from 32 hash bytes is accepted by the parser unchanged, gives its 64 hexadecimal
  digits back, and determines the bytes it was built from.\<close>

lemma digest_roundtrip:
  assumes "length bytes = 32"
  shows "ContentDigest_parse (from_sha256 bytes) = Ok (from_sha256 bytes)
     \<and> length (sha256_hex (from_sha256 bytes)) = SHA256_HEX_LENGTH
     \<and> (\<forall>other. from_sha256 other = from_sha256 bytes \<longrightarrow> other = bytes)"
  using assms hex_text [of bytes] hex_text_inj [of _ bytes]
  by (auto simp: ContentDigest_parse_def from_sha256_def sha256_hex_def SHA256_HEX_LENGTH_def)

end
