(* ===== verification/Compact_Log.thy ===== *)
theory Compact_Log
  imports Pam_Core "HOL-Library.List_Lexorder" "HOL-Library.Char_ord" "HOL-Library.Product_Lexorder"
begin

text \<open>
  The log compactor (\<^verbatim>\<open>pam_compact/src/lib.rs\<close>): the source bytes are cut into
  records, progress frames, boilerplate and repetitions are dropped, boundaries, stages and
  failure neighbourhoods are retained, and the result is a list of fragments that name the
  source range they stand for.  Positions (\<^verbatim>\<open>usize\<close>, 64 bits) are \<open>nat\<close>; the \<^verbatim>\<open>u64\<close>
  fields of the result are words.  SHA-256 is the parameter \<open>sha256\<close>.
\<close>

section \<open>Limits and data\<close>

definition ALGORITHM_VERSION :: string where
  "ALGORITHM_VERSION = ''pam-log-compact-v1''"

definition DEFAULT_POLICY_VERSION :: string where
  "DEFAULT_POLICY_VERSION = ''pam-log-policy-v1''"

definition MAX_SOURCE_BYTES :: nat where
  "MAX_SOURCE_BYTES = 64 * 1024 * 1024"

definition MAX_SOURCE_RECORDS :: nat where
  "MAX_SOURCE_RECORDS = 100000"

definition MAX_POLICY_VERSION_BYTES :: nat where
  "MAX_POLICY_VERSION_BYTES = 64"

definition MAX_BOUNDARY_RECORDS :: nat where
  "MAX_BOUNDARY_RECORDS = MAX_SOURCE_RECORDS"

definition MAX_FAILURE_CONTEXT_RECORDS :: nat where
  "MAX_FAILURE_CONTEXT_RECORDS = 64"

definition MAX_BOILERPLATE_RULES :: nat where
  "MAX_BOILERPLATE_RULES = 128"

definition MAX_BOILERPLATE_ID_BYTES :: nat where
  "MAX_BOILERPLATE_ID_BYTES = 64"

definition MAX_BOILERPLATE_TEXT_BYTES :: nat where
  "MAX_BOILERPLATE_TEXT_BYTES = 4 * 1024"

definition MAX_STAGE_BOUNDARIES :: nat where
  "MAX_STAGE_BOUNDARIES = 256"

definition MAX_STAGE_LABEL_BYTES :: nat where
  "MAX_STAGE_LABEL_BYTES = 128"

type_synonym i32 = "32 word"

record SourceEvidence =
  se_handle :: EvidenceHandle
  se_digest :: ContentDigest

record StageBoundary =
  sb_label :: string
  sb_byte_offset :: u64

record LogMetadata =
  lm_exit_status :: "i32 option"
  lm_stage_boundaries :: "StageBoundary list"

record BoilerplateRule =
  br_id :: string
  br_exact_line :: string

record CompactionPolicy =
  cp_version :: string
  cp_boundary_records :: nat
  cp_failure_context_records :: nat
  cp_boilerplate_rules :: "BoilerplateRule list"

definition CompactionPolicy_default :: CompactionPolicy where
  "CompactionPolicy_default =
     \<lparr>cp_version = DEFAULT_POLICY_VERSION, cp_boundary_records = 20,
      cp_failure_context_records = 3, cp_boilerplate_rules = []\<rparr>"

datatype FailureKeyword = Error | Fatal | Panic | Failed

fun FailureKeyword_as_str :: "FailureKeyword \<Rightarrow> string" where
  "FailureKeyword_as_str Error = ''error''"
| "FailureKeyword_as_str Fatal = ''fatal''"
| "FailureKeyword_as_str Panic = ''panic''"
| "FailureKeyword_as_str Failed = ''failed''"

definition FAILURE_KEYWORDS :: "FailureKeyword list" where
  "FAILURE_KEYWORDS = [Error, Fatal, Panic, Failed]"

datatype RetentionReason =
    FirstBoundary
  | LastBoundary
  | AtStage string u64
  | FailureNeighborhood FailureKeyword

datatype OmissionReason =
    OutsideRetentionWindow
  | Repeated
  | SupersededProgress
  | Boilerplate string

datatype FragmentKind = Retained "RetentionReason list" | Omitted OmissionReason u64

record CompactedFragment =
  cf_source :: EvidenceReference
  cf_kind :: FragmentKind
  cf_rendered :: string

record CompactedLog =
  cl_algorithm_version :: string
  cl_policy_version :: string
  cl_policy_digest :: ContentDigest
  cl_source :: SourceEvidence
  cl_exit_status :: "i32 option"
  cl_source_byte_count :: u64
  cl_retained_byte_count :: u64
  cl_source_record_count :: u64
  cl_retained_record_count :: u64
  cl_rendered_text :: string
  cl_fragments :: "CompactedFragment list"

datatype PolicyValidationError =
    PolicyVersion
  | PolicyBoundaryRecords
  | PolicyFailureContextRecords
  | TooManyBoilerplateRules
  | BoilerplateRuleId nat
  | BoilerplateRuleText nat
  | DuplicateBoilerplateRuleId nat
  | DuplicateBoilerplateRuleText nat

datatype MetadataValidationError =
    TooManyStageBoundaries
  | StageLabel nat
  | StageWithoutSource nat
  | StageOffsetOutOfBounds nat u64 u64

datatype CompactError =
    SourceTooLarge u64 u64
  | TooManyRecords u64
  | DigestMismatch ContentDigest ContentDigest
  | InvalidPolicy PolicyValidationError
  | InvalidMetadata MetadataValidationError

datatype FrameKind = Line | Progress

record Record =
  rec_start :: nat
  rec_end :: nat
  rec_display :: string
  rec_frame_kind :: FrameKind

datatype Disposition = Keep "RetentionReason list" | Omit OmissionReason

definition usize_to_u64 :: "nat \<Rightarrow> u64" where
  "usize_to_u64 n = of_nat n"

definition u64_to_usize :: "u64 \<Rightarrow> nat" where
  "u64_to_usize v = unat v"

section \<open>Validation\<close>

definition validate_source_size :: "nat \<Rightarrow> CompactError + unit" where
  "validate_source_size source_bytes =
     fail_if (source_bytes > MAX_SOURCE_BYTES)
       (SourceTooLarge (usize_to_u64 source_bytes) (usize_to_u64 MAX_SOURCE_BYTES))"

definition valid_identifier :: "string \<Rightarrow> nat \<Rightarrow> bool" where
  "valid_identifier name maximum_bytes \<longleftrightarrow>
     name \<noteq> [] \<and> length name \<le> maximum_bytes \<and>
     list_all (\<lambda>c. is_ascii_lowercase c \<or> is_ascii_digit c \<or> c \<in> set ''-_.'') name"

definition validate_rule ::
  "BoilerplateRule list \<Rightarrow> nat \<Rightarrow> BoilerplateRule \<Rightarrow> CompactError + unit" where
  "validate_rule rules index rule =
     and_then (fail_if (\<not> valid_identifier (br_id rule) MAX_BOILERPLATE_ID_BYTES)
       (InvalidPolicy (BoilerplateRuleId index))) (\<lambda>_.
     and_then (fail_if (length (br_exact_line rule) > MAX_BOILERPLATE_TEXT_BYTES
         \<or> has_control (br_exact_line rule)) (InvalidPolicy (BoilerplateRuleText index))) (\<lambda>_.
     and_then (fail_if (list_ex (\<lambda>previous. br_id previous = br_id rule) (take index rules))
       (InvalidPolicy (DuplicateBoilerplateRuleId index))) (\<lambda>_.
     fail_if (list_ex (\<lambda>previous. br_exact_line previous = br_exact_line rule) (take index rules))
       (InvalidPolicy (DuplicateBoilerplateRuleText index)))))"

definition validate_policy :: "CompactionPolicy \<Rightarrow> CompactError + unit" where
  "validate_policy policy =
     and_then (fail_if (\<not> valid_identifier (cp_version policy) MAX_POLICY_VERSION_BYTES)
       (InvalidPolicy PolicyVersion)) (\<lambda>_.
     and_then (fail_if (cp_boundary_records policy > MAX_BOUNDARY_RECORDS)
       (InvalidPolicy PolicyBoundaryRecords)) (\<lambda>_.
     and_then (fail_if (cp_failure_context_records policy > MAX_FAILURE_CONTEXT_RECORDS)
       (InvalidPolicy PolicyFailureContextRecords)) (\<lambda>_.
     and_then (fail_if (length (cp_boilerplate_rules policy) > MAX_BOILERPLATE_RULES)
       (InvalidPolicy TooManyBoilerplateRules)) (\<lambda>_.
     for_each (validate_rule (cp_boilerplate_rules policy)) 0 (cp_boilerplate_rules policy)))))"

definition validate_stage :: "nat \<Rightarrow> nat \<Rightarrow> StageBoundary \<Rightarrow> CompactError + unit" where
  "validate_stage source_bytes index stage =
     and_then (fail_if (sb_label stage = [] \<or> length (sb_label stage) > MAX_STAGE_LABEL_BYTES
         \<or> has_control (sb_label stage)) (InvalidMetadata (StageLabel index))) (\<lambda>_.
     and_then (fail_if (source_bytes = 0) (InvalidMetadata (StageWithoutSource index))) (\<lambda>_.
     fail_if (sb_byte_offset stage > usize_to_u64 source_bytes)
       (InvalidMetadata (StageOffsetOutOfBounds index (sb_byte_offset stage)
          (usize_to_u64 source_bytes)))))"

definition validate_metadata :: "LogMetadata \<Rightarrow> nat \<Rightarrow> CompactError + unit" where
  "validate_metadata metadata source_bytes =
     and_then (fail_if (length (lm_stage_boundaries metadata) > MAX_STAGE_BOUNDARIES)
       (InvalidMetadata TooManyStageBoundaries)) (\<lambda>_.
     for_each (validate_stage source_bytes) 0 (lm_stage_boundaries metadata))"

section \<open>Digests\<close>

definition digest_bytes :: "(string \<Rightarrow> string) \<Rightarrow> string \<Rightarrow> ContentDigest" where
  "digest_bytes sha256 bytes = from_sha256 (sha256 bytes)"

definition verify_digest ::
  "(string \<Rightarrow> string) \<Rightarrow> SourceEvidence \<Rightarrow> string \<Rightarrow> CompactError + unit" where
  "verify_digest sha256 source exact_bytes =
     fail_if (se_digest source \<noteq> digest_bytes sha256 exact_bytes)
       (DigestMismatch (se_digest source) (digest_bytes sha256 exact_bytes))"

definition hash_length_prefixed :: "string \<Rightarrow> string" where
  "hash_length_prefixed field = be_bytes64 (length field) @ field"

definition rule_order :: "BoilerplateRule \<Rightarrow> string \<times> string" where
  "rule_order rule = (br_id rule, br_exact_line rule)"

definition policy_preimage :: "CompactionPolicy \<Rightarrow> string" where
  "policy_preimage policy =
     (let rules = sort_key rule_order (cp_boilerplate_rules policy) in
      hash_length_prefixed (cp_version policy)
      @ be_bytes64 (cp_boundary_records policy)
      @ be_bytes64 (cp_failure_context_records policy)
      @ be_bytes64 (length rules)
      @ concat (map (\<lambda>rule. hash_length_prefixed (br_id rule)
                  @ hash_length_prefixed (br_exact_line rule)) rules))"

definition digest_policy :: "(string \<Rightarrow> string) \<Rightarrow> CompactionPolicy \<Rightarrow> ContentDigest" where
  "digest_policy sha256 policy = from_sha256 (sha256 (policy_preimage policy))"

section \<open>Terminal text\<close>

function consume_csi :: "string \<Rightarrow> nat \<Rightarrow> nat" where
  "consume_csi bytes cursor =
     (if cursor < length bytes
      then if 0x40 \<le> byte (bytes ! cursor) \<and> byte (bytes ! cursor) \<le> 0x7e
           then cursor + 1 else consume_csi bytes (cursor + 1)
      else cursor)"
  by pat_completeness auto
termination consume_csi
  by (relation "measure (\<lambda>(bytes, cursor). length bytes - cursor)") auto

function consume_osc :: "string \<Rightarrow> nat \<Rightarrow> nat" where
  "consume_osc bytes cursor =
     (if cursor < length bytes
      then if bytes ! cursor = CHR 0x07 then cursor + 1
           else if bytes ! cursor = CHR 0x1b \<and> get_opt bytes (cursor + 1) = Some CHR 0x5C
           then cursor + 2
           else consume_osc bytes (cursor + 1)
      else cursor)"
  by pat_completeness auto
termination consume_osc
  by (relation "measure (\<lambda>(bytes, cursor). length bytes - cursor)") auto

declare consume_csi.simps [simp del] consume_osc.simps [simp del]

definition consume_escape :: "string \<Rightarrow> nat \<Rightarrow> nat" where
  "consume_escape bytes cursor =
     (case get_opt bytes (cursor + 1) of
        Some c \<Rightarrow>
          if c = CHR ''['' then consume_csi bytes (cursor + 2)
          else if c = CHR '']'' then consume_osc bytes (cursor + 2)
          else min (cursor + 2) (length bytes)
      | None \<Rightarrow> length bytes)"

lemma consume_csi_ge: "cursor \<le> consume_csi bytes cursor"
  by (induction bytes cursor rule: consume_csi.induct) (subst consume_csi.simps, auto)

lemma consume_osc_ge: "cursor \<le> consume_osc bytes cursor"
  by (induction bytes cursor rule: consume_osc.induct) (subst consume_osc.simps, auto)

lemma consume_escape_gt: "cursor < length bytes \<Longrightarrow> cursor < consume_escape bytes cursor"
  using consume_csi_ge [of "cursor + 2" bytes] consume_osc_ge [of "cursor + 2" bytes]
  by (auto simp: consume_escape_def split: option.splits)

function strip_terminal_sequences :: "string \<Rightarrow> nat \<Rightarrow> string" where
  "strip_terminal_sequences bytes cursor =
     (if cursor < length bytes
      then if bytes ! cursor = CHR 0x1b
           then strip_terminal_sequences bytes (consume_escape bytes cursor)
           else bytes ! cursor # strip_terminal_sequences bytes (cursor + 1)
      else [])"
  by pat_completeness auto
termination strip_terminal_sequences
  using consume_escape_gt
  by (relation "measure (\<lambda>(bytes, cursor). length bytes - cursor)") (auto intro: diff_less_mono2)

declare strip_terminal_sequences.simps [simp del]

definition display_char :: "nat \<Rightarrow> string" where
  "display_char u =
     (if is_control u
      then if u = 0x09 then [CHR 0x5C, CHR ''t'']
           else if u \<le> 0xff then [CHR 0x5C, CHR ''x''] @ show_hex2 u
           else [CHR 0x5C, CHR ''u'', CHR 0x7B] @ show_hex u @ [CHR 0x7D]
      else from_chars [u])"

definition normalize_display :: "string \<Rightarrow> string" where
  "normalize_display bytes =
     concat (map display_char (chars (strip_terminal_sequences bytes 0)))"

section \<open>Records\<close>

definition new_record :: "string \<Rightarrow> nat \<Rightarrow> nat \<Rightarrow> nat \<Rightarrow> FrameKind \<Rightarrow> Record" where
  "new_record bytes start content_end end_pos frame_kind =
     \<lparr>rec_start = start, rec_end = end_pos,
      rec_display = normalize_display (take (content_end - start) (drop start bytes)),
      rec_frame_kind = frame_kind\<rparr>"

definition push_record ::
  "Record list \<Rightarrow> string \<Rightarrow> nat \<Rightarrow> nat \<Rightarrow> nat \<Rightarrow> FrameKind \<Rightarrow> CompactError + Record list" where
  "push_record records bytes start content_end end_pos frame_kind =
     (if length records = MAX_SOURCE_RECORDS
      then Err (TooManyRecords (usize_to_u64 MAX_SOURCE_RECORDS))
      else Ok (records @ [new_record bytes start content_end end_pos frame_kind]))"

function parse_loop :: "string \<Rightarrow> Record list \<Rightarrow> nat \<Rightarrow> nat \<Rightarrow> CompactError + Record list" where
  "parse_loop bytes records start cursor =
     (if cursor < length bytes
      then if bytes ! cursor = CHR 0x0D \<and> get_opt bytes (cursor + 1) = Some CHR 0x0A
           then and_then (push_record records bytes start cursor (cursor + 2) Line)
                  (\<lambda>records. parse_loop bytes records (cursor + 2) (cursor + 2))
           else if bytes ! cursor = CHR 0x0D
           then and_then (push_record records bytes start cursor (cursor + 1) Progress)
                  (\<lambda>records. parse_loop bytes records (cursor + 1) (cursor + 1))
           else if bytes ! cursor = CHR 0x0A
           then and_then (push_record records bytes start cursor (cursor + 1) Line)
                  (\<lambda>records. parse_loop bytes records (cursor + 1) (cursor + 1))
           else parse_loop bytes records start (cursor + 1)
      else if start < length bytes
      then push_record records bytes start (length bytes) (length bytes) Line
      else Ok records)"
  by pat_completeness auto
termination parse_loop
  by (relation "measure (\<lambda>(bytes, records, start, cursor). length bytes - cursor)") auto

declare parse_loop.simps [simp del]

definition parse_records :: "string \<Rightarrow> CompactError + Record list" where
  "parse_records bytes = parse_loop bytes [] 0 0"

section \<open>Omissions before retention\<close>

type_synonym omissions = "OmissionReason option list"

text \<open>The inner \<^verbatim>\<open>while\<close> of \<open>progress_omissions\<close>.\<close>

function progress_end :: "Record list \<Rightarrow> nat \<Rightarrow> nat" where
  "progress_end records end_pos =
     (if end_pos < length records \<and> rec_frame_kind (records ! (end_pos - 1)) = Progress
      then progress_end records (end_pos + 1) else end_pos)"
  by pat_completeness auto
termination progress_end
  by (relation "measure (\<lambda>(records, end_pos). length records - end_pos)") auto

declare progress_end.simps [simp del]

lemma progress_end_ge: "end_pos \<le> progress_end records end_pos"
  by (induction records end_pos rule: progress_end.induct) (subst progress_end.simps, auto)

text \<open>\<^verbatim>\<open>for omission in &mut omissions[a..b] { *omission = Some(v) }\<close>\<close>

definition fill_range :: "nat \<Rightarrow> nat \<Rightarrow> 'a \<Rightarrow> 'a list \<Rightarrow> 'a list" where
  "fill_range a b v xs = map (\<lambda>i. if a \<le> i \<and> i < b then v else xs ! i) [0..<length xs]"

function progress_loop :: "Record list \<Rightarrow> omissions \<Rightarrow> nat \<Rightarrow> omissions" where
  "progress_loop records omissions start =
     (if start < length records
      then if rec_frame_kind (records ! start) \<noteq> Progress
           then progress_loop records omissions (start + 1)
           else (let end_pos = progress_end records (start + 1) in
                 progress_loop records
                   (fill_range start (end_pos - 1) (Some SupersededProgress) omissions) end_pos)
      else omissions)"
  by pat_completeness auto
termination progress_loop
  using Suc_le_lessD [OF progress_end_ge]
  by (relation "measure (\<lambda>(records, omissions, start). length records - start)")
    (auto intro: diff_less_mono2)

declare progress_loop.simps [simp del]

definition progress_omissions :: "Record list \<Rightarrow> omissions" where
  "progress_omissions records = progress_loop records (replicate (length records) None) 0"

text \<open>The \<^verbatim>\<open>BTreeMap\<close> from exact lines to rule ids; a later rule replaces an earlier one.\<close>

definition boilerplate_map :: "BoilerplateRule list \<Rightarrow> (string \<rightharpoonup> string)" where
  "boilerplate_map rules = map_of (rev (map (\<lambda>rule. (br_exact_line rule, br_id rule)) rules))"

definition apply_boilerplate_omissions ::
  "Record list \<Rightarrow> CompactionPolicy \<Rightarrow> omissions \<Rightarrow> omissions" where
  "apply_boilerplate_omissions records policy omissions =
     map2 (\<lambda>record omission.
        case omission of
          Some reason \<Rightarrow> Some reason
        | None \<Rightarrow>
            (case boilerplate_map (cp_boilerplate_rules policy) (rec_display record) of
               Some rule_id \<Rightarrow> Some (Boilerplate rule_id)
             | None \<Rightarrow> None)) records omissions"

fun repeat_loop :: "string option \<Rightarrow> (Record \<times> OmissionReason option) list \<Rightarrow> omissions" where
  "repeat_loop previous_display [] = []"
| "repeat_loop previous_display ((record, omission) # rest) =
     (case omission of
        Some reason \<Rightarrow> Some reason # repeat_loop None rest
      | None \<Rightarrow>
          if previous_display = Some (rec_display record)
          then Some Repeated # repeat_loop previous_display rest
          else None # repeat_loop (Some (rec_display record)) rest)"

definition apply_repeat_omissions :: "Record list \<Rightarrow> omissions \<Rightarrow> omissions" where
  "apply_repeat_omissions records omissions = repeat_loop None (zip records omissions)"

section \<open>Retention\<close>

type_synonym reasons = "RetentionReason list list"

definition add_reason :: "RetentionReason list \<Rightarrow> RetentionReason \<Rightarrow> RetentionReason list" where
  "add_reason reasons reason =
     (if reason \<notin> set reasons then reasons @ [reason] else reasons)"

definition add_reason_at :: "RetentionReason \<Rightarrow> nat \<Rightarrow> reasons \<Rightarrow> reasons" where
  "add_reason_at reason index reasons = reasons[index := add_reason (reasons ! index) reason]"

definition retain_boundaries :: "nat list \<Rightarrow> nat \<Rightarrow> reasons \<Rightarrow> reasons" where
  "retain_boundaries active_indices boundary_records reasons =
     fold (add_reason_at LastBoundary) (take boundary_records (rev active_indices))
       (fold (add_reason_at FirstBoundary) (take boundary_records active_indices) reasons)"

definition stage_order :: "StageBoundary \<Rightarrow> u64 \<times> string" where
  "stage_order stage = (sb_byte_offset stage, sb_label stage)"

text \<open>
  \<^verbatim>\<open>records.partition_point(|record| record.end <= byte_offset)\<close>: the records end at
  increasing positions, so it is the number of records that end by the offset.
\<close>

definition partition_point :: "('a \<Rightarrow> bool) \<Rightarrow> 'a list \<Rightarrow> nat" where
  "partition_point p xs = length (takeWhile p xs)"

definition record_at_or_after :: "Record list \<Rightarrow> nat \<Rightarrow> nat option" where
  "record_at_or_after records byte_offset =
     (let index = partition_point (\<lambda>record. rec_end record \<le> byte_offset) records in
      if index < length records then Some index
      else if records \<noteq> [] then Some (length records - 1) else None)"

definition nearest_active :: "nat list \<Rightarrow> nat \<Rightarrow> nat option" where
  "nearest_active active_indices raw_index =
     (case find (\<lambda>index. index \<ge> raw_index) active_indices of
        Some index \<Rightarrow> Some index
      | None \<Rightarrow> last_opt active_indices)"

definition retain_stage :: "Record list \<Rightarrow> nat list \<Rightarrow> StageBoundary \<Rightarrow> reasons \<Rightarrow> reasons" where
  "retain_stage records active_indices stage reasons =
     (case record_at_or_after records (u64_to_usize (sb_byte_offset stage)) of
        None \<Rightarrow> reasons
      | Some raw_index \<Rightarrow>
          (case nearest_active active_indices raw_index of
             None \<Rightarrow> reasons
           | Some index \<Rightarrow>
               add_reason_at (AtStage (sb_label stage) (sb_byte_offset stage)) index reasons))"

text \<open>The sort is by offset, then label; \<^verbatim>\<open>dedup\<close> merges consecutive equal boundaries.\<close>

definition retain_stages ::
  "Record list \<Rightarrow> nat list \<Rightarrow> StageBoundary list \<Rightarrow> reasons \<Rightarrow> reasons" where
  "retain_stages records active_indices stages reasons =
     fold (retain_stage records active_indices) (remdups_adj (sort_key stage_order stages)) reasons"

definition contains_ascii_case_insensitive :: "string \<Rightarrow> string \<Rightarrow> bool" where
  "contains_ascii_case_insensitive hay needle =
     any_window (length needle) (\<lambda>window. eq_ignore_ascii_case window needle) hay"

definition retain_keyword ::
  "Record list \<Rightarrow> nat list \<Rightarrow> nat \<Rightarrow> nat \<Rightarrow> FailureKeyword \<Rightarrow> reasons \<Rightarrow> reasons" where
  "retain_keyword records active_indices context_records active_position keyword reasons =
     (if \<not> contains_ascii_case_insensitive
           (rec_display (records ! (active_indices ! active_position))) (FailureKeyword_as_str keyword)
      then reasons
      else (let first = active_position - context_records;
                last_position = min (active_position + context_records) (length active_indices - 1) in
            fold (add_reason_at (FailureNeighborhood keyword))
              (take (last_position + 1 - first) (drop first active_indices)) reasons))"

definition retain_failure_neighborhoods ::
  "Record list \<Rightarrow> nat list \<Rightarrow> nat \<Rightarrow> reasons \<Rightarrow> reasons" where
  "retain_failure_neighborhoods records active_indices context_records reasons =
     fold (\<lambda>active_position.
        fold (retain_keyword records active_indices context_records active_position) FAILURE_KEYWORDS)
       [0..<length active_indices] reasons"

section \<open>Fragments\<close>

definition reference :: "SourceEvidence \<Rightarrow> Record \<Rightarrow> EvidenceReference" where
  "reference source record =
     \<lparr>er_handle = se_handle source, er_offset = usize_to_u64 (rec_start record),
      er_length = usize_to_u64 (rec_end record - rec_start record)\<rparr>"

fun render_omission :: "OmissionReason \<Rightarrow> nat \<Rightarrow> string" where
  "render_omission OutsideRetentionWindow record_count =
     ''[... '' @ show_nat record_count @ '' records outside retention windows ...]'' @ newline"
| "render_omission Repeated record_count =
     ''[... '' @ show_nat record_count @ '' repeated records collapsed ...]'' @ newline"
| "render_omission SupersededProgress record_count =
     ''[... '' @ show_nat record_count @ '' progress frames superseded ...]'' @ newline"
| "render_omission (Boilerplate rule_id) record_count =
     ''[... '' @ show_nat record_count @ '' boilerplate records removed by '' @ rule_id
     @ '' ...]'' @ newline"

text \<open>The inner \<^verbatim>\<open>while\<close> of \<open>build_fragments\<close>: the end of the run of equal dispositions.\<close>

function omission_end :: "Record list \<Rightarrow> Disposition list \<Rightarrow> OmissionReason \<Rightarrow> nat \<Rightarrow> nat" where
  "omission_end records dispositions reason index =
     (if index < length records \<and> dispositions ! index = Omit reason
      then omission_end records dispositions reason (index + 1) else index)"
  by pat_completeness auto
termination omission_end
  by (relation "measure (\<lambda>(records, dispositions, reason, index). length records - index)") auto

declare omission_end.simps [simp del]

lemma omission_end_ge: "index \<le> omission_end records dispositions reason index"
  by (induction records dispositions reason index rule: omission_end.induct)
    (subst omission_end.simps, auto)

function build_fragments ::
  "SourceEvidence \<Rightarrow> Record list \<Rightarrow> Disposition list \<Rightarrow> nat \<Rightarrow> CompactedFragment list" where
  "build_fragments source records dispositions index =
     (if index < length records
      then case dispositions ! index of
        Keep reasons \<Rightarrow>
          \<lparr>cf_source = reference source (records ! index), cf_kind = Retained reasons,
           cf_rendered = rec_display (records ! index) @ newline\<rparr>
          # build_fragments source records dispositions (index + 1)
      | Omit reason \<Rightarrow>
          (let end_index = omission_end records dispositions reason (index + 1);
               record_count = end_index - index in
           \<lparr>cf_source =
              \<lparr>er_handle = se_handle source, er_offset = usize_to_u64 (rec_start (records ! index)),
               er_length = usize_to_u64
                 (rec_end (records ! (end_index - 1)) - rec_start (records ! index))\<rparr>,
            cf_kind = Omitted reason (usize_to_u64 record_count),
            cf_rendered = render_omission reason record_count\<rparr>
           # build_fragments source records dispositions end_index)
      else [])"
  by pat_completeness auto
termination build_fragments
  using Suc_le_lessD [OF omission_end_ge]
  by (relation "measure (\<lambda>(source, records, dispositions, index). length records - index)")
    (auto intro: diff_less_mono2)

declare build_fragments.simps [simp del]

definition show_i32 :: "i32 \<Rightarrow> string" where
  "show_i32 v = (if sint v < 0 then ''-'' @ show_nat (nat (- sint v)) else show_nat (nat (sint v)))"

fun render_exit_status :: "i32 option \<Rightarrow> string" where
  "render_exit_status (Some status) = ''[exit status: '' @ show_i32 status @ '']'' @ newline"
| "render_exit_status None = ''[exit status: unknown]'' @ newline"

section \<open>Compaction\<close>

definition preprocess :: "Record list \<Rightarrow> CompactionPolicy \<Rightarrow> omissions" where
  "preprocess records policy =
     apply_repeat_omissions records
       (apply_boilerplate_omissions records policy (progress_omissions records))"

definition active_of :: "omissions \<Rightarrow> nat list" where
  "active_of omissions = filter (\<lambda>index. omissions ! index = None) [0..<length omissions]"

definition retention :: "Record list \<Rightarrow> nat list \<Rightarrow> LogMetadata \<Rightarrow> CompactionPolicy \<Rightarrow> reasons" where
  "retention records active_indices metadata policy =
     retain_failure_neighborhoods records active_indices (cp_failure_context_records policy)
       (retain_stages records active_indices (lm_stage_boundaries metadata)
         (retain_boundaries active_indices (cp_boundary_records policy)
           (replicate (length records) [])))"

definition disposition_of :: "OmissionReason option \<Rightarrow> RetentionReason list \<Rightarrow> Disposition" where
  "disposition_of omission reasons =
     (case omission of
        Some reason \<Rightarrow> Omit reason
      | None \<Rightarrow> if reasons = [] then Omit OutsideRetentionWindow else Keep reasons)"

definition dispositions_of ::
  "Record list \<Rightarrow> LogMetadata \<Rightarrow> CompactionPolicy \<Rightarrow> Disposition list" where
  "dispositions_of records metadata policy =
     (let omissions = preprocess records policy in
      map2 disposition_of omissions (retention records (active_of omissions) metadata policy))"

definition fragment_retained :: "CompactedFragment \<Rightarrow> bool" where
  "fragment_retained f = (case cf_kind f of Retained _ \<Rightarrow> True | Omitted _ _ \<Rightarrow> False)"

definition is_Keep :: "Disposition \<Rightarrow> bool" where
  "is_Keep d = (case d of Keep _ \<Rightarrow> True | Omit _ \<Rightarrow> False)"

definition compact_log ::
  "(string \<Rightarrow> string) \<Rightarrow> SourceEvidence \<Rightarrow> string \<Rightarrow> LogMetadata \<Rightarrow> CompactionPolicy
     \<Rightarrow> CompactError + CompactedLog" where
  "compact_log sha256 source exact_bytes metadata policy =
     and_then (validate_source_size (length exact_bytes)) (\<lambda>_.
     and_then (validate_policy policy) (\<lambda>_.
     and_then (validate_metadata metadata (length exact_bytes)) (\<lambda>_.
     and_then (verify_digest sha256 source exact_bytes) (\<lambda>_.
     and_then (parse_records exact_bytes) (\<lambda>records.
     let dispositions = dispositions_of records metadata policy;
         fragments = build_fragments source records dispositions 0;
         retained_byte_count = sum_list (map (\<lambda>f. er_length (cf_source f)) (filter fragment_retained fragments));
         retained_record_count = length (filter is_Keep dispositions);
         rendered_text = concat (map cf_rendered fragments)
           @ (if records = [] then ''[no log output]'' @ newline else [])
           @ render_exit_status (lm_exit_status metadata)
     in Ok \<lparr>cl_algorithm_version = ALGORITHM_VERSION, cl_policy_version = cp_version policy,
            cl_policy_digest = digest_policy sha256 policy, cl_source = source,
            cl_exit_status = lm_exit_status metadata,
            cl_source_byte_count = usize_to_u64 (length exact_bytes),
            cl_retained_byte_count = retained_byte_count,
            cl_source_record_count = usize_to_u64 (length records),
            cl_retained_record_count = usize_to_u64 retained_record_count,
            cl_rendered_text = rendered_text, cl_fragments = fragments\<rparr>)))))"

end
