(* ===== verification/Compaction.thy ===== *)
theory Compaction
  imports Compact_Log "HOL-Library.Multiset"
begin

text \<open>
  What the log compactor guarantees: the fragments partition the source bytes, failure lines
  stay visible, the order of the boilerplate rules does not matter, and the rendered text
  is free of terminal control characters.
\<close>

section \<open>Records tile the source\<close>

fun tiles :: "nat \<Rightarrow> Record list \<Rightarrow> nat \<Rightarrow> bool" where
  "tiles a [] b = (a = b)"
| "tiles a (r # rs) b = (rec_start r = a \<and> a < rec_end r \<and> tiles (rec_end r) rs b)"

lemma tiles_append: "tiles a (xs @ ys) c \<longleftrightarrow> (\<exists>b. tiles a xs b \<and> tiles b ys c)"
  by (induction xs arbitrary: a) auto

lemma tiles_push:
  assumes "push_record records bytes a c b kind = Ok records'" and "tiles 0 records a" and "a < b"
  shows "tiles 0 records' b"
  using assms by (auto simp: push_record_def tiles_append new_record_def split: if_splits)

lemma parse_loop_tiles:
  "\<lbrakk>parse_loop bytes records start cursor = Ok rs; tiles 0 records start; start \<le> cursor;
    cursor \<le> length bytes\<rbrakk> \<Longrightarrow> tiles 0 rs (length bytes)"
proof (induction bytes records start cursor rule: parse_loop.induct)
  case (1 bytes records start cursor)
  note unfolded = 1(5) [unfolded parse_loop.simps [of bytes records start cursor]]
  show ?case
  proof (cases "cursor < length bytes")
    case False
    with unfolded 1(6,7,8) show ?thesis by (auto split: if_splits intro: tiles_push)
  next
    case True
    show ?thesis
      using True unfolded 1(1-4) 1(6,7) tiles_push [of records bytes start cursor]
      by (auto split: if_splits simp: and_then_Inr_iff)
  qed
qed

lemma parse_records_tiles: "parse_records bytes = Ok rs \<Longrightarrow> tiles 0 rs (length bytes)"
  unfolding parse_records_def by (erule parse_loop_tiles) auto

text \<open>Where the record at an index starts; the end of the source after the last one.\<close>

definition start_at :: "Record list \<Rightarrow> nat \<Rightarrow> nat \<Rightarrow> nat" where
  "start_at records len i = (if i < length records then rec_start (records ! i) else len)"

lemma tiles_nth:
  "\<lbrakk>tiles a records len; i < length records\<rbrakk> \<Longrightarrow>
     rec_start (records ! i) < rec_end (records ! i)
     \<and> rec_end (records ! i) = start_at records len (i + 1)"
proof (induction records arbitrary: a i)
  case (Cons r rs)
  show ?case
  proof (cases i)
    case 0
    then show ?thesis using Cons.prems by (cases rs) (auto simp: start_at_def)
  next
    case (Suc j)
    with Cons.IH [of "rec_end r" j] Cons.prems show ?thesis by (simp add: start_at_def)
  qed
qed simp

lemma start_at_first: "tiles a records len \<Longrightarrow> start_at records len 0 = a"
  by (cases records) (auto simp: start_at_def)

lemma start_at_mono:
  assumes "tiles a records len" and "i \<le> j"
  shows "start_at records len i \<le> start_at records len j"
  using assms(2)
proof (induction rule: dec_induct)
  case (step n)
  have "start_at records len n \<le> start_at records len (Suc n)"
    using tiles_nth [OF assms(1), of n] by (auto simp: start_at_def)
  with step show ?case by simp
qed simp

lemma start_at_total:
  assumes "tiles a records len"
  shows "start_at records len i \<le> len"
  using start_at_mono [OF assms, of i "i + length records"] by (simp add: start_at_def)

section \<open>Fragments partition the source\<close>

definition read_range :: "string \<Rightarrow> EvidenceReference \<Rightarrow> string" where
  "read_range bytes ref = take (unat (er_length ref)) (drop (unat (er_offset ref)) bytes)"

definition rehydrate :: "string \<Rightarrow> CompactedFragment list \<Rightarrow> string" where
  "rehydrate bytes fragments = concat (map (\<lambda>f. read_range bytes (cf_source f)) fragments)"

lemma unat_usize: "n \<le> MAX_SOURCE_BYTES \<Longrightarrow> unat (usize_to_u64 n) = n"
  by (simp add: usize_to_u64_def MAX_SOURCE_BYTES_def unat_of_nat)

lemma read_range_step:
  assumes "a \<le> b" and "b \<le> MAX_SOURCE_BYTES"
  shows "read_range bytes \<lparr>er_handle = h, er_offset = usize_to_u64 a, er_length = usize_to_u64 (b - a)\<rparr>
    @ drop b bytes = drop a bytes"
proof -
  have "drop b bytes = drop (b - a) (drop a bytes)" using assms(1) by simp
  then show ?thesis using assms by (simp add: read_range_def unat_usize del: drop_drop)
qed

lemma omission_end_le:
  "index \<le> length records \<Longrightarrow> omission_end records dispositions reason index \<le> length records"
  by (induction records dispositions reason index rule: omission_end.induct)
    (subst omission_end.simps, auto)

lemma rehydrate_fragments:
  "\<lbrakk>tiles 0 records (length bytes); length bytes \<le> MAX_SOURCE_BYTES\<rbrakk> \<Longrightarrow>
   rehydrate bytes (build_fragments source records dispositions index) =
     drop (start_at records (length bytes) index) bytes"
proof (induction source records dispositions index rule: build_fragments.induct)
  case (1 source records dispositions index)
  let ?at = "start_at records (length bytes)"
  show ?case
  proof (cases "index < length records")
    case False
    then show ?thesis
      by (subst build_fragments.simps) (simp add: rehydrate_def start_at_def)
  next
    case True
    then have start: "rec_start (records ! index) = ?at index" by (simp add: start_at_def)
    have read: "read_range bytes \<lparr>er_handle = h, er_offset = usize_to_u64 (?at index),
          er_length = usize_to_u64 (?at k - ?at index)\<rparr> @ drop (?at k) bytes = drop (?at index) bytes"
      if "index \<le> k" for h k
      using start_at_mono [OF 1(3) that] start_at_total [OF 1(3), of k] 1(4)
      by (intro read_range_step) simp_all
    show ?thesis
    proof (cases "dispositions ! index")
      case (Keep reasons)
      have "rehydrate bytes (build_fragments source records dispositions (index + 1)) = drop (?at (index + 1)) bytes"
        using 1(1) [OF True Keep 1(3,4)] .
      moreover have "rec_end (records ! index) = ?at (index + 1)" using tiles_nth [OF 1(3) True] by simp
      ultimately show ?thesis
        using True Keep read [of "index + 1" "se_handle source"]
        by (subst build_fragments.simps) (simp add: rehydrate_def reference_def start)
    next
      case (Omit reason)
      define k where "k = omission_end records dispositions reason (index + 1)"
      have k_eq: "omission_end records dispositions reason (Suc index) = k" by (simp add: k_def)
      have k: "index + 1 \<le> k" "k \<le> length records"
        using omission_end_ge [of "index + 1"] omission_end_le [of "index + 1"] True by (simp_all add: k_def)
      have "rehydrate bytes (build_fragments source records dispositions k) = drop (?at k) bytes"
        using 1(2) [OF True Omit k_def refl 1(3,4)] .
      moreover have "rec_end (records ! (k - 1)) = ?at k" using tiles_nth [OF 1(3), of "k - 1"] k by simp
      ultimately show ?thesis
        using True Omit read [of k "se_handle source"] k
        by (subst build_fragments.simps) (simp add: rehydrate_def start Let_def k_eq)
    qed
  qed
qed

lemma compact_log_Ok:
  assumes "compact_log sha256 source bytes metadata policy = Ok log"
  obtains records where "parse_records bytes = Ok records" "length bytes \<le> MAX_SOURCE_BYTES"
    "validate_policy policy = Ok ()" "validate_metadata metadata (length bytes) = Ok ()"
    "se_digest source = digest_bytes sha256 bytes"
    "cl_fragments log = build_fragments source records (dispositions_of records metadata policy) 0"
    "cl_rendered_text log = concat (map cf_rendered (cl_fragments log))
       @ (if records = [] then ''[no log output]'' @ newline else [])
       @ render_exit_status (lm_exit_status metadata)"
  using assms
  by (auto simp: compact_log_def and_then_Inr_iff Let_def validate_source_size_def verify_digest_def)

text \<open>C35: Reading the fragments' ranges in order gives back exactly the source bytes: compaction loses no
  byte, whatever the policy retains or omits.\<close>

theorem compaction_lossless:
  assumes "compact_log sha256 source bytes metadata policy = Ok log"
  shows "rehydrate bytes (cl_fragments log) = bytes"
proof -
  obtain records where ok: "parse_records bytes = Ok records" "length bytes \<le> MAX_SOURCE_BYTES"
    "cl_fragments log = build_fragments source records (dispositions_of records metadata policy) 0"
    using compact_log_Ok [OF assms] by metis
  note tiles = parse_records_tiles [OF ok(1)]
  show ?thesis
    using rehydrate_fragments [OF tiles ok(2)] start_at_first [OF tiles] by (simp add: ok(3))
qed

text \<open>The bytes of a small log with progress frames, a repetition, a failure and a boilerplate line.\<close>

definition demo_log :: string where
  "demo_log = ''10%'' @ [CHR 0x0D] @ ''100%'' @ newline @ ''banner'' @ newline @ ''ok'' @ newline
     @ ''ok'' @ newline @ ''Error: x'' @ newline @ ''tail''"

definition demo_policy :: CompactionPolicy where
  "demo_policy = \<lparr>cp_version = ''v1'', cp_boundary_records = 0, cp_failure_context_records = 0,
     cp_boilerplate_rules = [\<lparr>br_id = ''b'', br_exact_line = ''banner''\<rparr>,
       \<lparr>br_id = ''a'', br_exact_line = ''notice''\<rparr>]\<rparr>"

definition demo_sha :: "string \<Rightarrow> string" where
  "demo_sha bytes = take 32 (bytes @ replicate 32 (CHR 0x00))"

definition demo_source :: SourceEvidence where
  "demo_source = \<lparr>se_handle = ''evidence://pam/log'', se_digest = digest_bytes demo_sha demo_log\<rparr>"

definition demo_metadata :: LogMetadata where
  "demo_metadata = \<lparr>lm_exit_status = Some 1, lm_stage_boundaries = []\<rparr>"

definition demo_compacted :: "CompactError + CompactedLog" where
  "demo_compacted = compact_log demo_sha demo_source demo_log demo_metadata demo_policy"

lemma demo_compacts: "\<exists>log. demo_compacted = Ok log"
  by (rule not_is_errD) code_simp

theorem compaction_lossless_witness:
  "\<exists>log. demo_compacted = Ok log \<and> rehydrate demo_log (cl_fragments log) = demo_log"
  using demo_compacts compaction_lossless unfolding demo_compacted_def by blast

section \<open>Failures stay visible\<close>

text \<open>Updates of the reasons only add; a mark set once is there at the end.\<close>

definition grows :: "(reasons \<Rightarrow> reasons) \<Rightarrow> bool" where
  "grows f \<longleftrightarrow> (\<forall>rs. length (f rs) = length rs \<and> (\<forall>i < length rs. set (rs ! i) \<subseteq> set (f rs ! i)))"

definition marks :: "RetentionReason \<Rightarrow> nat \<Rightarrow> (reasons \<Rightarrow> reasons) \<Rightarrow> bool" where
  "marks r i f \<longleftrightarrow> (\<forall>rs. i < length rs \<longrightarrow> r \<in> set (f rs ! i))"

lemma grows_id [intro]: "grows (\<lambda>rs. rs)" "grows id"
  by (simp_all add: grows_def)

lemma grows_comp:
  assumes "grows f" and "grows g"
  shows "grows (\<lambda>rs. g (f rs))"
  unfolding grows_def
proof (intro allI conjI impI)
  fix rs :: reasons and i
  show "length (g (f rs)) = length rs" using assms by (simp add: grows_def)
  assume "i < length rs"
  then have "set (rs ! i) \<subseteq> set (f rs ! i)" "set (f rs ! i) \<subseteq> set (g (f rs) ! i)"
    using assms by (simp_all add: grows_def)
  then show "set (rs ! i) \<subseteq> set (g (f rs) ! i)" by (rule subset_trans)
qed

lemma grows_fold: "(\<And>x. x \<in> set xs \<Longrightarrow> grows (f x)) \<Longrightarrow> grows (fold f xs)"
proof (induction xs)
  case Nil
  show ?case by (simp add: grows_def)
next
  case (Cons x xs)
  have "grows (\<lambda>rs. fold f xs (f x rs))" by (rule grows_comp) (use Cons in simp_all)
  then show ?case by (simp add: comp_def)
qed

lemma marks_then_grows:
  assumes "marks r i f" and "grows f" and "grows g"
  shows "marks r i (\<lambda>rs. g (f rs))"
  unfolding marks_def
proof (intro allI impI)
  fix rs :: reasons
  assume i: "i < length rs"
  then have "r \<in> set (f rs ! i)" using assms(1) by (simp add: marks_def)
  moreover have "set (f rs ! i) \<subseteq> set (g (f rs) ! i)" using assms(2,3) i by (simp add: grows_def)
  ultimately show "r \<in> set (g (f rs) ! i)" by (rule rev_subsetD)
qed

lemma grows_then_marks:
  assumes "marks r i g" and "grows f"
  shows "marks r i (\<lambda>rs. g (f rs))"
  using assms by (simp add: marks_def grows_def)

lemma marks_fold:
  "\<lbrakk>x \<in> set xs; marks r i (f x); \<And>y. y \<in> set xs \<Longrightarrow> grows (f y)\<rbrakk> \<Longrightarrow> marks r i (fold f xs)"
proof (induction xs)
  case Nil
  then show ?case by simp
next
  case (Cons y ys)
  have "marks r i (\<lambda>rs. fold f ys (f y rs))"
  proof (cases "x = y")
    case True
    with Cons.prems have "marks r i (f y)" "grows (f y)" "grows (fold f ys)" by (simp_all add: grows_fold)
    then show ?thesis by (rule marks_then_grows)
  next
    case False
    then have "marks r i (fold f ys)" using Cons by simp
    then show ?thesis by (rule grows_then_marks) (use Cons.prems in simp)
  qed
  then show ?case by (simp add: comp_def)
qed

lemma add_reason_at_grows: "grows (add_reason_at r i)"
  by (auto simp: grows_def add_reason_at_def add_reason_def nth_update_cases)

lemma add_reason_at_marks: "marks r i (add_reason_at r i)"
  by (auto simp: marks_def add_reason_at_def add_reason_def)

lemma retain_keyword_grows: "grows (retain_keyword records active ctx pos k)"
proof -
  have "grows (if c then (\<lambda>rs. rs) else fold (add_reason_at r) xs)" for c r xs
    by (auto intro: grows_fold add_reason_at_grows)
  moreover have "retain_keyword records active ctx pos k =
      (if \<not> contains_ascii_case_insensitive (rec_display (records ! (active ! pos))) (FailureKeyword_as_str k)
       then (\<lambda>rs. rs) else fold (add_reason_at (FailureNeighborhood k))
         (take (min (pos + ctx) (length active - 1) + 1 - (pos - ctx)) (drop (pos - ctx) active)))"
    by (rule ext) (simp add: retain_keyword_def Let_def)
  ultimately show ?thesis by simp
qed

lemma retain_keyword_marks:
  assumes "pos < length active"
    and "contains_ascii_case_insensitive (rec_display (records ! (active ! pos))) (FailureKeyword_as_str k)"
  shows "marks (FailureNeighborhood k) (active ! pos) (retain_keyword records active ctx pos k)"
proof -
  let ?first = "pos - ctx" and ?last = "min (pos + ctx) (length active - 1)"
  have "pos - ?first < length (take (?last + 1 - ?first) (drop ?first active))" using assms(1) by auto
  moreover have "take (?last + 1 - ?first) (drop ?first active) ! (pos - ?first) = active ! pos"
    using assms(1) by simp
  ultimately have "active ! pos \<in> set (take (?last + 1 - ?first) (drop ?first active))"
    by (metis nth_mem)
  then have "marks (FailureNeighborhood k) (active ! pos) (fold (add_reason_at (FailureNeighborhood k))
      (take (?last + 1 - ?first) (drop ?first active)))"
    by (rule marks_fold) (auto intro: add_reason_at_marks add_reason_at_grows)
  then show ?thesis using assms(2) by (simp add: marks_def retain_keyword_def Let_def)
qed

lemma retain_failures_marks:
  assumes "i \<in> set active"
    and "contains_ascii_case_insensitive (rec_display (records ! i)) (FailureKeyword_as_str k)"
  shows "marks (FailureNeighborhood k) i (retain_failure_neighborhoods records active ctx)"
proof -
  obtain pos where pos: "pos < length active" "i = active ! pos" using assms(1) by (auto simp: in_set_conv_nth)
  have "k \<in> set FAILURE_KEYWORDS" by (cases k) (simp_all add: FAILURE_KEYWORDS_def)
  then have "marks (FailureNeighborhood k) i (fold (retain_keyword records active ctx pos) FAILURE_KEYWORDS)"
    using assms(2) pos retain_keyword_marks by (auto intro!: marks_fold retain_keyword_grows)
  then show ?thesis
    unfolding retain_failure_neighborhoods_def
    using pos by (intro marks_fold [where x = pos]) (auto intro!: grows_fold retain_keyword_grows)
qed

lemma retain_stage_grows: "grows (retain_stage records active stage)"
  using add_reason_at_grows by (auto simp: retain_stage_def grows_def split: option.splits)

lemma retention_steps_grow:
  "grows (retain_boundaries active n)"
  "grows (retain_stages records active stages)"
  "grows (retain_failure_neighborhoods records active ctx)"
proof -
  have "retain_boundaries active n = (\<lambda>rs. fold (add_reason_at LastBoundary) (take n (rev active))
      (fold (add_reason_at FirstBoundary) (take n active) rs))"
    by (rule ext) (simp add: retain_boundaries_def)
  then show "grows (retain_boundaries active n)"
    by (simp add: grows_comp grows_fold add_reason_at_grows)
  have "retain_stages records active stages =
      fold (retain_stage records active) (remdups_adj (sort_key stage_order stages))"
    by (rule ext) (simp add: retain_stages_def)
  then show "grows (retain_stages records active stages)" by (simp add: grows_fold retain_stage_grows)
  have "retain_failure_neighborhoods records active ctx =
      fold (\<lambda>pos. fold (retain_keyword records active ctx pos) FAILURE_KEYWORDS) [0..<length active]"
    by (rule ext) (simp add: retain_failure_neighborhoods_def)
  then show "grows (retain_failure_neighborhoods records active ctx)"
    by (simp only: grows_fold retain_keyword_grows)
qed

lemma retention_length: "length (retention records active metadata policy) = length records"
  using retention_steps_grow by (simp add: retention_def grows_def)

text \<open>Only progress frames are superseded.\<close>

lemma fill_range_sel [simp]:
  "length (fill_range a b v xs) = length xs"
  "i < length xs \<Longrightarrow> fill_range a b v xs ! i = (if a \<le> i \<and> i < b then v else xs ! i)"
  by (simp_all add: fill_range_def)

lemma progress_end_frames:
  "\<lbrakk>0 < a; a - 1 \<le> i; i < progress_end records a - 1\<rbrakk> \<Longrightarrow> rec_frame_kind (records ! i) = Progress"
proof (induction records a rule: progress_end.induct)
  case (1 records a)
  show ?case
  proof (cases "a < length records \<and> rec_frame_kind (records ! (a - 1)) = Progress")
    case True
    then have "progress_end records a = progress_end records (a + 1)" by (subst progress_end.simps) simp
    with 1 True show ?thesis by (cases "i = a - 1") auto
  next
    case False
    then have "progress_end records a = a" by (subst progress_end.simps) auto
    with 1(3,4) show ?thesis by simp
  qed
qed

lemma progress_loop_length: "length (progress_loop records omissions start) = length omissions"
  by (induction records omissions start rule: progress_loop.induct)
    (subst progress_loop.simps, auto simp: Let_def)

lemma progress_loop_line:
  "\<lbrakk>i < length omissions; rec_frame_kind (records ! i) = Line\<rbrakk> \<Longrightarrow>
     progress_loop records omissions start ! i = omissions ! i"
proof (induction records omissions start rule: progress_loop.induct)
  case (1 records omissions start)
  let ?e = "progress_end records (start + 1)"
  have "\<not> (start \<le> i \<and> i < ?e - 1)"
    using progress_end_frames [of "start + 1" i records] 1(4) by auto
  with 1 show ?case
    by (subst progress_loop.simps) (auto simp: Let_def)
qed

lemma progress_omissions_line:
  "\<lbrakk>i < length records; rec_frame_kind (records ! i) = Line\<rbrakk> \<Longrightarrow> progress_omissions records ! i = None"
  by (simp add: progress_omissions_def progress_loop_line)

lemma repeat_loop_length [simp]: "length (repeat_loop previous xs) = length xs"
  by (induction previous xs rule: repeat_loop.induct) (auto split: option.splits)

text \<open>A record is dropped as a repetition only when an equal one before it stays.\<close>

lemma repeat_loop_shown:
  "\<lbrakk>i < length xs; snd (xs ! i) = None\<rbrakk> \<Longrightarrow>
     previous = Some (rec_display (fst (xs ! i)))
     \<or> (\<exists>j \<le> i. repeat_loop previous xs ! j = None \<and> rec_display (fst (xs ! j)) = rec_display (fst (xs ! i)))"
proof (induction previous xs arbitrary: i rule: repeat_loop.induct)
  case (2 previous item omission rest)
  show ?case
  proof (cases i)
    case 0
    with 2(5) show ?thesis by (auto split: option.splits)
  next
    case (Suc i')
    have prems: "i' < length rest" "snd (rest ! i') = None" using 2(4,5) Suc by simp_all
    let ?shown = "\<lambda>out ys n. \<exists>j \<le> n. out ! j = None \<and> rec_display (fst (ys ! j)) = rec_display (fst (rest ! i'))"
    have later: "?shown (x # out) ((item, omission) # rest) i" if "?shown out rest i'" for x out
      using that Suc by (metis Suc_le_mono nth_Cons_Suc)
    have now: "?shown (None # out) ((item, omission) # rest) i"
      if "rec_display item = rec_display (fst (rest ! i'))" for out
      using that by (intro exI [of _ "0"]) simp
    show ?thesis
    proof (cases omission)
      case (Some reason)
      with 2(3) [OF Some prems] later [of "repeat_loop None rest" "Some reason"] Suc show ?thesis by simp
    next
      case None
      show ?thesis
      proof (cases "previous = Some (rec_display item)")
        case True
        from 2(1) [OF None True prems] show ?thesis
        proof
          assume "?shown (repeat_loop previous rest) rest i'"
          then show ?thesis
            using None True Suc later [of "repeat_loop previous rest" "Some Repeated"] by simp
        qed (simp add: Suc)
      next
        case False
        from 2(2) [OF None False prems] show ?thesis
        proof
          assume "Some (rec_display item) = Some (rec_display (fst (rest ! i')))"
          then show ?thesis
            using None False Suc now [of "repeat_loop (Some (rec_display item)) rest"] by simp
        next
          assume "?shown (repeat_loop (Some (rec_display item)) rest) rest i'"
          then show ?thesis
            using None False Suc later [of "repeat_loop (Some (rec_display item)) rest" None] by simp
        qed
      qed
    qed
  qed
qed simp

lemma preprocess_length [simp]: "length (preprocess records policy) = length records"
  by (simp add: preprocess_def apply_repeat_omissions_def apply_boilerplate_omissions_def
      progress_omissions_def progress_loop_length)

lemma preprocess_shown:
  assumes "i < length records" and "rec_frame_kind (records ! i) = Line"
    and "rec_display (records ! i) \<notin> br_exact_line ` set (cp_boilerplate_rules policy)"
  obtains j where "j \<le> i" "preprocess records policy ! j = None"
    "rec_display (records ! j) = rec_display (records ! i)"
proof -
  let ?om = "apply_boilerplate_omissions records policy (progress_omissions records)"
  have len: "length (progress_omissions records) = length records"
    by (simp add: progress_omissions_def progress_loop_length)
  have "boilerplate_map (cp_boilerplate_rules policy) (rec_display (records ! i)) = None"
    using assms(3) by (force simp: boilerplate_map_def map_of_eq_None_iff)
  then have "?om ! i = None"
    using assms(1) len progress_omissions_line [OF assms(1,2)] by (simp add: apply_boilerplate_omissions_def)
  moreover have "length ?om = length records" using len by (simp add: apply_boilerplate_omissions_def)
  ultimately have "\<exists>j \<le> i. preprocess records policy ! j = None
      \<and> rec_display (fst (zip records ?om ! j)) = rec_display (records ! i)"
    using repeat_loop_shown [of i "zip records ?om" None] assms(1)
    by (simp add: preprocess_def apply_repeat_omissions_def)
  then obtain j where "j \<le> i" "preprocess records policy ! j = None"
    "rec_display (fst (zip records ?om ! j)) = rec_display (records ! i)" by blast
  with assms(1) \<open>length ?om = length records\<close> that show ?thesis by simp
qed

text \<open>A record that is kept has a fragment of its own.\<close>

lemma omission_end_run:
  "\<lbrakk>index \<le> j; j < omission_end records dispositions reason index\<rbrakk> \<Longrightarrow> dispositions ! j = Omit reason"
proof (induction records dispositions reason index rule: omission_end.induct)
  case (1 records dispositions reason index)
  show ?case
  proof (cases "index < length records \<and> dispositions ! index = Omit reason")
    case True
    then have "omission_end records dispositions reason index = omission_end records dispositions reason (index + 1)"
      by (subst omission_end.simps) simp
    with 1 True show ?thesis by (cases "j = index") auto
  next
    case False
    then have "omission_end records dispositions reason index = index" by (subst omission_end.simps) auto
    with 1(2,3) show ?thesis by simp
  qed
qed

definition kept_fragment :: "SourceEvidence \<Rightarrow> Record \<Rightarrow> RetentionReason list \<Rightarrow> CompactedFragment" where
  "kept_fragment source record reasons =
     \<lparr>cf_source = reference source record, cf_kind = Retained reasons,
      cf_rendered = rec_display record @ newline\<rparr>"

lemma kept_has_fragment:
  "\<lbrakk>index \<le> j; j < length records; dispositions ! j = Keep reasons\<rbrakk> \<Longrightarrow>
     kept_fragment source (records ! j) reasons \<in> set (build_fragments source records dispositions index)"
proof (induction source records dispositions index rule: build_fragments.induct)
  case (1 source records dispositions index)
  have here: "index < length records" using 1(3,4) by simp
  show ?case
  proof (cases "dispositions ! index")
    case (Keep rs)
    with 1 here show ?thesis
      by (subst build_fragments.simps) (cases "j = index", auto simp: kept_fragment_def)
  next
    case (Omit reason)
    define k where "k = omission_end records dispositions reason (index + 1)"
    have k_eq: "omission_end records dispositions reason (Suc index) = k" by (simp add: k_def)
    have "k \<le> j"
    proof (rule ccontr)
      assume "\<not> k \<le> j"
      moreover have "j \<noteq> index" using Omit 1(5) by auto
      ultimately have "dispositions ! j = Omit reason"
        using omission_end_run [of "index + 1" j records dispositions reason] 1(3) by (simp add: k_def)
      with 1(5) show False by simp
    qed
    then have "kept_fragment source (records ! j) reasons \<in> set (build_fragments source records dispositions k)"
      using 1(2) [OF here Omit k_def refl _ 1(4,5)] by simp
    then show ?thesis using here Omit by (subst build_fragments.simps) (simp add: Let_def k_eq)
  qed
qed

text \<open>C36: A line that mentions a failure keyword and is not declared as boilerplate stays visible: its text
  is rendered in a retained fragment that names the keyword.\<close>

theorem failures_visible:
  assumes ok: "compact_log sha256 source bytes metadata policy = Ok log"
    and r: "parse_records bytes = Ok records" "r \<in> set records" "rec_frame_kind r = Line"
    and k: "contains_ascii_case_insensitive (rec_display r) (FailureKeyword_as_str k)"
    and boiler: "rec_display r \<notin> br_exact_line ` set (cp_boilerplate_rules policy)"
  shows "\<exists>f \<in> set (cl_fragments log). \<exists>reasons. cf_kind f = Retained reasons
     \<and> FailureNeighborhood k \<in> set reasons \<and> cf_rendered f = rec_display r @ newline"
proof -
  obtain i where i: "i < length records" "r = records ! i" using r(2) by (auto simp: in_set_conv_nth)
  obtain j where j: "j \<le> i" "preprocess records policy ! j = None" "rec_display (records ! j) = rec_display r"
    using preprocess_shown [of i records policy] i r(3) boiler by metis
  let ?om = "preprocess records policy" and ?ret = "retention records (active_of (preprocess records policy)) metadata policy"
  have len: "j < length records" using i(1) j(1) by simp
  then have "j \<in> set (active_of ?om)" using j(2) by (simp add: active_of_def)
  then have "marks (FailureNeighborhood k) j
      (retain_failure_neighborhoods records (active_of ?om) (cp_failure_context_records policy))"
    using k j(3) by (intro retain_failures_marks) simp_all
  then have mark: "FailureNeighborhood k \<in> set (?ret ! j)"
    using len retention_steps_grow by (simp add: marks_def retention_def grows_def)
  then have "dispositions_of records metadata policy ! j = Keep (?ret ! j)"
    using len j(2) by (auto simp: dispositions_of_def Let_def retention_length disposition_of_def)
  then have "kept_fragment source (records ! j) (?ret ! j)
      \<in> set (build_fragments source records (dispositions_of records metadata policy) 0)"
    using kept_has_fragment [OF _ len] by simp
  moreover have "cl_fragments log = build_fragments source records (dispositions_of records metadata policy) 0"
    using compact_log_Ok [OF ok] r(1) by (metis sum.inject(2))
  ultimately show ?thesis using mark j(3) by (force simp: kept_fragment_def)
qed

text \<open>The failure line of the sample log.\<close>

definition demo_failure :: Record where
  "demo_failure = new_record demo_log 22 30 31 Line"

lemma demo_failure_parsed:
  "(case parse_records demo_log of Inl _ \<Rightarrow> False | Inr records \<Rightarrow> demo_failure \<in> set records)
   \<and> rec_display demo_failure = ''Error: x''"
  by code_simp

theorem failures_visible_witness:
  "\<exists>log. demo_compacted = Ok log \<and> (\<exists>f \<in> set (cl_fragments log). \<exists>reasons. cf_kind f = Retained reasons
     \<and> FailureNeighborhood Error \<in> set reasons \<and> cf_rendered f = ''Error: x'' @ newline)"
proof -
  obtain log where log: "compact_log demo_sha demo_source demo_log demo_metadata demo_policy = Ok log"
    using demo_compacts unfolding demo_compacted_def by blast
  obtain records where records: "parse_records demo_log = Ok records" "demo_failure \<in> set records"
    using demo_failure_parsed by (auto split: sum.splits)
  have line: "rec_frame_kind demo_failure = Line" by code_simp
  have key: "contains_ascii_case_insensitive (rec_display demo_failure) (FailureKeyword_as_str Error)"
    by code_simp
  have boiler: "rec_display demo_failure \<notin> br_exact_line ` set (cp_boilerplate_rules demo_policy)"
    by code_simp
  have "rec_display demo_failure = ''Error: x''" using demo_failure_parsed by simp
  with failures_visible [OF log records line key boiler] log show ?thesis
    unfolding demo_compacted_def by metis
qed

section \<open>The order of the boilerplate rules\<close>

lemma validate_rule_Ok:
  "validate_rule rules index rule = Ok () \<longleftrightarrow>
     valid_identifier (br_id rule) MAX_BOILERPLATE_ID_BYTES
     \<and> length (br_exact_line rule) \<le> MAX_BOILERPLATE_TEXT_BYTES \<and> \<not> has_control (br_exact_line rule)
     \<and> br_id rule \<notin> br_id ` set (take index rules)
     \<and> br_exact_line rule \<notin> br_exact_line ` set (take index rules)"
  by (auto simp: validate_rule_def and_then_Inr_iff list_ex_iff image_iff)

lemma distinct_map_iff_take:
  "distinct (map f xs) \<longleftrightarrow> (\<forall>i < length xs. f (xs ! i) \<notin> f ` set (take i xs))"
proof (induction xs rule: rev_induct)
  case (snoc x xs)
  have "(\<forall>i < length (xs @ [x]). f ((xs @ [x]) ! i) \<notin> f ` set (take i (xs @ [x]))) \<longleftrightarrow>
      (\<forall>i < length xs. f (xs ! i) \<notin> f ` set (take i xs)) \<and> f x \<notin> f ` set xs"
    by (auto simp: less_Suc_eq nth_append)
  with snoc show ?case by auto
qed simp

definition rule_valid :: "BoilerplateRule \<Rightarrow> bool" where
  "rule_valid rule \<longleftrightarrow> valid_identifier (br_id rule) MAX_BOILERPLATE_ID_BYTES
     \<and> length (br_exact_line rule) \<le> MAX_BOILERPLATE_TEXT_BYTES \<and> \<not> has_control (br_exact_line rule)"

lemma validate_policy_Ok:
  "validate_policy policy = Ok () \<longleftrightarrow>
     valid_identifier (cp_version policy) MAX_POLICY_VERSION_BYTES
     \<and> cp_boundary_records policy \<le> MAX_BOUNDARY_RECORDS
     \<and> cp_failure_context_records policy \<le> MAX_FAILURE_CONTEXT_RECORDS
     \<and> length (cp_boilerplate_rules policy) \<le> MAX_BOILERPLATE_RULES
     \<and> list_all rule_valid (cp_boilerplate_rules policy)
     \<and> distinct (map br_id (cp_boilerplate_rules policy))
     \<and> distinct (map br_exact_line (cp_boilerplate_rules policy))"
  unfolding distinct_map_iff_take list_all_length rule_valid_def
  by (auto simp: validate_policy_def and_then_Inr_iff for_each_Inr_iff validate_rule_Ok)

lemma boilerplate_map_perm:
  assumes "mset rules' = mset rules" and "distinct (map br_exact_line rules)"
  shows "boilerplate_map rules' = boilerplate_map rules"
proof -
  have "distinct (map br_exact_line rules')"
    using assms by (metis mset_eq_imp_distinct_iff mset_map)
  moreover have "set rules' = set rules" using assms(1) by (rule mset_eq_setD)
  ultimately show ?thesis
    using assms(2) unfolding boilerplate_map_def
    by (subst map_of_inject_set) (simp_all add: comp_def rev_map [symmetric])
qed

lemma sort_rules_perm:
  assumes "mset rules' = mset rules" and "distinct (map br_id rules)"
  shows "sort_key rule_order rules' = sort_key rule_order rules"
proof -
  have "inj_on rule_order (set rules')"
    using assms(2) mset_eq_setD [OF assms(1)] by (auto simp: inj_on_def rule_order_def distinct_map)
  with assms(1) show ?thesis by (rule sort_key_eq_sort_key)
qed

text \<open>A valid policy means the same in whatever order its boilerplate rules are listed: the whole
  compacted log, its policy digest included, is the same.\<close>

lemma rule_order_irrelevant:
  assumes "validate_policy policy = Ok ()" and "mset rules' = mset (cp_boilerplate_rules policy)"
  shows "compact_log sha256 source bytes metadata (policy\<lparr>cp_boilerplate_rules := rules'\<rparr>) =
    compact_log sha256 source bytes metadata policy"
proof -
  let ?p = "policy\<lparr>cp_boilerplate_rules := rules'\<rparr>"
  note valid = assms(1) [unfolded validate_policy_Ok]
  have "distinct (map br_id rules')" "distinct (map br_exact_line rules')" "length rules' = length (cp_boilerplate_rules policy)"
    "set rules' = set (cp_boilerplate_rules policy)"
    using valid assms(2) by (metis mset_eq_imp_distinct_iff mset_map, metis mset_eq_imp_distinct_iff mset_map,
      metis mset_eq_length, metis mset_eq_setD)
  then have valid': "validate_policy ?p = Ok ()"
    using valid unfolding validate_policy_Ok by (simp add: list_all_iff)
  have "boilerplate_map rules' = boilerplate_map (cp_boilerplate_rules policy)"
    using valid assms(2) by (intro boilerplate_map_perm) simp_all
  then have "preprocess records ?p = preprocess records policy" for records
    by (simp add: preprocess_def apply_boilerplate_omissions_def cong: option.case_cong)
  then have "dispositions_of records metadata ?p = dispositions_of records metadata policy" for records
    by (simp add: dispositions_of_def retention_def Let_def)
  moreover have "digest_policy sha256 ?p = digest_policy sha256 policy"
    using sort_rules_perm [OF assms(2)] valid by (simp add: digest_policy_def policy_preimage_def)
  ultimately show ?thesis using valid' assms(1) by (simp add: compact_log_def)
qed

section \<open>The rendered text is safe to print\<close>

abbreviation printable :: "nat \<Rightarrow> bool" where
  "printable u \<equiv> \<not> is_control u"

abbreviation line_text :: "string \<Rightarrow> bool" where
  "line_text \<equiv> text_of (\<lambda>u. u = 0x0A \<or> printable u)"

lemma line_text_visible:
  "(\<And>c. c \<in> set s \<Longrightarrow> 32 \<le> byte c \<and> byte c < 0x7F \<or> byte c = 0x0A) \<Longrightarrow> line_text s"
  by (rule text_of_ascii) (fastforce simp: is_control_def)

lemma line_text_nat [simp, intro]: "line_text (show_nat n)" "line_text (show_hex n)"
  by (simp_all add: show_nat_def show_hex_def text_of_digits is_control_def)

lemma line_text_newline [simp, intro]: "line_text newline"
  by (rule line_text_visible) (simp add: newline_def)

lemma line_text_display: "line_text (normalize_display bytes)"
proof -
  have "line_text (display_char u)" if "is_scalar u" for u
  proof (cases "is_control u")
    case False
    then show ?thesis using that by (simp add: display_char_def text_of_char)
  next
    case True
    have "line_text (show_hex2 (byte (char_of u)))"
      using digit_char_byte [of "u mod 256 div 16"] digit_char_byte [of "u mod 256 mod 16"]
        less_mult_imp_div_less [of "u mod 256" 16 16]
      by (intro line_text_visible) (auto simp: show_hex2_def)
    then have "u \<le> 0xff \<Longrightarrow> line_text (show_hex2 u)" by simp
    moreover have "line_text [CHR 0x5C, CHR ''t'']" "line_text [CHR 0x5C, CHR ''x'']"
      "line_text [CHR 0x5C, CHR ''u'', CHR 0x7B]" "line_text [CHR 0x7D]"
      by (auto intro!: line_text_visible)
    ultimately show ?thesis
      using True text_of_append by (simp add: display_char_def del: append_Cons)
  qed
  then show ?thesis
    unfolding normalize_display_def using chars_scalar [of "strip_terminal_sequences bytes 0"]
    by (auto intro!: text_of_concat simp: list_all_iff)
qed

lemma parse_loop_displays:
  "\<lbrakk>parse_loop bytes records start cursor = Ok rs; \<forall>r \<in> set records. line_text (rec_display r)\<rbrakk>
   \<Longrightarrow> \<forall>r \<in> set rs. line_text (rec_display r)"
proof (induction bytes records start cursor rule: parse_loop.induct)
  case (1 bytes records start cursor)
  have pushed: "\<forall>r \<in> set rs'. line_text (rec_display r)"
    if "push_record records bytes a b c k = Ok rs'" for a b c k rs'
    using that 1(6) by (auto simp: push_record_def new_record_def line_text_display split: if_splits)
  show ?case
    using 1(5) [unfolded parse_loop.simps [of bytes records start cursor]] 1(1-4,6) pushed
    by (auto split: if_splits simp: and_then_Inr_iff)
qed

lemma progress_loop_values:
  "x \<in> set (progress_loop records omissions start) \<Longrightarrow> x \<in> set omissions \<or> x = Some SupersededProgress"
proof (induction records omissions start rule: progress_loop.induct)
  case (1 records omissions start)
  have "set (fill_range a b v omissions) \<subseteq> insert v (set omissions)" for a b v
    by (auto simp: fill_range_def)
  with 1 show ?case
    by (subst (asm) (3) progress_loop.simps) (fastforce simp: Let_def split: if_splits)
qed

lemma repeat_loop_values: "x \<in> set (repeat_loop previous xs) \<Longrightarrow> x \<in> snd ` set xs \<or> x = Some Repeated"
  by (induction previous xs rule: repeat_loop.induct) (auto split: option.splits if_splits)

lemma dispositions_rule_id:
  assumes "Omit (Boilerplate rule_id) \<in> set (dispositions_of records metadata policy)"
  shows "rule_id \<in> br_id ` set (cp_boilerplate_rules policy)"
proof -
  let ?om = "progress_omissions records"
  have "Some (Boilerplate rule_id) \<in> set (preprocess records policy)"
    using assms by (auto simp: dispositions_of_def Let_def disposition_of_def set_zip
        split: option.splits if_splits) (metis nth_mem preprocess_length)
  then have "Some (Boilerplate rule_id) \<in> set (apply_boilerplate_omissions records policy ?om)"
    using repeat_loop_values by (fastforce simp: preprocess_def apply_repeat_omissions_def dest: set_zip_rightD)
  then obtain r om where om: "(r, om) \<in> set (zip records ?om)"
    and eq: "Some (Boilerplate rule_id) = (case om of Some reason \<Rightarrow> Some reason
      | None \<Rightarrow> (case boilerplate_map (cp_boilerplate_rules policy) (rec_display r) of
          Some rule_id \<Rightarrow> Some (Boilerplate rule_id) | None \<Rightarrow> None))"
    by (auto simp: apply_boilerplate_omissions_def)
  have "om \<in> {None, Some SupersededProgress}"
    using progress_loop_values set_zip_rightD [OF om] by (fastforce simp: progress_omissions_def)
  with eq have "boilerplate_map (cp_boilerplate_rules policy) (rec_display r) = Some rule_id"
    by (auto split: option.splits)
  then show ?thesis by (auto simp: boilerplate_map_def dest!: map_of_SomeD)
qed

lemma line_text_omission:
  "(\<And>rule_id. reason = Boilerplate rule_id \<Longrightarrow> line_text rule_id) \<Longrightarrow> line_text (render_omission reason n)"
  by (cases reason) (auto intro!: text_of_append line_text_visible [of "_ # _"] simp del: append_Cons)

lemma line_text_exit: "line_text (render_exit_status status)"
  by (cases status)
    (auto intro!: text_of_append line_text_visible [of "_ # _"] simp: show_i32_def simp del: append_Cons)

lemma fragments_line_text:
  "\<lbrakk>\<And>r. r \<in> set records \<Longrightarrow> line_text (rec_display r); length dispositions = length records;
    \<And>rule_id. Omit (Boilerplate rule_id) \<in> set dispositions \<Longrightarrow> line_text rule_id;
    f \<in> set (build_fragments source records dispositions index)\<rbrakk> \<Longrightarrow> line_text (cf_rendered f)"
proof (induction source records dispositions index rule: build_fragments.induct)
  case (1 source records dispositions index)
  have here: "index < length records"
    using 1(6) by (subst (asm) build_fragments.simps) (auto split: if_splits)
  then have member: "dispositions ! index \<in> set dispositions" using 1(4) by simp
  note f = 1(6) [unfolded build_fragments.simps [of source records dispositions index]]
  show ?case
  proof (cases "dispositions ! index")
    case (Keep reasons)
    have "line_text (rec_display (records ! index) @ newline)"
      using 1(3) [OF nth_mem [OF here]] line_text_newline by (rule text_of_append)
    then show ?thesis using f here Keep 1(1) [OF here Keep 1(3-5)] by auto
  next
    case (Omit reason)
    have "line_text (render_omission reason n)" for n
      using member Omit 1(5) by (auto intro: line_text_omission)
    then show ?thesis using f here Omit 1(2) [OF here Omit refl refl 1(3-5)] by (auto simp: Let_def)
  qed
qed

text \<open>Whatever bytes the log has, the text a compaction renders contains no control character but the
  line feed: no escape sequence reaches the terminal.\<close>

lemma rendered_text_safe:
  assumes "compact_log sha256 source bytes metadata policy = Ok log"
  shows "list_all (\<lambda>u. u = 0x0A \<or> \<not> is_control u) (chars (cl_rendered_text log))"
proof -
  obtain records where ok: "parse_records bytes = Ok records" "validate_policy policy = Ok ()"
    "cl_fragments log = build_fragments source records (dispositions_of records metadata policy) 0"
    "cl_rendered_text log = concat (map cf_rendered (cl_fragments log))
       @ (if records = [] then ''[no log output]'' @ newline else [])
       @ render_exit_status (lm_exit_status metadata)"
    using compact_log_Ok [OF assms] by metis
  have displays: "line_text (rec_display r)" if "r \<in> set records" for r
    using parse_loop_displays ok(1) that by (fastforce simp: parse_records_def)
  have "line_text rule_id" if rule: "Omit (Boilerplate rule_id) \<in> set (dispositions_of records metadata policy)"
    for rule_id
  proof -
    have "valid_identifier rule_id MAX_BOILERPLATE_ID_BYTES"
      using dispositions_rule_id [OF rule] ok(2) by (auto simp: validate_policy_Ok list_all_iff rule_valid_def)
    then show ?thesis
      by (intro line_text_visible) (auto simp: valid_identifier_def list_all_iff is_ascii_lowercase_def is_ascii_digit_def)
  qed
  then have "line_text (cf_rendered f)" if "f \<in> set (cl_fragments log)" for f
    using fragments_line_text [OF displays _ _ that [unfolded ok(3)]] retention_length
    by (simp add: dispositions_of_def Let_def)
  then have "line_text (cl_rendered_text log)"
    unfolding ok(4)
    by (auto intro!: text_of_append text_of_concat line_text_exit line_text_visible [of "_ # _"] simp del: append_Cons)
  then show ?thesis by (rule text_of_chars)
qed

end
