(* ===== verification/Sql_Tables.thy ===== *)
theory Sql_Tables
  imports Pam_Prelude Pam_Text
begin

text \<open>
  Tables of the durable state.  A table is the list of its rows in \<open>rowid\<close> order (SQLite gives a new
  row the next \<open>rowid\<close>), a statement is a function on that list: \<open>row_where\<close> reads the row a unique
  key selects, \<open>first_by\<close> is \<^verbatim>\<open>ORDER BY key, rowid LIMIT 1\<close>, \<open>update_where\<close> is
  \<^verbatim>\<open>UPDATE ... WHERE\<close> and \<open>matching\<close> the number of rows it reports.  INTEGER columns are integers
  kept in the range of \<^verbatim>\<open>i64\<close> by the schema.
\<close>

definition is_i64 :: "int \<Rightarrow> bool" where
  "is_i64 v \<longleftrightarrow> - (2 ^ 63) \<le> v \<and> v < 2 ^ 63"

definition row_where :: "('r \<Rightarrow> bool) \<Rightarrow> 'r list \<Rightarrow> 'r option" where
  "row_where p t = find p t"

definition first_by :: "('r \<Rightarrow> 'k::linorder) \<Rightarrow> ('r \<Rightarrow> bool) \<Rightarrow> 'r list \<Rightarrow> 'r option" where
  "first_by key p t = (case sort_key key (filter p t) of [] \<Rightarrow> None | r # _ \<Rightarrow> Some r)"

definition update_where :: "('r \<Rightarrow> bool) \<Rightarrow> ('r \<Rightarrow> 'r) \<Rightarrow> 'r list \<Rightarrow> 'r list" where
  "update_where p f t = map (\<lambda>r. if p r then f r else r) t"

definition matching :: "('r \<Rightarrow> bool) \<Rightarrow> 'r list \<Rightarrow> nat" where
  "matching p t = length (filter p t)"

definition max_of :: "int list \<Rightarrow> int" where
  "max_of vs = fold max vs 0"

section \<open>Rows after a statement\<close>

lemma row_where_Some: "row_where p t = Some r \<Longrightarrow> r \<in> set t \<and> p r"
  by (auto simp: row_where_def find_Some_iff)

lemma row_where_None: "row_where p t = None \<longleftrightarrow> (\<forall>r \<in> set t. \<not> p r)"
  by (auto simp: row_where_def find_None_iff)

lemma row_where_snoc: "row_where p (t @ [r]) = (case row_where p t of None \<Rightarrow> if p r then Some r else None | s \<Rightarrow> s)"
  by (induction t) (auto simp: row_where_def)

lemma row_where_key:
  assumes "distinct (map key t)" and "r \<in> set t" and "key r = k" and "\<And>s. p s \<longleftrightarrow> key s = k \<and> q s"
  shows "row_where p t = (if q r then Some r else None)"
proof (cases "row_where p t")
  case None
  with assms(2-4) show ?thesis by (auto simp: row_where_None)
next
  case (Some s)
  with row_where_Some [OF Some] assms show ?thesis by (metis inj_on_def distinct_map)
qed

lemma update_where_set:
  "s \<in> set (update_where p f t) \<longleftrightarrow> (\<exists>r \<in> set t. s = (if p r then f r else r))"
  by (auto simp: update_where_def)

lemma length_update_where [simp]: "length (update_where p f t) = length t"
  by (simp add: update_where_def)

lemma update_where_none: "\<forall>r \<in> set t. \<not> p r \<Longrightarrow> update_where p f t = t"
  by (induction t) (auto simp: update_where_def)

lemma map_update_where: "(\<And>r. p r \<Longrightarrow> key (f r) = key r) \<Longrightarrow> map key (update_where p f t) = map key t"
  by (auto simp: update_where_def)

lemma filter_update_where:
  "(\<And>r. r \<in> set t \<Longrightarrow> p r \<Longrightarrow> q (f r) = q r) \<Longrightarrow> filter q (update_where p f t) = update_where p f (filter q t)"
  by (induction t) (auto simp: update_where_def)

lemma row_where_update:
  assumes "\<And>r. r \<in> set t \<Longrightarrow> p r \<Longrightarrow> q (f r) = q r"
  shows "row_where q (update_where p f t) = map_option (\<lambda>r. if p r then f r else r) (row_where q t)"
  using assms by (induction t) (auto simp: row_where_def update_where_def)

lemma row_where_update_other:
  assumes "\<And>r. p r \<Longrightarrow> \<not> q r \<and> \<not> q (f r)"
  shows "row_where q (update_where p f t) = row_where q t"
  using assms by (induction t) (auto simp: row_where_def update_where_def)

lemma update_where_single:
  assumes "\<forall>s \<in> set xs \<union> set ys. \<not> p s" and "p r"
  shows "update_where p f (xs @ r # ys) = xs @ f r # ys"
  using assms update_where_none [of xs p f] update_where_none [of ys p f] by (simp add: update_where_def)

lemma matching_pos: "0 < matching p t \<longleftrightarrow> (\<exists>r \<in> set t. p r)"
  by (auto simp: matching_def filter_empty_conv)

lemma matching_unique:
  assumes "distinct (map key t)" and "\<And>r. p r \<Longrightarrow> key r = k"
  shows "matching p t \<le> 1"
proof (rule ccontr)
  assume "\<not> matching p t \<le> 1"
  then obtain a b rest where ab: "filter p t = a # b # rest"
    by (auto simp: matching_def Suc_le_length_iff not_less_eq_eq)
  then have "a \<in> set (filter p t)" "b \<in> set (filter p t)" by simp_all
  then have "key a = k" "key b = k" using assms(2) by auto
  moreover have "distinct (map key (filter p t))" by (rule distinct_map_filter [OF assms(1)])
  ultimately show False using ab by simp
qed

lemma matching_one:
  assumes "distinct (map key t)" and "\<And>r. p r \<Longrightarrow> key r = k" and "r \<in> set t" and "p r"
  shows "matching p t = 1"
  using matching_unique [of key t p k] matching_pos [of p t] assms by force

lemma first_by_Some:
  assumes "first_by key p t = Some r"
  shows "r \<in> set t" and "p r" and "\<And>s. s \<in> set t \<Longrightarrow> p s \<Longrightarrow> key r \<le> key s"
proof -
  obtain rest where rest: "sort_key key (filter p t) = r # rest"
    using assms by (auto simp: first_by_def split: list.splits)
  then have "r \<in> set (sort_key key (filter p t))" by simp
  then show "r \<in> set t" "p r" by auto
  have "sorted (map key (r # rest))" using sorted_sort_key [of key "filter p t"] rest by simp
  moreover have "set (r # rest) = {s \<in> set t. p s}" using rest set_sort [of key "filter p t"] by simp
  ultimately show "key r \<le> key s" if "s \<in> set t" "p s" for s using that by auto
qed

lemma first_by_None: "first_by key p t = None \<longleftrightarrow> (\<forall>r \<in> set t. \<not> p r)"
proof -
  have "first_by key p t = None \<longleftrightarrow> set (sort_key key (filter p t)) = {}"
    by (auto simp: first_by_def simp del: set_sort split: list.splits)
  then show ?thesis by auto
qed

lemma max_of_snoc [simp]: "max_of (vs @ [v]) = max v (max_of vs)"
  by (simp add: max_of_def)

lemma max_of_Nil [simp]: "max_of [] = 0"
  by (simp add: max_of_def)

end
