(* ===== verification/Policy.thy ===== *)
theory Policy
  imports Pam_Text Pam_System
begin

text \<open>
  The policy component (\<^verbatim>\<open>pam_policy/src/lib.rs\<close>): grants and the deny-overrides
  evaluation, the fingerprint that binds an approval to one exact effect, and the
  life cycle of an approval receipt.  Identifiers and names are their bytes; SHA-256
  (crate \<^verbatim>\<open>sha2\<close>) is the parameter \<open>sha256\<close>.
\<close>

section \<open>Names\<close>

definition MAX_CAPABILITY_NAME_BYTES :: nat where
  "MAX_CAPABILITY_NAME_BYTES = 128"

definition MAX_RESOURCE_NAME_BYTES :: nat where
  "MAX_RESOURCE_NAME_BYTES = 1024"

type_synonym CallerId = string
type_synonym ApprovalId = string
type_synonym GrantId = string
type_synonym ProjectId = string
type_synonym CapabilityName = string
type_synonym ResourceName = string

datatype InvalidName = InvalidCapabilityName | InvalidResourceName

definition bounded_name_parse :: "nat \<Rightarrow> InvalidName \<Rightarrow> string \<Rightarrow> InvalidName + string" where
  "bounded_name_parse maximum err name =
     (if name = [] \<or> length name > maximum \<or> has_control name then Err err else Ok name)"

definition CapabilityName_parse :: "string \<Rightarrow> InvalidName + CapabilityName" where
  "CapabilityName_parse = bounded_name_parse MAX_CAPABILITY_NAME_BYTES InvalidCapabilityName"

definition ResourceName_parse :: "string \<Rightarrow> InvalidName + ResourceName" where
  "ResourceName_parse = bounded_name_parse MAX_RESOURCE_NAME_BYTES InvalidResourceName"

section \<open>Grants\<close>

datatype Effect = Allow | Deny

datatype ResourceScope = Any | Exact ResourceName

fun ResourceScope_matches :: "ResourceScope \<Rightarrow> ResourceName \<Rightarrow> bool" where
  "ResourceScope_matches Any resource = True"
| "ResourceScope_matches (Exact expected) resource = (expected = resource)"

datatype ApprovalRequirement = NoApproval | Once

record Grant =
  gr_id :: GrantId
  gr_caller :: CallerId
  gr_project :: ProjectId
  gr_capability :: CapabilityName
  gr_resource :: ResourceScope
  gr_effect :: Effect
  gr_approval :: ApprovalRequirement
  gr_expires_at_ms :: "u64 option"
  gr_revoked_at_ms :: "u64 option"

text \<open>\<^verbatim>\<open>Option::is_none_or\<close>\<close>

definition is_none_or :: "('a \<Rightarrow> bool) \<Rightarrow> 'a option \<Rightarrow> bool" where
  "is_none_or p v = (case v of None \<Rightarrow> True | Some x \<Rightarrow> p x)"

definition is_active_at :: "Grant \<Rightarrow> u64 \<Rightarrow> bool" where
  "is_active_at g now_ms \<longleftrightarrow>
     is_none_or (\<lambda>expiry. now_ms < expiry) (gr_expires_at_ms g) \<and>
     is_none_or (\<lambda>revocation. now_ms < revocation) (gr_revoked_at_ms g)"

definition Grant_matches ::
  "Grant \<Rightarrow> CallerId \<Rightarrow> ProjectId \<Rightarrow> CapabilityName \<Rightarrow> ResourceName \<Rightarrow> u64 \<Rightarrow> bool" where
  "Grant_matches g caller project capability resource now_ms \<longleftrightarrow>
     is_active_at g now_ms \<and> gr_caller g = caller \<and> gr_project g = project \<and>
     gr_capability g = capability \<and> ResourceScope_matches (gr_resource g) resource"

datatype Decision = Allowed | Denied | ApprovalRequired

definition BASELINE_CAPABILITIES :: "string list" where
  "BASELINE_CAPABILITIES =
     [''daemon.status'', ''project.current'', ''daemon.stop'', ''daemon.activity'',
      ''daemon.logs'', ''daemon.stats'', ''caller.list'', ''model.status'',
      ''connector.list'', ''grant.revoke'']"

text \<open>
  The loop of \<open>evaluate\<close> over the matching grants, with its three flags; \<open>None\<close> is the
  early return of \<^verbatim>\<open>Decision::Denied\<close>.
\<close>

fun scan_grants :: "Grant list \<Rightarrow> bool \<Rightarrow> bool \<Rightarrow> bool \<Rightarrow> (bool \<times> bool \<times> bool) option" where
  "scan_grants [] found_allow found_unconditional_allow found_match =
     Some (found_allow, found_unconditional_allow, found_match)"
| "scan_grants (g # gs) found_allow found_unconditional_allow found_match =
     (case gr_effect g of
        Deny \<Rightarrow> None
      | Allow \<Rightarrow>
          scan_grants gs True (found_unconditional_allow \<or> gr_approval g = NoApproval) True)"

definition evaluate ::
  "Grant list \<Rightarrow> CallerId \<Rightarrow> ProjectId \<Rightarrow> CapabilityName \<Rightarrow> ResourceName \<Rightarrow> u64 \<Rightarrow> Decision" where
  "evaluate grants caller project capability resource now_ms =
     (case scan_grants
             (filter (\<lambda>g. Grant_matches g caller project capability resource now_ms) grants)
             False False False of
        None \<Rightarrow> Denied
      | Some (found_allow, found_unconditional_allow, found_match) \<Rightarrow>
          if found_unconditional_allow then Allowed
          else if found_allow then ApprovalRequired
          else if \<not> found_match \<and> capability \<in> set BASELINE_CAPABILITIES then Allowed
          else Denied)"

section \<open>Fingerprints\<close>

type_synonym EffectFingerprint = string

definition policy_length_prefixed :: "string \<Rightarrow> string" where
  "policy_length_prefixed field = be_bytes64 (length field) @ field"

definition fingerprint_preimage ::
  "CallerId \<Rightarrow> ProjectId \<Rightarrow> CapabilityName \<Rightarrow> ResourceName \<Rightarrow> string" where
  "fingerprint_preimage caller project capability resource =
     ''pam-effect-fingerprint-v1'' @ [CHR 0x00] @ policy_length_prefixed caller
     @ policy_length_prefixed project @ policy_length_prefixed capability
     @ policy_length_prefixed resource"

definition EffectFingerprint_compute ::
  "(string \<Rightarrow> string) \<Rightarrow> CallerId \<Rightarrow> ProjectId \<Rightarrow> CapabilityName \<Rightarrow> ResourceName
     \<Rightarrow> EffectFingerprint" where
  "EffectFingerprint_compute sha256 caller project capability resource =
     sha256 (fingerprint_preimage caller project capability resource)"

section \<open>Approvals\<close>

datatype ApprovalState = Requested | Approved | ApprovalDenied | Consumed | Expired

datatype ApprovalTransitionError = InvalidTransition | FingerprintMismatch

record Approval =
  ap_id :: ApprovalId
  ap_caller :: CallerId
  ap_project :: ProjectId
  ap_capability :: CapabilityName
  ap_resource :: ResourceName
  ap_fingerprint :: EffectFingerprint
  ap_expires_at_ms :: u64
  ap_state :: ApprovalState

definition Approval_requested ::
  "(string \<Rightarrow> string) \<Rightarrow> ApprovalId \<Rightarrow> CallerId \<Rightarrow> ProjectId \<Rightarrow> CapabilityName \<Rightarrow> ResourceName
     \<Rightarrow> u64 \<Rightarrow> Approval" where
  "Approval_requested sha256 approval_id caller project capability resource expires_at_ms =
     \<lparr>ap_id = approval_id, ap_caller = caller, ap_project = project, ap_capability = capability,
      ap_resource = resource,
      ap_fingerprint = EffectFingerprint_compute sha256 caller project capability resource,
      ap_expires_at_ms = expires_at_ms, ap_state = Requested\<rparr>"

text \<open>Every operation returns its result and the receipt as it leaves it.\<close>

type_synonym approval_result = "(ApprovalTransitionError + ApprovalState) \<times> Approval"

definition expire_if_due :: "Approval \<Rightarrow> u64 \<Rightarrow> bool \<times> Approval" where
  "expire_if_due a now_ms =
     (if ap_state a \<in> {Requested, Approved} \<and> now_ms \<ge> ap_expires_at_ms a
      then (True, a\<lparr>ap_state := Expired\<rparr>) else (False, a))"

definition Approval_approve :: "u64 \<Rightarrow> Approval \<Rightarrow> approval_result" where
  "Approval_approve now_ms a =
     (case expire_if_due a now_ms of
        (True, a') \<Rightarrow> (Ok Expired, a')
      | (False, a') \<Rightarrow>
          if ap_state a' \<noteq> Requested then (Err InvalidTransition, a')
          else (Ok Approved, a'\<lparr>ap_state := Approved\<rparr>))"

definition Approval_deny :: "u64 \<Rightarrow> Approval \<Rightarrow> approval_result" where
  "Approval_deny now_ms a =
     (case expire_if_due a now_ms of
        (True, a') \<Rightarrow> (Ok Expired, a')
      | (False, a') \<Rightarrow>
          if ap_state a' \<noteq> Requested then (Err InvalidTransition, a')
          else (Ok ApprovalDenied, a'\<lparr>ap_state := ApprovalDenied\<rparr>))"

definition Approval_consume :: "EffectFingerprint \<Rightarrow> u64 \<Rightarrow> Approval \<Rightarrow> approval_result" where
  "Approval_consume fingerprint now_ms a =
     (case expire_if_due a now_ms of
        (True, a') \<Rightarrow> (Ok Expired, a')
      | (False, a') \<Rightarrow>
          if ap_state a' \<noteq> Approved then (Err InvalidTransition, a')
          else if ap_fingerprint a' \<noteq> fingerprint then (Err FingerprintMismatch, a')
          else (Ok Consumed, a'\<lparr>ap_state := Consumed\<rparr>))"

datatype ApprovalOp = Approve u64 | DenyRequest u64 | Consume EffectFingerprint u64

fun apply_approval :: "ApprovalOp \<Rightarrow> Approval \<Rightarrow> approval_result" where
  "apply_approval (Approve now_ms) a = Approval_approve now_ms a"
| "apply_approval (DenyRequest now_ms) a = Approval_deny now_ms a"
| "apply_approval (Consume fingerprint now_ms) a = Approval_consume fingerprint now_ms a"

text \<open>The receipt as a transition system, labelled with the call and its answer.\<close>

type_synonym approval_label = "ApprovalOp \<times> (ApprovalTransitionError + ApprovalState)"

definition approval_step :: "Approval \<Rightarrow> approval_label \<Rightarrow> Approval \<Rightarrow> bool" where
  "approval_step a l a' \<longleftrightarrow> apply_approval (fst l) a = (snd l, a')"

fun approval_trace :: "Approval \<Rightarrow> ApprovalOp list \<Rightarrow> approval_label list \<times> Approval" where
  "approval_trace a [] = ([], a)"
| "approval_trace a (op # ops) =
     (case apply_approval op a of
        (r, a') \<Rightarrow> (case approval_trace a' ops of (ls, a'') \<Rightarrow> ((op, r) # ls, a'')))"


section \<open>Evaluation\<close>

text \<open>What the documentation promises: an active matching deny wins, then an unconditional allow,
  then an allow that asks for approval; the baseline applies only when nothing matches.\<close>

definition policy_decision ::
  "Grant list \<Rightarrow> CallerId \<Rightarrow> ProjectId \<Rightarrow> CapabilityName \<Rightarrow> ResourceName \<Rightarrow> u64 \<Rightarrow> Decision" where
  "policy_decision grants caller project capability resource now_ms =
     (let matching = {g \<in> set grants. Grant_matches g caller project capability resource now_ms} in
      if \<exists>g \<in> matching. gr_effect g = Deny then Denied
      else if \<exists>g \<in> matching. gr_approval g = NoApproval then Allowed
      else if matching \<noteq> {} then ApprovalRequired
      else if capability \<in> set BASELINE_CAPABILITIES then Allowed
      else Denied)"

lemma Effect_not_Deny [simp]: "e \<noteq> Deny \<longleftrightarrow> e = Allow"
  by (cases e) auto

lemma scan_grants_eq:
  "scan_grants gs fa fu fm =
     (if \<exists>g \<in> set gs. gr_effect g = Deny then None
      else Some (fa \<or> gs \<noteq> [], fu \<or> (\<exists>g \<in> set gs. gr_approval g = NoApproval), fm \<or> gs \<noteq> []))"
  by (induction gs arbitrary: fa fu fm) (auto split: Effect.splits)

text \<open>C34: The evaluation of a list of grants is the documented deny-overrides decision: it depends only
  on the set of active matching grants, an active matching deny always wins, and the baseline
  capabilities are allowed only when nothing matches.\<close>

theorem evaluate_deny_overrides:
  "evaluate grants caller project capability resource now_ms =
     policy_decision grants caller project capability resource now_ms"
  by (auto simp: evaluate_def policy_decision_def scan_grants_eq Let_def filter_empty_conv)

section \<open>Fingerprints bind effects\<close>

lemma policy_length_prefixed_inj:
  assumes "policy_length_prefixed x @ xs = policy_length_prefixed y @ ys"
    and "length x < 2 ^ 64" "length y < 2 ^ 64"
  shows "x = y \<and> xs = ys"
proof (rule length_prefix_inj [OF _ assms(2,3)])
  show "be_bytes64 (length x) @ x @ xs = be_bytes64 (length y) @ y @ ys"
    using assms(1) unfolding policy_length_prefixed_def append_assoc .
qed

text \<open>Two effects with the same fingerprint are the same effect, or their (different) preimages are
  a collision of the hash: no field can borrow bytes from its neighbour.\<close>

lemma fingerprint_binds:
  assumes "EffectFingerprint_compute sha256 c p k r = EffectFingerprint_compute sha256 c' p' k' r'"
    and "\<forall>f \<in> {c, p, k, r, c', p', k', r'}. length f < 2 ^ 64"
  shows "(c, p, k, r) = (c', p', k', r')
     \<or> fingerprint_preimage c p k r \<noteq> fingerprint_preimage c' p' k' r'
       \<and> sha256 (fingerprint_preimage c p k r) = sha256 (fingerprint_preimage c' p' k' r')"
proof (cases "fingerprint_preimage c p k r = fingerprint_preimage c' p' k' r'")
  case True
  then have eq: "policy_length_prefixed c @ policy_length_prefixed p @ policy_length_prefixed k
        @ policy_length_prefixed r @ [] = policy_length_prefixed c' @ policy_length_prefixed p'
        @ policy_length_prefixed k' @ policy_length_prefixed r' @ []"
    by (simp add: fingerprint_preimage_def)
  have small: "length f < 2 ^ 64" if "f \<in> {c, p, k, r, c', p', k', r'}" for f
    using assms(2) that by blast
  show ?thesis
    using policy_length_prefixed_inj [OF eq] policy_length_prefixed_inj small
    by (metis insertI1 insertI2)
next
  case False
  with assms(1) show ?thesis by (simp add: EffectFingerprint_compute_def)
qed

section \<open>The life of an approval\<close>

abbreviation pending_receipt :: "ApprovalState \<Rightarrow> bool" where
  "pending_receipt st \<equiv> st = Requested \<or> st = Approved"

text \<open>One rule per way a receipt can change.\<close>

inductive approval_rule :: "Approval \<Rightarrow> approval_label \<Rightarrow> Approval \<Rightarrow> bool" where
  expires: "\<lbrakk>pending_receipt (ap_state a); now \<ge> ap_expires_at_ms a;
     op \<in> {Approve now, DenyRequest now, Consume fp now}\<rbrakk>
    \<Longrightarrow> approval_rule a (op, Ok Expired) (a\<lparr>ap_state := Expired\<rparr>)"
| approves: "\<lbrakk>ap_state a = Requested; now < ap_expires_at_ms a\<rbrakk>
    \<Longrightarrow> approval_rule a (Approve now, Ok Approved) (a\<lparr>ap_state := Approved\<rparr>)"
| denies: "\<lbrakk>ap_state a = Requested; now < ap_expires_at_ms a\<rbrakk>
    \<Longrightarrow> approval_rule a (DenyRequest now, Ok ApprovalDenied) (a\<lparr>ap_state := ApprovalDenied\<rparr>)"
| consumes: "\<lbrakk>ap_state a = Approved; now < ap_expires_at_ms a; ap_fingerprint a = fp\<rbrakk>
    \<Longrightarrow> approval_rule a (Consume fp now, Ok Consumed) (a\<lparr>ap_state := Consumed\<rparr>)"
| refused: "approval_rule a (op, Err e) a"

inductive_cases approval_ruleE: "approval_rule a l a'"

lemma approval_step_rule: "approval_step a l a' \<Longrightarrow> approval_rule a l a'"
  by (cases l; cases "fst l")
    (auto simp: approval_step_def Approval_approve_def Approval_deny_def Approval_consume_def
        expire_if_due_def not_le split: if_splits intro!: approval_rule.intros)

text \<open>
  A receipt with the answers it has given: what its state says about them.
\<close>

type_synonym receipt = "approval_label list \<times> Approval"

definition approved_before :: "u64 \<Rightarrow> approval_label list \<Rightarrow> bool" where
  "approved_before deadline ls \<longleftrightarrow> (\<exists>t < deadline. (Approve t, Ok Approved) \<in> set ls)"

definition consumed_exactly :: "Approval \<Rightarrow> approval_label list \<Rightarrow> bool" where
  "consumed_exactly a ls \<longleftrightarrow>
     (\<forall>before op after. ls = before @ (op, Ok Consumed) # after \<longrightarrow>
        (\<exists>now < ap_expires_at_ms a. op = Consume (ap_fingerprint a) now)
        \<and> approved_before (ap_expires_at_ms a) before)"

definition times_consumed :: "approval_label list \<Rightarrow> nat" where
  "times_consumed ls = length (filter (\<lambda>l. snd l = Ok Consumed) ls)"

definition receipt_init :: "Approval \<Rightarrow> receipt \<Rightarrow> bool" where
  "receipt_init a0 s \<longleftrightarrow> s = ([], a0) \<and> ap_state a0 = Requested"

definition receipt_step :: "receipt \<Rightarrow> approval_label \<Rightarrow> receipt \<Rightarrow> bool" where
  "receipt_step s l s' \<longleftrightarrow> fst s' = fst s @ [l] \<and> approval_step (snd s) l (snd s')"

definition receipt_inv :: "Approval \<Rightarrow> receipt \<Rightarrow> bool" where
  "receipt_inv a0 s \<longleftrightarrow>
     (case s of (ls, a) \<Rightarrow>
        a = a0\<lparr>ap_state := ap_state a\<rparr>
        \<and> times_consumed ls = (if ap_state a = Consumed then 1 else 0)
        \<and> (ap_state a \<in> {Approved, Consumed} \<longrightarrow> approved_before (ap_expires_at_ms a0) ls)
        \<and> consumed_exactly a0 ls)"

lemma approved_before_snoc: "approved_before d ls \<Longrightarrow> approved_before d (ls @ ks)"
  by (auto simp: approved_before_def)

lemma consumed_exactly_snoc:
  assumes "consumed_exactly a ls"
    and "r = Ok Consumed \<Longrightarrow> \<exists>now < ap_expires_at_ms a. op = Consume (ap_fingerprint a) now"
    and "r = Ok Consumed \<Longrightarrow> approved_before (ap_expires_at_ms a) ls"
  shows "consumed_exactly a (ls @ [(op, r)])"
  unfolding consumed_exactly_def
proof (intro allI impI)
  fix before op' after
  assume "ls @ [(op, r)] = before @ (op', Ok Consumed) # after"
  with assms show "(\<exists>now < ap_expires_at_ms a. op' = Consume (ap_fingerprint a) now)
      \<and> approved_before (ap_expires_at_ms a) before"
    by (cases after rule: rev_cases) (auto simp: consumed_exactly_def)
qed

lemma receipt_inv_step:
  assumes "receipt_inv a0 s" and "receipt_step s l s'"
  shows "receipt_inv a0 s'"
proof -
  obtain ls a a' where s: "s = (ls, a)" "s' = (ls @ [l], a')"
    using assms(2) by (cases s, cases s') (auto simp: receipt_step_def)
  have inv: "a = a0\<lparr>ap_state := ap_state a\<rparr>" "consumed_exactly a0 ls"
    "times_consumed ls = (if ap_state a = Consumed then 1 else 0)"
    "ap_state a \<in> {Approved, Consumed} \<longrightarrow> approved_before (ap_expires_at_ms a0) ls"
    using assms(1) s by (simp_all add: receipt_inv_def)
  have fields: "ap_expires_at_ms a = ap_expires_at_ms a0" "ap_fingerprint a = ap_fingerprint a0"
    by (subst inv(1), simp)+
  have "approval_rule a l a'" using assms(2) s by (auto simp: receipt_step_def intro: approval_step_rule)
  then show ?thesis
    using inv fields approved_before_snoc [of "ap_expires_at_ms a0" ls "[l]"]
    by cases (auto simp: s receipt_inv_def times_consumed_def approved_before_def intro!: consumed_exactly_snoc)
qed

interpretation receipts: invariant_system "receipt_init a0" receipt_step "receipt_inv a0"
  for a0 :: Approval
proof
  show "receipt_inv a0 s" if "receipt_init a0 s" for s
    using that by (auto simp: receipt_init_def receipt_inv_def times_consumed_def consumed_exactly_def)
qed (rule receipt_inv_step)

lemma approval_trace_path:
  "approval_trace a ops = (ls, a') \<Longrightarrow> path receipt_step (ks, a) ls (ks @ ls, a')"
proof (induction ops arbitrary: a ls ks)
  case (Cons op ops)
  obtain r b where op: "apply_approval op a = (r, b)" by fastforce
  with Cons.prems obtain ls' where ls: "ls = (op, r) # ls'" "approval_trace b ops = (ls', a')"
    by (auto split: prod.splits)
  have "receipt_step (ks, a) (op, r) (ks @ [(op, r)], b)"
    using op by (simp add: receipt_step_def approval_step_def)
  with Cons.IH [OF ls(2), of "ks @ [(op, r)]"] show ?case by (auto simp: ls(1))
qed simp

text \<open>However often a requested approval is approved, denied and consumed, it is consumed at most
  once; a consumption names the exact fingerprint, happens before the deadline, and comes after an approval
  given before the deadline.\<close>

lemma approval_single_use:
  assumes "approval_trace (Approval_requested sha256 approval_id c p k r deadline) ops = (ls, a)"
  shows "times_consumed ls \<le> 1
     \<and> (\<forall>before op after. ls = before @ (op, Ok Consumed) # after \<longrightarrow>
          (\<exists>now < deadline. op = Consume (EffectFingerprint_compute sha256 c p k r) now)
          \<and> (\<exists>t < deadline. (Approve t, Ok Approved) \<in> set before))"
proof -
  define a0 where "a0 = Approval_requested sha256 approval_id c p k r deadline"
  have "path receipt_step ([], a0) ls ([] @ ls, a)"
    using approval_trace_path assms unfolding a0_def .
  moreover have "receipt_inv a0 ([], a0)"
    by (rule receipts.init_inv) (simp add: receipt_init_def a0_def Approval_requested_def)
  ultimately have "receipt_inv a0 (ls, a)" using receipts.path_inv by fastforce
  then show ?thesis
    by (auto simp: receipt_inv_def consumed_exactly_def approved_before_def a0_def Approval_requested_def)
qed

abbreviation demo_receipt :: Approval where
  "demo_receipt \<equiv> Approval_requested rev ''a1'' ''agent'' ''p1'' ''git.push'' ''origin'' 10"

definition demo_fingerprint :: EffectFingerprint where
  "demo_fingerprint = EffectFingerprint_compute rev ''agent'' ''p1'' ''git.push'' ''origin''"

definition demo_approval_labels :: "approval_label list" where
  "demo_approval_labels =
     [(Consume demo_fingerprint 1, Err InvalidTransition), (Approve 5, Ok Approved),
      (Consume ''other'' 6, Err FingerprintMismatch), (Consume demo_fingerprint 7, Ok Consumed),
      (Consume demo_fingerprint 8, Err InvalidTransition), (Approve 9, Err InvalidTransition)]"

lemma demo_approval_trace:
  "approval_trace demo_receipt (map fst demo_approval_labels) =
     (demo_approval_labels, demo_receipt\<lparr>ap_state := Consumed\<rparr>)"
  by code_simp

end
