(* ===== verification/Store_Schema.thy ===== *)
theory Store_Schema
  imports Sql_Tables Flow_Snapshot Policy Redaction Pam_Core
begin

text \<open>
  The durable state of the daemon, after \<^verbatim>\<open>crates/pam_store/src/model.rs\<close> and the tables of
  \<^verbatim>\<open>crates/pam_store/migrations\<close>: callers, projects, grants, approvals, audit events, requests with
  their events, flow checkpoints and flow authorizations.  A TEXT column whose CHECK admits exactly
  the names of an enumeration holds a value of that enumeration; a BLOB is its bytes; an INTEGER is
  an integer.  \<open>schema_ok\<close> is the conjunction of the NOT NULL, CHECK, UNIQUE and REFERENCES
  constraints; a statement that breaks one fails and its transaction is rolled back (\<open>execute\<close>).
\<close>

section \<open>Requests and results\<close>


definition FLOW_OPERATION_KIND :: string where "FLOW_OPERATION_KIND = ''flow_run''"
definition FLOW_CAPABILITY_NAME :: string where "FLOW_CAPABILITY_NAME = ''flow.run''"
definition MAX_FLOW_CHECKPOINT_BYTES :: nat where "MAX_FLOW_CHECKPOINT_BYTES = 4 * 1024 * 1024"
definition MAX_FLOW_TRANSITION_BYTES :: nat where "MAX_FLOW_TRANSITION_BYTES = 64 * 1024"
definition MAX_FLOW_TERMINAL_RESULT_BYTES :: nat where "MAX_FLOW_TERMINAL_RESULT_BYTES = 1024 * 1024"

datatype RequestState = Queued | Leased | CancellationRequested | Succeeded | Failed | Cancelled

fun RequestState_as_str :: "RequestState \<Rightarrow> string" where
  "RequestState_as_str Queued = ''queued''"
| "RequestState_as_str Leased = ''leased''"
| "RequestState_as_str RequestState.CancellationRequested = ''cancellation_requested''"
| "RequestState_as_str RequestState.Succeeded = ''succeeded''"
| "RequestState_as_str RequestState.Failed = ''failed''"
| "RequestState_as_str RequestState.Cancelled = ''cancelled''"

definition is_active_state :: "RequestState \<Rightarrow> bool" where
  "is_active_state s \<longleftrightarrow> s = Leased \<or> s = RequestState.CancellationRequested"

definition is_terminal_state :: "RequestState \<Rightarrow> bool" where
  "is_terminal_state s \<longleftrightarrow>
     s = RequestState.Succeeded \<or> s = RequestState.Failed \<or> s = RequestState.Cancelled"

datatype ExpectedOperationKind = FlowRunKind

datatype TerminalState = Succeeded | Failed | Cancelled

fun TerminalState_request_state :: "TerminalState \<Rightarrow> RequestState" where
  "TerminalState_request_state TerminalState.Succeeded = RequestState.Succeeded"
| "TerminalState_request_state TerminalState.Failed = RequestState.Failed"
| "TerminalState_request_state TerminalState.Cancelled = RequestState.Cancelled"

fun TerminalState_event_kind :: "TerminalState \<Rightarrow> string" where
  "TerminalState_event_kind TerminalState.Succeeded = ''completed''"
| "TerminalState_event_kind TerminalState.Failed = ''failed''"
| "TerminalState_event_kind TerminalState.Cancelled = ''cancelled''"

record AcceptRequest =
  ac_request_id :: RequestId
  ac_caller_id :: CallerId
  ac_project_id :: ProjectId
  ac_idempotency_key :: IdempotencyKey
  ac_operation_kind :: string
  ac_operation :: string

datatype AcceptOutcome = Created RequestId u64 | Existing RequestId RequestState

record Lease =
  le_request_id :: RequestId
  le_project_id :: ProjectId
  le_owner :: string
  le_token :: string
  le_attempt :: u64
  le_expires_at_ms :: u64

record LeasedRequest =
  lr_lease :: Lease
  lr_queue_sequence :: u64
  lr_operation_kind :: string
  lr_operation :: string

datatype CancelOutcome =
    Cancelled | CancellationRequested | AlreadyRequested | AlreadyTerminal RequestState

record EventRecord =
  er_sequence :: u64
  er_kind :: string
  er_payload :: string
  er_recorded_at_ms :: u64

record StoredResult =
  sr_state :: RequestState
  sr_payload :: string
  sr_completed_at_ms :: u64

record Replay =
  rp_events :: "EventRecord list"
  rp_result :: "StoredResult option"

record RequestSnapshot =
  rs_request_id :: RequestId
  rs_project_id :: ProjectId
  rs_queue_sequence :: u64
  rs_state :: RequestState
  rs_attempt :: u64
  rs_lease_expires_at_ms :: "u64 option"

record FlowTerminalResult =
  ft_outcome :: RunOutcome
  ft_encoded_result :: string

record FlowCheckpoint =
  fc_request_id :: RequestId
  fc_snapshot :: FlowSnapshot
  fc_checkpoint_revision :: u64
  fc_updated_at_ms :: u64
  fc_terminal_result :: "FlowTerminalResult option"

record SaveFlowCheckpoint =
  sv_lease :: Lease
  sv_expected_revision :: u64
  sv_snapshot :: FlowSnapshot
  sv_transition :: "RunTransition option"
  sv_terminal_result :: "FlowTerminalResult option"
  sv_updated_at_ms :: u64

datatype FlowCheckpointDisposition = Created | Updated | Unchanged

record FlowCheckpointSaveOutcome =
  so_checkpoint :: FlowCheckpoint
  so_disposition :: FlowCheckpointDisposition
  so_event :: "EventRecord option"

section \<open>Errors\<close>

text \<open>
  The errors of the operations modelled here; \<open>Sqlite\<close> stands for a statement SQLite refuses and
  \<open>StorePanic\<close> for a panic of the worker (the \<^verbatim>\<open>unreachable!\<close> of the flow outcomes, or the redactor's).
\<close>

datatype StoreError =
    Sqlite
  | StorePanic
  | Io
  | InvalidCallerCredential
  | CallerAlreadyRegistered CallerId
  | AuditEventAlreadyExists
  | InvalidAuditEvent string
  | InvalidProjectRoot string
  | InvalidAuditBatchLimit u32 u32
  | AuditCursorOutOfRange u64
  | AuditHighWaterAhead u64 u64
  | InvalidAuditCursorRange u64 u64
  | GrantAlreadyExists GrantId
  | ApprovalNotFound ApprovalId
  | InvalidApprovalState
  | ApprovalExpiryOverflow
  | RequestNotFound RequestId
  | RequestIdConflict RequestId
  | IdempotencyConflict RequestId
  | StaleLease RequestId
  | InvalidFlowCheckpoint string
  | FlowCheckpointTooLarge nat nat
  | FlowTransitionTooLarge nat nat
  | FlowTerminalResultTooLarge nat nat
  | FlowCheckpointRevisionConflict RequestId u64 u64
  | FlowCheckpointConflict RequestId
  | FlowDefinitionDigestMismatch RequestId
  | FlowCheckpointRequestMismatch RequestId
  | FlowTerminalOutcomeConflict RequestId
  | FlowEffectStartConflict RequestId
  | CorruptFlowAuthorization RequestId
  | CorruptFlowCheckpoint RequestId
  | FlowCheckpointRevisionOverflow
  | InvalidState string
  | TimestampOutOfRange u64
  | LeaseDurationZero
  | LeaseExpiryOverflow

definition sql_integer :: "u64 \<Rightarrow> StoreError + int" where
  "sql_integer v = (if uint v < 2 ^ 63 then Ok (uint v) else Err (TimestampOutOfRange v))"

definition unsigned_integer :: "int \<Rightarrow> StoreError + u64" where
  "unsigned_integer v = (if v < 0 then Err (InvalidState ''negative integer'') else Ok (of_int v))"

definition lease_expiry :: "u64 \<Rightarrow> u64 \<Rightarrow> StoreError + u64" where
  "lease_expiry now_ms duration_ms =
     (if duration_ms = 0 then Err LeaseDurationZero
      else ok_or (checked_add now_ms duration_ms) LeaseExpiryOverflow)"

section \<open>Rows\<close>

record ProjectRow =
  pr_project_id :: ProjectId
  pr_next_queue_sequence :: int
  pr_root :: "string option"

record RequestRow =
  rq_request_id :: RequestId
  rq_caller_id :: CallerId
  rq_project_id :: ProjectId
  rq_idempotency_key :: IdempotencyKey
  rq_operation_kind :: string
  rq_operation :: string
  rq_queue_sequence :: int
  rq_state :: RequestState
  rq_accepted_at_ms :: int
  rq_attempt :: int
  rq_lease_owner :: "string option"
  rq_lease_token :: "string option"
  rq_lease_expires_at_ms :: "int option"
  rq_completed_at_ms :: "int option"
  rq_result :: "string option"

record EventRow =
  ev_request_id :: RequestId
  ev_sequence :: int
  ev_kind :: string
  ev_payload :: string
  ev_recorded_at_ms :: int

record FlowRunRow =
  fr_request_id :: RequestId
  fr_definition_digest :: string
  fr_snapshot :: string
  fr_checkpoint_revision :: int
  fr_updated_at_ms :: int
  fr_terminal_outcome :: "string option"
  fr_terminal_result :: "string option"
  fr_terminal_cancellation_override :: bool

record CallerRow =
  cr_caller_id :: CallerId
  cr_credential_digest :: string
  cr_registered_at_ms :: int
  cr_revoked_at_ms :: "int option"
  cr_kind :: "string option"

record PolicyRow =
  po_project_id :: ProjectId
  po_version :: int
  po_updated_at_ms :: int

record GrantRow =
  gt_grant_id :: GrantId
  gt_caller_id :: CallerId
  gt_project_id :: ProjectId
  gt_capability :: string
  gt_resource_kind :: string
  gt_resource :: "string option"
  gt_effect :: string
  gt_approval :: string
  gt_expires_at_ms :: "int option"
  gt_revoked_at_ms :: "int option"
  gt_created_at_ms :: int

record ApprovalRow =
  aw_approval_id :: ApprovalId
  aw_caller_id :: CallerId
  aw_project_id :: ProjectId
  aw_capability :: string
  aw_resource :: string
  aw_effect_fingerprint :: string
  aw_state :: ApprovalState
  aw_requested_at_ms :: int
  aw_expires_at_ms :: int
  aw_decided_by :: "CallerId option"
  aw_decided_at_ms :: "int option"
  aw_consumed_at_ms :: "int option"
  aw_flow_request_id :: "RequestId option"

record FlowAuthorizationRow =
  fa_request_id :: RequestId
  fa_capability :: string
  fa_resource :: string
  fa_effect_fingerprint :: string
  fa_authorization_kind :: string
  fa_approval_id :: "ApprovalId option"
  fa_schema_approval_required :: bool
  fa_authorized_at_ms :: int

record AuditRow =
  au_sequence :: int
  au_event_id :: string
  au_project_id :: ProjectId
  au_caller_id :: CallerId
  au_action :: string
  au_decision :: string
  au_outcome :: string
  au_redacted_detail :: string
  au_occurred_at_ms :: int
  au_retain_until_ms :: int

record ActivityRow =
  ad_day_start_ms :: int
  ad_events :: int

text \<open>\<open>db_audit_high_water\<close> is the entry AUTOINCREMENT keeps in \<^verbatim>\<open>sqlite_sequence\<close>: the largest sequence ever given.\<close>

record Db =
  db_projects :: "ProjectRow list"
  db_requests :: "RequestRow list"
  db_events :: "EventRow list"
  db_flow_runs :: "FlowRunRow list"
  db_flow_authorizations :: "FlowAuthorizationRow list"
  db_callers :: "CallerRow list"
  db_policies :: "PolicyRow list"
  db_grants :: "GrantRow list"
  db_approvals :: "ApprovalRow list"
  db_audit_events :: "AuditRow list"
  db_audit_high_water :: int
  db_activity_days :: "ActivityRow list"

definition empty_db :: Db where
  "empty_db = \<lparr>db_projects = [], db_requests = [], db_events = [], db_flow_runs = [],
     db_flow_authorizations = [], db_callers = [], db_policies = [], db_grants = [],
     db_approvals = [], db_audit_events = [], db_audit_high_water = 0, db_activity_days = []\<rparr>"

section \<open>Constraints\<close>

definition nonneg :: "int \<Rightarrow> bool" where
  "nonneg v \<longleftrightarrow> 0 \<le> v \<and> is_i64 v"

definition positive :: "int \<Rightarrow> bool" where
  "positive v \<longleftrightarrow> 0 < v \<and> is_i64 v"

definition null_or :: "('a \<Rightarrow> bool) \<Rightarrow> 'a option \<Rightarrow> bool" where
  "null_or p v = (case v of None \<Rightarrow> True | Some x \<Rightarrow> p x)"

text \<open>\<^verbatim>\<open>length\<close> of TEXT counts the characters before the first NUL.\<close>

definition text_length :: "string \<Rightarrow> nat" where
  "text_length s = length (takeWhile (\<lambda>c. c \<noteq> 0) (chars s))"

definition between :: "nat \<Rightarrow> nat \<Rightarrow> nat \<Rightarrow> bool" where
  "between lo hi n \<longleftrightarrow> lo \<le> n \<and> n \<le> hi"

definition project_row_ok :: "ProjectRow \<Rightarrow> bool" where
  "project_row_ok p \<longleftrightarrow> positive (pr_next_queue_sequence p)
     \<and> null_or (\<lambda>v. between 1 4096 (length v)) (pr_root p)"

definition projects_ok :: "Db \<Rightarrow> bool" where
  "projects_ok db \<longleftrightarrow> distinct (map pr_project_id (db_projects db))
     \<and> list_all project_row_ok (db_projects db)"

definition lease_shape :: "RequestRow \<Rightarrow> bool" where
  "lease_shape r \<longleftrightarrow>
     (is_active_state (rq_state r) \<and> rq_lease_owner r \<noteq> None \<and> rq_lease_token r \<noteq> None
        \<and> rq_lease_expires_at_ms r \<noteq> None)
     \<or> (\<not> is_active_state (rq_state r) \<and> rq_lease_owner r = None \<and> rq_lease_token r = None
        \<and> rq_lease_expires_at_ms r = None)"

definition result_shape :: "RequestRow \<Rightarrow> bool" where
  "result_shape r \<longleftrightarrow>
     (is_terminal_state (rq_state r) \<and> rq_completed_at_ms r \<noteq> None \<and> rq_result r \<noteq> None)
     \<or> (rq_state r = RequestState.CancellationRequested \<and> rq_completed_at_ms r = None \<and> rq_result r \<noteq> None)
     \<or> ((rq_state r = Queued \<or> rq_state r = Leased) \<and> rq_completed_at_ms r = None \<and> rq_result r = None)"

definition request_row_ok :: "RequestRow \<Rightarrow> bool" where
  "request_row_ok r \<longleftrightarrow> positive (rq_queue_sequence r) \<and> nonneg (rq_accepted_at_ms r)
     \<and> nonneg (rq_attempt r) \<and> null_or nonneg (rq_lease_expires_at_ms r)
     \<and> null_or nonneg (rq_completed_at_ms r) \<and> lease_shape r \<and> result_shape r"

definition active_request :: "RequestRow \<Rightarrow> bool" where
  "active_request r \<longleftrightarrow> is_active_state (rq_state r)"

definition requests_ok :: "Db \<Rightarrow> bool" where
  "requests_ok db \<longleftrightarrow> distinct (map rq_request_id (db_requests db))
     \<and> list_all request_row_ok (db_requests db)
     \<and> list_all (\<lambda>r. rq_project_id r \<in> set (map pr_project_id (db_projects db))) (db_requests db)
     \<and> distinct (map (\<lambda>r. (rq_caller_id r, rq_project_id r, rq_idempotency_key r)) (db_requests db))
     \<and> distinct (map (\<lambda>r. (rq_project_id r, rq_queue_sequence r)) (db_requests db))
     \<and> distinct (map rq_project_id (filter active_request (db_requests db)))"

definition event_row_ok :: "EventRow \<Rightarrow> bool" where
  "event_row_ok e \<longleftrightarrow> positive (ev_sequence e) \<and> nonneg (ev_recorded_at_ms e)"

definition events_ok :: "Db \<Rightarrow> bool" where
  "events_ok db \<longleftrightarrow> distinct (map (\<lambda>e. (ev_request_id e, ev_sequence e)) (db_events db))
     \<and> list_all event_row_ok (db_events db)
     \<and> list_all (\<lambda>e. ev_request_id e \<in> set (map rq_request_id (db_requests db))) (db_events db)"

definition flow_run_row_ok :: "FlowRunRow \<Rightarrow> bool" where
  "flow_run_row_ok f \<longleftrightarrow> length (fr_definition_digest f) = 32
     \<and> between 1 4194304 (length (fr_snapshot f))
     \<and> positive (fr_checkpoint_revision f) \<and> nonneg (fr_updated_at_ms f)
     \<and> null_or (\<lambda>v. v \<in> set [''solved'', ''unresolved'', ''blocked'', ''cancelled'']) (fr_terminal_outcome f)
     \<and> null_or (\<lambda>v. between 1 1048576 (length v)) (fr_terminal_result f)
     \<and> (fr_terminal_outcome f = None) = (fr_terminal_result f = None)
     \<and> (\<not> fr_terminal_cancellation_override f \<or> fr_terminal_outcome f = Some ''blocked'')"

definition flow_runs_ok :: "Db \<Rightarrow> bool" where
  "flow_runs_ok db \<longleftrightarrow> distinct (map fr_request_id (db_flow_runs db))
     \<and> list_all flow_run_row_ok (db_flow_runs db)
     \<and> list_all (\<lambda>f. fr_request_id f \<in> set (map rq_request_id (db_requests db))) (db_flow_runs db)"

definition flow_authorization_row_ok :: "FlowAuthorizationRow \<Rightarrow> bool" where
  "flow_authorization_row_ok f \<longleftrightarrow> between 1 128 (text_length (fa_capability f))
     \<and> between 1 1024 (text_length (fa_resource f)) \<and> length (fa_effect_fingerprint f) = 32
     \<and> nonneg (fa_authorized_at_ms f)
     \<and> (fa_authorization_kind f = ''unconditional'' \<and> fa_approval_id f = None
        \<or> fa_authorization_kind f = ''approved'' \<and> fa_approval_id f \<noteq> None)
     \<and> (\<not> fa_schema_approval_required f \<or> fa_authorization_kind f = ''approved'')"

definition flow_authorizations_ok :: "Db \<Rightarrow> bool" where
  "flow_authorizations_ok db \<longleftrightarrow> distinct (map fa_request_id (db_flow_authorizations db))
     \<and> list_all flow_authorization_row_ok (db_flow_authorizations db)
     \<and> list_all (\<lambda>f. fa_request_id f \<in> set (map rq_request_id (db_requests db))) (db_flow_authorizations db)
     \<and> distinct (List.map_filter fa_approval_id (db_flow_authorizations db))
     \<and> list_all (\<lambda>f. null_or (\<lambda>a. a \<in> set (map aw_approval_id (db_approvals db))) (fa_approval_id f))
         (db_flow_authorizations db)"

definition caller_row_ok :: "CallerRow \<Rightarrow> bool" where
  "caller_row_ok c \<longleftrightarrow> between 1 256 (text_length (cr_caller_id c))
     \<and> length (cr_credential_digest c) = 32 \<and> nonneg (cr_registered_at_ms c)
     \<and> null_or (\<lambda>v. cr_registered_at_ms c \<le> v \<and> is_i64 v) (cr_revoked_at_ms c)
     \<and> null_or (\<lambda>v. v \<in> set [''cli'', ''gui'', ''coding-agent'', ''local-application'']) (cr_kind c)"

definition callers_ok :: "Db \<Rightarrow> bool" where
  "callers_ok db \<longleftrightarrow> distinct (map cr_caller_id (db_callers db)) \<and> list_all caller_row_ok (db_callers db)"

definition policy_row_ok :: "PolicyRow \<Rightarrow> bool" where
  "policy_row_ok p \<longleftrightarrow> positive (po_version p) \<and> nonneg (po_updated_at_ms p)"

definition policies_ok :: "Db \<Rightarrow> bool" where
  "policies_ok db \<longleftrightarrow> distinct (map po_project_id (db_policies db))
     \<and> list_all policy_row_ok (db_policies db)
     \<and> list_all (\<lambda>p. po_project_id p \<in> set (map pr_project_id (db_projects db))) (db_policies db)"

definition grant_row_ok :: "GrantRow \<Rightarrow> bool" where
  "grant_row_ok g \<longleftrightarrow> between 1 128 (text_length (gt_capability g))
     \<and> (gt_resource_kind g = ''any'' \<and> gt_resource g = None
        \<or> gt_resource_kind g = ''exact'' \<and> gt_resource g \<noteq> None)
     \<and> null_or (\<lambda>v. between 1 1024 (text_length v)) (gt_resource g)
     \<and> gt_effect g \<in> set [''allow'', ''deny''] \<and> gt_approval g \<in> set [''none'', ''once'']
     \<and> null_or nonneg (gt_expires_at_ms g) \<and> null_or nonneg (gt_revoked_at_ms g)
     \<and> nonneg (gt_created_at_ms g)"

definition grants_ok :: "Db \<Rightarrow> bool" where
  "grants_ok db \<longleftrightarrow> distinct (map gt_grant_id (db_grants db)) \<and> list_all grant_row_ok (db_grants db)
     \<and> list_all (\<lambda>g. gt_caller_id g \<in> set (map cr_caller_id (db_callers db))
          \<and> gt_project_id g \<in> set (map pr_project_id (db_projects db))) (db_grants db)"

definition decision_shape :: "ApprovalRow \<Rightarrow> bool" where
  "decision_shape a = (case aw_state a of
       Requested \<Rightarrow> aw_decided_by a = None \<and> aw_decided_at_ms a = None \<and> aw_consumed_at_ms a = None
     | Approved \<Rightarrow> aw_decided_by a \<noteq> None \<and> aw_decided_at_ms a \<noteq> None \<and> aw_consumed_at_ms a = None
     | ApprovalState.ApprovalDenied \<Rightarrow>
         aw_decided_by a \<noteq> None \<and> aw_decided_at_ms a \<noteq> None \<and> aw_consumed_at_ms a = None
     | Consumed \<Rightarrow> aw_decided_by a \<noteq> None \<and> aw_decided_at_ms a \<noteq> None \<and> aw_consumed_at_ms a \<noteq> None
     | Expired \<Rightarrow> aw_consumed_at_ms a = None \<and> (aw_decided_by a = None) = (aw_decided_at_ms a = None))"

definition approval_row_ok :: "ApprovalRow \<Rightarrow> bool" where
  "approval_row_ok a \<longleftrightarrow> between 1 128 (text_length (aw_capability a))
     \<and> between 1 1024 (text_length (aw_resource a)) \<and> length (aw_effect_fingerprint a) = 32
     \<and> nonneg (aw_requested_at_ms a) \<and> aw_requested_at_ms a < aw_expires_at_ms a
     \<and> is_i64 (aw_expires_at_ms a)
     \<and> null_or (\<lambda>v. aw_requested_at_ms a \<le> v \<and> is_i64 v) (aw_decided_at_ms a)
     \<and> null_or (\<lambda>v. aw_requested_at_ms a \<le> v \<and> is_i64 v) (aw_consumed_at_ms a)
     \<and> null_or (\<lambda>v. between 1 256 (text_length v)) (aw_flow_request_id a)
     \<and> decision_shape a"

definition approvals_ok :: "Db \<Rightarrow> bool" where
  "approvals_ok db \<longleftrightarrow> distinct (map aw_approval_id (db_approvals db))
     \<and> list_all approval_row_ok (db_approvals db)
     \<and> list_all (\<lambda>a. aw_caller_id a \<in> set (map cr_caller_id (db_callers db))
          \<and> aw_project_id a \<in> set (map pr_project_id (db_projects db))
          \<and> null_or (\<lambda>c. c \<in> set (map cr_caller_id (db_callers db))) (aw_decided_by a)) (db_approvals db)"

definition audit_row_ok :: "AuditRow \<Rightarrow> bool" where
  "audit_row_ok a \<longleftrightarrow> positive (au_sequence a) \<and> between 1 256 (length (au_event_id a))
     \<and> between 1 256 (length (au_project_id a)) \<and> between 1 256 (length (au_caller_id a))
     \<and> between 1 128 (length (au_action a)) \<and> between 1 64 (length (au_decision a))
     \<and> between 1 64 (length (au_outcome a)) \<and> length (au_redacted_detail a) \<le> 16384
     \<and> nonneg (au_occurred_at_ms a) \<and> au_occurred_at_ms a \<le> au_retain_until_ms a
     \<and> is_i64 (au_retain_until_ms a)"

definition audit_events_ok :: "Db \<Rightarrow> bool" where
  "audit_events_ok db \<longleftrightarrow> distinct (map au_sequence (db_audit_events db))
     \<and> distinct (map au_event_id (db_audit_events db)) \<and> list_all audit_row_ok (db_audit_events db)"

definition activity_row_ok :: "ActivityRow \<Rightarrow> bool" where
  "activity_row_ok d \<longleftrightarrow> nonneg (ad_day_start_ms d) \<and> positive (ad_events d)"

definition activity_days_ok :: "Db \<Rightarrow> bool" where
  "activity_days_ok db \<longleftrightarrow> distinct (map ad_day_start_ms (db_activity_days db))
     \<and> list_all activity_row_ok (db_activity_days db)"

definition schema_ok :: "Db \<Rightarrow> bool" where
  "schema_ok db \<longleftrightarrow> projects_ok db \<and> requests_ok db \<and> events_ok db \<and> flow_runs_ok db
     \<and> flow_authorizations_ok db \<and> callers_ok db \<and> policies_ok db \<and> grants_ok db
     \<and> approvals_ok db \<and> audit_events_ok db \<and> activity_days_ok db"

section \<open>Statements and transactions\<close>

text \<open>\<^verbatim>\<open>INSERT OR IGNORE INTO projects(project_id)\<close>, with the defaults of the other columns.\<close>

definition ensure_project :: "ProjectId \<Rightarrow> Db \<Rightarrow> Db" where
  "ensure_project project db =
     (if project \<in> set (map pr_project_id (db_projects db)) then db
      else db\<lparr>db_projects := db_projects db
        @ [\<lparr>pr_project_id = project, pr_next_queue_sequence = 1, pr_root = None\<rparr>]\<rparr>)"

text \<open>A writing statement fails when it breaks a constraint.\<close>

definition execute :: "(Db \<Rightarrow> Db) \<Rightarrow> Db \<Rightarrow> StoreError + Db" where
  "execute statement db = (if schema_ok (statement db) then Ok (statement db) else Err Sqlite)"

text \<open>
  A transaction whose body fails, or returns early, is rolled back when it is dropped: nothing is
  written.  The body gives the value and the state it commits.
\<close>

type_synonym 'a store_result = "(StoreError + 'a) \<times> Db"

definition transaction :: "(Db \<Rightarrow> StoreError + 'a \<times> Db) \<Rightarrow> Db \<Rightarrow> 'a store_result" where
  "transaction body db = (case body db of Inl e \<Rightarrow> (Inl e, db) | Inr (x, db') \<Rightarrow> (Inr x, db'))"

lemma execute_Inr_iff: "execute f db = Inr db' \<longleftrightarrow> db' = f db \<and> schema_ok (f db)"
  by (auto simp: execute_def)

lemma transaction_Ok: "transaction body db = (Ok x, db') \<longleftrightarrow> body db = Ok (x, db')"
  by (auto simp: transaction_def split: sum.splits prod.splits)

lemma transaction_Err: "transaction body db = (Err e, db') \<longleftrightarrow> body db = Err e \<and> db' = db"
  by (auto simp: transaction_def split: sum.splits prod.splits)

lemma schema_okD:
  assumes "schema_ok db"
  shows "projects_ok db" "requests_ok db" "events_ok db" "flow_runs_ok db" "flow_authorizations_ok db"
    "callers_ok db" "policies_ok db" "grants_ok db" "approvals_ok db" "audit_events_ok db"
    "activity_days_ok db"
  using assms by (simp_all add: schema_ok_def)

lemma empty_db_ok: "schema_ok empty_db"
  by code_simp

lemma sql_integer_Ok: "sql_integer v = Ok n \<longleftrightarrow> n = uint v \<and> uint v < 2 ^ 63"
  by (auto simp: sql_integer_def)

lemma sql_integer_nonneg: "sql_integer v = Ok n \<Longrightarrow> nonneg n"
  by (auto simp: sql_integer_Ok nonneg_def is_i64_def intro: order_trans [OF _ uint_ge_0])

lemma unsigned_nonneg: "nonneg v \<Longrightarrow> unsigned_integer v = Ok (of_int v)"
  by (simp add: unsigned_integer_def nonneg_def)

end
