(* ===== verification/Store_Audit.thy ===== *)
theory Store_Audit
  imports Store_Schema
begin

text \<open>
  The audit ledger of \<^verbatim>\<open>crates/pam_store/src/store.rs\<close>: appending an event (redacted once more at
  the boundary), the daily activity roll-up, the paged export, the newest events, pruning, and the
  remembered project roots.
\<close>

definition AUDIT_EXPORT_VERSION :: u32 where "AUDIT_EXPORT_VERSION = 1"
definition MAX_AUDIT_ACTION_BYTES :: nat where "MAX_AUDIT_ACTION_BYTES = 128"
definition MAX_AUDIT_BATCH_SIZE :: u32 where "MAX_AUDIT_BATCH_SIZE = 1000"
definition MAX_AUDIT_CALLER_ID_BYTES :: nat where "MAX_AUDIT_CALLER_ID_BYTES = 256"
definition MAX_AUDIT_DECISION_BYTES :: nat where "MAX_AUDIT_DECISION_BYTES = 64"
definition MAX_AUDIT_DETAIL_BYTES :: nat where "MAX_AUDIT_DETAIL_BYTES = 16 * 1024"
definition MAX_AUDIT_EVENT_ID_BYTES :: nat where "MAX_AUDIT_EVENT_ID_BYTES = 256"
definition MAX_AUDIT_OUTCOME_BYTES :: nat where "MAX_AUDIT_OUTCOME_BYTES = 64"
definition MAX_AUDIT_PROJECT_ID_BYTES :: nat where "MAX_AUDIT_PROJECT_ID_BYTES = 256"
definition MAX_PROJECT_ROOT_BYTES :: nat where "MAX_PROJECT_ROOT_BYTES = 4 * 1024"
definition DAY_MS :: int where "DAY_MS = 86400000"
definition MAX_ACTIVITY_DAYS :: nat where "MAX_ACTIVITY_DAYS = 400"

record AppendAuditEvent =
  ae_event_id :: string
  ae_project_id :: ProjectId
  ae_caller_id :: CallerId
  ae_action :: string
  ae_decision :: string
  ae_outcome :: string
  ae_redacted_detail :: string
  ae_occurred_at_ms :: u64
  ae_retain_until_ms :: u64

record AuditEventRecord =
  ar_sequence :: u64
  ar_event_id :: string
  ar_project_id :: ProjectId
  ar_caller_id :: CallerId
  ar_action :: string
  ar_decision :: string
  ar_outcome :: string
  ar_redacted_detail :: string
  ar_occurred_at_ms :: u64
  ar_retain_until_ms :: u64
  ar_project_root :: "string option"

record AuditExport =
  ax_version :: u32
  ax_project_id :: ProjectId
  ax_after_sequence :: u64
  ax_through_sequence :: u64
  ax_next_after_sequence :: u64
  ax_has_more :: bool
  ax_events :: "AuditEventRecord list"

record AuditPruneOutcome =
  ap_deleted :: nat
  ap_has_more :: bool

record RecentAuditEvents =
  ra_events :: "AuditEventRecord list"
  ra_truncated :: bool

record ActivityDay =
  dy_day_start_ms :: u64
  dy_events :: u64

section \<open>Validation\<close>

definition is_unsafe_audit_character :: "nat \<Rightarrow> bool" where
  "is_unsafe_audit_character c \<longleftrightarrow> is_control c
     \<or> c \<in> set [0xad, 0x61c, 0x6dd, 0x70f, 0x8e2, 0x180e, 0xfeff, 0x110bd, 0x110cd, 0xe0001]
     \<or> list_ex (\<lambda>(a, b). a \<le> c \<and> c \<le> b)
         [(0x600, 0x605), (0x890, 0x891), (0x200b, 0x200f), (0x202a, 0x202e), (0x2060, 0x2064),
          (0x2066, 0x206f), (0xfff9, 0xfffb), (0x13430, 0x1343f), (0x1bca0, 0x1bca3),
          (0x1d173, 0x1d17a), (0xe0020, 0xe007f)]"

definition validate_audit_identifier :: "string \<Rightarrow> nat \<Rightarrow> string \<Rightarrow> StoreError + unit" where
  "validate_audit_identifier v maximum_bytes field =
     fail_if (v = [] \<or> length v > maximum_bytes \<or> list_ex is_unsafe_audit_character (chars v))
       (InvalidAuditEvent field)"

definition validate_audit_event :: "AppendAuditEvent \<Rightarrow> StoreError + unit" where
  "validate_audit_event event =
     and_then (validate_audit_identifier (ae_event_id event) MAX_AUDIT_EVENT_ID_BYTES ''event ID'') (\<lambda>_.
     and_then (validate_audit_identifier (ae_project_id event) MAX_AUDIT_PROJECT_ID_BYTES ''project ID'') (\<lambda>_.
     and_then (validate_audit_identifier (ae_caller_id event) MAX_AUDIT_CALLER_ID_BYTES ''caller ID'') (\<lambda>_.
     and_then (validate_audit_identifier (ae_action event) MAX_AUDIT_ACTION_BYTES ''action'') (\<lambda>_.
     and_then (validate_audit_identifier (ae_decision event) MAX_AUDIT_DECISION_BYTES ''decision'') (\<lambda>_.
     and_then (validate_audit_identifier (ae_outcome event) MAX_AUDIT_OUTCOME_BYTES ''outcome'') (\<lambda>_.
     and_then (fail_if (length (ae_redacted_detail event) > MAX_AUDIT_DETAIL_BYTES
         \<or> list_ex is_unsafe_audit_character (chars (ae_redacted_detail event)))
       (InvalidAuditEvent ''detail'')) (\<lambda>_.
     fail_if (ae_retain_until_ms event < ae_occurred_at_ms event)
       (InvalidAuditEvent ''retention precedes occurrence''))))))))"

definition validate_audit_limit :: "u32 \<Rightarrow> StoreError + unit" where
  "validate_audit_limit limit =
     fail_if (limit = 0 \<or> limit > MAX_AUDIT_BATCH_SIZE) (InvalidAuditBatchLimit limit MAX_AUDIT_BATCH_SIZE)"

section \<open>Appending\<close>

definition StoredAuditEvent_into_record :: "AuditRow \<Rightarrow> StoreError + AuditEventRecord" where
  "StoredAuditEvent_into_record a =
     and_then (unsigned_integer (au_sequence a)) (\<lambda>sequence.
     and_then (unsigned_integer (au_occurred_at_ms a)) (\<lambda>occurred_at_ms.
     and_then (unsigned_integer (au_retain_until_ms a)) (\<lambda>retain_until_ms.
     Ok \<lparr>ar_sequence = sequence, ar_event_id = au_event_id a, ar_project_id = au_project_id a,
         ar_caller_id = au_caller_id a, ar_action = au_action a, ar_decision = au_decision a,
         ar_outcome = au_outcome a, ar_redacted_detail = au_redacted_detail a,
         ar_occurred_at_ms = occurred_at_ms, ar_retain_until_ms = retain_until_ms,
         ar_project_root = None\<rparr>)))"

definition audit_event_matches :: "AuditEventRecord \<Rightarrow> AppendAuditEvent \<Rightarrow> bool" where
  "audit_event_matches r event \<longleftrightarrow>
     ar_event_id r = ae_event_id event \<and> ar_project_id r = ae_project_id event
     \<and> ar_caller_id r = ae_caller_id event \<and> ar_action r = ae_action event
     \<and> ar_decision r = ae_decision event \<and> ar_outcome r = ae_outcome event
     \<and> ar_redacted_detail r = ae_redacted_detail event
     \<and> ar_occurred_at_ms r = ae_occurred_at_ms event \<and> ar_retain_until_ms r = ae_retain_until_ms event"

text \<open>The statement inserting the row: AUTOINCREMENT takes the number after the largest one ever given.\<close>

definition insert_audit_row :: "AppendAuditEvent \<Rightarrow> int \<Rightarrow> int \<Rightarrow> Db \<Rightarrow> Db" where
  "insert_audit_row event occurred_at retain_until db =
     (let sequence = max (db_audit_high_water db) (max_of (map au_sequence (db_audit_events db))) + 1 in
      db\<lparr>db_audit_events := db_audit_events db
           @ [\<lparr>au_sequence = sequence, au_event_id = ae_event_id event,
               au_project_id = ae_project_id event, au_caller_id = ae_caller_id event,
               au_action = ae_action event, au_decision = ae_decision event,
               au_outcome = ae_outcome event, au_redacted_detail = ae_redacted_detail event,
               au_occurred_at_ms = occurred_at, au_retain_until_ms = retain_until\<rparr>],
         db_audit_high_water := sequence\<rparr>)"

definition count_activity :: "int \<Rightarrow> Db \<Rightarrow> Db" where
  "count_activity day_start db =
     db\<lparr>db_activity_days :=
       (if day_start \<in> set (map ad_day_start_ms (db_activity_days db))
        then update_where (\<lambda>d. ad_day_start_ms d = day_start) (\<lambda>d. d\<lparr>ad_events := ad_events d + 1\<rparr>)
               (db_activity_days db)
        else db_activity_days db @ [\<lparr>ad_day_start_ms = day_start, ad_events = 1\<rparr>])\<rparr>"

definition append_audit_event_tx :: "AppendAuditEvent \<Rightarrow> Db \<Rightarrow> StoreError + AuditEventRecord \<times> Db" where
  "append_audit_event_tx supplied db =
     and_then (map_err (\<lambda>_. StorePanic) (redact_audit_detail (ae_redacted_detail supplied))) (\<lambda>detail.
     let event = supplied\<lparr>ae_redacted_detail := detail\<rparr> in
     and_then (validate_audit_event event) (\<lambda>_.
     and_then (sql_integer (ae_occurred_at_ms event)) (\<lambda>occurred_at.
     and_then (sql_integer (ae_retain_until_ms event)) (\<lambda>retain_until.
     (case row_where (\<lambda>a. au_event_id a = ae_event_id event) (db_audit_events db) of
        Some row \<Rightarrow>
          and_then (StoredAuditEvent_into_record row) (\<lambda>existing.
          if audit_event_matches existing event then Ok (existing, db) else Err AuditEventAlreadyExists)
      | None \<Rightarrow>
          and_then (execute (insert_audit_row event occurred_at retain_until) db) (\<lambda>db.
          and_then (unsigned_integer (db_audit_high_water db)) (\<lambda>sequence.
          let day_start = occurred_at - occurred_at mod DAY_MS in
          and_then (execute (count_activity day_start) db) (\<lambda>db.
          Ok (\<lparr>ar_sequence = sequence, ar_event_id = ae_event_id event,
               ar_project_id = ae_project_id event, ar_caller_id = ae_caller_id event,
               ar_action = ae_action event, ar_decision = ae_decision event,
               ar_outcome = ae_outcome event, ar_redacted_detail = ae_redacted_detail event,
               ar_occurred_at_ms = ae_occurred_at_ms event, ar_retain_until_ms = ae_retain_until_ms event,
               ar_project_root = None\<rparr>, db)))))))))"

definition append_audit_event :: "AppendAuditEvent \<Rightarrow> Db \<Rightarrow> AuditEventRecord store_result" where
  "append_audit_event event = transaction (append_audit_event_tx event)"

section \<open>Reading\<close>

fun collect_ok :: "('e + 'a) list \<Rightarrow> 'e + 'a list" where
  "collect_ok [] = Ok []"
| "collect_ok (r # rs) = and_then r (\<lambda>x. and_then (collect_ok rs) (\<lambda>xs. Ok (x # xs)))"

definition export_audit_events :: "ProjectId \<Rightarrow> u64 \<Rightarrow> u64 option \<Rightarrow> u32 \<Rightarrow> Db \<Rightarrow> StoreError + AuditExport" where
  "export_audit_events project_id after_sequence through_opt limit db =
     and_then (validate_audit_identifier project_id MAX_AUDIT_PROJECT_ID_BYTES ''project ID'') (\<lambda>_.
     and_then (validate_audit_limit limit) (\<lambda>_.
     and_then (map_err (\<lambda>_. AuditCursorOutOfRange after_sequence) (sql_integer after_sequence)) (\<lambda>after_int.
     and_then (case through_opt of
         Some through \<Rightarrow> fail_if (through < after_sequence) (InvalidAuditCursorRange after_sequence through)
       | None \<Rightarrow> Ok ()) (\<lambda>_.
     let maximum = max_of (map au_sequence (db_audit_events db)) in
     and_then (unsigned_integer maximum) (\<lambda>maximum_sequence.
     and_then (case through_opt of
         Some sequence \<Rightarrow>
           if sequence > maximum_sequence then Err (AuditHighWaterAhead sequence maximum_sequence)
           else and_then (map_err (\<lambda>_. AuditCursorOutOfRange sequence) (sql_integer sequence)) (\<lambda>v. Ok (sequence, v))
       | None \<Rightarrow> Ok (maximum_sequence, maximum)) (\<lambda>(through_sequence, through_int).
     and_then (fail_if (through_sequence < after_sequence)
         (InvalidAuditCursorRange after_sequence through_sequence)) (\<lambda>_.
     let rows = take (unat limit + 1) (sort_key au_sequence
           (filter (\<lambda>a. au_project_id a = project_id \<and> after_int < au_sequence a
              \<and> au_sequence a \<le> through_int) (db_audit_events db))) in
     and_then (collect_ok (map StoredAuditEvent_into_record rows)) (\<lambda>records.
     let events = take (unat limit) records in
     Ok \<lparr>ax_version = AUDIT_EXPORT_VERSION, ax_project_id = project_id,
         ax_after_sequence = after_sequence, ax_through_sequence = through_sequence,
         ax_next_after_sequence = (case last_opt events of None \<Rightarrow> after_sequence | Some e \<Rightarrow> ar_sequence e),
         ax_has_more = (length records > unat limit), ax_events = events\<rparr>))))))))"

definition project_root_of :: "ProjectId \<Rightarrow> Db \<Rightarrow> string option" where
  "project_root_of project_id db =
     Option.bind (row_where (\<lambda>p. pr_project_id p = project_id) (db_projects db)) pr_root"

definition recent_audit_events :: "u32 \<Rightarrow> Db \<Rightarrow> StoreError + RecentAuditEvents" where
  "recent_audit_events limit db =
     and_then (validate_audit_limit limit) (\<lambda>_.
     let rows = take (unat limit + 1) (rev (sort_key au_sequence (db_audit_events db))) in
     and_then (collect_ok (map (\<lambda>a. and_then (StoredAuditEvent_into_record a) (\<lambda>r.
         Ok (r\<lparr>ar_project_root := project_root_of (au_project_id a) db\<rparr>))) rows)) (\<lambda>records.
     Ok \<lparr>ra_events = take (unat limit) records, ra_truncated = (length records > unat limit)\<rparr>))"

definition activity_days :: "u64 \<Rightarrow> Db \<Rightarrow> StoreError + ActivityDay list" where
  "activity_days since_ms db =
     and_then (sql_integer since_ms) (\<lambda>since.
     Ok (rev (map (\<lambda>d. \<lparr>dy_day_start_ms = of_int (max (ad_day_start_ms d) 0),
                        dy_events = of_int (max (ad_events d) 0)\<rparr>)
       (take MAX_ACTIVITY_DAYS (rev (sort_key ad_day_start_ms
          (filter (\<lambda>d. since \<le> ad_day_start_ms d) (db_activity_days db))))))))"

section \<open>Pruning and project roots\<close>

definition prune_audit_events :: "ProjectId \<Rightarrow> u64 \<Rightarrow> u32 \<Rightarrow> Db \<Rightarrow> AuditPruneOutcome store_result" where
  "prune_audit_events project_id now_ms limit = transaction (\<lambda>db.
     and_then (validate_audit_identifier project_id MAX_AUDIT_PROJECT_ID_BYTES ''project ID'') (\<lambda>_.
     and_then (validate_audit_limit limit) (\<lambda>_.
     and_then (sql_integer now_ms) (\<lambda>now.
     let due = (\<lambda>a. au_project_id a = project_id \<and> au_retain_until_ms a \<le> now);
         doomed = map au_sequence (take (unat limit) (sort_key au_sequence (filter due (db_audit_events db)))) in
     and_then (execute (\<lambda>db. db\<lparr>db_audit_events :=
         filter (\<lambda>a. au_sequence a \<notin> set doomed) (db_audit_events db)\<rparr>) db) (\<lambda>db'.
     Ok (\<lparr>ap_deleted = matching (\<lambda>a. au_sequence a \<in> set doomed) (db_audit_events db),
          ap_has_more = list_ex due (db_audit_events db')\<rparr>, db'))))))"

definition remember_project_root :: "ProjectId \<Rightarrow> string \<Rightarrow> Db \<Rightarrow> unit store_result" where
  "remember_project_root project_id root = transaction (\<lambda>db.
     and_then (fail_if (root = [] \<or> length root > MAX_PROJECT_ROOT_BYTES
         \<or> list_ex is_unsafe_audit_character (chars root)) (InvalidProjectRoot ''root'')) (\<lambda>_.
     and_then (execute (ensure_project project_id) db) (\<lambda>db.
     and_then (execute (\<lambda>db. db\<lparr>db_projects := update_where
         (\<lambda>p. pr_project_id p = project_id \<and> pr_root p \<noteq> Some root) (\<lambda>p. p\<lparr>pr_root := Some root\<rparr>)
         (db_projects db)\<rparr>) db) (\<lambda>db.
     Ok ((), db)))))"

end
