(* ===== verification/Store_Access.thy ===== *)
theory Store_Access
  imports Store_Audit
begin

text \<open>
  Callers, grants, approvals and the proof of a flow authorization, after
  \<^verbatim>\<open>crates/pam_store/src/store.rs\<close>.  SHA-256 and the identifiers \<^verbatim>\<open>Uuid::new_v4\<close> draws are arguments.
\<close>

section \<open>Callers\<close>

datatype CallerAuthentication = Authenticated | UnknownCaller | Revoked | InvalidCredential
datatype CallerRevocation = Revoked | AlreadyRevoked | UnknownCaller

record CallerRegistration =
  cg_caller_id :: CallerId
  cg_registered_at_ms :: u64
  cg_revoked_at_ms :: "u64 option"
  cg_kind :: "string option"

definition byte_of :: "char \<Rightarrow> u8" where
  "byte_of c = of_char c"

definition constant_time_equal :: "string \<Rightarrow> string \<Rightarrow> bool" where
  "constant_time_equal expected supplied \<longleftrightarrow>
     length expected = length supplied
     \<and> fold (\<lambda>(left, right) difference. or difference (xor (byte_of left) (byte_of right)))
         (zip expected supplied) 0 = 0"

definition credential_digest :: "(string \<Rightarrow> string) \<Rightarrow> string \<Rightarrow> string" where
  "credential_digest sha256 credential = sha256 credential"

definition register_caller ::
  "(string \<Rightarrow> string) \<Rightarrow> CallerId \<Rightarrow> string \<Rightarrow> string option \<Rightarrow> u64 \<Rightarrow> Db \<Rightarrow> CallerRegistration store_result" where
  "register_caller sha256 caller_id credential kind now_ms = transaction (\<lambda>db.
     and_then (fail_if (\<not> CallerCredential_is_valid credential) InvalidCallerCredential) (\<lambda>_.
     and_then (sql_integer now_ms) (\<lambda>registered_at.
     let digest = credential_digest sha256 credential in
     and_then (case row_where (\<lambda>c. cr_caller_id c = caller_id) (db_callers db) of
         None \<Rightarrow> execute (\<lambda>db. db\<lparr>db_callers := db_callers db
             @ [\<lparr>cr_caller_id = caller_id, cr_credential_digest = digest,
                 cr_registered_at_ms = registered_at, cr_revoked_at_ms = None, cr_kind = kind\<rparr>]\<rparr>) db
       | Some existing \<Rightarrow>
           if cr_revoked_at_ms existing = None then Err (CallerAlreadyRegistered caller_id)
           else execute (\<lambda>db. db\<lparr>db_callers := update_where (\<lambda>c. cr_caller_id c = caller_id)
             (\<lambda>c. c\<lparr>cr_credential_digest := digest, cr_registered_at_ms := registered_at,
                    cr_revoked_at_ms := None, cr_kind := kind\<rparr>) (db_callers db)\<rparr>) db) (\<lambda>db.
     Ok (\<lparr>cg_caller_id = caller_id, cg_registered_at_ms = now_ms, cg_revoked_at_ms = None,
          cg_kind = kind\<rparr>, db)))))"

definition authenticate_caller ::
  "(string \<Rightarrow> string) \<Rightarrow> CallerId \<Rightarrow> string \<Rightarrow> Db \<Rightarrow> StoreError + CallerAuthentication" where
  "authenticate_caller sha256 caller_id credential db =
     (if \<not> CallerCredential_is_valid credential then Ok InvalidCredential
      else case row_where (\<lambda>c. cr_caller_id c = caller_id) (db_callers db) of
        None \<Rightarrow> Ok CallerAuthentication.UnknownCaller
      | Some registration \<Rightarrow>
          if cr_revoked_at_ms registration \<noteq> None then Ok CallerAuthentication.Revoked
          else if constant_time_equal (cr_credential_digest registration)
                    (credential_digest sha256 credential)
          then Ok Authenticated else Ok InvalidCredential)"

definition revoke_caller :: "CallerId \<Rightarrow> u64 \<Rightarrow> Db \<Rightarrow> CallerRevocation store_result" where
  "revoke_caller caller_id now_ms = transaction (\<lambda>db.
     and_then (sql_integer now_ms) (\<lambda>revoked_at.
     (case row_where (\<lambda>c. cr_caller_id c = caller_id) (db_callers db) of
        None \<Rightarrow> Ok (CallerRevocation.UnknownCaller, db)
      | Some caller \<Rightarrow>
          if cr_revoked_at_ms caller \<noteq> None then Ok (AlreadyRevoked, db)
          else if revoked_at < cr_registered_at_ms caller
          then Err (InvalidState ''caller revocation predates registration'')
          else and_then (execute (\<lambda>db. db\<lparr>db_callers := update_where
              (\<lambda>c. cr_caller_id c = caller_id \<and> cr_revoked_at_ms c = None)
              (\<lambda>c. c\<lparr>cr_revoked_at_ms := Some revoked_at\<rparr>) (db_callers db)\<rparr>) db) (\<lambda>db.
            Ok (CallerRevocation.Revoked, db)))))"

definition caller_is_active :: "CallerId \<Rightarrow> Db \<Rightarrow> bool" where
  "caller_is_active caller_id db \<longleftrightarrow>
     row_where (\<lambda>c. cr_caller_id c = caller_id \<and> cr_revoked_at_ms c = None) (db_callers db) \<noteq> None"

section \<open>Grants\<close>

record ProjectPolicy =
  pp_project_id :: ProjectId
  pp_version :: u64
  pp_updated_at_ms :: u64

datatype GrantRevocation = Revoked | AlreadyRevoked | UnknownGrant

definition sql_integer_opt :: "u64 option \<Rightarrow> StoreError + int option" where
  "sql_integer_opt v = (case v of None \<Rightarrow> Ok None | Some x \<Rightarrow> and_then (sql_integer x) (\<lambda>n. Ok (Some n)))"

definition unsigned_integer_opt :: "int option \<Rightarrow> StoreError + u64 option" where
  "unsigned_integer_opt v =
     (case v of None \<Rightarrow> Ok None | Some x \<Rightarrow> and_then (unsigned_integer x) (\<lambda>n. Ok (Some n)))"

definition put_grant :: "Grant \<Rightarrow> u64 \<Rightarrow> Db \<Rightarrow> ProjectPolicy store_result" where
  "put_grant grant created_at_ms = transaction (\<lambda>db.
     and_then (sql_integer created_at_ms) (\<lambda>created_at.
     and_then (sql_integer_opt (gr_expires_at_ms grant)) (\<lambda>expires_at.
     and_then (sql_integer_opt (gr_revoked_at_ms grant)) (\<lambda>revoked_at.
     let (resource_kind, resource) =
           (case gr_resource grant of Any \<Rightarrow> (''any'', None) | Exact r \<Rightarrow> (''exact'', Some r)) in
     if row_where (\<lambda>g. gt_grant_id g = gr_id grant) (db_grants db) \<noteq> None
     then Err (GrantAlreadyExists (gr_id grant))
     else
     and_then (execute (ensure_project (gr_project grant)) db) (\<lambda>db.
     and_then (execute (\<lambda>db. db\<lparr>db_policies :=
         (if gr_project grant \<in> set (map po_project_id (db_policies db))
          then update_where (\<lambda>p. po_project_id p = gr_project grant)
                 (\<lambda>p. p\<lparr>po_version := po_version p + 1, po_updated_at_ms := created_at\<rparr>) (db_policies db)
          else db_policies db @ [\<lparr>po_project_id = gr_project grant, po_version = 1,
                 po_updated_at_ms = created_at\<rparr>])\<rparr>) db) (\<lambda>db.
     and_then (execute (\<lambda>db. db\<lparr>db_grants := db_grants db
         @ [\<lparr>gt_grant_id = gr_id grant, gt_caller_id = gr_caller grant, gt_project_id = gr_project grant,
             gt_capability = gr_capability grant, gt_resource_kind = resource_kind,
             gt_resource = resource,
             gt_effect = (case gr_effect grant of Allow \<Rightarrow> ''allow'' | Effect.Deny \<Rightarrow> ''deny''),
             gt_approval = (case gr_approval grant of
                 ApprovalRequirement.NoApproval \<Rightarrow> ''none'' | Once \<Rightarrow> ''once''),
             gt_expires_at_ms = expires_at, gt_revoked_at_ms = revoked_at,
             gt_created_at_ms = created_at\<rparr>]\<rparr>) db) (\<lambda>db.
     and_then (ok_or (row_where (\<lambda>p. po_project_id p = gr_project grant) (db_policies db)) Sqlite) (\<lambda>policy.
     and_then (unsigned_integer (po_version policy)) (\<lambda>version.
     Ok (\<lparr>pp_project_id = gr_project grant, pp_version = version,
          pp_updated_at_ms = created_at_ms\<rparr>, db))))))))))"

definition revoke_grant :: "GrantId \<Rightarrow> u64 \<Rightarrow> Db \<Rightarrow> GrantRevocation store_result" where
  "revoke_grant grant_id now_ms = transaction (\<lambda>db.
     and_then (sql_integer now_ms) (\<lambda>revoked_at.
     (case row_where (\<lambda>g. gt_grant_id g = grant_id) (db_grants db) of
        None \<Rightarrow> Ok (UnknownGrant, db)
      | Some grant \<Rightarrow>
          if gt_revoked_at_ms grant \<noteq> None then Ok (GrantRevocation.AlreadyRevoked, db)
          else
          and_then (execute (\<lambda>db. db\<lparr>db_grants := update_where (\<lambda>g. gt_grant_id g = grant_id)
              (\<lambda>g. g\<lparr>gt_revoked_at_ms := Some revoked_at\<rparr>) (db_grants db)\<rparr>) db) (\<lambda>db.
          and_then (execute (\<lambda>db. db\<lparr>db_policies := update_where (\<lambda>p. po_project_id p = gt_project_id grant)
              (\<lambda>p. p\<lparr>po_version := po_version p + 1, po_updated_at_ms := revoked_at\<rparr>) (db_policies db)\<rparr>) db) (\<lambda>db.
          Ok (GrantRevocation.Revoked, db))))))"

definition parse_resource_scope :: "string \<Rightarrow> string option \<Rightarrow> StoreError + ResourceScope" where
  "parse_resource_scope kind resource =
     (case resource of
        None \<Rightarrow> if kind = ''any'' then Ok Any else Err (InvalidState ''invalid stored policy resource scope'')
      | Some r \<Rightarrow>
          if kind = ''exact''
          then map_err (\<lambda>_. InvalidState ''invalid stored policy resource'')
                 (and_then (ResourceName_parse r) (\<lambda>name. Ok (Exact name)))
          else Err (InvalidState ''invalid stored policy resource scope''))"

definition parse_effect :: "string \<Rightarrow> StoreError + Effect" where
  "parse_effect effect =
     (if effect = ''allow'' then Ok Allow else if effect = ''deny'' then Ok Effect.Deny
      else Err (InvalidState ''invalid stored grant effect''))"

definition parse_approval_requirement :: "string \<Rightarrow> StoreError + ApprovalRequirement" where
  "parse_approval_requirement v =
     (if v = ''none'' then Ok ApprovalRequirement.NoApproval else if v = ''once'' then Ok Once
      else Err (InvalidState ''invalid stored approval requirement''))"

definition load_grant :: "CallerId \<Rightarrow> ProjectId \<Rightarrow> CapabilityName \<Rightarrow> GrantRow \<Rightarrow> StoreError + Grant" where
  "load_grant caller project capability g =
     and_then (parse_resource_scope (gt_resource_kind g) (gt_resource g)) (\<lambda>resource.
     and_then (parse_effect (gt_effect g)) (\<lambda>effect.
     and_then (parse_approval_requirement (gt_approval g)) (\<lambda>approval.
     and_then (unsigned_integer_opt (gt_expires_at_ms g)) (\<lambda>expires_at_ms.
     and_then (unsigned_integer_opt (gt_revoked_at_ms g)) (\<lambda>revoked_at_ms.
     Ok \<lparr>gr_id = gt_grant_id g, gr_caller = caller, gr_project = project, gr_capability = capability,
         gr_resource = resource, gr_effect = effect, gr_approval = approval,
         gr_expires_at_ms = expires_at_ms, gr_revoked_at_ms = revoked_at_ms\<rparr>)))))"

definition load_grants :: "CallerId \<Rightarrow> ProjectId \<Rightarrow> CapabilityName \<Rightarrow> Db \<Rightarrow> StoreError + Grant list" where
  "load_grants caller project capability db =
     collect_ok (map (load_grant caller project capability)
       (filter (\<lambda>g. gt_caller_id g = caller \<and> gt_project_id g = project \<and> gt_capability g = capability)
          (db_grants db)))"

section \<open>Approvals\<close>

record AuthorizationRequest =
  az_caller_id :: CallerId
  az_project_id :: ProjectId
  az_capability :: CapabilityName
  az_resource :: ResourceName
  az_approval_id :: "ApprovalId option"

datatype AuthorizationOutcome =
    Allowed | Denied | ApprovalRequired ApprovalId u64 | ApprovalDenied | ApprovalExpired

datatype ApprovalDecision = Approve | Deny

datatype ApprovalDecisionOutcome = Approved | Denied | Expired

definition request_fingerprint :: "(string \<Rightarrow> string) \<Rightarrow> AuthorizationRequest \<Rightarrow> EffectFingerprint" where
  "request_fingerprint sha256 request = EffectFingerprint_compute sha256 (az_caller_id request)
     (az_project_id request) (az_capability request) (az_resource request)"

definition insert_approval ::
  "ApprovalId \<Rightarrow> AuthorizationRequest \<Rightarrow> EffectFingerprint \<Rightarrow> int \<Rightarrow> int \<Rightarrow> RequestId option \<Rightarrow> Db \<Rightarrow> Db" where
  "insert_approval approval_id request fingerprint now expires_at flow_request_id db =
     db\<lparr>db_approvals := db_approvals db
       @ [\<lparr>aw_approval_id = approval_id, aw_caller_id = az_caller_id request,
           aw_project_id = az_project_id request, aw_capability = az_capability request,
           aw_resource = az_resource request, aw_effect_fingerprint = fingerprint,
           aw_state = Requested, aw_requested_at_ms = now, aw_expires_at_ms = expires_at,
           aw_decided_by = None, aw_decided_at_ms = None, aw_consumed_at_ms = None,
           aw_flow_request_id = flow_request_id\<rparr>]\<rparr>"

definition update_approvals :: "(ApprovalRow \<Rightarrow> bool) \<Rightarrow> (ApprovalRow \<Rightarrow> ApprovalRow) \<Rightarrow> Db \<Rightarrow> Db" where
  "update_approvals p f db = db\<lparr>db_approvals := update_where p f (db_approvals db)\<rparr>"

text \<open>
  \<^verbatim>\<open>resolve_approval\<close> and \<^verbatim>\<open>resolve_flow_approval\<close> differ in the request a receipt must be bound to:
  none, or the flow request.
\<close>

definition resolve_bound_approval ::
  "RequestId option \<Rightarrow> ApprovalId \<Rightarrow> AuthorizationRequest \<Rightarrow> EffectFingerprint \<Rightarrow> int \<Rightarrow> u64 \<Rightarrow> Db
     \<Rightarrow> StoreError + AuthorizationOutcome \<times> Db" where
  "resolve_bound_approval bound approval_id request fingerprint now now_ms db =
     (case row_where (\<lambda>a. aw_approval_id a = approval_id) (db_approvals db) of
        None \<Rightarrow> Ok (AuthorizationOutcome.Denied, db)
      | Some a \<Rightarrow>
          if aw_caller_id a \<noteq> az_caller_id request \<or> aw_project_id a \<noteq> az_project_id request
             \<or> aw_capability a \<noteq> az_capability request \<or> aw_resource a \<noteq> az_resource request
             \<or> aw_flow_request_id a \<noteq> bound
             \<or> \<not> constant_time_equal (aw_effect_fingerprint a) fingerprint
          then Ok (AuthorizationOutcome.Denied, db)
          else
          and_then (unsigned_integer (aw_expires_at_ms a)) (\<lambda>expires_at_ms.
          if now_ms \<ge> expires_at_ms \<and> (aw_state a = Requested \<or> aw_state a = ApprovalState.Approved)
          then and_then (execute (update_approvals (\<lambda>a. aw_approval_id a = approval_id)
                 (\<lambda>a. a\<lparr>aw_state := ApprovalState.Expired\<rparr>)) db) (\<lambda>db. Ok (ApprovalExpired, db))
          else (case aw_state a of
              Requested \<Rightarrow> Ok (AuthorizationOutcome.ApprovalRequired approval_id expires_at_ms, db)
            | ApprovalState.Approved \<Rightarrow>
                let p = (\<lambda>a. aw_approval_id a = approval_id \<and> aw_state a = ApprovalState.Approved
                           \<and> (bound = None \<or> aw_flow_request_id a = bound)) in
                and_then (execute (update_approvals p
                   (\<lambda>a. a\<lparr>aw_state := Consumed, aw_consumed_at_ms := Some now\<rparr>)) db) (\<lambda>db'.
                Ok (if matching p (db_approvals db) = 1 then AuthorizationOutcome.Allowed
                    else AuthorizationOutcome.Denied, db'))
            | ApprovalState.ApprovalDenied \<Rightarrow> Ok (AuthorizationOutcome.ApprovalDenied, db)
            | ApprovalState.Expired \<Rightarrow> Ok (ApprovalExpired, db)
            | Consumed \<Rightarrow> Ok (AuthorizationOutcome.Denied, db))))"

definition resolve_approval_tx ::
  "ApprovalId \<Rightarrow> AuthorizationRequest \<Rightarrow> EffectFingerprint \<Rightarrow> int \<Rightarrow> u64 \<Rightarrow> Db
     \<Rightarrow> StoreError + AuthorizationOutcome \<times> Db" where
  "resolve_approval_tx = resolve_bound_approval None"

definition resolve_flow_approval ::
  "ApprovalId \<Rightarrow> AuthorizationRequest \<Rightarrow> RequestId \<Rightarrow> EffectFingerprint \<Rightarrow> int \<Rightarrow> u64 \<Rightarrow> Db
     \<Rightarrow> StoreError + AuthorizationOutcome \<times> Db" where
  "resolve_flow_approval approval_id request request_id =
     resolve_bound_approval (Some request_id) approval_id request"

definition request_approval ::
  "ApprovalId \<Rightarrow> AuthorizationRequest \<Rightarrow> EffectFingerprint \<Rightarrow> int \<Rightarrow> u64 \<Rightarrow> u64 \<Rightarrow> RequestId option \<Rightarrow> Db
     \<Rightarrow> StoreError + AuthorizationOutcome \<times> Db" where
  "request_approval new_id request fingerprint now now_ms approval_ttl_ms bound db =
     (if approval_ttl_ms = 0 then Err (InvalidState ''approval lifetime must be non-zero'')
      else
      and_then (ok_or (checked_add now_ms approval_ttl_ms) ApprovalExpiryOverflow) (\<lambda>expires_at_ms.
      and_then (sql_integer expires_at_ms) (\<lambda>expires_at.
      and_then (execute (insert_approval new_id request fingerprint now expires_at bound) db) (\<lambda>db.
      Ok (AuthorizationOutcome.ApprovalRequired new_id expires_at_ms, db)))))"

definition authorize_with_approval ::
  "(string \<Rightarrow> string) \<Rightarrow> ApprovalId \<Rightarrow> AuthorizationRequest \<Rightarrow> int \<Rightarrow> u64 \<Rightarrow> u64 \<Rightarrow> Db
     \<Rightarrow> StoreError + AuthorizationOutcome \<times> Db" where
  "authorize_with_approval sha256 new_id request now now_ms approval_ttl_ms db =
     (let fingerprint = request_fingerprint sha256 request in
      case az_approval_id request of
        None \<Rightarrow> request_approval new_id request fingerprint now now_ms approval_ttl_ms None db
      | Some approval_id \<Rightarrow> resolve_approval_tx approval_id request fingerprint now now_ms db)"

text \<open>
  \<^verbatim>\<open>ORDER BY requested_at_ms DESC, approval_id DESC LIMIT 1\<close>: the last row of the table sorted by both
  keys; ids are compared byte by byte.
\<close>

definition bytes_key :: "string \<Rightarrow> nat list" where
  "bytes_key s = map of_char s"

fun bytes_le :: "nat list \<Rightarrow> nat list \<Rightarrow> bool" where
  "bytes_le [] _ \<longleftrightarrow> True"
| "bytes_le (_ # _) [] \<longleftrightarrow> False"
| "bytes_le (a # as) (b # bs) \<longleftrightarrow> a < b \<or> a = b \<and> bytes_le as bs"

definition later_approval :: "ApprovalRow \<Rightarrow> ApprovalRow \<Rightarrow> ApprovalRow" where
  "later_approval a b =
     (if aw_requested_at_ms a > aw_requested_at_ms b
         \<or> aw_requested_at_ms a = aw_requested_at_ms b
           \<and> \<not> bytes_le (bytes_key (aw_approval_id a)) (bytes_key (aw_approval_id b))
      then a else b)"

fun latest_approval :: "ApprovalRow list \<Rightarrow> ApprovalRow option" where
  "latest_approval [] = None"
| "latest_approval (a # rest) = Some (fold later_approval rest a)"

definition reusable_flow_approval ::
  "AuthorizationRequest \<Rightarrow> RequestId \<Rightarrow> EffectFingerprint \<Rightarrow> u64 \<Rightarrow> Db \<Rightarrow> StoreError + (ApprovalId \<times> u64) option" where
  "reusable_flow_approval request request_id fingerprint now_ms db =
     and_then (sql_integer now_ms) (\<lambda>now.
     (case latest_approval (filter (\<lambda>a.
          aw_caller_id a = az_caller_id request \<and> aw_project_id a = az_project_id request
          \<and> aw_capability a = az_capability request \<and> aw_resource a = az_resource request
          \<and> aw_effect_fingerprint a = fingerprint \<and> aw_flow_request_id a = Some request_id
          \<and> (aw_state a = Requested \<or> aw_state a = ApprovalState.Approved)
          \<and> aw_expires_at_ms a > now) (db_approvals db)) of
        None \<Rightarrow> Ok None
      | Some a \<Rightarrow> and_then (unsigned_integer (aw_expires_at_ms a)) (\<lambda>e. Ok (Some (aw_approval_id a, e)))))"

definition authorize_flow_with_approval ::
  "(string \<Rightarrow> string) \<Rightarrow> ApprovalId \<Rightarrow> AuthorizationRequest \<Rightarrow> RequestId \<Rightarrow> int \<Rightarrow> u64 \<Rightarrow> u64 \<Rightarrow> Db
     \<Rightarrow> StoreError + AuthorizationOutcome \<times> Db" where
  "authorize_flow_with_approval sha256 new_id request request_id now now_ms approval_ttl_ms db =
     (let fingerprint = request_fingerprint sha256 request in
      case az_approval_id request of
        None \<Rightarrow>
          and_then (reusable_flow_approval request request_id fingerprint now_ms db) (\<lambda>reusable.
          (case reusable of
             Some (approval_id, expires_at_ms) \<Rightarrow>
               Ok (AuthorizationOutcome.ApprovalRequired approval_id expires_at_ms, db)
           | None \<Rightarrow> request_approval new_id request fingerprint now now_ms approval_ttl_ms (Some request_id) db))
      | Some approval_id \<Rightarrow>
          resolve_flow_approval approval_id request request_id fingerprint now now_ms db)"

definition decide_approval ::
  "ApprovalId \<Rightarrow> ProjectId option \<Rightarrow> CallerId \<Rightarrow> ApprovalDecision \<Rightarrow> u64 \<Rightarrow> Db
     \<Rightarrow> ApprovalDecisionOutcome store_result" where
  "decide_approval approval_id project_id approver_id decision now_ms = transaction (\<lambda>db.
     and_then (sql_integer now_ms) (\<lambda>now.
     and_then (fail_if (\<not> caller_is_active approver_id db) InvalidApprovalState) (\<lambda>_.
     and_then (ok_or (row_where (\<lambda>a. aw_approval_id a = approval_id
         \<and> (case project_id of None \<Rightarrow> True
            | Some project \<Rightarrow> aw_project_id a = project \<and> aw_caller_id a = approver_id)) (db_approvals db))
       (ApprovalNotFound approval_id)) (\<lambda>approval.
     if aw_state approval = ApprovalState.Approved \<and> decision = ApprovalDecision.Approve
        \<and> aw_decided_by approval = Some approver_id
     then Ok (ApprovalDecisionOutcome.Approved, db)
     else if aw_state approval = ApprovalState.ApprovalDenied \<and> decision = ApprovalDecision.Deny
        \<and> aw_decided_by approval = Some approver_id
     then Ok (ApprovalDecisionOutcome.Denied, db)
     else if aw_state approval = ApprovalState.Expired then Ok (ApprovalDecisionOutcome.Expired, db)
     else if aw_state approval \<noteq> Requested \<or> aw_decided_by approval \<noteq> None then Err InvalidApprovalState
     else
     and_then (unsigned_integer (aw_expires_at_ms approval)) (\<lambda>expires_at_ms.
     if now_ms \<ge> expires_at_ms
     then and_then (execute (update_approvals (\<lambda>a. aw_approval_id a = approval_id)
            (\<lambda>a. a\<lparr>aw_state := ApprovalState.Expired\<rparr>)) db) (\<lambda>db. Ok (ApprovalDecisionOutcome.Expired, db))
     else
     let (state, outcome) = (case decision of
           ApprovalDecision.Approve \<Rightarrow> (ApprovalState.Approved, ApprovalDecisionOutcome.Approved)
         | ApprovalDecision.Deny \<Rightarrow> (ApprovalState.ApprovalDenied, ApprovalDecisionOutcome.Denied)) in
     and_then (execute (update_approvals (\<lambda>a. aw_approval_id a = approval_id \<and> aw_state a = Requested)
        (\<lambda>a. a\<lparr>aw_state := state, aw_decided_by := Some approver_id, aw_decided_at_ms := Some now\<rparr>)) db) (\<lambda>db.
     Ok (outcome, db)))))))"

section \<open>The proof of a flow authorization\<close>

record StoredFlowAuthorization =
  sa_caller_id :: CallerId
  sa_project_id :: ProjectId
  sa_capability :: CapabilityName
  sa_resource :: ResourceName
  sa_fingerprint :: string
  sa_approval_id :: "ApprovalId option"
  sa_schema_approval_required :: bool

definition load_flow_authorization ::
  "(string \<Rightarrow> string) \<Rightarrow> RequestId \<Rightarrow> Db \<Rightarrow> StoreError + StoredFlowAuthorization" where
  "load_flow_authorization sha256 request_id db =
     (case row_where (\<lambda>r. rq_request_id r = request_id \<and> rq_operation_kind r = FLOW_OPERATION_KIND)
             (db_requests db) of
        None \<Rightarrow> Err (CorruptFlowAuthorization request_id)
      | Some r \<Rightarrow>
     (case row_where (\<lambda>f. fa_request_id f = request_id) (db_flow_authorizations db) of
        None \<Rightarrow> Err (CorruptFlowAuthorization request_id)
      | Some f \<Rightarrow>
     and_then (map_err (\<lambda>_. CorruptFlowAuthorization request_id) (CapabilityName_parse (fa_capability f))) (\<lambda>capability.
     and_then (map_err (\<lambda>_. CorruptFlowAuthorization request_id) (ResourceName_parse (fa_resource f))) (\<lambda>resource.
     let expected = EffectFingerprint_compute sha256 (rq_caller_id r) (rq_project_id r) capability resource;
         kind_matches = (fa_authorization_kind f = ''unconditional'' \<and> fa_approval_id f = None
                         \<or> fa_authorization_kind f = ''approved'' \<and> fa_approval_id f \<noteq> None) in
     if capability \<noteq> FLOW_CAPABILITY_NAME \<or> \<not> kind_matches
        \<or> (fa_schema_approval_required f \<and> fa_approval_id f = None)
        \<or> fa_authorized_at_ms f \<noteq> rq_accepted_at_ms r
        \<or> \<not> constant_time_equal (fa_effect_fingerprint f) expected
     then Err (CorruptFlowAuthorization request_id)
     else Ok \<lparr>sa_caller_id = rq_caller_id r, sa_project_id = rq_project_id r,
              sa_capability = capability, sa_resource = resource,
              sa_fingerprint = fa_effect_fingerprint f, sa_approval_id = fa_approval_id f,
              sa_schema_approval_required = fa_schema_approval_required f\<rparr>))))"

definition validate_consumed_flow_receipt ::
  "RequestId \<Rightarrow> StoredFlowAuthorization \<Rightarrow> ApprovalId \<Rightarrow> Db \<Rightarrow> StoreError + unit" where
  "validate_consumed_flow_receipt request_id proof approval_id db =
     (case row_where (\<lambda>a. aw_approval_id a = approval_id) (db_approvals db) of
        None \<Rightarrow> Err (CorruptFlowAuthorization request_id)
      | Some a \<Rightarrow>
          if aw_caller_id a \<noteq> sa_caller_id proof \<or> aw_project_id a \<noteq> sa_project_id proof
             \<or> aw_capability a \<noteq> sa_capability proof \<or> aw_resource a \<noteq> sa_resource proof
             \<or> aw_state a \<noteq> Consumed \<or> aw_flow_request_id a \<noteq> Some request_id
             \<or> \<not> (case (aw_decided_at_ms a, aw_consumed_at_ms a) of
                    (Some decided, Some consumed) \<Rightarrow> decided \<le> consumed \<and> consumed < aw_expires_at_ms a
                  | _ \<Rightarrow> False)
             \<or> \<not> constant_time_equal (aw_effect_fingerprint a) (sa_fingerprint proof)
          then Err (CorruptFlowAuthorization request_id) else Ok ())"

definition validate_flow_authorization_integrity ::
  "(string \<Rightarrow> string) \<Rightarrow> RequestId \<Rightarrow> Db \<Rightarrow> StoreError + StoredFlowAuthorization" where
  "validate_flow_authorization_integrity sha256 request_id db =
     and_then (load_flow_authorization sha256 request_id db) (\<lambda>proof.
     and_then (case sa_approval_id proof of
         None \<Rightarrow> Ok ()
       | Some approval_id \<Rightarrow> validate_consumed_flow_receipt request_id proof approval_id db) (\<lambda>_.
     Ok proof))"

datatype FlowEffectAuthorization = Allowed | Denied

definition validate_loaded_flow_authorization ::
  "RequestId \<Rightarrow> StoredFlowAuthorization \<Rightarrow> u64 \<Rightarrow> Db \<Rightarrow> StoreError + FlowEffectAuthorization" where
  "validate_loaded_flow_authorization request_id proof now_ms db =
     and_then (case sa_approval_id proof of
         None \<Rightarrow> Ok ()
       | Some approval_id \<Rightarrow> validate_consumed_flow_receipt request_id proof approval_id db) (\<lambda>_.
     if \<not> caller_is_active (sa_caller_id proof) db then Ok FlowEffectAuthorization.Denied
     else
     and_then (load_grants (sa_caller_id proof) (sa_project_id proof) (sa_capability proof) db) (\<lambda>grants.
     let decision = evaluate grants (sa_caller_id proof) (sa_project_id proof) (sa_capability proof)
           (sa_resource proof) now_ms;
         allowed = (case decision of
             Decision.Denied \<Rightarrow> False
           | Decision.ApprovalRequired \<Rightarrow> sa_approval_id proof \<noteq> None
           | Decision.Allowed \<Rightarrow> sa_approval_id proof \<noteq> None \<or> \<not> sa_schema_approval_required proof) in
     Ok (if allowed then FlowEffectAuthorization.Allowed else FlowEffectAuthorization.Denied)))"

section \<open>Resetting access\<close>

record AccessResetTally =
  rt_grants :: nat
  rt_approvals :: nat
  rt_flow_authorizations :: nat

definition reset_access :: "Db \<Rightarrow> AccessResetTally store_result" where
  "reset_access = transaction (\<lambda>db.
     and_then (execute (\<lambda>db. db\<lparr>db_flow_authorizations := []\<rparr>) db) (\<lambda>db1.
     and_then (execute (\<lambda>db. db\<lparr>db_approvals := []\<rparr>) db1) (\<lambda>db2.
     and_then (execute (\<lambda>db. db\<lparr>db_grants := []\<rparr>) db2) (\<lambda>db3.
     Ok (\<lparr>rt_grants = length (db_grants db2), rt_approvals = length (db_approvals db1),
          rt_flow_authorizations = length (db_flow_authorizations db)\<rparr>, db3)))))"

end
