(* ===== verification/Store_Checkpoints.thy ===== *)
theory Store_Checkpoints
  imports Store_Access
begin

text \<open>
  Request events, live leases and flow checkpoints, after \<^verbatim>\<open>crates/pam_store/src/store.rs\<close>.  A
  checkpoint is written under a live lease with compare-and-swap on its revision, and only when it is
  a semantic successor of the stored one.  The MessagePack codec (\<^verbatim>\<open>rmp_serde\<close>) is the argument \<open>codec\<close>;
  SHA-256 is the argument \<open>sha256\<close>.
\<close>

record Codec =
  cd_encode_snapshot :: "FlowSnapshot \<Rightarrow> string option"
  cd_decode_snapshot :: "string \<Rightarrow> FlowSnapshot option"
  cd_encode_transition :: "RunTransition \<Rightarrow> string option"
  cd_decode_transition :: "string \<Rightarrow> RunTransition option"

section \<open>Events and leases\<close>

definition insert_event :: "RequestId \<Rightarrow> int \<Rightarrow> string \<Rightarrow> string \<Rightarrow> int \<Rightarrow> Db \<Rightarrow> Db" where
  "insert_event request_id sequence kind payload recorded_at_ms db =
     db\<lparr>db_events := db_events db
       @ [\<lparr>ev_request_id = request_id, ev_sequence = sequence, ev_kind = kind,
           ev_payload = payload, ev_recorded_at_ms = recorded_at_ms\<rparr>]\<rparr>"

definition next_event_sequence :: "RequestId \<Rightarrow> Db \<Rightarrow> int" where
  "next_event_sequence request_id db =
     max_of (map ev_sequence (filter (\<lambda>e. ev_request_id e = request_id) (db_events db))) + 1"

definition append_event_tx :: "RequestId \<Rightarrow> int \<Rightarrow> string \<Rightarrow> string \<Rightarrow> Db \<Rightarrow> StoreError + u64 \<times> Db" where
  "append_event_tx request_id recorded_at_ms kind payload db =
     (let sequence = next_event_sequence request_id db in
      and_then (execute (insert_event request_id sequence kind payload recorded_at_ms) db) (\<lambda>db.
      and_then (unsigned_integer sequence) (\<lambda>sequence. Ok (sequence, db))))"

text \<open>The condition of the statements that act under a lease.\<close>

definition holds_lease :: "Lease \<Rightarrow> int \<Rightarrow> RequestRow \<Rightarrow> bool" where
  "holds_lease lease now r \<longleftrightarrow>
     rq_request_id r = le_request_id lease \<and> is_active_state (rq_state r)
     \<and> rq_lease_owner r = Some (le_owner lease) \<and> rq_lease_token r = Some (le_token lease)
     \<and> (case rq_lease_expires_at_ms r of None \<Rightarrow> False | Some expires \<Rightarrow> expires > now)"

definition ensure_live_lease :: "Lease \<Rightarrow> int \<Rightarrow> Db \<Rightarrow> StoreError + unit" where
  "ensure_live_lease lease now db =
     fail_if (\<not> list_ex (holds_lease lease now) (db_requests db)) (StaleLease (le_request_id lease))"

definition ensure_live_flow_lease :: "Lease \<Rightarrow> int \<Rightarrow> Db \<Rightarrow> StoreError + RequestState" where
  "ensure_live_flow_lease lease now db =
     and_then (ok_or (row_where (holds_lease lease now) (db_requests db)) (StaleLease (le_request_id lease))) (\<lambda>live.
     if rq_operation_kind live \<noteq> FLOW_OPERATION_KIND
     then Err (InvalidState ''flow checkpoint requires a flow request'')
     else Ok (rq_state live))"

definition append_leased_event :: "Lease \<Rightarrow> u64 \<Rightarrow> string \<Rightarrow> string \<Rightarrow> Db \<Rightarrow> EventRecord store_result" where
  "append_leased_event lease now_ms kind payload = transaction (\<lambda>db.
     and_then (sql_integer now_ms) (\<lambda>now.
     and_then (ensure_live_lease lease now db) (\<lambda>_.
     and_then (append_event_tx (le_request_id lease) now kind payload db) (\<lambda>(sequence, db).
     Ok (\<lparr>er_sequence = sequence, er_kind = kind, er_payload = payload,
          er_recorded_at_ms = now_ms\<rparr>, db)))))"

section \<open>Encoding\<close>

definition encode_bounded ::
  "('a \<Rightarrow> string option) \<Rightarrow> (string \<Rightarrow> 'a option) \<Rightarrow> nat \<Rightarrow> (nat \<Rightarrow> nat \<Rightarrow> StoreError)
     \<Rightarrow> string \<Rightarrow> 'a \<Rightarrow> StoreError + string" where
  "encode_bounded encode decode maximum too_large what x =
     and_then (ok_or (encode x) (InvalidFlowCheckpoint (what @ '' cannot be encoded''))) (\<lambda>bytes.
     if bytes = [] \<or> length bytes > maximum then Err (too_large (length bytes) maximum)
     else
     and_then (ok_or (decode bytes) (InvalidFlowCheckpoint (what @ '' cannot be decoded''))) (\<lambda>decoded.
     if decoded \<noteq> x then Err (InvalidFlowCheckpoint (what @ '' encoding is not lossless''))
     else Ok bytes))"

definition encode_snapshot :: "Codec \<Rightarrow> FlowSnapshot \<Rightarrow> StoreError + string" where
  "encode_snapshot codec = encode_bounded (cd_encode_snapshot codec) (cd_decode_snapshot codec)
     MAX_FLOW_CHECKPOINT_BYTES FlowCheckpointTooLarge ''snapshot''"

definition encode_transition :: "Codec \<Rightarrow> RunTransition \<Rightarrow> StoreError + string" where
  "encode_transition codec = encode_bounded (cd_encode_transition codec) (cd_decode_transition codec)
     MAX_FLOW_TRANSITION_BYTES FlowTransitionTooLarge ''transition''"

section \<open>Terminal results\<close>

fun terminal_outcome_for_status :: "RunStatus \<Rightarrow> RunOutcome option" where
  "terminal_outcome_for_status RunStatus.Succeeded = Some Solved"
| "terminal_outcome_for_status RunStatus.Unresolved = Some RunOutcome.Unresolved"
| "terminal_outcome_for_status RunStatus.Blocked = Some RunOutcome.Blocked"
| "terminal_outcome_for_status RunStatus.Cancelled = Some RunOutcome.Cancelled"
| "terminal_outcome_for_status _ = None"

fun flow_outcome_name :: "RunOutcome \<Rightarrow> string" where
  "flow_outcome_name Solved = ''solved''"
| "flow_outcome_name RunOutcome.Unresolved = ''unresolved''"
| "flow_outcome_name RunOutcome.Blocked = ''blocked''"
| "flow_outcome_name RunOutcome.Cancelled = ''cancelled''"

definition parse_flow_outcome :: "string \<Rightarrow> RunOutcome option" where
  "parse_flow_outcome v =
     (if v = ''solved'' then Some Solved else if v = ''unresolved'' then Some RunOutcome.Unresolved
      else if v = ''blocked'' then Some RunOutcome.Blocked
      else if v = ''cancelled'' then Some RunOutcome.Cancelled else None)"

definition validate_flow_terminal_result ::
  "FlowSnapshot \<Rightarrow> RunTransition option \<Rightarrow> FlowTerminalResult option \<Rightarrow> StoreError + unit" where
  "validate_flow_terminal_result snapshot transition_opt terminal_result =
     and_then (case (terminal_outcome_for_status (sn_status snapshot), terminal_result) of
         (Some expected, Some terminal) \<Rightarrow>
           if expected \<noteq> ft_outcome terminal
           then Err (InvalidFlowCheckpoint ''terminal result outcome does not match snapshot status'')
           else if ft_encoded_result terminal = []
           then Err (InvalidFlowCheckpoint ''terminal result cannot be empty'')
           else fail_if (length (ft_encoded_result terminal) > MAX_FLOW_TERMINAL_RESULT_BYTES)
             (FlowTerminalResultTooLarge (length (ft_encoded_result terminal)) MAX_FLOW_TERMINAL_RESULT_BYTES)
       | (Some _, None) \<Rightarrow> Err (InvalidFlowCheckpoint ''terminal snapshot requires its encoded result'')
       | (None, Some _) \<Rightarrow> Err (InvalidFlowCheckpoint ''non-terminal snapshot cannot cache a terminal result'')
       | (None, None) \<Rightarrow> Ok ()) (\<lambda>_.
     (case transition_opt of
        None \<Rightarrow> Ok ()
      | Some transition \<Rightarrow>
          (case tr_kind transition of
             RunCompleted outcome \<Rightarrow>
               if (case terminal_result of None \<Rightarrow> False | Some terminal \<Rightarrow> outcome = ft_outcome terminal)
               then Ok ()
               else Err (InvalidFlowCheckpoint ''run completion and terminal result outcomes do not match'')
           | _ \<Rightarrow> Ok ())))"

definition decode_stored_terminal_result ::
  "RequestId \<Rightarrow> string option \<Rightarrow> string option \<Rightarrow> StoreError + FlowTerminalResult option" where
  "decode_stored_terminal_result request_id outcome result =
     (case (outcome, result) of
        (None, None) \<Rightarrow> Ok None
      | (Some outcome, Some encoded_result) \<Rightarrow>
          and_then (ok_or (parse_flow_outcome outcome) (CorruptFlowCheckpoint request_id)) (\<lambda>outcome.
          Ok (Some \<lparr>ft_outcome = outcome, ft_encoded_result = encoded_result\<rparr>))
      | _ \<Rightarrow> Err (CorruptFlowCheckpoint request_id))"

section \<open>Reading checkpoints\<close>

record StoredFlowCheckpoint =
  sc_definition_digest :: string
  sc_snapshot_bytes :: string
  sc_checkpoint_revision :: u64
  sc_updated_at_ms :: u64
  sc_terminal_result :: "FlowTerminalResult option"
  sc_terminal_cancellation_override :: bool

definition read_flow_checkpoint :: "RequestId \<Rightarrow> Db \<Rightarrow> StoreError + StoredFlowCheckpoint option" where
  "read_flow_checkpoint request_id db =
     (case row_where (\<lambda>f. fr_request_id f = request_id) (db_flow_runs db) of
        None \<Rightarrow> Ok None
      | Some f \<Rightarrow>
          and_then (unsigned_integer (fr_checkpoint_revision f)) (\<lambda>revision.
          and_then (unsigned_integer (fr_updated_at_ms f)) (\<lambda>updated_at_ms.
          and_then (decode_stored_terminal_result request_id (fr_terminal_outcome f) (fr_terminal_result f)) (\<lambda>terminal.
          Ok (Some \<lparr>sc_definition_digest = fr_definition_digest f, sc_snapshot_bytes = fr_snapshot f,
             sc_checkpoint_revision = revision, sc_updated_at_ms = updated_at_ms,
             sc_terminal_result = terminal,
             sc_terminal_cancellation_override = fr_terminal_cancellation_override f\<rparr>)))))"

definition validate_flow_request_identity :: "RequestId \<Rightarrow> FlowSnapshot \<Rightarrow> StoreError + unit" where
  "validate_flow_request_identity request_id snapshot =
     fail_if (sn_run_id snapshot \<noteq> request_id) (FlowCheckpointRequestMismatch request_id)"

definition decode_flow_checkpoint ::
  "Codec \<Rightarrow> RequestId \<Rightarrow> StoredFlowCheckpoint \<Rightarrow> StoreError + FlowCheckpoint" where
  "decode_flow_checkpoint codec request_id stored =
     map_err (\<lambda>_. CorruptFlowCheckpoint request_id) (
     if sc_snapshot_bytes stored = [] \<or> length (sc_snapshot_bytes stored) > MAX_FLOW_CHECKPOINT_BYTES
     then Err (CorruptFlowCheckpoint request_id)
     else
     and_then (ok_or (cd_decode_snapshot codec (sc_snapshot_bytes stored)) (CorruptFlowCheckpoint request_id)) (\<lambda>snapshot.
     and_then (validate_flow_request_identity request_id snapshot) (\<lambda>_.
     if sc_definition_digest stored \<noteq> sn_definition_digest snapshot
     then Err (CorruptFlowCheckpoint request_id)
     else
     and_then (validate_flow_terminal_result snapshot None (sc_terminal_result stored)) (\<lambda>_.
     if sc_terminal_cancellation_override stored
        \<and> (\<not> sn_cancel_requested snapshot
           \<or> map_option ft_outcome (sc_terminal_result stored) \<noteq> Some RunOutcome.Blocked)
     then Err (CorruptFlowCheckpoint request_id)
     else Ok \<lparr>fc_request_id = request_id, fc_snapshot = snapshot,
              fc_checkpoint_revision = sc_checkpoint_revision stored,
              fc_updated_at_ms = sc_updated_at_ms stored,
              fc_terminal_result = sc_terminal_result stored\<rparr>))))"

definition is_reconciliation_unknown :: "TransitionKind \<Rightarrow> bool" where
  "is_reconciliation_unknown kind = (case kind of ReconciliationUnknown _ _ \<Rightarrow> True | _ \<Rightarrow> False)"

definition decode_and_validate_flow_checkpoint ::
  "Codec \<Rightarrow> RequestId \<Rightarrow> StoredFlowCheckpoint \<Rightarrow> Db \<Rightarrow> StoreError + FlowCheckpoint" where
  "decode_and_validate_flow_checkpoint codec request_id stored db =
     and_then (decode_flow_checkpoint codec request_id stored) (\<lambda>checkpoint.
     if \<not> sc_terminal_cancellation_override stored then Ok checkpoint
     else
     and_then (ok_or (last_opt (sort_key ev_sequence (filter (\<lambda>e. ev_request_id e = request_id
         \<and> ev_kind e = ''flow_reconciliation_unknown'') (db_events db)))) (CorruptFlowCheckpoint request_id)) (\<lambda>event.
     and_then (ok_or (cd_decode_transition codec (ev_payload event)) (CorruptFlowCheckpoint request_id)) (\<lambda>transition.
     if tr_sequence transition \<noteq> sn_transition_sequence (fc_snapshot checkpoint)
        \<or> \<not> is_reconciliation_unknown (tr_kind transition)
     then Err (CorruptFlowCheckpoint request_id)
     else Ok checkpoint)))"

definition load_flow_checkpoint :: "Codec \<Rightarrow> Lease \<Rightarrow> u64 \<Rightarrow> Db \<Rightarrow> StoreError + FlowCheckpoint option" where
  "load_flow_checkpoint codec lease now_ms db =
     and_then (sql_integer now_ms) (\<lambda>now.
     and_then (ensure_live_flow_lease lease now db) (\<lambda>_.
     and_then (read_flow_checkpoint (le_request_id lease) db) (\<lambda>stored.
     (case stored of
        None \<Rightarrow> Ok None
      | Some s \<Rightarrow> and_then (decode_and_validate_flow_checkpoint codec (le_request_id lease) s db) (\<lambda>c. Ok (Some c))))))"

section \<open>Writing checkpoints\<close>

fun flow_event_kind :: "TransitionKind \<Rightarrow> string" where
  "flow_event_kind (StepSkipped _) = ''flow_step_skipped''"
| "flow_event_kind (TransitionKind.ApprovalRequested _) = ''flow_approval_required''"
| "flow_event_kind (ApprovalGranted _) = ''flow_approval_granted''"
| "flow_event_kind (TransitionKind.ApprovalDenied _) = ''flow_approval_denied''"
| "flow_event_kind (EffectEvaluationRequired _ _) = ''flow_effect_evaluation_required''"
| "flow_event_kind (EffectStarted _ _ _) = ''flow_effect_started''"
| "flow_event_kind (EffectAuthorizationDenied _ _ _) = ''flow_effect_authorization_denied''"
| "flow_event_kind (EffectSucceeded _ _) = ''flow_effect_succeeded''"
| "flow_event_kind (RetryScheduled _ _ _) = ''flow_retry_scheduled''"
| "flow_event_kind (RetryExhausted _ _) = ''flow_retry_exhausted''"
| "flow_event_kind (EffectFailed _ _) = ''flow_effect_failed''"
| "flow_event_kind (ReconciledNotApplied _ _) = ''flow_reconciled_not_applied''"
| "flow_event_kind (ReconciliationUnknown _ _) = ''flow_reconciliation_unknown''"
| "flow_event_kind TransitionKind.CancellationRequested = ''flow_cancellation_requested''"
| "flow_event_kind (RunCompleted _) = ''flow_completed''"

definition validate_flow_successor ::
  "(string \<Rightarrow> string) \<Rightarrow> FlowSnapshot option \<Rightarrow> FlowSnapshot \<Rightarrow> RunTransition option \<Rightarrow> StoreError + unit" where
  "validate_flow_successor sha256 previous snapshot transition_opt =
     map_err (\<lambda>_. InvalidFlowCheckpoint ''snapshot and transition do not form a valid semantic successor'')
       (validate_snapshot_successor sha256 previous snapshot transition_opt)"

definition validate_transition_alignment :: "FlowSnapshot \<Rightarrow> RunTransition option \<Rightarrow> StoreError + unit" where
  "validate_transition_alignment snapshot transition_opt =
     (case transition_opt of
        Some transition \<Rightarrow>
          fail_if (tr_sequence transition \<noteq> sn_transition_sequence snapshot)
            (InvalidFlowCheckpoint ''transition sequence does not match snapshot'')
      | None \<Rightarrow>
          fail_if (sn_transition_sequence snapshot \<noteq> 0)
            (InvalidFlowCheckpoint ''non-initial snapshot requires its transition''))"

definition validate_stored_digest ::
  "RequestId \<Rightarrow> StoredFlowCheckpoint \<Rightarrow> FlowSnapshot \<Rightarrow> StoreError + unit" where
  "validate_stored_digest request_id stored snapshot =
     fail_if (sc_definition_digest stored \<noteq> sn_definition_digest snapshot)
       (FlowDefinitionDigestMismatch request_id)"

definition terminal_cancellation_override :: "SaveFlowCheckpoint \<Rightarrow> RequestState \<Rightarrow> StoreError + bool" where
  "terminal_cancellation_override save request_state =
     (case sv_terminal_result save of
        None \<Rightarrow> Ok False
      | Some terminal \<Rightarrow>
          if request_state = Leased
             \<and> ft_outcome terminal \<in> set [Solved, RunOutcome.Unresolved, RunOutcome.Blocked]
             \<or> request_state = RequestState.CancellationRequested \<and> ft_outcome terminal = RunOutcome.Cancelled
          then Ok False
          else if request_state = RequestState.CancellationRequested \<and> ft_outcome terminal = RunOutcome.Blocked
             \<and> sn_cancel_requested (sv_snapshot save)
             \<and> (case sv_transition save of None \<Rightarrow> False | Some t \<Rightarrow> is_reconciliation_unknown (tr_kind t))
          then Ok True
          else Err (FlowTerminalOutcomeConflict (le_request_id (sv_lease save))))"

definition insert_flow_checkpoint :: "SaveFlowCheckpoint \<Rightarrow> string \<Rightarrow> bool \<Rightarrow> Db \<Rightarrow> StoreError + Db" where
  "insert_flow_checkpoint save snapshot_bytes override db =
     and_then (sql_integer (sv_updated_at_ms save)) (\<lambda>updated_at.
     execute (\<lambda>db. db\<lparr>db_flow_runs := db_flow_runs db
       @ [\<lparr>fr_request_id = le_request_id (sv_lease save),
           fr_definition_digest = sn_definition_digest (sv_snapshot save),
           fr_snapshot = snapshot_bytes, fr_checkpoint_revision = 1, fr_updated_at_ms = updated_at,
           fr_terminal_outcome = map_option (flow_outcome_name \<circ> ft_outcome) (sv_terminal_result save),
           fr_terminal_result = map_option ft_encoded_result (sv_terminal_result save),
           fr_terminal_cancellation_override = override\<rparr>]\<rparr>) db)"

definition update_flow_checkpoint ::
  "SaveFlowCheckpoint \<Rightarrow> string \<Rightarrow> u64 \<Rightarrow> bool \<Rightarrow> Db \<Rightarrow> StoreError + Db" where
  "update_flow_checkpoint save snapshot_bytes revision override db =
     and_then (sql_integer revision) (\<lambda>revision.
     and_then (sql_integer (sv_updated_at_ms save)) (\<lambda>updated_at.
     and_then (sql_integer (sv_expected_revision save)) (\<lambda>expected_revision.
     let p = (\<lambda>f. fr_request_id f = le_request_id (sv_lease save)
                \<and> fr_definition_digest f = sn_definition_digest (sv_snapshot save)
                \<and> fr_checkpoint_revision f = expected_revision) in
     and_then (execute (\<lambda>db. db\<lparr>db_flow_runs := update_where p (\<lambda>f.
         f\<lparr>fr_snapshot := snapshot_bytes, fr_checkpoint_revision := revision,
           fr_updated_at_ms := updated_at,
           fr_terminal_outcome := map_option (flow_outcome_name \<circ> ft_outcome) (sv_terminal_result save),
           fr_terminal_result := map_option ft_encoded_result (sv_terminal_result save),
           fr_terminal_cancellation_override := override\<rparr>) (db_flow_runs db)\<rparr>) db) (\<lambda>db'.
     if matching p (db_flow_runs db) = 1 then Ok db'
     else Err (FlowCheckpointConflict (le_request_id (sv_lease save)))))))"

definition append_flow_transition ::
  "RequestId \<Rightarrow> int \<Rightarrow> RunTransition option \<Rightarrow> string option \<Rightarrow> Db \<Rightarrow> StoreError + EventRecord option \<times> Db" where
  "append_flow_transition request_id now transition_opt transition_bytes db =
     (case transition_opt of
        None \<Rightarrow> Ok (None, db)
      | Some transition \<Rightarrow>
          and_then (ok_or transition_bytes (InvalidFlowCheckpoint ''transition bytes are missing'')) (\<lambda>payload.
          let kind = flow_event_kind (tr_kind transition) in
          and_then (append_event_tx request_id now kind payload db) (\<lambda>(sequence, db).
          and_then (unsigned_integer now) (\<lambda>recorded_at_ms.
          Ok (Some \<lparr>er_sequence = sequence, er_kind = kind, er_payload = payload,
                    er_recorded_at_ms = recorded_at_ms\<rparr>, db)))))"

definition validate_exact_flow_replay ::
  "RequestId \<Rightarrow> RunTransition option \<Rightarrow> string option \<Rightarrow> Db \<Rightarrow> StoreError + unit" where
  "validate_exact_flow_replay request_id transition_opt transition_bytes db =
     (case transition_opt of
        None \<Rightarrow> Ok ()
      | Some transition \<Rightarrow>
          and_then (ok_or transition_bytes (InvalidFlowCheckpoint ''transition bytes are missing'')) (\<lambda>payload.
          fail_if (\<not> list_ex (\<lambda>e. ev_request_id e = request_id
              \<and> ev_kind e = flow_event_kind (tr_kind transition) \<and> ev_payload e = payload) (db_events db))
            (FlowCheckpointConflict request_id)))"

type_synonym FlowPersistenceOutcome = "u64 \<times> u64 \<times> FlowCheckpointDisposition \<times> EventRecord option"

text \<open>The two arms of \<^verbatim>\<open>persist_flow_checkpoint\<close> for a stored checkpoint: the same bytes again, or new ones.\<close>

definition repeat_flow_checkpoint ::
  "(string \<Rightarrow> string) \<Rightarrow> SaveFlowCheckpoint \<Rightarrow> string option \<Rightarrow> StoredFlowCheckpoint \<Rightarrow> FlowCheckpoint
     \<Rightarrow> bool \<Rightarrow> Db \<Rightarrow> StoreError + FlowPersistenceOutcome \<times> Db" where
  "repeat_flow_checkpoint sha256 save transition_bytes stored previous override db =
     (let request_id = le_request_id (sv_lease save) in
      if sc_terminal_result stored \<noteq> sv_terminal_result save
         \<or> sc_terminal_cancellation_override stored \<noteq> override
      then Err (FlowCheckpointConflict request_id)
      else if sv_expected_revision save \<noteq> sc_checkpoint_revision stored
         \<and> checked_add (sv_expected_revision save) 1 \<noteq> Some (sc_checkpoint_revision stored)
      then Err (FlowCheckpointRevisionConflict request_id (sv_expected_revision save) (sc_checkpoint_revision stored))
      else
      and_then (validate_flow_successor sha256 (Some (fc_snapshot previous)) (sv_snapshot save) None) (\<lambda>_.
      and_then (if sv_transition save \<noteq> None
         then validate_transition_alignment (sv_snapshot save) (sv_transition save) else Ok ()) (\<lambda>_.
      and_then (validate_exact_flow_replay request_id (sv_transition save) transition_bytes db) (\<lambda>_.
      Ok ((sc_checkpoint_revision stored, sc_updated_at_ms stored, Unchanged, None), db)))))"

definition advance_flow_checkpoint ::
  "(string \<Rightarrow> string) \<Rightarrow> SaveFlowCheckpoint \<Rightarrow> string \<Rightarrow> string option \<Rightarrow> int \<Rightarrow> StoredFlowCheckpoint \<Rightarrow> FlowCheckpoint
     \<Rightarrow> bool \<Rightarrow> Db \<Rightarrow> StoreError + FlowPersistenceOutcome \<times> Db" where
  "advance_flow_checkpoint sha256 save snapshot_bytes transition_bytes now stored previous override db =
     (let request_id = le_request_id (sv_lease save) in
      if sv_expected_revision save \<noteq> sc_checkpoint_revision stored
      then Err (FlowCheckpointRevisionConflict request_id (sv_expected_revision save) (sc_checkpoint_revision stored))
      else
      and_then (if sv_transition save = None \<and> sn_snapshot_version (fc_snapshot previous) = 1
           \<and> sn_snapshot_version (sv_snapshot save) = FLOW_SNAPSHOT_VERSION
         then if sc_terminal_result stored \<noteq> sv_terminal_result save
                \<or> sc_terminal_cancellation_override stored \<noteq> override
              then Err (FlowCheckpointConflict request_id)
              else map_err (\<lambda>_. InvalidFlowCheckpoint ''legacy snapshot upgrade changed durable flow state'')
                (validate_snapshot_upgrade sha256 (fc_snapshot previous) (sv_snapshot save))
         else validate_flow_successor sha256 (Some (fc_snapshot previous)) (sv_snapshot save)
                (sv_transition save)) (\<lambda>_.
      and_then (ok_or (checked_add (sv_expected_revision save) 1) FlowCheckpointRevisionOverflow) (\<lambda>revision.
      and_then (update_flow_checkpoint save snapshot_bytes revision override db) (\<lambda>db.
      and_then (append_flow_transition request_id now (sv_transition save) transition_bytes db) (\<lambda>(event, db).
      Ok ((revision, sv_updated_at_ms save, Updated, event), db))))))"

definition persist_flow_checkpoint ::
  "Codec \<Rightarrow> (string \<Rightarrow> string) \<Rightarrow> SaveFlowCheckpoint \<Rightarrow> string \<Rightarrow> string option \<Rightarrow> int
     \<Rightarrow> StoredFlowCheckpoint option \<Rightarrow> bool \<Rightarrow> Db \<Rightarrow> StoreError + FlowPersistenceOutcome \<times> Db" where
  "persist_flow_checkpoint codec sha256 save snapshot_bytes transition_bytes now existing override db =
     (let request_id = le_request_id (sv_lease save) in
      case existing of
        None \<Rightarrow>
          if sv_expected_revision save \<noteq> 0
          then Err (FlowCheckpointRevisionConflict request_id (sv_expected_revision save) 0)
          else
          and_then (validate_flow_successor sha256 None (sv_snapshot save) (sv_transition save)) (\<lambda>_.
          and_then (insert_flow_checkpoint save snapshot_bytes override db) (\<lambda>db.
          and_then (append_flow_transition request_id now (sv_transition save) transition_bytes db) (\<lambda>(event, db).
          Ok ((1, sv_updated_at_ms save, FlowCheckpointDisposition.Created, event), db))))
      | Some stored \<Rightarrow>
          and_then (validate_stored_digest request_id stored (sv_snapshot save)) (\<lambda>_.
          and_then (decode_and_validate_flow_checkpoint codec request_id stored db) (\<lambda>previous.
          if sc_snapshot_bytes stored = snapshot_bytes
          then repeat_flow_checkpoint sha256 save transition_bytes stored previous override db
          else advance_flow_checkpoint sha256 save snapshot_bytes transition_bytes now stored previous override db)))"

definition save_flow_checkpoint_tx ::
  "Codec \<Rightarrow> (string \<Rightarrow> string) \<Rightarrow> SaveFlowCheckpoint \<Rightarrow> Db \<Rightarrow> StoreError + FlowCheckpointSaveOutcome \<times> Db" where
  "save_flow_checkpoint_tx codec sha256 save db =
     (let request_id = le_request_id (sv_lease save) in
      and_then (validate_flow_request_identity request_id (sv_snapshot save)) (\<lambda>_.
      and_then (validate_flow_terminal_result (sv_snapshot save) (sv_transition save) (sv_terminal_result save)) (\<lambda>_.
      and_then (encode_snapshot codec (sv_snapshot save)) (\<lambda>snapshot_bytes.
      and_then (case sv_transition save of
          None \<Rightarrow> Ok None
        | Some t \<Rightarrow> and_then (encode_transition codec t) (\<lambda>bytes. Ok (Some bytes))) (\<lambda>encoded_transition.
      and_then (sql_integer (sv_updated_at_ms save)) (\<lambda>now.
      and_then (ensure_live_flow_lease (sv_lease save) now db) (\<lambda>request_state.
      if request_state = RequestState.CancellationRequested
         \<and> (case sv_transition save of None \<Rightarrow> False
            | Some t \<Rightarrow> (case tr_kind t of EffectStarted _ _ _ \<Rightarrow> True | _ \<Rightarrow> False))
      then Err (FlowEffectStartConflict request_id)
      else
      and_then (terminal_cancellation_override save request_state) (\<lambda>override.
      and_then (read_flow_checkpoint request_id db) (\<lambda>existing.
      and_then (persist_flow_checkpoint codec sha256 save snapshot_bytes encoded_transition now existing override db)
        (\<lambda>((revision, updated_at_ms, disposition, event), db).
      Ok (\<lparr>so_checkpoint = \<lparr>fc_request_id = request_id, fc_snapshot = sv_snapshot save,
             fc_checkpoint_revision = revision, fc_updated_at_ms = updated_at_ms,
             fc_terminal_result = sv_terminal_result save\<rparr>,
           so_disposition = disposition, so_event = event\<rparr>, db)))))))))))"

definition save_flow_checkpoint ::
  "Codec \<Rightarrow> (string \<Rightarrow> string) \<Rightarrow> SaveFlowCheckpoint \<Rightarrow> Db \<Rightarrow> FlowCheckpointSaveOutcome store_result" where
  "save_flow_checkpoint codec sha256 save = transaction (save_flow_checkpoint_tx codec sha256 save)"

section \<open>Cached terminal results\<close>

record ValidatedTerminalFlowResult =
  vt_terminal :: FlowTerminalResult
  vt_cancellation_override :: bool

definition validated_terminal_flow_result ::
  "Codec \<Rightarrow> RequestId \<Rightarrow> string \<Rightarrow> Db \<Rightarrow> StoreError + ValidatedTerminalFlowResult option" where
  "validated_terminal_flow_result codec request_id operation_kind db =
     (if operation_kind \<noteq> FLOW_OPERATION_KIND then Ok None
      else
      and_then (read_flow_checkpoint request_id db) (\<lambda>existing.
      (case existing of
         None \<Rightarrow> Ok None
       | Some stored \<Rightarrow>
           and_then (decode_and_validate_flow_checkpoint codec request_id stored db) (\<lambda>_.
           Ok (map_option (\<lambda>terminal. \<lparr>vt_terminal = terminal,
             vt_cancellation_override = sc_terminal_cancellation_override stored\<rparr>) (sc_terminal_result stored))))))"

definition terminal_may_override_cancellation :: "ValidatedTerminalFlowResult \<Rightarrow> bool" where
  "terminal_may_override_cancellation terminal \<longleftrightarrow>
     ft_outcome (vt_terminal terminal) = RunOutcome.Cancelled
     \<or> ft_outcome (vt_terminal terminal) = RunOutcome.Blocked \<and> vt_cancellation_override terminal"

fun terminal_request_resolution :: "RunOutcome \<Rightarrow> RequestState \<times> string \<times> CancelOutcome" where
  "terminal_request_resolution Solved =
     (RequestState.Succeeded, ''completed'', AlreadyTerminal RequestState.Succeeded)"
| "terminal_request_resolution RunOutcome.Cancelled =
     (RequestState.Cancelled, ''cancelled'', CancelOutcome.Cancelled)"
| "terminal_request_resolution _ =
     (RequestState.Failed, ''failed'', AlreadyTerminal RequestState.Failed)"

end
