(* ===== verification/Store_Requests.thy ===== *)
theory Store_Requests
  imports Store_Checkpoints
begin

text \<open>
  The life of a request in \<^verbatim>\<open>crates/pam_store/src/store.rs\<close>: accepting it once per idempotency key,
  claiming it in the order of its project, keeping and recovering its lease, finishing, cancelling,
  replaying its events.  The token \<^verbatim>\<open>Uuid::new_v4\<close> draws for a lease is an argument of \<open>claim\<close>.
\<close>

definition update_requests :: "(RequestRow \<Rightarrow> bool) \<Rightarrow> (RequestRow \<Rightarrow> RequestRow) \<Rightarrow> Db \<Rightarrow> Db" where
  "update_requests p f db = db\<lparr>db_requests := update_where p f (db_requests db)\<rparr>"

definition request_row :: "RequestId \<Rightarrow> Db \<Rightarrow> RequestRow option" where
  "request_row request_id db = row_where (\<lambda>r. rq_request_id r = request_id) (db_requests db)"

text \<open>The columns a statement sets when a request ends.\<close>

definition end_request :: "RequestState \<Rightarrow> int \<Rightarrow> string option \<Rightarrow> RequestRow \<Rightarrow> RequestRow" where
  "end_request state now result r =
     r\<lparr>rq_state := state, rq_lease_owner := None, rq_lease_token := None,
       rq_lease_expires_at_ms := None, rq_completed_at_ms := Some now,
       rq_result := (case result of None \<Rightarrow> rq_result r | Some payload \<Rightarrow> Some payload)\<rparr>"

section \<open>Accepting\<close>

definition existing_acceptance_tx :: "AcceptRequest \<Rightarrow> Db \<Rightarrow> StoreError + AcceptOutcome option" where
  "existing_acceptance_tx request db =
     (case row_where (\<lambda>r. rq_caller_id r = ac_caller_id request \<and> rq_project_id r = ac_project_id request
             \<and> rq_idempotency_key r = ac_idempotency_key request) (db_requests db) of
        None \<Rightarrow> Ok None
      | Some r \<Rightarrow>
          if rq_operation_kind r = ac_operation_kind request \<and> rq_operation r = ac_operation request
          then Ok (Some (Existing (rq_request_id r) (rq_state r)))
          else Err (IdempotencyConflict (rq_request_id r)))"

definition insert_request :: "AcceptRequest \<Rightarrow> int \<Rightarrow> int \<Rightarrow> Db \<Rightarrow> Db" where
  "insert_request request queue_sequence now db =
     db\<lparr>db_requests := db_requests db
       @ [\<lparr>rq_request_id = ac_request_id request, rq_caller_id = ac_caller_id request,
           rq_project_id = ac_project_id request, rq_idempotency_key = ac_idempotency_key request,
           rq_operation_kind = ac_operation_kind request, rq_operation = ac_operation request,
           rq_queue_sequence = queue_sequence, rq_state = Queued, rq_accepted_at_ms = now,
           rq_attempt = 0, rq_lease_owner = None, rq_lease_token = None,
           rq_lease_expires_at_ms = None, rq_completed_at_ms = None, rq_result = None\<rparr>]\<rparr>"

definition bump_queue_sequence :: "ProjectId \<Rightarrow> Db \<Rightarrow> Db" where
  "bump_queue_sequence project db = db\<lparr>db_projects := update_where (\<lambda>p. pr_project_id p = project)
     (\<lambda>p. p\<lparr>pr_next_queue_sequence := pr_next_queue_sequence p + 1\<rparr>) (db_projects db)\<rparr>"

definition accept_tx :: "AcceptRequest \<Rightarrow> int \<Rightarrow> Db \<Rightarrow> StoreError + AcceptOutcome \<times> Db" where
  "accept_tx request now db =
     and_then (existing_acceptance_tx request db) (\<lambda>existing.
     (case existing of
        Some outcome \<Rightarrow> Ok (outcome, db)
      | None \<Rightarrow>
     if request_row (ac_request_id request) db \<noteq> None then Err (RequestIdConflict (ac_request_id request))
     else
     and_then (execute (ensure_project (ac_project_id request)) db) (\<lambda>db.
     and_then (execute (bump_queue_sequence (ac_project_id request)) db) (\<lambda>db.
     and_then (ok_or (row_where (\<lambda>p. pr_project_id p = ac_project_id request) (db_projects db)) Sqlite) (\<lambda>project.
     let queue_sequence = pr_next_queue_sequence project - 1 in
     and_then (execute (insert_request request queue_sequence now) db) (\<lambda>db.
     and_then (append_event_tx (ac_request_id request) now ''accepted'' [] db) (\<lambda>(_, db).
     and_then (unsigned_integer queue_sequence) (\<lambda>sequence.
     Ok (AcceptOutcome.Created (ac_request_id request) sequence, db)))))))))"

definition accept :: "AcceptRequest \<Rightarrow> u64 \<Rightarrow> Db \<Rightarrow> AcceptOutcome store_result" where
  "accept request now_ms = transaction (\<lambda>db.
     if ac_operation_kind request = FLOW_OPERATION_KIND
     then Err (InvalidState ''flow requests require atomic authorization and acceptance'')
     else and_then (sql_integer now_ms) (\<lambda>now. accept_tx request now db))"

section \<open>Claiming\<close>

definition claimable :: "Db \<Rightarrow> RequestRow \<Rightarrow> bool" where
  "claimable db queued \<longleftrightarrow> rq_state queued = Queued
     \<and> \<not> list_ex (\<lambda>earlier. rq_project_id earlier = rq_project_id queued
           \<and> (rq_state earlier = Queued \<or> is_active_state (rq_state earlier))
           \<and> rq_queue_sequence earlier < rq_queue_sequence queued) (db_requests db)
     \<and> \<not> list_ex (\<lambda>active. rq_project_id active = rq_project_id queued
           \<and> is_active_state (rq_state active)) (db_requests db)"

definition claim_candidate :: "Db \<Rightarrow> RequestRow option" where
  "claim_candidate db = first_by rq_accepted_at_ms (claimable db) (db_requests db)"

definition grant_lease :: "string \<Rightarrow> string \<Rightarrow> int \<Rightarrow> int \<Rightarrow> RequestRow \<Rightarrow> RequestRow" where
  "grant_lease owner token attempt expires_at r =
     r\<lparr>rq_state := Leased, rq_attempt := attempt, rq_lease_owner := Some owner,
       rq_lease_token := Some token, rq_lease_expires_at_ms := Some expires_at\<rparr>"

definition claim_tx ::
  "(string \<Rightarrow> string) \<Rightarrow> string \<Rightarrow> string \<Rightarrow> u64 \<Rightarrow> u64 \<Rightarrow> Db \<Rightarrow> StoreError + LeasedRequest option \<times> Db" where
  "claim_tx sha256 token owner now_ms lease_duration_ms db =
     and_then (sql_integer now_ms) (\<lambda>now.
     and_then (lease_expiry now_ms lease_duration_ms) (\<lambda>expires_at_ms.
     and_then (sql_integer expires_at_ms) (\<lambda>expires_at.
     (case claim_candidate db of
        None \<Rightarrow> Ok (None, db)
      | Some candidate \<Rightarrow>
     and_then (if rq_operation_kind candidate = FLOW_OPERATION_KIND
        then and_then (validate_flow_authorization_integrity sha256 (rq_request_id candidate) db) (\<lambda>_. Ok ())
        else Ok ()) (\<lambda>_.
     let attempt = rq_attempt candidate + 1;
         p = (\<lambda>r. rq_request_id r = rq_request_id candidate \<and> rq_state r = Queued) in
     if \<not> is_i64 attempt then Err (InvalidState ''attempt overflow'')
     else
     and_then (execute (update_requests p (grant_lease owner token attempt expires_at)) db) (\<lambda>db'.
     if matching p (db_requests db) \<noteq> 1 then Err (InvalidState ''claim candidate changed state'')
     else
     and_then (append_event_tx (rq_request_id candidate) now ''started'' [] db') (\<lambda>(_, db').
     and_then (unsigned_integer attempt) (\<lambda>attempt.
     and_then (unsigned_integer (rq_queue_sequence candidate)) (\<lambda>queue_sequence.
     Ok (Some \<lparr>lr_lease = \<lparr>le_request_id = rq_request_id candidate, le_project_id = rq_project_id candidate,
               le_owner = owner, le_token = token, le_attempt = attempt, le_expires_at_ms = expires_at_ms\<rparr>,
             lr_queue_sequence = queue_sequence, lr_operation_kind = rq_operation_kind candidate,
             lr_operation = rq_operation candidate\<rparr>, db'))))))))))"

definition claim ::
  "(string \<Rightarrow> string) \<Rightarrow> string \<Rightarrow> string \<Rightarrow> u64 \<Rightarrow> u64 \<Rightarrow> Db \<Rightarrow> LeasedRequest option store_result" where
  "claim sha256 token owner now_ms lease_duration_ms =
     transaction (claim_tx sha256 token owner now_ms lease_duration_ms)"

definition renew :: "Lease \<Rightarrow> u64 \<Rightarrow> u64 \<Rightarrow> Db \<Rightarrow> Lease store_result" where
  "renew lease now_ms lease_duration_ms = transaction (\<lambda>db.
     and_then (sql_integer now_ms) (\<lambda>now.
     and_then (lease_expiry now_ms lease_duration_ms) (\<lambda>expires_at_ms.
     and_then (sql_integer expires_at_ms) (\<lambda>expires_at.
     and_then (execute (update_requests (holds_lease lease now)
         (\<lambda>r. r\<lparr>rq_lease_expires_at_ms := Some expires_at\<rparr>)) db) (\<lambda>db'.
     if matching (holds_lease lease now) (db_requests db) \<noteq> 1 then Err (StaleLease (le_request_id lease))
     else Ok (lease\<lparr>le_expires_at_ms := expires_at_ms\<rparr>, db'))))))"

section \<open>Recovering leases\<close>

datatype LeaseRecovery = Expired | All

definition due_lease :: "LeaseRecovery \<Rightarrow> int \<Rightarrow> RequestRow \<Rightarrow> bool" where
  "due_lease recovery now r \<longleftrightarrow>
     (case recovery of
        All \<Rightarrow> True
      | LeaseRecovery.Expired \<Rightarrow>
          (case rq_lease_expires_at_ms r of None \<Rightarrow> False | Some expires \<Rightarrow> expires \<le> now))"

definition active_leases :: "int \<Rightarrow> LeaseRecovery \<Rightarrow> Db \<Rightarrow> RequestRow list" where
  "active_leases now recovery db = sort_key rq_accepted_at_ms
     (filter (\<lambda>r. is_active_state (rq_state r) \<and> due_lease recovery now r) (db_requests db))"

definition release_lease :: "RequestRow \<Rightarrow> RequestRow" where
  "release_lease r = r\<lparr>rq_state := Queued, rq_lease_owner := None, rq_lease_token := None,
     rq_lease_expires_at_ms := None\<rparr>"

text \<open>
  One turn of the loop of \<^verbatim>\<open>recover_leases\<close>: a leased request goes back to the queue, or ends with the
  terminal result its checkpoint caches; one whose cancellation was requested ends cancelled, or with
  the cached result where that may override the cancellation.
\<close>

definition recovery_update ::
  "RequestRow \<Rightarrow> ValidatedTerminalFlowResult option \<Rightarrow> int \<Rightarrow> (RequestRow \<Rightarrow> RequestRow) \<times> string" where
  "recovery_update active terminal now =
     (case terminal of
        Some t \<Rightarrow>
          (let (state, event_kind, _) = terminal_request_resolution (ft_outcome (vt_terminal t))
           in (end_request state now (Some (ft_encoded_result (vt_terminal t))), event_kind))
      | None \<Rightarrow>
          if rq_state active = Leased then (release_lease, ''lease_expired'')
          else (end_request RequestState.Cancelled now None, ''cancelled''))"

definition recover_one :: "Codec \<Rightarrow> int \<Rightarrow> LeaseRecovery \<Rightarrow> RequestRow \<Rightarrow> Db \<Rightarrow> StoreError + bool \<times> Db" where
  "recover_one codec now recovery active db =
     and_then (validated_terminal_flow_result codec (rq_request_id active) (rq_operation_kind active) db) (\<lambda>cached.
     let terminal = (if rq_state active = Leased then cached
           else (case cached of None \<Rightarrow> None
                 | Some t \<Rightarrow> if terminal_may_override_cancellation t then Some t else None));
         (f, event_kind) = recovery_update active terminal now;
         p = (\<lambda>r. rq_request_id r = rq_request_id active \<and> rq_state r = rq_state active
                \<and> due_lease recovery now r) in
     and_then (execute (update_requests p f) db) (\<lambda>db'.
     if matching p (db_requests db) = 1
     then and_then (append_event_tx (rq_request_id active) now event_kind [] db') (\<lambda>(_, db'). Ok (True, db'))
     else Ok (False, db')))"

fun recover_loop :: "Codec \<Rightarrow> int \<Rightarrow> LeaseRecovery \<Rightarrow> RequestRow list \<Rightarrow> Db \<Rightarrow> StoreError + RequestId list \<times> Db" where
  "recover_loop codec now recovery [] db = Ok ([], db)"
| "recover_loop codec now recovery (active # rest) db =
     (case recover_one codec now recovery active db of
        Inl e \<Rightarrow> Inl e
      | Inr (changed, db') \<Rightarrow>
          (case recover_loop codec now recovery rest db' of
             Inl e \<Rightarrow> Inl e
           | Inr (recovered, db'') \<Rightarrow>
               Inr (if changed then rq_request_id active # recovered else recovered, db'')))"

definition recover_leases :: "Codec \<Rightarrow> u64 \<Rightarrow> LeaseRecovery \<Rightarrow> Db \<Rightarrow> RequestId list store_result" where
  "recover_leases codec now_ms recovery = transaction (\<lambda>db.
     and_then (sql_integer now_ms) (\<lambda>now.
     recover_loop codec now recovery (active_leases now recovery db) db))"

definition recover_expired_requests :: "Codec \<Rightarrow> u64 \<Rightarrow> Db \<Rightarrow> RequestId list store_result" where
  "recover_expired_requests codec now_ms = recover_leases codec now_ms LeaseRecovery.Expired"

definition recover_all_leases :: "Codec \<Rightarrow> u64 \<Rightarrow> Db \<Rightarrow> nat store_result" where
  "recover_all_leases codec now_ms db =
     (case recover_leases codec now_ms All db of (r, db') \<Rightarrow>
        (and_then r (\<lambda>recovered. Ok (length recovered)), db'))"

section \<open>Finishing\<close>

definition finish_tx :: "Lease \<Rightarrow> u64 \<Rightarrow> TerminalState \<Rightarrow> string \<Rightarrow> Db \<Rightarrow> StoreError + StoredResult \<times> Db" where
  "finish_tx lease now_ms terminal_state result db =
     and_then (sql_integer now_ms) (\<lambda>now.
     and_then (ok_or (row_where (holds_lease lease now) (db_requests db)) (StaleLease (le_request_id lease))) (\<lambda>live.
     and_then (case (rq_state live, rq_result live) of
         (Leased, None) \<Rightarrow>
           if terminal_state = TerminalState.Cancelled
           then Err (InvalidState ''a leased request cannot finish cancelled without a durable cancellation request'')
           else Ok (TerminalState_request_state terminal_state, result, Some result,
                    TerminalState_event_kind terminal_state)
       | (RequestState.CancellationRequested, Some cancellation_result) \<Rightarrow>
           Ok (RequestState.Cancelled, cancellation_result, None, ''cancelled'')
       | _ \<Rightarrow> Err (InvalidState ''active request result shape'')) (\<lambda>(state, payload, written, event_kind).
     let p = (\<lambda>r. holds_lease lease now r \<and> rq_state r = rq_state live) in
     and_then (execute (update_requests p (end_request state now written)) db) (\<lambda>db'.
     if matching p (db_requests db) \<noteq> 1 then Err (StaleLease (le_request_id lease))
     else
     and_then (append_event_tx (le_request_id lease) now event_kind [] db') (\<lambda>(_, db').
     Ok (\<lparr>sr_state = state, sr_payload = payload, sr_completed_at_ms = now_ms\<rparr>, db'))))))"

definition finish :: "Lease \<Rightarrow> u64 \<Rightarrow> TerminalState \<Rightarrow> string \<Rightarrow> Db \<Rightarrow> StoredResult store_result" where
  "finish lease now_ms terminal_state result = transaction (finish_tx lease now_ms terminal_state result)"

definition finish_terminal_flow_tx ::
  "Codec \<Rightarrow> Lease \<Rightarrow> u64 \<Rightarrow> string \<Rightarrow> Db \<Rightarrow> StoreError + StoredResult \<times> Db" where
  "finish_terminal_flow_tx codec lease now_ms terminal_result db =
     and_then (sql_integer now_ms) (\<lambda>now.
     and_then (ok_or (row_where (holds_lease lease now) (db_requests db)) (StaleLease (le_request_id lease))) (\<lambda>live.
     if rq_operation_kind live \<noteq> FLOW_OPERATION_KIND
     then Err (InvalidState ''terminal flow completion requires a flow request'')
     else
     and_then (validated_terminal_flow_result codec (le_request_id lease) (rq_operation_kind live) db) (\<lambda>cached_opt.
     and_then (ok_or cached_opt (InvalidState ''flow has no terminal checkpoint'')) (\<lambda>cached.
     if \<not> (rq_state live = Leased
            \<or> rq_state live = RequestState.CancellationRequested \<and> terminal_may_override_cancellation cached)
        \<or> (rq_state live = RequestState.CancellationRequested \<and> rq_result live = None)
        \<or> ft_encoded_result (vt_terminal cached) \<noteq> terminal_result
     then Err (InvalidState ''flow completion does not match its terminal checkpoint or request state'')
     else
     let (state, event_kind, _) = terminal_request_resolution (ft_outcome (vt_terminal cached));
         p = (\<lambda>r. holds_lease lease now r \<and> rq_state r = rq_state live) in
     and_then (execute (update_requests p (end_request state now (Some terminal_result))) db) (\<lambda>db'.
     if matching p (db_requests db) \<noteq> 1 then Err (StaleLease (le_request_id lease))
     else
     and_then (append_event_tx (le_request_id lease) now event_kind [] db') (\<lambda>(_, db').
     Ok (\<lparr>sr_state = state, sr_payload = terminal_result, sr_completed_at_ms = now_ms\<rparr>, db')))))))"

definition finish_terminal_flow :: "Codec \<Rightarrow> Lease \<Rightarrow> u64 \<Rightarrow> string \<Rightarrow> Db \<Rightarrow> StoredResult store_result" where
  "finish_terminal_flow codec lease now_ms terminal_result =
     transaction (finish_terminal_flow_tx codec lease now_ms terminal_result)"

datatype FlowAuthorizationRecoveryOutcome =
    Failed StoredResult | AlreadyTerminal StoredResult | NoLongerEligible

definition fail_corrupt_flow_authorization ::
  "(string \<Rightarrow> string) \<Rightarrow> RequestId \<Rightarrow> u64 \<Rightarrow> string \<Rightarrow> Db \<Rightarrow> FlowAuthorizationRecoveryOutcome store_result" where
  "fail_corrupt_flow_authorization sha256 request_id now_ms result = transaction (\<lambda>db.
     and_then (sql_integer now_ms) (\<lambda>now.
     and_then (ok_or (request_row request_id db) (RequestNotFound request_id)) (\<lambda>stored.
     if rq_operation_kind stored \<noteq> FLOW_OPERATION_KIND
     then Err (InvalidState ''corrupt flow authorization recovery requires a flow request'')
     else if is_terminal_state (rq_state stored)
     then (case (rq_result stored, rq_completed_at_ms stored) of
         (Some payload, Some completed_at) \<Rightarrow>
           and_then (unsigned_integer completed_at) (\<lambda>completed_at_ms.
           Ok (FlowAuthorizationRecoveryOutcome.AlreadyTerminal \<lparr>sr_state = rq_state stored,
             sr_payload = payload, sr_completed_at_ms = completed_at_ms\<rparr>, db))
       | _ \<Rightarrow> Err (InvalidState ''terminal corrupt flow recovery omitted its result''))
     else if rq_state stored \<noteq> Queued then Ok (NoLongerEligible, db)
     else (case validate_flow_authorization_integrity sha256 request_id db of
         Inr _ \<Rightarrow> Ok (NoLongerEligible, db)
       | Inl e \<Rightarrow>
           if e \<noteq> CorruptFlowAuthorization request_id then Err e
           else
           let p = (\<lambda>r. rq_request_id r = request_id \<and> rq_state r = Queued
                      \<and> rq_operation_kind r = FLOW_OPERATION_KIND) in
           and_then (execute (update_requests p (end_request RequestState.Failed now (Some result))) db) (\<lambda>db'.
           if matching p (db_requests db) \<noteq> 1
           then Err (InvalidState ''corrupt flow authorization recovery lost its queued state'')
           else
           and_then (append_event_tx request_id now ''failed'' [] db') (\<lambda>(_, db').
           Ok (FlowAuthorizationRecoveryOutcome.Failed \<lparr>sr_state = RequestState.Failed, sr_payload = result,
             sr_completed_at_ms = now_ms\<rparr>, db')))))))"

section \<open>Cancelling\<close>

definition ensure_expected_target_kind ::
  "RequestId \<Rightarrow> string \<Rightarrow> ExpectedOperationKind option \<Rightarrow> StoreError + unit" where
  "ensure_expected_target_kind request_id operation_kind expected =
     fail_if (\<not> (case expected of None \<Rightarrow> True | Some FlowRunKind \<Rightarrow> operation_kind = FLOW_OPERATION_KIND))
       (RequestNotFound request_id)"

definition cancel_tx ::
  "Codec \<Rightarrow> RequestId \<Rightarrow> u64 \<Rightarrow> string \<Rightarrow> ExpectedOperationKind option \<Rightarrow> Db \<Rightarrow> StoreError + CancelOutcome \<times> Db" where
  "cancel_tx codec request_id now_ms result expected db =
     and_then (sql_integer now_ms) (\<lambda>now.
     and_then (ok_or (request_row request_id db) (RequestNotFound request_id)) (\<lambda>stored.
     and_then (ensure_expected_target_kind request_id (rq_operation_kind stored) expected) (\<lambda>_.
     and_then (if is_active_state (rq_state stored)
        then validated_terminal_flow_result codec request_id (rq_operation_kind stored) db else Ok None) (\<lambda>cached.
     let write = (\<lambda>p f event_kind outcome message.
           and_then (execute (update_requests (\<lambda>r. rq_request_id r = request_id \<and> p r) f) db) (\<lambda>db'.
           if matching (\<lambda>r. rq_request_id r = request_id \<and> p r) (db_requests db) \<noteq> 1
           then Err (InvalidState message)
           else and_then (append_event_tx request_id now event_kind [] db') (\<lambda>(_, db'). Ok (outcome, db')))) in
     (case (case cached of None \<Rightarrow> None
            | Some t \<Rightarrow> if rq_state stored = Leased \<or> terminal_may_override_cancellation t then Some t else None) of
        Some terminal \<Rightarrow>
          (let (state, event_kind, outcome) = terminal_request_resolution (ft_outcome (vt_terminal terminal))
           in write (\<lambda>r. is_active_state (rq_state r))
                (end_request state now (Some (ft_encoded_result (vt_terminal terminal)))) event_kind outcome
                ''terminal flow cancellation race changed no request'')
      | None \<Rightarrow>
          (case rq_state stored of
             Queued \<Rightarrow> write (\<lambda>r. rq_state r = Queued)
               (\<lambda>r. r\<lparr>rq_state := RequestState.Cancelled, rq_completed_at_ms := Some now, rq_result := Some result\<rparr>)
               ''cancelled'' CancelOutcome.Cancelled ''cancellation transition changed no request''
           | Leased \<Rightarrow> write (\<lambda>r. rq_state r = Leased)
               (\<lambda>r. r\<lparr>rq_state := RequestState.CancellationRequested, rq_result := Some result\<rparr>)
               ''cancellation_requested'' CancelOutcome.CancellationRequested
               ''cancellation transition changed no request''
           | RequestState.CancellationRequested \<Rightarrow> Ok (AlreadyRequested, db)
           | terminal_state \<Rightarrow> Ok (CancelOutcome.AlreadyTerminal terminal_state, db)))))))"

definition cancel_request ::
  "Codec \<Rightarrow> RequestId \<Rightarrow> u64 \<Rightarrow> string \<Rightarrow> ExpectedOperationKind option \<Rightarrow> Db \<Rightarrow> CancelOutcome store_result" where
  "cancel_request codec request_id now_ms result expected =
     transaction (cancel_tx codec request_id now_ms result expected)"

section \<open>Reading\<close>

definition event_record :: "EventRow \<Rightarrow> StoreError + EventRecord" where
  "event_record e =
     and_then (unsigned_integer (ev_sequence e)) (\<lambda>sequence.
     and_then (unsigned_integer (ev_recorded_at_ms e)) (\<lambda>recorded_at_ms.
     Ok \<lparr>er_sequence = sequence, er_kind = ev_kind e, er_payload = ev_payload e,
         er_recorded_at_ms = recorded_at_ms\<rparr>))"

definition replayed_result :: "RequestRow \<Rightarrow> StoreError + StoredResult option" where
  "replayed_result r =
     (case (rq_result r, rq_completed_at_ms r) of
         (Some payload, Some completed_at) \<Rightarrow>
           if is_terminal_state (rq_state r)
           then and_then (unsigned_integer completed_at) (\<lambda>completed_at_ms.
             Ok (Some \<lparr>sr_state = rq_state r, sr_payload = payload, sr_completed_at_ms = completed_at_ms\<rparr>))
           else Err (InvalidState ''result does not match request state'')
       | (None, None) \<Rightarrow>
           if rq_state r = Queued \<or> rq_state r = Leased then Ok None
           else Err (InvalidState ''result does not match request state'')
       | (Some _, None) \<Rightarrow>
           if rq_state r = RequestState.CancellationRequested then Ok None
           else Err (InvalidState ''result does not match request state'')
       | (None, Some _) \<Rightarrow> Err (InvalidState ''result does not match request state''))"

definition replay ::
  "RequestId \<Rightarrow> u64 \<Rightarrow> ExpectedOperationKind option \<Rightarrow> Db \<Rightarrow> StoreError + Replay" where
  "replay request_id after_sequence expected db =
     and_then (ok_or (request_row request_id db) (RequestNotFound request_id)) (\<lambda>stored.
     and_then (ensure_expected_target_kind request_id (rq_operation_kind stored) expected) (\<lambda>_.
     and_then (replayed_result stored) (\<lambda>result.
     and_then (sql_integer after_sequence) (\<lambda>after_int.
     and_then (collect_ok (map event_record (sort_key ev_sequence
         (filter (\<lambda>e. ev_request_id e = request_id \<and> ev_sequence e > after_int) (db_events db))))) (\<lambda>events.
     Ok \<lparr>rp_events = events, rp_result = result\<rparr>)))))"

definition snapshot_request ::
  "RequestId \<Rightarrow> ExpectedOperationKind option \<Rightarrow> Db \<Rightarrow> StoreError + RequestSnapshot" where
  "snapshot_request request_id expected db =
     and_then (ok_or (request_row request_id db) (RequestNotFound request_id)) (\<lambda>stored.
     and_then (ensure_expected_target_kind request_id (rq_operation_kind stored) expected) (\<lambda>_.
     and_then (unsigned_integer (rq_queue_sequence stored)) (\<lambda>queue_sequence.
     and_then (unsigned_integer (rq_attempt stored)) (\<lambda>attempt.
     and_then (unsigned_integer_opt (rq_lease_expires_at_ms stored)) (\<lambda>expires.
     Ok \<lparr>rs_request_id = request_id, rs_project_id = rq_project_id stored,
         rs_queue_sequence = queue_sequence, rs_state = rq_state stored, rs_attempt = attempt,
         rs_lease_expires_at_ms = expires\<rparr>)))))"

definition queued_behind :: "RequestId \<Rightarrow> Db \<Rightarrow> StoreError + u64" where
  "queued_behind request_id db =
     and_then (ok_or (request_row request_id db) (RequestNotFound request_id)) (\<lambda>position.
     unsigned_integer (int (matching (\<lambda>r. rq_project_id r = rq_project_id position
        \<and> rq_queue_sequence r > rq_queue_sequence position \<and> rq_state r = Queued) (db_requests db))))"

section \<open>Resetting the history\<close>

definition reset_history :: "Db \<Rightarrow> (nat \<times> nat) store_result" where
  "reset_history = transaction (\<lambda>db.
     and_then (execute (\<lambda>db. db\<lparr>db_flow_runs := []\<rparr>) db) (\<lambda>db1.
     and_then (execute (\<lambda>db. db\<lparr>db_audit_events := []\<rparr>) db1) (\<lambda>db2.
     Ok ((length (db_audit_events db), length (db_flow_runs db)), db2))))"

end
