(* ===== verification/Store_Authorization.thy ===== *)
theory Store_Authorization
  imports Store_Requests
begin

text \<open>
  Authorizing an effect and admitting a flow run, after \<^verbatim>\<open>crates/pam_store/src/store.rs\<close>: the policy
  decision, the receipt of a human approval, the audit event and, for a flow, the acceptance of the
  request with the proof of its authorization, in one transaction.
\<close>

record AuthorizationAudit =
  at_event_id :: string
  at_action :: string
  at_redacted_detail :: string
  at_retain_until_ms :: u64

record AuthorizeFlowRun =
  aq_accept :: AcceptRequest
  aq_resource :: ResourceName
  aq_approval_id :: "ApprovalId option"
  aq_audit :: AuthorizationAudit
  aq_schema_approval_required :: bool

datatype FlowAuthorizationOutcome =
    Accepted AcceptOutcome | Denied | ApprovalRequired ApprovalId u64 | ApprovalDenied | ApprovalExpired

section \<open>Effects\<close>

definition authorize_tx ::
  "(string \<Rightarrow> string) \<Rightarrow> ApprovalId \<Rightarrow> AuthorizationRequest \<Rightarrow> int \<Rightarrow> u64 \<Rightarrow> u64 \<Rightarrow> Db
     \<Rightarrow> StoreError + AuthorizationOutcome \<times> Db" where
  "authorize_tx sha256 new_id request now now_ms approval_ttl_ms db =
     (if \<not> caller_is_active (az_caller_id request) db then Ok (AuthorizationOutcome.Denied, db)
      else
      and_then (load_grants (az_caller_id request) (az_project_id request) (az_capability request) db) (\<lambda>grants.
      (case evaluate grants (az_caller_id request) (az_project_id request) (az_capability request)
              (az_resource request) now_ms of
         Decision.Allowed \<Rightarrow> Ok (AuthorizationOutcome.Allowed, db)
       | Decision.Denied \<Rightarrow> Ok (AuthorizationOutcome.Denied, db)
       | Decision.ApprovalRequired \<Rightarrow>
           authorize_with_approval sha256 new_id request now now_ms approval_ttl_ms db)))"

fun authorization_audit_outcome :: "AuthorizationOutcome \<Rightarrow> string \<times> string" where
  "authorization_audit_outcome AuthorizationOutcome.Allowed = (''allow'', ''authorized'')"
| "authorization_audit_outcome AuthorizationOutcome.Denied = (''deny'', ''forbidden'')"
| "authorization_audit_outcome (AuthorizationOutcome.ApprovalRequired _ _) = (''challenge'', ''approval_required'')"
| "authorization_audit_outcome AuthorizationOutcome.ApprovalDenied = (''deny'', ''approval_denied'')"
| "authorization_audit_outcome AuthorizationOutcome.ApprovalExpired = (''deny'', ''approval_expired'')"

definition authorization_event ::
  "AuthorizationAudit \<Rightarrow> CallerId \<Rightarrow> ProjectId \<Rightarrow> string \<times> string \<Rightarrow> u64 \<Rightarrow> AppendAuditEvent" where
  "authorization_event audit caller project verdict now_ms =
     \<lparr>ae_event_id = at_event_id audit, ae_project_id = project, ae_caller_id = caller,
      ae_action = at_action audit, ae_decision = fst verdict, ae_outcome = snd verdict,
      ae_redacted_detail = at_redacted_detail audit, ae_occurred_at_ms = now_ms,
      ae_retain_until_ms = at_retain_until_ms audit\<rparr>"

definition authorize ::
  "(string \<Rightarrow> string) \<Rightarrow> ApprovalId \<Rightarrow> AuthorizationRequest \<Rightarrow> u64 \<Rightarrow> u64 \<Rightarrow> Db \<Rightarrow> AuthorizationOutcome store_result" where
  "authorize sha256 new_id request now_ms approval_ttl_ms = transaction (\<lambda>db.
     and_then (sql_integer now_ms) (\<lambda>now. authorize_tx sha256 new_id request now now_ms approval_ttl_ms db))"

definition authorize_audited ::
  "(string \<Rightarrow> string) \<Rightarrow> ApprovalId \<Rightarrow> AuthorizationRequest \<Rightarrow> AuthorizationAudit \<Rightarrow> u64 \<Rightarrow> u64 \<Rightarrow> Db
     \<Rightarrow> AuthorizationOutcome store_result" where
  "authorize_audited sha256 new_id request audit now_ms approval_ttl_ms = transaction (\<lambda>db.
     and_then (sql_integer now_ms) (\<lambda>now.
     and_then (authorize_tx sha256 new_id request now now_ms approval_ttl_ms db) (\<lambda>(outcome, db).
     and_then (append_audit_event_tx (authorization_event audit (az_caller_id request)
         (az_project_id request) (authorization_audit_outcome outcome) now_ms) db) (\<lambda>(_, db).
     Ok (outcome, db)))))"

definition consume_effect_approval_audited ::
  "(string \<Rightarrow> string) \<Rightarrow> AuthorizationRequest \<Rightarrow> AuthorizationAudit \<Rightarrow> u64 \<Rightarrow> Db \<Rightarrow> AuthorizationOutcome store_result" where
  "consume_effect_approval_audited sha256 request audit now_ms = transaction (\<lambda>db.
     and_then (sql_integer now_ms) (\<lambda>now.
     and_then (if \<not> caller_is_active (az_caller_id request) db then Ok (AuthorizationOutcome.Denied, db)
       else
       and_then (load_grants (az_caller_id request) (az_project_id request) (az_capability request) db) (\<lambda>grants.
       if evaluate grants (az_caller_id request) (az_project_id request) (az_capability request)
            (az_resource request) now_ms = Decision.Denied
       then Ok (AuthorizationOutcome.Denied, db)
       else
       and_then (ok_or (az_approval_id request)
           (InvalidState ''connector effect capability is missing its approval receipt'')) (\<lambda>approval_id.
       resolve_approval_tx approval_id request (request_fingerprint sha256 request) now now_ms db))) (\<lambda>(outcome, db).
     and_then (append_audit_event_tx (authorization_event audit (az_caller_id request)
         (az_project_id request) (authorization_audit_outcome outcome) now_ms) db) (\<lambda>(_, db).
     Ok (outcome, db)))))"

section \<open>Flow runs\<close>

definition insert_flow_authorization ::
  "(string \<Rightarrow> string) \<Rightarrow> RequestId \<Rightarrow> AuthorizeFlowRun \<Rightarrow> ApprovalId option \<Rightarrow> int \<Rightarrow> Db \<Rightarrow> StoreError + Db" where
  "insert_flow_authorization sha256 request_id request approval_id now db =
     execute (\<lambda>db. db\<lparr>db_flow_authorizations := db_flow_authorizations db
       @ [\<lparr>fa_request_id = request_id, fa_capability = FLOW_CAPABILITY_NAME,
           fa_resource = aq_resource request,
           fa_effect_fingerprint = EffectFingerprint_compute sha256 (ac_caller_id (aq_accept request))
             (ac_project_id (aq_accept request)) FLOW_CAPABILITY_NAME (aq_resource request),
           fa_authorization_kind = (if approval_id \<noteq> None then ''approved'' else ''unconditional''),
           fa_approval_id = approval_id,
           fa_schema_approval_required = aq_schema_approval_required request,
           fa_authorized_at_ms = now\<rparr>]\<rparr>) db"

fun accept_outcome_request_id :: "AcceptOutcome \<Rightarrow> RequestId" where
  "accept_outcome_request_id (AcceptOutcome.Created request_id _) = request_id"
| "accept_outcome_request_id (Existing request_id _) = request_id"

fun flow_authorization_outcome :: "AuthorizationOutcome \<Rightarrow> StoreError + FlowAuthorizationOutcome" where
  "flow_authorization_outcome AuthorizationOutcome.Allowed = Err StorePanic"
| "flow_authorization_outcome AuthorizationOutcome.Denied = Ok FlowAuthorizationOutcome.Denied"
| "flow_authorization_outcome (AuthorizationOutcome.ApprovalRequired i e) =
     Ok (FlowAuthorizationOutcome.ApprovalRequired i e)"
| "flow_authorization_outcome AuthorizationOutcome.ApprovalDenied = Ok FlowAuthorizationOutcome.ApprovalDenied"
| "flow_authorization_outcome AuthorizationOutcome.ApprovalExpired = Ok FlowAuthorizationOutcome.ApprovalExpired"

definition accept_authorized ::
  "(string \<Rightarrow> string) \<Rightarrow> AuthorizeFlowRun \<Rightarrow> bool \<Rightarrow> int \<Rightarrow> Db \<Rightarrow> StoreError + FlowAuthorizationOutcome \<times> Db" where
  "accept_authorized sha256 request approval_required now db =
     and_then (accept_tx (aq_accept request) now db) (\<lambda>(accepted, db).
     and_then (if approval_required
        then and_then (ok_or (aq_approval_id request)
          (InvalidState ''approved flow omitted its consumed receipt'')) (\<lambda>i. Ok (Some i))
        else Ok None) (\<lambda>approval_id.
     and_then (insert_flow_authorization sha256 (accept_outcome_request_id accepted) request approval_id now db) (\<lambda>db.
     Ok (Accepted accepted, db))))"

definition authorize_new_flow_run ::
  "(string \<Rightarrow> string) \<Rightarrow> ApprovalId \<Rightarrow> AuthorizeFlowRun \<Rightarrow> int \<Rightarrow> u64 \<Rightarrow> u64 \<Rightarrow> Db
     \<Rightarrow> StoreError + FlowAuthorizationOutcome \<times> Db" where
  "authorize_new_flow_run sha256 new_id request now now_ms approval_ttl_ms db =
     (let policy_request = \<lparr>az_caller_id = ac_caller_id (aq_accept request),
            az_project_id = ac_project_id (aq_accept request), az_capability = FLOW_CAPABILITY_NAME,
            az_resource = aq_resource request, az_approval_id = aq_approval_id request\<rparr> in
      if \<not> caller_is_active (ac_caller_id (aq_accept request)) db
      then Ok (FlowAuthorizationOutcome.Denied, db)
      else
      and_then (load_grants (az_caller_id policy_request) (az_project_id policy_request)
          (az_capability policy_request) db) (\<lambda>grants.
      let decision = evaluate grants (az_caller_id policy_request) (az_project_id policy_request)
            (az_capability policy_request) (az_resource policy_request) now_ms;
          approval_required = (aq_schema_approval_required request \<or> decision = Decision.ApprovalRequired) in
      if decision = Decision.Denied then Ok (FlowAuthorizationOutcome.Denied, db)
      else if approval_required
      then
      and_then (authorize_flow_with_approval sha256 new_id policy_request
          (ac_request_id (aq_accept request)) now now_ms approval_ttl_ms db) (\<lambda>(approval, db).
      if approval \<noteq> AuthorizationOutcome.Allowed
      then and_then (flow_authorization_outcome approval) (\<lambda>outcome. Ok (outcome, db))
      else accept_authorized sha256 request True now db)
      else accept_authorized sha256 request False now db))"

fun flow_authorization_audit_outcome :: "FlowAuthorizationOutcome \<Rightarrow> string \<times> string" where
  "flow_authorization_audit_outcome (Accepted _) = (''allow'', ''authorized'')"
| "flow_authorization_audit_outcome FlowAuthorizationOutcome.Denied = (''deny'', ''forbidden'')"
| "flow_authorization_audit_outcome (FlowAuthorizationOutcome.ApprovalRequired _ _) =
     (''challenge'', ''approval_required'')"
| "flow_authorization_audit_outcome FlowAuthorizationOutcome.ApprovalDenied = (''deny'', ''approval_denied'')"
| "flow_authorization_audit_outcome FlowAuthorizationOutcome.ApprovalExpired = (''deny'', ''approval_expired'')"

definition readmit_flow_run ::
  "(string \<Rightarrow> string) \<Rightarrow> AuthorizeFlowRun \<Rightarrow> AcceptOutcome \<Rightarrow> u64 \<Rightarrow> Db \<Rightarrow> StoreError + FlowAuthorizationOutcome" where
  "readmit_flow_run sha256 request existing now_ms db =
     (let request_id = accept_outcome_request_id existing;
          terminal_existing = (case existing of Existing _ state \<Rightarrow> is_terminal_state state | _ \<Rightarrow> False) in
      if request_id \<noteq> ac_request_id (aq_accept request)
      then Err (RequestIdConflict (ac_request_id (aq_accept request)))
      else case validate_flow_authorization_integrity sha256 request_id db of
        Inl e \<Rightarrow>
          (case e of CorruptFlowAuthorization _ \<Rightarrow> if terminal_existing then Ok (Accepted existing) else Err e
           | _ \<Rightarrow> Err e)
      | Inr proof \<Rightarrow>
          if sa_capability proof = FLOW_CAPABILITY_NAME \<and> sa_resource proof = aq_resource request
             \<and> sa_schema_approval_required proof = aq_schema_approval_required request
          then and_then (validate_loaded_flow_authorization request_id proof now_ms db) (\<lambda>allowed.
            Ok (if allowed = FlowEffectAuthorization.Allowed then Accepted existing
                else FlowAuthorizationOutcome.Denied))
          else Ok FlowAuthorizationOutcome.Denied)"

definition authorize_flow_run ::
  "(string \<Rightarrow> string) \<Rightarrow> ApprovalId \<Rightarrow> AuthorizeFlowRun \<Rightarrow> u64 \<Rightarrow> u64 \<Rightarrow> Db \<Rightarrow> FlowAuthorizationOutcome store_result" where
  "authorize_flow_run sha256 new_id request now_ms approval_ttl_ms = transaction (\<lambda>db.
     if ac_operation_kind (aq_accept request) \<noteq> FLOW_OPERATION_KIND
     then Err (InvalidState ''flow authorization requires an exact flow operation'')
     else
     and_then (sql_integer now_ms) (\<lambda>now.
     and_then (existing_acceptance_tx (aq_accept request) db) (\<lambda>existing_opt.
     and_then (case existing_opt of
         Some existing \<Rightarrow> and_then (readmit_flow_run sha256 request existing now_ms db) (\<lambda>outcome. Ok (outcome, db))
       | None \<Rightarrow> authorize_new_flow_run sha256 new_id request now now_ms approval_ttl_ms db) (\<lambda>(outcome, db).
     and_then (append_audit_event_tx (authorization_event (aq_audit request)
         (ac_caller_id (aq_accept request)) (ac_project_id (aq_accept request))
         (flow_authorization_audit_outcome outcome) now_ms) db) (\<lambda>(_, db).
     Ok (outcome, db))))))"

section \<open>At the effect boundary\<close>

definition validate_flow_effect_authorization ::
  "(string \<Rightarrow> string) \<Rightarrow> Lease \<Rightarrow> u64 \<Rightarrow> Db \<Rightarrow> StoreError + FlowEffectAuthorization" where
  "validate_flow_effect_authorization sha256 lease now_ms db =
     and_then (sql_integer now_ms) (\<lambda>now.
     and_then (ensure_live_flow_lease lease now db) (\<lambda>state.
     if state \<noteq> Leased then Err (StaleLease (le_request_id lease))
     else
     and_then (validate_flow_authorization_integrity sha256 (le_request_id lease) db) (\<lambda>proof.
     if sa_project_id proof \<noteq> le_project_id lease then Err (StaleLease (le_request_id lease))
     else validate_loaded_flow_authorization (le_request_id lease) proof now_ms db)))"

definition validate_flow_operation_resource ::
  "(string \<Rightarrow> string) \<Rightarrow> Lease \<Rightarrow> ResourceName \<Rightarrow> u64 \<Rightarrow> Db \<Rightarrow> StoreError + unit" where
  "validate_flow_operation_resource sha256 lease resource now_ms db =
     and_then (sql_integer now_ms) (\<lambda>now.
     and_then (ensure_live_flow_lease lease now db) (\<lambda>state.
     if \<not> is_active_state state then Err (StaleLease (le_request_id lease))
     else
     and_then (validate_flow_authorization_integrity sha256 (le_request_id lease) db) (\<lambda>proof.
     fail_if (sa_project_id proof \<noteq> le_project_id lease \<or> sa_resource proof \<noteq> resource)
       (CorruptFlowAuthorization (le_request_id lease)))))"

end
