(* ===== verification/Store_Lifecycle.thy ===== *)
theory Store_Lifecycle
  imports Store_Authorization Pam_System
begin

text \<open>
  The statements of the store as a transition system.  A transaction writes the requests only by the
  moves of \<open>row_step\<close>, numbers events consecutively and puts new requests at the end of their
  project's queue; \<open>tx_step\<close> has one rule per kind of statement and its label is the lease the
  statement grants.  What every rule keeps holds for every operation, in \<open>Store_Operations\<close>.
\<close>

section \<open>Moves of a request\<close>

inductive row_step :: "string option \<Rightarrow> RequestRow \<Rightarrow> RequestRow \<Rightarrow> bool" where
  grant: "rq_state r = Queued \<Longrightarrow>
    row_step (Some token) r (grant_lease owner token (rq_attempt r + 1) expires_at r)"
| extend: "is_active_state (rq_state r) \<Longrightarrow>
    row_step None r (r\<lparr>rq_lease_expires_at_ms := Some expires_at\<rparr>)"
| release: "rq_state r = Leased \<Longrightarrow> row_step None r (release_lease r)"
| request_cancel: "rq_state r = Leased \<Longrightarrow>
    row_step None r (r\<lparr>rq_state := RequestState.CancellationRequested, rq_result := Some payload\<rparr>)"
| cancel_queued: "rq_state r = Queued \<Longrightarrow>
    row_step None r (r\<lparr>rq_state := RequestState.Cancelled, rq_completed_at_ms := Some now, rq_result := Some payload\<rparr>)"
| fail_queued: "rq_state r = Queued \<Longrightarrow>
    row_step None r (end_request RequestState.Failed now (Some payload) r)"
| conclude: "rq_state r = Leased \<Longrightarrow> is_terminal_state state \<Longrightarrow>
    row_step None r (end_request state now (Some payload) r)"
| conclude_cancel: "rq_state r = RequestState.CancellationRequested \<Longrightarrow>
    row_step None r (end_request RequestState.Cancelled now None r)"
| override_cancel: "rq_state r = RequestState.CancellationRequested \<Longrightarrow>
    state = RequestState.Failed \<or> state = RequestState.Cancelled \<Longrightarrow>
    row_step None r (end_request state now (Some payload) r)"

text \<open>The abstract life of a request.\<close>

inductive lifecycle :: "RequestState \<Rightarrow> RequestState \<Rightarrow> bool" where
  "lifecycle Queued Leased"
| "lifecycle Queued RequestState.Cancelled"
| "lifecycle Queued RequestState.Failed"
| "lifecycle Leased Queued"
| "lifecycle Leased RequestState.CancellationRequested"
| "is_terminal_state s \<Longrightarrow> lifecycle Leased s"
| "lifecycle RequestState.CancellationRequested RequestState.Cancelled"
| "lifecycle RequestState.CancellationRequested RequestState.Failed"

lemma lifecycle_terminal: "lifecycle s t \<Longrightarrow> \<not> is_terminal_state s"
  by (auto simp: is_terminal_state_def elim: lifecycle.cases)

lemma row_step_lifecycle: "row_step l r r' \<Longrightarrow> rq_state r' = rq_state r \<or> lifecycle (rq_state r) (rq_state r')"
  by (induction rule: row_step.induct)
    (auto simp: grant_lease_def release_lease_def end_request_def intro: lifecycle.intros)

lemma row_step_not_terminal: "row_step l r r' \<Longrightarrow> \<not> is_terminal_state (rq_state r)"
  by (induction rule: row_step.induct) (auto simp: is_terminal_state_def is_active_state_def)

text \<open>What no statement changes in a request.\<close>

definition same_request :: "RequestRow \<Rightarrow> RequestRow \<Rightarrow> bool" where
  "same_request r r' \<longleftrightarrow> rq_request_id r' = rq_request_id r \<and> rq_caller_id r' = rq_caller_id r
     \<and> rq_project_id r' = rq_project_id r \<and> rq_idempotency_key r' = rq_idempotency_key r
     \<and> rq_operation_kind r' = rq_operation_kind r \<and> rq_operation r' = rq_operation r
     \<and> rq_queue_sequence r' = rq_queue_sequence r \<and> rq_accepted_at_ms r' = rq_accepted_at_ms r"

lemma row_step_same: "row_step l r r' \<Longrightarrow> same_request r r'"
  by (induction rule: row_step.induct)
    (auto simp: same_request_def grant_lease_def release_lease_def end_request_def)

lemma row_step_token:
  "row_step l r r' \<Longrightarrow> rq_lease_token r' = (case l of Some token \<Rightarrow> Some token
     | None \<Rightarrow> if is_active_state (rq_state r') then rq_lease_token r else rq_lease_token r')"
  by (induction rule: row_step.induct)
    (auto simp: grant_lease_def release_lease_def end_request_def is_active_state_def is_terminal_state_def)

section \<open>Statements\<close>

definition next_sequence :: "Db \<Rightarrow> ProjectId \<Rightarrow> int option" where
  "next_sequence db project =
     map_option pr_next_queue_sequence (row_where (\<lambda>p. pr_project_id p = project) (db_projects db))"

definition enqueue :: "AcceptRequest \<Rightarrow> int \<Rightarrow> int \<Rightarrow> Db \<Rightarrow> Db" where
  "enqueue request queue_sequence now db = insert_request request queue_sequence now
     (bump_queue_sequence (ac_project_id request) (ensure_project (ac_project_id request) db))"

inductive tx_step :: "Db \<Rightarrow> (RequestId \<times> string) option \<Rightarrow> Db \<Rightarrow> bool" where
  move: "(\<And>r. r \<in> set (db_requests db) \<Longrightarrow> p r \<Longrightarrow> rq_request_id r = request_id \<and> row_step token r (f r)) \<Longrightarrow>
    (token \<noteq> None \<Longrightarrow> \<exists>r \<in> set (db_requests db). p r) \<Longrightarrow>
    schema_ok (update_requests p f db) \<Longrightarrow>
    tx_step db (map_option (Pair request_id) token) (update_requests p f db)"
| event: "schema_ok (insert_event request_id (next_event_sequence request_id db) kind payload at db) \<Longrightarrow>
    tx_step db None (insert_event request_id (next_event_sequence request_id db) kind payload at db)"
| enqueue: "queue_sequence = (case next_sequence db (ac_project_id request) of None \<Rightarrow> 1 | Some n \<Rightarrow> n) \<Longrightarrow>
    schema_ok (enqueue request queue_sequence now db) \<Longrightarrow>
    tx_step db None (enqueue request queue_sequence now db)"
| other: "db_requests db' = db_requests db \<Longrightarrow> db_events db' = db_events db \<Longrightarrow>
    (\<And>project n. next_sequence db project = Some n \<Longrightarrow> next_sequence db' project = Some n) \<Longrightarrow>
    schema_ok db' \<Longrightarrow> tx_step db None db'"

inductive_cases tx_stepE: "tx_step db l db'"

section \<open>The invariant\<close>

text \<open>
  Every constraint holds; the next queue sequence of a project is above those given; requests of a
  project stand in the table in the order of their sequences; the events of a request are numbered
  1, 2, 3 and so on.
\<close>

definition request_events :: "RequestId \<Rightarrow> Db \<Rightarrow> EventRow list" where
  "request_events request_id db = filter (\<lambda>e. ev_request_id e = request_id) (db_events db)"

definition queue_bounded :: "Db \<Rightarrow> bool" where
  "queue_bounded db \<longleftrightarrow> (\<forall>r \<in> set (db_requests db).
     \<exists>n. next_sequence db (rq_project_id r) = Some n \<and> rq_queue_sequence r < n)"

definition queue_ordered :: "Db \<Rightarrow> bool" where
  "queue_ordered db \<longleftrightarrow> sorted_wrt (\<lambda>r s. rq_project_id r = rq_project_id s \<longrightarrow>
     rq_queue_sequence r < rq_queue_sequence s) (db_requests db)"

definition events_numbered :: "Db \<Rightarrow> bool" where
  "events_numbered db \<longleftrightarrow> (\<forall>request_id.
     map ev_sequence (request_events request_id db) = map int [1..<Suc (length (request_events request_id db))])"

definition store_inv :: "Db \<Rightarrow> bool" where
  "store_inv db \<longleftrightarrow> schema_ok db \<and> queue_bounded db \<and> queue_ordered db \<and> events_numbered db"

lemma max_of_numbers: "max_of (map int [Suc 0..<Suc n]) = int n"
proof (induction n)
  case (Suc n)
  then show ?case by (simp add: upt_Suc_append del: upt_Suc)
qed simp

lemma next_event_numbered:
  "events_numbered db \<Longrightarrow> next_event_sequence request_id db = int (length (request_events request_id db)) + 1"
  unfolding events_numbered_def next_event_sequence_def
  by (simp add: request_events_def [symmetric] max_of_numbers del: upt_Suc)

lemma update_requests_sel [simp]:
  "db_requests (update_requests p f db) = update_where p f (db_requests db)"
  "db_events (update_requests p f db) = db_events db"
  "db_projects (update_requests p f db) = db_projects db"
  "db_flow_runs (update_requests p f db) = db_flow_runs db"
  "db_approvals (update_requests p f db) = db_approvals db"
  "db_flow_authorizations (update_requests p f db) = db_flow_authorizations db"
  by (simp_all add: update_requests_def)

lemma insert_event_sel [simp]:
  "db_requests (insert_event request_id sequence kind payload at db) = db_requests db"
  "db_projects (insert_event request_id sequence kind payload at db) = db_projects db"
  "db_flow_runs (insert_event request_id sequence kind payload at db) = db_flow_runs db"
  "db_approvals (insert_event request_id sequence kind payload at db) = db_approvals db"
  "db_flow_authorizations (insert_event request_id sequence kind payload at db) = db_flow_authorizations db"
  by (simp_all add: insert_event_def)

lemma next_sequence_move [simp]: "next_sequence (update_requests p f db) = next_sequence db"
  by (simp add: next_sequence_def fun_eq_iff)

lemma next_sequence_event [simp]: "next_sequence (insert_event i n k y at db) = next_sequence db"
  by (simp add: next_sequence_def fun_eq_iff)

lemma move_row:
  assumes "\<And>r. r \<in> set t \<Longrightarrow> p r \<Longrightarrow> row_step token r (f r)" and "r \<in> set t"
  shows "same_request r (if p r then f r else r)"
  using assms row_step_same by (auto simp: same_request_def)

lemma next_sequence_enqueue:
  "next_sequence (enqueue request q now db) project =
     (if project = ac_project_id request
      then Some ((case next_sequence db project of None \<Rightarrow> 1 | Some n \<Rightarrow> n) + 1)
      else next_sequence db project)"
proof -
  let ?p = "ac_project_id request"
  have bump: "next_sequence (bump_queue_sequence ?p db') project =
      map_option (\<lambda>n. if project = ?p then n + 1 else n) (next_sequence db' project)" for db'
    by (auto simp: next_sequence_def bump_queue_sequence_def row_where_update map_option_case
        dest: row_where_Some split: option.splits)
  have ensure: "next_sequence (ensure_project ?p db) project =
      (case next_sequence db project of None \<Rightarrow> if project = ?p then Some 1 else None | Some n \<Rightarrow> Some n)"
    by (cases "row_where (\<lambda>p. pr_project_id p = project) (db_projects db)")
      (auto simp: next_sequence_def ensure_project_def row_where_snoc row_where_None dest!: row_where_Some
        split: option.splits)
  have "next_sequence (enqueue request q now db) project
      = next_sequence (bump_queue_sequence ?p (ensure_project ?p db)) project"
    by (simp add: enqueue_def insert_request_def next_sequence_def)
  then show ?thesis by (auto simp: bump ensure split: option.splits)
qed

lemma enqueue_sel:
  "db_events (enqueue request q now db) = db_events db"
  "db_flow_runs (enqueue request q now db) = db_flow_runs db"
  "db_approvals (enqueue request q now db) = db_approvals db"
  "db_flow_authorizations (enqueue request q now db) = db_flow_authorizations db"
  "db_requests (enqueue request q now db) = db_requests (insert_request request q now db)"
  by (simp_all add: enqueue_def insert_request_def bump_queue_sequence_def ensure_project_def)

section \<open>Every statement keeps it\<close>

lemma move_ordered:
  assumes "queue_ordered db" and "\<And>r. r \<in> set (db_requests db) \<Longrightarrow> p r \<Longrightarrow> row_step token r (f r)"
  shows "queue_ordered (update_requests p f db)"
  using assms(1) unfolding queue_ordered_def update_requests_sel update_where_def sorted_wrt_map
proof (rule sorted_wrt_mono_rel [rotated])
  fix r s assume "r \<in> set (db_requests db)" "s \<in> set (db_requests db)"
    "rq_project_id r = rq_project_id s \<longrightarrow> rq_queue_sequence r < rq_queue_sequence s"
  then show "rq_project_id (if p r then f r else r) = rq_project_id (if p s then f s else s) \<longrightarrow>
      rq_queue_sequence (if p r then f r else r) < rq_queue_sequence (if p s then f s else s)"
    using move_row [of "db_requests db" p token f] assms(2) by (simp add: same_request_def)
qed

lemma move_bounded:
  assumes "queue_bounded db" and "\<And>r. r \<in> set (db_requests db) \<Longrightarrow> p r \<Longrightarrow> row_step token r (f r)"
  shows "queue_bounded (update_requests p f db)"
  unfolding queue_bounded_def update_requests_sel next_sequence_move
proof
  fix s assume "s \<in> set (update_where p f (db_requests db))"
  then obtain r where r: "r \<in> set (db_requests db)" "s = (if p r then f r else r)"
    by (auto simp: update_where_set)
  then have "same_request r s" using move_row [of "db_requests db" p token f r] assms(2) by simp
  then show "\<exists>n. next_sequence db (rq_project_id s) = Some n \<and> rq_queue_sequence s < n"
    using assms(1) r(1) by (simp add: queue_bounded_def same_request_def)
qed

lemma event_numbered:
  assumes "events_numbered db"
  shows "events_numbered (insert_event i (next_event_sequence i db) kind payload at db)"
  unfolding events_numbered_def
proof
  fix j
  have "request_events j (insert_event i (next_event_sequence i db) kind payload at db) =
      (if j = i then request_events i db @ [\<lparr>ev_request_id = i, ev_sequence = next_event_sequence i db,
         ev_kind = kind, ev_payload = payload, ev_recorded_at_ms = at\<rparr>] else request_events j db)"
    by (simp add: request_events_def insert_event_def)
  then show "map ev_sequence (request_events j (insert_event i (next_event_sequence i db) kind payload at db)) =
      map int [1..<Suc (length (request_events j (insert_event i (next_event_sequence i db) kind payload at db)))]"
    using assms next_event_numbered [OF assms, of i]
    by (cases "j = i") (simp_all add: events_numbered_def upt_Suc_append del: upt_Suc)
qed

lemma enqueue_ordered:
  assumes "queue_ordered db" "queue_bounded db"
    and q: "q = (case next_sequence db (ac_project_id request) of None \<Rightarrow> 1 | Some n \<Rightarrow> n)"
  shows "queue_ordered (enqueue request q now db)" and "queue_bounded (enqueue request q now db)"
  using assms
  by (fastforce simp: queue_ordered_def queue_bounded_def enqueue_sel insert_request_def sorted_wrt_append
      next_sequence_enqueue split: option.splits)+

lemma tx_step_inv:
  assumes "store_inv db" and "tx_step db l db'"
  shows "store_inv db'"
  using assms(2)
proof (cases rule: tx_step.cases)
  case (move p request_id token f)
  then show ?thesis
    using assms(1) move_ordered [of db p token f] move_bounded [of db p token f]
    by (auto simp: store_inv_def events_numbered_def request_events_def)
next
  case (event request_id kind payload at)
  then show ?thesis
    using assms(1) event_numbered by (auto simp: store_inv_def queue_ordered_def queue_bounded_def)
next
  case (enqueue queue_sequence request now)
  then show ?thesis
    using assms(1) enqueue_ordered by (auto simp: store_inv_def events_numbered_def request_events_def enqueue_sel)
next
  case other
  then show ?thesis
    using assms(1) unfolding store_inv_def queue_ordered_def queue_bounded_def events_numbered_def request_events_def
    by fastforce
qed

definition store_init :: "Db \<Rightarrow> bool" where
  "store_init db \<longleftrightarrow> db = empty_db"

interpretation store_tx: invariant_system store_init tx_step store_inv
proof
  show "store_inv s" if "store_init s" for s
    using that empty_db_ok
    by (simp add: store_init_def store_inv_def queue_bounded_def queue_ordered_def events_numbered_def
        request_events_def empty_db_def)
qed (rule tx_step_inv)

end
