(* ===== verification/Store_Operations.thy ===== *)
theory Store_Operations
  imports Store_Lifecycle
begin

text \<open>
  The operations of the store and the statements they are made of: every operation that succeeds is
  a path of \<open>tx_step\<close>, and one that fails leaves the state as it was.  The invariants of
  \<open>Store_Lifecycle\<close> therefore hold after any sequence of operations.
\<close>

section \<open>Operations\<close>

datatype StoreOp =
    Accept AcceptRequest u64
  | AuthorizeFlow ApprovalId AuthorizeFlowRun u64 u64
  | Claim string string u64 u64
  | Renew Lease u64 u64
  | RecoverLeases u64 LeaseRecovery
  | AppendEvent Lease u64 string string
  | SaveCheckpoint SaveFlowCheckpoint
  | Finish Lease u64 TerminalState string
  | FinishFlow Lease u64 string
  | FailCorrupt RequestId u64 string
  | Cancel RequestId u64 string "ExpectedOperationKind option"
  | RegisterCaller CallerId string "string option" u64
  | RevokeCaller CallerId u64
  | PutGrant Grant u64
  | RevokeGrant GrantId u64
  | Authorize ApprovalId AuthorizationRequest u64 u64
  | AuthorizeAudited ApprovalId AuthorizationRequest AuthorizationAudit u64 u64
  | ConsumeApproval AuthorizationRequest AuthorizationAudit u64
  | DecideApproval ApprovalId "ProjectId option" CallerId ApprovalDecision u64
  | AppendAudit AppendAuditEvent
  | PruneAudit ProjectId u64 u32
  | RememberRoot ProjectId string
  | ResetAccess
  | ResetHistory

datatype StoreReply =
    AcceptReply AcceptOutcome | FlowReply FlowAuthorizationOutcome | ClaimReply "LeasedRequest option"
  | ResultReply StoredResult | Done

definition reply :: "('a \<Rightarrow> StoreReply) \<Rightarrow> 'a store_result \<Rightarrow> StoreReply store_result" where
  "reply f r = (and_then (fst r) (\<lambda>x. Ok (f x)), snd r)"

fun apply_store_op :: "Codec \<Rightarrow> (string \<Rightarrow> string) \<Rightarrow> StoreOp \<Rightarrow> Db \<Rightarrow> StoreReply store_result" where
  "apply_store_op codec sha256 (Accept request now) db = reply AcceptReply (accept request now db)"
| "apply_store_op codec sha256 (AuthorizeFlow i request now ttl) db =
     reply FlowReply (authorize_flow_run sha256 i request now ttl db)"
| "apply_store_op codec sha256 (Claim token owner now d) db = reply ClaimReply (claim sha256 token owner now d db)"
| "apply_store_op codec sha256 (Renew lease now d) db = reply (\<lambda>_. Done) (renew lease now d db)"
| "apply_store_op codec sha256 (RecoverLeases now which) db = reply (\<lambda>_. Done) (recover_leases codec now which db)"
| "apply_store_op codec sha256 (AppendEvent lease now kind payload) db =
     reply (\<lambda>_. Done) (append_leased_event lease now kind payload db)"
| "apply_store_op codec sha256 (SaveCheckpoint save) db = reply (\<lambda>_. Done) (save_flow_checkpoint codec sha256 save db)"
| "apply_store_op codec sha256 (Finish lease now state result) db = reply ResultReply (finish lease now state result db)"
| "apply_store_op codec sha256 (FinishFlow lease now result) db =
     reply ResultReply (finish_terminal_flow codec lease now result db)"
| "apply_store_op codec sha256 (FailCorrupt i now result) db =
     reply (\<lambda>_. Done) (fail_corrupt_flow_authorization sha256 i now result db)"
| "apply_store_op codec sha256 (Cancel i now result expected) db =
     reply (\<lambda>_. Done) (cancel_request codec i now result expected db)"
| "apply_store_op codec sha256 (RegisterCaller c credential kind now) db =
     reply (\<lambda>_. Done) (register_caller sha256 c credential kind now db)"
| "apply_store_op codec sha256 (RevokeCaller c now) db = reply (\<lambda>_. Done) (revoke_caller c now db)"
| "apply_store_op codec sha256 (PutGrant grant now) db = reply (\<lambda>_. Done) (put_grant grant now db)"
| "apply_store_op codec sha256 (RevokeGrant grant now) db = reply (\<lambda>_. Done) (revoke_grant grant now db)"
| "apply_store_op codec sha256 (Authorize i request now ttl) db =
     reply (\<lambda>_. Done) (authorize sha256 i request now ttl db)"
| "apply_store_op codec sha256 (AuthorizeAudited i request audit now ttl) db =
     reply (\<lambda>_. Done) (authorize_audited sha256 i request audit now ttl db)"
| "apply_store_op codec sha256 (ConsumeApproval request audit now) db =
     reply (\<lambda>_. Done) (consume_effect_approval_audited sha256 request audit now db)"
| "apply_store_op codec sha256 (DecideApproval i project approver decision now) db =
     reply (\<lambda>_. Done) (decide_approval i project approver decision now db)"
| "apply_store_op codec sha256 (AppendAudit event) db = reply (\<lambda>_. Done) (append_audit_event event db)"
| "apply_store_op codec sha256 (PruneAudit project now limit) db =
     reply (\<lambda>_. Done) (prune_audit_events project now limit db)"
| "apply_store_op codec sha256 (RememberRoot project root) db =
     reply (\<lambda>_. Done) (remember_project_root project root db)"
| "apply_store_op codec sha256 ResetAccess db = reply (\<lambda>_. Done) (reset_access db)"
| "apply_store_op codec sha256 ResetHistory db = reply (\<lambda>_. Done) (reset_history db)"

definition granted :: "(RequestId \<times> string) option list \<Rightarrow> (RequestId \<times> string) list" where
  "granted ls = List.map_filter (\<lambda>l. l) ls"

lemma granted_simps [simp]:
  "granted [] = []" "granted (None # ls) = granted ls" "granted (Some g # ls) = g # granted ls"
  "granted (ls @ ks) = granted ls @ granted ks"
  by (simp_all add: granted_def List.map_filter_def)

text \<open>\<open>steps db gs db'\<close>: statements lead from \<open>db\<close> to \<open>db'\<close> and grant the leases \<open>gs\<close>.\<close>

definition steps :: "Db \<Rightarrow> (RequestId \<times> string) list \<Rightarrow> Db \<Rightarrow> bool" where
  "steps db gs db' \<longleftrightarrow> (\<exists>ls. path tx_step db ls db' \<and> granted ls = gs)"

lemma steps_refl [simp]: "steps db [] db"
  unfolding steps_def by (intro exI [of _ "[]"]) (simp add: path.nil)

lemma steps_step: "tx_step db None db' \<Longrightarrow> steps db [] db'"
  unfolding steps_def by (intro exI [of _ "[None]"]) simp

lemma steps_grant: "tx_step db (Some g) db' \<Longrightarrow> steps db [g] db'"
  unfolding steps_def by (intro exI [of _ "[Some g]"]) simp

lemma steps_trans: "steps db gs db' \<Longrightarrow> steps db' hs db'' \<Longrightarrow> steps db (gs @ hs) db''"
  unfolding steps_def by (metis granted_simps(4) path_append)

lemma steps_quiet_trans: "steps db [] db' \<Longrightarrow> steps db' gs db'' \<Longrightarrow> steps db gs db''"
  using steps_trans [of db "[]"] by simp

section \<open>Statements outside the queue\<close>

definition quiet :: "Db \<Rightarrow> Db \<Rightarrow> bool" where
  "quiet db db' \<longleftrightarrow> db_requests db' = db_requests db \<and> db_events db' = db_events db
     \<and> (\<forall>project n. next_sequence db project = Some n \<longrightarrow> next_sequence db' project = Some n)"

lemma quiet_refl [simp]: "quiet db db"
  by (simp add: quiet_def)

lemma quiet_steps: "execute f db = Ok db' \<Longrightarrow> quiet db (f db) \<Longrightarrow> steps db [] db'"
  by (rule steps_step) (auto simp: execute_Inr_iff quiet_def intro: tx_step.other)

lemma quiet_same_projects:
  "db_requests db' = db_requests db \<Longrightarrow> db_events db' = db_events db \<Longrightarrow> db_projects db' = db_projects db
     \<Longrightarrow> quiet db db'"
  by (simp add: quiet_def next_sequence_def)

lemma quiet_ensure_project: "quiet db (ensure_project project db)"
  by (auto simp: quiet_def ensure_project_def next_sequence_def row_where_snoc)

lemma quiet_root: "quiet db (db\<lparr>db_projects := update_where p (\<lambda>r. r\<lparr>pr_root := v\<rparr>) (db_projects db)\<rparr>)"
proof -
  have "next_sequence (db\<lparr>db_projects := update_where p (\<lambda>r. r\<lparr>pr_root := v\<rparr>) (db_projects db)\<rparr>) i = next_sequence db i" for i
    by (cases "row_where (\<lambda>p. pr_project_id p = i) (db_projects db)") (simp_all add: next_sequence_def row_where_update)
  then show ?thesis by (simp add: quiet_def)
qed

lemmas quiet_rules = quiet_ensure_project quiet_root quiet_same_projects

section \<open>Events and acceptance\<close>

lemma append_event_steps: "append_event_tx i now kind payload db = Ok (n, db') \<Longrightarrow> steps db [] db'"
  by (rule steps_step) (auto simp: append_event_tx_def Let_def and_then_Inr_iff execute_Inr_iff intro: tx_step.event)

lemma accept_tx_cases:
  assumes "accept_tx request now db = Ok (outcome, db')"
  obtains (existing) i s where "outcome = Existing i s" "db' = db"
      "existing_acceptance_tx request db = Ok (Some (Existing i s))"
  | (created) q db1 n where "existing_acceptance_tx request db = Ok None"
      "request_row (ac_request_id request) db = None"
      "q = (case next_sequence db (ac_project_id request) of None \<Rightarrow> 1 | Some n \<Rightarrow> n)"
      "tx_step db None db1" "db1 = enqueue request q now db"
      "append_event_tx (ac_request_id request) now ''accepted'' [] db1 = Ok (n, db')"
      "outcome = AcceptOutcome.Created (ac_request_id request) (of_int q)"
proof (cases "existing_acceptance_tx request db")
  case (Inl e)
  then show thesis using assms by (simp add: accept_tx_def)
next
  case (Inr existing_opt)
  show thesis
  proof (cases existing_opt)
    case (Some out)
    then obtain i s where "out = Existing i s"
      using Inr by (auto simp: existing_acceptance_tx_def split: option.splits if_splits)
    with Some Inr assms show thesis by (intro existing) (auto simp: accept_tx_def)
  next
    case None
    let ?p = "ac_project_id request"
    let ?q = "case next_sequence db ?p of None \<Rightarrow> 1 | Some n \<Rightarrow> n"
    let ?bumped = "bump_queue_sequence ?p (ensure_project ?p db)"
    have after_bump: "next_sequence ?bumped ?p = Some (?q + 1)"
      using next_sequence_enqueue [of request q now db ?p]
      by (simp add: enqueue_def insert_request_def next_sequence_def split: option.splits)
    then obtain project where project: "row_where (\<lambda>p. pr_project_id p = ?p) (db_projects ?bumped) = Some project"
      "pr_next_queue_sequence project = ?q + 1"
      by (auto simp: next_sequence_def)
    have fresh: "request_row (ac_request_id request) db = None"
      using assms Inr None by (auto simp: accept_tx_def split: if_splits)
    obtain db1 n where "execute (insert_request request ?q now) ?bumped = Ok db1"
      "append_event_tx (ac_request_id request) now ''accepted'' [] db1 = Ok (n, db')"
      "outcome = AcceptOutcome.Created (ac_request_id request) (of_int ?q)"
      using assms Inr None fresh project
      by (auto simp: accept_tx_def and_then_Inr_iff execute_Inr_iff unsigned_integer_def Let_def
          split: if_splits)
    with created [of ?q db1 n] show thesis
      using Inr None fresh tx_step.enqueue [of ?q db request now]
      by (auto simp: execute_Inr_iff enqueue_def)
  qed
qed

lemma accept_tx_steps: "accept_tx request now db = Ok (outcome, db') \<Longrightarrow> steps db [] db'"
  by (erule accept_tx_cases) (auto dest!: append_event_steps steps_step intro: steps_quiet_trans)

section \<open>Leases and results\<close>

lemma move_steps:
  assumes "execute (update_requests p f) db = Ok db'"
    and "\<And>r. r \<in> set (db_requests db) \<Longrightarrow> p r \<Longrightarrow> rq_request_id r = i \<and> row_step None r (f r)"
  shows "steps db [] db'"
proof (rule steps_step)
  have "tx_step db (map_option (Pair i) None) (update_requests p f db)"
    using assms by (intro tx_step.move) (auto simp: execute_Inr_iff)
  then show "tx_step db None db'" using assms(1) by (simp add: execute_Inr_iff)
qed

lemma move_event_steps:
  assumes "execute (update_requests p f) db = Ok db1" and "append_event_tx i now kind payload db1 = Ok (n, db')"
    and "\<And>r. r \<in> set (db_requests db) \<Longrightarrow> p r \<Longrightarrow> rq_request_id r = i \<and> row_step None r (f r)"
  shows "steps db [] db'"
  using steps_quiet_trans [OF move_steps [OF assms(1,3)] append_event_steps [OF assms(2)]] .

lemma claim_tx_cases:
  assumes "claim_tx sha256 token owner now_ms d db = Ok (res, db')"
  obtains (idle) "res = None" "db' = db" "claim_candidate db = None"
  | (leased) r now expires_at expires_at_ms db1 n where
      "sql_integer now_ms = Ok now" "lease_expiry now_ms d = Ok expires_at_ms"
      "sql_integer expires_at_ms = Ok expires_at"
      "claim_candidate db = Some r" "r \<in> set (db_requests db)" "claimable db r"
      "rq_operation_kind r = FLOW_OPERATION_KIND \<Longrightarrow>
         \<exists>proof. validate_flow_authorization_integrity sha256 (rq_request_id r) db = Ok proof"
      "execute (update_requests (\<lambda>s. rq_request_id s = rq_request_id r \<and> rq_state s = Queued)
         (grant_lease owner token (rq_attempt r + 1) expires_at)) db = Ok db1"
      "append_event_tx (rq_request_id r) now ''started'' [] db1 = Ok (n, db')"
      "res = Some \<lparr>lr_lease = \<lparr>le_request_id = rq_request_id r, le_project_id = rq_project_id r,
               le_owner = owner, le_token = token, le_attempt = of_int (rq_attempt r + 1),
               le_expires_at_ms = expires_at_ms\<rparr>,
             lr_queue_sequence = of_int (rq_queue_sequence r), lr_operation_kind = rq_operation_kind r,
             lr_operation = rq_operation r\<rparr>"
proof (cases "claim_candidate db")
  case None
  with assms show thesis by (intro idle) (auto simp: claim_tx_def and_then_Inr_iff)
next
  case (Some r)
  have r: "r \<in> set (db_requests db)" "claimable db r"
    using first_by_Some [OF Some [unfolded claim_candidate_def]] by simp_all
  from assms Some show thesis
    by (auto simp: claim_tx_def and_then_Inr_iff Let_def unsigned_integer_def split: if_splits
        intro!: leased [OF _ _ _ Some r])
qed

lemma claim_tx_steps:
  assumes "claim_tx sha256 token owner now_ms d db = Ok (res, db')" and "schema_ok db"
  shows "steps db (case res of None \<Rightarrow> [] | Some lr \<Rightarrow> [(le_request_id (lr_lease lr), le_token (lr_lease lr))]) db'"
  using assms(1)
proof (cases rule: claim_tx_cases)
  case (leased r now expires_at expires_at_ms db1 n)
  let ?p = "\<lambda>s. rq_request_id s = rq_request_id r \<and> rq_state s = Queued"
  let ?f = "grant_lease owner token (rq_attempt r + 1) expires_at"
  have unique: "s = r" if "s \<in> set (db_requests db)" "?p s" for s
    using that leased(5) schema_okD(2) [OF assms(2)] by (auto simp: requests_ok_def distinct_map inj_on_def)
  have "tx_step db (map_option (Pair (rq_request_id r)) (Some token)) (update_requests ?p ?f db)"
  proof (rule tx_step.move)
    show "rq_request_id s = rq_request_id r \<and> row_step (Some token) s (?f s)"
      if "s \<in> set (db_requests db)" "?p s" for s
      using unique [OF that] that row_step.grant [of r token owner expires_at] by simp
    show "\<exists>s \<in> set (db_requests db). ?p s"
      using leased(5,6) by (auto simp: claimable_def)
    show "schema_ok (update_requests ?p ?f db)" using leased(8) by (simp add: execute_Inr_iff)
  qed
  then have "steps db [(rq_request_id r, token)] db1" using leased(8) by (auto simp: execute_Inr_iff intro: steps_grant)
  from steps_trans [OF this append_event_steps [OF leased(9)]] leased(10) show ?thesis by simp
qed simp

lemma holds_leaseD: "holds_lease lease now r \<Longrightarrow> rq_request_id r = le_request_id lease \<and> is_active_state (rq_state r)"
  by (simp add: holds_lease_def)

lemma renew_steps: "renew lease now_ms d db = (Ok x, db') \<Longrightarrow> steps db [] db'"
  by (auto simp: renew_def transaction_Ok and_then_Inr_iff split: if_splits
      intro!: move_steps row_step.extend dest: holds_leaseD)

lemma resolution_terminal: "is_terminal_state (fst (terminal_request_resolution outcome))"
  by (cases outcome) (simp_all add: is_terminal_state_def)

lemma override_resolution:
  "terminal_may_override_cancellation t \<Longrightarrow>
     fst (terminal_request_resolution (ft_outcome (vt_terminal t))) \<in> {RequestState.Failed, RequestState.Cancelled}"
  by (auto simp: terminal_may_override_cancellation_def)

lemma recovery_update_step:
  assumes "is_active_state (rq_state active)" and "rq_state r = rq_state active"
    and "\<And>t. terminal = Some t \<Longrightarrow> rq_state active = RequestState.CancellationRequested \<Longrightarrow>
      terminal_may_override_cancellation t"
  shows "row_step None r (fst (recovery_update active terminal now) r)"
proof (cases terminal)
  case None
  then show ?thesis
    using assms(1,2)
    by (auto simp: recovery_update_def is_active_state_def intro: row_step.release row_step.conclude_cancel)
next
  case (Some t)
  obtain state kind outcome where res: "terminal_request_resolution (ft_outcome (vt_terminal t)) = (state, kind, outcome)"
    by (rule prod_cases3)
  have f: "fst (recovery_update active terminal now) = end_request state now (Some (ft_encoded_result (vt_terminal t)))"
    by (simp add: recovery_update_def Some res)
  from assms(1) consider "rq_state active = Leased" | "rq_state active = RequestState.CancellationRequested"
    by (auto simp: is_active_state_def)
  then show ?thesis
  proof cases
    case 1
    then show ?thesis unfolding f using assms(2) resolution_terminal [of "ft_outcome (vt_terminal t)"] res
      by (auto intro: row_step.conclude)
  next
    case 2
    then show ?thesis unfolding f using assms(2) override_resolution [OF assms(3) [OF Some 2]] res
      by (auto intro: row_step.override_cancel)
  qed
qed

lemma recover_one_steps:
  assumes "recover_one codec now which active db = Ok (changed, db')" and "is_active_state (rq_state active)"
  shows "steps db [] db'"
proof -
  obtain cached where cached: "validated_terminal_flow_result codec (rq_request_id active) (rq_operation_kind active) db = Ok cached"
    using assms(1) by (auto simp: recover_one_def and_then_Inr_iff)
  define terminal where "terminal = (if rq_state active = Leased then cached
      else (case cached of None \<Rightarrow> None | Some t \<Rightarrow> if terminal_may_override_cancellation t then Some t else None))"
  obtain f kind where f: "recovery_update active terminal now = (f, kind)" by fastforce
  let ?p = "\<lambda>r. rq_request_id r = rq_request_id active \<and> rq_state r = rq_state active \<and> due_lease which now r"
  obtain db1 where db1: "execute (update_requests ?p f) db = Ok db1"
    and rest: "db' = db1 \<or> (\<exists>n. append_event_tx (rq_request_id active) now kind [] db1 = Ok (n, db'))"
    using assms(1) cached f
    by (auto simp: recover_one_def Let_def terminal_def [symmetric] and_then_Inr_iff split: if_splits)
  have step: "rq_request_id r = rq_request_id active \<and> row_step None r (f r)" if "?p r" for r
    using that recovery_update_step [OF assms(2), of r terminal now] f
    by (auto simp: terminal_def split: if_splits option.splits)
  from rest show ?thesis
    using move_steps [OF db1 step] move_event_steps [OF db1 _ step] by metis
qed

lemma recover_loop_steps:
  assumes "recover_loop codec now which actives db = Ok (recovered, db')"
    and "list_all (\<lambda>r. is_active_state (rq_state r)) actives"
  shows "steps db [] db'"
  using assms
proof (induction actives arbitrary: db recovered)
  case (Cons active rest)
  then obtain changed db1 recovered' where "recover_one codec now which active db = Ok (changed, db1)"
    "recover_loop codec now which rest db1 = Ok (recovered', db')"
    by (auto split: sum.splits)
  then show ?case using Cons by (auto intro: steps_quiet_trans recover_one_steps)
qed simp

lemma recover_leases_steps: "recover_leases codec now_ms which db = (Ok x, db') \<Longrightarrow> steps db [] db'"
  by (auto simp: recover_leases_def transaction_Ok and_then_Inr_iff active_leases_def list_all_iff
      intro!: recover_loop_steps)

lemma append_leased_event_steps: "append_leased_event lease now_ms kind payload db = (Ok x, db') \<Longrightarrow> steps db [] db'"
  by (auto simp: append_leased_event_def transaction_Ok and_then_Inr_iff dest: append_event_steps)

lemma finish_tx_cases:
  assumes "finish_tx lease now_ms terminal_state result db = Ok (res, db')"
  obtains live now state payload written kind db1 n where
      "sql_integer now_ms = Ok now" "row_where (holds_lease lease now) (db_requests db) = Some live"
      "rq_state live = Leased \<and> rq_result live = None \<and> terminal_state \<noteq> TerminalState.Cancelled
         \<and> state = TerminalState_request_state terminal_state \<and> payload = result \<and> written = Some result
       \<or> rq_state live = RequestState.CancellationRequested \<and> rq_result live = Some payload
         \<and> state = RequestState.Cancelled \<and> written = None"
      "execute (update_requests (\<lambda>r. holds_lease lease now r \<and> rq_state r = rq_state live)
         (end_request state now written)) db = Ok db1"
      "append_event_tx (le_request_id lease) now kind [] db1 = Ok (n, db')"
      "res = \<lparr>sr_state = state, sr_payload = payload, sr_completed_at_ms = now_ms\<rparr>"
proof -
  obtain now live where now: "sql_integer now_ms = Ok now"
    and live: "row_where (holds_lease lease now) (db_requests db) = Some live"
    using assms by (auto simp: finish_tx_def and_then_Inr_iff ok_or_Inr_iff)
  have active: "is_active_state (rq_state live)" using row_where_Some [OF live] holds_leaseD by blast
  then show thesis
    using assms now live that
    by (cases "rq_state live"; cases "rq_result live")
      (auto simp: finish_tx_def and_then_Inr_iff is_active_state_def Let_def split: if_splits)
qed

lemma finish_tx_steps:
  assumes "finish_tx lease now_ms terminal_state result db = Ok (res, db')"
  shows "steps db [] db'"
  using assms
proof (cases rule: finish_tx_cases)
  case (1 live now state payload written kind db1 n)
  have "is_terminal_state (TerminalState_request_state terminal_state)"
    by (cases terminal_state) (simp_all add: is_terminal_state_def)
  then show ?thesis
    using 1(3) by (intro move_event_steps [OF 1(4,5)])
      (auto dest: holds_leaseD intro: row_step.conclude row_step.conclude_cancel)
qed

lemma finish_flow_tx_cases:
  assumes "finish_terminal_flow_tx codec lease now_ms result db = Ok (res, db')"
  obtains live now cached db1 n state kind outcome where
      "sql_integer now_ms = Ok now" "row_where (holds_lease lease now) (db_requests db) = Some live"
      "rq_state live = Leased \<or> rq_state live = RequestState.CancellationRequested \<and> terminal_may_override_cancellation cached"
      "validated_terminal_flow_result codec (le_request_id lease) FLOW_OPERATION_KIND db = Ok (Some cached)"
      "ft_encoded_result (vt_terminal cached) = result"
      "terminal_request_resolution (ft_outcome (vt_terminal cached)) = (state, kind, outcome)"
      "execute (update_requests (\<lambda>r. holds_lease lease now r \<and> rq_state r = rq_state live)
         (end_request state now (Some result))) db = Ok db1"
      "append_event_tx (le_request_id lease) now kind [] db1 = Ok (n, db')"
      "res = \<lparr>sr_state = state, sr_payload = result, sr_completed_at_ms = now_ms\<rparr>"
  using assms
  by (auto simp: finish_terminal_flow_tx_def and_then_Inr_iff ok_or_Inr_iff Let_def split: if_splits prod.splits)

lemma finish_flow_tx_steps:
  assumes "finish_terminal_flow_tx codec lease now_ms result db = Ok (res, db')"
  shows "steps db [] db'"
  using assms
proof (cases rule: finish_flow_tx_cases)
  case (1 live now cached db1 n state kind outcome)
  then show ?thesis
    using resolution_terminal [of "ft_outcome (vt_terminal cached)"] override_resolution [of cached]
    by (intro move_event_steps [OF 1(7,8)]) (auto dest: holds_leaseD intro: row_step.conclude row_step.override_cancel)
qed

lemma fail_corrupt_steps:
  assumes "fail_corrupt_flow_authorization sha256 i now_ms result db = (Ok x, db')"
  shows "steps db [] db'"
proof -
  have "steps db [] db1'" if "execute (update_requests (\<lambda>r. rq_request_id r = i \<and> rq_state r = Queued
      \<and> rq_operation_kind r = FLOW_OPERATION_KIND) (end_request RequestState.Failed now (Some result))) db = Ok db1"
    "append_event_tx i now ''failed'' [] db1 = Ok (n, db1')" for now db1 n db1'
    using that by (rule move_event_steps) (auto intro: row_step.fail_queued)
  with assms show ?thesis
    by (auto simp: fail_corrupt_flow_authorization_def transaction_Ok and_then_Inr_iff Let_def
        split: if_splits sum.splits option.splits)
qed

lemma cancel_tx_cases:
  assumes "cancel_tx codec i now_ms result expected db = Ok (outcome, db')"
  obtains (same) "db' = db"
  | (moved) now stored p f kind db1 n where "sql_integer now_ms = Ok now" "request_row i db = Some stored"
      "execute (update_requests (\<lambda>r. rq_request_id r = i \<and> p r) f) db = Ok db1"
      "append_event_tx i now kind [] db1 = Ok (n, db')"
      "\<And>r. r = stored \<Longrightarrow> p r \<Longrightarrow> row_step None r (f r)"
proof -
  obtain now stored where now: "sql_integer now_ms = Ok now" and stored: "request_row i db = Some stored"
    using assms by (auto simp: cancel_tx_def and_then_Inr_iff ok_or_Inr_iff)
  obtain cached where cached: "(if is_active_state (rq_state stored)
      then validated_terminal_flow_result codec i (rq_operation_kind stored) db else Ok None) = Ok cached"
    using assms now stored by (auto simp: cancel_tx_def and_then_Inr_iff)
  define terminal where "terminal = (case cached of None \<Rightarrow> None
      | Some t \<Rightarrow> if rq_state stored = Leased \<or> terminal_may_override_cancellation t then Some t else None)"
  show thesis
  proof (cases terminal)
    case None
    show thesis
    proof (cases "rq_state stored")
      case Queued
      show thesis
        using assms now stored cached None Queued
        by (auto simp: cancel_tx_def terminal_def [symmetric] and_then_Inr_iff Let_def split: if_splits
            intro!: moved row_step.cancel_queued)
    next
      case Leased
      show thesis
        using assms now stored cached None Leased
        by (auto simp: cancel_tx_def terminal_def [symmetric] and_then_Inr_iff Let_def split: if_splits
            intro!: moved row_step.request_cancel)
    qed (use assms now stored cached None same in
        \<open>auto simp: cancel_tx_def terminal_def [symmetric] and_then_Inr_iff Let_def\<close>)
  next
    case (Some t)
    obtain state kind out where res: "terminal_request_resolution (ft_outcome (vt_terminal t)) = (state, kind, out)"
      by (rule prod_cases3)
    have kind_of: "is_active_state (rq_state stored)" "rq_state stored = Leased \<or> terminal_may_override_cancellation t"
      using cached Some by (auto simp: terminal_def split: option.splits if_splits)
    have step: "row_step None stored (end_request state now (Some (ft_encoded_result (vt_terminal t))) stored)"
      using kind_of resolution_terminal [of "ft_outcome (vt_terminal t)"] override_resolution [of t] res
      by (auto simp: is_active_state_def intro: row_step.conclude row_step.override_cancel)
    show thesis
      using assms now stored cached Some res step
      by (auto simp: cancel_tx_def terminal_def [symmetric] and_then_Inr_iff Let_def split: if_splits
          intro!: moved)
  qed
qed

lemma request_row_unique:
  assumes "schema_ok db" and "r \<in> set (db_requests db)" and "rq_request_id r = i"
  shows "request_row i db = Some r"
  using row_where_key [of rq_request_id "db_requests db" r i "\<lambda>s. rq_request_id s = i" "\<lambda>_. True"]
    assms schema_okD(2) [OF assms(1)] by (simp add: request_row_def requests_ok_def)

lemma cancel_tx_steps:
  assumes "cancel_tx codec i now_ms result expected db = Ok (outcome, db')" and "schema_ok db"
  shows "steps db [] db'"
  using assms(1)
proof (cases rule: cancel_tx_cases)
  case (moved now stored p f kind db1 n)
  show ?thesis
    by (rule move_event_steps [OF moved(3,4)])
      (use moved(2,5) request_row_unique [OF assms(2)] in fastforce)
qed simp

lemma insert_checkpoint_steps: "insert_flow_checkpoint save bytes ov db = Ok db' \<Longrightarrow> steps db [] db'"
  by (auto simp: insert_flow_checkpoint_def and_then_Inr_iff intro!: quiet_steps quiet_same_projects)

lemma update_checkpoint_steps: "update_flow_checkpoint save bytes revision ov db = Ok db' \<Longrightarrow> steps db [] db'"
  by (auto simp: update_flow_checkpoint_def and_then_Inr_iff Let_def split: if_splits
      intro!: quiet_steps quiet_same_projects)

lemma append_transition_steps: "append_flow_transition i now t bytes db = Ok (e, db') \<Longrightarrow> steps db [] db'"
  by (auto simp: append_flow_transition_def and_then_Inr_iff Let_def split: option.splits dest: append_event_steps)

lemma repeat_Ok:
  assumes "repeat_flow_checkpoint sha256 save tbytes stored previous ov db = Ok ((revision, at, disposition, ev), db')"
  shows "db' = db" "revision = sc_checkpoint_revision stored" "disposition = Unchanged" "ev = None"
    "sc_terminal_result stored = sv_terminal_result save" "at = sc_updated_at_ms stored"
  using assms by (auto simp: repeat_flow_checkpoint_def Let_def and_then_Inr_iff split: if_splits)

lemma advance_Ok:
  assumes "advance_flow_checkpoint sha256 save bytes tbytes now stored previous ov db = Ok ((revision, at, disposition, ev), db')"
  obtains db1 where "sv_expected_revision save = sc_checkpoint_revision stored"
    "checked_add (sv_expected_revision save) 1 = Some revision"
    "update_flow_checkpoint save bytes revision ov db = Ok db1"
    "append_flow_transition (le_request_id (sv_lease save)) now (sv_transition save) tbytes db1 = Ok (ev, db')"
    "disposition = Updated" "at = sv_updated_at_ms save"
  using assms unfolding advance_flow_checkpoint_def Let_def
  by (auto simp: and_then_Inr_iff ok_or_Inr_iff simp del: not_None_eq split: if_split_asm)

lemma persist_cases:
  assumes "persist_flow_checkpoint codec sha256 save bytes tbytes now existing ov db = Ok ((revision, at, disposition, ev), db')"
  obtains (created) db1 where "existing = None" "sv_expected_revision save = 0" "revision = 1"
      "insert_flow_checkpoint save bytes ov db = Ok db1"
      "append_flow_transition (le_request_id (sv_lease save)) now (sv_transition save) tbytes db1 = Ok (ev, db')"
      "disposition = FlowCheckpointDisposition.Created" "at = sv_updated_at_ms save"
  | (unchanged) stored where "existing = Some stored" "sc_snapshot_bytes stored = bytes" "db' = db"
      "revision = sc_checkpoint_revision stored" "disposition = Unchanged" "ev = None"
      "sc_terminal_result stored = sv_terminal_result save" "at = sc_updated_at_ms stored"
  | (updated) stored db1 where "existing = Some stored" "sc_snapshot_bytes stored \<noteq> bytes"
      "sv_expected_revision save = sc_checkpoint_revision stored"
      "checked_add (sv_expected_revision save) 1 = Some revision"
      "update_flow_checkpoint save bytes revision ov db = Ok db1"
      "append_flow_transition (le_request_id (sv_lease save)) now (sv_transition save) tbytes db1 = Ok (ev, db')"
      "disposition = Updated" "at = sv_updated_at_ms save"
proof (cases existing)
  case None
  with assms show thesis
    by (auto simp: persist_flow_checkpoint_def Let_def and_then_Inr_iff split: if_splits intro!: created)
next
  case (Some stored)
  then obtain previous where
    "(if sc_snapshot_bytes stored = bytes
      then repeat_flow_checkpoint sha256 save tbytes stored previous ov db
      else advance_flow_checkpoint sha256 save bytes tbytes now stored previous ov db)
      = Ok ((revision, at, disposition, ev), db')"
    using assms by (auto simp: persist_flow_checkpoint_def Let_def and_then_Inr_iff)
  then show thesis
    using Some repeat_Ok unchanged updated by (cases "sc_snapshot_bytes stored = bytes") (simp, metis advance_Ok)+
qed

lemma save_checkpoint_cases:
  assumes "save_flow_checkpoint_tx codec sha256 save db = Ok (out, db')"
  obtains now bytes tbytes ov existing request_state revision at disposition ev where
    "sn_run_id (sv_snapshot save) = le_request_id (sv_lease save)"
    "validate_flow_terminal_result (sv_snapshot save) (sv_transition save) (sv_terminal_result save) = Ok ()"
    "encode_snapshot codec (sv_snapshot save) = Ok bytes"
    "sql_integer (sv_updated_at_ms save) = Ok now"
    "ensure_live_flow_lease (sv_lease save) now db = Ok request_state"
    "terminal_cancellation_override save request_state = Ok ov"
    "read_flow_checkpoint (le_request_id (sv_lease save)) db = Ok existing"
    "persist_flow_checkpoint codec sha256 save bytes tbytes now existing ov db = Ok ((revision, at, disposition, ev), db')"
    "out = \<lparr>so_checkpoint = \<lparr>fc_request_id = le_request_id (sv_lease save), fc_snapshot = sv_snapshot save,
       fc_checkpoint_revision = revision, fc_updated_at_ms = at, fc_terminal_result = sv_terminal_result save\<rparr>,
       so_disposition = disposition, so_event = ev\<rparr>"
  using assms
  by (auto simp: save_flow_checkpoint_tx_def validate_flow_request_identity_def fail_if_Inr_iff and_then_Inr_iff Let_def
      split: if_split_asm)

lemma save_checkpoint_steps:
  assumes "save_flow_checkpoint_tx codec sha256 save db = Ok (x, db')"
  shows "steps db [] db'"
proof -
  obtain bytes tbytes now existing ov revision at disposition ev where
    "persist_flow_checkpoint codec sha256 save bytes tbytes now existing ov db = Ok ((revision, at, disposition, ev), db')"
    using save_checkpoint_cases [OF assms] .
  then show ?thesis
    by (cases rule: persist_cases)
      (auto dest!: insert_checkpoint_steps update_checkpoint_steps append_transition_steps intro: steps_quiet_trans)
qed

section \<open>Callers, policy and audit\<close>

lemma append_audit_steps: "append_audit_event_tx event db = Ok (x, db') \<Longrightarrow> steps db [] db'"
proof -
  have inserted: "steps d [] d'" if "execute (insert_audit_row e at r) d = Ok d'" for e at r d d'
    using that by (rule quiet_steps) (simp add: insert_audit_row_def Let_def quiet_same_projects)
  have counted: "steps d [] d'" if "execute (count_activity day) d = Ok d'" for day d d'
    using that by (rule quiet_steps) (simp add: count_activity_def quiet_same_projects)
  show "append_audit_event_tx event db = Ok (x, db') \<Longrightarrow> steps db [] db'"
    by (auto simp: append_audit_event_tx_def and_then_Inr_iff Let_def split: option.splits if_splits
        dest!: inserted counted intro: steps_quiet_trans)
qed

lemma approval_update_steps: "execute (update_approvals p f) db = Ok db' \<Longrightarrow> steps db [] db'"
  by (rule quiet_steps) (auto simp: update_approvals_def quiet_same_projects)

lemma resolve_bound_steps:
  "resolve_bound_approval bound i request fp now now_ms db = Ok (x, db') \<Longrightarrow> steps db [] db'"
  by (auto simp: resolve_bound_approval_def and_then_Inr_iff Let_def split: option.splits if_splits ApprovalState.splits
      dest!: approval_update_steps)

lemma request_approval_steps:
  "request_approval i request fp now now_ms ttl bound db = Ok (x, db') \<Longrightarrow> steps db [] db'"
  by (auto simp: request_approval_def insert_approval_def and_then_Inr_iff split: if_splits
      intro!: quiet_steps quiet_same_projects)

lemma authorize_flow_approval_steps:
  "authorize_flow_with_approval sha256 i request request_id now now_ms ttl db = Ok (x, db') \<Longrightarrow> steps db [] db'"
  by (auto simp: authorize_flow_with_approval_def resolve_flow_approval_def and_then_Inr_iff Let_def
      split: option.splits dest: resolve_bound_steps request_approval_steps)

lemma authorize_tx_steps: "authorize_tx sha256 i request now now_ms ttl db = Ok (x, db') \<Longrightarrow> steps db [] db'"
  by (auto simp: authorize_tx_def authorize_with_approval_def resolve_approval_tx_def and_then_Inr_iff Let_def
      split: option.split_asm if_split_asm Decision.split_asm dest: resolve_bound_steps request_approval_steps)
    (metis Decision.exhaust)+

lemma insert_authorization_steps:
  "insert_flow_authorization sha256 i request approval now db = Ok db' \<Longrightarrow> steps db [] db'"
  unfolding insert_flow_authorization_def by (erule quiet_steps) (simp add: quiet_same_projects)

lemma accept_authorized_cases:
  assumes "accept_authorized sha256 request required now db = Ok (out, db')"
  obtains accepted approval db1 where "accept_tx (aq_accept request) now db = Ok (accepted, db1)"
    "approval = (if required then aq_approval_id request else None)" "required \<Longrightarrow> approval \<noteq> None"
    "insert_flow_authorization sha256 (accept_outcome_request_id accepted) request approval now db1 = Ok db'"
    "out = Accepted accepted"
  using assms by (auto simp: accept_authorized_def and_then_Inr_iff ok_or_Inr_iff split: if_splits)

lemma accept_authorized_steps:
  "accept_authorized sha256 request required now db = Ok (out, db') \<Longrightarrow> steps db [] db'"
  by (erule accept_authorized_cases)
    (auto dest!: accept_tx_steps insert_authorization_steps intro: steps_quiet_trans)

lemma authorize_new_steps:
  assumes "authorize_new_flow_run sha256 i request now now_ms ttl db = Ok (out, db')"
  shows "steps db [] db'"
  using assms unfolding authorize_new_flow_run_def
  by (auto simp: and_then_Inr_iff Let_def split: if_split_asm
      dest: accept_authorized_steps authorize_flow_approval_steps intro: steps_quiet_trans)

lemma authorize_flow_run_steps: "authorize_flow_run sha256 i request now_ms ttl db = (Ok x, db') \<Longrightarrow> steps db [] db'"
  unfolding authorize_flow_run_def transaction_Ok
  by (auto simp: and_then_Inr_iff split: if_split_asm option.splits
      dest: authorize_new_steps append_audit_steps intro: steps_quiet_trans)

lemma access_steps:
  "register_caller sha256 c credential kind now db = (Ok x1, db') \<Longrightarrow> steps db [] db'"
  "revoke_caller c now db = (Ok x2, db') \<Longrightarrow> steps db [] db'"
  "revoke_grant g now db = (Ok x3, db') \<Longrightarrow> steps db [] db'"
  "reset_access db = (Ok x4, db') \<Longrightarrow> steps db [] db'"
  "reset_history db = (Ok x5, db') \<Longrightarrow> steps db [] db'"
  "decide_approval a project approver decision now db = (Ok x6, db') \<Longrightarrow> steps db [] db'"
  "prune_audit_events project' now limit db = (Ok x7, db') \<Longrightarrow> steps db [] db'"
proof -
  note simps = register_caller_def revoke_caller_def revoke_grant_def reset_access_def reset_history_def
    decide_approval_def prune_audit_events_def transaction_Ok and_then_Inr_iff Let_def
  have quiet_exec: "steps d [] d'" if "execute f d = Ok d'" "db_requests (f d) = db_requests d"
    "db_events (f d) = db_events d" "db_projects (f d) = db_projects d" for f d d'
    using that by (auto intro: quiet_steps quiet_same_projects)
  show "register_caller sha256 c credential kind now db = (Ok x1, db') \<Longrightarrow> steps db [] db'"
    by (auto simp: simps split: option.splits if_splits dest!: quiet_exec)
  show "revoke_caller c now db = (Ok x2, db') \<Longrightarrow> steps db [] db'"
    by (auto simp: simps split: option.splits if_splits dest!: quiet_exec)
  show "revoke_grant g now db = (Ok x3, db') \<Longrightarrow> steps db [] db'"
    by (auto simp: simps split: option.splits if_splits dest!: quiet_exec intro: steps_quiet_trans)
  show "reset_access db = (Ok x4, db') \<Longrightarrow> steps db [] db'"
    by (auto simp: simps dest!: quiet_exec intro: steps_quiet_trans)
  show "reset_history db = (Ok x5, db') \<Longrightarrow> steps db [] db'"
    by (auto simp: simps dest!: quiet_exec intro: steps_quiet_trans)
  show "decide_approval a project approver decision now db = (Ok x6, db') \<Longrightarrow> steps db [] db'"
    by (auto simp: simps split: if_splits ApprovalDecision.splits dest!: approval_update_steps)
  show "prune_audit_events project' now limit db = (Ok x7, db') \<Longrightarrow> steps db [] db'"
    by (auto simp: simps dest!: quiet_exec)
qed

lemma put_grant_steps: "put_grant grant now db = (Ok x, db') \<Longrightarrow> steps db [] db'"
  unfolding put_grant_def transaction_Ok
  by (auto simp: and_then_Inr_iff Let_def split: if_split_asm ResourceScope.splits prod.splits
      dest!: quiet_steps [OF _ quiet_ensure_project] quiet_steps [OF _ quiet_same_projects]
      intro: steps_quiet_trans)

lemma remember_root_steps: "remember_project_root project root db = (Ok x, db') \<Longrightarrow> steps db [] db'"
  unfolding remember_project_root_def transaction_Ok
  by (auto simp: and_then_Inr_iff dest!: quiet_steps [OF _ quiet_ensure_project] quiet_steps [OF _ quiet_root]
      intro: steps_quiet_trans)

section \<open>Any operation\<close>

lemma audited_steps:
  "authorize sha256 i request now ttl db = (Ok x1, db') \<Longrightarrow> steps db [] db'"
  "authorize_audited sha256 i request audit now ttl db = (Ok x2, db') \<Longrightarrow> steps db [] db'"
  "consume_effect_approval_audited sha256 request audit now db = (Ok x3, db') \<Longrightarrow> steps db [] db'"
  "append_audit_event event db = (Ok x4, db') \<Longrightarrow> steps db [] db'"
  unfolding authorize_def authorize_audited_def consume_effect_approval_audited_def append_audit_event_def
    transaction_Ok
  by (auto simp: and_then_Inr_iff resolve_approval_tx_def split: if_split_asm
      dest: authorize_tx_steps append_audit_steps resolve_bound_steps intro: steps_quiet_trans)

fun reply_grants :: "StoreReply \<Rightarrow> (RequestId \<times> string) list" where
  "reply_grants (ClaimReply (Some lr)) = [(le_request_id (lr_lease lr), le_token (lr_lease lr))]"
| "reply_grants _ = []"

lemma store_op_failed:
  assumes "apply_store_op codec sha256 op db = (Err e, db')"
  shows "db' = db"
proof -
  have failed: "d' = db" if "reply f (transaction body db) = (Err e, d')"
    for f :: "'a \<Rightarrow> StoreReply" and body d'
    using that by (auto simp: reply_def transaction_def and_then_Inl_iff split: sum.splits)
  note ops = accept_def authorize_flow_run_def claim_def renew_def recover_leases_def append_leased_event_def
    save_flow_checkpoint_def finish_def finish_terminal_flow_def fail_corrupt_flow_authorization_def
    cancel_request_def register_caller_def revoke_caller_def put_grant_def revoke_grant_def authorize_def
    authorize_audited_def consume_effect_approval_audited_def decide_approval_def append_audit_event_def
    prune_audit_events_def remember_project_root_def reset_access_def reset_history_def
  from assms show ?thesis
    by (cases op) (auto simp only: apply_store_op.simps ops dest!: failed)
qed

lemma store_op_steps:
  assumes "apply_store_op codec sha256 op db = (Ok out, db')" and "schema_ok db"
  shows "steps db (reply_grants out) db'"
proof -
  have reply_Ok: "\<exists>x. fst r = Ok x \<and> out = f x \<and> r = (Ok x, db')"
    if "reply f r = (Ok out, db')" for f :: "'a \<Rightarrow> StoreReply" and r
    using that by (cases r) (auto simp: reply_def and_then_Inr_iff)
  show ?thesis
  proof (cases op)
    case (Claim token owner now d)
    then obtain res where res: "claim_tx sha256 token owner now d db = Ok (res, db')" "out = ClaimReply res"
      using assms(1) by (auto simp: claim_def transaction_Ok dest!: reply_Ok)
    then show ?thesis using claim_tx_steps [OF res(1) assms(2)] by (cases res) simp_all
  qed (use assms in \<open>auto simp: transaction_Ok accept_def finish_def finish_terminal_flow_def cancel_request_def
      save_flow_checkpoint_def and_then_Inr_iff dest!: reply_Ok split: if_split_asm
      intro: accept_tx_steps authorize_flow_run_steps renew_steps recover_leases_steps append_leased_event_steps
        save_checkpoint_steps finish_tx_steps finish_flow_tx_steps fail_corrupt_steps cancel_tx_steps
        access_steps put_grant_steps remember_root_steps audited_steps\<close>)
qed

end
