(* ===== verification/Store_Guarantees.thy ===== *)
theory Store_Guarantees
  imports Store_Operations
begin

text \<open>
  What the store promises over any history of operations: requests of a project run one at a time in
  the order they were accepted, a lease that was superseded can do nothing, a finished request never
  changes, a request is accepted once per idempotency key, and its events are replayed completely.
\<close>

section \<open>Histories\<close>

type_synonym store_label = "StoreOp \<times> (StoreError + StoreReply)"

definition store_step :: "Codec \<Rightarrow> (string \<Rightarrow> string) \<Rightarrow> Db \<Rightarrow> store_label \<Rightarrow> Db \<Rightarrow> bool" where
  "store_step codec sha256 db l db' \<longleftrightarrow> apply_store_op codec sha256 (fst l) db = (snd l, db')"

definition reachable_store :: "Codec \<Rightarrow> (string \<Rightarrow> string) \<Rightarrow> Db \<Rightarrow> bool" where
  "reachable_store codec sha256 = reachable store_init (store_step codec sha256)"

fun label_grants :: "store_label \<Rightarrow> (RequestId \<times> string) list" where
  "label_grants (_, Inr out) = reply_grants out"
| "label_grants (_, Inl _) = []"

definition history_grants :: "store_label list \<Rightarrow> (RequestId \<times> string) list" where
  "history_grants ls = concat (map label_grants ls)"

lemma store_step_steps: "store_inv db \<Longrightarrow> store_step codec sha256 db l db' \<Longrightarrow> steps db (label_grants l) db'"
  by (cases l; cases "snd l")
    (auto simp: store_step_def store_inv_def dest: store_op_failed intro: store_op_steps)

lemma steps_inv: "steps db gs db' \<Longrightarrow> store_inv db \<Longrightarrow> store_inv db'"
  by (auto simp: steps_def intro: store_tx.path_inv)

interpretation store_runs: invariant_system store_init "store_step codec sha256" store_inv
  for codec :: Codec and sha256 :: "string \<Rightarrow> string"
  by unfold_locales (auto intro: store_tx.init_inv steps_inv store_step_steps)

lemma history_steps:
  "path (store_step codec sha256) db ls db' \<Longrightarrow> store_inv db \<Longrightarrow> steps db (history_grants ls) db'"
proof (induction rule: path.induct)
  case (cons db l db' ls db'')
  have "steps db (label_grants l) db'" by (rule store_step_steps [OF cons.prems cons.hyps(1)])
  moreover have "steps db' (history_grants ls) db''"
    by (rule cons.IH) (rule store_runs.step_inv [OF cons.prems cons.hyps(1)])
  ultimately show ?case using steps_trans by (simp add: history_grants_def)
qed (simp add: history_grants_def)

lemma reachable_store_inv: "reachable_store codec sha256 db \<Longrightarrow> store_inv db"
  unfolding reachable_store_def by (rule store_runs.reachable_inv)

lemma empty_store_inv: "store_inv empty_db"
  by (rule store_tx.init_inv) (simp add: store_init_def)

text \<open>C26: Every operation, whether it succeeds or fails, keeps the store well formed: every constraint of the
  schema holds, the requests of a project stand in the order of their sequences below the counter of
  the project, and the events of each request are numbered 1, 2, 3 and so on.\<close>

theorem store_operations_invariant:
  assumes "store_inv db" and "apply_store_op codec sha256 op db = (r, db')"
  shows "store_inv db'"
  by (rule store_runs.step_inv [OF assms(1), of codec sha256 "(op, r)"]) (simp add: store_step_def assms(2))

section \<open>What a statement does to a request\<close>

lemma request_row_Some: "request_row i db = Some r \<Longrightarrow> r \<in> set (db_requests db) \<and> rq_request_id r = i"
  by (auto simp: request_row_def dest: row_where_Some)

lemma row_step_id: "row_step token r r' \<Longrightarrow> rq_request_id r' = rq_request_id r"
  using row_step_same by (auto simp: same_request_def)

lemma request_row_move:
  assumes "\<And>r. r \<in> set (db_requests db) \<Longrightarrow> p r \<Longrightarrow> row_step token r (f r)"
  shows "request_row i (update_requests p f db) = map_option (\<lambda>r. if p r then f r else r) (request_row i db)"
  unfolding request_row_def update_requests_sel
  by (rule row_where_update) (simp add: row_step_id [OF assms])

lemma tx_step_row:
  assumes "tx_step db l db'" and "request_row i db = Some r"
  shows "\<exists>r' token. request_row i db' = Some r' \<and> (r' = r \<and> token = None \<or> row_step token r r')
    \<and> (\<forall>t. token = Some t \<longrightarrow> l = Some (i, t))"
  using assms(1)
proof (cases rule: tx_step.cases)
  case (move p request_id token f)
  have "request_row i db' = map_option (\<lambda>r. if p r then f r else r) (request_row i db)"
    unfolding move(2) using move(3) by (intro request_row_move) blast
  then show ?thesis using assms(2) move(1,3) request_row_Some [OF assms(2)] by (cases "p r") auto
next
  case (event request_id kind payload at)
  then show ?thesis using assms(2) by (auto simp: request_row_def)
next
  case (enqueue queue_sequence request now)
  then show ?thesis using assms(2)
    by (auto simp: request_row_def enqueue_sel insert_request_def row_where_snoc)
next
  case other
  then show ?thesis using assms(2) by (auto simp: request_row_def)
qed

lemma tx_step_new:
  assumes "tx_step db l db'" and "request_row i db = None" and "request_row i db' = Some r"
  shows "rq_state r = Queued \<and> rq_lease_token r = None"
  using assms(1)
proof (cases rule: tx_step.cases)
  case (move p request_id token f)
  have "request_row i db' = map_option (\<lambda>r. if p r then f r else r) (request_row i db)"
    unfolding move(2) using move(3) by (intro request_row_move) blast
  then show ?thesis using assms(2,3) by simp
next
  case (enqueue queue_sequence request now)
  then show ?thesis using assms(2,3)
    by (auto simp: request_row_def enqueue_sel insert_request_def row_where_snoc split: if_splits)
qed (use assms(2,3) in \<open>auto simp: request_row_def\<close>)

section \<open>The life of a request\<close>

text \<open>The specification: a request appears queued and then follows \<open>lifecycle\<close>.\<close>

inductive request_life :: "RequestState option \<Rightarrow> RequestState option \<Rightarrow> bool" where
  absent: "request_life None None"
| appears: "lifecycle\<^sup>*\<^sup>* Queued s \<Longrightarrow> request_life None (Some s)"
| lives: "lifecycle\<^sup>*\<^sup>* s t \<Longrightarrow> request_life (Some s) (Some t)"

definition state_of :: "Db \<Rightarrow> RequestId \<Rightarrow> RequestState option" where
  "state_of db i = map_option rq_state (request_row i db)"

inductive_simps request_life_None: "request_life None s"
inductive_simps request_life_Some: "request_life (Some s) t"

lemma request_life_trans: "request_life a b \<Longrightarrow> request_life b c \<Longrightarrow> request_life a c"
  by (auto elim!: request_life.cases intro: request_life.intros rtranclp_trans)

lemma tx_step_life:
  assumes "tx_step db l db'"
  shows "request_life (state_of db i) (state_of db' i)"
proof (cases "request_row i db")
  case None
  then show ?thesis using tx_step_new [OF assms None]
    by (cases "request_row i db'") (auto simp: state_of_def intro: request_life.intros)
next
  case (Some r)
  from tx_step_row [OF assms this] obtain r' token where "request_row i db' = Some r'" "r' = r \<or> row_step token r r'"
    by auto
  then show ?thesis using Some row_step_lifecycle [of token r r']
    by (auto simp: state_of_def intro!: request_life.lives)
qed

lemma path_life: "path tx_step db ls db' \<Longrightarrow> request_life (state_of db i) (state_of db' i)"
proof (induction rule: path.induct)
  case (nil db)
  then show ?case by (cases "state_of db i") (auto intro: request_life.intros)
next
  case (cons db l db' ls db'')
  then show ?case using tx_step_life request_life_trans by blast
qed

text \<open>C17: In any history, every request lives as \<open>lifecycle\<close> says: it appears queued, is leased and
  released, is asked to cancel only while leased, and ends in one of three states it never leaves.\<close>

theorem store_refines_lifecycle:
  assumes "reachable_store codec sha256 db" and "path (store_step codec sha256) db ls db'"
  shows "request_life (state_of db i) (state_of db' i)"
  using history_steps [OF assms(2) reachable_store_inv [OF assms(1)]] path_life by (auto simp: steps_def)

section \<open>Finished requests\<close>

lemma path_terminal:
  "path tx_step db ls db' \<Longrightarrow> request_row i db = Some r \<Longrightarrow> is_terminal_state (rq_state r) \<Longrightarrow>
     request_row i db' = Some r"
proof (induction rule: path.induct)
  case (cons db l db' ls db'')
  then show ?case using tx_step_row [OF cons.hyps(1) cons.prems(1)] row_step_not_terminal by blast
qed

lemma path_same:
  "path tx_step db ls db' \<Longrightarrow> request_row i db = Some r \<Longrightarrow> \<exists>r'. request_row i db' = Some r' \<and> same_request r r'"
proof (induction arbitrary: r rule: path.induct)
  case (nil db)
  then show ?case by (simp add: same_request_def)
next
  case (cons db l db' ls db'')
  from tx_step_row [OF cons.hyps(1) cons.prems] obtain r1 where r1: "request_row i db' = Some r1" "same_request r r1"
    using row_step_same by (fastforce simp: same_request_def)
  from cons.IH [OF r1(1)] r1(2) show ?case by (auto simp: same_request_def)
qed

text \<open>C22: A finished request is never written again: no history of operations, of any caller or worker,
  changes its state, its result or any other column.\<close>

theorem finished_requests_final:
  assumes "reachable_store codec sha256 db" and "path (store_step codec sha256) db ls db'"
    and "request_row i db = Some r" and "is_terminal_state (rq_state r)"
  shows "request_row i db' = Some r"
  using history_steps [OF assms(2) reachable_store_inv [OF assms(1)]] path_terminal [OF _ assms(3,4)]
  by (auto simp: steps_def)

section \<open>Order of claims\<close>

lemma claim_Ok: "claim sha256 token owner now_ms d db = (Ok res, db') \<longleftrightarrow>
    claim_tx sha256 token owner now_ms d db = Ok (res, db')"
  by (simp add: claim_def transaction_Ok)

text \<open>C19: A claimed request is the first of its project that is not finished: every request of the
  project accepted before it has ended, and none accepted later holds a lease.\<close>

theorem claims_in_order:
  assumes "reachable_store codec sha256 db" and "claim sha256 token owner now_ms d db = (Ok (Some lr), db')"
  shows "\<exists>earlier r later. db_requests db = earlier @ r # later \<and> rq_request_id r = le_request_id (lr_lease lr)
     \<and> (\<forall>s \<in> set earlier. rq_project_id s = rq_project_id r \<longrightarrow> is_terminal_state (rq_state s))
     \<and> (\<forall>s \<in> set later. rq_project_id s = rq_project_id r \<longrightarrow> \<not> is_active_state (rq_state s))"
  using assms(2) [unfolded claim_Ok]
proof (cases rule: claim_tx_cases)
  case (leased r now expires_at expires_at_ms db1 n)
  then obtain earlier later where split: "db_requests db = earlier @ r # later"
    by (auto simp: in_set_conv_decomp)
  have ordered: "queue_ordered db" using reachable_store_inv [OF assms(1)] by (simp add: store_inv_def)
  have "is_terminal_state (rq_state s)" if s: "s \<in> set earlier" "rq_project_id s = rq_project_id r" for s
  proof -
    have "rq_queue_sequence s < rq_queue_sequence r"
      using ordered s unfolding queue_ordered_def split by (auto simp: sorted_wrt_append)
    then have "rq_state s \<noteq> Queued" "\<not> is_active_state (rq_state s)"
      using leased(6) s split by (auto simp: claimable_def list_ex_iff)
    then show ?thesis by (cases "rq_state s") (simp_all add: is_terminal_state_def is_active_state_def)
  qed
  moreover have "\<not> is_active_state (rq_state s)" if "s \<in> set later" "rq_project_id s = rq_project_id r" for s
    using leased(6) that split by (auto simp: claimable_def list_ex_iff)
  ultimately show ?thesis
    using split leased(10) by (intro exI [of _ earlier] exI [of _ r] exI [of _ later]) simp
qed simp

section \<open>Fencing\<close>

definition grants_of :: "RequestId \<Rightarrow> (RequestId \<times> string) list \<Rightarrow> string list" where
  "grants_of i gs = map snd (filter (\<lambda>g. fst g = i) gs)"

definition token_inv :: "(RequestId \<times> string) list \<Rightarrow> Db \<Rightarrow> bool" where
  "token_inv gs db \<longleftrightarrow> (\<forall>i r t. request_row i db = Some r \<longrightarrow> rq_lease_token r = Some t \<longrightarrow>
     last_opt (grants_of i gs) = Some t)"

lemma token_active:
  "schema_ok db \<Longrightarrow> request_row i db = Some r \<Longrightarrow> rq_lease_token r = Some t \<Longrightarrow> is_active_state (rq_state r)"
  using request_row_Some schema_okD(2)
  by (fastforce simp: requests_ok_def list_all_iff request_row_ok_def lease_shape_def)

lemma grants_of_snoc: "grants_of i (gs @ [g]) = (if fst g = i then grants_of i gs @ [snd g] else grants_of i gs)"
  by (simp add: grants_of_def)

lemma last_opt_snoc [simp]: "last_opt (xs @ [x]) = Some x"
  by (simp add: last_opt_def)

lemma tx_step_token:
  assumes "tx_step db l db'" and "store_inv db" and "token_inv gs db"
  shows "token_inv (gs @ granted [l]) db'"
  unfolding token_inv_def
proof (intro allI impI)
  fix i r' t assume r': "request_row i db' = Some r'" "rq_lease_token r' = Some t"
  have active: "is_active_state (rq_state r')"
    using tx_step_inv [OF assms(2,1)] token_active [OF _ r'] by (simp add: store_inv_def)
  obtain r where r: "request_row i db = Some r"
    using tx_step_new [OF assms(1) _ r'(1)] r'(2) by (cases "request_row i db") auto
  obtain token where token: "r' = r \<and> token = None \<or> row_step token r r'" "\<forall>t. token = Some t \<longrightarrow> l = Some (i, t)"
    using tx_step_row [OF assms(1) r] r'(1) by auto
  show "last_opt (grants_of i (gs @ granted [l])) = Some t"
  proof (cases token)
    case (Some t')
    with token row_step_token [of token r r'] r'(2) have "t' = t" "l = Some (i, t)" by auto
    then show ?thesis by (simp add: grants_of_snoc)
  next
    case None
    with token row_step_token [of token r r'] r'(2) active have same: "rq_lease_token r = Some t" by auto
    with assms(3) r have last: "last_opt (grants_of i gs) = Some t" by (simp add: token_inv_def)
    show ?thesis
    proof (cases l)
      case (Some g)
      have "fst g \<noteq> i"
      proof
        assume g: "fst g = i"
        from assms(1) Some show False
        proof (cases rule: tx_step.cases)
          case (move p request_id token' f)
          then obtain s where s: "s \<in> set (db_requests db)" "p s" and g': "g = (request_id, the token')" "token' \<noteq> None"
            using Some by (cases token') auto
          have "rq_request_id s = i" using move(3) [OF s] g g' by simp
          then have "s = r" using request_row_unique [of db s i] s r assms(2) by (simp add: store_inv_def)
          moreover have "rq_state s = Queued" using move(3) [OF s] g'(2) by (auto elim: row_step.cases)
          ultimately show False
            using token_active [of db i r t] same r assms(2) by (simp add: store_inv_def is_active_state_def)
        qed simp_all
      qed
      then show ?thesis using last Some by (simp add: grants_of_snoc)
    qed (simp add: last)
  qed
qed

lemma path_token:
  "path tx_step db ls db' \<Longrightarrow> store_inv db \<Longrightarrow> token_inv gs db \<Longrightarrow> token_inv (gs @ granted ls) db'"
proof (induction arbitrary: gs rule: path.induct)
  case (cons db l db' ls db'')
  have "token_inv ((gs @ granted [l]) @ granted ls) db''"
    by (rule cons.IH [OF tx_step_inv [OF cons.prems(1) cons.hyps(1)] tx_step_token [OF cons.hyps(1) cons.prems]])
  then show ?case by (cases l) simp_all
qed simp

fun op_lease :: "StoreOp \<Rightarrow> Lease option" where
  "op_lease (Renew lease _ _) = Some lease"
| "op_lease (AppendEvent lease _ _ _) = Some lease"
| "op_lease (SaveCheckpoint save) = Some (sv_lease save)"
| "op_lease (Finish lease _ _ _) = Some lease"
| "op_lease (FinishFlow lease _ _) = Some lease"
| "op_lease _ = None"

lemma unheld_refused:
  assumes "op_lease op = Some lease" and "\<And>now. \<not> list_ex (holds_lease lease now) (db_requests db)"
  shows "\<exists>e. apply_store_op codec sha256 op db = (Err e, db)"
proof -
  have none: "row_where (holds_lease lease now) (db_requests db) = None"
    and zero: "matching (holds_lease lease now) (db_requests db) = 0" for now
    using assms(2) [of now] by (auto simp: row_where_None matching_def list_ex_iff filter_empty_conv)
  have no_Ok: "fst (apply_store_op codec sha256 op db) \<noteq> Ok out" for out
    using assms none zero
    by (cases op) (auto simp: reply_def and_then_Inr_iff renew_def append_leased_event_def save_flow_checkpoint_def
        finish_def finish_terminal_flow_def transaction_def ensure_live_lease_def fail_if_Inr_iff
        finish_tx_def finish_terminal_flow_tx_def save_flow_checkpoint_tx_def ensure_live_flow_lease_def Let_def
        split: sum.splits if_split_asm)
  show ?thesis
  proof (cases "apply_store_op codec sha256 op db")
    case (Pair r db')
    then obtain e where "r = Err e" using no_Ok by (cases r) auto
    with Pair store_op_failed show ?thesis by fastforce
  qed
qed

text \<open>C18: Lease tokens fence their holders: when tokens are drawn without repetition and a request was
  leased again, every operation under the earlier lease is refused and writes nothing, whenever it
  is tried and whatever else happened since.\<close>

theorem superseded_lease_refused:
  assumes "path (store_step codec sha256) empty_db ls db"
    and "distinct (map snd (history_grants ls))"
    and "history_grants ls = before @ (i, token) # middle @ (i, token') # after"
    and "le_request_id lease = i" and "le_token lease = token" and "op_lease op = Some lease"
  shows "\<exists>e. apply_store_op codec sha256 op db = (Err e, db)"
proof (rule unheld_refused [OF assms(6)])
  fix now
  obtain ks where ks: "path tx_step empty_db ks db" "granted ks = history_grants ls"
    using history_steps [OF assms(1) empty_store_inv] by (auto simp: steps_def)
  have "token_inv [] empty_db" by (simp add: token_inv_def request_row_def empty_db_def row_where_def)
  from path_token [OF ks(1) empty_store_inv this] have tokens: "token_inv (history_grants ls) db" by (simp add: ks(2))
  have inv: "store_inv db" using steps_inv [OF history_steps [OF assms(1) empty_store_inv] empty_store_inv] .
  show "\<not> list_ex (holds_lease lease now) (db_requests db)"
  proof
    assume "list_ex (holds_lease lease now) (db_requests db)"
    then obtain r where r: "r \<in> set (db_requests db)" "holds_lease lease now r" by (auto simp: list_ex_iff)
    then have "request_row i db = Some r" "rq_lease_token r = Some token"
      using request_row_unique [of db r i] inv assms(4,5) by (auto simp: holds_lease_def store_inv_def)
    with tokens have last: "last_opt (grants_of i (history_grants ls)) = Some token" by (simp add: token_inv_def)
    have "grants_of i (history_grants ls) = grants_of i before @ token # grants_of i middle @ token' # grants_of i after"
      by (simp add: assms(3) grants_of_def)
    with last have "token \<in> set (token' # grants_of i after)"
      by (metis last_opt_Some_iff last_appendR last_in_set list.distinct(1) last_ConsR append_is_Nil_conv)
    moreover have "set (grants_of i after) \<subseteq> set (map snd after)" by (auto simp: grants_of_def)
    ultimately show False using assms(2,3) by auto
  qed
qed

section \<open>Acceptance\<close>

lemma accepted_row:
  assumes "accept_tx request now db = Ok (out, db')" and "store_inv db"
  shows "\<exists>r. request_row (accept_outcome_request_id out) db' = Some r \<and> rq_caller_id r = ac_caller_id request
    \<and> rq_project_id r = ac_project_id request \<and> rq_idempotency_key r = ac_idempotency_key request
    \<and> rq_operation_kind r = ac_operation_kind request \<and> rq_operation r = ac_operation request"
  using assms(1)
proof (cases rule: accept_tx_cases)
  case (existing i s)
  then obtain r where "row_where (\<lambda>r. rq_caller_id r = ac_caller_id request \<and> rq_project_id r = ac_project_id request
      \<and> rq_idempotency_key r = ac_idempotency_key request) (db_requests db) = Some r"
    "rq_operation_kind r = ac_operation_kind request" "rq_operation r = ac_operation request" "rq_request_id r = i"
    by (auto simp: existing_acceptance_tx_def split: option.splits if_splits)
  with row_where_Some show ?thesis
    using existing(1,2) request_row_unique [of db r i] assms(2) by (fastforce simp: store_inv_def)
next
  case (created q db1 n)
  have rows: "db_requests db' = db_requests (insert_request request q now db)"
    using created(5,6) by (auto simp: append_event_tx_def Let_def and_then_Inr_iff execute_Inr_iff enqueue_sel)
  show ?thesis
    unfolding created(7) accept_outcome_request_id.simps request_row_def rows
    using created(2) by (simp add: insert_request_def row_where_snoc request_row_def)
qed

lemma key_row:
  assumes "schema_ok db" and "r \<in> set (db_requests db)"
  shows "row_where (\<lambda>s. rq_caller_id s = rq_caller_id r \<and> rq_project_id s = rq_project_id r
    \<and> rq_idempotency_key s = rq_idempotency_key r) (db_requests db) = Some r"
  using row_where_key [of "\<lambda>r. (rq_caller_id r, rq_project_id r, rq_idempotency_key r)" "db_requests db" r _ _ "\<lambda>_. True"]
    assms schema_okD(2) [OF assms(1)] by (simp add: requests_ok_def)

text \<open>C20: A request is accepted once per caller, project and idempotency key: after an acceptance, and any
  history, accepting the same operation under the same key gives the request accepted first, with its
  current state, and writes nothing, even under another request id.\<close>

theorem accepted_once:
  assumes "reachable_store codec sha256 db" and "accept request now_ms db = (Ok out, db1)"
    and "path (store_step codec sha256) db1 ls db2"
    and "ac_caller_id again = ac_caller_id request" "ac_project_id again = ac_project_id request"
      "ac_idempotency_key again = ac_idempotency_key request"
      "ac_operation_kind again = ac_operation_kind request" "ac_operation again = ac_operation request"
    and "uint later_ms < 2 ^ 63"
  shows "\<exists>s. accept again later_ms db2 = (Ok (Existing (accept_outcome_request_id out) s), db2)
     \<and> state_of db2 (accept_outcome_request_id out) = Some s"
proof -
  let ?i = "accept_outcome_request_id out"
  have inv: "store_inv db" by (rule reachable_store_inv [OF assms(1)])
  obtain now where tx: "accept_tx request now db = Ok (out, db1)" and kind: "ac_operation_kind request \<noteq> FLOW_OPERATION_KIND"
    using assms(2) by (auto simp: accept_def transaction_Ok and_then_Inr_iff split: if_splits)
  have inv1: "store_inv db1" by (rule steps_inv [OF accept_tx_steps [OF tx] inv])
  obtain r where r: "request_row ?i db1 = Some r" "rq_caller_id r = ac_caller_id request"
    "rq_project_id r = ac_project_id request" "rq_idempotency_key r = ac_idempotency_key request"
    "rq_operation_kind r = ac_operation_kind request" "rq_operation r = ac_operation request"
    using accepted_row [OF tx inv] by blast
  have st: "steps db1 (history_grants ls) db2" by (rule history_steps [OF assms(3) inv1])
  then obtain r2 where r2: "request_row ?i db2 = Some r2" "same_request r r2"
    using path_same r(1) unfolding steps_def by blast
  have "existing_acceptance_tx again db2 = Ok (Some (Existing ?i (rq_state r2)))"
    using key_row [of db2 r2] request_row_Some [OF r2(1)] r2(2) r steps_inv [OF st inv1] assms(4-8)
    by (simp add: existing_acceptance_tx_def same_request_def store_inv_def)
  then show ?thesis
    using r2(1) kind assms(7,9) by (simp add: accept_def transaction_def accept_tx_def sql_integer_def state_of_def)
qed

section \<open>Events\<close>

lemma tx_step_events:
  assumes "store_inv db" and "tx_step db l db'"
  shows "\<exists>new. request_events i db' = request_events i db @ new"
  using assms(2) by (cases rule: tx_step.cases) (auto simp: request_events_def insert_event_def enqueue_sel)

interpretation event_log: log_system store_init tx_step store_inv "\<lambda>db i. request_events i db"
  by unfold_locales (rule tx_step_events)

definition record_of :: "EventRow \<Rightarrow> EventRecord" where
  "record_of e = \<lparr>er_sequence = of_int (ev_sequence e), er_kind = ev_kind e, er_payload = ev_payload e,
     er_recorded_at_ms = of_int (ev_recorded_at_ms e)\<rparr>"

lemma collect_ok_map: "(\<And>x. x \<in> set xs \<Longrightarrow> f x = Ok (g x)) \<Longrightarrow> collect_ok (map f xs) = Ok (map g xs)"
  by (induction xs) simp_all

lemma numbered_filter:
  assumes "map ev_sequence es = map int [1..<Suc (length es)]"
  shows "filter (\<lambda>e. int k < ev_sequence e) es = drop k es"
  using assms
proof (induction es rule: rev_induct)
  case (snoc e es)
  then have "map ev_sequence es = map int [1..<Suc (length es)]" "ev_sequence e = int (length es) + 1"
    by (simp_all add: upt_Suc_append del: upt_Suc)
  then show ?case using snoc.IH by simp
qed simp

lemma events_small:
  assumes "store_inv db"
  shows "int (length (request_events i db)) < 2 ^ 63"
proof (cases "request_events i db = []")
  case False
  have "last (map ev_sequence (request_events i db)) = int (length (request_events i db))"
    using assms False by (simp add: store_inv_def events_numbered_def last_map upt_Suc_append del: upt_Suc)
  then have "ev_sequence (last (request_events i db)) = int (length (request_events i db))"
    using False by (simp add: last_map)
  moreover have "last (request_events i db) \<in> set (db_events db)"
    using last_in_set [OF False] by (auto simp: request_events_def)
  ultimately show ?thesis
    using assms by (auto simp: store_inv_def schema_ok_def events_ok_def list_all_iff event_row_ok_def positive_def is_i64_def)
qed simp

lemma replay_events:
  assumes "store_inv db"
  shows "collect_ok (map event_record (sort_key ev_sequence (filter (\<lambda>e. ev_request_id e = i \<and> ev_sequence e > int k) (db_events db))))
    = Ok (map record_of (drop k (request_events i db)))"
proof -
  have numbered: "map ev_sequence (request_events i db) = map int [1..<Suc (length (request_events i db))]"
    using assms by (simp add: store_inv_def events_numbered_def)
  have rows: "filter (\<lambda>e. ev_request_id e = i \<and> ev_sequence e > int k) (db_events db) = drop k (request_events i db)"
    using numbered_filter [OF numbered, of k] by (simp add: request_events_def conj_commute)
  have "sorted (map ev_sequence (request_events i db))"
    unfolding numbered by (simp add: sorted_map del: upt_Suc)
  then have "sorted (map ev_sequence (drop k (request_events i db)))" by (metis drop_map sorted_wrt_drop)
  moreover have "event_record e = Ok (record_of e)" if "e \<in> set (drop k (request_events i db))" for e
  proof -
    have "e \<in> set (db_events db)" using in_set_dropD [OF that] by (simp add: request_events_def)
    then have "event_row_ok e" using assms by (auto simp: store_inv_def schema_ok_def events_ok_def list_all_iff)
    then show ?thesis
      by (simp add: event_record_def record_of_def event_row_ok_def positive_def nonneg_def unsigned_integer_def)
  qed
  ultimately show ?thesis unfolding rows by (simp add: sort_key_id_if_sorted collect_ok_map)
qed

lemma replayed_result_ok: "request_row_ok r \<Longrightarrow> \<exists>result. replayed_result r = Ok result"
  by (auto simp: replayed_result_def request_row_ok_def result_shape_def null_or_def nonneg_def
      unsigned_integer_def is_terminal_state_def split: option.splits)

lemma replay_known:
  assumes "store_inv db" and "request_row i db = Some r" and "int k < 2 ^ 63"
  shows "\<exists>result. replay i (of_nat k) None db
    = Ok \<lparr>rp_events = map record_of (drop k (request_events i db)), rp_result = result\<rparr>"
proof -
  have "request_row_ok r"
    using assms(1) request_row_Some [OF assms(2)]
    by (auto simp: store_inv_def schema_ok_def requests_ok_def list_all_iff)
  then obtain result where "replayed_result r = Ok result" using replayed_result_ok by blast
  moreover have "uint (of_nat k :: u64) = int k"
    using assms(3) by (simp add: uint_nat unat_of_nat)
  then have "sql_integer (of_nat k) = Ok (int k)" using assms(3) by (simp add: sql_integer_def)
  ultimately show ?thesis
    by (simp add: replay_def assms(2) ensure_expected_target_kind_def replay_events [OF assms(1)])
qed

text \<open>C21: A client that replays the events of a request and later asks for those after the last it saw
  gets exactly the events it missed: both replays succeed, the second continues the first without a
  gap or a repetition whatever happened in between, and events are numbered 1, 2, 3 and so on.\<close>

theorem replay_resumes:
  assumes "reachable_store codec sha256 db" and "path (store_step codec sha256) db ls db'"
    and "replay i 0 None db = Ok seen"
  shows "\<exists>rest whole. replay i (of_nat (length (rp_events seen))) None db' = Ok rest
     \<and> replay i 0 None db' = Ok whole \<and> rp_events whole = rp_events seen @ rp_events rest
     \<and> map (unat \<circ> er_sequence) (rp_events whole) = [1..<Suc (length (rp_events whole))]"
proof -
  let ?es = "\<lambda>db. request_events i db"
  have inv: "store_inv db" by (rule reachable_store_inv [OF assms(1)])
  have st: "steps db (history_grants ls) db'" by (rule history_steps [OF assms(2) inv])
  have inv': "store_inv db'" by (rule steps_inv [OF st inv])
  obtain r where r: "request_row i db = Some r"
    using assms(3) by (auto simp: replay_def and_then_Inr_iff ok_or_Inr_iff)
  then obtain r' where r': "request_row i db' = Some r'" using path_same st unfolding steps_def by blast
  obtain new where new: "?es db' = ?es db @ new"
    using event_log.path_appends st inv unfolding steps_def by blast
  have seen: "rp_events seen = map record_of (?es db)"
    using replay_known [OF inv r, of 0] assms(3) by auto
  have "int (length (?es db)) < 2 ^ 63" by (rule events_small [OF inv])
  then obtain a b where a: "replay i (of_nat (length (?es db))) None db' = Ok a" "rp_events a = map record_of new"
    and b: "replay i 0 None db' = Ok b" "rp_events b = map record_of (?es db')"
    using replay_known [OF inv' r', of "length (?es db)"] replay_known [OF inv' r', of 0] new by auto
  have "map (\<lambda>e. unat (of_int (ev_sequence e) :: u64)) (?es db')
      = map (\<lambda>v. unat (of_int v :: u64)) (map ev_sequence (?es db'))" by simp
  also have "\<dots> = map (\<lambda>n. unat (of_nat n :: u64)) [1..<Suc (length (?es db'))]"
    using inv' by (simp add: store_inv_def events_numbered_def del: upt_Suc)
  also have "\<dots> = map (\<lambda>n. n) [1..<Suc (length (?es db'))]"
    using events_small [OF inv', of i] by (intro map_cong) (auto simp: unat_of_nat simp del: upt_Suc)
  finally show ?thesis
    using a b seen new by (intro exI [of _ a] exI [of _ b]) (simp add: record_of_def comp_def del: upt_Suc)
qed

end
