(* ===== verification/Store_Examples.thy ===== *)
theory Store_Examples
  imports Store_Guarantees
begin

text \<open>
  A small history of the store, evaluated: two requests of a project are accepted, the first is leased,
  its lease expires and it is leased again, finishes, and a new client replays its events.  The
  theorems of \<open>Store_Guarantees\<close> are applied to it.
\<close>

section \<open>The states of a history\<close>

definition demo_codec :: Codec where
  "demo_codec = \<lparr>cd_encode_snapshot = \<lambda>_. None, cd_decode_snapshot = \<lambda>_. None,
     cd_encode_transition = \<lambda>_. None, cd_decode_transition = \<lambda>_. None\<rparr>"

definition store_hash :: "string \<Rightarrow> string" where
  "store_hash s = take 32 (s @ replicate 32 CHR ''0'')"

definition demo_request :: "string \<Rightarrow> string \<Rightarrow> AcceptRequest" where
  "demo_request i key = \<lparr>ac_request_id = i, ac_caller_id = ''cli'', ac_project_id = ''p'',
     ac_idempotency_key = key, ac_operation_kind = ''ask'', ac_operation = ''hello''\<rparr>"

definition demo_row :: "string \<Rightarrow> string \<Rightarrow> int \<Rightarrow> RequestRow" where
  "demo_row i key n = \<lparr>rq_request_id = i, rq_caller_id = ''cli'', rq_project_id = ''p'',
     rq_idempotency_key = key, rq_operation_kind = ''ask'', rq_operation = ''hello'',
     rq_queue_sequence = n, rq_state = Queued, rq_accepted_at_ms = n, rq_attempt = 0,
     rq_lease_owner = None, rq_lease_token = None, rq_lease_expires_at_ms = None,
     rq_completed_at_ms = None, rq_result = None\<rparr>"

definition demo_lease :: "string \<Rightarrow> u64 \<Rightarrow> u64 \<Rightarrow> Lease" where
  "demo_lease token attempt expires = \<lparr>le_request_id = ''r1'', le_project_id = ''p'', le_owner = ''w'',
     le_token = token, le_attempt = attempt, le_expires_at_ms = expires\<rparr>"

definition demo_event :: "string \<Rightarrow> int \<Rightarrow> string \<Rightarrow> int \<Rightarrow> EventRow" where
  "demo_event i n kind at = \<lparr>ev_request_id = i, ev_sequence = n, ev_kind = kind, ev_payload = [],
     ev_recorded_at_ms = at\<rparr>"

definition demo_state :: "RequestRow \<Rightarrow> EventRow list \<Rightarrow> Db" where
  "demo_state r events = empty_db\<lparr>
     db_projects := [\<lparr>pr_project_id = ''p'', pr_next_queue_sequence = 3, pr_root = None\<rparr>],
     db_requests := [r, demo_row ''r2'' ''k2'' 2],
     db_events := [demo_event ''r1'' 1 ''accepted'' 1, demo_event ''r2'' 1 ''accepted'' 2] @ events\<rparr>"

definition db_accepted :: Db where
  "db_accepted = demo_state (demo_row ''r1'' ''k1'' 1) []"

definition db_leased :: Db where
  "db_leased = demo_state (grant_lease ''w'' ''t1'' 1 13 (demo_row ''r1'' ''k1'' 1))
     [demo_event ''r1'' 2 ''started'' 3]"

definition db_recovered :: Db where
  "db_recovered = demo_state ((demo_row ''r1'' ''k1'' 1)\<lparr>rq_attempt := 1\<rparr>)
     [demo_event ''r1'' 2 ''started'' 3, demo_event ''r1'' 3 ''lease_expired'' 20]"

definition db_again :: Db where
  "db_again = demo_state (grant_lease ''w'' ''t2'' 2 31 (demo_row ''r1'' ''k1'' 1))
     [demo_event ''r1'' 2 ''started'' 3, demo_event ''r1'' 3 ''lease_expired'' 20,
      demo_event ''r1'' 4 ''started'' 21]"

definition db_finished :: Db where
  "db_finished = demo_state (end_request RequestState.Succeeded 25 (Some ''ok'')
       ((demo_row ''r1'' ''k1'' 1)\<lparr>rq_attempt := 2\<rparr>))
     [demo_event ''r1'' 2 ''started'' 3, demo_event ''r1'' 3 ''lease_expired'' 20,
      demo_event ''r1'' 4 ''started'' 21, demo_event ''r1'' 5 ''completed'' 25]"

definition leased_request :: "Lease \<Rightarrow> LeasedRequest" where
  "leased_request lease = \<lparr>lr_lease = lease, lr_queue_sequence = 1, lr_operation_kind = ''ask'', lr_operation = ''hello''\<rparr>"

definition db_first :: Db where
  "db_first = empty_db\<lparr>
     db_projects := [\<lparr>pr_project_id = ''p'', pr_next_queue_sequence = 2, pr_root = None\<rparr>],
     db_requests := [demo_row ''r1'' ''k1'' 1], db_events := [demo_event ''r1'' 1 ''accepted'' 1]\<rparr>"

lemma accept_first: "accept (demo_request ''r1'' ''k1'') 1 empty_db = (Ok (AcceptOutcome.Created ''r1'' 1), db_first)"
  by code_simp

lemma accept_second: "accept (demo_request ''r2'' ''k2'') 2 db_first = (Ok (AcceptOutcome.Created ''r2'' 2), db_accepted)"
  by code_simp

lemma claim_first: "claim store_hash ''t1'' ''w'' 3 10 db_accepted
    = (Ok (Some (leased_request (demo_lease ''t1'' 1 13))), db_leased)"
  by code_simp

lemma recover_first: "recover_leases demo_codec 20 LeaseRecovery.Expired db_leased = (Ok [''r1''], db_recovered)"
  by code_simp

lemma claim_again: "claim store_hash ''t2'' ''w'' 21 10 db_recovered
    = (Ok (Some (leased_request (demo_lease ''t2'' 2 31))), db_again)"
  by code_simp

lemma finish_again: "finish (demo_lease ''t2'' 2 31) 25 TerminalState.Succeeded ''ok'' db_again
    = (Ok \<lparr>sr_state = RequestState.Succeeded, sr_payload = ''ok'', sr_completed_at_ms = 25\<rparr>, db_finished)"
  by code_simp

text \<open>The history as labels.\<close>

definition to_accepted :: "store_label list" where
  "to_accepted = [(Accept (demo_request ''r1'' ''k1'') 1, Ok (AcceptReply (AcceptOutcome.Created ''r1'' 1))),
     (Accept (demo_request ''r2'' ''k2'') 2, Ok (AcceptReply (AcceptOutcome.Created ''r2'' 2)))]"

definition to_again :: "store_label list" where
  "to_again = [(Claim ''t1'' ''w'' 3 10, Ok (ClaimReply (Some (leased_request (demo_lease ''t1'' 1 13))))),
     (RecoverLeases 20 LeaseRecovery.Expired, Ok Done),
     (Claim ''t2'' ''w'' 21 10, Ok (ClaimReply (Some (leased_request (demo_lease ''t2'' 2 31)))))]"

definition to_finished :: "store_label list" where
  "to_finished = [(Finish (demo_lease ''t2'' 2 31) 25 TerminalState.Succeeded ''ok'',
     Ok (ResultReply \<lparr>sr_state = RequestState.Succeeded, sr_payload = ''ok'', sr_completed_at_ms = 25\<rparr>))]"

lemma path_to_accepted: "path (store_step demo_codec store_hash) empty_db to_accepted db_accepted"
  by (auto simp: to_accepted_def store_step_def reply_def accept_first accept_second)

lemma path_to_again: "path (store_step demo_codec store_hash) db_accepted to_again db_again"
  by (auto simp: to_again_def store_step_def reply_def claim_first recover_first claim_again)

lemma path_to_finished: "path (store_step demo_codec store_hash) db_again to_finished db_finished"
  by (auto simp: to_finished_def store_step_def reply_def finish_again)

definition to_second :: "store_label list" where
  "to_second = [(Accept (demo_request ''r2'' ''k2'') 2, Ok (AcceptReply (AcceptOutcome.Created ''r2'' 2)))]"

lemma path_to_second: "path (store_step demo_codec store_hash) db_first to_second db_accepted"
  by (auto simp: to_second_def store_step_def reply_def accept_second)

lemma path_from_empty: "path (store_step demo_codec store_hash) empty_db (to_accepted @ to_again) db_again"
  using path_to_accepted path_to_again by (auto simp: path_append)

lemma path_from_accepted: "path (store_step demo_codec store_hash) db_accepted (to_again @ to_finished) db_finished"
  using path_to_again path_to_finished by (auto simp: path_append)

lemma path_from_first: "path (store_step demo_codec store_hash) db_first (to_second @ to_again @ to_finished) db_finished"
  using path_to_second path_from_accepted by (auto simp: path_append)

lemma operation_path:
  "path (store_step codec sha256) db [(op, fst (apply_store_op codec sha256 op db))] (snd (apply_store_op codec sha256 op db))"
  by (auto simp: store_step_def)

lemma reachable_empty: "reachable_store demo_codec store_hash empty_db"
  unfolding reachable_store_def by (rule reachable.initial) (simp add: store_init_def)

lemma reachable_accepted: "reachable_store demo_codec store_hash db_accepted"
  unfolding reachable_store_def
  by (rule reachable_path [OF reachable.initial path_to_accepted]) (simp add: store_init_def)

lemma reachable_again: "reachable_store demo_codec store_hash db_again"
  unfolding reachable_store_def
  by (rule reachable_path [OF reachable_accepted [unfolded reachable_store_def] path_to_again])

lemma reachable_finished: "reachable_store demo_codec store_hash db_finished"
  unfolding reachable_store_def
  by (rule reachable_path [OF reachable_again [unfolded reachable_store_def] path_to_finished])

lemma grants_to_again: "history_grants (to_accepted @ to_again) = [(''r1'', ''t1''), (''r1'', ''t2'')]"
  by (simp add: history_grants_def to_accepted_def to_again_def leased_request_def demo_lease_def)

section \<open>Witnesses\<close>

theorem store_operations_invariant_witness:
  "store_inv (snd (apply_store_op demo_codec store_hash (Accept (demo_request ''r1'' ''k1'') 1) empty_db))"
  by (rule store_operations_invariant [OF empty_store_inv]) (rule prod.collapse [symmetric])

theorem store_refines_lifecycle_witness:
  "request_life (state_of db_accepted ''r1'') (state_of db_again ''r1'')"
  by (rule store_refines_lifecycle [OF reachable_accepted path_to_again])

theorem finished_requests_final_witness:
  "request_row ''r1'' (snd (apply_store_op demo_codec store_hash (Cancel ''r1'' 30 ''no'' None) db_finished))
     = Some (hd (db_requests db_finished))"
proof (rule finished_requests_final [OF reachable_finished operation_path])
  show "request_row ''r1'' db_finished = Some (hd (db_requests db_finished))" by code_simp
  show "is_terminal_state (rq_state (hd (db_requests db_finished)))" by code_simp
qed

theorem claims_in_order_witness:
  "\<exists>earlier r later. db_requests db_accepted = earlier @ r # later \<and> rq_request_id r = ''r1''
     \<and> list_all (\<lambda>s. rq_project_id s \<noteq> rq_project_id r \<or> is_terminal_state (rq_state s)) earlier"
  using claims_in_order [OF reachable_accepted claim_first] unfolding list_all_iff leased_request_def demo_lease_def by simp blast

theorem superseded_lease_refused_witness:
  "\<exists>e. apply_store_op demo_codec store_hash (Finish (demo_lease ''t1'' 1 13) 25 TerminalState.Succeeded ''ok'') db_again
     = (Err e, db_again)"
  by (rule superseded_lease_refused [OF path_from_empty, where before = "[]" and middle = "[]" and after = "[]"])
    (simp_all add: grants_to_again demo_lease_def)

theorem accepted_once_witness:
  "\<exists>s. accept (demo_request ''r9'' ''k1'') 99 db_finished = (Ok (Existing ''r1'' s), db_finished)
     \<and> state_of db_finished ''r1'' = Some s"
  using accepted_once [OF reachable_empty accept_first path_from_first, of "demo_request ''r9'' ''k1''" 99]
  by (simp add: demo_request_def)

theorem replay_resumes_witness:
  "\<exists>seen rest whole. replay ''r1'' 0 None db_accepted = Ok seen
     \<and> replay ''r1'' (of_nat (length (rp_events seen))) None db_finished = Ok rest
     \<and> replay ''r1'' 0 None db_finished = Ok whole \<and> rp_events whole = rp_events seen @ rp_events rest"
proof -
  have "replay ''r1'' 0 None db_accepted = Ok \<lparr>rp_events = [\<lparr>er_sequence = 1, er_kind = ''accepted'',
     er_payload = [], er_recorded_at_ms = 1\<rparr>], rp_result = None\<rparr>" by code_simp
  with replay_resumes [OF reachable_accepted path_from_accepted this] show ?thesis by blast
qed

end
