(* ===== verification/Store_Views.thy ===== *)
theory Store_Views
  imports Store_Guarantees
begin

text \<open>
  What the operations of the store leave alone.  A view of the state that does not look at the tables
  a group of operations writes is the same before and after each of them; the tables of approvals and
  of flow checkpoints are such views for everything but their own operations.
\<close>

section \<open>Views\<close>

lemma reply_Ok: "reply f r = (Ok out, db') \<Longrightarrow> \<exists>x. r = (Ok x, db') \<and> out = f x"
  by (cases r) (auto simp: reply_def and_then_Inr_iff)

locale queue_view =
  fixes view :: "Db \<Rightarrow> 'a"
  assumes view_requests: "view (db\<lparr>db_requests := requests\<rparr>) = view db"
    and view_events: "view (db\<lparr>db_events := events\<rparr>) = view db"
    and view_projects: "view (db\<lparr>db_projects := projects\<rparr>) = view db"
begin

lemma statement_view [simp]:
  "view (update_requests p f db) = view db"
  "view (insert_event i n kind payload at db) = view db"
  "view (ensure_project project db) = view db"
  "view (enqueue request q now db) = view db"
  by (simp_all add: update_requests_def insert_event_def ensure_project_def enqueue_def insert_request_def
      bump_queue_sequence_def view_requests view_events view_projects)

lemma move_view: "execute (update_requests p f) db = Ok db' \<Longrightarrow> view db' = view db"
  by (auto simp: execute_Inr_iff)

lemma append_event_view: "append_event_tx i now kind payload db = Ok (n, db') \<Longrightarrow> view db' = view db"
  by (auto simp: append_event_tx_def Let_def and_then_Inr_iff execute_Inr_iff)

lemma accept_tx_view: "accept_tx request now db = Ok (out, db') \<Longrightarrow> view db' = view db"
  by (erule accept_tx_cases) (auto dest: append_event_view)

lemma accept_view: "accept request now_ms db = (Ok out, db') \<Longrightarrow> view db' = view db"
  by (auto simp: accept_def transaction_Ok and_then_Inr_iff split: if_splits dest: accept_tx_view)

lemma claim_view: "claim sha256 token owner now_ms d db = (Ok res, db') \<Longrightarrow> view db' = view db"
  unfolding claim_Ok by (erule claim_tx_cases) (auto dest!: append_event_view move_view)

lemma renew_view: "renew lease now_ms d db = (Ok res, db') \<Longrightarrow> view db' = view db"
  by (auto simp: renew_def transaction_Ok and_then_Inr_iff split: if_splits dest!: move_view)

lemma recover_one_view: "recover_one codec now which active db = Ok (changed, db') \<Longrightarrow> view db' = view db"
  by (auto simp: recover_one_def Let_def and_then_Inr_iff split: if_splits prod.splits dest!: append_event_view move_view)

lemma recover_loop_view: "recover_loop codec now which actives db = Ok (recovered, db') \<Longrightarrow> view db' = view db"
  by (induction actives arbitrary: db recovered) (auto split: sum.splits dest!: recover_one_view)

lemma recover_leases_view: "recover_leases codec now_ms which db = (Ok res, db') \<Longrightarrow> view db' = view db"
  by (auto simp: recover_leases_def transaction_Ok and_then_Inr_iff dest: recover_loop_view)

lemma append_leased_view: "append_leased_event lease now_ms kind payload db = (Ok res, db') \<Longrightarrow> view db' = view db"
  by (auto simp: append_leased_event_def transaction_Ok and_then_Inr_iff dest: append_event_view)

lemma finish_view: "finish lease now_ms state result db = (Ok res, db') \<Longrightarrow> view db' = view db"
  unfolding finish_def transaction_Ok by (erule finish_tx_cases) (auto dest!: append_event_view move_view)

lemma finish_flow_view: "finish_terminal_flow codec lease now_ms result db = (Ok res, db') \<Longrightarrow> view db' = view db"
  unfolding finish_terminal_flow_def transaction_Ok
  by (erule finish_flow_tx_cases) (auto dest!: append_event_view move_view)

lemma fail_corrupt_view: "fail_corrupt_flow_authorization sha256 i now_ms result db = (Ok res, db') \<Longrightarrow> view db' = view db"
  by (auto simp: fail_corrupt_flow_authorization_def transaction_Ok and_then_Inr_iff Let_def
      split: if_splits sum.splits option.splits dest!: append_event_view move_view)

lemma cancel_view: "cancel_request codec i now_ms result expected db = (Ok res, db') \<Longrightarrow> view db' = view db"
  unfolding cancel_request_def transaction_Ok by (erule cancel_tx_cases) (auto dest!: append_event_view move_view)

lemma append_transition_view: "append_flow_transition i now t bytes db = Ok (e, db') \<Longrightarrow> view db' = view db"
  by (auto simp: append_flow_transition_def and_then_Inr_iff Let_def split: option.splits dest: append_event_view)

end

locale audit_view =
  fixes view :: "Db \<Rightarrow> 'a"
  assumes view_audit: "view (db\<lparr>db_audit_events := audit\<rparr>) = view db"
    and view_high_water: "view (db\<lparr>db_audit_high_water := n\<rparr>) = view db"
    and view_days: "view (db\<lparr>db_activity_days := days\<rparr>) = view db"
begin

lemma append_audit_tx_view: "append_audit_event_tx event db = Ok (res, db') \<Longrightarrow> view db' = view db"
  by (auto simp: append_audit_event_tx_def insert_audit_row_def count_activity_def and_then_Inr_iff execute_Inr_iff
      Let_def view_audit view_high_water view_days split: option.splits if_splits)

lemma append_audit_view: "append_audit_event event db = (Ok res, db') \<Longrightarrow> view db' = view db"
  by (auto simp: append_audit_event_def transaction_Ok and_then_Inr_iff dest: append_audit_tx_view)

lemma prune_audit_view: "prune_audit_events project now_ms limit db = (Ok res, db') \<Longrightarrow> view db' = view db"
  by (auto simp: prune_audit_events_def transaction_Ok and_then_Inr_iff execute_Inr_iff Let_def view_audit
      split: if_splits prod.splits)

end

locale access_view =
  fixes view :: "Db \<Rightarrow> 'a"
  assumes view_callers: "view (db\<lparr>db_callers := callers\<rparr>) = view db"
    and view_policies: "view (db\<lparr>db_policies := policies\<rparr>) = view db"
    and view_grants: "view (db\<lparr>db_grants := grants\<rparr>) = view db"
    and view_project_rows: "view (db\<lparr>db_projects := projects\<rparr>) = view db"
begin

lemma register_view: "register_caller sha256 c credential kind now_ms db = (Ok res, db') \<Longrightarrow> view db' = view db"
  by (auto simp: register_caller_def transaction_Ok and_then_Inr_iff execute_Inr_iff Let_def view_callers
      split: option.splits if_splits)

lemma revoke_caller_view: "revoke_caller c now_ms db = (Ok res, db') \<Longrightarrow> view db' = view db"
  by (auto simp: revoke_caller_def transaction_Ok and_then_Inr_iff execute_Inr_iff Let_def view_callers
      split: option.splits if_splits)

lemma ensured_view: "execute (ensure_project project) db = Ok db' \<Longrightarrow> view db' = view db"
  by (auto simp: execute_Inr_iff ensure_project_def view_project_rows)

lemma policies_view: "execute (\<lambda>db. db\<lparr>db_policies := f db\<rparr>) db = Ok db' \<Longrightarrow> view db' = view db"
  by (auto simp: execute_Inr_iff view_policies)

lemma grants_view: "execute (\<lambda>db. db\<lparr>db_grants := f db\<rparr>) db = Ok db' \<Longrightarrow> view db' = view db"
  by (auto simp: execute_Inr_iff view_grants)

lemma put_grant_view: "put_grant grant now_ms db = (Ok res, db') \<Longrightarrow> view db' = view db"
  unfolding put_grant_def transaction_Ok
  by (auto simp: and_then_Inr_iff Let_def split: if_split_asm ResourceScope.splits prod.splits
      dest!: ensured_view policies_view grants_view)

lemma revoke_grant_view: "revoke_grant grant now_ms db = (Ok res, db') \<Longrightarrow> view db' = view db"
  by (auto simp: revoke_grant_def transaction_Ok and_then_Inr_iff execute_Inr_iff Let_def
      view_policies view_grants split: option.splits if_splits)

lemma remember_root_view: "remember_project_root project root db = (Ok res, db') \<Longrightarrow> view db' = view db"
  by (auto simp: remember_project_root_def transaction_Ok and_then_Inr_iff execute_Inr_iff Let_def ensure_project_def
      view_project_rows split: if_splits)

end

text \<open>A view that looks at none of the tables of requests, audit and access.\<close>

locale authorization_view = queue_view view + audit_view view + access_view view for view :: "Db \<Rightarrow> 'a" +
  assumes view_approvals: "view (db\<lparr>db_approvals := approvals\<rparr>) = view db"
    and view_authorizations: "view (db\<lparr>db_flow_authorizations := authorizations\<rparr>) = view db"
begin

lemma resolve_view: "resolve_bound_approval bound i request fp now now_ms db = Ok (out, db') \<Longrightarrow> view db' = view db"
  by (auto simp: resolve_bound_approval_def and_then_Inr_iff execute_Inr_iff update_approvals_def Let_def view_approvals
      split: option.splits if_splits ApprovalState.splits)

lemma request_approval_view:
  "request_approval i request fp now now_ms ttl bound db = Ok (out, db') \<Longrightarrow> view db' = view db"
  by (auto simp: request_approval_def insert_approval_def and_then_Inr_iff execute_Inr_iff view_approvals split: if_splits)

lemma authorize_flow_approval_view:
  "authorize_flow_with_approval sha256 i request request_id now now_ms ttl db = Ok (out, db') \<Longrightarrow> view db' = view db"
  by (auto simp: authorize_flow_with_approval_def resolve_flow_approval_def and_then_Inr_iff Let_def
      split: option.splits dest: resolve_view request_approval_view)

lemma authorize_tx_view: "authorize_tx sha256 i request now now_ms ttl db = Ok (out, db') \<Longrightarrow> view db' = view db"
  by (auto simp: authorize_tx_def authorize_with_approval_def resolve_approval_tx_def and_then_Inr_iff Let_def
      split: option.split_asm if_split_asm Decision.split_asm dest: resolve_view request_approval_view)
    (metis Decision.exhaust)+

lemma accept_authorized_view: "accept_authorized sha256 request required now db = Ok (out, db') \<Longrightarrow> view db' = view db"
  by (auto simp: accept_authorized_def insert_flow_authorization_def and_then_Inr_iff execute_Inr_iff view_authorizations
      dest!: accept_tx_view split: if_splits)

lemma authorize_new_view: "authorize_new_flow_run sha256 i request now now_ms ttl db = Ok (out, db') \<Longrightarrow> view db' = view db"
  by (auto simp: authorize_new_flow_run_def and_then_Inr_iff Let_def split: if_split_asm
      dest!: authorize_flow_approval_view accept_authorized_view)

lemma flow_run_view: "authorize_flow_run sha256 i request now_ms ttl db = (Ok out, db') \<Longrightarrow> view db' = view db"
  unfolding authorize_flow_run_def transaction_Ok
  by (auto simp: and_then_Inr_iff split: if_split_asm option.splits dest!: authorize_new_view append_audit_tx_view)

lemma authorize_view: "authorize sha256 i request now_ms ttl db = (Ok out, db') \<Longrightarrow> view db' = view db"
  unfolding authorize_def transaction_Ok by (auto simp: and_then_Inr_iff dest!: authorize_tx_view)

lemma authorize_audited_view: "authorize_audited sha256 i request audit now_ms ttl db = (Ok out, db') \<Longrightarrow> view db' = view db"
  unfolding authorize_audited_def transaction_Ok
  by (auto simp: and_then_Inr_iff dest!: authorize_tx_view append_audit_tx_view)

lemma consume_view: "consume_effect_approval_audited sha256 request audit now_ms db = (Ok out, db') \<Longrightarrow> view db' = view db"
  unfolding consume_effect_approval_audited_def transaction_Ok
  by (auto simp: and_then_Inr_iff resolve_approval_tx_def split: if_split_asm dest!: resolve_view append_audit_tx_view)

lemma decide_view: "decide_approval i project approver decision now_ms db = (Ok out, db') \<Longrightarrow> view db' = view db"
  by (auto simp: decide_approval_def transaction_Ok and_then_Inr_iff execute_Inr_iff update_approvals_def Let_def view_approvals
      split: if_split_asm ApprovalDecision.split_asm)

lemma reset_access_view: "reset_access db = (Ok out, db') \<Longrightarrow> view db' = view db"
  by (auto simp: reset_access_def transaction_Ok and_then_Inr_iff execute_Inr_iff view_approvals view_authorizations view_grants)

end

section \<open>The tables of approvals and checkpoints\<close>

interpretation receipts_queue: queue_view db_approvals by unfold_locales simp_all
interpretation receipts_audit: audit_view db_approvals by unfold_locales simp_all
interpretation receipts_access: access_view db_approvals by unfold_locales simp_all
interpretation runs: authorization_view db_flow_runs by unfold_locales simp_all

end
