(* ===== verification/Store_Receipts.thy ===== *)
theory Store_Receipts
  imports Store_Views
begin

text \<open>
  The approvals of the store against the receipts of \<open>Policy\<close>: every row of the table is a receipt
  that was requested for the fingerprint of its own effect and went through the operations of
  \<open>Approval\<close>, so that a receipt is spent at most once over any history.
\<close>

section \<open>Comparing digests\<close>

lemma byte_of_eq [simp]: "byte_of a = byte_of b \<longleftrightarrow> a = b"
proof -
  have "unat (byte_of c) = of_char c" for c :: char
    by (simp add: byte_of_def unat_of_nat of_char_def)
  then show ?thesis by (metis of_char_eq_iff)
qed

lemma or_eq_0: "or (a :: u8) b = 0 \<longleftrightarrow> a = 0 \<and> b = 0"
  by (auto simp: bit_eq_iff bit_or_iff)

lemma xor_eq_0: "xor (a :: u8) b = 0 \<longleftrightarrow> a = b"
  by (auto simp: bit_eq_iff bit_xor_iff)

lemma difference_zero:
  "length xs = length ys \<Longrightarrow>
     fold (\<lambda>(left, right) difference. or difference (xor (byte_of left) (byte_of right))) (zip xs ys) d = 0
     \<longleftrightarrow> d = 0 \<and> xs = ys"
  by (induction xs ys arbitrary: d rule: list_induct2) (auto simp: or_eq_0 xor_eq_0)

lemma constant_time_equal_iff [simp]: "constant_time_equal xs ys \<longleftrightarrow> xs = ys"
  by (auto simp: constant_time_equal_def difference_zero)

section \<open>Rows as receipts\<close>

definition receipt_of :: "ApprovalRow \<Rightarrow> Approval" where
  "receipt_of a = \<lparr>ap_id = aw_approval_id a, ap_caller = aw_caller_id a, ap_project = aw_project_id a,
     ap_capability = aw_capability a, ap_resource = aw_resource a, ap_fingerprint = aw_effect_fingerprint a,
     ap_expires_at_ms = of_int (aw_expires_at_ms a), ap_state = aw_state a\<rparr>"

definition requested_as :: "(string \<Rightarrow> string) \<Rightarrow> ApprovalRow \<Rightarrow> Approval" where
  "requested_as sha256 a = Approval_requested sha256 (aw_approval_id a) (aw_caller_id a) (aw_project_id a)
     (aw_capability a) (aw_resource a) (of_int (aw_expires_at_ms a))"

lemma trace_Cons: "snd (approval_trace a (op # ops)) = snd (approval_trace (snd (apply_approval op a)) ops)"
  by (simp split: prod.split)

lemma trace_append:
  "snd (approval_trace a (ops @ ops')) = snd (approval_trace (snd (approval_trace a ops)) ops')"
  by (induction ops arbitrary: a) (simp_all add: trace_Cons del: approval_trace.simps(2))

lemma apply_approval_rule: "approval_rule a (op, fst (apply_approval op a)) (snd (apply_approval op a))"
  by (rule approval_step_rule) (simp add: approval_step_def)

lemma trace_state: "\<exists>st. snd (approval_trace a ops) = a\<lparr>ap_state := st\<rparr>"
proof (induction ops arbitrary: a)
  case Nil
  show ?case by (rule exI [of _ "ap_state a"]) simp
next
  case (Cons op ops)
  obtain st where "snd (apply_approval op a) = a\<lparr>ap_state := st\<rparr>"
    using apply_approval_rule [of a op] by (rule approval_rule.cases) (auto intro: that [of "ap_state a"])
  with Cons [of "snd (apply_approval op a)"] show ?case by (auto simp: trace_Cons simp del: approval_trace.simps(2))
qed

lemma consumed_trace: "ap_state a = Consumed \<Longrightarrow> snd (approval_trace a ops) = a"
proof (induction ops arbitrary: a)
  case (Cons op ops)
  have "snd (apply_approval op a) = a"
    using apply_approval_rule [of a op] by (rule approval_rule.cases) (use Cons.prems in auto)
  with Cons show ?case by (simp add: trace_Cons del: approval_trace.simps(2))
qed simp

text \<open>One row after another: the same receipt, operated on.\<close>

definition receipt_moves :: "ApprovalRow \<Rightarrow> ApprovalRow \<Rightarrow> bool" where
  "receipt_moves a a' \<longleftrightarrow> aw_flow_request_id a' = aw_flow_request_id a \<and> aw_expires_at_ms a' = aw_expires_at_ms a
     \<and> (\<exists>ops. snd (approval_trace (receipt_of a) ops) = receipt_of a')"

lemma receipt_moves_refl [simp]: "receipt_moves a a"
  unfolding receipt_moves_def by (simp, rule exI [of _ "[]"]) simp

lemma receipt_moves_trans: "receipt_moves a b \<Longrightarrow> receipt_moves b c \<Longrightarrow> receipt_moves a c"
  unfolding receipt_moves_def by (metis trace_append)

lemma receipt_moves_step:
  assumes "snd (apply_approval op (receipt_of a)) = receipt_of a'" and "aw_flow_request_id a' = aw_flow_request_id a"
    and "aw_expires_at_ms a' = aw_expires_at_ms a"
  shows "receipt_moves a a'"
  unfolding receipt_moves_def using assms by (auto intro!: exI [of _ "[op]"] split: prod.splits)

definition newly_requested :: "(string \<Rightarrow> string) \<Rightarrow> ApprovalRow \<Rightarrow> bool" where
  "newly_requested sha256 a \<longleftrightarrow> receipt_of a = requested_as sha256 a"

definition genuine_receipts :: "(string \<Rightarrow> string) \<Rightarrow> ApprovalRow list \<Rightarrow> ApprovalRow list \<Rightarrow> bool" where
  "genuine_receipts sha256 t t' \<longleftrightarrow>
     (\<forall>a' \<in> set t'. (\<exists>a \<in> set t. receipt_moves a a') \<or> (\<exists>a. newly_requested sha256 a \<and> receipt_moves a a'))"

definition kept_receipts :: "ApprovalRow list \<Rightarrow> ApprovalRow list \<Rightarrow> bool" where
  "kept_receipts t t' \<longleftrightarrow> (\<forall>a \<in> set t. \<exists>a' \<in> set t'. receipt_moves a a')"

definition receipts_step :: "(string \<Rightarrow> string) \<Rightarrow> Db \<Rightarrow> Db \<Rightarrow> bool" where
  "receipts_step sha256 db db' \<longleftrightarrow> genuine_receipts sha256 (db_approvals db) (db_approvals db')
     \<and> kept_receipts (db_approvals db) (db_approvals db')"

lemma genuine_trans: "genuine_receipts sha256 t u \<Longrightarrow> genuine_receipts sha256 u v \<Longrightarrow> genuine_receipts sha256 t v"
  unfolding genuine_receipts_def by (meson receipt_moves_trans)

lemma kept_trans: "kept_receipts t u \<Longrightarrow> kept_receipts u v \<Longrightarrow> kept_receipts t v"
  unfolding kept_receipts_def by (meson receipt_moves_trans)

lemma genuine_refl: "genuine_receipts sha256 t t"
  unfolding genuine_receipts_def using receipt_moves_refl by blast

lemma kept_refl: "kept_receipts t t"
  unfolding kept_receipts_def using receipt_moves_refl by blast

lemma receipts_same: "db_approvals db' = db_approvals db \<Longrightarrow> receipts_step sha256 db db'"
  by (simp add: receipts_step_def genuine_refl kept_refl)

lemma receipts_refl [simp]: "receipts_step sha256 db db"
  by (rule receipts_same) simp

lemma receipts_trans: "receipts_step sha256 db db1 \<Longrightarrow> receipts_step sha256 db1 db' \<Longrightarrow> receipts_step sha256 db db'"
  unfolding receipts_step_def using genuine_trans kept_trans by blast

lemma receipts_update:
  assumes "\<And>a. a \<in> set (db_approvals db) \<Longrightarrow> p a \<Longrightarrow> receipt_moves a (f a)"
  shows "receipts_step sha256 db (update_approvals p f db)"
proof -
  have moves: "receipt_moves a (if p a then f a else a)" if "a \<in> set (db_approvals db)" for a
    using assms [OF that] by simp
  have rows: "set (db_approvals (update_approvals p f db)) = (\<lambda>a. if p a then f a else a) ` set (db_approvals db)"
    by (simp add: update_approvals_def update_where_def)
  show ?thesis
    unfolding receipts_step_def genuine_receipts_def kept_receipts_def rows using moves by blast
qed

section \<open>Operations on receipts\<close>

lemma approval_unique:
  assumes "schema_ok db" and "row_where (\<lambda>a. aw_approval_id a = i \<and> q a) (db_approvals db) = Some a"
    and "b \<in> set (db_approvals db)" and "aw_approval_id b = i"
  shows "b = a"
proof -
  have "distinct (map aw_approval_id (db_approvals db))" using assms(1) by (simp add: schema_ok_def approvals_ok_def)
  moreover have "a \<in> set (db_approvals db)" "aw_approval_id a = i" using row_where_Some [OF assms(2)] by auto
  ultimately show ?thesis using assms(3,4) by (metis (mono_tags) distinct_map inj_onD)
qed

lemmas receipt_ops = receipt_of_def Approval_approve_def Approval_deny_def Approval_consume_def expire_if_due_def

lemma expire_moves:
  fixes now_ms :: u64
  assumes "aw_state a = Requested \<or> aw_state a = ApprovalState.Approved" and "now_ms \<ge> of_int (aw_expires_at_ms a)"
  shows "receipt_moves a (a\<lparr>aw_state := ApprovalState.Expired\<rparr>)"
  using assms by (intro receipt_moves_step [of "Consume (aw_effect_fingerprint a) now_ms"]) (auto simp: receipt_ops)

lemma consume_moves:
  fixes now_ms :: u64
  assumes "aw_state a = ApprovalState.Approved" and "now_ms < of_int (aw_expires_at_ms a)"
  shows "receipt_moves a (a\<lparr>aw_state := Consumed, aw_consumed_at_ms := at\<rparr>)"
  using assms by (intro receipt_moves_step [of "Consume (aw_effect_fingerprint a) now_ms"]) (auto simp: receipt_ops)

lemma decide_moves:
  fixes now_ms :: u64
  assumes "aw_state a = Requested" and "now_ms < of_int (aw_expires_at_ms a)"
  shows "receipt_moves a (a\<lparr>aw_state := ApprovalState.Approved, aw_decided_by := by, aw_decided_at_ms := at\<rparr>)"
    "receipt_moves a (a\<lparr>aw_state := ApprovalState.ApprovalDenied, aw_decided_by := by, aw_decided_at_ms := at\<rparr>)"
proof -
  show "receipt_moves a (a\<lparr>aw_state := ApprovalState.Approved, aw_decided_by := by, aw_decided_at_ms := at\<rparr>)"
    using assms by (intro receipt_moves_step [of "Policy.Approve now_ms"]) (auto simp: receipt_ops)
  show "receipt_moves a (a\<lparr>aw_state := ApprovalState.ApprovalDenied, aw_decided_by := by, aw_decided_at_ms := at\<rparr>)"
    using assms by (intro receipt_moves_step [of "DenyRequest now_ms"]) (auto simp: receipt_ops)
qed

lemma resolve_receipts:
  assumes "resolve_bound_approval bound i request fp now now_ms db = Ok (out, db')" and "schema_ok db"
  shows "receipts_step sha256 db db'"
proof (cases "row_where (\<lambda>a. aw_approval_id a = i) (db_approvals db)")
  case None
  then show ?thesis using assms(1) by (simp add: resolve_bound_approval_def receipts_same)
next
  case (Some a)
  have unique: "b = a" if "b \<in> set (db_approvals db)" "aw_approval_id b = i" for b
    using approval_unique [OF assms(2), of i "\<lambda>_. True" a b] Some that by simp
  have updated: "receipts_step sha256 db db1"
    if "execute (update_approvals p f) db = Ok db1" "\<And>b. p b \<Longrightarrow> aw_approval_id b = i" "p a \<Longrightarrow> receipt_moves a (f a)"
    for p f db1
    using that receipts_update [of db p f sha256] unique by (auto simp: execute_Inr_iff)
  show ?thesis
    using assms(1) Some
    by (auto simp: resolve_bound_approval_def and_then_Inr_iff Let_def unsigned_integer_def not_le
        split: if_splits ApprovalState.splits intro!: expire_moves consume_moves elim!: updated)
qed

lemma decide_receipts:
  assumes "decide_approval i project approver decision now_ms db = (Ok out, db')" and "schema_ok db"
  shows "receipts_step sha256 db db'"
proof -
  obtain now a where a: "row_where (\<lambda>a. aw_approval_id a = i \<and> (case project of None \<Rightarrow> True
      | Some project \<Rightarrow> aw_project_id a = project \<and> aw_caller_id a = approver)) (db_approvals db) = Some a"
    using assms(1) by (auto simp: decide_approval_def transaction_Ok and_then_Inr_iff ok_or_Inr_iff)
  have unique: "b = a" if "b \<in> set (db_approvals db)" "aw_approval_id b = i" for b
    using approval_unique [OF assms(2) a] that by simp
  have updated: "receipts_step sha256 db db1"
    if "execute (update_approvals p f) db = Ok db1" "\<And>b. p b \<Longrightarrow> aw_approval_id b = i" "p a \<Longrightarrow> receipt_moves a (f a)"
    for p f db1
    using that receipts_update [of db p f sha256] unique by (auto simp: execute_Inr_iff)
  show ?thesis
    using assms(1) a
    by (auto simp: decide_approval_def transaction_Ok and_then_Inr_iff Let_def unsigned_integer_def not_le
        split: if_split_asm ApprovalDecision.split_asm intro!: expire_moves decide_moves elim!: updated)
qed

lemma request_receipts:
  assumes "request_approval new_id request (request_fingerprint sha256 request) now now_ms ttl bound db = Ok (out, db')"
  shows "receipts_step sha256 db db'"
proof -
  obtain row where "db_approvals db' = db_approvals db @ [row]" "newly_requested sha256 row"
    using assms by (auto simp: request_approval_def and_then_Inr_iff execute_Inr_iff insert_approval_def
        newly_requested_def receipt_of_def requested_as_def Approval_requested_def request_fingerprint_def split: if_splits)
  then show ?thesis
    unfolding receipts_step_def genuine_receipts_def kept_receipts_def
    using receipt_moves_refl by (metis Un_iff empty_iff insert_iff list.set(1,2) set_append)
qed

lemma authorize_flow_approval_receipts:
  assumes "authorize_flow_with_approval sha256 i request request_id now now_ms ttl db = Ok (out, db')" and "schema_ok db"
  shows "receipts_step sha256 db db'"
  using assms
  by (auto simp: authorize_flow_with_approval_def resolve_flow_approval_def and_then_Inr_iff Let_def
      split: option.splits intro: resolve_receipts request_receipts)

lemma authorize_tx_receipts:
  assumes "authorize_tx sha256 i request now now_ms ttl db = Ok (out, db')" and "schema_ok db"
  shows "receipts_step sha256 db db'"
  using assms
  by (auto simp: authorize_tx_def authorize_with_approval_def resolve_approval_tx_def and_then_Inr_iff Let_def
      split: option.split_asm if_split_asm Decision.split_asm intro: resolve_receipts request_receipts)
    (metis Decision.exhaust)+

lemma audited_receipts:
  "receipts_step sha256 db db1 \<Longrightarrow> append_audit_event_tx event db1 = Ok (x, db') \<Longrightarrow> receipts_step sha256 db db'"
  using receipts_audit.append_audit_tx_view receipts_same receipts_trans by blast

lemma accept_authorized_receipts:
  assumes "accept_authorized sha256 request required now db = Ok (out, db')"
  shows "db_approvals db' = db_approvals db"
  using assms
  by (auto simp: accept_authorized_def insert_flow_authorization_def and_then_Inr_iff execute_Inr_iff
      dest!: receipts_queue.accept_tx_view split: if_splits)

lemma authorize_new_receipts:
  assumes "authorize_new_flow_run sha256 i request now now_ms ttl db = Ok (out, db')" and "schema_ok db"
  shows "receipts_step sha256 db db'"
proof -
  have accepted: "receipts_step sha256 d d'"
    if "accept_authorized sha256 request required now d = Ok (out', d')" for d d' required out'
    using accept_authorized_receipts [OF that] by (rule receipts_same)
  show ?thesis
    using assms
    by (auto simp: authorize_new_flow_run_def and_then_Inr_iff Let_def split: if_split_asm
        dest!: authorize_flow_approval_receipts accepted intro: receipts_trans)
qed

lemma flow_run_receipts:
  assumes "authorize_flow_run sha256 i request now_ms ttl db = (Ok out, db')" and "schema_ok db"
  shows "receipts_step sha256 db db'"
  using assms unfolding authorize_flow_run_def transaction_Ok
  by (auto simp: and_then_Inr_iff split: if_split_asm option.splits
      dest: authorize_new_receipts intro: audited_receipts audited_receipts [OF receipts_refl])

lemma effect_receipts:
  assumes "schema_ok db"
  shows "authorize sha256 i request now_ms ttl db = (Ok out, db') \<Longrightarrow> receipts_step sha256 db db'"
    and "authorize_audited sha256 i request audit now_ms ttl db = (Ok out, db') \<Longrightarrow> receipts_step sha256 db db'"
    and "consume_effect_approval_audited sha256 request audit now_ms db = (Ok out, db') \<Longrightarrow> receipts_step sha256 db db'"
  using assms
  unfolding authorize_def authorize_audited_def consume_effect_approval_audited_def transaction_Ok
  by (auto simp: and_then_Inr_iff resolve_approval_tx_def split: if_split_asm
      intro: authorize_tx_receipts resolve_receipts audited_receipts receipts_refl)

lemma checkpoint_receipts:
  "save_flow_checkpoint codec sha256 save db = (Ok out, db') \<Longrightarrow> db_approvals db' = db_approvals db"
  unfolding save_flow_checkpoint_def transaction_Ok
  by (erule save_checkpoint_cases, erule persist_cases)
    (auto simp: insert_flow_checkpoint_def update_flow_checkpoint_def and_then_Inr_iff execute_Inr_iff Let_def
      split: if_splits dest!: receipts_queue.append_transition_view)

lemma reset_history_receipts: "reset_history db = (Ok out, db') \<Longrightarrow> db_approvals db' = db_approvals db"
  by (auto simp: reset_history_def transaction_Ok and_then_Inr_iff execute_Inr_iff)

lemma reset_access_receipts: "reset_access db = (Ok out, db') \<Longrightarrow> db_approvals db' = []"
  by (auto simp: reset_access_def transaction_Ok and_then_Inr_iff execute_Inr_iff)

section \<open>Histories of receipts\<close>

lemma op_receipts:
  assumes "apply_store_op codec sha256 op db = (Ok out, db')" and "schema_ok db" and "op \<noteq> ResetAccess"
  shows "receipts_step sha256 db db'"
  using assms
  by (cases op)
    (auto dest!: reply_Ok intro: flow_run_receipts effect_receipts decide_receipts
      receipts_same [OF receipts_queue.accept_view] receipts_same [OF receipts_queue.claim_view]
      receipts_same [OF receipts_queue.renew_view] receipts_same [OF receipts_queue.recover_leases_view]
      receipts_same [OF receipts_queue.append_leased_view] receipts_same [OF receipts_queue.finish_view]
      receipts_same [OF receipts_queue.finish_flow_view] receipts_same [OF receipts_queue.fail_corrupt_view]
      receipts_same [OF receipts_queue.cancel_view] receipts_same [OF checkpoint_receipts]
      receipts_same [OF receipts_access.register_view] receipts_same [OF receipts_access.revoke_caller_view]
      receipts_same [OF receipts_access.put_grant_view] receipts_same [OF receipts_access.revoke_grant_view]
      receipts_same [OF receipts_access.remember_root_view] receipts_same [OF receipts_audit.append_audit_view]
      receipts_same [OF receipts_audit.prune_audit_view] receipts_same [OF reset_history_receipts])

lemma store_step_receipts:
  assumes "store_step codec sha256 db l db'" and "schema_ok db"
  shows "genuine_receipts sha256 (db_approvals db) (db_approvals db')"
    and "fst l \<noteq> ResetAccess \<Longrightarrow> kept_receipts (db_approvals db) (db_approvals db')"
proof -
  obtain op r where l: "l = (op, r)" by (cases l)
  have op: "apply_store_op codec sha256 op db = (r, db')" using assms(1) by (simp add: store_step_def l)
  have "receipts_step sha256 db db'" if "op \<noteq> ResetAccess"
    using op that assms(2) op_receipts store_op_failed receipts_refl by (cases r) fastforce+
  moreover have "db_approvals db' = [] \<or> db' = db" if "op = ResetAccess"
    using op that store_op_failed [of codec sha256 op db _ db']
    by (cases r) (auto dest!: reply_Ok dest: reset_access_receipts)
  moreover have "genuine_receipts sha256 t []" for t by (simp add: genuine_receipts_def)
  ultimately show "genuine_receipts sha256 (db_approvals db) (db_approvals db')"
    by (cases "op = ResetAccess") (auto simp: receipts_step_def genuine_refl)
  show "fst l \<noteq> ResetAccess \<Longrightarrow> kept_receipts (db_approvals db) (db_approvals db')"
    using \<open>op \<noteq> ResetAccess \<Longrightarrow> receipts_step sha256 db db'\<close> by (simp add: l receipts_step_def)
qed

lemma path_genuine:
  "path (store_step codec sha256) db ls db' \<Longrightarrow> store_inv db \<Longrightarrow>
     genuine_receipts sha256 (db_approvals db) (db_approvals db')"
proof (induction rule: path.induct)
  case (nil db)
  show ?case by (rule genuine_refl)
next
  case (cons db l db' ls db'')
  then show ?case
    using genuine_trans store_step_receipts(1) [OF cons.hyps(1)] store_runs.step_inv [OF cons.prems cons.hyps(1)]
    by (metis store_inv_def)
qed

lemma path_kept:
  "path (store_step codec sha256) db ls db' \<Longrightarrow> store_inv db \<Longrightarrow> ResetAccess \<notin> fst ` set ls \<Longrightarrow>
     kept_receipts (db_approvals db) (db_approvals db')"
proof (induction rule: path.induct)
  case (nil db)
  show ?case by (rule kept_refl)
next
  case (cons db l db' ls db'')
  have "kept_receipts (db_approvals db) (db_approvals db')"
    by (rule store_step_receipts(2) [OF cons.hyps(1)]) (use cons.prems in \<open>auto simp: store_inv_def\<close>)
  moreover have "kept_receipts (db_approvals db') (db_approvals db'')"
    using cons.IH store_runs.step_inv [OF cons.prems(1) cons.hyps(1)] cons.prems(2) by simp
  ultimately show ?case by (rule kept_trans)
qed

lemma empty_reachable_path: "reachable_store codec sha256 db \<Longrightarrow> \<exists>ls. path (store_step codec sha256) empty_db ls db"
  unfolding reachable_store_def
proof (induction rule: reachable.induct)
  case (initial s)
  then show ?case by (auto simp: store_init_def intro: path.nil)
next
  case (step s l s')
  then obtain ls where "path (store_step codec sha256) empty_db ls s" by blast
  with step.hyps(2) have "path (store_step codec sha256) empty_db (ls @ [l]) s'" by (auto simp: path_append)
  then show ?case by blast
qed


lemma approval_row:
  assumes "schema_ok db" and "a \<in> set (db_approvals db)"
  shows "row_where (\<lambda>b. aw_approval_id b = aw_approval_id a) (db_approvals db) = Some a"
  using row_where_key [of aw_approval_id "db_approvals db" a "aw_approval_id a" "\<lambda>b. aw_approval_id b = aw_approval_id a" "\<lambda>_. True"]
    assms schema_okD(9) [OF assms(1)] by (simp add: approvals_ok_def)

lemma resolve_Allowed:
  assumes "resolve_bound_approval bound i request fp now now_ms db = Ok (AuthorizationOutcome.Allowed, db')"
    and "schema_ok db"
  shows "\<exists>a \<in> set (db_approvals db'). aw_approval_id a = i \<and> aw_state a = Consumed"
proof -
  obtain a where row: "row_where (\<lambda>a. aw_approval_id a = i) (db_approvals db) = Some a" and state: "aw_state a = ApprovalState.Approved"
    and bound: "aw_flow_request_id a = bound"
    and db': "db_approvals db' = update_where (\<lambda>a. aw_approval_id a = i \<and> aw_state a = ApprovalState.Approved
        \<and> (bound = None \<or> aw_flow_request_id a = bound)) (\<lambda>a. a\<lparr>aw_state := Consumed, aw_consumed_at_ms := Some now\<rparr>) (db_approvals db)"
    using assms(1)
    by (auto simp: resolve_bound_approval_def and_then_Inr_iff execute_Inr_iff update_approvals_def Let_def
        split: option.splits if_splits ApprovalState.splits)
  have "a \<in> set (db_approvals db)" "aw_approval_id a = i" using row_where_Some [OF row] by auto
  then have "a\<lparr>aw_state := Consumed, aw_consumed_at_ms := Some now\<rparr> \<in> set (db_approvals db')"
    unfolding db' update_where_set using state bound by (intro bexI [of _ a]) simp_all
  then show ?thesis
    using \<open>aw_approval_id a = i\<close> by (intro bexI [of _ "a\<lparr>aw_state := Consumed, aw_consumed_at_ms := Some now\<rparr>"]) simp_all
qed

lemma consumed_refused:
  assumes "schema_ok db" and "a \<in> set (db_approvals db)" and "aw_approval_id a = i" and "aw_state a = Consumed"
  shows "resolve_bound_approval bound i request fp now now_ms db = Ok (AuthorizationOutcome.Denied, db)"
proof -
  have "approval_row_ok a"
    using assms(1,2) by (auto simp: schema_ok_def approvals_ok_def list_all_iff)
  then have "0 \<le> aw_expires_at_ms a" by (simp add: approval_row_ok_def nonneg_def)
  then show ?thesis
    using approval_row [OF assms(1,2)] assms(3,4)
    by (simp add: resolve_bound_approval_def unsigned_integer_def)
qed

lemma kept_consumed:
  assumes "kept_receipts t t'" and "a \<in> set t" and "aw_state a = Consumed"
  shows "\<exists>a' \<in> set t'. aw_approval_id a' = aw_approval_id a \<and> aw_state a' = Consumed"
proof -
  obtain a' ops where "a' \<in> set t'" "snd (approval_trace (receipt_of a) ops) = receipt_of a'"
    using assms(1,2) by (auto simp: kept_receipts_def receipt_moves_def)
  moreover from this(2) have "receipt_of a' = receipt_of a"
    using consumed_trace [of "receipt_of a" ops] assms(3) by (simp add: receipt_of_def)
  ultimately show ?thesis using assms(3) by (auto simp: receipt_of_def)
qed

text \<open>C23: An approval is spent once: after an effect was allowed on a receipt, every later attempt to use the same
  receipt, for whatever request and at whatever time, is denied and writes nothing, after any history
  that does not reset access.\<close>

theorem approval_spent_once:
  assumes "reachable_store codec sha256 db"
    and "consume_effect_approval_audited sha256 request audit now_ms db = (Ok AuthorizationOutcome.Allowed, db1)"
    and "az_approval_id request = Some i"
    and "path (store_step codec sha256) db1 ls db2" and "ResetAccess \<notin> fst ` set ls"
  shows "resolve_bound_approval bound i later fingerprint now later_ms db2 = Ok (AuthorizationOutcome.Denied, db2)"
proof -
  have inv: "store_inv db" by (rule reachable_store_inv [OF assms(1)])
  have inv1: "store_inv db1"
    by (rule steps_inv [OF audited_steps(3) [OF assms(2)] inv])
  obtain event now d x where "resolve_bound_approval None i request (request_fingerprint sha256 request) now now_ms db
      = Ok (AuthorizationOutcome.Allowed, d)" "append_audit_event_tx event d = Ok (x, db1)"
    using assms(2,3)
    by (auto simp: consume_effect_approval_audited_def transaction_Ok and_then_Inr_iff resolve_approval_tx_def
        split: if_split_asm)
  then obtain a where "a \<in> set (db_approvals db1)" "aw_approval_id a = i" "aw_state a = Consumed"
    using resolve_Allowed inv receipts_audit.append_audit_tx_view by (metis store_inv_def)
  with path_kept [OF assms(4) inv1 assms(5)] obtain a' where
    "a' \<in> set (db_approvals db2)" "aw_approval_id a' = i" "aw_state a' = Consumed"
    using kept_consumed by blast
  moreover have "schema_ok db2"
    using steps_inv [OF history_steps [OF assms(4) inv1] inv1] by (simp add: store_inv_def)
  ultimately show ?thesis by (intro consumed_refused) auto
qed

end
