(* ===== verification/Store_Flow.thy ===== *)
theory Store_Flow
  imports Store_Views Flow_Checkpoints
begin

text \<open>
  The flow engine and the store together: a checkpoint that was saved is read back as it was, whatever
  the store did since, and the engine resumes from it in the state in which the run was interrupted.
\<close>

section \<open>Reading back a checkpoint\<close>

lemma parse_outcome_name [simp]: "parse_flow_outcome (flow_outcome_name outcome) = Some outcome"
  by (cases outcome) (simp_all add: parse_flow_outcome_def)

lemma decode_terminal_columns [simp]:
  "decode_stored_terminal_result i (map_option (flow_outcome_name \<circ> ft_outcome) terminal)
     (map_option ft_encoded_result terminal) = Ok terminal"
  by (cases terminal) (simp_all add: decode_stored_terminal_result_def)

lemma unsigned_of_word: "sql_integer v = Ok n \<Longrightarrow> unsigned_integer n = Ok v"
  by (simp add: sql_integer_Ok unsigned_integer_def)

definition stored_as :: "SaveFlowCheckpoint \<Rightarrow> string \<Rightarrow> u64 \<Rightarrow> u64 \<Rightarrow> bool \<Rightarrow> StoredFlowCheckpoint" where
  "stored_as save bytes revision at override =
     \<lparr>sc_definition_digest = sn_definition_digest (sv_snapshot save), sc_snapshot_bytes = bytes,
      sc_checkpoint_revision = revision, sc_updated_at_ms = at, sc_terminal_result = sv_terminal_result save,
      sc_terminal_cancellation_override = override\<rparr>"

lemma insert_reads:
  assumes "insert_flow_checkpoint save bytes ov db = Ok db'"
    and "read_flow_checkpoint (le_request_id (sv_lease save)) db = Ok None"
  shows "read_flow_checkpoint (le_request_id (sv_lease save)) db' = Ok (Some (stored_as save bytes 1 (sv_updated_at_ms save) ov))"
proof -
  have none: "row_where (\<lambda>f. fr_request_id f = le_request_id (sv_lease save)) (db_flow_runs db) = None"
    using assms(2) by (auto simp: read_flow_checkpoint_def and_then_Inr_iff split: option.splits)
  obtain at where "sql_integer (sv_updated_at_ms save) = Ok at"
    using assms(1) by (auto simp: insert_flow_checkpoint_def and_then_Inr_iff)
  with assms(1) unsigned_of_word [OF this] show ?thesis
    by (auto simp: insert_flow_checkpoint_def execute_Inr_iff read_flow_checkpoint_def row_where_snoc none stored_as_def
        unsigned_integer_def)
qed

lemma run_row:
  assumes "schema_ok db" and "f \<in> set (db_flow_runs db)"
  shows "row_where (\<lambda>g. fr_request_id g = fr_request_id f) (db_flow_runs db) = Some f"
  using row_where_key [of fr_request_id "db_flow_runs db" f "fr_request_id f" "\<lambda>g. fr_request_id g = fr_request_id f" "\<lambda>_. True"]
    assms schema_okD(4) [OF assms(1)] by (simp add: flow_runs_ok_def)

lemma update_reads:
  assumes "update_flow_checkpoint save bytes revision ov db = Ok db'" and "schema_ok db"
  shows "read_flow_checkpoint (le_request_id (sv_lease save)) db' = Ok (Some (stored_as save bytes revision (sv_updated_at_ms save) ov))"
proof -
  let ?i = "le_request_id (sv_lease save)"
  obtain n at e where n: "sql_integer revision = Ok n" "sql_integer (sv_updated_at_ms save) = Ok at" "sql_integer (sv_expected_revision save) = Ok e"
    using assms(1) by (auto simp: update_flow_checkpoint_def and_then_Inr_iff)
  let ?p = "\<lambda>f. fr_request_id f = ?i \<and> FlowRunRow.fr_definition_digest f = sn_definition_digest (sv_snapshot save) \<and> fr_checkpoint_revision f = e"
  let ?f = "\<lambda>f. f\<lparr>fr_snapshot := bytes, fr_checkpoint_revision := n, fr_updated_at_ms := at,
     fr_terminal_outcome := map_option (flow_outcome_name \<circ> ft_outcome) (sv_terminal_result save),
     fr_terminal_result := map_option ft_encoded_result (sv_terminal_result save), fr_terminal_cancellation_override := ov\<rparr>"
  have db': "db_flow_runs db' = update_where ?p ?f (db_flow_runs db)" and one: "matching ?p (db_flow_runs db) = 1"
    using assms(1) n by (auto simp: update_flow_checkpoint_def execute_Inr_iff and_then_Inr_iff Let_def split: if_splits)
  obtain f where f: "f \<in> set (db_flow_runs db)" "?p f" using one matching_pos [of ?p "db_flow_runs db"] by auto
  have "row_where (\<lambda>g. fr_request_id g = ?i) (db_flow_runs db) = Some f" using run_row [OF assms(2) f(1)] f(2) by simp
  then have "row_where (\<lambda>g. fr_request_id g = ?i) (db_flow_runs db') = Some (?f f)"
    unfolding db' using f(2) by (subst row_where_update) auto
  then show ?thesis
    using f(2) n unsigned_of_word by (simp add: read_flow_checkpoint_def stored_as_def)
qed

lemma transition_reads: "append_flow_transition i now t bytes db = Ok (e, db') \<Longrightarrow> read_flow_checkpoint j db' = read_flow_checkpoint j db"
  using runs.append_transition_view by (fastforce simp: read_flow_checkpoint_def)

lemma persist_reads:
  assumes "persist_flow_checkpoint codec sha256 save bytes tbytes now existing ov db = Ok ((revision, at, disposition, ev), db')"
    and "read_flow_checkpoint (le_request_id (sv_lease save)) db = Ok existing" and "schema_ok db"
  shows "read_flow_checkpoint (le_request_id (sv_lease save)) db' = Ok (Some (stored_as save bytes revision at ov))"
  using assms(1)
proof (cases rule: persist_cases)
  case (created db1)
  then show ?thesis using insert_reads [OF created(4)] assms(2) transition_reads [OF created(5)] by simp
next
  case (unchanged stored)
  have "sc_definition_digest stored = sn_definition_digest (sv_snapshot save)" "sc_terminal_cancellation_override stored = ov"
    using assms(1) unchanged(1,2)
    by (auto simp: persist_flow_checkpoint_def repeat_flow_checkpoint_def validate_stored_digest_def and_then_Inr_iff
        fail_if_Inr_iff Let_def split: if_splits)
  then show ?thesis using unchanged assms(2) by (simp add: stored_as_def)
next
  case (updated stored db1)
  then show ?thesis using update_reads [OF updated(5) assms(3)] transition_reads [OF updated(6)] by simp
qed

lemma encode_snapshot_Ok:
  assumes "encode_snapshot codec snapshot = Ok bytes"
  shows "bytes \<noteq> []" "length bytes \<le> MAX_FLOW_CHECKPOINT_BYTES" "cd_decode_snapshot codec bytes = Some snapshot"
  using assms by (auto simp: encode_snapshot_def encode_bounded_def and_then_Inr_iff ok_or_Inr_iff split: if_splits)

lemma terminal_result_alone:
  "validate_flow_terminal_result snapshot t terminal = Ok () \<Longrightarrow> validate_flow_terminal_result snapshot None terminal = Ok ()"
  by (auto simp: validate_flow_terminal_result_def and_then_Inr_iff)

lemma saved_reads:
  assumes "save_flow_checkpoint codec sha256 save db = (Ok out, db')" and "schema_ok db" and "sv_terminal_result save = None"
  shows "\<exists>stored. read_flow_checkpoint (le_request_id (sv_lease save)) db' = Ok (Some stored)
     \<and> decode_flow_checkpoint codec (le_request_id (sv_lease save)) stored = Ok (so_checkpoint out)
     \<and> \<not> sc_terminal_cancellation_override stored"
proof -
  let ?i = "le_request_id (sv_lease save)"
  from assms(1) have tx: "save_flow_checkpoint_tx codec sha256 save db = Ok (out, db')"
    by (simp add: save_flow_checkpoint_def transaction_Ok)
  then show ?thesis
  proof (rule save_checkpoint_cases)
    fix now bytes tbytes ov existing request_state revision at disposition ev
    assume id: "sn_run_id (sv_snapshot save) = ?i"
      and terminal: "validate_flow_terminal_result (sv_snapshot save) (sv_transition save) (sv_terminal_result save) = Ok ()"
      and bytes: "encode_snapshot codec (sv_snapshot save) = Ok bytes"
      and ov: "terminal_cancellation_override save request_state = Ok ov"
      and "read_flow_checkpoint ?i db = Ok existing"
      and "persist_flow_checkpoint codec sha256 save bytes tbytes now existing ov db = Ok ((revision, at, disposition, ev), db')"
      and out: "out = \<lparr>so_checkpoint = \<lparr>fc_request_id = ?i, fc_snapshot = sv_snapshot save, fc_checkpoint_revision = revision,
        fc_updated_at_ms = at, fc_terminal_result = sv_terminal_result save\<rparr>, so_disposition = disposition, so_event = ev\<rparr>"
    then have "read_flow_checkpoint ?i db' = Ok (Some (stored_as save bytes revision at ov))"
      using persist_reads assms(2) by blast
    moreover have "\<not> ov" using ov assms(3) by (simp add: terminal_cancellation_override_def)
    moreover have "decode_flow_checkpoint codec ?i (stored_as save bytes revision at False) = Ok (so_checkpoint out)"
      using encode_snapshot_Ok [OF bytes] terminal_result_alone [OF terminal] id
      by (simp add: decode_flow_checkpoint_def stored_as_def validate_flow_request_identity_def fail_if_def out not_le [symmetric])
    ultimately show ?thesis by (auto simp: stored_as_def)
  qed
qed

section \<open>What leaves a checkpoint alone\<close>

fun writes_checkpoint :: "RequestId \<Rightarrow> StoreOp \<Rightarrow> bool" where
  "writes_checkpoint i (SaveCheckpoint save) \<longleftrightarrow> le_request_id (sv_lease save) = i"
| "writes_checkpoint i ResetHistory \<longleftrightarrow> True"
| "writes_checkpoint i _ \<longleftrightarrow> False"

lemma reads_same: "db_flow_runs db' = db_flow_runs db \<Longrightarrow> read_flow_checkpoint i db' = read_flow_checkpoint i db"
  by (simp add: read_flow_checkpoint_def)

lemma save_other_reads:
  assumes "save_flow_checkpoint codec sha256 save db = (Ok out, db')" and "le_request_id (sv_lease save) \<noteq> i"
  shows "read_flow_checkpoint i db' = read_flow_checkpoint i db"
proof -
  have inserted: "read_flow_checkpoint i d' = read_flow_checkpoint i d" if "insert_flow_checkpoint save bytes ov d = Ok d'" for bytes ov d d'
    using that assms(2)
    by (auto simp: insert_flow_checkpoint_def and_then_Inr_iff execute_Inr_iff read_flow_checkpoint_def row_where_snoc
        split: option.splits)
  have updated: "read_flow_checkpoint i d' = read_flow_checkpoint i d" if u: "update_flow_checkpoint save bytes revision ov d = Ok d'" for bytes revision ov d d'
  proof -
    obtain p f where d': "db_flow_runs d' = update_where p f (db_flow_runs d)"
      and p: "\<And>r. p r \<Longrightarrow> fr_request_id r = le_request_id (sv_lease save) \<and> fr_request_id (f r) = fr_request_id r"
      using u by (auto simp: update_flow_checkpoint_def and_then_Inr_iff execute_Inr_iff Let_def split: if_splits)
    have "row_where (\<lambda>f. fr_request_id f = i) (update_where p f (db_flow_runs d)) = row_where (\<lambda>f. fr_request_id f = i) (db_flow_runs d)"
      by (rule row_where_update_other) (use p assms(2) in auto)
    then show ?thesis by (simp add: read_flow_checkpoint_def d')
  qed
  from assms(1) show ?thesis
    unfolding save_flow_checkpoint_def transaction_Ok
    by (elim save_checkpoint_cases persist_cases) (auto dest!: inserted updated transition_reads [of _ _ _ _ _ _ _ i])
qed

lemma op_reads:
  assumes "apply_store_op codec sha256 op db = (Ok out, db')" and "\<not> writes_checkpoint i op"
  shows "read_flow_checkpoint i db' = read_flow_checkpoint i db"
  using assms
  by (cases op)
    (auto dest!: reply_Ok intro: save_other_reads
      reads_same [OF runs.accept_view] reads_same [OF runs.claim_view] reads_same [OF runs.renew_view]
      reads_same [OF runs.recover_leases_view] reads_same [OF runs.append_leased_view] reads_same [OF runs.finish_view]
      reads_same [OF runs.finish_flow_view] reads_same [OF runs.fail_corrupt_view] reads_same [OF runs.cancel_view]
      reads_same [OF runs.register_view] reads_same [OF runs.revoke_caller_view] reads_same [OF runs.put_grant_view]
      reads_same [OF runs.revoke_grant_view] reads_same [OF runs.remember_root_view] reads_same [OF runs.append_audit_view]
      reads_same [OF runs.prune_audit_view] reads_same [OF runs.flow_run_view] reads_same [OF runs.authorize_view]
      reads_same [OF runs.authorize_audited_view] reads_same [OF runs.consume_view] reads_same [OF runs.decide_view]
      reads_same [OF runs.reset_access_view])

lemma path_reads:
  "path (store_step codec sha256) db ls db' \<Longrightarrow> list_all (\<lambda>l. \<not> writes_checkpoint i (fst l)) ls \<Longrightarrow>
     read_flow_checkpoint i db' = read_flow_checkpoint i db"
proof (induction rule: path.induct)
  case (cons db l db' ls db'')
  have "read_flow_checkpoint i db' = read_flow_checkpoint i db"
    using cons.hyps(1) cons.prems op_reads store_op_failed
    by (cases l; cases "snd l") (fastforce simp: store_step_def)+
  with cons show ?case by simp
qed simp

section \<open>Interrupted runs\<close>

lemma saved_standalone:
  assumes "save_flow_checkpoint codec sha256 save db = (Ok out, db')"
  shows "validate_standalone_snapshot sha256 (sv_snapshot save) = Ok ()"
proof -
  have successor: "validate_standalone_snapshot sha256 (sv_snapshot save) = Ok ()"
    if "validate_flow_successor sha256 previous (sv_snapshot save) t = Ok ()" for previous t
    using that by (auto simp: validate_flow_successor_def validate_snapshot_successor_def map_err_Inr_iff and_then_Inr_iff)
  have upgrade: "validate_standalone_snapshot sha256 (sv_snapshot save) = Ok ()"
    if "validate_snapshot_upgrade sha256 previous (sv_snapshot save) = Ok ()" for previous
    using that by (auto simp: validate_snapshot_upgrade_def and_then_Inr_iff Let_def split: if_splits)
  obtain bytes tbytes now existing ov res where
    "persist_flow_checkpoint codec sha256 save bytes tbytes now existing ov db = Ok res"
    using assms unfolding save_flow_checkpoint_def transaction_Ok by (rule save_checkpoint_cases)
  then show ?thesis
    by (cases existing)
      (auto simp: persist_flow_checkpoint_def repeat_flow_checkpoint_def advance_flow_checkpoint_def Let_def
        and_then_Inr_iff map_err_Inr_iff split: if_split_asm dest: successor upgrade)
qed

text \<open>C16: A run that is interrupted after a checkpoint is resumed exactly there: when the snapshot of a
  reachable run was saved, then after any operations that neither save another checkpoint of the run nor
  purge the history (crashes, recovered leases, new claims) whoever holds the lease loads that
  checkpoint, and the engine resumes from it with the same definition and snapshot and no attempt issued.\<close>

theorem interrupted_run_resumes:
  assumes "reachable_store codec sha256 db" and "reachable_run sha256 run"
    and "save_flow_checkpoint codec sha256 save db = (Ok out, db1)"
    and "sv_snapshot save = run_snapshot run" and "sv_terminal_result save = None"
    and "sn_transition_sequence (run_snapshot run) \<noteq> -1"
    and "path (store_step codec sha256) db1 ls db2"
    and "list_all (\<lambda>l. \<not> writes_checkpoint (sn_run_id (run_snapshot run)) (fst l)) ls"
    and "le_request_id lease = sn_run_id (run_snapshot run)"
    and "sql_integer now_ms = Ok now" and "ensure_live_flow_lease lease now db2 = Ok state"
  shows "load_flow_checkpoint codec lease now_ms db2 = Ok (Some (so_checkpoint out))
     \<and> FlowRun_resume sha256 (sn_run_id (run_snapshot run)) (run_definition run) (fc_snapshot (so_checkpoint out))
       = Ok (run\<lparr>run_issued_attempt := None\<rparr>)"
proof -
  have inv: "store_inv db" by (rule reachable_store_inv [OF assms(1)])
  have tx: "save_flow_checkpoint_tx codec sha256 save db = Ok (out, db1)"
    using assms(3) by (simp add: save_flow_checkpoint_def transaction_Ok)
  then have i: "le_request_id (sv_lease save) = sn_run_id (run_snapshot run)"
    and snapshot: "fc_snapshot (so_checkpoint out) = run_snapshot run"
    by (auto elim!: save_checkpoint_cases simp: assms(4))
  obtain stored where stored: "read_flow_checkpoint (le_request_id (sv_lease save)) db1 = Ok (Some stored)"
    "decode_flow_checkpoint codec (le_request_id (sv_lease save)) stored = Ok (so_checkpoint out)"
    "\<not> sc_terminal_cancellation_override stored"
    using saved_reads [OF assms(3) _ assms(5)] inv by (auto simp: store_inv_def)
  then have "load_flow_checkpoint codec lease now_ms db2 = Ok (Some (so_checkpoint out))"
    using path_reads [OF assms(7,8)] assms(9,10,11) i
    by (simp add: load_flow_checkpoint_def decode_and_validate_flow_checkpoint_def)
  moreover have "approved_skips (run_snapshot run)"
    using standalone_refuses [of "run_snapshot run" sha256] saved_standalone [OF assms(3)] assms(4) by (auto simp: is_err_def)
  ultimately show ?thesis
    using resume_from_inv [OF flow_runs.reachable_inv [OF assms(2)]] assms(6) snapshot by simp
qed

end
