(* ===== verification/Store_Progress.thy ===== *)
theory Store_Progress
  imports Store_Guarantees
begin

text \<open>
  Progress of the queue: the statements of a claim break no constraint, so that a project with waiting
  requests and none running always gets its next request started.
\<close>

section \<open>Statements that break no constraint\<close>

lemma schema_requests:
  assumes "schema_ok db" and "map rq_request_id requests = map rq_request_id (db_requests db)"
    and "requests_ok (db\<lparr>db_requests := requests\<rparr>)"
  shows "schema_ok (db\<lparr>db_requests := requests\<rparr>)"
proof -
  have ids: "set (map rq_request_id requests) = set (map rq_request_id (db_requests db))" by (simp only: assms(2))
  show ?thesis
    using assms(1,3) ids
    by (simp add: schema_ok_def projects_ok_def events_ok_def flow_runs_ok_def flow_authorizations_ok_def callers_ok_def
        policies_ok_def grants_ok_def approvals_ok_def audit_events_ok_def activity_days_ok_def)
qed

lemma event_ok:
  assumes "store_inv db" and "request_row i db \<noteq> None" and "nonneg now"
    and "int (length (request_events i db)) < 2 ^ 63 - 1"
  shows "schema_ok (insert_event i (next_event_sequence i db) kind payload now db)"
proof -
  let ?n = "next_event_sequence i db"
  have n: "?n = int (length (request_events i db)) + 1"
    using assms(1) by (intro next_event_numbered) (simp add: store_inv_def)
  have below: "ev_sequence e < ?n" if "e \<in> set (db_events db)" "ev_request_id e = i" for e
  proof -
    have numbered: "map ev_sequence (request_events i db) = map int [1..<Suc (length (request_events i db))]"
      using assms(1) by (simp add: store_inv_def events_numbered_def)
    have "ev_sequence e \<in> set (map ev_sequence (request_events i db))" using that by (simp add: request_events_def)
    then show ?thesis unfolding numbered n by auto
  qed
  have "(i, ?n) \<notin> (\<lambda>e. (ev_request_id e, ev_sequence e)) ` set (db_events db)" using below by fastforce
  moreover have "positive ?n" using assms(4) by (simp add: n positive_def is_i64_def)
  moreover have "i \<in> rq_request_id ` set (db_requests db)" using assms(2) request_row_Some by fastforce
  ultimately show ?thesis
    using assms(1,3)
    by (simp add: store_inv_def schema_ok_def events_ok_def event_row_ok_def insert_event_def projects_ok_def requests_ok_def
        flow_runs_ok_def flow_authorizations_ok_def callers_ok_def policies_ok_def grants_ok_def approvals_ok_def
        audit_events_ok_def activity_days_ok_def)
qed

lemma grant_ok:
  assumes "schema_ok db" and "db_requests db = xs @ r # ys" and "rq_state r = Queued"
    and "\<forall>s \<in> set (db_requests db). rq_project_id s = rq_project_id r \<longrightarrow> \<not> is_active_state (rq_state s)"
    and "nonneg attempt" and "nonneg expires_at"
  shows "schema_ok (db\<lparr>db_requests := xs @ grant_lease owner token attempt expires_at r # ys\<rparr>)"
proof (rule schema_requests [OF assms(1)])
  have ok: "requests_ok db" by (rule schema_okD(2) [OF assms(1)])
  have row: "request_row_ok (grant_lease owner token attempt expires_at r)"
    using ok assms(2,3,5,6)
    by (simp add: requests_ok_def request_row_ok_def grant_lease_def lease_shape_def result_shape_def is_active_state_def
        null_or_def is_terminal_state_def)
  have "rq_project_id r \<notin> rq_project_id ` set (filter active_request (xs @ ys))"
    using assms(2,4) by (auto simp: active_request_def)
  then have "distinct (map rq_project_id (filter active_request (xs @ grant_lease owner token attempt expires_at r # ys)))"
    using ok assms(2,3) by (auto simp: requests_ok_def active_request_def grant_lease_def is_active_state_def)
  with ok row show "requests_ok (db\<lparr>db_requests := xs @ grant_lease owner token attempt expires_at r # ys\<rparr>)"
    by (auto simp: requests_ok_def assms(2) grant_lease_def)
qed (simp add: assms(2) grant_lease_def)

section \<open>Claims\<close>

lemma candidate_exists:
  assumes "r \<in> set (db_requests db)" and "rq_state r = Queued"
    and "\<forall>s \<in> set (db_requests db). rq_project_id s = rq_project_id r \<longrightarrow> \<not> is_active_state (rq_state s)"
  shows "\<exists>c. claim_candidate db = Some c"
proof -
  let ?waiting = "{s \<in> set (db_requests db). rq_project_id s = rq_project_id r \<and> rq_state s = Queued}"
  have "finite ?waiting" "?waiting \<noteq> {}" using assms(1,2) by auto
  then have "arg_min_on rq_queue_sequence ?waiting \<in> ?waiting"
    and "\<And>t. t \<in> ?waiting \<Longrightarrow> rq_queue_sequence (arg_min_on rq_queue_sequence ?waiting) \<le> rq_queue_sequence t"
    by (rule arg_min_if_finite(1), rule arg_min_least)
  then obtain s where s: "s \<in> ?waiting" "\<And>t. t \<in> ?waiting \<Longrightarrow> rq_queue_sequence s \<le> rq_queue_sequence t"
    by blast
  then have "claimable db s" using assms(3) by (fastforce simp: claimable_def list_ex_iff)
  then show ?thesis
    using s(1) first_by_None [of rq_accepted_at_ms "claimable db" "db_requests db"] by (auto simp: claim_candidate_def)
qed

lemma lease_expiry_Ok:
  assumes "d \<noteq> 0" and "uint now_ms + uint d < 2 ^ 63"
  shows "lease_expiry now_ms d = Ok (now_ms + d)" "uint (now_ms + d) = uint now_ms + uint d"
proof -
  have sum: "uint (now_ms + d) = uint now_ms + uint d"
    using assms(2) uint_add_lem [of now_ms d] by simp
  then show "uint (now_ms + d) = uint now_ms + uint d" .
  have "unat now_ms + unat d = nat (uint now_ms + uint d)" by (simp add: nat_add_distrib)
  also have "\<dots> < nat (2 ^ 63)" using assms(2) by (subst nat_less_eq_zless) auto
  finally have "unat now_ms + unat d < 2 ^ 64" by simp
  then show "lease_expiry now_ms d = Ok (now_ms + d)"
    using assms(1) by (simp add: lease_expiry_def checked_add_def)
qed


end
