(* ===== verification/Store_Witnesses.thy ===== *)
theory Store_Witnesses
  imports Store_Examples Store_Receipts Store_Flow Store_Progress
begin

text \<open>
  Two more histories, evaluated: a receipt that is requested, approved and spent, and a flow run that is
  admitted, leased and saved, loses its lease and is resumed by the next holder.
\<close>

section \<open>A receipt\<close>

definition access_grant :: "string \<Rightarrow> string \<Rightarrow> ApprovalRequirement \<Rightarrow> Grant" where
  "access_grant i capability approval = \<lparr>gr_id = i, gr_caller = ''cli'', gr_project = ''p'', gr_capability = capability,
     gr_resource = Any, gr_effect = Allow, gr_approval = approval, gr_expires_at_ms = None, gr_revoked_at_ms = None\<rparr>"

definition push_request :: AuthorizationRequest where
  "push_request = \<lparr>az_caller_id = ''cli'', az_project_id = ''p'', az_capability = ''git.push'', az_resource = ''origin'',
     az_approval_id = Some ''a1''\<rparr>"

definition push_audit :: AuthorizationAudit where
  "push_audit = \<lparr>at_event_id = ''e1'', at_action = ''push'', at_redacted_detail = ''push'', at_retain_until_ms = 9\<rparr>"

definition access_row :: "string \<Rightarrow> string \<Rightarrow> string \<Rightarrow> GrantRow" where
  "access_row i capability approval = \<lparr>gt_grant_id = i, gt_caller_id = ''cli'', gt_project_id = ''p'',
     gt_capability = capability, gt_resource_kind = ''any'', gt_resource = None, gt_effect = ''allow'',
     gt_approval = approval, gt_expires_at_ms = None, gt_revoked_at_ms = None, gt_created_at_ms = 1\<rparr>"

definition access_db :: "GrantRow list \<Rightarrow> ApprovalRow list \<Rightarrow> Db" where
  "access_db grants approvals = empty_db\<lparr>
     db_projects := [\<lparr>pr_project_id = ''p'', pr_next_queue_sequence = 1, pr_root = None\<rparr>],
     db_callers := [\<lparr>cr_caller_id = ''cli'', cr_credential_digest = store_hash ''secret'',
       cr_registered_at_ms = 1, cr_revoked_at_ms = None, cr_kind = None\<rparr>],
     db_policies := [\<lparr>po_project_id = ''p'', po_version = 1, po_updated_at_ms = 1\<rparr>],
     db_grants := grants, db_approvals := approvals\<rparr>"

definition push_approval :: ApprovalRow where
  "push_approval = \<lparr>aw_approval_id = ''a1'', aw_caller_id = ''cli'', aw_project_id = ''p'', aw_capability = ''git.push'',
     aw_resource = ''origin'', aw_effect_fingerprint = request_fingerprint store_hash push_request, aw_state = Requested,
     aw_requested_at_ms = 2, aw_expires_at_ms = 12, aw_decided_by = None, aw_decided_at_ms = None,
     aw_consumed_at_ms = None, aw_flow_request_id = None\<rparr>"

definition db_pushing :: "ApprovalRow list \<Rightarrow> Db" where
  "db_pushing approvals = access_db [access_row ''g1'' ''git.push'' ''once''] approvals"

definition approved_push :: ApprovalRow where
  "approved_push = push_approval\<lparr>aw_state := ApprovalState.Approved, aw_decided_by := Some ''cli'', aw_decided_at_ms := Some 3\<rparr>"

definition db_caller :: Db where
  "db_caller = empty_db\<lparr>db_callers := [\<lparr>cr_caller_id = ''cli'', cr_credential_digest = store_hash ''secret'',
       cr_registered_at_ms = 1, cr_revoked_at_ms = None, cr_kind = None\<rparr>]\<rparr>"

lemma register_demo: "snd (register_caller store_hash ''cli'' ''secret'' None 1 empty_db) = db_caller"
  by code_simp

lemma grant_demo: "snd (put_grant (access_grant ''g1'' ''git.push'' Once) 1 db_caller) = db_pushing []"
  by code_simp

lemma request_demo: "snd (authorize store_hash ''a1'' (push_request\<lparr>az_approval_id := None\<rparr>) 2 10 (db_pushing [])) = db_pushing [push_approval]"
  by code_simp

lemma decide_demo: "snd (decide_approval ''a1'' None ''cli'' ApprovalDecision.Approve 3 (db_pushing [push_approval])) = db_pushing [approved_push]"
  by code_simp

lemma consume_demo: "fst (consume_effect_approval_audited store_hash push_request push_audit 4 (db_pushing [approved_push])) = Ok AuthorizationOutcome.Allowed"
  by code_simp

section \<open>A flow run\<close>

definition flow_audit :: AuthorizationAudit where
  "flow_audit = \<lparr>at_event_id = ''e1'', at_action = ''flow'', at_redacted_detail = ''flow'', at_retain_until_ms = 9\<rparr>"

definition flow_request :: AuthorizeFlowRun where
  "flow_request = \<lparr>aq_accept = \<lparr>ac_request_id = ''f1'', ac_caller_id = ''cli'', ac_project_id = ''p'',
      ac_idempotency_key = ''k1'', ac_operation_kind = ''flow_run'', ac_operation = ''demo''\<rparr>, aq_resource = ''demo'',
     aq_approval_id = None, aq_audit = flow_audit, aq_schema_approval_required = False\<rparr>"

definition db_granted :: Db where "db_granted = access_db [access_row ''g2'' ''flow.run'' ''none''] []"
lemma grant_flow_demo: "snd (put_grant (access_grant ''g2'' ''flow.run'' ApprovalRequirement.NoApproval) 1 db_caller) = db_granted"
  by code_simp

definition flow_row :: RequestRow where
  "flow_row = \<lparr>rq_request_id = ''f1'', rq_caller_id = ''cli'', rq_project_id = ''p'', rq_idempotency_key = ''k1'',
     rq_operation_kind = ''flow_run'', rq_operation = ''demo'', rq_queue_sequence = 1, rq_state = Queued,
     rq_accepted_at_ms = 2, rq_attempt = 0, rq_lease_owner = None, rq_lease_token = None,
     rq_lease_expires_at_ms = None, rq_completed_at_ms = None, rq_result = None\<rparr>"

definition flow_db :: "RequestRow \<Rightarrow> EventRow list \<Rightarrow> FlowRunRow list \<Rightarrow> Db" where
  "flow_db row events runs = db_granted\<lparr>
     db_projects := [\<lparr>pr_project_id = ''p'', pr_next_queue_sequence = 2, pr_root = None\<rparr>],
     db_requests := [row], db_events := demo_event ''f1'' 1 ''accepted'' 2 # events, db_flow_runs := runs,
     db_flow_authorizations := [\<lparr>fa_request_id = ''f1'', fa_capability = ''flow.run'', fa_resource = ''demo'',
       fa_effect_fingerprint = EffectFingerprint_compute store_hash ''cli'' ''p'' ''flow.run'' ''demo'',
       fa_authorization_kind = ''unconditional'', fa_approval_id = None, fa_schema_approval_required = False,
       fa_authorized_at_ms = 2\<rparr>],
     db_audit_events := [\<lparr>au_sequence = 1, au_event_id = ''e1'', au_project_id = ''p'', au_caller_id = ''cli'',
       au_action = ''flow'', au_decision = ''allow'', au_outcome = ''authorized'', au_redacted_detail = ''flow'',
       au_occurred_at_ms = 2, au_retain_until_ms = 9\<rparr>],
     db_audit_high_water := 1, db_activity_days := [\<lparr>ad_day_start_ms = 0, ad_events = 1\<rparr>]\<rparr>"

lemma authorize_flow_demo: "snd (authorize_flow_run store_hash ''x'' flow_request 2 10 db_granted) = flow_db flow_row [] []"
  by code_simp

definition flow_lease :: "string \<Rightarrow> u64 \<Rightarrow> u64 \<Rightarrow> Lease" where
  "flow_lease token attempt expires = \<lparr>le_request_id = ''f1'', le_project_id = ''p'', le_owner = ''w'',
     le_token = token, le_attempt = attempt, le_expires_at_ms = expires\<rparr>"

definition db_flow_leased :: "FlowRunRow list \<Rightarrow> Db" where
  "db_flow_leased runs = flow_db (grant_lease ''w'' ''t1'' 1 13 flow_row) [demo_event ''f1'' 2 ''started'' 3] runs"

definition db_flow_again :: "FlowRunRow list \<Rightarrow> Db" where
  "db_flow_again runs = flow_db (grant_lease ''w'' ''t2'' 2 31 flow_row)
     [demo_event ''f1'' 2 ''started'' 3, demo_event ''f1'' 3 ''lease_expired'' 20, demo_event ''f1'' 4 ''started'' 21] runs"

lemma claim_flow_demo: "snd (claim store_hash ''t1'' ''w'' 3 10 (flow_db flow_row [] [])) = db_flow_leased []"
  by code_simp

definition durable_run :: FlowRun where
  "durable_run = (case FlowRun_start store_hash ''f1'' demo_flow of Inr run \<Rightarrow> run | Inl _ \<Rightarrow> demo_run)"

lemma durable_start: "FlowRun_start store_hash ''f1'' demo_flow = Ok durable_run"
proof -
  have "\<not> is_err (FlowRun_start store_hash ''f1'' demo_flow)" by code_simp
  then show ?thesis by (auto simp: durable_run_def is_err_def split: sum.splits)
qed

definition durable_codec :: Codec where
  "durable_codec = \<lparr>cd_encode_snapshot = \<lambda>s. if s = run_snapshot durable_run then Some ''snapshot'' else None,
     cd_decode_snapshot = \<lambda>b. if b = ''snapshot'' then Some (run_snapshot durable_run) else None,
     cd_encode_transition = \<lambda>_. None, cd_decode_transition = \<lambda>_. None\<rparr>"

definition durable_save :: SaveFlowCheckpoint where
  "durable_save = \<lparr>sv_lease = flow_lease ''t1'' 1 13, sv_expected_revision = 0, sv_snapshot = run_snapshot durable_run,
     sv_transition = None, sv_terminal_result = None, sv_updated_at_ms = 4\<rparr>"

definition durable_row :: FlowRunRow where
  "durable_row = \<lparr>fr_request_id = ''f1'', FlowRunRow.fr_definition_digest = sn_definition_digest (run_snapshot durable_run),
     fr_snapshot = ''snapshot'', fr_checkpoint_revision = 1, fr_updated_at_ms = 4, fr_terminal_outcome = None,
     fr_terminal_result = None, fr_terminal_cancellation_override = False\<rparr>"

lemma save_demo:
  "(case save_flow_checkpoint durable_codec store_hash durable_save (db_flow_leased []) of
      (Inr out, db) \<Rightarrow> db = db_flow_leased [durable_row] | _ \<Rightarrow> False)"
  by code_simp

definition db_flow_waiting :: Db where
  "db_flow_waiting = flow_db (flow_row\<lparr>rq_attempt := 1\<rparr>)
     [demo_event ''f1'' 2 ''started'' 3, demo_event ''f1'' 3 ''lease_expired'' 20] [durable_row]"

lemma recover_demo:
  "snd (recover_leases durable_codec 20 All (db_flow_leased [durable_row])) = db_flow_waiting"
  by code_simp

lemma claim_again_demo: "snd (claim store_hash ''t2'' ''w'' 21 10 db_flow_waiting) = db_flow_again [durable_row]"
  by code_simp

lemma live_demo: "ensure_live_flow_lease (flow_lease ''t2'' 2 31) 22 (db_flow_again [durable_row]) = Ok Leased"
  by code_simp

lemma durable_facts: "sn_transition_sequence (run_snapshot durable_run) \<noteq> -1" "sn_run_id (run_snapshot durable_run) = ''f1''"
  "run_definition durable_run = demo_flow" "run_issued_attempt durable_run = None"
  by code_simp+

section \<open>Histories\<close>

lemma reachable_operation:
  "reachable_store codec sha256 db \<Longrightarrow> snd (apply_store_op codec sha256 op db) = db' \<Longrightarrow> reachable_store codec sha256 db'"
  unfolding reachable_store_def using reachable_path [OF _ operation_path [of codec sha256 db op]] by blast

lemma snd_reply [simp]: "snd (reply f r) = snd r"
  by (simp add: reply_def)

lemma empty_reachable: "reachable_store codec sha256 empty_db"
  unfolding reachable_store_def by (rule reachable.initial) (simp add: store_init_def)

lemma caller_reachable: "reachable_store codec store_hash db_caller"
  by (rule reachable_operation [OF empty_reachable, of _ _ "RegisterCaller ''cli'' ''secret'' None 1"]) (simp add: register_demo)

lemma push_reachable: "reachable_store codec store_hash (db_pushing [approved_push])"
proof -
  have "reachable_store codec store_hash (db_pushing [])"
    by (rule reachable_operation [OF caller_reachable, of _ "PutGrant (access_grant ''g1'' ''git.push'' Once) 1"]) (simp add: grant_demo)
  then have "reachable_store codec store_hash (db_pushing [push_approval])"
    by (rule reachable_operation [of _ _ _ "Authorize ''a1'' (push_request\<lparr>az_approval_id := None\<rparr>) 2 10"]) (simp add: request_demo)
  then show ?thesis
    by (rule reachable_operation [of _ _ _ "DecideApproval ''a1'' None ''cli'' ApprovalDecision.Approve 3"]) (simp add: decide_demo)
qed

lemma flow_reachable: "reachable_store codec store_hash (db_flow_leased [])"
proof -
  have "reachable_store codec store_hash db_granted"
    by (rule reachable_operation [OF caller_reachable, of _ "PutGrant (access_grant ''g2'' ''flow.run'' ApprovalRequirement.NoApproval) 1"])
      (simp add: grant_flow_demo)
  then have "reachable_store codec store_hash (flow_db flow_row [] [])"
    by (rule reachable_operation [of _ _ _ "AuthorizeFlow ''x'' flow_request 2 10"]) (simp add: authorize_flow_demo)
  then show ?thesis
    by (rule reachable_operation [of _ _ _ "Claim ''t1'' ''w'' 3 10"]) (simp add: claim_flow_demo)
qed

lemma operation_step:
  "snd (apply_store_op codec sha256 op db) = db' \<Longrightarrow> store_step codec sha256 db (op, fst (apply_store_op codec sha256 op db)) db'"
  by (auto simp: store_step_def)

lemma crash_path:
  "path (store_step durable_codec store_hash) (db_flow_leased [durable_row])
     [(RecoverLeases 20 All, fst (apply_store_op durable_codec store_hash (RecoverLeases 20 All) (db_flow_leased [durable_row]))),
      (Claim ''t2'' ''w'' 21 10, fst (apply_store_op durable_codec store_hash (Claim ''t2'' ''w'' 21 10) db_flow_waiting))]
     (db_flow_again [durable_row])"
proof (rule path.cons)
  show "store_step durable_codec store_hash (db_flow_leased [durable_row]) (RecoverLeases 20 All,
      fst (apply_store_op durable_codec store_hash (RecoverLeases 20 All) (db_flow_leased [durable_row]))) db_flow_waiting"
    by (rule operation_step) (simp add: recover_demo)
  have "store_step durable_codec store_hash db_flow_waiting (Claim ''t2'' ''w'' 21 10,
      fst (apply_store_op durable_codec store_hash (Claim ''t2'' ''w'' 21 10) db_flow_waiting)) (db_flow_again [durable_row])"
    by (rule operation_step) (simp add: claim_again_demo)
  then show "path (store_step durable_codec store_hash) db_flow_waiting [(Claim ''t2'' ''w'' 21 10,
      fst (apply_store_op durable_codec store_hash (Claim ''t2'' ''w'' 21 10) db_flow_waiting))] (db_flow_again [durable_row])"
    by (rule path.cons [OF _ path.nil])
qed

section \<open>Witnesses\<close>



theorem approval_spent_once_witness:
  "resolve_bound_approval None ''a1'' push_request (request_fingerprint store_hash push_request) 5 5
      (snd (consume_effect_approval_audited store_hash push_request push_audit 4 (db_pushing [approved_push])))
     = Ok (AuthorizationOutcome.Denied, snd (consume_effect_approval_audited store_hash push_request push_audit 4 (db_pushing [approved_push])))"
proof (rule approval_spent_once [OF push_reachable _ _ path.nil])
  show "consume_effect_approval_audited store_hash push_request push_audit 4 (db_pushing [approved_push])
    = (Ok AuthorizationOutcome.Allowed, snd (consume_effect_approval_audited store_hash push_request push_audit 4 (db_pushing [approved_push])))"
    by (simp add: prod_eq_iff consume_demo)
qed (simp_all add: push_request_def)

theorem interrupted_run_resumes_witness:
  "\<exists>out :: FlowCheckpointSaveOutcome. load_flow_checkpoint durable_codec (flow_lease ''t2'' 2 31) 22 (db_flow_again [durable_row]) = Ok (Some (so_checkpoint out))
     \<and> FlowRun_resume store_hash ''f1'' demo_flow (fc_snapshot (so_checkpoint out)) = Ok durable_run"
proof -
  obtain out where out: "save_flow_checkpoint durable_codec store_hash durable_save (db_flow_leased []) = (Ok out, db_flow_leased [durable_row])"
    using save_demo by (auto split: prod.splits sum.splits)
  have "reachable_run store_hash durable_run"
    by (rule reachable.initial) (use durable_start in \<open>auto simp: run_init_def\<close>)
  from interrupted_run_resumes [OF flow_reachable this out _ _ _ crash_path, of "flow_lease ''t2'' 2 31" 22 22 Leased]
  have "load_flow_checkpoint durable_codec (flow_lease ''t2'' 2 31) 22 (db_flow_again [durable_row]) = Ok (Some (so_checkpoint out))
     \<and> FlowRun_resume store_hash ''f1'' (run_definition durable_run) (fc_snapshot (so_checkpoint out)) = Ok (durable_run\<lparr>run_issued_attempt := None\<rparr>)"
    using durable_facts(1,2) live_demo by (simp add: durable_save_def flow_lease_def sql_integer_def)
  moreover have "durable_run\<lparr>run_issued_attempt := None\<rparr> = durable_run" using durable_facts(4) by simp
  ultimately show ?thesis using durable_facts(3) by - (rule exI [of _ out], simp)
qed

end
