(* ===== verification/Store_Audited.thy ===== *)
theory Store_Audited
  imports Store_Guarantees
begin

text \<open>
  Redaction and the store together: an authorization is written with its audit event in one
  transaction, so a detail that the store refuses after redaction blocks the authorization.
\<close>

lemma audit_append_refused:
  assumes "redact_audit_detail (ae_redacted_detail event) = Ok detail" and "list_ex is_unsafe_audit_character (chars detail)"
  shows "\<exists>e. append_audit_event_tx event db = Err e"
proof -
  have "validate_audit_event (event\<lparr>ae_redacted_detail := detail\<rparr>) \<noteq> Ok ()"
    using assms(2) by (auto simp: validate_audit_event_def and_then_Inr_iff fail_if_Inr_iff)
  then obtain e where "validate_audit_event (event\<lparr>ae_redacted_detail := detail\<rparr>) = Err e"
    by (cases "validate_audit_event (event\<lparr>ae_redacted_detail := detail\<rparr>)") auto
  then show ?thesis by (simp add: append_audit_event_tx_def assms(1) Let_def)
qed

text \<open>C27: An authorization whose audit detail still holds, after redaction, a character the store takes for unsafe
  is refused whatever the policy decides, and nothing is written.  The redactor escapes fewer format
  characters than the store refuses, so such details exist.\<close>

theorem unsafe_detail_blocks_authorization:
  assumes "redact_audit_detail (at_redacted_detail audit) = Ok detail"
    and "list_ex is_unsafe_audit_character (chars detail)"
  shows "\<exists>e. authorize_audited sha256 new_id request audit now_ms ttl db = (Err e, db)"
proof -
  have refused: "\<exists>e. append_audit_event_tx (authorization_event audit caller project verdict now_ms) d = Err e"
    for caller project verdict d
    using assms by (intro audit_append_refused) (simp_all add: authorization_event_def)
  have "authorize_audited sha256 new_id request audit now_ms ttl db \<noteq> (Ok out, db')" for out db'
  proof
    assume "authorize_audited sha256 new_id request audit now_ms ttl db = (Ok out, db')"
    then have "\<exists>d x. append_audit_event_tx (authorization_event audit (az_caller_id request) (az_project_id request)
        (authorization_audit_outcome out) now_ms) d = Ok x"
      by (auto simp: authorize_audited_def transaction_Ok and_then_Inr_iff)
    with refused show False by (metis sum.distinct(1))
  qed
  then show ?thesis
    by (cases "authorize_audited sha256 new_id request audit now_ms ttl db"; cases "fst (authorize_audited sha256 new_id request audit now_ms ttl db)")
      (auto simp: authorize_audited_def transaction_Err)
qed

abbreviation hyphenated_detail :: string where
  "hyphenated_detail \<equiv> ''soft'' @ [CHR 0xC2, CHR 0xAD] @ ''hyphen''"

lemma hyphen_kept: "redact_audit_detail hyphenated_detail = Ok hyphenated_detail"
  by code_simp

lemma hyphen_unsafe: "list_ex is_unsafe_audit_character (chars hyphenated_detail)"
  by code_simp

theorem unsafe_detail_blocks_authorization_witness:
  "\<exists>e. authorize_audited (\<lambda>s. s) ''a1'' \<lparr>az_caller_id = ''cli'', az_project_id = ''p'', az_capability = ''status'',
        az_resource = ''daemon'', az_approval_id = None\<rparr>
      \<lparr>at_event_id = ''e1'', at_action = ''status'', at_redacted_detail = hyphenated_detail, at_retain_until_ms = 9\<rparr> 1 5 empty_db
    = (Err e, empty_db)"
  by (rule unsafe_detail_blocks_authorization [where detail = hyphenated_detail])
    (simp only: AuthorizationAudit.select_convs hyphen_kept, rule hyphen_unsafe)

end
