(* ===== verification/Pam_Path.thy ===== *)
theory Pam_Path
  imports Pam_Text
begin

text \<open>
  The parts of \<^verbatim>\<open>std::path\<close> the program uses, by the rules of Unix: a path is its bytes, its components
  are separated by one or more slashes, and a \<^verbatim>\<open>.\<close> component other than a leading one is dropped.
\<close>

datatype Component = RootDir | CurDir | ParentDir | Normal string

abbreviation slash :: "char \<Rightarrow> bool" where
  "slash c \<equiv> c = CHR ''/''"

definition Path_is_absolute :: "string \<Rightarrow> bool" where
  "Path_is_absolute p \<longleftrightarrow> (case p of [] \<Rightarrow> False | c # _ \<Rightarrow> slash c)"

definition component_of :: "string \<Rightarrow> Component" where
  "component_of s = (if s = ''..'' then ParentDir else Normal s)"

text \<open>\<^verbatim>\<open>Path::components\<close>\<close>

definition Path_components :: "string \<Rightarrow> Component list" where
  "Path_components p =
     (let segments = split_on slash p in
      (if Path_is_absolute p then [RootDir] else if hd segments = ''.'' then [CurDir] else [])
      @ map component_of (filter (\<lambda>s. s \<noteq> [] \<and> s \<noteq> ''.'') segments))"

fun component_str :: "Component \<Rightarrow> string" where
  "component_str RootDir = ''/''"
| "component_str CurDir = ''.''"
| "component_str ParentDir = ''..''"
| "component_str (Normal s) = s"

text \<open>\<^verbatim>\<open>PathBuf::push\<close> and \<^verbatim>\<open>Path::join\<close>: an absolute argument replaces the path.\<close>

definition PathBuf_push :: "string \<Rightarrow> string \<Rightarrow> string" where
  "PathBuf_push buf p =
     (if Path_is_absolute p then p
      else if buf = [] \<or> slash (last buf) then buf @ p else buf @ ''/'' @ p)"

text \<open>\<^verbatim>\<open>components().collect::<PathBuf>()\<close>\<close>

definition PathBuf_collect :: "Component list \<Rightarrow> string" where
  "PathBuf_collect cs = foldl (\<lambda>buf c. PathBuf_push buf (component_str c)) [] cs"

text \<open>\<^verbatim>\<open>Path::starts_with\<close> compares whole components.\<close>

definition Path_starts_with :: "string \<Rightarrow> string \<Rightarrow> bool" where
  "Path_starts_with p base \<longleftrightarrow> starts_with (Path_components p) (Path_components base)"

section \<open>Canonical absolute paths\<close>

definition path_segment :: "string \<Rightarrow> bool" where
  "path_segment s \<longleftrightarrow> s \<noteq> [] \<and> s \<noteq> ''.'' \<and> s \<noteq> ''..'' \<and> \<not> list_ex slash s"

definition canonical_path :: "string list \<Rightarrow> string" where
  "canonical_path segments = (if segments = [] then ''/'' else concat (map ((#) CHR ''/'') segments))"

lemma split_on_none: "\<not> list_ex p s \<Longrightarrow> split_on p s = [s]"
  by (induction s) simp_all

lemma split_on_append_sep: "p c \<Longrightarrow> split_on p (s @ c # t) = split_on p s @ split_on p t"
proof (induction s)
  case (Cons x s)
  have "split_on p s \<noteq> []" by (induction s) (auto split: list.splits)
  then show ?case using Cons by (auto split: list.splits)
qed simp

lemma split_on_ne [simp]: "split_on p s \<noteq> []"
  by (induction s) (auto split: list.splits)

lemma split_on_segments: "s \<in> set (split_on p t) \<Longrightarrow> \<not> list_ex p s"
  by (induction t arbitrary: s) (auto split: if_splits list.splits)

lemma split_canonical:
  "list_all path_segment segments \<Longrightarrow>
     split_on slash (concat (map ((#) CHR ''/'') segments)) = [] # segments"
proof (induction segments)
  case (Cons s segments)
  then have s: "split_on slash s = [s]" by (intro split_on_none) (simp add: path_segment_def)
  show ?case
  proof (cases segments)
    case (Cons t ts)
    have "split_on slash (s @ CHR ''/'' # t @ concat (map ((#) CHR ''/'') ts))
      = split_on slash s @ split_on slash (t @ concat (map ((#) CHR ''/'') ts))"
      by (rule split_on_append_sep) simp
    then show ?thesis using Cons.IH Cons.prems s Cons by simp
  qed (use s in simp)
qed simp

lemma segment_last: "path_segment s \<Longrightarrow> s \<noteq> [] \<and> \<not> slash (last s)"
  unfolding path_segment_def list_ex_iff by (cases "s = []") (simp, blast dest: last_in_set)

lemma component_of_segment: "path_segment s \<Longrightarrow> component_of s = Normal s"
  by (simp add: path_segment_def component_of_def)

lemma canonical_components:
  assumes "list_all path_segment segments"
  shows "Path_components (canonical_path segments) = RootDir # map Normal segments"
proof -
  have segments: "filter (\<lambda>s. s \<noteq> [] \<and> s \<noteq> ''.'') segments = segments" "map component_of segments = map Normal segments"
    using assms by (auto simp: filter_id_conv list_all_iff path_segment_def component_of_segment)
  show ?thesis
  proof (cases segments)
    case (Cons s ts)
    then have absolute: "Path_is_absolute (canonical_path segments)" and "canonical_path segments = concat (map ((#) CHR ''/'') segments)"
      by (simp_all add: canonical_path_def Path_is_absolute_def)
    then show ?thesis using split_canonical [OF assms] segments by (simp add: Path_components_def Let_def)
  qed (simp add: Path_components_def canonical_path_def Path_is_absolute_def)
qed

lemma push_segment:
  "path_segment s \<Longrightarrow> PathBuf_push buf s = (if buf = [] \<or> slash (last buf) then buf @ s else buf @ ''/'' @ s)"
  by (auto simp: PathBuf_push_def Path_is_absolute_def path_segment_def split: list.splits)

lemma push_segments:
  assumes "list_all path_segment segments" and "buf \<noteq> []" and "\<not> slash (last buf)"
  shows "foldl (\<lambda>buf c. PathBuf_push buf (component_str c)) buf (map Normal segments)
    = buf @ concat (map ((#) CHR ''/'') segments)"
  using assms
proof (induction segments arbitrary: buf)
  case (Cons s segments)
  then have s: "s \<noteq> []" "\<not> slash (last s)" using segment_last by auto
  have "foldl (\<lambda>buf c. PathBuf_push buf (component_str c)) (buf @ ''/'' @ s) (map Normal segments)
    = (buf @ ''/'' @ s) @ concat (map ((#) CHR ''/'') segments)"
    by (rule Cons.IH) (use Cons.prems s in auto)
  then show ?case using Cons.prems by (simp add: push_segment)
qed simp

lemma collect_segments:
  assumes "list_all path_segment segments"
  shows "PathBuf_collect (RootDir # map Normal segments) = canonical_path segments"
proof (cases segments)
  case Nil
  then show ?thesis by (simp add: PathBuf_collect_def canonical_path_def PathBuf_push_def Path_is_absolute_def)
next
  case (Cons s ts)
  then have s: "path_segment s" "s \<noteq> []" "\<not> slash (last s)"
    using assms segment_last by auto
  have root: "PathBuf_push [] ''/'' = ''/''" by (simp add: PathBuf_push_def Path_is_absolute_def)
  have "PathBuf_push ''/'' s = ''/'' @ s" using s by (simp add: push_segment)
  then show ?thesis
    using push_segments [of ts "''/'' @ s"] assms Cons s root
    by (simp add: PathBuf_collect_def canonical_path_def)
qed

end
