(* ===== verification/Protocol_Contract.thy ===== *)
theory Protocol_Contract
  imports Pam_Path Pam_Core Policy Flow_Types
begin

text \<open>
  The messages of the daemon protocol (\<^verbatim>\<open>crates/pam_protocol/src/contract.rs\<close>): requests with their
  payloads, results, failures and events, and the bounds every message has to keep.  The hand-written
  \<^verbatim>\<open>Deserialize\<close> implementations are the predicates \<open>payload_deserializes\<close> and
  \<open>result_deserializes\<close> on the values serde hands them.  Paths follow the rules of Unix.
\<close>

section \<open>Bounds\<close>

definition PROTOCOL_VERSION :: u16 where "PROTOCOL_VERSION = 9"
definition MAX_FRAME_SIZE :: nat where "MAX_FRAME_SIZE = 1024 * 1024"
definition MAX_EVIDENCE_CHUNK_SIZE :: nat where "MAX_EVIDENCE_CHUNK_SIZE = 256 * 1024"
definition MAX_MODEL_MESSAGES :: nat where "MAX_MODEL_MESSAGES = 32"
definition MAX_MODEL_MESSAGE_BYTES :: nat where "MAX_MODEL_MESSAGE_BYTES = 64 * 1024"
definition MAX_MODEL_PROMPT_BYTES :: nat where "MAX_MODEL_PROMPT_BYTES = 256 * 1024"
definition MAX_MODEL_OUTPUT_TOKENS :: u32 where "MAX_MODEL_OUTPUT_TOKENS = 4096"
definition MAX_MODEL_OUTPUT_BYTES :: nat where "MAX_MODEL_OUTPUT_BYTES = 512 * 1024"
definition MAX_FLOW_APPROVAL_ID_BYTES :: nat where "MAX_FLOW_APPROVAL_ID_BYTES = 256"
definition MAX_FLOW_REQUEST_ATTACHMENT_BYTES :: nat where
  "MAX_FLOW_REQUEST_ATTACHMENT_BYTES = MAX_CALLER_CREDENTIAL_LENGTH + MAX_FLOW_APPROVAL_ID_BYTES + 64"
definition MAX_FLOW_PROJECT_ROOT_BYTES :: nat where "MAX_FLOW_PROJECT_ROOT_BYTES = 4 * 1024"
definition MAX_PROJECT_CURRENT_QUEUED :: nat where "MAX_PROJECT_CURRENT_QUEUED = 64"
definition MAX_PROJECT_OPERATION_KIND_BYTES :: nat where "MAX_PROJECT_OPERATION_KIND_BYTES = 128"
definition MAX_MODEL_PATH_BYTES :: nat where "MAX_MODEL_PATH_BYTES = 4 * 1024"
definition MAX_MODEL_URL_BYTES :: nat where "MAX_MODEL_URL_BYTES = 4 * 1024"
definition MAX_MODEL_LICENSE_ID_BYTES :: nat where "MAX_MODEL_LICENSE_ID_BYTES = 128"
definition MAX_GRANT_CAPABILITY_BYTES :: nat where "MAX_GRANT_CAPABILITY_BYTES = 128"
definition MAX_CONNECTOR_ID_BYTES :: nat where "MAX_CONNECTOR_ID_BYTES = 128"
definition MAX_CONNECTOR_BASE_URL_BYTES :: nat where "MAX_CONNECTOR_BASE_URL_BYTES = 1024"
definition MAX_CONNECTOR_SECRET_BYTES :: nat where "MAX_CONNECTOR_SECRET_BYTES = 4096"

datatype ProtocolContractError =
    InvalidEvidenceReadLength u64 u64
  | EvidenceChunkTooLarge nat nat
  | InvalidModelIdentity
  | InvalidModelMessage
  | InvalidModelConversation
  | InvalidModelDeadline
  | ModelPromptTooLarge nat nat
  | InvalidModelOutputTokens u32 u32
  | ModelOutputTooLarge nat nat
  | FlowDefinitionTooLarge nat nat
  | FlowProjectRootTooLarge nat nat
  | InvalidFlowProjectRoot
  | InvalidFlowRunId
  | InvalidFlowDefinition
  | FlowRequestTooLarge nat nat
  | FlowRequestEncoding
  | InvalidProjectOperationKind
  | ProjectCurrentQueueTooLarge nat nat
  | InvalidConnectorIdentity
  | InvalidConnectorBaseUrl
  | InvalidConnectorSecret
  | InvalidModelRegistration
  | InvalidGrantCapability

section \<open>Capabilities\<close>

datatype Capability =
    DaemonStatus | DaemonStop | DaemonActivity | DaemonLogs | DaemonStats | CallerList | ProjectCurrent
  | ApprovalDecide | CancelRequest | ReplayEvents | Brief | NetworkDiagnostics | WaitForResult | GetResult
  | InspectEvidence | ReadEvidence | ModelInfer | ModelStatus | ModelRegister | ModelLoad | ModelUnload
  | ModelUnregister | ModelVerify | ModelSweep | ModelDeleteWeights | GrantRevoke | FlowRun
  | ConnectorList | ConnectorConfigure | ConnectorTest | ResetAccess | ResetIdentity | ResetHistory
  | ResetRegistry

fun policy_name :: "Capability \<Rightarrow> string" where
  "policy_name Capability.DaemonStatus = ''daemon.status''"
| "policy_name Capability.DaemonStop = ''daemon.stop''"
| "policy_name Capability.DaemonActivity = ''daemon.activity''"
| "policy_name Capability.DaemonLogs = ''daemon.logs''"
| "policy_name Capability.DaemonStats = ''daemon.stats''"
| "policy_name Capability.CallerList = ''caller.list''"
| "policy_name Capability.ProjectCurrent = ''project.current''"
| "policy_name Capability.ApprovalDecide = ''approval.decide''"
| "policy_name Capability.CancelRequest = ''request.cancel''"
| "policy_name Capability.ReplayEvents = ''request.replay''"
| "policy_name Capability.Brief = ''brief.read''"
| "policy_name Capability.NetworkDiagnostics = ''network.diagnostics''"
| "policy_name Capability.WaitForResult = ''request.wait''"
| "policy_name Capability.GetResult = ''request.result.read''"
| "policy_name Capability.InspectEvidence = ''evidence.inspect''"
| "policy_name Capability.ReadEvidence = ''evidence.read''"
| "policy_name Capability.ModelInfer = ''model.infer''"
| "policy_name Capability.ModelStatus = ''model.status''"
| "policy_name Capability.ModelRegister = ''model.register''"
| "policy_name Capability.ModelLoad = ''model.load''"
| "policy_name Capability.ModelUnload = ''model.unload''"
| "policy_name Capability.ModelUnregister = ''model.unregister''"
| "policy_name Capability.ModelVerify = ''model.verify''"
| "policy_name Capability.ModelSweep = ''model.sweep''"
| "policy_name Capability.ModelDeleteWeights = ''model.delete-weights''"
| "policy_name Capability.GrantRevoke = ''grant.revoke''"
| "policy_name Capability.FlowRun = ''flow.run''"
| "policy_name Capability.ConnectorList = ''connector.list''"
| "policy_name Capability.ConnectorConfigure = ''connector.configure''"
| "policy_name Capability.ConnectorTest = ''connector.test''"
| "policy_name Capability.ResetAccess = ''reset.access''"
| "policy_name Capability.ResetIdentity = ''reset.identity''"
| "policy_name Capability.ResetHistory = ''reset.history''"
| "policy_name Capability.ResetRegistry = ''reset.registry''"

datatype ResetTier = Access | Identity | History | Registry

fun ResetTier_label :: "ResetTier \<Rightarrow> string" where
  "ResetTier_label Access = ''access''"
| "ResetTier_label Identity = ''identity''"
| "ResetTier_label History = ''history''"
| "ResetTier_label Registry = ''registry''"

fun ResetTier_capability :: "ResetTier \<Rightarrow> Capability" where
  "ResetTier_capability Access = Capability.ResetAccess"
| "ResetTier_capability Identity = Capability.ResetIdentity"
| "ResetTier_capability History = Capability.ResetHistory"
| "ResetTier_capability Registry = Capability.ResetRegistry"

definition ResetTier_all :: "ResetTier list" where
  "ResetTier_all = [Access, Identity, History, Registry]"

section \<open>Bounded values\<close>

text \<open>The newtypes \<^verbatim>\<open>FlowDefinitionDocument\<close>, \<^verbatim>\<open>FlowProjectRoot\<close> and \<^verbatim>\<open>ConnectorSecret\<close> are their strings.\<close>

type_synonym FlowDefinitionDocument = string
type_synonym FlowProjectRoot = string
type_synonym ConnectorSecret = string

definition FlowDefinitionDocument_new :: "string \<Rightarrow> ProtocolContractError + FlowDefinitionDocument" where
  "FlowDefinitionDocument_new d =
     (if length d > MAX_FLOW_DOCUMENT_BYTES
      then Err (FlowDefinitionTooLarge (length d) MAX_FLOW_DOCUMENT_BYTES) else Ok d)"

text \<open>\<open>toml\<close> is the parser \<^verbatim>\<open>toml::from_str\<close>.\<close>

definition FlowDefinitionDocument_validate ::
  "(string \<Rightarrow> 'te + FlowDefinition) \<Rightarrow> FlowDefinitionDocument \<Rightarrow> ProtocolContractError + unit" where
  "FlowDefinitionDocument_validate toml d =
     map_err (\<lambda>_. InvalidFlowDefinition) (and_then (parse_toml toml d) (\<lambda>_. Ok ()))"

fun canonical_component :: "Component \<Rightarrow> bool" where
  "canonical_component RootDir = True"
| "canonical_component (Normal _) = True"
| "canonical_component _ = False"

definition FlowProjectRoot_validate :: "FlowProjectRoot \<Rightarrow> ProtocolContractError + unit" where
  "FlowProjectRoot_validate root =
     fail_if (root = [] \<or> \<not> Path_is_absolute root
        \<or> \<not> list_all canonical_component (Path_components root)
        \<or> PathBuf_collect (Path_components root) \<noteq> root) InvalidFlowProjectRoot"

definition FlowProjectRoot_new :: "string \<Rightarrow> ProtocolContractError + FlowProjectRoot" where
  "FlowProjectRoot_new root =
     (if length root > MAX_FLOW_PROJECT_ROOT_BYTES
      then Err (FlowProjectRootTooLarge (length root) MAX_FLOW_PROJECT_ROOT_BYTES)
      else and_then (FlowProjectRoot_validate root) (\<lambda>_. Ok root))"

definition ConnectorSecret_new :: "string \<Rightarrow> ProtocolContractError + ConnectorSecret" where
  "ConnectorSecret_new secret =
     (if secret = [] \<or> length secret > MAX_CONNECTOR_SECRET_BYTES \<or> has_control secret
      then Err InvalidConnectorSecret else Ok secret)"

datatype ModelRole = System | User | Assistant

record ModelMessage =
  mm_role :: ModelRole
  mm_content :: string

definition validate_model_message :: "string \<Rightarrow> ProtocolContractError + unit" where
  "validate_model_message content =
     fail_if (content = [] \<or> length content > MAX_MODEL_MESSAGE_BYTES \<or> CHR 0x00 \<in> set content)
       InvalidModelMessage"

definition ModelMessage_new :: "ModelRole \<Rightarrow> string \<Rightarrow> ProtocolContractError + ModelMessage" where
  "ModelMessage_new role content =
     and_then (validate_model_message content) (\<lambda>_. Ok \<lparr>mm_role = role, mm_content = content\<rparr>)"

definition valid_model_segment :: "string \<Rightarrow> bool" where
  "valid_model_segment v \<longleftrightarrow> v \<noteq> [] \<and> length v \<le> 128 \<and> v \<noteq> ''.'' \<and> v \<noteq> ''..''
     \<and> list_all (\<lambda>b. is_ascii_alphanumeric b \<or> b \<in> set ''._-'') v"

definition validate_model_id :: "string \<Rightarrow> ProtocolContractError + unit" where
  "validate_model_id model =
     (case split_once model ''/'' of
        None \<Rightarrow> Err InvalidModelIdentity
      | Some (vendor, name) \<Rightarrow>
          fail_if (CHR ''/'' \<in> set name \<or> \<not> valid_model_segment vendor \<or> \<not> valid_model_segment name)
            InvalidModelIdentity)"

text \<open>\<^verbatim>\<open>usize::checked_add\<close> on a 64-bit target.\<close>

definition usize_checked_add :: "nat \<Rightarrow> nat \<Rightarrow> nat option" where
  "usize_checked_add a b = (if a + b < 2 ^ 64 then Some (a + b) else None)"

fun validate_prompt :: "nat \<Rightarrow> ModelMessage list \<Rightarrow> ProtocolContractError + unit" where
  "validate_prompt sofar [] = Ok ()"
| "validate_prompt sofar (message # rest) =
     and_then (validate_model_message (mm_content message)) (\<lambda>_.
     and_then (ok_or (usize_checked_add sofar (length (mm_content message)))
         (ModelPromptTooLarge (2 ^ 64 - 1) MAX_MODEL_PROMPT_BYTES)) (\<lambda>sum.
     if sum > MAX_MODEL_PROMPT_BYTES then Err (ModelPromptTooLarge sum MAX_MODEL_PROMPT_BYTES)
     else validate_prompt sum rest))"

definition validate_model_generation ::
  "string \<Rightarrow> ModelMessage list \<Rightarrow> u32 \<Rightarrow> ProtocolContractError + unit" where
  "validate_model_generation model messages max_output_tokens =
     and_then (validate_model_id model) (\<lambda>_.
     and_then (fail_if (messages = [] \<or> length messages > MAX_MODEL_MESSAGES
         \<or> map_option mm_role (last_opt messages) \<noteq> Some User) InvalidModelConversation) (\<lambda>_.
     and_then (validate_prompt 0 messages) (\<lambda>_.
     fail_if (max_output_tokens = 0 \<or> max_output_tokens > MAX_MODEL_OUTPUT_TOKENS)
       (InvalidModelOutputTokens max_output_tokens MAX_MODEL_OUTPUT_TOKENS))))"

definition validate_model_deadline :: "u64 option \<Rightarrow> ProtocolContractError + unit" where
  "validate_model_deadline deadline_unix_ms =
     (case deadline_unix_ms of
        Some deadline \<Rightarrow> if deadline > 0 then Ok () else Err InvalidModelDeadline
      | None \<Rightarrow> Err InvalidModelDeadline)"

record ModelRegistration =
  mr_model :: string
  mr_path :: string
  mr_digest :: string
  mr_size_bytes :: u64
  mr_gguf_version :: u32
  mr_gguf_tensor_count :: u64
  mr_gguf_metadata_kv_count :: u64
  mr_license_id :: string
  mr_license_url :: string
  mr_license_digest :: string
  mr_source_url :: "string option"
  mr_registered_at_ms :: u64

definition https_authority :: "string \<Rightarrow> string option" where
  "https_authority url = map_option (\<lambda>remainder. hd (split_on slash remainder)) (strip_prefix ''https://'' url)"

definition has_blank :: "string \<Rightarrow> bool" where
  "has_blank s \<longleftrightarrow> list_ex (\<lambda>c. is_control c \<or> is_whitespace c) (chars s)"

definition bounded_https_url :: "string \<Rightarrow> bool" where
  "bounded_https_url url \<longleftrightarrow> length url \<le> MAX_MODEL_URL_BYTES
     \<and> (case https_authority url of None \<Rightarrow> False
        | Some authority \<Rightarrow> authority \<noteq> [] \<and> CHR ''@'' \<notin> set authority)
     \<and> \<not> has_blank url"

definition validate_model_registration :: "ModelRegistration \<Rightarrow> ProtocolContractError + unit" where
  "validate_model_registration r =
     and_then (map_err (\<lambda>_. InvalidModelRegistration) (validate_model_id (mr_model r))) (\<lambda>_.
     let path_is_bounded = mr_path r \<noteq> [] \<and> length (mr_path r) \<le> MAX_MODEL_PATH_BYTES
           \<and> Path_is_absolute (mr_path r) \<and> \<not> has_control (mr_path r);
         license_is_bounded = mr_license_id r \<noteq> [] \<and> length (mr_license_id r) \<le> MAX_MODEL_LICENSE_ID_BYTES
           \<and> \<not> has_blank (mr_license_id r);
         digests_are_canonical = \<not> is_err (ContentDigest_parse (mr_digest r))
           \<and> \<not> is_err (ContentDigest_parse (mr_license_digest r)) in
     if path_is_bounded \<and> license_is_bounded \<and> digests_are_canonical \<and> mr_size_bytes r > 0
        \<and> bounded_https_url (mr_license_url r) \<and> is_none_or bounded_https_url (mr_source_url r)
     then Ok () else Err InvalidModelRegistration)"

definition validate_grant_capability :: "string \<Rightarrow> ProtocolContractError + unit" where
  "validate_grant_capability capability =
     (let bounded = capability \<noteq> [] \<and> length capability \<le> MAX_GRANT_CAPABILITY_BYTES;
          well_formed = list_all (\<lambda>segment. segment \<noteq> []
            \<and> list_all (\<lambda>b. is_ascii_lowercase b \<or> is_ascii_digit b \<or> b = CHR ''_'') segment)
            (split_on (\<lambda>c. c = CHR ''.'') capability)
      in if bounded \<and> well_formed then Ok () else Err InvalidGrantCapability)"

definition validate_connector_id :: "string \<Rightarrow> ProtocolContractError + unit" where
  "validate_connector_id connector =
     (let bounded = connector \<noteq> [] \<and> length connector \<le> MAX_CONNECTOR_ID_BYTES;
          well_formed = list_all (\<lambda>segment. segment \<noteq> [] \<and> is_ascii_lowercase (hd segment)
            \<and> is_ascii_alphanumeric (last segment)
            \<and> list_all (\<lambda>b. is_ascii_lowercase b \<or> is_ascii_digit b \<or> b = CHR ''-'') segment)
            (split_on (\<lambda>c. c = CHR ''.'') connector)
      in if bounded \<and> well_formed then Ok () else Err InvalidConnectorIdentity)"

definition validate_connector_base_url :: "string \<Rightarrow> ProtocolContractError + unit" where
  "validate_connector_base_url base_url =
     (case https_authority base_url of
        None \<Rightarrow> Err InvalidConnectorBaseUrl
      | Some authority \<Rightarrow>
          fail_if (length base_url > MAX_CONNECTOR_BASE_URL_BYTES \<or> authority = [] \<or> CHR ''@'' \<in> set authority
             \<or> CHR ''#'' \<in> set base_url \<or> CHR ''?'' \<in> set base_url \<or> has_blank base_url)
            InvalidConnectorBaseUrl)"

definition validate_evidence_read_length :: "u64 \<Rightarrow> ProtocolContractError + unit" where
  "validate_evidence_read_length l =
     (let maximum = of_nat MAX_EVIDENCE_CHUNK_SIZE in
      fail_if (l = 0 \<or> l > maximum) (InvalidEvidenceReadLength l maximum))"

definition validate_project_operation_kind :: "string \<Rightarrow> ProtocolContractError + unit" where
  "validate_project_operation_kind kind =
     fail_if (kind = [] \<or> length kind > MAX_PROJECT_OPERATION_KIND_BYTES \<or> CHR 0x00 \<in> set kind)
       InvalidProjectOperationKind"

end
