(* ===== verification/Protocol_Requests.thy ===== *)
theory Protocol_Requests
  imports Protocol_Contract
begin

text \<open>
  Requests of the daemon protocol (\<^verbatim>\<open>crates/pam_protocol/src/contract.rs\<close>): the payloads, the envelope,
  its validators and one constructor per request, and the checks the daemon makes on the shape and the
  identifiers of a request (\<^verbatim>\<open>crates/pam_daemon/src/lifecycle.rs\<close>).
\<close>

section \<open>Payloads\<close>

datatype ApprovalDecision = Approve | Deny

datatype ExpectedTargetKind = FlowRun

fun ExpectedTargetKind_policy_label :: "ExpectedTargetKind \<Rightarrow> string" where
  "ExpectedTargetKind_policy_label ExpectedTargetKind.FlowRun = ''flow_run''"

datatype ConnectorCredentialAction = Set ConnectorSecret | Clear

datatype RequestPayload =
    Status
  | Stop
  | DaemonActivity u32
  | DaemonLogs u32
  | DaemonStats u32
  | CallerList
  | ProjectCurrent
  | ApprovalDecide ApprovalId ApprovalDecision
  | Cancel RequestId "ExpectedTargetKind option"
  | Replay RequestId u64 "ExpectedTargetKind option"
  | Brief
  | NetworkDiagnostics
  | WaitForResult RequestId u64 "ExpectedTargetKind option"
  | GetResult RequestId "ExpectedTargetKind option"
  | InspectEvidence EvidenceHandle
  | ReadEvidence EvidenceHandle u64 u64
  | ModelInfer string "ModelMessage list" u32
  | ModelStatus
  | ModelRegister ModelRegistration
  | ModelLoad string
  | ModelUnload
  | ModelUnregister string
  | ModelVerify "string option"
  | ModelSweep
  | ModelDeleteWeights string
  | GrantRevoke string
  | FlowRun FlowDefinitionDocument FlowProjectRoot
  | ConnectorList
  | ConnectorConfigure string "bool option" "string option" "ConnectorCredentialAction option"
  | ConnectorTest string
  | ResetAccess bool
  | ResetIdentity bool
  | ResetHistory bool
  | ResetRegistry bool

record RequestEnvelope =
  re_protocol_version :: u16
  re_request_id :: RequestId
  re_caller_id :: CallerId
  re_authentication :: "CallerCredential option"
  re_approval_id :: "ApprovalId option"
  re_project_root :: "FlowProjectRoot option"
  re_project_id :: ProjectId
  re_capability :: Capability
  re_idempotency_key :: IdempotencyKey
  re_deadline_unix_ms :: "u64 option"
  re_payload :: RequestPayload

section \<open>Validation\<close>

fun validate_connector_payload :: "RequestPayload \<Rightarrow> ProtocolContractError + unit" where
  "validate_connector_payload (RequestPayload.ConnectorConfigure connector _ base_url _) =
     and_then (validate_connector_id connector) (\<lambda>_.
     case base_url of None \<Rightarrow> Ok () | Some url \<Rightarrow> validate_connector_base_url url)"
| "validate_connector_payload (RequestPayload.ConnectorTest connector) = validate_connector_id connector"
| "validate_connector_payload _ = Ok ()"

definition validate_connector_request :: "RequestEnvelope \<Rightarrow> ProtocolContractError + unit" where
  "validate_connector_request request = validate_connector_payload (re_payload request)"

fun validate_model_payload :: "u64 option \<Rightarrow> RequestPayload \<Rightarrow> ProtocolContractError + unit" where
  "validate_model_payload deadline (RequestPayload.ModelInfer model messages max_output_tokens) =
     and_then (validate_model_generation model messages max_output_tokens) (\<lambda>_.
     validate_model_deadline deadline)"
| "validate_model_payload _ (RequestPayload.ModelRegister registration) = validate_model_registration registration"
| "validate_model_payload _ (RequestPayload.ModelLoad model) = validate_model_id model"
| "validate_model_payload _ (RequestPayload.ModelUnregister model) = validate_model_id model"
| "validate_model_payload _ (RequestPayload.ModelDeleteWeights model) = validate_model_id model"
| "validate_model_payload _ (RequestPayload.ModelVerify model) =
     (case model of None \<Rightarrow> Ok () | Some m \<Rightarrow> validate_model_id m)"
| "validate_model_payload _ _ = Ok ()"

definition validate_model_request :: "RequestEnvelope \<Rightarrow> ProtocolContractError + unit" where
  "validate_model_request request = validate_model_payload (re_deadline_unix_ms request) (re_payload request)"

fun validate_grant_payload :: "RequestPayload \<Rightarrow> ProtocolContractError + unit" where
  "validate_grant_payload (RequestPayload.GrantRevoke capability) = validate_grant_capability capability"
| "validate_grant_payload _ = Ok ()"

definition validate_grant_request :: "RequestEnvelope \<Rightarrow> ProtocolContractError + unit" where
  "validate_grant_request request = validate_grant_payload (re_payload request)"

fun validate_flow_payload ::
  "(string \<Rightarrow> 'te + FlowDefinition) \<Rightarrow> RequestId \<Rightarrow> RequestPayload \<Rightarrow> ProtocolContractError + unit" where
  "validate_flow_payload toml request_id (RequestPayload.FlowRun d root) =
     and_then (map_err (\<lambda>_. InvalidFlowRunId) (RunId_parse request_id)) (\<lambda>_.
     and_then (FlowDefinitionDocument_validate toml d) (\<lambda>_.
     FlowProjectRoot_validate root))"
| "validate_flow_payload _ _ _ = Ok ()"

definition validate_flow_request ::
  "(string \<Rightarrow> 'te + FlowDefinition) \<Rightarrow> RequestEnvelope \<Rightarrow> ProtocolContractError + unit" where
  "validate_flow_request toml request = validate_flow_payload toml (re_request_id request) (re_payload request)"

text \<open>\<open>encode\<close> is \<^verbatim>\<open>rmp_serde::to_vec_named\<close> on requests; the sum saturates at \<^verbatim>\<open>usize::MAX\<close>.\<close>

definition validate_flow_request_frame ::
  "(RequestEnvelope \<Rightarrow> string option) \<Rightarrow> RequestEnvelope \<Rightarrow> ProtocolContractError + unit" where
  "validate_flow_request_frame encode request =
     and_then (ok_or (encode request) FlowRequestEncoding) (\<lambda>bytes.
     let actual = min (length bytes + MAX_FLOW_REQUEST_ATTACHMENT_BYTES) (2 ^ 64 - 1) in
     fail_if (actual > MAX_FRAME_SIZE) (FlowRequestTooLarge actual MAX_FRAME_SIZE))"

section \<open>Constructors\<close>

text \<open>The record every constructor fills in: the current version, no attachments and no deadline.\<close>

definition request_envelope ::
  "RequestId \<Rightarrow> CallerId \<Rightarrow> ProjectId \<Rightarrow> IdempotencyKey \<Rightarrow> Capability \<Rightarrow> RequestPayload \<Rightarrow> RequestEnvelope" where
  "request_envelope request_id caller_id project_id idempotency_key capability payload =
     \<lparr>re_protocol_version = PROTOCOL_VERSION, re_request_id = request_id, re_caller_id = caller_id,
      re_authentication = None, re_approval_id = None, re_project_root = None, re_project_id = project_id,
      re_capability = capability, re_idempotency_key = idempotency_key, re_deadline_unix_ms = None,
      re_payload = payload\<rparr>"

definition status_request :: "RequestId \<Rightarrow> CallerId \<Rightarrow> ProjectId \<Rightarrow> IdempotencyKey \<Rightarrow> RequestEnvelope" where
  "status_request i c p k = request_envelope i c p k Capability.DaemonStatus RequestPayload.Status"

definition stop_request :: "RequestId \<Rightarrow> CallerId \<Rightarrow> ProjectId \<Rightarrow> IdempotencyKey \<Rightarrow> RequestEnvelope" where
  "stop_request i c p k = request_envelope i c p k Capability.DaemonStop RequestPayload.Stop"

definition project_current_request ::
  "RequestId \<Rightarrow> CallerId \<Rightarrow> ProjectId \<Rightarrow> IdempotencyKey \<Rightarrow> RequestEnvelope" where
  "project_current_request i c p k =
     request_envelope i c p k Capability.ProjectCurrent RequestPayload.ProjectCurrent"

definition daemon_activity_request ::
  "RequestId \<Rightarrow> CallerId \<Rightarrow> ProjectId \<Rightarrow> IdempotencyKey \<Rightarrow> u32 \<Rightarrow> RequestEnvelope" where
  "daemon_activity_request i c p k limit =
     request_envelope i c p k Capability.DaemonActivity (RequestPayload.DaemonActivity limit)"

definition daemon_logs_request ::
  "RequestId \<Rightarrow> CallerId \<Rightarrow> ProjectId \<Rightarrow> IdempotencyKey \<Rightarrow> u32 \<Rightarrow> RequestEnvelope" where
  "daemon_logs_request i c p k limit =
     request_envelope i c p k Capability.DaemonLogs (RequestPayload.DaemonLogs limit)"

definition daemon_stats_request ::
  "RequestId \<Rightarrow> CallerId \<Rightarrow> ProjectId \<Rightarrow> IdempotencyKey \<Rightarrow> u32 \<Rightarrow> RequestEnvelope" where
  "daemon_stats_request i c p k days =
     request_envelope i c p k Capability.DaemonStats (RequestPayload.DaemonStats days)"

definition caller_list_request ::
  "RequestId \<Rightarrow> CallerId \<Rightarrow> ProjectId \<Rightarrow> IdempotencyKey \<Rightarrow> RequestEnvelope" where
  "caller_list_request i c p k = request_envelope i c p k Capability.CallerList RequestPayload.CallerList"

definition model_status_request ::
  "RequestId \<Rightarrow> CallerId \<Rightarrow> ProjectId \<Rightarrow> IdempotencyKey \<Rightarrow> RequestEnvelope" where
  "model_status_request i c p k = request_envelope i c p k Capability.ModelStatus RequestPayload.ModelStatus"

definition connector_list_request ::
  "RequestId \<Rightarrow> CallerId \<Rightarrow> ProjectId \<Rightarrow> IdempotencyKey \<Rightarrow> RequestEnvelope" where
  "connector_list_request i c p k =
     request_envelope i c p k Capability.ConnectorList RequestPayload.ConnectorList"

definition connector_configure_request ::
  "RequestId \<Rightarrow> CallerId \<Rightarrow> ProjectId \<Rightarrow> IdempotencyKey \<Rightarrow> string \<Rightarrow> bool option \<Rightarrow> string option
     \<Rightarrow> ConnectorCredentialAction option \<Rightarrow> ProtocolContractError + RequestEnvelope" where
  "connector_configure_request i c p k connector enabled base_url credential =
     (let request = request_envelope i c p k Capability.ConnectorConfigure
            (RequestPayload.ConnectorConfigure connector enabled base_url credential) in
      and_then (validate_connector_request request) (\<lambda>_. Ok request))"

definition connector_test_request ::
  "RequestId \<Rightarrow> CallerId \<Rightarrow> ProjectId \<Rightarrow> IdempotencyKey \<Rightarrow> string \<Rightarrow> ProtocolContractError + RequestEnvelope" where
  "connector_test_request i c p k connector =
     (let request = request_envelope i c p k Capability.ConnectorTest (RequestPayload.ConnectorTest connector) in
      and_then (validate_connector_request request) (\<lambda>_. Ok request))"

definition approval_decide_request ::
  "RequestId \<Rightarrow> CallerId \<Rightarrow> ProjectId \<Rightarrow> IdempotencyKey \<Rightarrow> ApprovalId \<Rightarrow> ApprovalDecision \<Rightarrow> RequestEnvelope" where
  "approval_decide_request i c p k approval_id decision =
     request_envelope i c p k Capability.ApprovalDecide (RequestPayload.ApprovalDecide approval_id decision)"

definition cancel_target_request ::
  "RequestId \<Rightarrow> CallerId \<Rightarrow> ProjectId \<Rightarrow> IdempotencyKey \<Rightarrow> RequestId \<Rightarrow> RequestEnvelope" where
  "cancel_target_request i c p k target =
     request_envelope i c p k Capability.CancelRequest (RequestPayload.Cancel target None)"

definition cancel_target_with_expected_target_request ::
  "RequestId \<Rightarrow> CallerId \<Rightarrow> ProjectId \<Rightarrow> IdempotencyKey \<Rightarrow> RequestId \<Rightarrow> ExpectedTargetKind \<Rightarrow> RequestEnvelope" where
  "cancel_target_with_expected_target_request i c p k target kind =
     request_envelope i c p k Capability.CancelRequest (RequestPayload.Cancel target (Some kind))"

definition replay_request ::
  "RequestId \<Rightarrow> CallerId \<Rightarrow> ProjectId \<Rightarrow> IdempotencyKey \<Rightarrow> RequestId \<Rightarrow> u64 \<Rightarrow> RequestEnvelope" where
  "replay_request i c p k target after_sequence =
     request_envelope i c p k Capability.ReplayEvents (RequestPayload.Replay target after_sequence None)"

definition replay_with_expected_target_request ::
  "RequestId \<Rightarrow> CallerId \<Rightarrow> ProjectId \<Rightarrow> IdempotencyKey \<Rightarrow> RequestId \<Rightarrow> u64 \<Rightarrow> ExpectedTargetKind \<Rightarrow> RequestEnvelope" where
  "replay_with_expected_target_request i c p k target after_sequence kind =
     request_envelope i c p k Capability.ReplayEvents (RequestPayload.Replay target after_sequence (Some kind))"

definition brief_request :: "RequestId \<Rightarrow> CallerId \<Rightarrow> ProjectId \<Rightarrow> IdempotencyKey \<Rightarrow> RequestEnvelope" where
  "brief_request i c p k = request_envelope i c p k Capability.Brief RequestPayload.Brief"

definition network_diagnostics_request ::
  "RequestId \<Rightarrow> CallerId \<Rightarrow> ProjectId \<Rightarrow> IdempotencyKey \<Rightarrow> RequestEnvelope" where
  "network_diagnostics_request i c p k =
     request_envelope i c p k Capability.NetworkDiagnostics RequestPayload.NetworkDiagnostics"

definition model_infer_request ::
  "RequestId \<Rightarrow> CallerId \<Rightarrow> ProjectId \<Rightarrow> IdempotencyKey \<Rightarrow> string \<Rightarrow> ModelMessage list \<Rightarrow> u32 \<Rightarrow> u64
     \<Rightarrow> ProtocolContractError + RequestEnvelope" where
  "model_infer_request i c p k model messages max_output_tokens deadline_unix_ms =
     and_then (validate_model_generation model messages max_output_tokens) (\<lambda>_.
     and_then (validate_model_deadline (Some deadline_unix_ms)) (\<lambda>_.
     Ok ((request_envelope i c p k Capability.ModelInfer
       (RequestPayload.ModelInfer model messages max_output_tokens))\<lparr>re_deadline_unix_ms := Some deadline_unix_ms\<rparr>)))"

definition flow_run_request ::
  "(string \<Rightarrow> 'te + FlowDefinition) \<Rightarrow> (RequestEnvelope \<Rightarrow> string option) \<Rightarrow> RequestId \<Rightarrow> CallerId \<Rightarrow> ProjectId
     \<Rightarrow> IdempotencyKey \<Rightarrow> string \<Rightarrow> string \<Rightarrow> ProtocolContractError + RequestEnvelope" where
  "flow_run_request toml encode i c p k flow project_root =
     and_then (FlowDefinitionDocument_new flow) (\<lambda>d.
     and_then (FlowProjectRoot_new project_root) (\<lambda>root.
     let request = request_envelope i c p k Capability.FlowRun (RequestPayload.FlowRun d root) in
     and_then (validate_flow_request toml request) (\<lambda>_.
     and_then (validate_flow_request_frame encode request) (\<lambda>_. Ok request))))"

definition model_register_request ::
  "RequestId \<Rightarrow> CallerId \<Rightarrow> ProjectId \<Rightarrow> IdempotencyKey \<Rightarrow> ModelRegistration
     \<Rightarrow> ProtocolContractError + RequestEnvelope" where
  "model_register_request i c p k registration =
     and_then (validate_model_registration registration) (\<lambda>_.
     Ok (request_envelope i c p k Capability.ModelRegister (RequestPayload.ModelRegister registration)))"

text \<open>\<^verbatim>\<open>model_load\<close>, \<^verbatim>\<open>model_unregister\<close> and \<^verbatim>\<open>model_delete_weights\<close> check the identity first.\<close>

definition model_request ::
  "Capability \<Rightarrow> (string \<Rightarrow> RequestPayload) \<Rightarrow> RequestId \<Rightarrow> CallerId \<Rightarrow> ProjectId \<Rightarrow> IdempotencyKey \<Rightarrow> string
     \<Rightarrow> ProtocolContractError + RequestEnvelope" where
  "model_request capability payload i c p k model =
     and_then (validate_model_id model) (\<lambda>_. Ok (request_envelope i c p k capability (payload model)))"

definition model_load_request ::
  "RequestId \<Rightarrow> CallerId \<Rightarrow> ProjectId \<Rightarrow> IdempotencyKey \<Rightarrow> string \<Rightarrow> ProtocolContractError + RequestEnvelope" where
  "model_load_request = model_request Capability.ModelLoad RequestPayload.ModelLoad"

definition model_unregister_request ::
  "RequestId \<Rightarrow> CallerId \<Rightarrow> ProjectId \<Rightarrow> IdempotencyKey \<Rightarrow> string \<Rightarrow> ProtocolContractError + RequestEnvelope" where
  "model_unregister_request = model_request Capability.ModelUnregister RequestPayload.ModelUnregister"

definition model_delete_weights_request ::
  "RequestId \<Rightarrow> CallerId \<Rightarrow> ProjectId \<Rightarrow> IdempotencyKey \<Rightarrow> string \<Rightarrow> ProtocolContractError + RequestEnvelope" where
  "model_delete_weights_request = model_request Capability.ModelDeleteWeights RequestPayload.ModelDeleteWeights"

definition model_unload_request ::
  "RequestId \<Rightarrow> CallerId \<Rightarrow> ProjectId \<Rightarrow> IdempotencyKey \<Rightarrow> RequestEnvelope" where
  "model_unload_request i c p k = request_envelope i c p k Capability.ModelUnload RequestPayload.ModelUnload"

definition model_verify_request ::
  "RequestId \<Rightarrow> CallerId \<Rightarrow> ProjectId \<Rightarrow> IdempotencyKey \<Rightarrow> string option \<Rightarrow> ProtocolContractError + RequestEnvelope" where
  "model_verify_request i c p k model =
     and_then (case model of None \<Rightarrow> Ok () | Some m \<Rightarrow> validate_model_id m) (\<lambda>_.
     Ok (request_envelope i c p k Capability.ModelVerify (RequestPayload.ModelVerify model)))"

definition model_sweep_request ::
  "RequestId \<Rightarrow> CallerId \<Rightarrow> ProjectId \<Rightarrow> IdempotencyKey \<Rightarrow> RequestEnvelope" where
  "model_sweep_request i c p k = request_envelope i c p k Capability.ModelSweep RequestPayload.ModelSweep"

definition grant_revoke_request ::
  "RequestId \<Rightarrow> CallerId \<Rightarrow> ProjectId \<Rightarrow> IdempotencyKey \<Rightarrow> string \<Rightarrow> ProtocolContractError + RequestEnvelope" where
  "grant_revoke_request i c p k capability =
     and_then (validate_grant_capability capability) (\<lambda>_.
     Ok (request_envelope i c p k Capability.GrantRevoke (RequestPayload.GrantRevoke capability)))"

fun reset_payload :: "ResetTier \<Rightarrow> bool \<Rightarrow> Capability \<times> RequestPayload" where
  "reset_payload Access dry_run = (Capability.ResetAccess, RequestPayload.ResetAccess dry_run)"
| "reset_payload Identity dry_run = (Capability.ResetIdentity, RequestPayload.ResetIdentity dry_run)"
| "reset_payload History dry_run = (Capability.ResetHistory, RequestPayload.ResetHistory dry_run)"
| "reset_payload Registry dry_run = (Capability.ResetRegistry, RequestPayload.ResetRegistry dry_run)"

definition reset_request ::
  "RequestId \<Rightarrow> CallerId \<Rightarrow> ProjectId \<Rightarrow> IdempotencyKey \<Rightarrow> ResetTier \<Rightarrow> bool \<Rightarrow> RequestEnvelope" where
  "reset_request i c p k tier dry_run =
     (case reset_payload tier dry_run of (capability, payload) \<Rightarrow> request_envelope i c p k capability payload)"

definition wait_for_result_request ::
  "RequestId \<Rightarrow> CallerId \<Rightarrow> ProjectId \<Rightarrow> IdempotencyKey \<Rightarrow> RequestId \<Rightarrow> u64 \<Rightarrow> RequestEnvelope" where
  "wait_for_result_request i c p k target after_sequence =
     request_envelope i c p k Capability.WaitForResult (RequestPayload.WaitForResult target after_sequence None)"

definition wait_for_result_with_expected_target_request ::
  "RequestId \<Rightarrow> CallerId \<Rightarrow> ProjectId \<Rightarrow> IdempotencyKey \<Rightarrow> RequestId \<Rightarrow> u64 \<Rightarrow> ExpectedTargetKind \<Rightarrow> RequestEnvelope" where
  "wait_for_result_with_expected_target_request i c p k target after_sequence kind =
     request_envelope i c p k Capability.WaitForResult (RequestPayload.WaitForResult target after_sequence (Some kind))"

definition get_result_request ::
  "RequestId \<Rightarrow> CallerId \<Rightarrow> ProjectId \<Rightarrow> IdempotencyKey \<Rightarrow> RequestId \<Rightarrow> RequestEnvelope" where
  "get_result_request i c p k target =
     request_envelope i c p k Capability.GetResult (RequestPayload.GetResult target None)"

definition get_result_with_expected_target_request ::
  "RequestId \<Rightarrow> CallerId \<Rightarrow> ProjectId \<Rightarrow> IdempotencyKey \<Rightarrow> RequestId \<Rightarrow> ExpectedTargetKind \<Rightarrow> RequestEnvelope" where
  "get_result_with_expected_target_request i c p k target kind =
     request_envelope i c p k Capability.GetResult (RequestPayload.GetResult target (Some kind))"

definition inspect_evidence_request ::
  "RequestId \<Rightarrow> CallerId \<Rightarrow> ProjectId \<Rightarrow> IdempotencyKey \<Rightarrow> EvidenceHandle \<Rightarrow> RequestEnvelope" where
  "inspect_evidence_request i c p k handle =
     request_envelope i c p k Capability.InspectEvidence (RequestPayload.InspectEvidence handle)"

definition read_evidence_request ::
  "RequestId \<Rightarrow> CallerId \<Rightarrow> ProjectId \<Rightarrow> IdempotencyKey \<Rightarrow> EvidenceHandle \<Rightarrow> u64 \<Rightarrow> u64
     \<Rightarrow> ProtocolContractError + RequestEnvelope" where
  "read_evidence_request i c p k handle offset l =
     and_then (validate_evidence_read_length l) (\<lambda>_.
     Ok (request_envelope i c p k Capability.ReadEvidence (RequestPayload.ReadEvidence handle offset l)))"

definition authenticated :: "CallerCredential \<Rightarrow> RequestEnvelope \<Rightarrow> RequestEnvelope" where
  "authenticated credential request = request\<lparr>re_authentication := Some credential\<rparr>"

definition with_approval :: "ApprovalId \<Rightarrow> RequestEnvelope \<Rightarrow> RequestEnvelope" where
  "with_approval approval_id request = request\<lparr>re_approval_id := Some approval_id\<rparr>"

definition with_project_root :: "FlowProjectRoot \<Rightarrow> RequestEnvelope \<Rightarrow> RequestEnvelope" where
  "with_project_root root request = request\<lparr>re_project_root := Some root\<rparr>"

section \<open>What the daemon checks\<close>

definition MAX_REQUEST_IDENTIFIER_BYTES :: nat where "MAX_REQUEST_IDENTIFIER_BYTES = 256"

fun capability_matches :: "RequestPayload \<Rightarrow> Capability \<Rightarrow> bool" where
  "capability_matches RequestPayload.Status c \<longleftrightarrow> c = Capability.DaemonStatus"
| "capability_matches RequestPayload.Stop c \<longleftrightarrow> c = Capability.DaemonStop"
| "capability_matches (RequestPayload.DaemonActivity _) c \<longleftrightarrow> c = Capability.DaemonActivity"
| "capability_matches (RequestPayload.DaemonLogs _) c \<longleftrightarrow> c = Capability.DaemonLogs"
| "capability_matches (RequestPayload.DaemonStats _) c \<longleftrightarrow> c = Capability.DaemonStats"
| "capability_matches RequestPayload.CallerList c \<longleftrightarrow> c = Capability.CallerList"
| "capability_matches RequestPayload.ProjectCurrent c \<longleftrightarrow> c = Capability.ProjectCurrent"
| "capability_matches (RequestPayload.ApprovalDecide _ _) c \<longleftrightarrow> c = Capability.ApprovalDecide"
| "capability_matches (RequestPayload.Cancel _ _) c \<longleftrightarrow> c = Capability.CancelRequest"
| "capability_matches (RequestPayload.Replay _ _ _) c \<longleftrightarrow> c = Capability.ReplayEvents"
| "capability_matches RequestPayload.Brief c \<longleftrightarrow> c = Capability.Brief"
| "capability_matches RequestPayload.NetworkDiagnostics c \<longleftrightarrow> c = Capability.NetworkDiagnostics"
| "capability_matches (RequestPayload.WaitForResult _ _ _) c \<longleftrightarrow> c = Capability.WaitForResult"
| "capability_matches (RequestPayload.GetResult _ _) c \<longleftrightarrow> c = Capability.GetResult"
| "capability_matches (RequestPayload.InspectEvidence _) c \<longleftrightarrow> c = Capability.InspectEvidence"
| "capability_matches (RequestPayload.ReadEvidence _ _ _) c \<longleftrightarrow> c = Capability.ReadEvidence"
| "capability_matches (RequestPayload.ModelInfer _ _ _) c \<longleftrightarrow> c = Capability.ModelInfer"
| "capability_matches RequestPayload.ModelStatus c \<longleftrightarrow> c = Capability.ModelStatus"
| "capability_matches (RequestPayload.ModelRegister _) c \<longleftrightarrow> c = Capability.ModelRegister"
| "capability_matches (RequestPayload.ModelLoad _) c \<longleftrightarrow> c = Capability.ModelLoad"
| "capability_matches RequestPayload.ModelUnload c \<longleftrightarrow> c = Capability.ModelUnload"
| "capability_matches (RequestPayload.ModelUnregister _) c \<longleftrightarrow> c = Capability.ModelUnregister"
| "capability_matches (RequestPayload.ModelVerify _) c \<longleftrightarrow> c = Capability.ModelVerify"
| "capability_matches RequestPayload.ModelSweep c \<longleftrightarrow> c = Capability.ModelSweep"
| "capability_matches (RequestPayload.ModelDeleteWeights _) c \<longleftrightarrow> c = Capability.ModelDeleteWeights"
| "capability_matches (RequestPayload.GrantRevoke _) c \<longleftrightarrow> c = Capability.GrantRevoke"
| "capability_matches (RequestPayload.FlowRun _ _) c \<longleftrightarrow> c = Capability.FlowRun"
| "capability_matches RequestPayload.ConnectorList c \<longleftrightarrow> c = Capability.ConnectorList"
| "capability_matches (RequestPayload.ConnectorConfigure _ _ _ _) c \<longleftrightarrow> c = Capability.ConnectorConfigure"
| "capability_matches (RequestPayload.ConnectorTest _) c \<longleftrightarrow> c = Capability.ConnectorTest"
| "capability_matches (RequestPayload.ResetAccess _) c \<longleftrightarrow> c = Capability.ResetAccess"
| "capability_matches (RequestPayload.ResetIdentity _) c \<longleftrightarrow> c = Capability.ResetIdentity"
| "capability_matches (RequestPayload.ResetHistory _) c \<longleftrightarrow> c = Capability.ResetHistory"
| "capability_matches (RequestPayload.ResetRegistry _) c \<longleftrightarrow> c = Capability.ResetRegistry"

definition request_shape_is_valid :: "(string \<Rightarrow> 'te + FlowDefinition) \<Rightarrow> RequestEnvelope \<Rightarrow> bool" where
  "request_shape_is_valid toml request \<longleftrightarrow>
     capability_matches (re_payload request) (re_capability request)
     \<and> (re_capability request \<noteq> Capability.ApprovalDecide \<or> re_approval_id request = None)
     \<and> \<not> is_err (validate_model_request request) \<and> \<not> is_err (validate_flow_request toml request)
     \<and> \<not> is_err (validate_connector_request request) \<and> \<not> is_err (validate_grant_request request)"

definition valid_replay_cursor :: "u64 \<Rightarrow> bool" where
  "valid_replay_cursor sequence \<longleftrightarrow> uint sequence \<le> 2 ^ 63 - 1"

fun payload_target :: "RequestPayload \<Rightarrow> RequestId option" where
  "payload_target (RequestPayload.Cancel target _) = Some target"
| "payload_target (RequestPayload.Replay target _ _) = Some target"
| "payload_target (RequestPayload.WaitForResult target _ _) = Some target"
| "payload_target (RequestPayload.GetResult target _) = Some target"
| "payload_target _ = None"

definition target_request_id :: "RequestEnvelope \<Rightarrow> RequestId option" where
  "target_request_id request = payload_target (re_payload request)"

definition unsafe_identifier_ranges :: "(nat \<times> nat) list" where
  "unsafe_identifier_ranges =
     [(0x00ad, 0x00ad), (0x0600, 0x0605), (0x061c, 0x061c), (0x06dd, 0x06dd), (0x070f, 0x070f),
      (0x0890, 0x0891), (0x08e2, 0x08e2), (0x180e, 0x180e), (0x200b, 0x200f), (0x202a, 0x202e),
      (0x2060, 0x2064), (0x2066, 0x206f), (0xfeff, 0xfeff), (0xfff9, 0xfffb), (0x110bd, 0x110bd),
      (0x110cd, 0x110cd), (0x13430, 0x1343f), (0x1bca0, 0x1bca3), (0x1d173, 0x1d17a), (0xe0001, 0xe0001),
      (0xe0020, 0xe007f)]"

definition is_unsafe_identifier_character :: "nat \<Rightarrow> bool" where
  "is_unsafe_identifier_character c \<longleftrightarrow>
     is_control c \<or> list_ex (\<lambda>(lo, hi). lo \<le> c \<and> c \<le> hi) unsafe_identifier_ranges"

definition identifier_is_bounded :: "string \<Rightarrow> bool" where
  "identifier_is_bounded v \<longleftrightarrow> v \<noteq> [] \<and> length v \<le> MAX_REQUEST_IDENTIFIER_BYTES
     \<and> \<not> list_ex is_unsafe_identifier_character (chars v)"

definition request_identifiers_are_bounded :: "RequestEnvelope \<Rightarrow> bool" where
  "request_identifiers_are_bounded request \<longleftrightarrow>
     list_all identifier_is_bounded [re_request_id request, re_caller_id request, re_project_id request,
       re_idempotency_key request]
     \<and> is_none_or identifier_is_bounded (re_approval_id request)
     \<and> is_none_or identifier_is_bounded (target_request_id request)
     \<and> (case re_payload request of
          RequestPayload.ApprovalDecide approval_id _ \<Rightarrow> identifier_is_bounded approval_id | _ \<Rightarrow> True)"

end
