(* ===== verification/Protocol_Results.thy ===== *)
theory Protocol_Results
  imports Protocol_Requests
begin

text \<open>
  Results, failures and events of the daemon protocol (\<^verbatim>\<open>crates/pam_protocol/src/contract.rs\<close>).
\<close>

section \<open>Result payloads\<close>

datatype OperationTruth = Observed | Changed | Verified | Unresolved | Blocked

record ResetItem =
  ri_kind :: string
  ri_count :: u64
  ri_bytes :: u64
  ri_names :: "string list"

record ResetResult =
  rr_scope :: string
  rr_dry_run :: bool
  rr_items :: "ResetItem list"
  rr_total_items :: u64
  rr_total_bytes :: u64

record ModelRegisterResult =
  mg_model :: string
  mg_registered_at_ms :: u64

record ModelLoadResult =
  ml_model :: string
  ml_size_bytes :: u64
  ml_previous :: "string option"
  ml_already_loaded :: bool

record ModelUnloadResult =
  mu_model :: string
  mu_size_bytes :: u64

record ModelUnregisterResult =
  mx_model :: string
  mx_size_bytes :: u64
  mx_digest :: string

record ModelVerification =
  mv_model :: string
  mv_path :: string
  mv_size_bytes :: u64
  mv_health :: string
  mv_detail :: "string option"
  mv_source :: string
  mv_weights_deletable :: bool

record ModelVerifyResult =
  mv_models :: "ModelVerification list"

record DanglingRegistrationSummary =
  dr_model :: string
  dr_path :: string
  dr_size_bytes :: u64

record OrphanWeightsSummary =
  ow_path :: string
  ow_size_bytes :: u64

record ModelSweepResult =
  ms_models_dir :: string
  ms_dangling :: "DanglingRegistrationSummary list"
  ms_orphans :: "OrphanWeightsSummary list"
  ms_total_bytes :: u64

record ModelDeleteWeightsResult =
  md_model :: string
  md_path :: string
  md_bytes_reclaimed :: u64

record GrantRevokeResult =
  gr_capability :: string
  gr_revoked :: u32

record ConnectorSummary =
  cs_connector_id :: string
  cs_enabled :: bool
  cs_base_url :: "string option"
  cs_credential_present :: bool
  cs_last_test_status :: "string option"
  cs_last_test_at_ms :: "u64 option"

record ConnectorListResult =
  cl_connectors :: "ConnectorSummary list"

record ConnectorConfigureResult =
  cc_connector :: ConnectorSummary

datatype ConnectorTestDisposition = Passed | Failed

record ConnectorTestResult =
  ct_connector_id :: string
  ct_status :: ConnectorTestDisposition
  ct_detail :: string

datatype ModelFinishReason = Stop | Length

record ModelUsage =
  us_input_tokens :: u32
  us_sampled_output_tokens :: u32
  us_emitted_output_tokens :: u32

record ModelGenerationResult =
  gen_model :: string
  gen_text :: string
  gen_finish_reason :: ModelFinishReason
  gen_usage :: ModelUsage

definition ModelGenerationResult_new ::
  "string \<Rightarrow> string \<Rightarrow> ModelFinishReason \<Rightarrow> ModelUsage \<Rightarrow> ProtocolContractError + ModelGenerationResult" where
  "ModelGenerationResult_new model generated finish_reason usage =
     and_then (validate_model_id model) (\<lambda>_.
     if length generated > MAX_MODEL_OUTPUT_BYTES
     then Err (ModelOutputTooLarge (length generated) MAX_MODEL_OUTPUT_BYTES)
     else Ok \<lparr>gen_model = model, gen_text = generated, gen_finish_reason = finish_reason, gen_usage = usage\<rparr>)"

record BriefItem =
  bi_text :: string
  bi_truth :: OperationTruth
  bi_evidence :: "EvidenceHandle list"

datatype SourceAvailability = Available | Partial | Unavailable

record BriefProvenance =
  bp_source :: string
  bp_availability :: SourceAvailability
  bp_truth :: OperationTruth
  bp_evidence :: "EvidenceHandle option"
  bp_detail :: "string option"

record BriefResult =
  br_goal :: "BriefItem option"
  br_decisions :: "BriefItem list"
  br_verified :: "BriefItem list"
  br_next :: "BriefItem list"
  br_provenance :: "BriefProvenance list"

datatype EvidenceRetention = Session | Project | Persistent

datatype EvidenceRedaction = Unredacted | Redacted

record EvidenceMetadata =
  em_handle :: EvidenceHandle
  em_digest :: ContentDigest
  em_size_bytes :: u64
  em_media_type :: string
  em_retention :: EvidenceRetention
  em_redaction :: EvidenceRedaction
  em_created_at_unix_ms :: u64

record EvidenceChunk =
  ec_handle :: EvidenceHandle
  ec_offset :: u64
  ec_bytes :: string
  ec_eof :: bool

definition EvidenceChunk_new ::
  "EvidenceHandle \<Rightarrow> u64 \<Rightarrow> string \<Rightarrow> bool \<Rightarrow> ProtocolContractError + EvidenceChunk" where
  "EvidenceChunk_new handle offset bytes eof =
     (if length bytes > MAX_EVIDENCE_CHUNK_SIZE
      then Err (EvidenceChunkTooLarge (length bytes) MAX_EVIDENCE_CHUNK_SIZE)
      else Ok \<lparr>ec_handle = handle, ec_offset = offset, ec_bytes = bytes, ec_eof = eof\<rparr>)"

datatype CancellationDisposition = Requested | AlreadyRequested | AlreadyCancelled | AlreadyTerminal

record CancellationResult =
  ca_target_request_id :: RequestId
  ca_disposition :: CancellationDisposition

record ReplayResult =
  rl_target_request_id :: RequestId
  rl_through_sequence :: u64
  rl_pending :: bool

record StatusResult =
  st_ready :: bool
  st_healthy :: bool
  st_daemon_version :: string
  st_protocol_version :: u16
  st_queue_depth :: u64

record DaemonLifecycleResult =
  dl_stopping :: bool

record ActivityEventSummary =
  ae_sequence :: u64
  ae_project_id :: ProjectId
  ae_caller_id :: CallerId
  ae_action :: string
  ae_decision :: string
  ae_outcome :: string
  ae_occurred_at_ms :: u64
  ae_project_root :: "string option"

record ActivityResult =
  ar_events :: "ActivityEventSummary list"
  ar_truncated :: bool

record ActivityDaySummary =
  ay_day_start_ms :: u64
  ay_events :: u64

record ProjectUsageSummary =
  pu_project_id :: string
  pu_events :: u64
  pu_last_event_ms :: u64
  pu_root :: "string option"

record DaemonStatsResult =
  ds_days :: "ActivityDaySummary list"
  ds_projects :: "ProjectUsageSummary list"

datatype LogSeverity = Info | Warn | Error

record DaemonLogEntry =
  lg_timestamp_ms :: u64
  lg_severity :: LogSeverity
  lg_message :: string

record DaemonLogsResult =
  lg_entries :: "DaemonLogEntry list"

record CallerSummary =
  cy_caller_id :: CallerId
  cy_registered_at_ms :: u64
  cy_revoked_at_ms :: "u64 option"
  cy_kind :: "string option"

record CallerListResult =
  cy_callers :: "CallerSummary list"

record ModelSummary =
  my_model_id :: string
  my_size_bytes :: u64

definition ModelSummary_new :: "string \<Rightarrow> u64 \<Rightarrow> ProtocolContractError + ModelSummary" where
  "ModelSummary_new model_id size_bytes =
     and_then (validate_model_id model_id) (\<lambda>_. Ok \<lparr>my_model_id = model_id, my_size_bytes = size_bytes\<rparr>)"

datatype ModelTransitionPhase = Loading | Unloading

fun ModelTransitionPhase_as_str :: "ModelTransitionPhase \<Rightarrow> string" where
  "ModelTransitionPhase_as_str Loading = ''loading''"
| "ModelTransitionPhase_as_str Unloading = ''unloading''"

record ModelTransition =
  mt_phase :: ModelTransitionPhase
  mt_model :: string

record ModelStatusResult =
  mst_loaded :: "ModelSummary option"
  mst_registered :: "ModelSummary list"
  mst_load_failure :: "string option"
  mst_transition :: "ModelTransition option"

datatype ProjectRequestState = Queued | Leased | CancellationRequested | Succeeded | Failed | Cancelled

record ProjectRequestSummary =
  ps_request_id :: RequestId
  ps_operation_kind :: string
  ps_state :: ProjectRequestState
  ps_queue_sequence :: u64
  ps_accepted_at_ms :: u64
  ps_completed_at_ms :: "u64 option"

definition ProjectRequestSummary_new ::
  "RequestId \<Rightarrow> string \<Rightarrow> ProjectRequestState \<Rightarrow> u64 \<Rightarrow> u64 \<Rightarrow> u64 option
     \<Rightarrow> ProtocolContractError + ProjectRequestSummary" where
  "ProjectRequestSummary_new request_id operation_kind state queue_sequence accepted_at_ms completed_at_ms =
     and_then (validate_project_operation_kind operation_kind) (\<lambda>_.
     Ok \<lparr>ps_request_id = request_id, ps_operation_kind = operation_kind, ps_state = state,
         ps_queue_sequence = queue_sequence, ps_accepted_at_ms = accepted_at_ms,
         ps_completed_at_ms = completed_at_ms\<rparr>)"

record ProjectCurrentResult =
  pc_queued :: "ProjectRequestSummary list"
  pc_active :: "ProjectRequestSummary option"
  pc_latest :: "ProjectRequestSummary option"
  pc_truncated :: bool

definition validate_project_current_queued :: "ProjectRequestSummary list \<Rightarrow> ProtocolContractError + unit" where
  "validate_project_current_queued queued =
     fail_if (length queued > MAX_PROJECT_CURRENT_QUEUED)
       (ProjectCurrentQueueTooLarge (length queued) MAX_PROJECT_CURRENT_QUEUED)"

definition ProjectCurrentResult_new ::
  "ProjectRequestSummary list \<Rightarrow> ProjectRequestSummary option \<Rightarrow> ProjectRequestSummary option \<Rightarrow> bool
     \<Rightarrow> ProtocolContractError + ProjectCurrentResult" where
  "ProjectCurrentResult_new queued active latest truncated =
     and_then (validate_project_current_queued queued) (\<lambda>_.
     Ok \<lparr>pc_queued = queued, pc_active = active, pc_latest = latest, pc_truncated = truncated\<rparr>)"

datatype ApprovalDecisionDisposition = Approved | Denied | Expired

record ApprovalDecisionResult =
  ad_approval_id :: ApprovalId
  ad_disposition :: ApprovalDecisionDisposition

datatype ConfigurationPresence = NotConfigured | Configured | Invalid

datatype PacState = NotDetected | DetectedUnsupported | InspectionUnavailable

record NetworkDiagnosticsResult =
  nd_platform_roots_enabled :: bool
  nd_system_proxy_discovery_enabled :: bool
  nd_proxy_environment_presence :: ConfigurationPresence
  nd_no_proxy_presence :: ConfigurationPresence
  nd_pac_state :: PacState

datatype ResultPayload =
    Status StatusResult
  | DaemonLifecycle DaemonLifecycleResult
  | DaemonActivity ActivityResult
  | DaemonLogs DaemonLogsResult
  | DaemonStats DaemonStatsResult
  | CallerList CallerListResult
  | ProjectCurrent ProjectCurrentResult
  | ApprovalDecision ApprovalDecisionResult
  | Cancellation CancellationResult
  | Replay ReplayResult
  | Brief BriefResult
  | NetworkDiagnostics NetworkDiagnosticsResult
  | EvidenceMetadata EvidenceMetadata
  | EvidenceChunk EvidenceChunk
  | ModelGeneration ModelGenerationResult
  | ModelStatus ModelStatusResult
  | ModelRegister ModelRegisterResult
  | ModelLoad ModelLoadResult
  | ModelUnload ModelUnloadResult
  | ModelUnregister ModelUnregisterResult
  | ModelVerify ModelVerifyResult
  | ModelSweep ModelSweepResult
  | ModelDeleteWeights ModelDeleteWeightsResult
  | GrantRevoke GrantRevokeResult
  | FlowRun FlowRunResult
  | ConnectorList ConnectorListResult
  | ConnectorConfigure ConnectorConfigureResult
  | ConnectorTest ConnectorTestResult
  | Reset ResetResult

section \<open>Results and events\<close>

datatype FailureCode =
    Unauthenticated | Forbidden | ApprovalRequired | ApprovalDenied | ApprovalExpired
  | UnsupportedProtocolVersion | InvalidRequest | FrameTooLarge | NotFound | Pending | IdempotencyConflict
  | Cancelled | LeaseConflict | Busy | Internal

record ApprovalChallenge =
  ch_approval_id :: ApprovalId
  ch_expires_at_unix_ms :: u64

record Failure =
  fl_code :: FailureCode
  fl_message :: string
  fl_recovery :: "string option"
  fl_approval :: "ApprovalChallenge option"

datatype ResultBody = Success OperationTruth ResultPayload | Failure Failure

record ResultEnvelope =
  en_protocol_version :: u16
  en_request_id :: RequestId
  en_project_id :: ProjectId
  en_body :: ResultBody

datatype Event =
    Accepted | Started | LeaseExpired | CancellationRequested | Cancelled | Completed | Failed
  | FlowTransition RunTransition

record EventEnvelope =
  ee_protocol_version :: u16
  ee_request_id :: RequestId
  ee_project_id :: ProjectId
  ee_sequence :: u64
  ee_event :: Event

datatype ServerMessage = EventMessage EventEnvelope | ResultMessage ResultEnvelope

fun ServerMessage_protocol_version :: "ServerMessage \<Rightarrow> u16" where
  "ServerMessage_protocol_version (EventMessage envelope) = ee_protocol_version envelope"
| "ServerMessage_protocol_version (ResultMessage envelope) = en_protocol_version envelope"

definition unsupported_version_failure :: "RequestEnvelope \<Rightarrow> ResultEnvelope option" where
  "unsupported_version_failure request =
     (if re_protocol_version request \<noteq> PROTOCOL_VERSION
      then Some \<lparr>en_protocol_version = PROTOCOL_VERSION, en_request_id = re_request_id request,
        en_project_id = re_project_id request,
        en_body = ResultBody.Failure \<lparr>fl_code = FailureCode.UnsupportedProtocolVersion,
          fl_message = ''protocol version '' @ show_nat (unat (re_protocol_version request))
            @ '' is unsupported; this daemon supports version '' @ show_nat (unat PROTOCOL_VERSION),
          fl_recovery = None, fl_approval = None\<rparr>\<rparr>
      else None)"

end
