(* ===== verification/Protocol_Codec.thy ===== *)
theory Protocol_Codec
  imports Protocol_Results Flow_Snapshot
begin

text \<open>
  Frames of the daemon protocol (\<^verbatim>\<open>crates/pam_protocol/src/codec.rs\<close>): MessagePack within the frame limit,
  with the version and the contract checked on the way in.  The MessagePack format (\<^verbatim>\<open>rmp_serde\<close>) is the
  argument \<open>wire\<close>; \<open>wi_read_request\<close> and \<open>wi_read_message\<close> give the fields a frame holds, and the
  hand-written \<^verbatim>\<open>Deserialize\<close> implementations then accept or refuse them.
\<close>

record Wire =
  wi_write_request :: "RequestEnvelope \<Rightarrow> string option"
  wi_read_request :: "string \<Rightarrow> RequestEnvelope option"
  wi_write_message :: "ServerMessage \<Rightarrow> string option"
  wi_read_message :: "string \<Rightarrow> ServerMessage option"

section \<open>Deserialization\<close>

definition handle_deserializes :: "EvidenceHandle \<Rightarrow> bool" where
  "handle_deserializes handle \<longleftrightarrow> \<not> is_err (EvidenceHandle_parse handle)"

fun credential_deserializes :: "ConnectorCredentialAction \<Rightarrow> bool" where
  "credential_deserializes (Set secret) \<longleftrightarrow> \<not> is_err (ConnectorSecret_new secret)"
| "credential_deserializes Clear \<longleftrightarrow> True"

fun payload_deserializes :: "RequestPayload \<Rightarrow> bool" where
  "payload_deserializes (RequestPayload.InspectEvidence handle) \<longleftrightarrow> handle_deserializes handle"
| "payload_deserializes (RequestPayload.ReadEvidence handle _ l) \<longleftrightarrow>
     handle_deserializes handle \<and> \<not> is_err (validate_evidence_read_length l)"
| "payload_deserializes (RequestPayload.ModelInfer _ messages _) \<longleftrightarrow>
     list_all (\<lambda>m. \<not> is_err (ModelMessage_new (mm_role m) (mm_content m))) messages"
| "payload_deserializes (RequestPayload.FlowRun d root) \<longleftrightarrow>
     \<not> is_err (FlowDefinitionDocument_new d) \<and> \<not> is_err (FlowProjectRoot_new root)"
| "payload_deserializes (RequestPayload.ConnectorConfigure _ _ _ credential) \<longleftrightarrow>
     is_none_or credential_deserializes credential"
| "payload_deserializes _ \<longleftrightarrow> True"

definition request_deserializes :: "RequestEnvelope \<Rightarrow> bool" where
  "request_deserializes request \<longleftrightarrow> payload_deserializes (re_payload request)
     \<and> is_none_or (\<lambda>root. \<not> is_err (FlowProjectRoot_new root)) (re_project_root request)"

definition report_deserializes :: "EffectReport \<Rightarrow> bool" where
  "report_deserializes report \<longleftrightarrow> \<not> is_err (EffectReport_new (er_summary report) (er_evidence report))
     \<and> list_all (\<lambda>h. \<not> is_err (EngineEvidenceHandle_parse h)) (er_evidence report)"

definition section_deserializes :: "FlowOutcomeSection \<Rightarrow> bool" where
  "section_deserializes s \<longleftrightarrow>
     \<not> is_err (validate_engine_text ''flow_outcome.summary'' (os_summary s) MAX_TEMPLATE_BYTES)
     \<and> length (os_step_ids s) \<le> MAX_FLOW_STEPS \<and> distinct (os_step_ids s)
     \<and> list_all (\<lambda>i. \<not> is_err (validate_slug ''flow_outcome.step_ids'' i MAX_FLOW_ID_BYTES)) (os_step_ids s)
     \<and> length (os_evidence s) \<le> MAX_OUTCOME_EVIDENCE_HANDLES
     \<and> list_all (\<lambda>h. \<not> is_err (EngineEvidenceHandle_parse h)) (os_evidence s)"

definition step_result_deserializes :: "StepRunResult \<Rightarrow> bool" where
  "step_result_deserializes s \<longleftrightarrow>
     is_none_or (\<lambda>r. report_deserializes (res_report r)) (sr_result s)
     \<and> is_none_or report_deserializes (sr_blocked_report s)"

definition flow_result_deserializes :: "FlowRunResult \<Rightarrow> bool" where
  "flow_result_deserializes r \<longleftrightarrow> \<not> is_err (RunId_parse (fr_run_id r))
     \<and> list_all section_deserializes [or_solved (fr_report r), or_changed (fr_report r),
         or_verified (fr_report r), or_unresolved (fr_report r), or_blocked (fr_report r)]
     \<and> list_all step_result_deserializes (fr_steps r)
     \<and> \<not> is_err (FlowRunResult_from_raw (fr_run_id r) (fr_definition_digest r) (fr_outcome r)
         (Some (fr_report r)) (fr_steps r))"

definition brief_item_deserializes :: "BriefItem \<Rightarrow> bool" where
  "brief_item_deserializes item \<longleftrightarrow> list_all handle_deserializes (bi_evidence item)"

definition model_summary_deserializes :: "ModelSummary \<Rightarrow> bool" where
  "model_summary_deserializes s \<longleftrightarrow> \<not> is_err (validate_model_id (my_model_id s))"

definition request_summary_deserializes :: "ProjectRequestSummary \<Rightarrow> bool" where
  "request_summary_deserializes s \<longleftrightarrow> \<not> is_err (validate_project_operation_kind (ps_operation_kind s))"

fun result_deserializes :: "ResultPayload \<Rightarrow> bool" where
  "result_deserializes (ResultPayload.ProjectCurrent r) \<longleftrightarrow>
     \<not> is_err (validate_project_current_queued (pc_queued r))
     \<and> list_all request_summary_deserializes (pc_queued r)
     \<and> is_none_or request_summary_deserializes (pc_active r)
     \<and> is_none_or request_summary_deserializes (pc_latest r)"
| "result_deserializes (ResultPayload.Brief r) \<longleftrightarrow>
     is_none_or brief_item_deserializes (br_goal r) \<and> list_all brief_item_deserializes (br_decisions r)
     \<and> list_all brief_item_deserializes (br_verified r) \<and> list_all brief_item_deserializes (br_next r)
     \<and> list_all (\<lambda>p. is_none_or handle_deserializes (bp_evidence p)) (br_provenance r)"
| "result_deserializes (ResultPayload.EvidenceMetadata m) \<longleftrightarrow>
     handle_deserializes (em_handle m) \<and> \<not> is_err (ContentDigest_parse (em_digest m))"
| "result_deserializes (ResultPayload.EvidenceChunk c) \<longleftrightarrow>
     handle_deserializes (ec_handle c) \<and> length (ec_bytes c) \<le> MAX_EVIDENCE_CHUNK_SIZE"
| "result_deserializes (ResultPayload.ModelGeneration g) \<longleftrightarrow>
     \<not> is_err (ModelGenerationResult_new (gen_model g) (gen_text g) (gen_finish_reason g) (gen_usage g))"
| "result_deserializes (ResultPayload.ModelStatus s) \<longleftrightarrow>
     is_none_or model_summary_deserializes (mst_loaded s) \<and> list_all model_summary_deserializes (mst_registered s)"
| "result_deserializes (ResultPayload.FlowRun r) \<longleftrightarrow> flow_result_deserializes r"
| "result_deserializes _ \<longleftrightarrow> True"

fun event_deserializes :: "Event \<Rightarrow> bool" where
  "event_deserializes (FlowTransition t) \<longleftrightarrow>
     \<not> is_err (RunTransition_from_raw (tr_sequence t) (tr_kind t) (tr_semantic_events t))"
| "event_deserializes _ \<longleftrightarrow> True"

fun message_deserializes :: "ServerMessage \<Rightarrow> bool" where
  "message_deserializes (EventMessage e) \<longleftrightarrow> event_deserializes (ee_event e)"
| "message_deserializes (ResultMessage r) \<longleftrightarrow>
     (case en_body r of Success _ payload \<Rightarrow> result_deserializes payload | ResultBody.Failure _ \<Rightarrow> True)"

section \<open>Frames\<close>

datatype CodecError =
    FrameTooLarge nat nat
  | Decode
  | Encode
  | Contract ProtocolContractError
  | UnsupportedProtocolVersion u16 u16

definition enforce_frame_limit :: "nat \<Rightarrow> CodecError + unit" where
  "enforce_frame_limit actual = fail_if (actual > MAX_FRAME_SIZE) (CodecError.FrameTooLarge actual MAX_FRAME_SIZE)"

definition enforce_version :: "u16 \<Rightarrow> CodecError + unit" where
  "enforce_version actual =
     fail_if (actual \<noteq> PROTOCOL_VERSION) (CodecError.UnsupportedProtocolVersion actual PROTOCOL_VERSION)"

definition encode_frame :: "('a \<Rightarrow> string option) \<Rightarrow> 'a \<Rightarrow> CodecError + string" where
  "encode_frame serialize v =
     and_then (ok_or (serialize v) Encode) (\<lambda>bytes.
     and_then (enforce_frame_limit (length bytes)) (\<lambda>_. Ok bytes))"

definition decode_frame :: "(string \<Rightarrow> 'a option) \<Rightarrow> ('a \<Rightarrow> bool) \<Rightarrow> string \<Rightarrow> CodecError + 'a" where
  "decode_frame read deserializes bytes =
     and_then (enforce_frame_limit (length bytes)) (\<lambda>_.
     and_then (ok_or (read bytes) Decode) (\<lambda>v.
     if deserializes v then Ok v else Err Decode))"

definition encode_request :: "Wire \<Rightarrow> RequestEnvelope \<Rightarrow> CodecError + string" where
  "encode_request wire = encode_frame (wi_write_request wire)"

definition encode_message :: "Wire \<Rightarrow> ServerMessage \<Rightarrow> CodecError + string" where
  "encode_message wire = encode_frame (wi_write_message wire)"

definition decode_request_envelope :: "Wire \<Rightarrow> string \<Rightarrow> CodecError + RequestEnvelope" where
  "decode_request_envelope wire = decode_frame (wi_read_request wire) request_deserializes"

definition decode_request ::
  "Wire \<Rightarrow> (string \<Rightarrow> 'te + FlowDefinition) \<Rightarrow> string \<Rightarrow> CodecError + RequestEnvelope" where
  "decode_request wire toml bytes =
     and_then (decode_request_envelope wire bytes) (\<lambda>request.
     and_then (enforce_version (re_protocol_version request)) (\<lambda>_.
     and_then (map_err Contract (validate_model_request request)) (\<lambda>_.
     and_then (map_err Contract (validate_flow_request toml request)) (\<lambda>_. Ok request))))"

definition is_version_negotiation_failure :: "ServerMessage \<Rightarrow> bool" where
  "is_version_negotiation_failure message = (case message of
       ResultMessage result \<Rightarrow>
         (case en_body result of
            ResultBody.Failure failure \<Rightarrow> fl_code failure = FailureCode.UnsupportedProtocolVersion
          | _ \<Rightarrow> False)
     | _ \<Rightarrow> False)"

definition decode_server_message_envelope :: "Wire \<Rightarrow> string \<Rightarrow> CodecError + ServerMessage" where
  "decode_server_message_envelope wire = decode_frame (wi_read_message wire) message_deserializes"

definition decode_server_message :: "Wire \<Rightarrow> string \<Rightarrow> CodecError + ServerMessage" where
  "decode_server_message wire bytes =
     and_then (decode_server_message_envelope wire bytes) (\<lambda>message.
     and_then (if is_version_negotiation_failure message then Ok ()
       else enforce_version (ServerMessage_protocol_version message)) (\<lambda>_. Ok message))"

section \<open>Project roots\<close>

lemma canonical_root_segments:
  assumes "Path_is_absolute root" and "list_all canonical_component (Path_components root)"
  shows "\<exists>segments. list_all path_segment segments \<and> Path_components root = RootDir # map Normal segments"
proof -
  let ?segments = "filter (\<lambda>s. s \<noteq> [] \<and> s \<noteq> ''.'') (split_on slash root)"
  have components: "Path_components root = RootDir # map component_of ?segments"
    using assms(1) by (simp add: Path_components_def Let_def)
  then have "list_all canonical_component (map component_of ?segments)" using assms(2) by simp
  then have "s \<noteq> ''..''" if "s \<in> set ?segments" for s
    using that by (fastforce simp: list_all_iff component_of_def)
  then have "list_all path_segment ?segments"
    using split_on_segments by (fastforce simp: list_all_iff path_segment_def)
  then show ?thesis using components component_of_segment by (intro exI [of _ ?segments]) (simp add: list_all_iff)
qed

lemma project_root_canonical:
  "FlowProjectRoot_new root = Ok root' \<longleftrightarrow> root' = root \<and> length root \<le> MAX_FLOW_PROJECT_ROOT_BYTES
     \<and> (\<exists>segments. list_all path_segment segments \<and> root = canonical_path segments)"
  (is "_ \<longleftrightarrow> _ \<and> _ \<and> ?canonical")
proof -
  have "FlowProjectRoot_validate root = Ok () \<longleftrightarrow> ?canonical"
  proof
    assume "FlowProjectRoot_validate root = Ok ()"
    then have "Path_is_absolute root" "list_all canonical_component (Path_components root)"
      "PathBuf_collect (Path_components root) = root"
      by (auto simp: FlowProjectRoot_validate_def fail_if_Inr_iff)
    with canonical_root_segments show ?canonical using collect_segments by metis
  next
    assume ?canonical
    then obtain segments where segments: "list_all path_segment segments" "root = canonical_path segments" by blast
    have "root \<noteq> []" "Path_is_absolute root"
      using segments(2) by (cases segments; simp add: canonical_path_def Path_is_absolute_def)+
    then show "FlowProjectRoot_validate root = Ok ()"
      using segments canonical_components collect_segments
      by (simp add: FlowProjectRoot_validate_def fail_if_def list_all_iff)
  qed
  then show ?thesis
    by (auto simp: FlowProjectRoot_new_def and_then_Inr_iff)
qed

end
