(* ===== verification/Protocol_Guarantees.thy ===== *)
theory Protocol_Guarantees
  imports Protocol_Codec
begin

text \<open>
  What the protocol promises: a request a client builds with the constructors arrives as it was sent and
  has the shape the daemon asks for, and which capabilities can be revoked by name.
\<close>

section \<open>Requests clients build\<close>

text \<open>
  The arguments respect their Rust types: evidence handles, chat messages, secrets and project roots exist
  only as values their constructors accepted.
\<close>

inductive constructed ::
  "(string \<Rightarrow> 'te + FlowDefinition) \<Rightarrow> (RequestEnvelope \<Rightarrow> string option) \<Rightarrow> RequestEnvelope \<Rightarrow> bool"
  for toml encode
where
  status: "constructed toml encode (status_request i c p k)"
| stop: "constructed toml encode (stop_request i c p k)"
| project_current: "constructed toml encode (project_current_request i c p k)"
| daemon_activity: "constructed toml encode (daemon_activity_request i c p k limit)"
| daemon_logs: "constructed toml encode (daemon_logs_request i c p k limit)"
| daemon_stats: "constructed toml encode (daemon_stats_request i c p k days)"
| caller_list: "constructed toml encode (caller_list_request i c p k)"
| model_status: "constructed toml encode (model_status_request i c p k)"
| connector_list: "constructed toml encode (connector_list_request i c p k)"
| connector_configure: "is_none_or credential_deserializes credential \<Longrightarrow>
    connector_configure_request i c p k connector enabled base_url credential = Ok r \<Longrightarrow> constructed toml encode r"
| connector_test: "connector_test_request i c p k connector = Ok r \<Longrightarrow> constructed toml encode r"
| approval_decide: "constructed toml encode (approval_decide_request i c p k approval_id decision)"
| cancel_target: "constructed toml encode (cancel_target_request i c p k target)"
| cancel_expected: "constructed toml encode (cancel_target_with_expected_target_request i c p k target kind)"
| replay: "constructed toml encode (replay_request i c p k target after_sequence)"
| replay_expected: "constructed toml encode (replay_with_expected_target_request i c p k target after_sequence kind)"
| brief: "constructed toml encode (brief_request i c p k)"
| network_diagnostics: "constructed toml encode (network_diagnostics_request i c p k)"
| model_infer: "list_all (\<lambda>m. \<not> is_err (ModelMessage_new (mm_role m) (mm_content m))) messages \<Longrightarrow>
    model_infer_request i c p k model messages max_output_tokens deadline = Ok r \<Longrightarrow> constructed toml encode r"
| flow_run: "flow_run_request toml encode i c p k flow root = Ok r \<Longrightarrow> constructed toml encode r"
| model_register: "model_register_request i c p k registration = Ok r \<Longrightarrow> constructed toml encode r"
| model_load: "model_load_request i c p k model = Ok r \<Longrightarrow> constructed toml encode r"
| model_unload: "constructed toml encode (model_unload_request i c p k)"
| model_unregister: "model_unregister_request i c p k model = Ok r \<Longrightarrow> constructed toml encode r"
| model_verify: "model_verify_request i c p k selected = Ok r \<Longrightarrow> constructed toml encode r"
| model_sweep: "constructed toml encode (model_sweep_request i c p k)"
| model_delete_weights: "model_delete_weights_request i c p k model = Ok r \<Longrightarrow> constructed toml encode r"
| grant_revoke: "grant_revoke_request i c p k capability = Ok r \<Longrightarrow> constructed toml encode r"
| reset: "constructed toml encode (reset_request i c p k tier dry_run)"
| wait_for_result: "constructed toml encode (wait_for_result_request i c p k target after_sequence)"
| wait_expected: "constructed toml encode (wait_for_result_with_expected_target_request i c p k target after_sequence kind)"
| get_result: "constructed toml encode (get_result_request i c p k target)"
| get_result_expected: "constructed toml encode (get_result_with_expected_target_request i c p k target kind)"
| inspect_evidence: "handle_deserializes handle \<Longrightarrow> constructed toml encode (inspect_evidence_request i c p k handle)"
| read_evidence: "handle_deserializes handle \<Longrightarrow> read_evidence_request i c p k handle offset l = Ok r \<Longrightarrow>
    constructed toml encode r"
| authenticate: "constructed toml encode r \<Longrightarrow> constructed toml encode (authenticated credential r)"
| approve: "constructed toml encode r \<Longrightarrow> re_capability r \<noteq> Capability.ApprovalDecide \<Longrightarrow>
    constructed toml encode (with_approval approval_id r)"
| locate: "constructed toml encode r \<Longrightarrow> FlowProjectRoot_new root = Ok root' \<Longrightarrow>
    constructed toml encode (with_project_root root' r)"

definition acceptable :: "(string \<Rightarrow> 'te + FlowDefinition) \<Rightarrow> RequestEnvelope \<Rightarrow> bool" where
  "acceptable toml r \<longleftrightarrow> re_protocol_version r = PROTOCOL_VERSION \<and> request_deserializes r
     \<and> request_shape_is_valid toml r"

lemmas request_constructors =
  status_request_def stop_request_def project_current_request_def daemon_activity_request_def
  daemon_logs_request_def daemon_stats_request_def caller_list_request_def model_status_request_def
  connector_list_request_def connector_configure_request_def connector_test_request_def
  approval_decide_request_def cancel_target_request_def cancel_target_with_expected_target_request_def
  replay_request_def replay_with_expected_target_request_def brief_request_def
  network_diagnostics_request_def model_infer_request_def flow_run_request_def model_register_request_def
  model_request_def model_load_request_def model_unregister_request_def model_delete_weights_request_def
  model_unload_request_def model_verify_request_def model_sweep_request_def grant_revoke_request_def
  wait_for_result_request_def wait_for_result_with_expected_target_request_def get_result_request_def
  get_result_with_expected_target_request_def inspect_evidence_request_def read_evidence_request_def
  reset_request_def

lemmas request_validators =
  validate_model_request_def validate_flow_request_def validate_connector_request_def validate_grant_request_def

lemma project_root_ok: "FlowProjectRoot_new root = Ok root' \<Longrightarrow> FlowProjectRoot_new root' = Ok root'"
  by (simp add: project_root_canonical)

lemma document_ok: "FlowDefinitionDocument_new d = Ok d' \<Longrightarrow> FlowDefinitionDocument_new d' = Ok d'"
  by (simp add: FlowDefinitionDocument_new_def split: if_splits)

lemma acceptable_envelope:
  "acceptable toml (request_envelope i c p k capability payload) \<longleftrightarrow>
     payload_deserializes payload \<and> capability_matches payload capability
     \<and> validate_model_payload None payload = Ok () \<and> validate_flow_payload toml i payload = Ok ()
     \<and> validate_connector_payload payload = Ok () \<and> validate_grant_payload payload = Ok ()"
  by (simp add: acceptable_def request_envelope_def request_deserializes_def request_shape_is_valid_def
      request_validators is_none_or_def)

lemma request_envelope_sel [simp]:
  "re_payload (request_envelope i c p k capability payload) = payload"
  "re_request_id (request_envelope i c p k capability payload) = i"
  by (simp_all add: request_envelope_def)

lemma flow_request_acceptable:
  assumes "flow_run_request toml encode i c p k flow root = Ok r"
  shows "acceptable toml r"
proof -
  obtain d root' where d: "FlowDefinitionDocument_new flow = Ok d" "FlowProjectRoot_new root = Ok root'"
    "r = request_envelope i c p k Capability.FlowRun (RequestPayload.FlowRun d root')"
    "validate_flow_request toml r = Ok ()"
    using assms by (auto simp: flow_run_request_def and_then_Inr_iff Let_def)
  have "FlowDefinitionDocument_new d = Ok d" "FlowProjectRoot_new root' = Ok root'"
    by (fact document_ok [OF d(1)], fact project_root_ok [OF d(2)])
  with d(4) show ?thesis unfolding d(3) by (simp add: acceptable_envelope validate_flow_request_def)
qed

lemma constructed_acceptable: "constructed toml encode r \<Longrightarrow> acceptable toml r"
proof (induction rule: constructed.induct)
  case (flow_run i c p k flow root r)
  then show ?case by (rule flow_request_acceptable)
next
  case (model_infer messages i c p k model max_output_tokens deadline r)
  then show ?case
    by (auto simp: model_infer_request_def and_then_Inr_iff acceptable_def request_envelope_def
        request_deserializes_def request_shape_is_valid_def request_validators is_none_or_def)
next
  case (reset i c p k tier dry_run)
  then show ?case by (cases tier) (simp_all add: reset_request_def acceptable_envelope)
next
  case (authenticate r credential)
  then show ?case
    by (simp add: acceptable_def authenticated_def request_deserializes_def request_shape_is_valid_def request_validators)
next
  case (approve r approval_id)
  then show ?case
    by (simp add: acceptable_def with_approval_def request_deserializes_def request_shape_is_valid_def request_validators)
next
  case (locate r root root')
  then show ?case
    using project_root_ok [OF locate.hyps(2)]
    by (simp add: acceptable_def with_project_root_def request_deserializes_def request_shape_is_valid_def
        request_validators is_none_or_def)
qed (auto simp: request_constructors acceptable_envelope validate_connector_request_def and_then_Inr_iff Let_def)

lemma frame_roundtrip:
  assumes "encode_frame serialize v = Ok bytes" and "read bytes = Some v" and "deserializes v"
  shows "decode_frame read deserializes bytes = Ok v"
  using assms by (auto simp: encode_frame_def decode_frame_def and_then_Inr_iff)


definition demo_envelope :: RequestEnvelope where
  "demo_envelope = with_approval ''approval-1'' (authenticated ''secret''
     (model_unload_request ''r-1'' ''cli'' ''p-1'' ''k-1''))"

definition demo_wire :: Wire where
  "demo_wire = \<lparr>wi_write_request = (\<lambda>r. if r = demo_envelope then Some ''frame'' else None),
     wi_read_request = (\<lambda>b. if b = ''frame'' then Some demo_envelope else None),
     wi_write_message = (\<lambda>_. None), wi_read_message = (\<lambda>_. None)\<rparr>"


section \<open>Names\<close>

text \<open>C33: Every capability has a name the policy can grant, and a client can revoke its grants by that name, with
  one exception: the name of the capability that deletes model weights has a hyphen, which revocation
  refuses, so that a grant of it cannot be revoked by its holder.\<close>

theorem revocable_capabilities:
  "CapabilityName_parse (policy_name c) = Ok (policy_name c)
     \<and> (validate_grant_capability (policy_name c) = Ok () \<longleftrightarrow> c \<noteq> Capability.ModelDeleteWeights)"
proof
  show "CapabilityName_parse (policy_name c) = Ok (policy_name c)" by (cases c) (simp_all only: policy_name.simps, code_simp+)
  show "validate_grant_capability (policy_name c) = Ok () \<longleftrightarrow> c \<noteq> Capability.ModelDeleteWeights"
    by (cases c) (simp_all only: policy_name.simps Capability.distinct simp_thms, code_simp+)
qed

end
