(* ===== verification/Worker_Effects.thy ===== *)
theory Worker_Effects
  imports Protocol_Codec Store_Authorization Store_Requests Flow_Engine
begin

text \<open>
  What a worker of the daemon may execute for a flow (\<^verbatim>\<open>crates/pam_daemon/src/flow.rs\<close>): the stored form
  of a flow operation, the screens that leave only read-only git commands and read-only connector calls,
  and the results it hands back.  \<open>Platform\<close> is what the file system and the environment show at one
  moment; \<open>pf_discover_project\<close> and \<open>pf_fingerprint\<close> are what the project discovery and the workspace
  fingerprint find there.
\<close>

record Platform =
  pf_canonicalize :: "string \<Rightarrow> string option"
  pf_is_dir :: "string \<Rightarrow> bool"
  pf_is_file :: "string \<Rightarrow> bool"
  pf_path :: "string list option"
  pf_discover_project :: "string \<Rightarrow> (string \<times> ProjectId) option"
  pf_fingerprint :: "string \<Rightarrow> string option"
  pf_identity_holds :: "string \<Rightarrow> bool"

section \<open>The stored operation\<close>

definition MAX_COMMAND_OUTPUT_BYTES :: nat where "MAX_COMMAND_OUTPUT_BYTES = 256 * 1024"

definition FLOW_OPERATION_HEADER :: string where
  "FLOW_OPERATION_HEADER = ''pam-flow-operation-v2'' @ [CHR 0x00]"

datatype FlowSubmissionError = InvalidDefinition | UnsupportedDefinition | WorkspaceUnavailable

type_synonym WorkspaceFingerprint = string

definition flow_policy_resource ::
  "(string \<Rightarrow> string) \<Rightarrow> FlowDefinition \<Rightarrow> WorkspaceFingerprint \<Rightarrow> InvalidName + string" where
  "flow_policy_resource sha256 d workspace =
     and_then (map_err (\<lambda>_. InvalidResourceName) (normalized_digest sha256 d)) (\<lambda>digest.
     Ok (''flow:'' @ fd_id d @ '':revision='' @ show_nat (unat (fd_revision d)) @ '':digest='' @ from_sha256 digest
       @ '':workspace='' @ from_sha256 workspace))"

text \<open>\<^verbatim>\<open>u32::to_be_bytes\<close> and \<^verbatim>\<open>u32::from_be_bytes\<close>\<close>

definition be_bytes32 :: "nat \<Rightarrow> string" where
  "be_bytes32 n = map (\<lambda>k. char_of (n div 256 ^ (3 - k) mod 256)) [0..<4]"

definition from_be_bytes32 :: "string \<Rightarrow> nat" where
  "from_be_bytes32 bs = foldl (\<lambda>n b. n * 256 + byte b) 0 bs"

text \<open>The root is the bytes of a path; \<^verbatim>\<open>Path::to_str\<close> gives them when they are UTF-8.\<close>

definition is_utf8 :: "string \<Rightarrow> bool" where
  "is_utf8 s \<longleftrightarrow> from_chars (chars s) = s"

definition encode_flow_operation ::
  "string \<Rightarrow> WorkspaceFingerprint \<Rightarrow> string \<Rightarrow> FlowSubmissionError + string" where
  "encode_flow_operation normalized workspace root =
     (if \<not> is_utf8 root \<or> length root \<ge> 2 ^ 32 then Err WorkspaceUnavailable
      else Ok (FLOW_OPERATION_HEADER @ be_bytes32 (length root) @ root @ workspace @ normalized))"

definition split_at_checked :: "nat \<Rightarrow> string \<Rightarrow> (string \<times> string) option" where
  "split_at_checked n s = (if n \<le> length s then Some (take n s, drop n s) else None)"

definition decode_flow_operation ::
  "(string \<Rightarrow> 'te + FlowDefinition) \<Rightarrow> string \<Rightarrow> (FlowDefinition \<times> WorkspaceFingerprint \<times> string) option" where
  "decode_flow_operation toml operation =
     Option.bind (strip_prefix FLOW_OPERATION_HEADER operation) (\<lambda>payload.
     Option.bind (split_at_checked 4 payload) (\<lambda>(root_length, payload).
     Option.bind (split_at_checked (from_be_bytes32 root_length) payload) (\<lambda>(root, payload).
     if \<not> is_utf8 root \<or> \<not> Path_is_absolute root then None
     else
     Option.bind (split_at_checked 32 payload) (\<lambda>(fingerprint, normalized).
     if \<not> is_utf8 normalized then None
     else
     (case parse_toml toml normalized of
        Inl _ \<Rightarrow> None
      | Inr d \<Rightarrow>
          if to_normalized_toml d = Ok normalized then Some (d, fingerprint, root) else None)))))"

section \<open>Screens\<close>

datatype CommandRejection = Unsupported | UnsafeWorkingDirectory | WorkspaceChanged | StatefulConnector

record PreparedCommand =
  pr_program :: string
  pr_args :: "string list"
  pr_working_directory :: string
  pr_execution_root :: string

record PreparedConnectorStep =
  pn_connector :: string
  pn_capability :: string
  pn_resource_kind :: string
  pn_resource_id :: string

datatype PreparedEffect = PreparedCommand PreparedCommand | PreparedConnector PreparedConnectorStep

definition safe_git_status_argument :: "string \<Rightarrow> bool" where
  "safe_git_status_argument a \<longleftrightarrow>
     a \<in> set [''--short'', ''-s'', ''--porcelain'', ''--no-renames'', ''--find-renames'']
     \<or> starts_with a ''--porcelain='' \<or> starts_with a ''--untracked-files='' \<or> starts_with a ''--find-renames=''"

definition safe_git_revision_argument :: "string \<Rightarrow> bool" where
  "safe_git_revision_argument a \<longleftrightarrow>
     a \<in> set [''HEAD'', ''--verify'', ''--quiet'', ''-q'', ''--short'', ''--show-toplevel'', ''--show-prefix'',
       ''--show-cdup'', ''--git-dir'', ''--absolute-git-dir'', ''--is-inside-work-tree'']
     \<or> (case strip_prefix ''--short='' a of None \<Rightarrow> False | Some l \<Rightarrow> l \<noteq> [] \<and> list_all is_ascii_digit l)"

definition safe_git_diff_argument :: "string \<Rightarrow> bool" where
  "safe_git_diff_argument a \<longleftrightarrow> a = ''--quiet''"

definition null_device :: string where "null_device = ''/dev/null''"

definition safe_git_config_args :: "string list" where
  "safe_git_config_args = [''-c'', ''core.fsmonitor=false'', ''-c'', ''core.untrackedCache=false'', ''-c'',
     ''core.excludesFile='' @ null_device, ''--no-pager'']"

definition git_args_with_safe_config :: "string list \<Rightarrow> string list" where
  "git_args_with_safe_config args = safe_git_config_args @ args"

definition validated_git_args :: "string list \<Rightarrow> CommandRejection + string list" where
  "validated_git_args args =
     (case args of
        [] \<Rightarrow> Err Unsupported
      | command # rest \<Rightarrow>
          if command = ''status'' \<and> list_all safe_git_status_argument rest
          then Ok (git_args_with_safe_config args)
          else if command = ''rev-parse'' \<and> rest \<noteq> [] \<and> list_all safe_git_revision_argument rest
          then Ok (git_args_with_safe_config args)
          else if command = ''diff'' \<and> list_ex (\<lambda>a. a = ''--quiet'') args \<and> list_all safe_git_diff_argument rest
          then Ok (safe_git_config_args @ [''diff'', ''--no-ext-diff'', ''--no-textconv''] @ rest)
          else Err Unsupported)"

definition validate_git_semantic_role ::
  "string list \<Rightarrow> StepSemanticRole \<Rightarrow> u16 \<Rightarrow> CommandRejection + unit" where
  "validate_git_semantic_role args role schema_version =
     (let first = (case args of [] \<Rightarrow> None | a # _ \<Rightarrow> Some a) in
      if first = Some ''diff'' \<and> role = Verify
         \<or> (first = Some ''status'' \<or> first = Some ''rev-parse'') \<and> role = Observe
         \<or> first = Some ''diff'' \<and> role = Observe \<and> schema_version = 1
      then Ok () else Err Unsupported)"

definition resolve_executable :: "Platform \<Rightarrow> string \<Rightarrow> string \<Rightarrow> CommandRejection + string" where
  "resolve_executable platform program execution_root =
     and_then (ok_or (pf_path platform) Unsupported) (\<lambda>inherited.
     ok_or (find (\<lambda>candidate. pf_is_file platform candidate \<and> \<not> Path_starts_with candidate execution_root)
       (List.map_filter (\<lambda>directory. pf_canonicalize platform (PathBuf_push directory program))
         (filter Path_is_absolute inherited))) Unsupported)"

definition canonical_working_directory :: "Platform \<Rightarrow> string \<Rightarrow> string \<Rightarrow> CommandRejection + string" where
  "canonical_working_directory platform execution_root relative =
     (if relative \<noteq> [] \<and> relative \<noteq> ''.'' then Err UnsafeWorkingDirectory
      else
      and_then (ok_or (pf_canonicalize platform (PathBuf_push execution_root relative)) UnsafeWorkingDirectory) (\<lambda>canonical.
      if pf_is_dir platform canonical \<and> Path_starts_with canonical execution_root
      then Ok canonical else Err UnsafeWorkingDirectory))"

definition validate_supported_step :: "Platform \<Rightarrow> string \<Rightarrow> u16 \<Rightarrow> FlowStep \<Rightarrow> CommandRejection + unit" where
  "validate_supported_step platform execution_root schema_version step =
     (case fs_action step of
        Connector _ _ _ \<Rightarrow> if fs_effect step = ReadOnly then Ok () else Err StatefulConnector
      | Command program args working_directory \<Rightarrow>
          and_then (canonical_working_directory platform execution_root working_directory) (\<lambda>_.
          and_then (if program = ''git'' then
              and_then (validated_git_args args) (\<lambda>_.
              if fs_effect step \<noteq> ReadOnly \<or> fs_approval step \<noteq> ApprovalMode.NoApproval then Err Unsupported
              else validate_git_semantic_role args (semantic_role step) schema_version)
            else Err Unsupported) (\<lambda>_.
          and_then (resolve_executable platform program execution_root) (\<lambda>_. Ok ()))))"

definition validate_supported_definition ::
  "Platform \<Rightarrow> string \<Rightarrow> FlowDefinition \<Rightarrow> CommandRejection + unit" where
  "validate_supported_definition platform execution_root d =
     for_each (\<lambda>_. validate_supported_step platform execution_root (fd_schema_version d)) 0 (fd_steps d)"

definition step_of_effect :: "FlowDefinition \<Rightarrow> EffectAttempt \<Rightarrow> CommandRejection + FlowStep" where
  "step_of_effect d effect =
     (case get_opt (fd_steps d) (ea_step_index effect) of
        None \<Rightarrow> Err Unsupported
      | Some step \<Rightarrow> if fs_id step = ea_step_id effect then Ok step else Err Unsupported)"

definition prepare_command :: "Platform \<Rightarrow> string \<Rightarrow> FlowDefinition \<Rightarrow> EffectAttempt \<Rightarrow> CommandRejection + PreparedCommand" where
  "prepare_command platform execution_root d effect =
     and_then (step_of_effect d effect) (\<lambda>step.
     (case fs_action step of
        Connector _ _ _ \<Rightarrow> Err Unsupported
      | Command program args relative \<Rightarrow>
          and_then (canonical_working_directory platform execution_root relative) (\<lambda>working_directory.
          and_then (if program = ''git'' \<and> ea_effect effect = ReadOnly \<and> fs_approval step = ApprovalMode.NoApproval
            then and_then (validate_git_semantic_role args (semantic_role step) (fd_schema_version d)) (\<lambda>_.
              validated_git_args args)
            else Err Unsupported) (\<lambda>args.
          and_then (resolve_executable platform program execution_root) (\<lambda>program.
          Ok \<lparr>pr_program = program, pr_args = args, pr_working_directory = working_directory,
              pr_execution_root = execution_root\<rparr>)))))"

text \<open>\<^verbatim>\<open>prepare_effect\<close> of the daemon; the engine has an operation of the same name.\<close>

definition prepare_effect_action ::
  "Platform \<Rightarrow> string \<Rightarrow> FlowDefinition \<Rightarrow> EffectAttempt \<Rightarrow> CommandRejection + PreparedEffect" where
  "prepare_effect_action platform execution_root d effect =
     and_then (step_of_effect d effect) (\<lambda>step.
     (case fs_action step of
        Connector connector capability resource \<Rightarrow>
          if ea_effect effect \<noteq> ReadOnly \<or> fs_effect step \<noteq> ReadOnly then Err StatefulConnector
          else Ok (PreparedConnector \<lparr>pn_connector = connector, pn_capability = capability,
            pn_resource_kind = resource_kind resource, pn_resource_id = resource_id resource\<rparr>)
      | _ \<Rightarrow> and_then (prepare_command platform execution_root d effect) (\<lambda>command. Ok (PreparedCommand command))))"

definition verify_flow_project_root :: "Platform \<Rightarrow> string \<Rightarrow> ProjectId \<Rightarrow> FlowSubmissionError + string" where
  "verify_flow_project_root platform requested_root expected_project_id =
     (if \<not> Path_is_absolute requested_root then Err WorkspaceUnavailable
      else
      and_then (ok_or (pf_canonicalize platform requested_root) WorkspaceUnavailable) (\<lambda>canonical_root.
      if canonical_root \<noteq> requested_root then Err WorkspaceUnavailable
      else
      and_then (ok_or (pf_discover_project platform canonical_root) WorkspaceUnavailable) (\<lambda>(project_root, project_id).
      and_then (ok_or (pf_canonicalize platform project_root) WorkspaceUnavailable) (\<lambda>discovered_root.
      if discovered_root \<noteq> canonical_root \<or> project_id \<noteq> expected_project_id then Err WorkspaceUnavailable
      else Ok canonical_root))))"

record PreparedFlowSubmission =
  pz_operation :: string
  pz_policy_resource :: string
  pz_schema_approval_required :: bool

definition prepare_flow_submission ::
  "(string \<Rightarrow> string) \<Rightarrow> (string \<Rightarrow> 'te + FlowDefinition) \<Rightarrow> Platform \<Rightarrow> string \<Rightarrow> string
     \<Rightarrow> FlowSubmissionError + PreparedFlowSubmission" where
  "prepare_flow_submission sha256 toml platform document execution_root =
     and_then (map_err (\<lambda>_. FlowSubmissionError.InvalidDefinition) (parse_toml toml document)) (\<lambda>d.
     and_then (map_err (\<lambda>_. UnsupportedDefinition) (validate_supported_definition platform execution_root d)) (\<lambda>_.
     and_then (ok_or (pf_fingerprint platform execution_root) WorkspaceUnavailable) (\<lambda>fingerprint.
     and_then (map_err (\<lambda>_. FlowSubmissionError.InvalidDefinition) (to_normalized_toml d)) (\<lambda>normalized.
     and_then (encode_flow_operation normalized fingerprint execution_root) (\<lambda>operation.
     and_then (map_err (\<lambda>_. FlowSubmissionError.InvalidDefinition) (flow_policy_resource sha256 d fingerprint)) (\<lambda>resource.
     Ok \<lparr>pz_operation = operation, pz_policy_resource = resource,
         pz_schema_approval_required = list_ex (\<lambda>step. fs_effect step = Stateful) (fd_steps d)\<rparr>))))))"

section \<open>Results\<close>

fun terminal_state :: "RunOutcome \<Rightarrow> TerminalState" where
  "terminal_state Solved = TerminalState.Succeeded"
| "terminal_state RunOutcome.Unresolved = TerminalState.Failed"
| "terminal_state RunOutcome.Blocked = TerminalState.Failed"
| "terminal_state RunOutcome.Cancelled = TerminalState.Cancelled"

definition flow_result_truth :: "FlowRunResult \<Rightarrow> OperationTruth" where
  "flow_result_truth result =
     (case fr_outcome result of
        Solved \<Rightarrow>
          if os_satisfied (or_verified (fr_report result)) then OperationTruth.Verified
          else if os_satisfied (or_changed (fr_report result)) then OperationTruth.Changed
          else OperationTruth.Observed
      | RunOutcome.Blocked \<Rightarrow> OperationTruth.Blocked
      | _ \<Rightarrow> OperationTruth.Unresolved)"

datatype FlowProcessing = TerminalFlow TerminalState ResultEnvelope string | StaleLeaseFlow

definition terminal_result :: "LeasedRequest \<Rightarrow> FlowRunResult \<Rightarrow> string \<Rightarrow> FlowProcessing" where
  "terminal_result leased result encoded_result =
     TerminalFlow (terminal_state (fr_outcome result))
       \<lparr>en_protocol_version = PROTOCOL_VERSION, en_request_id = le_request_id (lr_lease leased),
        en_project_id = le_project_id (lr_lease leased),
        en_body = Success (flow_result_truth result) (ResultPayload.FlowRun result)\<rparr> encoded_result"

definition encode_flow_result :: "Wire \<Rightarrow> LeasedRequest \<Rightarrow> FlowRunResult \<Rightarrow> StoreError + string" where
  "encode_flow_result wire leased result =
     (case terminal_result leased result [] of
        TerminalFlow _ envelope _ \<Rightarrow>
          map_err (\<lambda>_. InvalidState ''terminal flow result exceeded the protocol frame'')
            (encode_message wire (ResultMessage envelope))
      | StaleLeaseFlow \<Rightarrow> Err StorePanic)"

definition legacy_flow_result_matches :: "FlowRunResult \<Rightarrow> FlowRunResult \<Rightarrow> bool" where
  "legacy_flow_result_matches stored expected \<longleftrightarrow>
     fr_run_id stored = fr_run_id expected
     \<and> FlowRunResult.fr_definition_digest stored = FlowRunResult.fr_definition_digest expected
     \<and> fr_outcome stored = fr_outcome expected \<and> length (fr_steps stored) = length (fr_steps expected)
     \<and> list_all (\<lambda>(left, right). sr_step_id left = sr_step_id right \<and> sr_kind left = sr_kind right
          \<and> sr_result left = sr_result right \<and> sr_blocked_report left = sr_blocked_report right)
        (zip (fr_steps stored) (fr_steps expected))"

definition corrupt_cached_terminal_result :: StoreError where
  "corrupt_cached_terminal_result = InvalidState ''terminal flow checkpoint result does not match its snapshot''"

definition cached_terminal_result ::
  "Wire \<Rightarrow> LeasedRequest \<Rightarrow> FlowRunResult \<Rightarrow> FlowTerminalResult \<Rightarrow> StoreError + FlowProcessing" where
  "cached_terminal_result wire leased expected cached =
     (if ft_outcome cached \<noteq> fr_outcome expected then Err corrupt_cached_terminal_result
      else
      (case decode_server_message_envelope wire (ft_encoded_result cached) of
         Inr (ResultMessage envelope) \<Rightarrow>
           if en_request_id envelope \<noteq> le_request_id (lr_lease leased)
              \<or> en_project_id envelope \<noteq> le_project_id (lr_lease leased)
           then Err corrupt_cached_terminal_result
           else
           (case en_body envelope of
              Success _ (ResultPayload.FlowRun stored) \<Rightarrow>
                and_then (if en_protocol_version envelope = PROTOCOL_VERSION then
                    (if stored = expected
                     then and_then (encode_flow_result wire leased expected) (\<lambda>encoded. Ok (ft_encoded_result cached = encoded))
                     else Ok False)
                  else if en_protocol_version envelope = 4 then Ok (legacy_flow_result_matches stored expected)
                  else Ok False) (\<lambda>matches_snapshot.
                if \<not> matches_snapshot then Err corrupt_cached_terminal_result
                else Ok (TerminalFlow (terminal_state (fr_outcome stored))
                  (envelope\<lparr>en_protocol_version := PROTOCOL_VERSION,
                     en_body := Success (flow_result_truth stored) (ResultPayload.FlowRun stored)\<rparr>)
                  (ft_encoded_result cached)))
            | _ \<Rightarrow> Err corrupt_cached_terminal_result)
       | _ \<Rightarrow> Err corrupt_cached_terminal_result))"

definition unsupported_failure :: "LeasedRequest \<Rightarrow> FailureCode \<Rightarrow> string \<Rightarrow> FlowProcessing" where
  "unsupported_failure leased code message =
     TerminalFlow TerminalState.Failed
       \<lparr>en_protocol_version = PROTOCOL_VERSION, en_request_id = le_request_id (lr_lease leased),
        en_project_id = le_project_id (lr_lease leased),
        en_body = ResultBody.Failure \<lparr>fl_code = code, fl_message = message, fl_recovery = None, fl_approval = None\<rparr>\<rparr> []"

definition internal_failure :: "LeasedRequest \<Rightarrow> string \<Rightarrow> FlowProcessing" where
  "internal_failure leased message = unsupported_failure leased FailureCode.Internal message"

section \<open>Output\<close>

datatype OutputCollectionError = CollectionIo | Overflow | Incomplete

definition append_output :: "string \<Rightarrow> string \<Rightarrow> nat \<Rightarrow> (OutputCollectionError + unit) \<times> string" where
  "append_output out chunk output_limit =
     (let remaining = output_limit - length out in
      (fail_if (length chunk > remaining) Overflow, out @ take (min (length chunk) remaining) chunk))"

definition bounded_effect_summary :: "string \<Rightarrow> string" where
  "bounded_effect_summary summary = take (floor_boundary summary (min (length summary) MAX_EFFECT_SUMMARY_BYTES)) summary"

definition safe_environment_name :: "string \<Rightarrow> bool" where
  "safe_environment_name name \<longleftrightarrow>
     map (\<lambda>c. if is_ascii_lowercase c then char_of (byte c - 32) else c) name
       \<in> set [''LANG'', ''LC_ALL'', ''LC_CTYPE'', ''PATH'', ''TEMP'', ''TMP'', ''TMPDIR'']"

definition safe_search_path :: "Platform \<Rightarrow> string \<Rightarrow> string list option" where
  "safe_search_path platform execution_root =
     map_option (\<lambda>inherited. filter (\<lambda>path. pf_is_dir platform path \<and> \<not> Path_starts_with path execution_root)
       (List.map_filter (pf_canonicalize platform) (filter Path_is_absolute inherited))) (pf_path platform)"

end
