(* ===== verification/Worker_Monad.thy ===== *)
theory Worker_Monad
  imports Store_Operations Worker_Effects
begin

text \<open>
  The worker's program runs beside every other participant.  A program is a function of the world: the
  database, a script of what the environment does, and a log of what the program did.  Every point at
  which the program waits or looks outside takes one \<open>Tick\<close> of the script: first the operations that
  others completed on the store meanwhile, then what the program sees.  A script that ends is a process
  that ends there, so that the runs over all scripts are the runs with every interleaving and every
  crash.
\<close>

section \<open>The environment\<close>

datatype OutputMessage = Data string | ReadFailed

text \<open>What collecting the output of a terminated child meets: the messages until the channel closes or
  the time is up, whether the readers end, and the result of waiting for the child.\<close>

record Collected =
  co_messages :: "OutputMessage list"
  co_drained :: bool
  co_readers_end :: bool
  co_wait :: "OutputCollectionError + unit"

text \<open>What one turn of the loop over a running child sees: \<^verbatim>\<open>try_wait\<close> first, then what is ready first.\<close>

datatype ChildEvent =
    TryWaitFailed
  | Exited bool
  | Received OutputMessage
  | OutputClosed
  | DeadlinePassed
  | HeartbeatDue

record ConnectorCallSuccess =
  cs_summary :: string
  cs_partial_reason :: "string option"
  cs_response_json :: "string option"
  cs_artifacts :: "string list"

text \<open>A connector step is refused before the call (with the text of the refusal and whether a retry may
  help), or the call ends.\<close>

datatype ConnectorAnswer =
    Refused string bool
  | CallSucceeded ConnectorCallSuccess
  | CallFailed string bool

record Tick =
  tk_others :: "StoreOp list"
  tk_now :: u64
  tk_platform :: Platform
  tk_ready :: bool
  tk_launches :: bool
  tk_child :: ChildEvent
  tk_collected :: Collected
  tk_connector :: ConnectorAnswer
  tk_evidence :: "StoreError option"

text \<open>What the daemon is built with: the codecs, the digest, the parser and the text of an engine error.\<close>

record Host =
  ho_codec :: Codec
  ho_sha256 :: "string \<Rightarrow> string"
  ho_wire :: Wire
  ho_toml :: "string \<Rightarrow> string + FlowDefinition"
  ho_display :: "FlowEngineError \<Rightarrow> string"
  ho_lease_duration_ms :: u64

datatype Act =
    Authorized Lease u64 Db
  | Launched EffectAttempt PreparedCommand
  | Invoked EffectAttempt PreparedConnectorStep

record World =
  w_db :: Db
  w_script :: "Tick list"
  w_log :: "Act list"

section \<open>Programs\<close>

text \<open>\<open>Halted\<close> is the end of the script, \<open>Stuck\<close> a loop that makes no progress.\<close>

datatype 'a outcome = Value 'a | Raised StoreError | Halted | Stuck

type_synonym 'a io = "World \<Rightarrow> 'a outcome \<times> World"

definition io_return :: "'a \<Rightarrow> 'a io" where "io_return x w = (Value x, w)"

definition io_raise :: "StoreError \<Rightarrow> 'a io" where "io_raise e w = (Raised e, w)"

definition io_bind :: "'a io \<Rightarrow> ('a \<Rightarrow> 'b io) \<Rightarrow> 'b io" where
  "io_bind m f w = (case m w of
       (Value x, w') \<Rightarrow> f x w'
     | (Raised e, w') \<Rightarrow> (Raised e, w')
     | (Halted, w') \<Rightarrow> (Halted, w')
     | (Stuck, w') \<Rightarrow> (Stuck, w'))"

definition io_attempt :: "'a io \<Rightarrow> (StoreError + 'a) io" where
  "io_attempt m w = (case m w of
       (Value x, w') \<Rightarrow> (Value (Ok x), w')
     | (Raised e, w') \<Rightarrow> (Value (Err e), w')
     | (Halted, w') \<Rightarrow> (Halted, w')
     | (Stuck, w') \<Rightarrow> (Stuck, w'))"

definition io_lift :: "StoreError + 'a \<Rightarrow> 'a io" where
  "io_lift r = (case r of Inl e \<Rightarrow> io_raise e | Inr x \<Rightarrow> io_return x)"

definition run_ops :: "Host \<Rightarrow> StoreOp list \<Rightarrow> Db \<Rightarrow> Db" where
  "run_ops host ops db = fold (\<lambda>op db. snd (apply_store_op (ho_codec host) (ho_sha256 host) op db)) ops db"

definition next_tick :: "Host \<Rightarrow> Tick io" where
  "next_tick host w = (case w_script w of
       [] \<Rightarrow> (Halted, w)
     | t # ts \<Rightarrow> (Value t, w\<lparr>w_db := run_ops host (tk_others t) (w_db w), w_script := ts\<rparr>))"

text \<open>\<^verbatim>\<open>now_ms()\<close> and looks at the file system\<close>

definition clock :: "Host \<Rightarrow> u64 io" where
  "clock host = io_bind (next_tick host) (\<lambda>t. io_return (tk_now t))"

definition current_platform :: "Host \<Rightarrow> Platform io" where
  "current_platform host = io_bind (next_tick host) (\<lambda>t. io_return (tk_platform t))"

text \<open>Calls of the store, with the time they pass.\<close>

definition store_read :: "Host \<Rightarrow> (u64 \<Rightarrow> Db \<Rightarrow> StoreError + 'a) \<Rightarrow> 'a io" where
  "store_read host f = io_bind (next_tick host) (\<lambda>t w. io_lift (f (tk_now t) (w_db w)) w)"

definition store_write :: "Host \<Rightarrow> (u64 \<Rightarrow> Db \<Rightarrow> 'a store_result) \<Rightarrow> 'a io" where
  "store_write host f = io_bind (next_tick host)
     (\<lambda>t w. io_lift (fst (f (tk_now t) (w_db w))) (w\<lparr>w_db := snd (f (tk_now t) (w_db w))\<rparr>))"

definition note_act :: "Act \<Rightarrow> unit io" where
  "note_act act w = (Value (), w\<lparr>w_log := act # w_log w\<rparr>)"

text \<open>\<^verbatim>\<open>loop { ... }\<close>: a turn goes on with a new state (\<open>Inl\<close>) or leaves the loop (\<open>Inr\<close>).  The measure
  bounds the turns by what is left of the script.\<close>

function io_loop :: "('s \<Rightarrow> World \<Rightarrow> nat) \<Rightarrow> ('s \<Rightarrow> ('s + 'a) io) \<Rightarrow> 's \<Rightarrow> 'a io" where
  "io_loop left body s w = (case body s w of
       (Value (Inr x), w') \<Rightarrow> (Value x, w')
     | (Value (Inl s'), w') \<Rightarrow> if left s' w' < left s w then io_loop left body s' w' else (Stuck, w')
     | (Raised e, w') \<Rightarrow> (Raised e, w')
     | (Halted, w') \<Rightarrow> (Halted, w')
     | (Stuck, w') \<Rightarrow> (Stuck, w'))"
  by pat_completeness auto
termination by (relation "measure (\<lambda>(left, body, s, w). left s w)") auto

declare io_loop.simps [simp del]

definition script_left :: "'s \<Rightarrow> World \<Rightarrow> nat" where
  "script_left s w = length (w_script w)"

section \<open>Triples\<close>

text \<open>\<open>triple P m Q E\<close>: from a world in \<open>P\<close>, a value leaves the world in \<open>Q\<close> and an error or an end
  in between leaves it in \<open>E\<close>.\<close>

definition meets :: "'a outcome \<times> World \<Rightarrow> ('a \<Rightarrow> World \<Rightarrow> bool) \<Rightarrow> (World \<Rightarrow> bool) \<Rightarrow> bool" where
  "meets r Q E \<longleftrightarrow> (case r of (Value x, w) \<Rightarrow> Q x w | (_, w) \<Rightarrow> E w)"

definition triple ::
  "(World \<Rightarrow> bool) \<Rightarrow> 'a io \<Rightarrow> ('a \<Rightarrow> World \<Rightarrow> bool) \<Rightarrow> (World \<Rightarrow> bool) \<Rightarrow> bool" where
  "triple P m Q E \<longleftrightarrow> (\<forall>w. P w \<longrightarrow> meets (m w) Q E)"

lemma triple_return: "(\<And>w. P w \<Longrightarrow> Q x w) \<Longrightarrow> triple P (io_return x) Q E"
  by (simp add: triple_def meets_def io_return_def)

lemma triple_raise: "(\<And>w. P w \<Longrightarrow> E w) \<Longrightarrow> triple P (io_raise e) Q E"
  by (simp add: triple_def meets_def io_raise_def)

lemma triple_bind:
  assumes "triple P m R E" and "\<And>x. triple (R x) (f x) Q E"
  shows "triple P (io_bind m f) Q E"
  using assms by (fastforce simp: triple_def meets_def io_bind_def split: prod.splits outcome.splits)

lemma triple_attempt:
  assumes "triple P m (\<lambda>x. Q (Ok x)) E" and "\<And>e w. E w \<Longrightarrow> Q (Err e) w"
  shows "triple P (io_attempt m) Q E"
  using assms by (fastforce simp: triple_def meets_def io_attempt_def split: prod.splits outcome.splits)

lemma triple_lift:
  assumes "\<And>x w. r = Ok x \<Longrightarrow> P w \<Longrightarrow> Q x w" and "\<And>w. P w \<Longrightarrow> E w"
  shows "triple P (io_lift r) Q E"
  using assms by (cases r) (simp_all add: io_lift_def triple_return triple_raise)

lemma triple_conseq:
  assumes "triple P m Q E" and "\<And>w. P' w \<Longrightarrow> P w" and "\<And>x w. Q x w \<Longrightarrow> Q' x w" and "\<And>w. E w \<Longrightarrow> E' w"
  shows "triple P' m Q' E'"
  using assms by (fastforce simp: triple_def meets_def split: prod.splits outcome.splits)

lemma triple_loop:
  assumes turn: "\<And>s. triple (I s) (body s) (\<lambda>r w. case r of Inl s' \<Rightarrow> I s' w | Inr x \<Rightarrow> Q x w) E"
    and always: "\<And>s w. I s w \<Longrightarrow> E w"
  shows "triple (I s) (io_loop left body s) Q E"
proof -
  have "I s w \<Longrightarrow> meets (io_loop left body s w) Q E" for w
  proof (induction "left s w" arbitrary: s w rule: less_induct)
    case less
    obtain r w' where r: "body s w = (r, w')" by (cases "body s w")
    have step: "meets (r, w') (\<lambda>r w. case r of Inl s' \<Rightarrow> I s' w | Inr x \<Rightarrow> Q x w) E"
      using turn [of s] less.prems r by (auto simp: triple_def)
    show ?case
    proof (cases "\<exists>s'. r = Value (Inl s')")
      case True
      then obtain s' where s': "r = Value (Inl s')" ..
      with step have "I s' w'" by (simp add: meets_def)
      with less.hyps [of s' w'] always s' r show ?thesis
        by (simp add: io_loop.simps [of left body s w] meets_def)
    next
      case False
      with step r show ?thesis
        by (auto simp: io_loop.simps [of left body s w] meets_def split: outcome.splits sum.splits)
    qed
  qed
  then show ?thesis by (simp add: triple_def)
qed

end
