(* ===== verification/Worker_Process.thy ===== *)
theory Worker_Process
  imports Worker_Monad
begin

text \<open>
  How a worker runs a leased flow (\<^verbatim>\<open>process_flow\<close> of \<^verbatim>\<open>crates/pam_daemon/src/flow.rs\<close> and
  \<^verbatim>\<open>process_leased\<close> of \<^verbatim>\<open>lifecycle.rs\<close>): it loads the checkpoint, asks the engine for decisions, saves every
  update before it acts on it, checks the authorization twice around the start of an effect, executes
  the effect under the lease, and hands the result back.
\<close>

definition flow_engine_error :: "Host \<Rightarrow> FlowEngineError \<Rightarrow> StoreError" where
  "flow_engine_error host error = InvalidState (''flow engine rejected durable state: '' @ ho_display host error)"

definition engine_ok :: "Host \<Rightarrow> FlowEngineError + 'a \<Rightarrow> 'a io" where
  "engine_ok host r = io_lift (map_err (flow_engine_error host) r)"

text \<open>A call of the engine on the worker's run.\<close>

definition engine_call :: "Host \<Rightarrow> engine_result \<Rightarrow> (EngineUpdate \<times> FlowRun) io" where
  "engine_call host result = io_bind (engine_ok host (fst result)) (\<lambda>update. io_return (update, snd result))"

section \<open>Keeping the lease\<close>

definition request_is_cancelled :: "Host \<Rightarrow> LeasedRequest \<Rightarrow> bool io" where
  "request_is_cancelled host leased =
     io_bind (store_read host (\<lambda>_. snapshot_request (le_request_id (lr_lease leased)) None)) (\<lambda>snapshot.
     io_return (rs_state snapshot = RequestState.CancellationRequested))"

datatype LeaseWait = Ready | Cancelled | StaleLease

definition renew_and_poll_cancellation :: "Host \<Rightarrow> LeasedRequest \<Rightarrow> (LeaseWait \<times> LeasedRequest) io" where
  "renew_and_poll_cancellation host leased =
     io_bind (io_attempt (store_write host (\<lambda>now. renew (lr_lease leased) now (ho_lease_duration_ms host)))) (\<lambda>renewed.
     (case renewed of
        Inl (StoreError.StaleLease _) \<Rightarrow> io_return (LeaseWait.StaleLease, leased)
      | Inl error \<Rightarrow> io_raise error
      | Inr lease \<Rightarrow>
          let leased = leased\<lparr>lr_lease := lease\<rparr> in
          io_bind (request_is_cancelled host leased) (\<lambda>cancelled.
          io_return (if cancelled then LeaseWait.Cancelled else Ready, leased))))"

datatype 'a WorkspaceFingerprintLease = Completed "FlowSubmissionError + 'a" | Cancelled | StaleLease

text \<open>\<open>begin_work\<close> is what the awaited work does when it is first polled, \<open>finished\<close> what it gives when it is ready.\<close>

definition lease_turn ::
  "Host \<Rightarrow> (Tick \<Rightarrow> FlowSubmissionError + 'a) \<Rightarrow> LeasedRequest
     \<Rightarrow> (LeasedRequest + 'a WorkspaceFingerprintLease \<times> LeasedRequest) io" where
  "lease_turn host finished leased =
     io_bind (next_tick host) (\<lambda>t.
     if tk_ready t then io_return (Inr (Completed (finished t), leased))
     else
     io_bind (renew_and_poll_cancellation host leased) (\<lambda>(wait, leased).
     io_return (case wait of
         Ready \<Rightarrow> Inl leased
       | LeaseWait.Cancelled \<Rightarrow> Inr (WorkspaceFingerprintLease.Cancelled, leased)
       | LeaseWait.StaleLease \<Rightarrow> Inr (WorkspaceFingerprintLease.StaleLease, leased))))"

definition await_workspace_fingerprint_with_lease ::
  "Host \<Rightarrow> unit io \<Rightarrow> (Tick \<Rightarrow> FlowSubmissionError + 'a) \<Rightarrow> LeasedRequest
     \<Rightarrow> ('a WorkspaceFingerprintLease \<times> LeasedRequest) io" where
  "await_workspace_fingerprint_with_lease host begin_work finished leased =
     io_bind (renew_and_poll_cancellation host leased) (\<lambda>(wait, leased).
     (case wait of
        LeaseWait.Cancelled \<Rightarrow> io_return (WorkspaceFingerprintLease.Cancelled, leased)
      | LeaseWait.StaleLease \<Rightarrow> io_return (WorkspaceFingerprintLease.StaleLease, leased)
      | Ready \<Rightarrow> io_bind begin_work (\<lambda>_. io_loop script_left (lease_turn host finished) leased)))"

definition retry_turn :: "Host \<Rightarrow> LeasedRequest \<Rightarrow> (LeasedRequest + LeaseWait \<times> LeasedRequest) io" where
  "retry_turn host leased =
     io_bind (next_tick host) (\<lambda>t.
     if tk_ready t then io_return (Inr (Ready, leased))
     else
     io_bind (renew_and_poll_cancellation host leased) (\<lambda>(wait, leased).
     io_return (if wait = Ready then Inl leased else Inr (wait, leased))))"

definition wait_for_retry :: "Host \<Rightarrow> LeasedRequest \<Rightarrow> (LeaseWait \<times> LeasedRequest) io" where
  "wait_for_retry host leased = io_loop script_left (retry_turn host) leased"

section \<open>Commands\<close>

text \<open>The fingerprint of the workspace, with the directory handle it was taken through (its canonical root).\<close>

definition fingerprint_workspace :: "Platform \<Rightarrow> string \<Rightarrow> FlowSubmissionError + WorkspaceFingerprint \<times> string" where
  "fingerprint_workspace platform execution_root =
     and_then (ok_or (pf_canonicalize platform execution_root) WorkspaceUnavailable) (\<lambda>canonical_root.
     and_then (ok_or (pf_fingerprint platform execution_root) WorkspaceUnavailable) (\<lambda>fingerprint.
     if pf_identity_holds platform canonical_root then Ok (fingerprint, canonical_root) else Err WorkspaceUnavailable))"

fun drain_output :: "string \<Rightarrow> OutputMessage list \<Rightarrow> (OutputCollectionError + unit) \<times> string" where
  "drain_output out [] = (Ok (), out)"
| "drain_output out (Data chunk # messages) =
     (case append_output out chunk MAX_COMMAND_OUTPUT_BYTES of
        (Inl e, out') \<Rightarrow> (Inl e, out')
      | (Inr _, out') \<Rightarrow> drain_output out' messages)"
| "drain_output out (ReadFailed # messages) = (Err Incomplete, out)"

definition terminate_and_collect :: "Collected \<Rightarrow> string \<Rightarrow> (OutputCollectionError + unit) \<times> string" where
  "terminate_and_collect collected out =
     (case drain_output out (co_messages collected) of (drained, out') \<Rightarrow>
        (and_then drained (\<lambda>_.
         and_then (if co_drained collected then Ok () else Err Incomplete) (\<lambda>_.
         and_then (if co_readers_end collected then Ok () else Err Incomplete) (\<lambda>_.
         co_wait collected))), out'))"

datatype CommandExecution =
    Completed bool string
  | LaunchFailed
  | TimedOut string
  | OutputLimit
  | CaptureFailed
  | WorkspaceChanged
  | Cancelled
  | StaleLease

text \<open>What \<^verbatim>\<open>Completed\<close> and \<^verbatim>\<open>TimedOut\<close> become when the output could not be collected.\<close>

definition collected_execution ::
  "(OutputCollectionError + unit) \<times> string \<Rightarrow> (string \<Rightarrow> CommandExecution) \<Rightarrow> StoreError + CommandExecution" where
  "collected_execution collection execution =
     (case fst collection of
        Inr _ \<Rightarrow> Ok (execution (snd collection))
      | Inl Overflow \<Rightarrow> Ok OutputLimit
      | Inl Incomplete \<Rightarrow> Ok CaptureFailed
      | Inl CollectionIo \<Rightarrow> Err Io)"

definition child_turn ::
  "Host \<Rightarrow> string \<times> LeasedRequest \<Rightarrow> (string \<times> LeasedRequest + CommandExecution \<times> LeasedRequest) io" where
  "child_turn host state =
     (case state of (out, leased) \<Rightarrow>
      io_bind (next_tick host) (\<lambda>t.
      (case tk_child t of
         TryWaitFailed \<Rightarrow> io_raise Io
       | Exited success \<Rightarrow>
           io_bind (io_lift (collected_execution (terminate_and_collect (tk_collected t) out)
             (CommandExecution.Completed success))) (\<lambda>execution. io_return (Inr (execution, leased)))
       | Received (Data chunk) \<Rightarrow>
           (case append_output out chunk MAX_COMMAND_OUTPUT_BYTES of
              (Inl _, _) \<Rightarrow> io_return (Inr (OutputLimit, leased))
            | (Inr _, out') \<Rightarrow> io_return (Inl (out', leased)))
       | Received ReadFailed \<Rightarrow> io_return (Inr (CaptureFailed, leased))
       | OutputClosed \<Rightarrow> io_return (Inl (out, leased))
       | DeadlinePassed \<Rightarrow>
           io_bind (io_lift (collected_execution (terminate_and_collect (tk_collected t) out) TimedOut)) (\<lambda>execution.
           io_return (Inr (execution, leased)))
       | HeartbeatDue \<Rightarrow>
           io_bind (renew_and_poll_cancellation host leased) (\<lambda>(wait, leased).
           io_return (case wait of
               Ready \<Rightarrow> Inl (out, leased)
             | LeaseWait.Cancelled \<Rightarrow> Inr (CommandExecution.Cancelled, leased)
             | LeaseWait.StaleLease \<Rightarrow> Inr (CommandExecution.StaleLease, leased))))))"

definition execute_command_raw ::
  "Host \<Rightarrow> EffectAttempt \<Rightarrow> PreparedCommand \<Rightarrow> LeasedRequest \<Rightarrow> (CommandExecution \<times> LeasedRequest) io" where
  "execute_command_raw host effect command leased =
     io_bind (next_tick host) (\<lambda>t.
     if \<not> tk_launches t then io_return (LaunchFailed, leased)
     else
     io_bind (note_act (Launched effect command)) (\<lambda>_.
     io_loop script_left (child_turn host) ([], leased)))"

text \<open>A command that completed counts only when the workspace is still the accepted one.\<close>

definition recheck_workspace ::
  "Host \<Rightarrow> PreparedCommand \<Rightarrow> string \<Rightarrow> WorkspaceFingerprint \<Rightarrow> CommandExecution \<Rightarrow> LeasedRequest
     \<Rightarrow> (CommandExecution \<times> LeasedRequest) io" where
  "recheck_workspace host command authority accepted_workspace execution leased =
     io_bind (current_platform host) (\<lambda>here.
     if \<not> pf_identity_holds here authority then io_return (CommandExecution.WorkspaceChanged, leased)
     else
     io_bind (await_workspace_fingerprint_with_lease host (io_return ())
       (\<lambda>t. fingerprint_workspace (tk_platform t) (pr_execution_root command)) leased) (\<lambda>(awaited, leased).
     (case awaited of
        WorkspaceFingerprintLease.Cancelled \<Rightarrow> io_return (CommandExecution.Cancelled, leased)
      | WorkspaceFingerprintLease.StaleLease \<Rightarrow> io_return (CommandExecution.StaleLease, leased)
      | WorkspaceFingerprintLease.Completed (Inl _) \<Rightarrow> io_return (CommandExecution.WorkspaceChanged, leased)
      | WorkspaceFingerprintLease.Completed (Inr (fingerprint, _)) \<Rightarrow>
          if fingerprint \<noteq> accepted_workspace then io_return (CommandExecution.WorkspaceChanged, leased)
          else
          io_bind (current_platform host) (\<lambda>here.
          io_return (if pf_identity_holds here authority then execution else CommandExecution.WorkspaceChanged, leased)))))"

definition execute_command_in_workspace ::
  "Host \<Rightarrow> EffectAttempt \<Rightarrow> PreparedCommand \<Rightarrow> string \<Rightarrow> WorkspaceFingerprint \<Rightarrow> LeasedRequest
     \<Rightarrow> (CommandExecution \<times> LeasedRequest) io" where
  "execute_command_in_workspace host effect command authority accepted_workspace leased =
     io_bind (current_platform host) (\<lambda>here.
     if pr_working_directory command \<noteq> authority \<or> \<not> pf_identity_holds here authority
     then io_return (CommandExecution.WorkspaceChanged, leased)
     else
     io_bind (execute_command_raw host effect command leased) (\<lambda>(execution, leased).
     (case execution of
        CommandExecution.Completed _ _ \<Rightarrow> recheck_workspace host command authority accepted_workspace execution leased
      | _ \<Rightarrow> io_return (execution, leased))))"

section \<open>Evidence\<close>

definition COMMAND_OUTPUT_PREFIX :: string where "COMMAND_OUTPUT_PREFIX = ''evidence://flow-output/''"
definition CONNECTOR_OUTPUT_PREFIX :: string where "CONNECTOR_OUTPUT_PREFIX = ''evidence://connector-output/''"

text \<open>\<^verbatim>\<open>put_evidence\<close> writes content-addressed files; here it succeeds or fails as the environment says.\<close>

definition put_evidence :: "Host \<Rightarrow> EvidenceHandle \<Rightarrow> string \<Rightarrow> unit io" where
  "put_evidence host handle bytes =
     io_bind (next_tick host) (\<lambda>t. case tk_evidence t of None \<Rightarrow> io_return () | Some error \<Rightarrow> io_raise error)"

definition retain_bytes :: "Host \<Rightarrow> string \<Rightarrow> string \<Rightarrow> string \<Rightarrow> string io" where
  "retain_bytes host prefix message bytes =
     (let digest = from_sha256 (ho_sha256 host bytes) in
      io_bind (io_lift (map_err (\<lambda>_. InvalidState message) (EvidenceHandle_parse (prefix @ sha256_hex digest)))) (\<lambda>handle.
      io_bind (put_evidence host handle bytes) (\<lambda>_.
      engine_ok host (EngineEvidenceHandle_parse handle))))"

definition retain_output :: "Host \<Rightarrow> string \<Rightarrow> string io" where
  "retain_output host bytes = retain_bytes host COMMAND_OUTPUT_PREFIX ''flow evidence handle is invalid'' bytes"

definition retain_command_result :: "Host \<Rightarrow> bool \<Rightarrow> string \<Rightarrow> bool \<Rightarrow> EffectResult io" where
  "retain_command_result host success out retryable =
     io_bind (retain_output host out) (\<lambda>evidence.
     engine_ok host (if success then EffectResult_succeeded ''command completed successfully'' [evidence]
       else EffectResult_failed ''command exited unsuccessfully'' retryable [evidence]))"

definition retain_failed_command_result :: "Host \<Rightarrow> string \<Rightarrow> bool \<Rightarrow> string \<Rightarrow> EffectResult io" where
  "retain_failed_command_result host summary retryable out =
     io_bind (retain_output host out) (\<lambda>evidence. engine_ok host (EffectResult_failed summary retryable [evidence]))"

definition retain_connector_evidence :: "Host \<Rightarrow> string \<Rightarrow> string io" where
  "retain_connector_evidence host bytes =
     retain_bytes host CONNECTOR_OUTPUT_PREFIX ''connector evidence handle is invalid'' bytes"

section \<open>Connector calls\<close>

datatype ConnectorStepOutcome = Result EffectResult | Cancelled | StaleLease

definition failed_connector_outcome :: "Host \<Rightarrow> string \<Rightarrow> bool \<Rightarrow> ConnectorStepOutcome io" where
  "failed_connector_outcome host summary retryable =
     io_bind (engine_ok host (EffectResult_failed (bounded_effect_summary summary) retryable [])) (\<lambda>result.
     io_return (Result result))"

fun retain_payloads :: "Host \<Rightarrow> string list \<Rightarrow> string list \<Rightarrow> string list io" where
  "retain_payloads host evidence [] = io_return evidence"
| "retain_payloads host evidence (payload # payloads) =
     io_bind (retain_connector_evidence host payload) (\<lambda>handle.
     retain_payloads host (if handle \<in> set evidence then evidence else evidence @ [handle]) payloads)"

definition connector_result :: "Host \<Rightarrow> ConnectorCallSuccess \<Rightarrow> ConnectorStepOutcome io" where
  "connector_result host success =
     io_bind (retain_payloads host []
       ((case cs_response_json success of None \<Rightarrow> [] | Some json \<Rightarrow> [json]) @ cs_artifacts success)) (\<lambda>evidence.
     let summary = (case cs_partial_reason success of
           Some reason \<Rightarrow> cs_summary success @ ''; partial: '' @ reason
         | None \<Rightarrow> cs_summary success) in
     io_bind (engine_ok host (EffectResult_succeeded (bounded_effect_summary summary) (take MAX_EVIDENCE_HANDLES evidence))) (\<lambda>result.
     io_return (Result result)))"

definition execute_connector_step ::
  "Host \<Rightarrow> EffectAttempt \<Rightarrow> PreparedConnectorStep \<Rightarrow> LeasedRequest \<Rightarrow> (ConnectorStepOutcome \<times> LeasedRequest) io" where
  "execute_connector_step host effect step leased =
     io_bind (next_tick host) (\<lambda>t.
     (case tk_connector t of
        Refused message retryable \<Rightarrow>
          io_bind (failed_connector_outcome host message retryable) (\<lambda>result. io_return (result, leased))
      | _ \<Rightarrow>
          io_bind (await_workspace_fingerprint_with_lease host (note_act (Invoked effect step))
            (\<lambda>t. Ok (tk_connector t)) leased) (\<lambda>(awaited, leased).
          (case awaited of
             WorkspaceFingerprintLease.Completed (Inr (CallSucceeded success)) \<Rightarrow>
               io_bind (connector_result host success) (\<lambda>result. io_return (result, leased))
           | WorkspaceFingerprintLease.Completed (Inr (CallFailed message retryable)) \<Rightarrow>
               io_bind (failed_connector_outcome host message retryable) (\<lambda>result. io_return (result, leased))
           | WorkspaceFingerprintLease.Completed _ \<Rightarrow>
               io_bind (failed_connector_outcome host ''connector invocation ended without a result'' False) (\<lambda>result.
               io_return (result, leased))
           | WorkspaceFingerprintLease.Cancelled \<Rightarrow> io_return (ConnectorStepOutcome.Cancelled, leased)
           | WorkspaceFingerprintLease.StaleLease \<Rightarrow> io_return (ConnectorStepOutcome.StaleLease, leased)))))"

section \<open>Saving updates\<close>

type_synonym Persisted = "RunDecision \<times> u64 \<times> string option"

definition save_checkpoint ::
  "Host \<Rightarrow> LeasedRequest \<Rightarrow> u64 \<Rightarrow> FlowSnapshot \<Rightarrow> RunTransition option \<Rightarrow> FlowTerminalResult option
     \<Rightarrow> FlowCheckpointSaveOutcome io" where
  "save_checkpoint host leased revision snapshot transition terminal =
     store_write host (\<lambda>now. save_flow_checkpoint (ho_codec host) (ho_sha256 host)
       \<lparr>sv_lease = lr_lease leased, sv_expected_revision = revision, sv_snapshot = snapshot,
        sv_transition = transition, sv_terminal_result = terminal, sv_updated_at_ms = now\<rparr>)"

definition update_terminal_result ::
  "Host \<Rightarrow> LeasedRequest \<Rightarrow> RunDecision \<Rightarrow> StoreError + FlowTerminalResult option" where
  "update_terminal_result host leased decision =
     (case decision of
        Terminal result \<Rightarrow>
          and_then (encode_flow_result (ho_wire host) leased result) (\<lambda>encoded.
          Ok (Some \<lparr>ft_outcome = fr_outcome result, ft_encoded_result = encoded\<rparr>))
      | _ \<Rightarrow> Ok None)"

definition persist_update :: "Host \<Rightarrow> LeasedRequest \<Rightarrow> u64 \<Rightarrow> EngineUpdate \<Rightarrow> Persisted io" where
  "persist_update host leased revision update =
     io_bind (io_lift (update_terminal_result host leased (up_decision update))) (\<lambda>terminal.
     io_bind (save_checkpoint host leased revision (up_snapshot update) (up_transition update) terminal) (\<lambda>saved.
     io_return (up_decision update, fc_checkpoint_revision (so_checkpoint saved),
       map_option ft_encoded_result terminal)))"

definition terminal_non_cancelled :: "EngineUpdate \<Rightarrow> bool" where
  "terminal_non_cancelled update \<longleftrightarrow>
     (case up_decision update of Terminal result \<Rightarrow> fr_outcome result \<noteq> RunOutcome.Cancelled | _ \<Rightarrow> False)"

definition effect_start :: "EngineUpdate \<Rightarrow> bool" where
  "effect_start update \<longleftrightarrow>
     (case up_transition update of
        Some transition \<Rightarrow> (case tr_kind transition of EffectStarted _ _ _ \<Rightarrow> True | _ \<Rightarrow> False)
      | None \<Rightarrow> False)"

definition cancellation_conflict :: "EngineUpdate \<Rightarrow> StoreError \<Rightarrow> bool" where
  "cancellation_conflict update error \<longleftrightarrow>
     (case error of
        FlowTerminalOutcomeConflict _ \<Rightarrow> terminal_non_cancelled update
      | FlowEffectStartConflict _ \<Rightarrow> effect_start update
      | _ \<Rightarrow> False)"

text \<open>Cancellation won the race: the last durable snapshot is resumed and cancelled instead.\<close>

definition resume_cancelled ::
  "Host \<Rightarrow> LeasedRequest \<Rightarrow> u64 \<Rightarrow> FlowRun \<Rightarrow> FlowSnapshot \<Rightarrow> StoreError \<Rightarrow> (Persisted \<times> FlowRun) io" where
  "resume_cancelled host leased revision run previous_snapshot error =
     io_bind (request_is_cancelled host leased) (\<lambda>cancelled.
     if \<not> cancelled then io_raise error
     else
     io_bind (engine_ok host (FlowRun_resume (ho_sha256 host) (sn_run_id previous_snapshot) (run_definition run)
       previous_snapshot)) (\<lambda>resumed.
     io_bind (engine_call host (cancel resumed)) (\<lambda>(cancelled_update, run).
     io_bind (persist_update host leased revision cancelled_update) (\<lambda>persisted.
     io_return (persisted, run)))))"

definition persist_update_reconciling_cancellation ::
  "Host \<Rightarrow> LeasedRequest \<Rightarrow> u64 \<Rightarrow> FlowRun \<Rightarrow> FlowSnapshot \<Rightarrow> EngineUpdate \<Rightarrow> (Persisted \<times> FlowRun) io" where
  "persist_update_reconciling_cancellation host leased revision run previous_snapshot update =
     io_bind (io_attempt (persist_update host leased revision update)) (\<lambda>saved.
     (case saved of
        Inr persisted \<Rightarrow> io_return (persisted, run)
      | Inl error \<Rightarrow>
          if cancellation_conflict update error then resume_cancelled host leased revision run previous_snapshot error
          else io_raise error))"

datatype EffectBoundaryAuthorization = Allowed | Denied | Cancelled

text \<open>The entry of the log is the moment at which the store said yes.\<close>

definition check_authorization :: "Host \<Rightarrow> LeasedRequest \<Rightarrow> FlowEffectAuthorization io" where
  "check_authorization host leased =
     io_bind (store_read host (\<lambda>now db.
       and_then (validate_flow_effect_authorization (ho_sha256 host) (lr_lease leased) now db) (\<lambda>answer.
       Ok (answer, now, db)))) (\<lambda>(answer, now, db).
     io_bind (if answer = FlowEffectAuthorization.Allowed
       then note_act (Authorized (lr_lease leased) now db) else io_return ()) (\<lambda>_.
     io_return answer))"

definition refused_authorization :: "Host \<Rightarrow> LeasedRequest \<Rightarrow> StoreError \<Rightarrow> EffectBoundaryAuthorization io" where
  "refused_authorization host leased error =
     (case error of
        StoreError.StaleLease _ \<Rightarrow>
          io_bind (request_is_cancelled host leased) (\<lambda>cancelled.
          if cancelled then io_return EffectBoundaryAuthorization.Cancelled else io_raise error)
      | _ \<Rightarrow> io_raise error)"

definition effect_boundary_authorization :: "Host \<Rightarrow> LeasedRequest \<Rightarrow> EffectBoundaryAuthorization io" where
  "effect_boundary_authorization host leased =
     io_bind (io_attempt (check_authorization host leased)) (\<lambda>checked.
     (case checked of
        Inr FlowEffectAuthorization.Allowed \<Rightarrow> io_return Allowed
      | Inr FlowEffectAuthorization.Denied \<Rightarrow> io_return Denied
      | Inl error \<Rightarrow> refused_authorization host leased error))"

definition unknown_reconciliation_update ::
  "Host \<Rightarrow> FlowRun \<Rightarrow> EffectAttempt \<Rightarrow> string list \<Rightarrow> string \<Rightarrow> (EngineUpdate \<times> FlowRun) io" where
  "unknown_reconciliation_update host run effect evidence summary =
     io_bind (engine_ok host (EffectReport_new summary evidence)) (\<lambda>report.
     io_bind (clock host) (\<lambda>now.
     engine_call host (record_reconciliation effect (Unknown report) now run)))"

section \<open>One effect\<close>

text \<open>The variables of the loop of \<^verbatim>\<open>process_flow\<close>.\<close>

record Progress =
  pg_leased :: LeasedRequest
  pg_run :: FlowRun
  pg_revision :: u64
  pg_pending :: "(RunDecision \<times> string option) option"

definition cancel_run :: "Host \<Rightarrow> Progress \<Rightarrow> Progress io" where
  "cancel_run host pg =
     io_bind (engine_call host (cancel (pg_run pg))) (\<lambda>(update, run).
     io_bind (persist_update host (pg_leased pg) (pg_revision pg) update) (\<lambda>(decision, next_revision, terminal).
     io_return (pg\<lparr>pg_run := run, pg_revision := next_revision, pg_pending := Some (decision, terminal)\<rparr>)))"

definition settle_update :: "Host \<Rightarrow> Progress \<Rightarrow> EngineUpdate \<times> FlowRun \<Rightarrow> Progress io" where
  "settle_update host pg updated =
     io_bind (persist_update_reconciling_cancellation host (pg_leased pg) (pg_revision pg) (snd updated)
       (run_snapshot (pg_run pg)) (fst updated)) (\<lambda>((decision, next_revision, terminal), run).
     io_return (pg\<lparr>pg_run := run, pg_revision := next_revision, pg_pending := Some (decision, terminal)\<rparr>))"

definition next_turn :: "Progress io \<Rightarrow> (Progress + FlowProcessing) io" where
  "next_turn m = io_bind m (\<lambda>pg. io_return (Inl pg))"

definition deny_effect :: "Host \<Rightarrow> Progress \<Rightarrow> EffectAttempt \<Rightarrow> Progress io" where
  "deny_effect host pg effect =
     io_bind (engine_call host (deny_effect_authorization effect (pg_run pg))) (settle_update host pg)"

definition record_result :: "Host \<Rightarrow> Progress \<Rightarrow> EffectAttempt \<Rightarrow> EffectResult \<Rightarrow> (Progress + FlowProcessing) io" where
  "record_result host pg effect result =
     io_bind (clock host) (\<lambda>now.
     next_turn (io_bind (engine_call host (record_effect_result effect result now (pg_run pg))) (settle_update host pg)))"

definition fail_effect :: "Host \<Rightarrow> Progress \<Rightarrow> EffectAttempt \<Rightarrow> string \<Rightarrow> (Progress + FlowProcessing) io" where
  "fail_effect host pg effect summary =
     io_bind (engine_ok host (EffectResult_failed summary False [])) (record_result host pg effect)"

definition reconcile_unknown ::
  "Host \<Rightarrow> Progress \<Rightarrow> EffectAttempt \<Rightarrow> string list \<Rightarrow> string \<Rightarrow> (Progress + FlowProcessing) io" where
  "reconcile_unknown host pg effect evidence summary =
     next_turn (io_bind (unknown_reconciliation_update host (pg_run pg) effect evidence summary) (settle_update host pg))"

definition command_outcome ::
  "Host \<Rightarrow> Progress \<Rightarrow> EffectAttempt \<Rightarrow> CommandExecution \<Rightarrow> (Progress + FlowProcessing) io" where
  "command_outcome host pg effect execution =
     (case execution of
        CommandExecution.Completed success out \<Rightarrow>
          io_bind (retain_command_result host success out (ea_effect effect = ReadOnly)) (record_result host pg effect)
      | LaunchFailed \<Rightarrow> fail_effect host pg effect ''command could not be started''
      | CommandExecution.WorkspaceChanged \<Rightarrow> fail_effect host pg effect ''workspace changed while the command was running''
      | CommandExecution.Cancelled \<Rightarrow> next_turn (cancel_run host pg)
      | CommandExecution.StaleLease \<Rightarrow> io_return (Inr StaleLeaseFlow)
      | TimedOut out \<Rightarrow>
          if ea_effect effect = Stateful then
            io_bind (retain_output host out) (\<lambda>evidence.
            reconcile_unknown host pg effect [evidence] ''stateful command outcome is unknown after timeout'')
          else io_bind (retain_failed_command_result host ''command timed out'' True out) (record_result host pg effect)
      | OutputLimit \<Rightarrow>
          if ea_effect effect = Stateful
          then reconcile_unknown host pg effect [] ''stateful command outcome is unknown after output capture failed''
          else fail_effect host pg effect ''command output exceeded the limit''
      | CaptureFailed \<Rightarrow>
          if ea_effect effect = Stateful
          then reconcile_unknown host pg effect [] ''stateful command outcome is unknown after output capture failed''
          else fail_effect host pg effect ''command output could not be captured exactly'')"

definition connector_outcome ::
  "Host \<Rightarrow> Progress \<Rightarrow> EffectAttempt \<Rightarrow> ConnectorStepOutcome \<Rightarrow> (Progress + FlowProcessing) io" where
  "connector_outcome host pg effect outcome =
     (case outcome of
        Result result \<Rightarrow> record_result host pg effect result
      | ConnectorStepOutcome.Cancelled \<Rightarrow> next_turn (cancel_run host pg)
      | ConnectorStepOutcome.StaleLease \<Rightarrow> io_return (Inr StaleLeaseFlow))"

definition execute_prepared ::
  "Host \<Rightarrow> WorkspaceFingerprint \<Rightarrow> Progress \<Rightarrow> EffectAttempt \<Rightarrow> string option \<Rightarrow> CommandRejection + PreparedEffect
     \<Rightarrow> (Progress + FlowProcessing) io" where
  "execute_prepared host accepted_workspace pg effect authority prepared =
     (case prepared of
        Inr (PreparedConnector step) \<Rightarrow>
          io_bind (execute_connector_step host effect step (pg_leased pg)) (\<lambda>(outcome, leased).
          connector_outcome host (pg\<lparr>pg_leased := leased\<rparr>) effect outcome)
      | Inr (PreparedCommand command) \<Rightarrow>
          io_bind (io_lift (ok_or authority (InvalidState ''flow execution omitted its pinned workspace authority''))) (\<lambda>root.
          io_bind (execute_command_in_workspace host effect command root accepted_workspace (pg_leased pg)) (\<lambda>(execution, leased).
          command_outcome host (pg\<lparr>pg_leased := leased\<rparr>) effect execution))
      | Inl StatefulConnector \<Rightarrow> fail_effect host pg effect ''stateful connector steps are not yet executable''
      | Inl _ \<Rightarrow> fail_effect host pg effect ''command action is unsupported by this daemon'')"

text \<open>The second look at the authorization, after the started effect was saved and before it happens.\<close>

definition execute_started ::
  "Host \<Rightarrow> WorkspaceFingerprint \<Rightarrow> Progress \<Rightarrow> EffectAttempt \<Rightarrow> string option \<Rightarrow> CommandRejection + PreparedEffect
     \<Rightarrow> (Progress + FlowProcessing) io" where
  "execute_started host accepted_workspace pg effect authority prepared =
     (if is_err prepared then execute_prepared host accepted_workspace pg effect authority prepared
      else
      io_bind (effect_boundary_authorization host (pg_leased pg)) (\<lambda>authorization.
      (case authorization of
         Allowed \<Rightarrow> execute_prepared host accepted_workspace pg effect authority prepared
       | Denied \<Rightarrow> next_turn (deny_effect host pg effect)
       | EffectBoundaryAuthorization.Cancelled \<Rightarrow> next_turn (cancel_run host pg))))"

definition pin_workspace ::
  "Host \<Rightarrow> WorkspaceFingerprint \<Rightarrow> string \<Rightarrow> Progress \<Rightarrow> EffectAttempt \<Rightarrow> CommandRejection + PreparedEffect
     \<Rightarrow> (Progress + FlowProcessing) io" where
  "pin_workspace host accepted_workspace execution_root pg effect prepared =
     (case prepared of
        Inr (PreparedCommand command) \<Rightarrow>
          io_bind (await_workspace_fingerprint_with_lease host (io_return ())
            (\<lambda>t. fingerprint_workspace (tk_platform t) execution_root) (pg_leased pg)) (\<lambda>(awaited, leased).
          let pg = pg\<lparr>pg_leased := leased\<rparr> in
          (case awaited of
             WorkspaceFingerprintLease.Completed (Inr (fingerprint, root)) \<Rightarrow>
               if fingerprint = accepted_workspace
               then execute_started host accepted_workspace pg effect (Some root) prepared
               else execute_started host accepted_workspace pg effect None (Err CommandRejection.WorkspaceChanged)
           | WorkspaceFingerprintLease.Completed (Inl _) \<Rightarrow>
               execute_started host accepted_workspace pg effect None (Err CommandRejection.WorkspaceChanged)
           | WorkspaceFingerprintLease.Cancelled \<Rightarrow> next_turn (cancel_run host pg)
           | WorkspaceFingerprintLease.StaleLease \<Rightarrow> io_return (Inr StaleLeaseFlow)))
      | _ \<Rightarrow> execute_started host accepted_workspace pg effect None prepared)"

definition execute_saved ::
  "Host \<Rightarrow> WorkspaceFingerprint \<Rightarrow> string \<Rightarrow> EffectAttempt \<Rightarrow> CommandRejection + PreparedEffect \<Rightarrow> Progress
     \<Rightarrow> (Progress + FlowProcessing) io" where
  "execute_saved host accepted_workspace execution_root effect prepared pg =
     (case pg_pending pg of
        Some (Execute _ _, _) \<Rightarrow>
          pin_workspace host accepted_workspace execution_root (pg\<lparr>pg_pending := None\<rparr>) effect prepared
      | Some (Terminal _, Some _) \<Rightarrow> io_return (Inl pg)
      | _ \<Rightarrow> io_raise (InvalidState ''flow effect preparation did not yield execution''))"

definition start_effect ::
  "Host \<Rightarrow> WorkspaceFingerprint \<Rightarrow> string \<Rightarrow> Progress \<Rightarrow> EffectAttempt \<Rightarrow> (Progress + FlowProcessing) io" where
  "start_effect host accepted_workspace execution_root pg effect =
     io_bind (current_platform host) (\<lambda>here.
     let prepared =
       (if is_err (verify_flow_project_root here execution_root (le_project_id (lr_lease (pg_leased pg))))
        then Err CommandRejection.WorkspaceChanged
        else prepare_effect_action here execution_root (run_definition (pg_run pg)) effect) in
     io_bind (clock host) (\<lambda>now.
     io_bind (io_bind (engine_call host (prepare_effect effect now (pg_run pg))) (settle_update host pg))
       (execute_saved host accepted_workspace execution_root effect prepared)))"

definition evaluate_effect ::
  "Host \<Rightarrow> WorkspaceFingerprint \<Rightarrow> string \<Rightarrow> Progress \<Rightarrow> EffectAttempt \<Rightarrow> (Progress + FlowProcessing) io" where
  "evaluate_effect host accepted_workspace execution_root pg effect =
     io_bind (effect_boundary_authorization host (pg_leased pg)) (\<lambda>authorization.
     (case authorization of
        Allowed \<Rightarrow> start_effect host accepted_workspace execution_root pg effect
      | Denied \<Rightarrow> next_turn (deny_effect host pg effect)
      | EffectBoundaryAuthorization.Cancelled \<Rightarrow> next_turn (cancel_run host pg)))"

section \<open>The loop\<close>

text \<open>A pending decision is taken; otherwise a cancellation is looked for and the engine is asked.\<close>

definition take_decision :: "Host \<Rightarrow> Progress \<Rightarrow> Progress io" where
  "take_decision host pg =
     (if pg_pending pg \<noteq> None then io_return pg
      else
      io_bind (request_is_cancelled host (pg_leased pg)) (\<lambda>cancelled.
      if cancelled then cancel_run host pg
      else
      io_bind (clock host) (\<lambda>now.
      io_bind (engine_call host (next_decision (ho_sha256 host) now (pg_run pg))) (settle_update host pg))))"

definition act_on ::
  "Host \<Rightarrow> WorkspaceFingerprint \<Rightarrow> string \<Rightarrow> Progress \<Rightarrow> RunDecision \<Rightarrow> string option \<Rightarrow> (Progress + FlowProcessing) io" where
  "act_on host accepted_workspace execution_root pg decision encoded_terminal_result =
     (case decision of
        Continue \<Rightarrow> io_return (Inl pg)
      | AwaitApproval _ _ \<Rightarrow> io_raise (InvalidState ''approval-required flow reached a read-only executor'')
      | EvaluateEffect effect _ \<Rightarrow> evaluate_effect host accepted_workspace execution_root pg effect
      | Execute _ _ \<Rightarrow> io_raise (InvalidState ''flow executor observed an unowned in-flight effect'')
      | AwaitResult _ \<Rightarrow> io_raise (InvalidState ''flow executor observed an unowned in-flight effect'')
      | Reconcile effect \<Rightarrow>
          reconcile_unknown host pg effect [] ''stateful command outcome is unknown after execution was interrupted''
      | WaitRetry _ _ \<Rightarrow>
          io_bind (wait_for_retry host (pg_leased pg)) (\<lambda>(wait, leased).
          let pg = pg\<lparr>pg_leased := leased\<rparr> in
          (case wait of
             Ready \<Rightarrow> io_return (Inl pg)
           | LeaseWait.Cancelled \<Rightarrow> next_turn (cancel_run host pg)
           | LeaseWait.StaleLease \<Rightarrow> io_return (Inr StaleLeaseFlow)))
      | Terminal result \<Rightarrow>
          io_bind (io_lift (ok_or encoded_terminal_result
            (InvalidState ''terminal flow checkpoint omitted its encoded result''))) (\<lambda>encoded.
          io_return (Inr (terminal_result (pg_leased pg) result encoded))))"

definition process_turn ::
  "Host \<Rightarrow> WorkspaceFingerprint \<Rightarrow> string \<Rightarrow> Progress \<Rightarrow> (Progress + FlowProcessing) io" where
  "process_turn host accepted_workspace execution_root pg =
     io_bind (take_decision host pg) (\<lambda>pg.
     (case pg_pending pg of
        None \<Rightarrow> io_raise StorePanic
      | Some (decision, encoded) \<Rightarrow>
          act_on host accepted_workspace execution_root (pg\<lparr>pg_pending := None\<rparr>) decision encoded))"

text \<open>Every turn takes a tick, or a decision that was pending.\<close>

definition turns_left :: "Progress \<Rightarrow> World \<Rightarrow> nat" where
  "turns_left pg w = 2 * length (w_script w) + (if pg_pending pg = None then 0 else 1)"

text \<open>A lease that is lost while the run is being set up ends the processing quietly.\<close>

definition unless_stale :: "'a io \<Rightarrow> ('a \<Rightarrow> FlowProcessing io) \<Rightarrow> FlowProcessing io" where
  "unless_stale m f =
     io_bind (io_attempt m) (\<lambda>r.
     (case r of
        Inl (StoreError.StaleLease _) \<Rightarrow> io_return StaleLeaseFlow
      | Inl error \<Rightarrow> io_raise error
      | Inr x \<Rightarrow> f x))"

datatype Opened = Finished FlowProcessing | Run FlowRun u64 bool bool

definition open_run ::
  "Host \<Rightarrow> LeasedRequest \<Rightarrow> string \<Rightarrow> FlowDefinition \<Rightarrow> FlowCheckpoint option \<Rightarrow> StoreError + Opened" where
  "open_run host leased run_id d checkpoint =
     (case checkpoint of
        Some checkpoint \<Rightarrow>
          and_then (map_err (flow_engine_error host)
            (FlowRun_resume (ho_sha256 host) run_id d (fc_snapshot checkpoint))) (\<lambda>run.
          (case FlowRun_result run of
             Some result \<Rightarrow>
               and_then (ok_or (fc_terminal_result checkpoint)
                 (InvalidState ''terminal flow checkpoint omitted its encoded result'')) (\<lambda>cached.
               and_then (cached_terminal_result (ho_wire host) leased result cached) (\<lambda>processing.
               Ok (Finished processing)))
           | None \<Rightarrow>
               if fc_terminal_result checkpoint \<noteq> None
               then Err (InvalidState ''non-terminal flow checkpoint contains a terminal result'')
               else Ok (Run run (fc_checkpoint_revision checkpoint) False
                 (sn_snapshot_version (fc_snapshot checkpoint) < FLOW_SNAPSHOT_VERSION))))
      | None \<Rightarrow>
          and_then (map_err (flow_engine_error host) (FlowRun_start (ho_sha256 host) run_id d)) (\<lambda>run.
          Ok (Run run 0 True False)))"

definition process_opened ::
  "Host \<Rightarrow> LeasedRequest \<Rightarrow> ResourceName \<Rightarrow> WorkspaceFingerprint \<Rightarrow> string \<Rightarrow> FlowRun \<Rightarrow> u64 \<Rightarrow> bool \<Rightarrow> bool
     \<Rightarrow> FlowProcessing io" where
  "process_opened host leased resource accepted_workspace execution_root run revision needs_initial_save needs_upgrade =
     io_bind (io_attempt (store_read host (validate_flow_operation_resource (ho_sha256 host) (lr_lease leased) resource))) (\<lambda>checked.
     (case checked of
        Inl (StoreError.StaleLease _) \<Rightarrow> io_return StaleLeaseFlow
      | Inl (CorruptFlowAuthorization _) \<Rightarrow>
          io_return (internal_failure leased ''stored flow operation does not match its authorization'')
      | Inl error \<Rightarrow> io_raise error
      | Inr _ \<Rightarrow>
          io_bind (current_platform host) (\<lambda>here.
          if is_err (verify_flow_project_root here execution_root (le_project_id (lr_lease leased)))
          then io_return (unsupported_failure leased FailureCode.InvalidRequest
            ''stored flow project root is unavailable or does not match its project'')
          else
          unless_stale (if needs_upgrade \<or> needs_initial_save
            then io_bind (save_checkpoint host leased revision (run_snapshot run) None None) (\<lambda>saved.
              io_return (fc_checkpoint_revision (so_checkpoint saved)))
            else io_return revision) (\<lambda>revision.
          io_loop turns_left (process_turn host accepted_workspace execution_root)
            \<lparr>pg_leased = leased, pg_run = run, pg_revision = revision, pg_pending = None\<rparr>))))"

definition process_flow :: "Host \<Rightarrow> LeasedRequest \<Rightarrow> FlowProcessing io" where
  "process_flow host leased =
     (case decode_flow_operation (ho_toml host) (lr_operation leased) of
        None \<Rightarrow> io_return (internal_failure leased ''stored flow operation is invalid'')
      | Some (d, accepted_workspace, execution_root) \<Rightarrow>
          (case and_then (flow_policy_resource (ho_sha256 host) d accepted_workspace) ResourceName_parse of
             Inl _ \<Rightarrow> io_return (internal_failure leased ''stored flow operation is invalid'')
           | Inr resource \<Rightarrow>
               (case RunId_parse (le_request_id (lr_lease leased)) of
                  Inl _ \<Rightarrow> io_return (internal_failure leased ''flow run identity is invalid'')
                | Inr run_id \<Rightarrow>
                    unless_stale (store_read host (load_flow_checkpoint (ho_codec host) (lr_lease leased))) (\<lambda>checkpoint.
                    io_bind (io_lift (open_run host leased run_id d checkpoint)) (\<lambda>opened.
                    (case opened of
                       Finished processing \<Rightarrow> io_return processing
                     | Run run revision needs_initial_save needs_upgrade \<Rightarrow>
                         process_opened host leased resource accepted_workspace execution_root run revision
                           needs_initial_save needs_upgrade))))))"

section \<open>Leased requests\<close>

definition delay_turn :: "Host \<Rightarrow> LeasedRequest \<Rightarrow> (LeasedRequest + LeasedRequest option) io" where
  "delay_turn host leased =
     io_bind (next_tick host) (\<lambda>t.
     if tk_ready t then io_return (Inr (Some leased))
     else
     io_bind (renew_and_poll_cancellation host leased) (\<lambda>(wait, leased).
     io_return (case wait of
         Ready \<Rightarrow> Inl leased
       | LeaseWait.Cancelled \<Rightarrow> Inr (Some leased)
       | LeaseWait.StaleLease \<Rightarrow> Inr None)))"

definition status_result :: "LeasedRequest \<Rightarrow> string \<Rightarrow> u64 \<Rightarrow> FlowProcessing" where
  "status_result leased daemon_version queue_depth =
     TerminalFlow TerminalState.Succeeded
       \<lparr>en_protocol_version = PROTOCOL_VERSION, en_request_id = le_request_id (lr_lease leased),
        en_project_id = le_project_id (lr_lease leased),
        en_body = Success OperationTruth.Observed (ResultPayload.Status
          \<lparr>st_ready = True, st_healthy = True, st_daemon_version = daemon_version,
           st_protocol_version = PROTOCOL_VERSION, st_queue_depth = queue_depth\<rparr>)\<rparr> []"

definition process_operation :: "Host \<Rightarrow> string \<Rightarrow> LeasedRequest \<Rightarrow> FlowProcessing io" where
  "process_operation host daemon_version leased =
     io_bind (store_read host (\<lambda>_. queued_behind (le_request_id (lr_lease leased)))) (\<lambda>queue_depth.
     if lr_operation_kind leased = ''daemon_status'' \<or> lr_operation_kind leased = ''status''
     then io_return (status_result leased daemon_version queue_depth)
     else if lr_operation_kind leased = FLOW_OPERATION_KIND
     then unless_stale (process_flow host leased) io_return
     else io_return (unsupported_failure leased FailureCode.InvalidRequest
       (''unknown durable operation '' @ lr_operation_kind leased)))"

text \<open>Finishing asks for the owner and the token of the lease, which renewals keep.  The error of a result
  that does not fit a frame is a value here.\<close>

definition finish_leased :: "Host \<Rightarrow> LeasedRequest \<Rightarrow> FlowProcessing \<Rightarrow> (CodecError + Replay option) io" where
  "finish_leased host leased processing =
     (case processing of
        StaleLeaseFlow \<Rightarrow> io_return (Ok None)
      | TerminalFlow state envelope encoded \<Rightarrow>
          (case (if encoded = [] then encode_message (ho_wire host) (ResultMessage envelope) else Ok encoded) of
             Inl error \<Rightarrow> io_return (Err error)
           | Inr stored \<Rightarrow>
               io_bind (io_attempt (store_write host (\<lambda>now.
                 if encoded = [] then finish (lr_lease leased) now state stored
                 else finish_terminal_flow (ho_codec host) (lr_lease leased) now stored))) (\<lambda>finished.
               (case finished of
                  Inl (StoreError.StaleLease _) \<Rightarrow> io_return (Ok None)
                | Inl error \<Rightarrow> io_raise error
                | Inr _ \<Rightarrow>
                    io_bind (store_read host (\<lambda>_. replay (le_request_id (lr_lease leased)) 0 None)) (\<lambda>messages.
                    io_return (Ok (Some messages)))))))"

definition process_leased :: "Host \<Rightarrow> string \<Rightarrow> bool \<Rightarrow> LeasedRequest \<Rightarrow> (CodecError + Replay option) io" where
  "process_leased host daemon_version delayed leased =
     io_bind (if delayed then io_loop script_left (delay_turn host) leased else io_return (Some leased)) (\<lambda>kept.
     (case kept of
        None \<Rightarrow> io_return (Ok None)
      | Some leased \<Rightarrow> io_bind (process_operation host daemon_version leased) (finish_leased host leased)))"

end
