(* ===== verification/Worker_Assertions.thy ===== *)
theory Worker_Assertions
  imports Worker_Process Store_Flow
begin

text \<open>
  Assertions about a worker among others.  The interference of others on the store is the rely condition:
  they do not act under the worker's lease and do not purge the history.  Assertions that survive it, and
  the worker's own renewals, are the instances of \<open>stable_assertion\<close>; those that also survive what the
  worker writes are the instances of \<open>recording_assertion\<close>.
\<close>

section \<open>Interference on the store\<close>

definition token_of :: "RequestId \<Rightarrow> Db \<Rightarrow> string option" where
  "token_of i db = Option.bind (request_row i db) rq_lease_token"

lemma tx_step_token_back:
  assumes "tx_step db l db'" and "store_inv db" and "token_of i db' = Some token" and "l \<noteq> Some (i, token)"
  shows "token_of i db = Some token"
proof -
  obtain r' where r': "request_row i db' = Some r'" "rq_lease_token r' = Some token"
    using assms(3) by (auto simp: token_of_def bind_eq_Some_conv)
  have active: "Store_Schema.is_active_state (rq_state r')"
    using tx_step_inv [OF assms(2,1)] token_active [OF _ r'] by (simp add: store_inv_def)
  obtain r where r: "request_row i db = Some r"
    using tx_step_new [OF assms(1) _ r'(1)] r'(2) by (cases "request_row i db") auto
  obtain t where t: "r' = r \<and> t = None \<or> row_step t r r'" "\<forall>k. t = Some k \<longrightarrow> l = Some (i, k)"
    using tx_step_row [OF assms(1) r] r'(1) by auto
  have "rq_lease_token r = Some token"
    using t row_step_token [of t r r'] r'(2) active assms(4) by (cases t) auto
  with r show ?thesis by (simp add: token_of_def)
qed

lemma steps_token_back:
  assumes "steps db gs db'" and "store_inv db" and "(i, token) \<notin> set gs" and "token_of i db' = Some token"
  shows "token_of i db = Some token"
proof -
  obtain ls where "path tx_step db ls db'" "granted ls = gs" using assms(1) by (auto simp: steps_def)
  then show ?thesis
    using assms(2-4)
  proof (induction arbitrary: gs rule: path.induct)
    case (cons db l db' ls db'')
    then have "token_of i db' = Some token"
      using tx_step_inv [OF cons.prems(2) cons.hyps(1)] by (cases l) auto
    with cons show ?case by (intro tx_step_token_back [of db l db' i token]) (auto simp: granted_def List.map_filter_def)
  qed simp
qed

lemma holder_token:
  assumes "store_inv db" and "list_ex (holds_lease lease now) (db_requests db)"
  shows "token_of (le_request_id lease) db = Some (le_token lease)"
proof -
  obtain r where r: "r \<in> set (db_requests db)" "holds_lease lease now r" using assms(2) by (auto simp: list_ex_iff)
  then have "request_row (le_request_id lease) db = Some r"
    using request_row_unique [of db r "le_request_id lease"] assms(1) by (simp add: holds_lease_def store_inv_def)
  with r show ?thesis by (simp add: token_of_def holds_lease_def)
qed

text \<open>Operations that are not the worker's own.\<close>

definition foreign_op :: "string \<Rightarrow> StoreOp \<Rightarrow> bool" where
  "foreign_op token op \<longleftrightarrow> op \<noteq> StoreOp.ResetHistory
     \<and> (case op_lease op of Some lease \<Rightarrow> le_token lease \<noteq> token | None \<Rightarrow> True)
     \<and> (case op of Claim fresh _ _ _ \<Rightarrow> fresh \<noteq> token | _ \<Rightarrow> True)"

lemma foreign_grants:
  assumes "apply_store_op codec sha256 op db = (Ok out, db')" and "foreign_op token op"
  shows "(i, token) \<notin> set (reply_grants out)"
proof (cases op)
  case (Claim fresh owner now d)
  with assms(1) obtain res where "claim_tx sha256 fresh owner now d db = Ok (res, db')" "out = ClaimReply res"
    by (auto simp: claim_def transaction_Ok dest!: reply_Ok)
  with Claim assms(2) show ?thesis by (auto elim!: claim_tx_cases simp: foreign_op_def)
qed (use assms in \<open>auto dest!: reply_Ok\<close>)

lemma quiet_op_checkpoint:
  assumes "apply_store_op codec sha256 op db = (r, db')" and "store_inv db" and "token_of i db' = Some token"
    and "\<And>out. r = Ok out \<Longrightarrow> (i, token) \<notin> set (reply_grants out)"
    and "\<And>out. r = Ok out \<Longrightarrow> token_of i db = Some token \<Longrightarrow> \<not> writes_checkpoint i op"
  shows "token_of i db = Some token \<and> read_flow_checkpoint i db' = read_flow_checkpoint i db"
proof (cases r)
  case (Inl e)
  with assms(1) have "db' = db" by (auto intro: store_op_failed)
  with assms(3) show ?thesis by simp
next
  case (Inr out)
  have "steps db (reply_grants out) db'"
    using store_op_steps assms(1,2) Inr by (auto simp: store_inv_def)
  then have token: "token_of i db = Some token"
    using steps_token_back assms(2,3) assms(4) [OF Inr] by blast
  with assms(5) [OF Inr] op_reads assms(1) Inr show ?thesis by auto
qed

lemma foreign_op_checkpoint:
  assumes "foreign_op token op" and "store_inv db" and "apply_store_op codec sha256 op db = (r, db')"
    and "token_of i db' = Some token"
  shows "token_of i db = Some token \<and> read_flow_checkpoint i db' = read_flow_checkpoint i db"
proof (rule quiet_op_checkpoint [OF assms(3,2,4)])
  fix out assume out: "r = Ok out"
  show "(i, token) \<notin> set (reply_grants out)" using foreign_grants assms(1,3) out by blast
  assume held: "token_of i db = Some token"
  show "\<not> writes_checkpoint i op"
  proof
    assume "writes_checkpoint i op"
    then obtain save where save: "op = SaveCheckpoint save" "le_request_id (sv_lease save) = i"
      using assms(1) by (cases op) (auto simp: foreign_op_def)
    have "\<not> list_ex (holds_lease (sv_lease save) now) (db_requests db)" for now
      using holder_token [of db "sv_lease save" now] assms(1,2) held save by (auto simp: foreign_op_def)
    then obtain e where "apply_store_op codec sha256 op db = (Err e, db)"
      using unheld_refused [of op "sv_lease save" db codec sha256] save by auto
    with assms(3) out show False by simp
  qed
qed

section \<open>Assertions that survive interference\<close>

definition yields :: "(World \<Rightarrow> bool) \<Rightarrow> 'a io \<Rightarrow> ('a \<Rightarrow> bool) \<Rightarrow> bool" where
  "yields K m R \<longleftrightarrow> triple K m (\<lambda>x w. K w \<and> R x) K"

named_theorems yields_rules

lemma yields_return [yields_rules]: "R x \<Longrightarrow> yields K (io_return x) R"
  by (simp add: yields_def triple_return)

lemma yields_raise [yields_rules]: "yields K (io_raise e) R"
  by (simp add: yields_def triple_raise)

lemma yields_lift: "(\<And>x. r = Ok x \<Longrightarrow> R x) \<Longrightarrow> yields K (io_lift r) R"
  by (simp add: yields_def triple_lift)

lemma yields_bind:
  assumes "yields K m S" and "\<And>x. S x \<Longrightarrow> yields K (f x) R"
  shows "yields K (io_bind m f) R"
  unfolding yields_def
proof (rule triple_bind)
  show "triple K m (\<lambda>x w. K w \<and> S x) K" using assms(1) by (simp add: yields_def)
  show "triple (\<lambda>w. K w \<and> S x) (f x) (\<lambda>x w. K w \<and> R x) K" for x
    using assms(2) [of x] by (cases "S x") (auto simp: yields_def triple_def)
qed

lemma yields_attempt:
  assumes "yields K m S" and "\<And>x. S x \<Longrightarrow> R (Ok x)" and "\<And>e. R (Err e)"
  shows "yields K (io_attempt m) R"
  unfolding yields_def
  by (rule triple_attempt, rule triple_conseq [OF assms(1) [unfolded yields_def]]) (use assms(2,3) in auto)

lemma yields_weaken: "yields K m S \<Longrightarrow> (\<And>x. S x \<Longrightarrow> R x) \<Longrightarrow> yields K m R"
  unfolding yields_def by (erule triple_conseq) auto

lemma yields_any: "yields K m S \<Longrightarrow> yields K m (\<lambda>_. True)"
  by (erule yields_weaken) simp

lemma yields_loop:
  assumes "\<And>s. I s \<Longrightarrow> yields K (body s) (\<lambda>r. case r of Inl s' \<Rightarrow> I s' | Inr x \<Rightarrow> R x)" and "I s"
  shows "yields K (io_loop left body s) R"
proof -
  have "triple (\<lambda>w. K w \<and> I s) (io_loop left body s) (\<lambda>x w. K w \<and> R x) K"
  proof (rule triple_loop)
    fix s
    show "triple (\<lambda>w. K w \<and> I s) (body s)
        (\<lambda>r w. case r of Inl s' \<Rightarrow> K w \<and> I s' | Inr x \<Rightarrow> K w \<and> R x) K"
    proof (cases "I s")
      case True
      show ?thesis
        by (rule triple_conseq [OF assms(1) [OF True, unfolded yields_def]]) (auto split: sum.splits)
    qed (simp add: triple_def)
  qed simp
  with assms(2) show ?thesis by (simp add: yields_def)
qed

definition same_lease :: "LeasedRequest \<Rightarrow> LeasedRequest \<Rightarrow> bool" where
  "same_lease leased leased' \<longleftrightarrow> le_request_id (lr_lease leased') = le_request_id (lr_lease leased)
     \<and> le_token (lr_lease leased') = le_token (lr_lease leased)
     \<and> le_project_id (lr_lease leased') = le_project_id (lr_lease leased)"

lemma same_lease_refl [simp]: "same_lease leased leased"
  by (simp add: same_lease_def)

lemma same_lease_trans: "same_lease a b \<Longrightarrow> same_lease b c \<Longrightarrow> same_lease a c"
  by (simp add: same_lease_def)

locale stable_assertion =
  fixes host :: Host and K :: "World \<Rightarrow> bool"
  assumes tick_keeps: "K w \<Longrightarrow> w_script w = t # ts \<Longrightarrow>
      K (w\<lparr>w_db := run_ops host (tk_others t) (w_db w), w_script := ts\<rparr>)"
    and renewal_keeps: "K w \<Longrightarrow> K (w\<lparr>w_db := snd (renew lease now d (w_db w))\<rparr>)"
begin

lemma tick: "yields K (next_tick host) (\<lambda>_. True)"
  unfolding yields_def triple_def meets_def next_tick_def using tick_keeps by (auto split: list.splits)

lemma now: "yields K (clock host) (\<lambda>_. True)"
  unfolding clock_def by (rule yields_bind [OF tick]) (rule yields_return, simp)

lemma here: "yields K (current_platform host) (\<lambda>_. True)"
  unfolding current_platform_def by (rule yields_bind [OF tick]) (rule yields_return, simp)

lemma read: "yields K (store_read host f) (\<lambda>_. True)"
  unfolding store_read_def
  by (rule yields_bind [OF tick])
    (auto simp: yields_def triple_def meets_def io_lift_def io_raise_def io_return_def split: sum.splits)

lemma cancelled: "yields K (request_is_cancelled host leased) (\<lambda>_. True)"
  unfolding request_is_cancelled_def by (rule yields_bind [OF read]) (rule yields_return, simp)

lemma renewed:
  "yields K (store_write host (\<lambda>now. renew lease now d))
     (\<lambda>renewed. le_request_id renewed = le_request_id lease \<and> le_token renewed = le_token lease
       \<and> le_project_id renewed = le_project_id lease)"
  unfolding store_write_def
proof (rule yields_bind [OF tick])
  fix t :: Tick
  have "le_request_id l = le_request_id lease \<and> le_token l = le_token lease \<and> le_project_id l = le_project_id lease"
    if "fst (renew lease n d db) = Ok l" for l n db
    using that by (auto simp: renew_def transaction_def and_then_Inr_iff split: sum.splits if_split_asm)
  then show "yields K (\<lambda>w. io_lift (fst (renew lease (tk_now t) d (w_db w))) (w\<lparr>w_db := snd (renew lease (tk_now t) d (w_db w))\<rparr>))
     (\<lambda>renewed. le_request_id renewed = le_request_id lease \<and> le_token renewed = le_token lease
       \<and> le_project_id renewed = le_project_id lease)"
    using renewal_keeps
    by (auto simp: yields_def triple_def meets_def io_lift_def io_raise_def io_return_def split: sum.splits)
qed

lemma renew_poll: "yields K (renew_and_poll_cancellation host leased) (\<lambda>(_, leased'). same_lease leased leased')"
  unfolding renew_and_poll_cancellation_def
  by (rule yields_bind [OF yields_attempt [OF renewed, where R = "\<lambda>r. case r of Inl _ \<Rightarrow> True
      | Inr l \<Rightarrow> le_request_id l = le_request_id (lr_lease leased) \<and> le_token l = le_token (lr_lease leased)
          \<and> le_project_id l = le_project_id (lr_lease leased)"]])
    (auto simp: Let_def same_lease_def split: sum.splits StoreError.splits
      intro!: yields_rules yields_bind [OF cancelled])

lemma lease_loop:
  "yields K (io_loop script_left (lease_turn host finished) leased) (\<lambda>(_, leased'). same_lease leased leased')"
proof (rule yields_loop [where I = "same_lease leased"])
  fix l assume l: "same_lease leased l"
  show "yields K (lease_turn host finished l)
      (\<lambda>r. case r of Inl s \<Rightarrow> same_lease leased s | Inr (_, leased') \<Rightarrow> same_lease leased leased')"
    unfolding lease_turn_def case_prod_unfold
    by (rule yields_bind [OF tick])
      (auto intro!: yields_rules yields_bind [OF renew_poll] simp: l same_lease_trans [OF l] split: LeaseWait.splits prod.splits)
qed simp

lemma retry_loop: "yields K (wait_for_retry host leased) (\<lambda>(_, leased'). same_lease leased leased')"
  unfolding wait_for_retry_def
proof (rule yields_loop [where I = "same_lease leased"])
  fix l assume l: "same_lease leased l"
  show "yields K (retry_turn host l)
      (\<lambda>r. case r of Inl s \<Rightarrow> same_lease leased s | Inr (_, leased') \<Rightarrow> same_lease leased leased')"
    unfolding retry_turn_def case_prod_unfold
    by (rule yields_bind [OF tick])
      (auto intro!: yields_rules yields_bind [OF renew_poll] simp: l same_lease_trans [OF l] split: LeaseWait.splits prod.splits)
qed simp

lemma child_loop:
  "yields K (io_loop script_left (child_turn host) (out, leased)) (\<lambda>(_, leased'). same_lease leased leased')"
proof (rule yields_loop [where I = "\<lambda>(_, l). same_lease leased l"])
  fix s :: "string \<times> LeasedRequest" assume s: "case s of (_, l) \<Rightarrow> same_lease leased l"
  obtain out l where l: "s = (out, l)" "same_lease leased l" using s by (cases s) auto
  show "yields K (child_turn host s)
      (\<lambda>r. case r of Inl (_, l) \<Rightarrow> same_lease leased l | Inr (_, leased') \<Rightarrow> same_lease leased leased')"
    unfolding child_turn_def case_prod_unfold l(1)
    by (rule yields_bind [OF tick])
      (auto intro!: yields_rules yields_bind [OF renew_poll] yields_bind [OF yields_lift [where R = "\<lambda>_. True"]]
        simp: l same_lease_trans [OF l(2)] split: LeaseWait.splits prod.splits ChildEvent.splits OutputMessage.splits sum.splits)
qed simp

lemma delay_loop: "yields K (io_loop script_left (delay_turn host) leased)
    (\<lambda>kept. case kept of None \<Rightarrow> True | Some leased' \<Rightarrow> same_lease leased leased')"
proof (rule yields_loop [where I = "same_lease leased"])
  fix l assume l: "same_lease leased l"
  show "yields K (delay_turn host l) (\<lambda>r. case r of Inl s \<Rightarrow> same_lease leased s
      | Inr kept \<Rightarrow> (case kept of None \<Rightarrow> True | Some leased' \<Rightarrow> same_lease leased leased'))"
    unfolding delay_turn_def case_prod_unfold
    by (rule yields_bind [OF tick])
      (auto intro!: yields_rules yields_bind [OF renew_poll] simp: l same_lease_trans [OF l] split: LeaseWait.splits prod.splits)
qed simp

end

section \<open>The worker's own writes\<close>

definition goes_on :: "LeasedRequest \<Rightarrow> Progress + FlowProcessing \<Rightarrow> bool" where
  "goes_on leased r \<longleftrightarrow> (case r of Inl pg \<Rightarrow> same_lease leased (pg_leased pg) | Inr _ \<Rightarrow> True)"

lemma goes_on_simps [simp]:
  "goes_on leased (Inl pg) \<longleftrightarrow> same_lease leased (pg_leased pg)" "goes_on leased (Inr x)"
  by (simp_all add: goes_on_def)

lemma op_keeps_inv: "store_inv db \<Longrightarrow> store_inv (snd (apply_store_op codec sha256 op db))"
  by (rule store_runs.step_inv [of db codec sha256 "(op, fst (apply_store_op codec sha256 op db))"])
    (simp_all add: store_step_def)

lemma saved_inv: "store_inv db \<Longrightarrow> store_inv (snd (save_flow_checkpoint codec sha256 save db))"
  using op_keeps_inv [of db codec sha256 "SaveCheckpoint save"] by (simp add: reply_def)

definition starts :: "RunDecision \<Rightarrow> bool" where
  "starts decision \<longleftrightarrow> (case decision of Execute _ _ \<Rightarrow> True | _ \<Rightarrow> False)"

lemma cancel_starts_nothing:
  assumes "fst (cancel run) = Ok update"
  shows "\<not> starts (up_decision update)"
  using assms
  by (auto simp: cancel_def cancelling_decision_def finish_cancelled_def observe_def observed_def changed_def early_def
      starts_def Let_def split: if_split_asm sum.split_asm option.split_asm)

locale recording_assertion = stable_assertion +
  assumes write_keeps: "K w \<Longrightarrow> (\<And>db. store_inv db \<Longrightarrow> store_inv (f db)) \<Longrightarrow> K (w\<lparr>w_db := f (w_db w)\<rparr>)"
    and note_keeps: "K w \<Longrightarrow> K (w\<lparr>w_log := Authorized lease n db # w_log w\<rparr>)"
begin

lemma engine_result: "yields K (engine_ok host r) (\<lambda>x. r = Ok x)"
  unfolding engine_ok_def by (rule yields_lift) (simp add: map_err_Inr_iff)

lemma engine_called: "yields K (engine_call host result) (\<lambda>(update, run). fst result = Ok update \<and> run = snd result)"
  unfolding engine_call_def by (rule yields_bind [OF engine_result]) (auto intro: yields_rules)

lemma written:
  assumes "\<And>n db. store_inv db \<Longrightarrow> store_inv (snd (f n db))"
  shows "yields K (store_write host f) (\<lambda>_. True)"
  unfolding store_write_def
proof (rule yields_bind [OF tick])
  fix t :: Tick
  have "K (w\<lparr>w_db := snd (f (tk_now t) (w_db w))\<rparr>)" if "K w" for w
    using write_keeps [OF that, of "\<lambda>db. snd (f (tk_now t) db)"] assms by simp
  then show "yields K (\<lambda>w. io_lift (fst (f (tk_now t) (w_db w))) (w\<lparr>w_db := snd (f (tk_now t) (w_db w))\<rparr>)) (\<lambda>_. True)"
    by (auto simp: yields_def triple_def meets_def io_lift_def io_raise_def io_return_def split: sum.splits)
qed

lemma checkpoint_saved: "yields K (save_checkpoint host leased revision snapshot transition terminal) (\<lambda>_. True)"
  unfolding save_checkpoint_def by (rule written) (rule saved_inv)

lemma persisted: "yields K (persist_update host leased revision update) (\<lambda>(decision, _). decision = up_decision update)"
  unfolding persist_update_def
  by (intro yields_bind [OF yields_lift [where R = "\<lambda>_. True"]] yields_bind [OF checkpoint_saved] yields_return) simp_all

lemma cancelled_instead:
  "yields K (resume_cancelled host leased revision run previous error) (\<lambda>((decision, _), _). \<not> starts decision)"
  unfolding resume_cancelled_def
  by (auto intro!: yields_rules yields_bind [OF cancelled] yields_bind [OF engine_result] yields_bind [OF engine_called]
      yields_bind [OF persisted] dest!: cancel_starts_nothing)

lemma reconciled:
  "yields K (persist_update_reconciling_cancellation host leased revision run previous update) (\<lambda>_. True)"
  unfolding persist_update_reconciling_cancellation_def
  by (rule yields_bind [OF yields_attempt [OF persisted, where R = "\<lambda>_. True"]])
    (auto split: sum.splits intro!: yields_rules yields_any [OF cancelled_instead])

lemma run_cancelled: "yields K (cancel_run host pg) (\<lambda>pg'. pg_leased pg' = pg_leased pg)"
  unfolding cancel_run_def case_prod_unfold
  by (intro yields_bind [OF engine_called] yields_bind [OF persisted] yields_return) simp

lemma settled: "yields K (settle_update host pg updated) (\<lambda>pg'. pg_leased pg' = pg_leased pg)"
  unfolding settle_update_def case_prod_unfold
  by (intro yields_bind [OF reconciled] yields_return) simp

lemma turn: "yields K m (\<lambda>pg'. same_lease leased (pg_leased pg')) \<Longrightarrow> yields K (next_turn m) (goes_on leased)"
  unfolding next_turn_def by (erule yields_bind) (simp add: yields_return)

lemma cancelling_turn: "same_lease leased (pg_leased pg) \<Longrightarrow> yields K (next_turn (cancel_run host pg)) (goes_on leased)"
  by (rule turn [OF yields_weaken [OF run_cancelled]]) simp

lemma called_and_settled:
  "yields K (io_bind (engine_call host result) (settle_update host pg)) (\<lambda>pg'. pg_leased pg' = pg_leased pg)"
  by (rule yields_bind [OF engine_called]) (rule settled)

lemma denying_turn: "same_lease leased (pg_leased pg) \<Longrightarrow> yields K (next_turn (deny_effect host pg effect)) (goes_on leased)"
  unfolding deny_effect_def by (rule turn [OF yields_weaken [OF called_and_settled]]) simp

lemma recording_turn: "same_lease leased (pg_leased pg) \<Longrightarrow> yields K (record_result host pg effect result) (goes_on leased)"
  unfolding record_result_def
  by (rule yields_bind [OF now], rule turn [OF yields_weaken [OF called_and_settled]]) simp

lemma failing_turn: "same_lease leased (pg_leased pg) \<Longrightarrow> yields K (fail_effect host pg effect summary) (goes_on leased)"
  unfolding fail_effect_def by (rule yields_bind [OF engine_result]) (rule recording_turn)

lemma unknown_turn:
  "same_lease leased (pg_leased pg) \<Longrightarrow> yields K (reconcile_unknown host pg effect evidence summary) (goes_on leased)"
  unfolding reconcile_unknown_def unknown_reconciliation_update_def
  by (rule turn, rule yields_bind [where S = "\<lambda>_. True"])
    (auto intro!: yields_bind [OF engine_result] yields_bind [OF now] yields_any [OF engine_called]
      yields_weaken [OF settled])

lemma evidence_kept: "yields K (retain_bytes host prefix message bytes) (\<lambda>_. True)"
  unfolding retain_bytes_def put_evidence_def Let_def
  by (rule yields_bind [OF yields_lift [where R = "\<lambda>_. True"]], simp, rule yields_bind [OF yields_bind [OF tick]],
      rule yields_any, auto split: option.splits intro: yields_rules yields_any [OF engine_result])

lemma output_kept: "yields K (retain_output host bytes) (\<lambda>_. True)"
  unfolding retain_output_def by (rule evidence_kept)

lemma result_kept: "yields K (retain_command_result host success bytes retryable) (\<lambda>_. True)"
  unfolding retain_command_result_def by (rule yields_bind [OF output_kept]) (rule yields_any [OF engine_result])

lemma failure_kept: "yields K (retain_failed_command_result host summary retryable bytes) (\<lambda>_. True)"
  unfolding retain_failed_command_result_def by (rule yields_bind [OF output_kept]) (rule yields_any [OF engine_result])

lemma command_turn: "same_lease leased (pg_leased pg) \<Longrightarrow> yields K (command_outcome host pg effect execution) (goes_on leased)"
  unfolding command_outcome_def
  by (auto split: CommandExecution.splits intro!: yields_rules failing_turn cancelling_turn unknown_turn
      yields_bind [OF output_kept] yields_bind [OF result_kept] yields_bind [OF failure_kept] recording_turn)

lemma connector_turn: "same_lease leased (pg_leased pg) \<Longrightarrow> yields K (connector_outcome host pg effect outcome) (goes_on leased)"
  unfolding connector_outcome_def
  by (auto split: ConnectorStepOutcome.splits intro!: yields_rules cancelling_turn recording_turn)

lemma boundary: "yields K (effect_boundary_authorization host leased) (\<lambda>_. True)"
proof -
  have "yields K (note_act (Authorized lease n db)) (\<lambda>_. True)" for lease n db
    using note_keeps by (simp add: yields_def triple_def meets_def note_act_def)
  then show ?thesis
    unfolding effect_boundary_authorization_def check_authorization_def refused_authorization_def case_prod_unfold
    by (intro yields_bind [OF yields_attempt [OF yields_bind [OF read], where R = "\<lambda>_. True"]])
      (auto split: sum.splits FlowEffectAuthorization.splits StoreError.splits
        intro!: yields_rules yields_bind [OF cancelled] yields_bind [where S = "\<lambda>_. True"])
qed

lemma decision_taken: "yields K (take_decision host pg) (\<lambda>pg'. pg_leased pg' = pg_leased pg)"
  unfolding take_decision_def
  by (auto intro!: yields_rules yields_bind [OF cancelled] run_cancelled yields_bind [OF now] called_and_settled)

end

end
