(* ===== verification/Worker_Guarantees.thy ===== *)
theory Worker_Guarantees
  imports Worker_Effects Flow_Examples
begin

text \<open>
  What the screens of the worker promise: the stored operation gives back the definition, the workspace and
  the root it was made of; submission accepts exactly the definitions whose every step the worker can
  prepare; and what it prepares is a read-only git command.
\<close>

section \<open>The stored operation\<close>

lemma of_char_less: "byte c < 256" by simp

lemma from_be_bytes32_eq:
  "from_be_bytes32 [a, b, c, e] = ((byte a * 256 + byte b) * 256 + byte c) * 256 + byte e"
  by (simp add: from_be_bytes32_def)

lemma be_bytes32_eq:
  "be_bytes32 n = [char_of (n div 16777216 mod 256), char_of (n div 65536 mod 256), char_of (n div 256 mod 256),
     char_of (n mod 256)]"
  by (simp add: be_bytes32_def upt_rec)

lemma be_bytes32_length [simp]: "length (be_bytes32 n) = 4"
  by (simp add: be_bytes32_eq)

lemma digits32: "(((n div 16777216) * 256 + n div 65536 mod 256) * 256 + n div 256 mod 256) * 256 + n mod 256 = n"
  for n :: nat
proof -
  have "n div 65536 = n div 256 div 256" "n div 16777216 = n div 256 div 256 div 256"
    by (simp_all add: div_mult2_eq [symmetric])
  then show ?thesis by simp
qed

lemma from_be_bytes32_inverse:
  assumes "n < 2 ^ 32"
  shows "from_be_bytes32 (be_bytes32 n) = n"
proof -
  have "n div 16777216 mod 256 = n div 16777216" using assms by (intro mod_less) simp
  then show ?thesis by (simp add: be_bytes32_eq from_be_bytes32_eq digits32 [simplified])
qed

lemma digits_bound:
  assumes "a \<le> 255" "b \<le> 255" "c \<le> 255" "e \<le> 255"
  shows "((a * 256 + b) * 256 + c) * 256 + e < (2 :: nat) ^ 32"
proof -
  have "(a * 256 + b) * 256 + c \<le> 16777215" using assms by presburger
  then have "((a * 256 + b) * 256 + c) * 256 + e \<le> 4294967295" using assms(4) by presburger
  then show ?thesis by simp
qed

lemma be_bytes32_inverse:
  assumes "length bs = 4"
  shows "from_be_bytes32 bs < 2 ^ 32" and "be_bytes32 (from_be_bytes32 bs) = bs"
proof -
  obtain a b c e where bs: "bs = [a, b, c, e]"
    using assms by (auto simp: length_Suc_conv eval_nat_numeral)
  have u: "byte a \<le> 255" "byte b \<le> 255" "byte c \<le> 255" "byte e \<le> 255"
    using of_char_less [of a] of_char_less [of b] of_char_less [of c] of_char_less [of e] by linarith+
  show "from_be_bytes32 bs < 2 ^ 32" unfolding bs from_be_bytes32_eq by (rule digits_bound) (fact u)+
  let ?n = "((byte a * 256 + byte b) * 256 + byte c) * 256 + byte e"
  have q: "?n div 256 = (byte a * 256 + byte b) * 256 + byte c" using u(4) by simp
  have q2: "?n div 65536 = byte a * 256 + byte b"
  proof -
    have "?n div 65536 = ?n div 256 div 256" by (simp only: div_mult2_eq [symmetric]) simp
    also have "\<dots> = byte a * 256 + byte b" unfolding q using u(3) by simp
    finally show ?thesis .
  qed
  have q3: "?n div 16777216 = byte a"
  proof -
    have "?n div 16777216 = ?n div 65536 div 256" by (simp only: div_mult2_eq [symmetric]) simp
    also have "\<dots> = byte a" unfolding q2 using u(2) by simp
    finally show ?thesis .
  qed
  show "be_bytes32 (from_be_bytes32 bs) = bs"
    unfolding bs from_be_bytes32_eq be_bytes32_eq q q2 q3
    by (simp only: mod_mult_self3 mod_mult_self4 mod_less of_char_less char_of_char)
qed


lemma split_at_checked_Some_iff:
  "split_at_checked n s = Some (x, y) \<longleftrightarrow> s = x @ y \<and> length x = n"
  by (auto simp: split_at_checked_def)

lemma bind_Some_pair_iff: "Option.bind m f = Some z \<longleftrightarrow> (\<exists>x y. m = Some (x, y) \<and> f (x, y) = Some z)"
  by (cases m) auto

lemma encoded_operation_decodes:
  assumes "to_normalized_toml d = Ok normalized" and "is_utf8 normalized" and "parse_toml toml normalized = Ok d"
    and "length workspace = 32" and "Path_is_absolute root" and "encode_flow_operation normalized workspace root = Ok operation"
  shows "decode_flow_operation toml operation = Some (d, workspace, root)"
proof -
  have root: "is_utf8 root" "length root < 2 ^ 32"
    and op: "operation = FLOW_OPERATION_HEADER @ be_bytes32 (length root) @ root @ workspace @ normalized"
    using assms(6) by (simp_all add: encode_flow_operation_def split: if_splits)
  show ?thesis
    using assms root by (simp add: decode_flow_operation_def op split_at_checked_def from_be_bytes32_inverse)
qed

text \<open>C31: A stored flow operation decodes to a definition, a workspace fingerprint and a root exactly when it is
  the encoding of these three: the definition is valid and the parser reads it back from its normalized
  document, the fingerprint has its 32 bytes and the root is absolute.\<close>

theorem flow_operation_roundtrip:
  "decode_flow_operation toml operation = Some (d, workspace, root) \<longleftrightarrow>
     (\<exists>normalized. to_normalized_toml d = Ok normalized \<and> is_utf8 normalized
        \<and> parse_toml toml normalized = Ok d \<and> length workspace = 32 \<and> Path_is_absolute root
        \<and> encode_flow_operation normalized workspace root = Ok operation)"
    (is "?decodes \<longleftrightarrow> (\<exists>normalized. ?encodes normalized)")
proof
  assume ?decodes
  then obtain bs normalized where d: "operation = FLOW_OPERATION_HEADER @ bs @ root @ workspace @ normalized"
      "length bs = 4" "length root = from_be_bytes32 bs" "is_utf8 root" "Path_is_absolute root"
      "length workspace = 32" "is_utf8 normalized" "parse_toml toml normalized = Ok d"
      "to_normalized_toml d = Ok normalized"
    by (auto simp: decode_flow_operation_def bind_eq_Some_conv strip_prefix_Some_iff split_at_checked_Some_iff
        split: if_splits sum.splits)
  then have "?encodes normalized"
    using be_bytes32_inverse [of bs] by (simp add: encode_flow_operation_def)
  then show "\<exists>normalized. ?encodes normalized" ..
next
  assume "\<exists>normalized. ?encodes normalized"
  then show ?decodes using encoded_operation_decodes by blast
qed

section \<open>The screens\<close>

text \<open>The attempt the engine issues for a step carries the step's index, identity and effect.\<close>

definition attempts_step :: "FlowDefinition \<Rightarrow> EffectAttempt \<Rightarrow> nat \<Rightarrow> bool" where
  "attempts_step d effect i \<longleftrightarrow> i < length (fd_steps d) \<and> ea_step_index effect = i
     \<and> ea_step_id effect = fs_id (fd_steps d ! i) \<and> ea_effect effect = fs_effect (fd_steps d ! i)"

lemma step_of_attempt: "attempts_step d effect i \<Longrightarrow> step_of_effect d effect = Ok (fd_steps d ! i)"
  by (simp add: attempts_step_def step_of_effect_def get_opt_def)

lemma command_prepared_iff:
  assumes "step_of_effect d effect = Ok step" and "fs_action step = Command program args relative"
    and "ea_effect effect = fs_effect step"
  shows "validate_supported_step platform root (fd_schema_version d) step = Ok () \<longleftrightarrow>
    (\<exists>command. prepare_command platform root d effect = Ok command)"
  using assms
  by (cases "program = ''git'' \<and> fs_effect step = ReadOnly \<and> fs_approval step = ApprovalMode.NoApproval")
    (auto simp: validate_supported_step_def prepare_command_def and_then_Inr_iff)

lemma validated_iff_prepared:
  assumes "attempts_step d effect i"
  shows "validate_supported_step platform root (fd_schema_version d) (fd_steps d ! i) = Ok () \<longleftrightarrow>
    (\<exists>prepared. prepare_effect_action platform root d effect = Ok prepared)"
proof (cases "fs_action (fd_steps d ! i)")
  case (Command program args relative)
  with command_prepared_iff [OF step_of_attempt [OF assms] Command] assms show ?thesis
    by (auto simp: prepare_effect_action_def step_of_attempt attempts_step_def and_then_Inr_iff)
next
  case (Connector connector capability resource)
  have "ea_effect effect = fs_effect (fd_steps d ! i)" using assms by (simp add: attempts_step_def)
  with Connector show ?thesis
    by (simp add: validate_supported_step_def prepare_effect_action_def step_of_attempt [OF assms])
qed


section \<open>What may run\<close>

text \<open>The read-only git commands, after the arguments that disable every configured helper program.\<close>

inductive read_only_git :: "string list \<Rightarrow> bool" where
  status: "list_all safe_git_status_argument options \<Longrightarrow> read_only_git (safe_git_config_args @ ''status'' # options)"
| revision: "options \<noteq> [] \<Longrightarrow> list_all safe_git_revision_argument options \<Longrightarrow>
    read_only_git (safe_git_config_args @ ''rev-parse'' # options)"
| diff: "options \<noteq> [] \<Longrightarrow> set options = {''--quiet''} \<Longrightarrow>
    read_only_git (safe_git_config_args @ [''diff'', ''--no-ext-diff'', ''--no-textconv''] @ options)"

lemma validated_git_args_read_only:
  assumes "validated_git_args args = Ok safe"
  shows "read_only_git safe"
proof (cases args)
  case (Cons command options)
  have "set options = {''--quiet''}" if "list_all safe_git_diff_argument options" "options \<noteq> []"
    using that by (cases options) (auto simp: safe_git_diff_argument_def list_all_iff)
  moreover have "options \<noteq> []" if "list_ex (\<lambda>a. a = ''--quiet'') (''diff'' # options)"
    using that by auto
  ultimately show ?thesis
    using assms Cons read_only_git.intros
    by (auto simp: validated_git_args_def git_args_with_safe_config_def split: if_splits)
qed (use assms in \<open>simp add: validated_git_args_def\<close>)

lemma resolved_executable:
  assumes "resolve_executable platform program root = Ok executable"
  shows "pf_is_file platform executable \<and> \<not> Path_starts_with executable root
    \<and> (\<exists>directory. Path_is_absolute directory
         \<and> pf_canonicalize platform (PathBuf_push directory program) = Some executable)"
proof -
  obtain inherited where found: "find (\<lambda>candidate. pf_is_file platform candidate \<and> \<not> Path_starts_with candidate root)
      (List.map_filter (\<lambda>directory. pf_canonicalize platform (PathBuf_push directory program))
        (filter Path_is_absolute inherited)) = Some executable"
    using assms by (auto simp: resolve_executable_def and_then_Inr_iff ok_or_Inr_iff)
  then have "executable \<in> set (List.map_filter (\<lambda>directory. pf_canonicalize platform (PathBuf_push directory program))
        (filter Path_is_absolute inherited))"
    and "pf_is_file platform executable \<and> \<not> Path_starts_with executable root"
    by (auto simp: find_Some_iff in_set_conv_nth)
  then show ?thesis by (auto simp: map_filter_def)
qed

lemma prepared_command_cases:
  assumes "prepare_effect_action platform root d effect = Ok (PreparedCommand command)"
  obtains args relative where
    "canonical_working_directory platform root relative = Ok (pr_working_directory command)"
    "validated_git_args args = Ok (pr_args command)" "ea_effect effect = ReadOnly"
    "resolve_executable platform ''git'' root = Ok (pr_program command)" "pr_execution_root command = root"
proof -
  obtain step where step: "step_of_effect d effect = Ok step"
    using assms by (auto simp: prepare_effect_action_def and_then_Inr_iff)
  have "prepare_command platform root d effect = Ok command"
    using assms by (cases "fs_action step")
      (auto simp: prepare_effect_action_def step and_then_Inr_iff split: if_splits)
  with step show thesis
    by (auto simp: prepare_command_def and_then_Inr_iff split: StepAction.split_asm if_split_asm intro: that)
qed

lemma prepared_connector_read_only:
  assumes "prepare_effect_action platform root d effect = Ok (PreparedConnector prepared)"
  shows "ea_effect effect = ReadOnly"
proof -
  obtain step where step: "step_of_effect d effect = Ok step"
    using assms by (auto simp: prepare_effect_action_def and_then_Inr_iff)
  show ?thesis
    using assms by (cases "fs_action step")
      (auto simp: prepare_effect_action_def step and_then_Inr_iff split: if_splits)
qed


text \<open>A flow of one git command, on a machine where git is outside the project.\<close>

definition git_step :: FlowStep where
  "git_step = scan_step\<lparr>fs_action := Command ''git'' [''status'', ''--short''] ''.''\<rparr>"

definition git_flow :: FlowDefinition where "git_flow = demo_flow\<lparr>fd_steps := [git_step]\<rparr>"

definition demo_platform :: Platform where
  "demo_platform = \<lparr>pf_canonicalize = (\<lambda>path. if path = ''/repo/.'' then Some ''/repo'' else Some path),
     pf_is_dir = (\<lambda>path. path = ''/repo''), pf_is_file = (\<lambda>path. path = ''/bin/git''),
     pf_path = Some [''.'', ''/bin''], pf_discover_project = (\<lambda>root. Some (root, ''p-1'')),
     pf_fingerprint = (\<lambda>_. Some (replicate 32 (CHR ''f''))), pf_identity_holds = (\<lambda>_. True)\<rparr>"

definition git_command :: PreparedCommand where
  "git_command = \<lparr>pr_program = ''/bin/git'', pr_args = git_args_with_safe_config [''status'', ''--short''],
     pr_working_directory = ''/repo'', pr_execution_root = ''/repo''\<rparr>"

lemma git_command_prepared:
  "prepare_effect_action demo_platform ''/repo'' git_flow scan_attempt = Ok (PreparedCommand git_command)"
  by code_simp



end
