(* ===== verification/Worker_Safety.thy ===== *)
theory Worker_Safety
  imports Worker_Assertions Worker_Guarantees
begin

text \<open>
  What a worker does is authorized and recorded first: every command it launches and every connector it
  calls belongs to an attempt that the stored checkpoint shows in flight, and was allowed by the store,
  under the worker's lease, in the step before.
\<close>

section \<open>What the log shows\<close>

definition in_flight :: "FlowSnapshot \<Rightarrow> EffectAttempt \<Rightarrow> bool" where
  "in_flight snapshot effect \<longleftrightarrow> ea_step_index effect < length (sn_steps snapshot)
     \<and> ss_id (sn_steps snapshot ! ea_step_index effect) = ea_step_id effect
     \<and> (\<exists>at. ss_state (sn_steps snapshot ! ea_step_index effect) = InFlight (ea_attempt effect) at)"

definition checkpointed :: "Host \<Rightarrow> RequestId \<Rightarrow> Db \<Rightarrow> FlowSnapshot \<Rightarrow> bool" where
  "checkpointed host i db snapshot \<longleftrightarrow> (\<exists>stored. read_flow_checkpoint i db = Ok (Some stored)
     \<and> cd_decode_snapshot (ho_codec host) (sc_snapshot_bytes stored) = Some snapshot)"

text \<open>An authorization backs the attempt: under the worker's lease the store allowed the effect, and the
  checkpoint it held then says that the attempt is in flight.\<close>

fun backs :: "Host \<Rightarrow> RequestId \<Rightarrow> string \<Rightarrow> EffectAttempt \<Rightarrow> Act \<Rightarrow> bool" where
  "backs host i token effect (Authorized lease n db) \<longleftrightarrow> le_request_id lease = i \<and> le_token lease = token
     \<and> validate_flow_effect_authorization (ho_sha256 host) lease n db = Ok FlowEffectAuthorization.Allowed
     \<and> (\<exists>snapshot. checkpointed host i db snapshot \<and> in_flight snapshot effect)"
| "backs host i token effect _ \<longleftrightarrow> False"

definition harmless_command :: "EffectAttempt \<Rightarrow> PreparedCommand \<Rightarrow> bool" where
  "harmless_command effect command \<longleftrightarrow> ea_effect effect = ReadOnly \<and> read_only_git (pr_args command)
     \<and> \<not> Path_starts_with (pr_program command) (pr_execution_root command)"

fun act_allowed :: "Host \<Rightarrow> RequestId \<Rightarrow> string \<Rightarrow> Act \<Rightarrow> Act list \<Rightarrow> bool" where
  "act_allowed host i token (Authorized _ _ _) earlier \<longleftrightarrow> True"
| "act_allowed host i token (Launched effect command) earlier \<longleftrightarrow>
     earlier \<noteq> [] \<and> backs host i token effect (hd earlier) \<and> harmless_command effect command"
| "act_allowed host i token (Invoked effect step) earlier \<longleftrightarrow>
     earlier \<noteq> [] \<and> backs host i token effect (hd earlier) \<and> ea_effect effect = ReadOnly"

fun acts_allowed :: "Host \<Rightarrow> RequestId \<Rightarrow> string \<Rightarrow> Act list \<Rightarrow> bool" where
  "acts_allowed host i token [] \<longleftrightarrow> True"
| "acts_allowed host i token (act # earlier) \<longleftrightarrow>
     act_allowed host i token act earlier \<and> acts_allowed host i token earlier"

definition undisturbed :: "string \<Rightarrow> Tick list \<Rightarrow> bool" where
  "undisturbed token script \<longleftrightarrow> list_all (\<lambda>t. list_all (foreign_op token) (tk_others t)) script"

definition calm :: "Host \<Rightarrow> RequestId \<Rightarrow> string \<Rightarrow> World \<Rightarrow> bool" where
  "calm host i token w \<longleftrightarrow> store_inv (w_db w) \<and> undisturbed token (w_script w) \<and> acts_allowed host i token (w_log w)"

text \<open>While the worker holds the lease, the stored checkpoint is the one it saved.\<close>

definition pinned :: "Host \<Rightarrow> RequestId \<Rightarrow> string \<Rightarrow> FlowSnapshot \<Rightarrow> World \<Rightarrow> bool" where
  "pinned host i token snapshot w \<longleftrightarrow> calm host i token w
     \<and> (token_of i (w_db w) = Some token \<longrightarrow> checkpointed host i (w_db w) snapshot)"

definition armed :: "Host \<Rightarrow> RequestId \<Rightarrow> string \<Rightarrow> EffectAttempt \<Rightarrow> World \<Rightarrow> bool" where
  "armed host i token effect w \<longleftrightarrow> calm host i token w \<and> w_log w \<noteq> [] \<and> backs host i token effect (hd (w_log w))"

lemma run_ops_inv: "store_inv db \<Longrightarrow> store_inv (run_ops host ops db)"
  unfolding run_ops_def by (induction ops arbitrary: db) (simp_all add: op_keeps_inv)

lemma run_ops_checkpoint:
  assumes "list_all (foreign_op token) ops" and "store_inv db" and "token_of i (run_ops host ops db) = Some token"
  shows "token_of i db = Some token \<and> read_flow_checkpoint i (run_ops host ops db) = read_flow_checkpoint i db"
  using assms
proof (induction ops arbitrary: db)
  case (Cons op ops)
  let ?r = "apply_store_op (ho_codec host) (ho_sha256 host) op db"
  have rest: "run_ops host (op # ops) db = run_ops host ops (snd ?r)" by (simp add: run_ops_def)
  from Cons.IH [of "snd ?r"] Cons.prems op_keeps_inv [of db]
  have "token_of i (snd ?r) = Some token"
    and "read_flow_checkpoint i (run_ops host ops (snd ?r)) = read_flow_checkpoint i (snd ?r)"
    by (simp_all add: rest)
  with foreign_op_checkpoint [of token op db "ho_codec host" "ho_sha256 host" "fst ?r" "snd ?r" i] Cons.prems rest
  show ?case by simp
qed (simp add: run_ops_def)

lemma renew_checkpoint:
  assumes "store_inv db" and "token_of i (snd (renew lease n d db)) = Some token"
  shows "token_of i db = Some token
    \<and> read_flow_checkpoint i (snd (renew lease n d db)) = read_flow_checkpoint i db"
proof -
  have "apply_store_op undefined undefined (Renew lease n d) db
      = (and_then (fst (renew lease n d db)) (\<lambda>_. Ok Done), snd (renew lease n d db))"
    by (simp add: reply_def)
  then show ?thesis
    using assms by (rule quiet_op_checkpoint) (auto simp: and_then_Inr_iff)
qed

lemma renewed_inv: "store_inv db \<Longrightarrow> store_inv (snd (renew lease n d db))"
  using op_keeps_inv [of db undefined undefined "Renew lease n d"] by (simp add: reply_def)

interpretation calm: recording_assertion host "calm host i token" for host i token
  by unfold_locales (auto simp: calm_def undisturbed_def run_ops_inv renewed_inv)

interpretation pinned: stable_assertion host "pinned host i token snapshot" for host i token snapshot
proof unfold_locales
  fix w t ts assume w: "pinned host i token snapshot w" "w_script w = t # ts"
  then show "pinned host i token snapshot (w\<lparr>w_db := run_ops host (tk_others t) (w_db w), w_script := ts\<rparr>)"
    using run_ops_checkpoint [of token "tk_others t" "w_db w" i host]
    by (auto simp: pinned_def calm_def undisturbed_def run_ops_inv checkpointed_def)
next
  fix w lease n d assume w: "pinned host i token snapshot w"
  then show "pinned host i token snapshot (w\<lparr>w_db := snd (renew lease n d (w_db w))\<rparr>)"
    using renew_checkpoint [of "w_db w" i lease n d token]
    by (auto simp: pinned_def calm_def renewed_inv checkpointed_def)
qed

interpretation armed: stable_assertion host "armed host i token effect" for host i token effect
  by unfold_locales (auto simp: armed_def calm_def undisturbed_def run_ops_inv renewed_inv)

lemma armed_calm: "armed host i token effect w \<Longrightarrow> calm host i token w"
  by (simp add: armed_def)

lemma pinned_calm: "pinned host i token snapshot w \<Longrightarrow> calm host i token w"
  by (simp add: pinned_def)

text \<open>A triple that starts from a stronger assertion and may end in the weaker one.\<close>

definition relaxes :: "(World \<Rightarrow> bool) \<Rightarrow> (World \<Rightarrow> bool) \<Rightarrow> 'a io \<Rightarrow> ('a \<Rightarrow> bool) \<Rightarrow> bool" where
  "relaxes K K' m R \<longleftrightarrow> triple K m (\<lambda>x w. K' w \<and> R x) K'"

lemma relaxes_bind:
  assumes "yields K m S" and "\<And>w. K w \<Longrightarrow> K' w" and "\<And>x. S x \<Longrightarrow> relaxes K K' (f x) R"
  shows "relaxes K K' (io_bind m f) R"
  unfolding relaxes_def
proof (rule triple_bind)
  show "triple K m (\<lambda>x w. K w \<and> S x) K'"
    using assms(1,2) by (auto simp: yields_def elim: triple_conseq)
  show "triple (\<lambda>w. K w \<and> S x) (f x) (\<lambda>x w. K' w \<and> R x) K'" for x
    using assms(3) [of x] by (cases "S x") (auto simp: relaxes_def triple_def)
qed

lemma relaxes_then:
  assumes "relaxes K K' m S" and "\<And>x. S x \<Longrightarrow> yields K' (f x) R"
  shows "relaxes K K' (io_bind m f) R"
  unfolding relaxes_def
proof (rule triple_bind)
  show "triple K m (\<lambda>x w. K' w \<and> S x) K'" using assms(1) by (simp add: relaxes_def)
  show "triple (\<lambda>w. K' w \<and> S x) (f x) (\<lambda>x w. K' w \<and> R x) K'" for x
    using assms(2) [of x] by (cases "S x") (auto simp: yields_def triple_def)
qed

lemma yields_relaxes: "yields K' m R \<Longrightarrow> (\<And>w. K w \<Longrightarrow> K' w) \<Longrightarrow> relaxes K K' m R"
  unfolding yields_def relaxes_def by (erule triple_conseq) auto

lemma launching:
  assumes "harmless_command effect command"
  shows "relaxes (armed host i token effect) (calm host i token) (note_act (Launched effect command)) (\<lambda>_. True)"
  using assms by (simp add: relaxes_def triple_def meets_def note_act_def armed_def calm_def)

lemma invoking:
  assumes "ea_effect effect = ReadOnly"
  shows "relaxes (armed host i token effect) (calm host i token) (note_act (Invoked effect step)) (\<lambda>_. True)"
  using assms by (simp add: relaxes_def triple_def meets_def note_act_def armed_def calm_def)

lemma awaiting:
  assumes "stable_assertion host K" and "stable_assertion host K'" and "\<And>w. K w \<Longrightarrow> K' w"
    and "relaxes K K' begin_work (\<lambda>_. True)"
  shows "relaxes K K' (await_workspace_fingerprint_with_lease host begin_work finished leased)
    (\<lambda>(_, leased'). same_lease leased leased')"
  unfolding await_workspace_fingerprint_with_lease_def
proof (rule relaxes_bind [OF stable_assertion.renew_poll [OF assms(1)] assms(3)])
  fix p :: "LeaseWait \<times> LeasedRequest" assume p: "case p of (_, l) \<Rightarrow> same_lease leased l"
  obtain wait l where pl: "p = (wait, l)" "same_lease leased l" using p by (cases p) auto
  have "yields K' (io_loop script_left (lease_turn host finished) l) (\<lambda>(_, leased'). same_lease leased leased')"
    by (rule yields_weaken [OF stable_assertion.lease_loop [OF assms(2)]]) (auto intro: same_lease_trans [OF pl(2)])
  with assms(3,4) show "relaxes K K' (case p of (wait, leased) \<Rightarrow>
      (case wait of LeaseWait.Cancelled \<Rightarrow> io_return (WorkspaceFingerprintLease.Cancelled, leased)
        | LeaseWait.StaleLease \<Rightarrow> io_return (WorkspaceFingerprintLease.StaleLease, leased)
        | Ready \<Rightarrow> io_bind begin_work (\<lambda>_. io_loop script_left (lease_turn host finished) leased)))
      (\<lambda>(_, leased'). same_lease leased leased')"
    by (cases wait) (simp_all add: pl relaxes_then yields_relaxes [OF yields_return])
qed

lemma awaiting_same:
  assumes "stable_assertion host K"
  shows "yields K (await_workspace_fingerprint_with_lease host (io_return ()) finished leased)
    (\<lambda>(_, leased'). same_lease leased leased')"
proof -
  have "relaxes K K (io_return ()) (\<lambda>_. True)" by (simp add: yields_relaxes [OF yields_return])
  from awaiting [OF assms assms _ this] show ?thesis by (simp add: relaxes_def yields_def)
qed

lemma command_raw:
  assumes "harmless_command effect command"
  shows "relaxes (armed host i token effect) (calm host i token) (execute_command_raw host effect command leased)
    (\<lambda>(_, leased'). same_lease leased leased')"
  unfolding execute_command_raw_def
  by (rule relaxes_bind [OF armed.tick armed_calm])
    (auto intro!: yields_relaxes [OF yields_return] relaxes_then [OF launching [OF assms]] calm.child_loop
      dest: armed_calm)

lemma rechecking:
  assumes "same_lease leased l"
  shows "yields (calm host i token) (recheck_workspace host command root workspace execution l)
    (\<lambda>(_, leased'). same_lease leased leased')"
  unfolding recheck_workspace_def
  by (auto simp: assms intro!: yields_rules yields_bind [OF calm.here]
        yields_bind [OF awaiting_same [OF calm.stable_assertion_axioms]] same_lease_trans [OF assms]
      split: WorkspaceFingerprintLease.splits sum.splits prod.splits)

lemma command_in_workspace:
  assumes "harmless_command effect command"
  shows "relaxes (armed host i token effect) (calm host i token)
    (execute_command_in_workspace host effect command root workspace leased) (\<lambda>(_, leased'). same_lease leased leased')"
  unfolding execute_command_in_workspace_def
proof (rule relaxes_bind [OF armed.here armed_calm])
  fix here :: Platform
  have "yields (calm host i token) (case p of (execution, l) \<Rightarrow> (case execution of
        CommandExecution.Completed _ _ \<Rightarrow> recheck_workspace host command root workspace execution l
      | _ \<Rightarrow> io_return (execution, l))) (\<lambda>(_, leased'). same_lease leased leased')"
    if "case p of (_, l) \<Rightarrow> same_lease leased l" for p
    using that by (auto intro!: yields_rules rechecking split: CommandExecution.splits)
  then show "relaxes (armed host i token effect) (calm host i token)
     (if pr_working_directory command \<noteq> root \<or> \<not> pf_identity_holds here root
      then io_return (CommandExecution.WorkspaceChanged, leased)
      else io_bind (execute_command_raw host effect command leased) (\<lambda>(execution, l). (case execution of
        CommandExecution.Completed _ _ \<Rightarrow> recheck_workspace host command root workspace execution l
      | _ \<Rightarrow> io_return (execution, l)))) (\<lambda>(_, leased'). same_lease leased leased')"
    by (auto intro!: yields_relaxes [OF yields_return] relaxes_then [OF command_raw [OF assms]] dest: armed_calm)
qed

lemma connector_step:
  assumes "ea_effect effect = ReadOnly"
  shows "relaxes (armed host i token effect) (calm host i token)
    (execute_connector_step host effect step leased) (\<lambda>(_, leased'). same_lease leased leased')"
proof -
  have failed: "yields (calm host i token) (failed_connector_outcome host summary retryable) (\<lambda>_. True)"
    for summary retryable
    unfolding failed_connector_outcome_def by (rule yields_bind [OF calm.engine_result]) (rule yields_return, simp)
  have payloads: "yields (calm host i token) (retain_payloads host evidence bytes) (\<lambda>_. True)" for evidence bytes
    by (induction bytes arbitrary: evidence)
      (auto simp: retain_connector_evidence_def intro!: yields_rules yields_bind [OF calm.evidence_kept])
  have succeeded: "yields (calm host i token) (connector_result host success) (\<lambda>_. True)" for success
    unfolding connector_result_def Let_def
    by (rule yields_bind [OF payloads], rule yields_bind [OF calm.engine_result]) (rule yields_return, simp)
  show ?thesis
    unfolding execute_connector_step_def
    by (rule relaxes_bind [OF armed.tick armed_calm])
      (auto intro!: yields_relaxes [OF yields_bind [OF failed]] yields_rules yields_bind [OF failed] yields_bind [OF succeeded]
        relaxes_then [OF awaiting [OF armed.stable_assertion_axioms calm.stable_assertion_axioms _ invoking [OF assms]]]
        dest: armed_calm split: ConnectorAnswer.splits WorkspaceFingerprintLease.splits sum.splits)
qed

section \<open>Saving before acting\<close>

lemma decoded_snapshot:
  "decode_flow_checkpoint codec i stored = Ok checkpoint \<Longrightarrow>
     cd_decode_snapshot codec (sc_snapshot_bytes stored) = Some (fc_snapshot checkpoint)"
  by (drule sym) (auto simp: decode_flow_checkpoint_def map_err_Inr_iff and_then_Inr_iff ok_or_Inr_iff
      eq_commute [of "Ok checkpoint"] split: if_split_asm)

lemma save_pins:
  assumes "le_request_id (lr_lease leased) = i"
  shows "triple (calm host i token) (save_checkpoint host leased revision snapshot transition terminal)
    (\<lambda>_ w. calm host i token w \<and> (terminal = None \<longrightarrow> checkpointed host i (w_db w) snapshot)) (calm host i token)"
  unfolding save_checkpoint_def store_write_def
proof (rule triple_bind [OF calm.tick [unfolded yields_def]])
  fix t :: Tick
  let ?save = "\<lparr>sv_lease = lr_lease leased, sv_expected_revision = revision, sv_snapshot = snapshot,
        sv_transition = transition, sv_terminal_result = terminal, sv_updated_at_ms = tk_now t\<rparr>"
  let ?r = "save_flow_checkpoint (ho_codec host) (ho_sha256 host) ?save"
  have kept: "calm host i token (w\<lparr>w_db := snd (?r (w_db w))\<rparr>)" if "calm host i token w" for w
    using calm.write_keeps [OF that, of "\<lambda>db. snd (?r db)"] saved_inv by simp
  have "checkpointed host i (snd (?r db)) snapshot" if inv: "store_inv db" and ok: "fst (?r db) = Ok out" and none: "terminal = None" for db out
  proof -
    have saved: "?r db = (Ok out, snd (?r db))" using ok by (cases "?r db") simp
    then obtain stored where stored: "read_flow_checkpoint i (snd (?r db)) = Ok (Some stored)"
      "decode_flow_checkpoint (ho_codec host) i stored = Ok (so_checkpoint out)"
      using saved_reads [OF saved] inv none assms by (auto simp: store_inv_def)
    have "fc_snapshot (so_checkpoint out) = snapshot"
      using saved by (auto simp: save_flow_checkpoint_def transaction_Ok elim!: save_checkpoint_cases)
    moreover have "cd_decode_snapshot (ho_codec host) (sc_snapshot_bytes stored) = Some (fc_snapshot (so_checkpoint out))"
      using decoded_snapshot [OF stored(2)] .
    ultimately show ?thesis using stored(1) by (auto simp: checkpointed_def)
  qed
  with kept show "triple (\<lambda>w. calm host i token w \<and> True)
     (\<lambda>w. io_lift (fst (?r (w_db w))) (w\<lparr>w_db := snd (?r (w_db w))\<rparr>))
     (\<lambda>_ w. calm host i token w \<and> (terminal = None \<longrightarrow> checkpointed host i (w_db w) snapshot)) (calm host i token)"
    by (auto simp: triple_def meets_def io_lift_def io_raise_def io_return_def calm_def split: sum.splits)
qed

lemma persist_pins:
  assumes "le_request_id (lr_lease leased) = i"
  shows "triple (calm host i token) (persist_update host leased revision update)
    (\<lambda>(decision, _) w. (calm host i token w \<and> decision = up_decision update)
       \<and> (starts decision \<longrightarrow> pinned host i token (up_snapshot update) w)) (calm host i token)"
  unfolding persist_update_def
proof (rule triple_bind)
  let ?P = "\<lambda>terminal w. calm host i token w \<and> (starts (up_decision update) \<longrightarrow> terminal = None)"
  show "triple (calm host i token) (io_lift (update_terminal_result host leased (up_decision update))) ?P (calm host i token)"
    by (rule triple_lift) (auto simp: update_terminal_result_def starts_def split: RunDecision.splits)
  fix terminal
  show "triple (?P terminal)
    (io_bind (save_checkpoint host leased revision (up_snapshot update) (up_transition update) terminal) (\<lambda>saved.
       io_return (up_decision update, fc_checkpoint_revision (so_checkpoint saved), map_option ft_encoded_result terminal)))
    (\<lambda>(decision, _) w. (calm host i token w \<and> decision = up_decision update)
       \<and> (starts decision \<longrightarrow> pinned host i token (up_snapshot update) w)) (calm host i token)"
  proof (cases "starts (up_decision update) \<longrightarrow> terminal = None")
    case True
    show ?thesis
    proof (rule triple_bind)
      show "triple (?P terminal) (save_checkpoint host leased revision (up_snapshot update) (up_transition update) terminal)
        (\<lambda>_ w. calm host i token w \<and> (terminal = None \<longrightarrow> checkpointed host i (w_db w) (up_snapshot update))) (calm host i token)"
        by (rule triple_conseq [OF save_pins [OF assms]]) simp_all
      fix saved
      show "triple (\<lambda>w. calm host i token w \<and> (terminal = None \<longrightarrow> checkpointed host i (w_db w) (up_snapshot update)))
        (io_return (up_decision update, fc_checkpoint_revision (so_checkpoint saved), map_option ft_encoded_result terminal))
        (\<lambda>(decision, _) w. (calm host i token w \<and> decision = up_decision update)
           \<and> (starts decision \<longrightarrow> pinned host i token (up_snapshot update) w)) (calm host i token)"
        using True by (intro triple_return) (simp add: pinned_def)
    qed
  qed (auto simp: triple_def)
qed

lemma reconciling_pins:
  assumes "le_request_id (lr_lease leased) = i"
  shows "triple (calm host i token) (persist_update_reconciling_cancellation host leased revision run previous update)
    (\<lambda>((decision, _), _) w. calm host i token w \<and> (starts decision \<longrightarrow> pinned host i token (up_snapshot update) w))
    (calm host i token)"
  unfolding persist_update_reconciling_cancellation_def
proof (rule triple_bind)
  let ?Q = "\<lambda>r w. calm host i token w \<and> (case r of Inl _ \<Rightarrow> True
      | Inr (decision, _) \<Rightarrow> starts decision \<longrightarrow> pinned host i token (up_snapshot update) w)"
  show "triple (calm host i token) (io_attempt (persist_update host leased revision update)) ?Q (calm host i token)"
    by (rule triple_attempt, rule triple_conseq [OF persist_pins [OF assms]]) auto
  fix r :: "StoreError + Persisted"
  have "triple (calm host i token) (resume_cancelled host leased revision run previous error)
    (\<lambda>((decision, _), _) w. calm host i token w \<and> (starts decision \<longrightarrow> pinned host i token (up_snapshot update) w))
    (calm host i token)" for error
    by (rule triple_conseq [OF calm.cancelled_instead [unfolded yields_def]]) auto
  then show "triple (?Q r) (case r of
        Inr persisted \<Rightarrow> io_return (persisted, run)
      | Inl error \<Rightarrow>
          if cancellation_conflict update error then resume_cancelled host leased revision run previous error
          else io_raise error)
    (\<lambda>((decision, _), _) w. calm host i token w \<and> (starts decision \<longrightarrow> pinned host i token (up_snapshot update) w))
    (calm host i token)"
    by (auto split: sum.splits intro!: triple_return triple_raise)
qed

lemma settle_pins:
  assumes "le_request_id (lr_lease (pg_leased pg)) = i"
  shows "triple (calm host i token) (settle_update host pg updated)
    (\<lambda>pg' w. (calm host i token w \<and> pg_leased pg' = pg_leased pg)
       \<and> (\<forall>decision encoded. pg_pending pg' = Some (decision, encoded) \<longrightarrow> starts decision \<longrightarrow>
            pinned host i token (up_snapshot (fst updated)) w)) (calm host i token)"
  unfolding settle_update_def case_prod_unfold
  by (rule triple_bind [OF reconciling_pins [OF assms]]) (auto simp: case_prod_unfold intro!: triple_return)

lemma prepare_in_flight:
  assumes "fst (prepare_effect effect n run) = Ok update"
  shows "in_flight (up_snapshot update) effect"
proof -
  have step: "ea_step_index effect < length (run_steps run)" "ss_id (run_steps run ! ea_step_index effect) = ea_step_id effect"
    using assms by (auto simp: prepare_effect_def validate_effect_def get_opt_def early_def split: if_split_asm sum.split_asm option.split_asm)
  from assms show ?thesis
    by (auto simp: prepare_effect_def changed_def early_def Let_def in_flight_def step on_snapshot_def set_status_def
        set_state_def set_issued_def upd_step_def split: if_split_asm sum.split_asm StepState.split_asm)
qed

lemma authorized_holds:
  assumes "validate_flow_effect_authorization sha256 lease n db = Ok answer" and "store_inv db"
  shows "token_of (le_request_id lease) db = Some (le_token lease)"
  using assms holder_token [of db lease]
  by (auto simp: validate_flow_effect_authorization_def ensure_live_flow_lease_def and_then_Inr_iff ok_or_Inr_iff
      list_ex_iff dest!: row_where_Some)

lemma check_arms:
  assumes "le_request_id (lr_lease leased) = i" and "le_token (lr_lease leased) = token" and "in_flight snapshot effect"
  shows "triple (pinned host i token snapshot) (check_authorization host leased)
      (\<lambda>answer w. if answer = FlowEffectAuthorization.Allowed then armed host i token effect w else calm host i token w)
      (calm host i token)"
  unfolding check_authorization_def
proof (rule triple_bind)
  show "triple (pinned host i token snapshot) (store_read host (\<lambda>now db.
     and_then (validate_flow_effect_authorization (ho_sha256 host) (lr_lease leased) now db) (\<lambda>answer.
     Ok (answer, now, db)))) (\<lambda>(answer, now, db) w. pinned host i token snapshot w \<and> db = w_db w
       \<and> validate_flow_effect_authorization (ho_sha256 host) (lr_lease leased) now db = Ok answer) (calm host i token)"
    unfolding store_read_def
    by (rule triple_bind, rule triple_conseq [OF pinned.tick [unfolded yields_def]], assumption, assumption, erule pinned_calm)
      (auto simp: triple_def meets_def io_lift_def io_raise_def io_return_def and_then_Inr_iff pinned_calm split: sum.splits)
next
  fix p :: "FlowEffectAuthorization \<times> u64 \<times> Db"
  obtain answer n db where p: "p = (answer, n, db)" by (cases p) auto
  have "armed host i token effect (w\<lparr>w_log := Authorized (lr_lease leased) n db # w_log w\<rparr>)"
    if "pinned host i token snapshot w" "db = w_db w"
      "validate_flow_effect_authorization (ho_sha256 host) (lr_lease leased) n db = Ok FlowEffectAuthorization.Allowed" for w
    using that authorized_holds [OF that(3)] assms by (auto simp: pinned_def calm_def armed_def)
  then show "triple (case p of (answer, now, db) \<Rightarrow> \<lambda>w. pinned host i token snapshot w \<and> db = w_db w
       \<and> validate_flow_effect_authorization (ho_sha256 host) (lr_lease leased) now db = Ok answer)
     (case p of (answer, now, db) \<Rightarrow> io_bind (if answer = FlowEffectAuthorization.Allowed
       then note_act (Authorized (lr_lease leased) now db) else io_return ()) (\<lambda>_. io_return answer))
     (\<lambda>answer w. if answer = FlowEffectAuthorization.Allowed then armed host i token effect w else calm host i token w)
     (calm host i token)"
    unfolding p by (auto simp: triple_def meets_def io_bind_def note_act_def io_return_def pinned_calm)
qed

lemma boundary_arms:
  assumes "le_request_id (lr_lease leased) = i" and "le_token (lr_lease leased) = token" and "in_flight snapshot effect"
  shows "triple (pinned host i token snapshot) (effect_boundary_authorization host leased)
    (\<lambda>answer w. if answer = Allowed then armed host i token effect w else calm host i token w) (calm host i token)"
  unfolding effect_boundary_authorization_def
proof (rule triple_bind)
  let ?Q = "\<lambda>r w. if r = Ok FlowEffectAuthorization.Allowed then armed host i token effect w else calm host i token w"
  show "triple (pinned host i token snapshot) (io_attempt (check_authorization host leased)) ?Q (calm host i token)"
    by (rule triple_attempt, rule triple_conseq [OF check_arms [OF assms]]) auto
  have "yields (calm host i token) (refused_authorization host leased error) (\<lambda>answer. answer \<noteq> Allowed)" for error
    unfolding refused_authorization_def
    by (auto split: StoreError.split intro!: yields_rules yields_bind [OF calm.cancelled])
  then have "triple (calm host i token) (refused_authorization host leased error)
       (\<lambda>answer w. if answer = Allowed then armed host i token effect w else calm host i token w) (calm host i token)" for error
    unfolding yields_def by (rule triple_conseq) auto
  then show "triple (?Q r) (case r of
        Inr FlowEffectAuthorization.Allowed \<Rightarrow> io_return Allowed
      | Inr FlowEffectAuthorization.Denied \<Rightarrow> io_return Denied
      | Inl error \<Rightarrow> refused_authorization host leased error)
     (\<lambda>answer w. if answer = Allowed then armed host i token effect w else calm host i token w) (calm host i token)" for r
    by (cases r) (auto split: FlowEffectAuthorization.split intro: triple_return)
qed

section \<open>One turn\<close>

lemma executing_turn:
  assumes "same_lease leased (pg_leased pg)"
    and "\<And>command. prepared = Ok (PreparedCommand command) \<Longrightarrow> harmless_command effect command"
    and "\<And>step. prepared = Ok (PreparedConnector step) \<Longrightarrow> ea_effect effect = ReadOnly"
    and "\<not> is_err prepared"
  shows "relaxes (armed host i token effect) (calm host i token)
    (execute_prepared host workspace pg effect authority prepared) (goes_on leased)"
proof -
  obtain p where p: "prepared = Ok p" using assms(4) by (cases prepared) (simp_all add: is_err_def)
  show ?thesis
  proof (cases p)
    case (PreparedCommand command)
    with assms(2) p have harmless: "harmless_command effect command" by simp
    show ?thesis
      unfolding execute_prepared_def p PreparedCommand sum.case PreparedEffect.case
      by (rule relaxes_bind [OF yields_lift [where R = "\<lambda>_. True"] armed_calm], simp, assumption,
          rule relaxes_then [OF command_in_workspace [OF harmless]])
        (auto intro!: calm.command_turn same_lease_trans [OF assms(1)])
  next
    case (PreparedConnector step)
    with assms(3) p have read_only: "ea_effect effect = ReadOnly" by simp
    show ?thesis
      unfolding execute_prepared_def p PreparedConnector sum.case PreparedEffect.case
      by (rule relaxes_then [OF connector_step [OF read_only]])
        (auto intro!: calm.connector_turn same_lease_trans [OF assms(1)])
  qed
qed

lemma rejected_turn:
  assumes "same_lease leased (pg_leased pg)" and "is_err prepared"
  shows "yields (calm host i token) (execute_started host workspace pg effect authority prepared) (goes_on leased)"
proof -
  obtain rejection where "prepared = Err rejection" using assms(2) by (cases prepared) (simp_all add: is_err_def)
  with assms show ?thesis
    by (auto simp: execute_started_def execute_prepared_def split: CommandRejection.splits intro: calm.failing_turn)
qed

lemma started_turn:
  assumes "same_lease leased (pg_leased pg)" and "le_request_id (lr_lease leased) = i" "le_token (lr_lease leased) = token"
    and "\<And>command. prepared = Ok (PreparedCommand command) \<Longrightarrow> harmless_command effect command"
    and "\<And>step. prepared = Ok (PreparedConnector step) \<Longrightarrow> ea_effect effect = ReadOnly"
    and "in_flight snapshot effect"
  shows "relaxes (pinned host i token snapshot) (calm host i token)
    (execute_started host workspace pg effect authority prepared) (goes_on leased)"
proof (cases "is_err prepared")
  case True
  show ?thesis by (rule yields_relaxes [OF rejected_turn [OF assms(1) True] pinned_calm])
next
  case False
  have ours: "le_request_id (lr_lease (pg_leased pg)) = i" "le_token (lr_lease (pg_leased pg)) = token"
    using assms(1-3) by (simp_all add: same_lease_def)
  have allowed: "triple (armed host i token effect) (execute_prepared host workspace pg effect authority prepared)
      (\<lambda>x w. calm host i token w \<and> goes_on leased x) (calm host i token)"
    using executing_turn [OF assms(1,4,5) False] by (simp add: relaxes_def)
  have denied: "triple (calm host i token) (next_turn (deny_effect host pg effect))
      (\<lambda>x w. calm host i token w \<and> goes_on leased x) (calm host i token)"
    using calm.denying_turn [OF assms(1)] by (simp add: yields_def)
  have cancelled: "triple (calm host i token) (next_turn (cancel_run host pg))
      (\<lambda>x w. calm host i token w \<and> goes_on leased x) (calm host i token)"
    using calm.cancelling_turn [OF assms(1)] by (simp add: yields_def)
  show ?thesis
    unfolding relaxes_def execute_started_def
    using False allowed denied cancelled
    by (auto intro!: triple_bind [OF boundary_arms [OF ours assms(6)]] split: EffectBoundaryAuthorization.splits)
qed

lemma pinning_turn:
  assumes "same_lease leased (pg_leased pg)" and "le_request_id (lr_lease leased) = i" "le_token (lr_lease leased) = token"
    and "\<And>command. prepared = Ok (PreparedCommand command) \<Longrightarrow> harmless_command effect command"
    and "\<And>step. prepared = Ok (PreparedConnector step) \<Longrightarrow> ea_effect effect = ReadOnly"
    and "in_flight snapshot effect"
  shows "relaxes (pinned host i token snapshot) (calm host i token)
    (pin_workspace host workspace root pg effect prepared) (goes_on leased)"
proof (cases "\<exists>command. prepared = Ok (PreparedCommand command)")
  case True
  then obtain command where command: "prepared = Ok (PreparedCommand command)" ..
  show ?thesis
    unfolding pin_workspace_def command sum.case PreparedEffect.case
  proof (rule relaxes_bind [OF awaiting_same [OF pinned.stable_assertion_axioms] pinned_calm])
    fix p :: "(string \<times> string) WorkspaceFingerprintLease \<times> LeasedRequest"
    assume p: "case p of (_, l) \<Rightarrow> same_lease (pg_leased pg) l"
    obtain awaited l where pl: "p = (awaited, l)" "same_lease (pg_leased pg) l" using p by (cases p) auto
    have l: "same_lease leased (pg_leased (pg\<lparr>pg_leased := l\<rparr>))" using same_lease_trans [OF assms(1) pl(2)] by simp
    have "relaxes (pinned host i token snapshot) (calm host i token) m (goes_on leased)"
      if "yields (calm host i token) m (goes_on leased)" for m
      by (rule yields_relaxes [OF that pinned_calm])
    moreover have "relaxes (pinned host i token snapshot) (calm host i token)
        (execute_started host workspace (pg\<lparr>pg_leased := l\<rparr>) effect authority (Ok (PreparedCommand command)))
        (goes_on leased)" for authority
      by (rule started_turn [OF l assms(2,3) _ _ assms(6)]) (use assms(4) command in auto)
    ultimately show "relaxes (pinned host i token snapshot) (calm host i token)
       (case p of (awaited, leased) \<Rightarrow>
          let pg = pg\<lparr>pg_leased := leased\<rparr> in
          (case awaited of
             WorkspaceFingerprintLease.Completed (Inr (fingerprint, root)) \<Rightarrow>
               if fingerprint = workspace
               then execute_started host workspace pg effect (Some root) (Inr (PreparedCommand command))
               else execute_started host workspace pg effect None (Err CommandRejection.WorkspaceChanged)
           | WorkspaceFingerprintLease.Completed (Inl _) \<Rightarrow>
               execute_started host workspace pg effect None (Err CommandRejection.WorkspaceChanged)
           | WorkspaceFingerprintLease.Cancelled \<Rightarrow> next_turn (cancel_run host pg)
           | WorkspaceFingerprintLease.StaleLease \<Rightarrow> io_return (Inr StaleLeaseFlow))) (goes_on leased)"
      unfolding pl using rejected_turn [OF l] calm.cancelling_turn [OF l]
      by (auto simp: Let_def is_err_def yields_return split: WorkspaceFingerprintLease.splits sum.splits)
  qed
next
  case False
  then have "pin_workspace host workspace root pg effect prepared = execute_started host workspace pg effect None prepared"
    by (auto simp: pin_workspace_def split: sum.splits PreparedEffect.splits)
  with started_turn [OF assms] show ?thesis by simp
qed

lemma prepared_harmless:
  assumes "prepare_effect_action platform root d effect = Ok (PreparedCommand command)"
  shows "harmless_command effect command"
  using assms by (rule prepared_command_cases)
    (auto simp: harmless_command_def validated_git_args_read_only dest: resolved_executable)

lemma starts_iff: "starts decision \<longleftrightarrow> (\<exists>effect replay. decision = Execute effect replay)"
  by (cases decision) (simp_all add: starts_def)

text \<open>After the start of the effect was saved, the checkpoint shows it while the lease is held.\<close>

definition effect_saved :: "Host \<Rightarrow> RequestId \<Rightarrow> string \<Rightarrow> EffectAttempt \<Rightarrow> LeasedRequest \<Rightarrow> Progress \<Rightarrow> World \<Rightarrow> bool" where
  "effect_saved host i token effect leased pg w \<longleftrightarrow> (calm host i token w \<and> pg_leased pg = leased)
     \<and> (\<forall>decision encoded. pg_pending pg = Some (decision, encoded) \<longrightarrow> starts decision \<longrightarrow>
          (\<exists>snapshot. pinned host i token snapshot w \<and> in_flight snapshot effect))"

lemma start_saved:
  assumes "le_request_id (lr_lease (pg_leased pg)) = i"
  shows "triple (calm host i token)
      (io_bind (engine_call host (prepare_effect effect n (pg_run pg))) (settle_update host pg))
      (effect_saved host i token effect (pg_leased pg)) (calm host i token)"
proof (rule triple_bind [OF calm.engine_called [unfolded yields_def]])
  fix updated :: "EngineUpdate \<times> FlowRun"
  show "triple (\<lambda>w. calm host i token w \<and> (case updated of (update, run) \<Rightarrow>
      fst (prepare_effect effect n (pg_run pg)) = Ok update \<and> run = snd (prepare_effect effect n (pg_run pg))))
    (settle_update host pg updated) (effect_saved host i token effect (pg_leased pg)) (calm host i token)"
  proof (cases "fst (prepare_effect effect n (pg_run pg)) = Ok (fst updated)")
    case True
    show ?thesis
      by (rule triple_conseq [OF settle_pins [OF assms, of host token updated]])
        (use prepare_in_flight [OF True] in \<open>auto simp: effect_saved_def\<close>)
  qed (auto simp: triple_def split: prod.splits)
qed

lemma saved_turn:
  assumes "same_lease leased l" and "le_request_id (lr_lease leased) = i" "le_token (lr_lease leased) = token"
    and "\<And>command. prepared = Ok (PreparedCommand command) \<Longrightarrow> harmless_command effect command"
    and "\<And>step. prepared = Ok (PreparedConnector step) \<Longrightarrow> ea_effect effect = ReadOnly"
  shows "triple (effect_saved host i token effect l pg) (execute_saved host workspace root effect prepared pg)
    (\<lambda>x w. calm host i token w \<and> goes_on leased x) (calm host i token)"
proof (cases "\<exists>e replay encoded. pg_pending pg = Some (Execute e replay, encoded)")
  case True
  then obtain e replay encoded where pending: "pg_pending pg = Some (Execute e replay, encoded)" by blast
  have "meets (pin_workspace host workspace root (pg\<lparr>pg_pending := None\<rparr>) effect prepared w)
      (\<lambda>x w. calm host i token w \<and> goes_on leased x) (calm host i token)"
    if saved: "effect_saved host i token effect l pg w" for w
  proof -
    obtain snapshot where "pinned host i token snapshot w" "in_flight snapshot effect" "pg_leased pg = l"
      using saved pending by (auto simp: effect_saved_def starts_def)
    with pinning_turn [of leased "pg\<lparr>pg_pending := None\<rparr>" i token prepared effect snapshot host workspace root]
    show ?thesis using assms by (simp add: relaxes_def triple_def)
  qed
  then show ?thesis by (simp add: pending triple_def execute_saved_def)
next
  case False
  have "yields (calm host i token) (execute_saved host workspace root effect prepared pg) (goes_on leased)"
    if "pg_leased pg = l"
    using False assms(1) that
    by (auto simp: execute_saved_def intro!: yields_rules split: option.splits prod.splits RunDecision.splits)
  then show ?thesis
    by (cases "pg_leased pg = l") (auto simp: yields_def effect_saved_def triple_def)
qed

lemma starting_turn:
  assumes "same_lease leased (pg_leased pg)" and "le_request_id (lr_lease leased) = i" "le_token (lr_lease leased) = token"
  shows "yields (calm host i token) (start_effect host workspace root pg effect) (goes_on leased)"
  unfolding start_effect_def Let_def
proof (rule yields_bind [OF calm.here], rule yields_bind [OF calm.now], unfold yields_def, rule triple_bind [OF start_saved])
  show "le_request_id (lr_lease (pg_leased pg)) = i" using assms(1,2) by (simp add: same_lease_def)
qed (rule saved_turn [OF assms], auto dest: prepared_harmless prepared_connector_read_only split: if_split_asm)

lemma evaluating_turn:
  assumes "same_lease leased (pg_leased pg)" and "le_request_id (lr_lease leased) = i" "le_token (lr_lease leased) = token"
  shows "yields (calm host i token) (evaluate_effect host workspace root pg effect) (goes_on leased)"
  unfolding evaluate_effect_def
  by (rule yields_bind [OF calm.boundary])
    (auto split: EffectBoundaryAuthorization.splits intro!: starting_turn [OF assms] calm.denying_turn calm.cancelling_turn assms(1))

lemma acting_turn:
  assumes "same_lease leased (pg_leased pg)" and "le_request_id (lr_lease leased) = i" "le_token (lr_lease leased) = token"
  shows "yields (calm host i token) (act_on host workspace root pg decision encoded) (goes_on leased)"
proof (cases decision)
  case (WaitRetry effect not_before)
  then show ?thesis
    by (auto simp: act_on_def Let_def split: LeaseWait.splits
        intro!: yields_bind [OF calm.retry_loop] yields_rules calm.cancelling_turn same_lease_trans [OF assms(1)])
qed (auto simp: act_on_def assms(1) intro!: yields_rules evaluating_turn [OF assms] calm.unknown_turn
    yields_bind [OF yields_lift [where R = "\<lambda>_. True"]])

lemma processing_turn:
  assumes "same_lease leased (pg_leased pg)" and "le_request_id (lr_lease leased) = i" "le_token (lr_lease leased) = token"
  shows "yields (calm host i token) (process_turn host workspace root pg) (goes_on leased)"
  unfolding process_turn_def
  by (rule yields_bind [OF calm.decision_taken])
    (auto split: option.splits intro!: yields_rules acting_turn assms)

lemma processing_loop:
  assumes "le_request_id (lr_lease leased) = i" "le_token (lr_lease leased) = token" and "pg_leased pg = leased"
  shows "yields (calm host i token) (io_loop turns_left (process_turn host workspace root) pg) (\<lambda>_. True)"
proof (rule yields_loop [where I = "\<lambda>pg. same_lease leased (pg_leased pg)"])
  fix pg :: Progress assume "same_lease leased (pg_leased pg)"
  from processing_turn [OF this assms(1,2)]
  show "yields (calm host i token) (process_turn host workspace root pg)
      (\<lambda>r. case r of Inl pg' \<Rightarrow> same_lease leased (pg_leased pg') | Inr _ \<Rightarrow> True)"
    by (rule yields_weaken) (simp add: goes_on_def split: sum.splits)
qed (simp add: assms(3))

section \<open>Whole requests\<close>

lemma unless_stale_yields:
  assumes "yields K m (\<lambda>_. True)" and "\<And>x. yields K (f x) (\<lambda>_. True)"
  shows "yields K (unless_stale m f) (\<lambda>_. True)"
  unfolding unless_stale_def
  by (rule yields_bind [OF yields_attempt [OF assms(1), where R = "\<lambda>_. True"]])
    (auto split: sum.splits StoreError.splits intro!: yields_rules assms(2))

lemma flow_processed:
  "yields (calm host (le_request_id (lr_lease leased)) (le_token (lr_lease leased))) (process_flow host leased) (\<lambda>_. True)"
proof -
  have "yields (calm host (le_request_id (lr_lease leased)) (le_token (lr_lease leased)))
      (process_opened host leased resource workspace root run revision initial upgrade) (\<lambda>_. True)"
    for resource workspace root run revision initial upgrade
    unfolding process_opened_def
    by (rule yields_bind [OF yields_attempt [OF calm.read, where R = "\<lambda>_. True"]])
      (auto split: sum.splits StoreError.splits intro!: yields_rules yields_bind [OF calm.here] unless_stale_yields
        yields_bind [OF calm.checkpoint_saved] processing_loop)
  then show ?thesis
    unfolding process_flow_def
    by (auto split: option.splits sum.splits Opened.splits intro!: yields_rules unless_stale_yields calm.read
        yields_bind [OF yields_lift [where R = "\<lambda>_. True"]])
qed

lemma operation_processed:
  "yields (calm host (le_request_id (lr_lease leased)) (le_token (lr_lease leased)))
     (process_operation host version leased) (\<lambda>_. True)"
  unfolding process_operation_def
  by (rule yields_bind [OF calm.read]) (auto intro!: yields_rules unless_stale_yields flow_processed)

lemma finished_inv:
  "store_inv db \<Longrightarrow> store_inv (snd (finish lease n state result db))"
  "store_inv db \<Longrightarrow> store_inv (snd (finish_terminal_flow codec lease n result db))"
  using op_keeps_inv [of db undefined undefined "Finish lease n state result"]
    op_keeps_inv [of db codec undefined "FinishFlow lease n result"]
  by (simp_all add: reply_def)

lemma request_finished: "yields (calm host i token) (finish_leased host leased processing) (\<lambda>_. True)"
  unfolding finish_leased_def
  by (auto split: FlowProcessing.splits sum.splits StoreError.splits intro!: yields_rules yields_bind [OF calm.read]
      yields_bind [OF yields_attempt [OF calm.written, where R = "\<lambda>_. True"]] finished_inv)

lemma request_processed:
  "yields (calm host (le_request_id (lr_lease leased)) (le_token (lr_lease leased)))
     (process_leased host version delayed leased) (\<lambda>_. True)"
proof -
  have rest: "yields (calm host (le_request_id (lr_lease leased)) (le_token (lr_lease leased)))
      (io_bind (process_operation host version l) (finish_leased host l)) (\<lambda>_. True)" if "same_lease leased l" for l
    using operation_processed [of host l] that
    by (auto simp: same_lease_def intro!: yields_bind [where S = "\<lambda>_. True"] request_finished)
  have "yields (calm host (le_request_id (lr_lease leased)) (le_token (lr_lease leased)))
      (if delayed then io_loop script_left (delay_turn host) leased else io_return (Some leased))
      (\<lambda>kept. case kept of None \<Rightarrow> True | Some l \<Rightarrow> same_lease leased l)"
    using calm.delay_loop by (cases delayed) (simp_all add: yields_return)
  then show ?thesis
    unfolding process_leased_def by (rule yields_bind) (auto intro!: yields_rules rest split: option.splits)
qed


end
