(* ===== verification/Worker_Witnesses.thy ===== *)
theory Worker_Witnesses
  imports Store_Witnesses Worker_Safety
begin

text \<open>
  A worker in action, evaluated: a flow of one git command is admitted and leased, the worker starts the
  run, saves it, evaluates and starts the effect, pins the workspace, and launches the command.
\<close>

section \<open>The flow\<close>

definition root_fingerprint :: string where "root_fingerprint = replicate 32 (CHR ''f'')"

definition status_toml :: string where
  \<open>status_toml = concat (map (\<lambda>line. line @ newline) [
     ''schema_version = 2'', ''id = "demo"'', ''name = "Demo"'', ''description = "demo"'', ''revision = 1'',
     [], ''[outcome]'', ''solved = "s"'', ''changed = "c"'', ''verified = "v"'', ''unresolved = "u"'',
     ''blocked = "b"'', [], ''[[steps]]'', ''id = "scan"'', ''description = "look"'', ''depends_on = []'',
     ''condition = { kind = "always" }'',
     ''retry = { max_attempts = 1, initial_backoff_ms = 0, max_backoff_ms = 0 }'', ''approval = "none"'',
     ''timeout_seconds = 60'', ''effect = "read_only"'', ''semantic = "observe"'',
     ''action = { type = "command", program = "git", args = ["status", "--short"], working_directory = "." }''])\<close>

definition status_operation :: string where
  "status_operation = FLOW_OPERATION_HEADER @ be_bytes32 5 @ ''/repo'' @ root_fingerprint @ status_toml"

definition status_resource :: string where
  "status_resource = ''flow:demo:revision=1:digest=sha256:70616d2d666c6f772d646566696e6974696f6e2d763100736368656d615f7665''
     @ '':workspace=sha256:6666666666666666666666666666666666666666666666666666666666666666''"

lemma status_text: "to_normalized_toml git_flow = Ok status_toml"
  by code_simp

lemma status_checked: "is_utf8 status_toml" "parse_toml (\<lambda>_. Ok git_flow :: string + FlowDefinition) status_toml = Ok git_flow"
  by code_simp+

lemma status_encoded: "encode_flow_operation status_toml root_fingerprint ''/repo'' = Ok status_operation"
  by code_simp

lemma status_decoded:
  "decode_flow_operation (\<lambda>_. Ok git_flow :: string + FlowDefinition) status_operation = Some (git_flow, root_fingerprint, ''/repo'')"
  by (rule encoded_operation_decodes [OF status_text status_checked _ _ status_encoded]) code_simp+

lemma status_resource_parsed:
  "and_then (flow_policy_resource store_hash git_flow root_fingerprint) ResourceName_parse = Ok status_resource"
  by code_simp

section \<open>The run\<close>

definition started_run :: FlowRun where
  "started_run = \<lparr>run_definition = git_flow,
     run_snapshot = \<lparr>sn_snapshot_version = 2, sn_run_id = ''f1'',
       sn_definition_digest = ''pam-flow-definition-v1'' @ [CHR 0x00] @ ''schema_ve'', sn_status = Running,
       sn_cancel_requested = False, sn_transition_sequence = 0,
       sn_steps = [\<lparr>ss_id = ''scan'',
         ss_idempotency_identity = ''pam-flow-step-idempotency-v1'' @ replicate 4 (CHR 0x00), ss_semantic_role = Observe,
         ss_approval = NotRequired, ss_state = StepState.Pending, ss_results = [], ss_blocked_report = None\<rparr>]\<rparr>,
     run_issued_attempt = None\<rparr>"

definition status_attempt :: EffectAttempt where
  "status_attempt = scan_attempt\<lparr>ea_idempotency_identity := ''pam-flow-step-idempotency-v1'' @ replicate 4 (CHR 0x00)\<rparr>"

definition snapshot_at :: "RunStatus \<Rightarrow> u64 \<Rightarrow> StepState \<Rightarrow> FlowSnapshot" where
  "snapshot_at status sequence st = (run_snapshot started_run)\<lparr>sn_status := status, sn_transition_sequence := sequence,
     sn_steps := [(sn_steps (run_snapshot started_run) ! 0)\<lparr>ss_state := st\<rparr>]\<rparr>"

definition evaluated_update :: EngineUpdate where
  "evaluated_update = \<lparr>up_snapshot = snapshot_at AwaitingEffectEvaluation 1 (AwaitingEffect 1),
     up_transition = Some \<lparr>tr_sequence = 1, tr_kind = EffectEvaluationRequired ''scan'' 1, tr_semantic_events = []\<rparr>,
     up_decision = EvaluateEffect status_attempt False\<rparr>"

definition flying_update :: EngineUpdate where
  "flying_update = \<lparr>up_snapshot = snapshot_at EffectInFlight 2 (InFlight 1 4),
     up_transition = Some \<lparr>tr_sequence = 2, tr_kind = EffectStarted ''scan'' 1 False,
       tr_semantic_events = [Waiting ''scan'' EffectResult None]\<rparr>,
     up_decision = Execute status_attempt False\<rparr>"

definition evaluated_run :: FlowRun where
  "evaluated_run = snd (next_decision store_hash 4 started_run)"

definition flying_run :: FlowRun where
  "flying_run = snd (prepare_effect status_attempt 4 evaluated_run)"

lemma run_updates:
  "FlowRun_start store_hash ''f1'' git_flow = Ok started_run"
  "fst (next_decision store_hash 4 started_run) = Ok evaluated_update"
  "fst (prepare_effect status_attempt 4 evaluated_run) = Ok flying_update"
  "run_definition evaluated_run = git_flow"
  by code_simp+

lemma run_evaluated: "next_decision store_hash 4 started_run = (Ok evaluated_update, evaluated_run)"
  by (simp add: prod_eq_iff run_updates evaluated_run_def)

lemma run_flying: "prepare_effect status_attempt 4 evaluated_run = (Ok flying_update, flying_run)"
  by (simp add: prod_eq_iff run_updates flying_run_def)

section \<open>The machine\<close>

definition status_platform :: Platform where
  "status_platform = demo_platform\<lparr>pf_discover_project := \<lambda>root. Some (root, ''p'')\<rparr>"

definition status_tick :: Tick where
  "status_tick = \<lparr>tk_others = [], tk_now = 4, tk_platform = status_platform, tk_ready = True, tk_launches = True,
     tk_child = Exited True, tk_collected = \<lparr>co_messages = [], co_drained = True, co_readers_end = True, co_wait = Ok ()\<rparr>,
     tk_connector = CallFailed [] False, tk_evidence = None\<rparr>"

definition status_codec :: Codec where
  "status_codec = \<lparr>cd_encode_snapshot = \<lambda>s. Some (show_nat (unat (sn_transition_sequence s))),
     cd_decode_snapshot = \<lambda>b. Some (if b = ''0'' then run_snapshot started_run
       else if b = ''1'' then up_snapshot evaluated_update else up_snapshot flying_update),
     cd_encode_transition = \<lambda>t. Some (show_nat (unat (tr_sequence t))),
     cd_decode_transition = \<lambda>b. if b = ''1'' then up_transition evaluated_update else up_transition flying_update\<rparr>"

definition silent_wire :: Wire where
  "silent_wire = \<lparr>wi_write_request = \<lambda>_. None, wi_read_request = \<lambda>_. None, wi_write_message = \<lambda>_. None,
     wi_read_message = \<lambda>_. None\<rparr>"

definition status_host :: Host where
  "status_host = \<lparr>ho_codec = status_codec, ho_sha256 = store_hash, ho_wire = silent_wire,
     ho_toml = \<lambda>_. Ok git_flow, ho_display = \<lambda>_. [], ho_lease_duration_ms = 10\<rparr>"

section \<open>The store\<close>

definition status_request :: AuthorizeFlowRun where
  "status_request = flow_request\<lparr>aq_accept := (aq_accept flow_request)\<lparr>ac_operation := status_operation\<rparr>,
     aq_resource := status_resource\<rparr>"

definition status_row :: RequestRow where
  "status_row = flow_row\<lparr>rq_operation := status_operation\<rparr>"

definition status_db :: "RequestRow \<Rightarrow> EventRow list \<Rightarrow> FlowRunRow list \<Rightarrow> Db" where
  "status_db row events runs = (flow_db row events runs)\<lparr>
     db_flow_authorizations := [\<lparr>fa_request_id = ''f1'', fa_capability = ''flow.run'', fa_resource = status_resource,
       fa_effect_fingerprint = EffectFingerprint_compute store_hash ''cli'' ''p'' ''flow.run'' status_resource,
       fa_authorization_kind = ''unconditional'', fa_approval_id = None, fa_schema_approval_required = False,
       fa_authorized_at_ms = 2\<rparr>]\<rparr>"

definition status_run_row :: "string \<Rightarrow> int \<Rightarrow> FlowRunRow" where
  "status_run_row bytes revision = \<lparr>fr_request_id = ''f1'',
     FlowRunRow.fr_definition_digest = sn_definition_digest (run_snapshot started_run), fr_snapshot = bytes,
     fr_checkpoint_revision = revision, fr_updated_at_ms = 4, fr_terminal_outcome = None, fr_terminal_result = None,
     fr_terminal_cancellation_override = False\<rparr>"

definition transition_event :: "int \<Rightarrow> string \<Rightarrow> RunTransition option \<Rightarrow> EventRow" where
  "transition_event n bytes transition = \<lparr>ev_request_id = ''f1'', ev_sequence = n,
     ev_kind = (case transition of Some t \<Rightarrow> flow_event_kind (tr_kind t) | None \<Rightarrow> []), ev_payload = bytes,
     ev_recorded_at_ms = 4\<rparr>"

definition status_running :: "int \<Rightarrow> EventRow list \<Rightarrow> FlowRunRow list \<Rightarrow> Db" where
  "status_running expires events runs = status_db (grant_lease ''w'' ''t1'' 1 expires status_row)
     (demo_event ''f1'' 2 ''started'' 3 # events) runs"

definition evaluated_event :: EventRow where
  "evaluated_event = transition_event 3 ''1'' (up_transition evaluated_update)"

definition flying_event :: EventRow where
  "flying_event = transition_event 4 ''2'' (up_transition flying_update)"

definition db_claimed :: Db where "db_claimed = status_running 13 [] []"
definition db_started :: Db where "db_started = status_running 13 [] [status_run_row ''0'' 1]"
definition db_evaluated :: Db where "db_evaluated = status_running 13 [evaluated_event] [status_run_row ''1'' 2]"
definition db_flying :: Db where "db_flying = status_running 13 [evaluated_event, flying_event] [status_run_row ''2'' 3]"
definition db_renewed :: Db where "db_renewed = status_running 14 [evaluated_event, flying_event] [status_run_row ''2'' 3]"

definition status_save :: "u64 \<Rightarrow> FlowSnapshot \<Rightarrow> RunTransition option \<Rightarrow> Db \<Rightarrow> FlowCheckpointSaveOutcome store_result" where
  "status_save revision snapshot transition = save_flow_checkpoint status_codec store_hash
     \<lparr>sv_lease = flow_lease ''t1'' 1 13, sv_expected_revision = revision, sv_snapshot = snapshot,
      sv_transition = transition, sv_terminal_result = None, sv_updated_at_ms = 4\<rparr>"

definition saved_as :: "u64 \<Rightarrow> Db \<Rightarrow> FlowCheckpointSaveOutcome store_result \<Rightarrow> bool" where
  "saved_as revision db r \<longleftrightarrow>
     (case r of (Inr saved, db') \<Rightarrow> fc_checkpoint_revision (so_checkpoint saved) = revision \<and> db' = db | (Inl _, _) \<Rightarrow> False)"

definition uncancelled :: "StoreError + RequestSnapshot \<Rightarrow> bool" where
  "uncancelled r \<longleftrightarrow> (case r of Inr snapshot \<Rightarrow> rs_state snapshot \<noteq> RequestState.CancellationRequested | Inl _ \<Rightarrow> False)"

lemma status_admitted: "snd (authorize_flow_run store_hash ''x'' status_request 2 10 db_granted) = status_db status_row [] []"
  by code_simp

lemma status_claimed: "snd (claim store_hash ''t1'' ''w'' 3 10 (status_db status_row [] [])) = db_claimed"
  by code_simp

lemma store_answers:
  "queued_behind ''f1'' db_claimed = Ok 0"
  "load_flow_checkpoint status_codec (flow_lease ''t1'' 1 13) 4 db_claimed = Ok None"
  "validate_flow_operation_resource store_hash (flow_lease ''t1'' 1 13) status_resource 4 db_claimed = Ok ()"
  "uncancelled (snapshot_request ''f1'' None db_started)"
  "validate_flow_effect_authorization store_hash (flow_lease ''t1'' 1 13) 4 db_evaluated = Ok FlowEffectAuthorization.Allowed"
  "renew (flow_lease ''t1'' 1 13) 4 10 db_flying = (Ok (flow_lease ''t1'' 1 14), db_renewed)"
  "uncancelled (snapshot_request ''f1'' None db_renewed)"
  "validate_flow_effect_authorization store_hash (flow_lease ''t1'' 1 14) 4 db_renewed = Ok FlowEffectAuthorization.Allowed"
  by code_simp+

lemma store_saves:
  "saved_as 1 db_started (status_save 0 (run_snapshot started_run) None db_claimed)"
  "saved_as 2 db_evaluated (status_save 1 (up_snapshot evaluated_update) (up_transition evaluated_update) db_started)"
  "saved_as 3 db_flying (status_save 2 (up_snapshot flying_update) (up_transition flying_update) db_evaluated)"
  by code_simp+

section \<open>The worker at work\<close>

definition world_at :: "nat \<Rightarrow> Db \<Rightarrow> Act list \<Rightarrow> World" where
  "world_at n db log = \<lparr>w_db = db, w_script = replicate n status_tick, w_log = log\<rparr>"

lemma host_simps [simp]:
  "ho_codec status_host = status_codec" "ho_sha256 status_host = store_hash" "ho_lease_duration_ms status_host = 10"
  by (simp_all add: status_host_def)

lemma tick_simps [simp]:
  "tk_others status_tick = []" "tk_now status_tick = 4" "tk_platform status_tick = status_platform" "tk_ready status_tick"
  "tk_launches status_tick"
  by (simp_all add: status_tick_def)

lemma at_simps [simp]: "w_db (world_at n db log) = db" "(world_at n db log)\<lparr>w_db := db'\<rparr> = world_at n db' log"
  by (simp_all add: world_at_def)

lemma runs_at [simp]:
  "next_tick status_host (world_at (Suc n) db log) = (Value status_tick, world_at n db log)"
  "next_tick status_host (world_at 0 db log) = (Halted, world_at 0 db log)"
  "note_act act (world_at n db log) = (Value (), world_at n db (act # log))"
  by (simp_all add: next_tick_def world_at_def run_ops_def note_act_def)

lemma looks_at [simp]:
  "clock status_host (world_at (Suc n) db log) = (Value 4, world_at n db log)"
  "current_platform status_host (world_at (Suc n) db log) = (Value status_platform, world_at n db log)"
  "store_read status_host f (world_at (Suc n) db log) = io_lift (f 4 db) (world_at n db log)"
  "store_write status_host g (world_at (Suc n) db log) = io_lift (fst (g 4 db)) (world_at n (snd (g 4 db)) log)"
  by (simp_all add: clock_def current_platform_def store_read_def store_write_def io_bind_def io_return_def)

definition status_leased :: LeasedRequest where
  "status_leased = \<lparr>lr_lease = flow_lease ''t1'' 1 13, lr_queue_sequence = 1, lr_operation_kind = ''flow_run'',
     lr_operation = status_operation\<rparr>"

lemma leased_simps [simp]:
  "lr_lease status_leased = flow_lease ''t1'' 1 13" "lr_operation_kind status_leased = ''flow_run''"
  "lr_operation status_leased = status_operation" "le_request_id (flow_lease token attempt expires) = ''f1''"
  "le_project_id (flow_lease token attempt expires) = ''p''"
  by (simp_all add: status_leased_def flow_lease_def)

lemma lifts [simp]:
  "io_lift (Ok x) w = (Value x, w)" "io_lift (Err e) w = (Raised e, w)" "io_return y w = (Value y, w)"
  by (simp_all add: io_lift_def io_return_def io_raise_def)

lemma not_cancelled:
  "request_is_cancelled status_host leased (world_at (Suc n) db log) = (Value False, world_at n db log)"
  if "uncancelled (snapshot_request ''f1'' None db)" "le_request_id (lr_lease leased) = ''f1''"
  using that by (auto simp: request_is_cancelled_def io_bind_def uncancelled_def split: sum.splits)

lemma saves_at:
  assumes "saved_as revision db' (status_save expected snapshot transition db)"
    and "lr_lease leased = flow_lease ''t1'' 1 13"
  shows "\<exists>out. save_checkpoint status_host leased expected snapshot transition None (world_at (Suc n) db log) = (Value out, world_at n db' log)
    \<and> fc_checkpoint_revision (so_checkpoint out) = revision"
  using assms unfolding save_checkpoint_def saved_as_def status_save_def by (auto split: prod.splits sum.splits)

lemma persists_at:
  assumes "saved_as revision db' (status_save expected (up_snapshot update) (up_transition update) db)"
    and "lr_lease leased = flow_lease ''t1'' 1 13" and "\<And>result. up_decision update \<noteq> Terminal result"
  shows "persist_update status_host leased expected update (world_at (Suc n) db log) = (Value (up_decision update, revision, None), world_at n db' log)"
  using saves_at [OF assms(1,2), of n log] assms(3)
  by (auto simp: persist_update_def update_terminal_result_def io_bind_def split: RunDecision.splits)

lemma settles_at:
  assumes "saved_as revision db' (status_save (pg_revision pg) (up_snapshot update) (up_transition update) db)"
    and "lr_lease (pg_leased pg) = flow_lease ''t1'' 1 13" and "\<And>result. up_decision update \<noteq> Terminal result"
  shows "settle_update status_host pg (update, run) (world_at (Suc n) db log) =
    (Value (pg\<lparr>pg_run := run, pg_revision := revision, pg_pending := Some (up_decision update, None)\<rparr>), world_at n db' log)"
  using persists_at [OF assms]
  by (simp add: settle_update_def persist_update_reconciling_cancellation_def io_bind_def io_attempt_def)

lemma allowed_at:
  assumes "validate_flow_effect_authorization store_hash (lr_lease leased) 4 db = Ok FlowEffectAuthorization.Allowed"
  shows "effect_boundary_authorization status_host leased (world_at (Suc n) db log) =
    (Value Allowed, world_at n db (Authorized (lr_lease leased) 4 db # log))"
  using assms by (simp add: effect_boundary_authorization_def check_authorization_def io_bind_def io_attempt_def)

definition status_start :: Progress where
  "status_start = \<lparr>pg_leased = status_leased, pg_run = started_run, pg_revision = 1, pg_pending = None\<rparr>"

definition status_evaluated :: Progress where
  "status_evaluated = \<lparr>pg_leased = status_leased, pg_run = evaluated_run, pg_revision = 2, pg_pending = None\<rparr>"

lemma status_prepared: "prepare_effect_action status_platform ''/repo'' git_flow status_attempt = Ok (PreparedCommand git_command)"
  by code_simp

lemma status_root: "verify_flow_project_root status_platform ''/repo'' ''p'' = Ok ''/repo''"
  by code_simp

lemma status_pin: "fingerprint_workspace status_platform ''/repo'' = Ok (root_fingerprint, ''/repo'')"
  by code_simp

lemma decision_at: "take_decision status_host status_start (world_at (Suc (Suc (Suc n))) db_started log) =
    (Value (status_evaluated\<lparr>pg_pending := Some (EvaluateEffect status_attempt False, None)\<rparr>), world_at n db_evaluated log)"
  using settles_at [of 2 db_evaluated status_start evaluated_update db_started evaluated_run n log] store_saves(2)
  by (simp add: take_decision_def status_start_def status_evaluated_def io_bind_def not_cancelled store_answers run_evaluated engine_call_def
      engine_ok_def map_err_def evaluated_update_def)

definition status_launch :: "Act list" where
  "status_launch = [Launched status_attempt git_command, Authorized (flow_lease ''t1'' 1 14) 4 db_renewed,
     Authorized (flow_lease ''t1'' 1 13) 4 db_evaluated]"

lemma raw_at: "execute_command_raw status_host effect command leased (world_at (Suc 0) db log) =
   (Halted, world_at 0 db (Launched effect command # log))"
  by (simp add: execute_command_raw_def io_bind_def io_loop.simps child_turn_def)


lemma command_at:
  "execute_prepared status_host root_fingerprint pg status_attempt (Some ''/repo'') (Ok (PreparedCommand git_command))
     (world_at (Suc (Suc 0)) db log) = (Halted, world_at 0 db (Launched status_attempt git_command # log))"
proof -
  have "pr_working_directory git_command = ''/repo''" "pf_identity_holds status_platform ''/repo''" by code_simp+
  then show ?thesis
    by (simp add: execute_prepared_def execute_command_in_workspace_def io_bind_def ok_or_def raw_at)
qed

lemma renewed_at: "renew_and_poll_cancellation status_host status_leased (world_at (Suc (Suc n)) db_flying log) =
    (Value (Ready, status_leased\<lparr>lr_lease := flow_lease ''t1'' 1 14\<rparr>), world_at n db_renewed log)"
  by (simp add: renew_and_poll_cancellation_def io_bind_def io_attempt_def store_answers Let_def not_cancelled)

lemma pinned_at:
  "pin_workspace status_host root_fingerprint ''/repo'' (pg\<lparr>pg_leased := status_leased\<rparr>) status_attempt
     (Ok (PreparedCommand git_command)) (world_at 6 db_flying log) =
   (Halted, world_at 0 db_renewed (Launched status_attempt git_command # Authorized (flow_lease ''t1'' 1 14) 4 db_renewed # log))"
  by (simp add: pin_workspace_def await_workspace_fingerprint_with_lease_def eval_nat_numeral io_bind_def renewed_at
      io_loop.simps [of script_left "lease_turn host finished" for host finished] lease_turn_def status_pin Let_def execute_started_def is_err_def
      allowed_at store_answers command_at)

lemma started_at:
  "start_effect status_host root_fingerprint ''/repo'' status_evaluated status_attempt (world_at 9 db_evaluated log) =
   (Halted, world_at 0 db_renewed (Launched status_attempt git_command # Authorized (flow_lease ''t1'' 1 14) 4 db_renewed # log))"
  using settles_at [of 3 db_flying status_evaluated flying_update db_evaluated flying_run 6 log] store_saves(3)
    pinned_at [of "status_evaluated\<lparr>pg_run := flying_run, pg_revision := 3, pg_pending := None\<rparr>"]
  by (simp add: start_effect_def eval_nat_numeral io_bind_def status_root is_err_def status_evaluated_def status_prepared run_updates Let_def
      engine_call_def engine_ok_def map_err_def run_flying execute_saved_def flying_update_def)

lemma turn_at:
  "process_turn status_host root_fingerprint ''/repo'' status_start (world_at 13 db_started []) = (Halted, world_at 0 db_renewed status_launch)"
  using decision_at [of 10 "[]"] started_at [of "[Authorized (flow_lease ''t1'' 1 13) 4 db_evaluated]"]
    allowed_at [of status_leased db_evaluated 9 "[]"] store_answers(5)
  by (simp add: process_turn_def io_bind_def eval_nat_numeral act_on_def evaluate_effect_def status_evaluated_def status_launch_def)

lemma opened_at:
  "process_opened status_host status_leased status_resource root_fingerprint ''/repo'' started_run 0 True False (world_at 16 db_claimed []) =
   (Halted, world_at 0 db_renewed status_launch)"
  using saves_at [OF store_saves(1), of status_leased 13 "[]"] turn_at
  by (auto simp: process_opened_def io_bind_def io_attempt_def eval_nat_numeral store_answers status_root is_err_def unless_stale_def
      io_loop.simps [of turns_left] status_start_def)


text \<open>The worker of this script launches the command and then waits for it.\<close>

lemma status_launches:
  "process_leased status_host ''1'' False status_leased (world_at 18 db_claimed []) = (Halted, world_at 0 db_renewed status_launch)"
proof -
  have toml: "ho_toml status_host = (\<lambda>_. Ok git_flow)" by (simp add: status_host_def)
  have name: "RunId_parse ''f1'' = Ok ''f1''" by code_simp
  have "open_run status_host status_leased ''f1'' git_flow None = Ok (Run started_run 0 True False)"
    by (simp add: open_run_def run_updates map_err_def)
  then have "process_flow status_host status_leased (world_at 17 db_claimed []) = (Halted, world_at 0 db_renewed status_launch)"
    using opened_at
    by (simp add: process_flow_def toml status_decoded status_resource_parsed name unless_stale_def io_bind_def io_attempt_def
        eval_nat_numeral store_answers)
  then show ?thesis
    by (simp add: process_leased_def process_operation_def io_bind_def io_attempt_def eval_nat_numeral store_answers unless_stale_def
        FLOW_OPERATION_KIND_def)
qed

lemma claimed_inv: "store_inv db_claimed"
proof -
  have "reachable_store status_codec store_hash db_granted"
    by (rule reachable_operation [OF caller_reachable, of _ "PutGrant (access_grant ''g2'' ''flow.run'' ApprovalRequirement.NoApproval) 1"])
      (simp add: grant_flow_demo)
  then have "reachable_store status_codec store_hash (status_db status_row [] [])"
    by (rule reachable_operation [of _ _ _ "AuthorizeFlow ''x'' status_request 2 10"]) (simp add: status_admitted)
  then have "reachable_store status_codec store_hash db_claimed"
    by (rule reachable_operation [of _ _ _ "Claim ''t1'' ''w'' 3 10"]) (simp add: status_claimed)
  then show ?thesis unfolding reachable_store_def by (rule store_runs.reachable_inv)
qed


end
