(* ===== verification/Worker_Progress.thy ===== *)
theory Worker_Progress
  imports Worker_Process
begin

text \<open>
  The loops of the worker make progress.  Every wait takes a tick of the script, and a turn of the main
  loop takes a tick or the decision that was pending, so that no loop is ever \<open>Stuck\<close>: over every script
  the worker ends with a result, with an error of the store, or where the script ends.
\<close>

section \<open>Ticks that a program takes\<close>

abbreviation ticks :: "World \<Rightarrow> nat" where
  "ticks w \<equiv> length (w_script w)"

text \<open>Programs do not get stuck, and stop early only where the script ends.\<close>

definition ends :: "'a outcome \<Rightarrow> World \<Rightarrow> bool" where
  "ends r w \<longleftrightarrow> r \<noteq> Stuck \<and> (r = Halted \<longrightarrow> w_script w = [])"

lemma ends_simps [simp]:
  "ends (Value x) w" "ends (Raised e) w" "\<not> ends Stuck w" "ends Halted w \<longleftrightarrow> w_script w = []"
  by (simp_all add: ends_def)

text \<open>A program ends and gives a value only after \<open>n\<close> ticks.\<close>

definition spends :: "nat \<Rightarrow> 'a io \<Rightarrow> bool" where
  "spends n m \<longleftrightarrow> (\<forall>w r w'. m w = (r, w') \<longrightarrow>
     ends r w' \<and> ticks w' \<le> ticks w \<and> (\<forall>x. r = Value x \<longrightarrow> ticks w' + n \<le> ticks w))"

abbreviation steady :: "'a io \<Rightarrow> bool" where
  "steady m \<equiv> spends 0 m"

named_theorems steady_rules

lemma spends_less: "spends n m \<Longrightarrow> k \<le> n \<Longrightarrow> spends k m"
  by (fastforce simp: spends_def)

lemma steady_return [steady_rules]: "steady (io_return x)"
  by (simp add: spends_def io_return_def)

lemma spends_raise [steady_rules]: "spends n (io_raise e)"
  by (simp add: spends_def io_raise_def)

lemma steady_lift [steady_rules]: "steady (io_lift r)"
  by (cases r) (simp_all add: io_lift_def steady_return spends_raise)

lemma steady_note [steady_rules]: "steady (note_act act)"
  by (simp add: spends_def note_act_def)

lemma spends_bind:
  assumes "spends n m" and "\<And>x. spends k (f x)"
  shows "spends (n + k) (io_bind m f)"
  unfolding spends_def
proof (intro allI impI)
  fix w r w' assume run: "io_bind m f w = (r, w')"
  obtain r1 w1 where first: "m w = (r1, w1)" by (cases "m w")
  have m: "ends r1 w1" "ticks w1 \<le> ticks w" "\<And>x. r1 = Value x \<Longrightarrow> ticks w1 + n \<le> ticks w"
    using assms(1) first by (auto simp: spends_def)
  show "ends r w' \<and> ticks w' \<le> ticks w \<and> (\<forall>x. r = Value x \<longrightarrow> ticks w' + (n + k) \<le> ticks w)"
  proof (cases r1)
    case (Value x)
    then have "f x w1 = (r, w')" using run first by (simp add: io_bind_def)
    then have "ends r w' \<and> ticks w' \<le> ticks w1 \<and> (\<forall>y. r = Value y \<longrightarrow> ticks w' + k \<le> ticks w1)"
      using assms(2) [of x] by (simp add: spends_def)
    with m(3) [OF Value] show ?thesis by force
  qed (use run first m in \<open>auto simp: io_bind_def\<close>)
qed

lemma spends_first: "spends n m \<Longrightarrow> (\<And>x. steady (f x)) \<Longrightarrow> spends n (io_bind m f)"
  using spends_bind [of n m 0 f] by simp

lemma spends_then: "steady m \<Longrightarrow> (\<And>x. spends n (f x)) \<Longrightarrow> spends n (io_bind m f)"
  using spends_bind [of 0 m n f] by simp

lemma steady_bind [steady_rules]: "steady m \<Longrightarrow> (\<And>x. steady (f x)) \<Longrightarrow> steady (io_bind m f)"
  by (rule spends_first)

lemma steady_attempt [steady_rules]: "steady m \<Longrightarrow> steady (io_attempt m)"
  unfolding spends_def io_attempt_def by (fastforce split: prod.splits outcome.splits)

lemma spends_attempt:
  assumes "spends n m" and "\<And>x. steady (f (Ok x))" and "\<And>e. spends n (f (Err e))"
  shows "spends n (io_bind (io_attempt m) f)"
  unfolding spends_def
proof (intro allI impI)
  fix w r w' assume run: "io_bind (io_attempt m) f w = (r, w')"
  obtain r1 w1 where first: "m w = (r1, w1)" by (cases "m w")
  have m: "ends r1 w1" "ticks w1 \<le> ticks w" "\<And>x. r1 = Value x \<Longrightarrow> ticks w1 + n \<le> ticks w"
    using assms(1) first by (auto simp: spends_def)
  show "ends r w' \<and> ticks w' \<le> ticks w \<and> (\<forall>x. r = Value x \<longrightarrow> ticks w' + n \<le> ticks w)"
  proof (cases r1)
    case (Value x)
    then have "f (Ok x) w1 = (r, w')" using run first by (simp add: io_bind_def io_attempt_def)
    then have "ends r w' \<and> ticks w' \<le> ticks w1" using assms(2) [of x] by (simp add: spends_def)
    with m(3) [OF Value] show ?thesis by force
  next
    case (Raised e)
    then have "f (Err e) w1 = (r, w')" using run first by (simp add: io_bind_def io_attempt_def)
    then have "ends r w' \<and> ticks w' \<le> ticks w1 \<and> (\<forall>y. r = Value y \<longrightarrow> ticks w' + n \<le> ticks w1)"
      using assms(3) [of e] by (simp add: spends_def)
    with m(2) show ?thesis by force
  qed (use run first m in \<open>auto simp: io_bind_def io_attempt_def\<close>)
qed

section \<open>Programs that take a tick\<close>

lemma tick_spent: "spends (Suc 0) (next_tick host)"
  by (auto simp: spends_def next_tick_def split: list.splits)

lemma clock_spent: "spends (Suc 0) (clock host)"
  unfolding clock_def by (rule spends_first [OF tick_spent]) (rule steady_return)

lemma platform_spent: "spends (Suc 0) (current_platform host)"
  unfolding current_platform_def by (rule spends_first [OF tick_spent]) (rule steady_return)

lemma lift_at: "steady (\<lambda>w. io_lift (f w) (w\<lparr>w_db := g w\<rparr>))"
  by (auto simp: spends_def io_lift_def io_raise_def io_return_def split: sum.splits)

lemma lift_here: "steady (\<lambda>w. io_lift (f (w_db w)) w)"
  by (auto simp: spends_def io_lift_def io_raise_def io_return_def split: sum.splits)

lemma read_spent: "spends (Suc 0) (store_read host f)"
  unfolding store_read_def by (rule spends_first [OF tick_spent]) (rule lift_here)

lemma write_spent: "spends (Suc 0) (store_write host f)"
  unfolding store_write_def by (rule spends_first [OF tick_spent]) (rule lift_at)

lemmas steady_ticks [steady_rules] =
  tick_spent [THEN spends_less] clock_spent [THEN spends_less] platform_spent [THEN spends_less]
  read_spent [THEN spends_less] write_spent [THEN spends_less]

section \<open>Loops\<close>

text \<open>A loop whose turns take ticks ends.\<close>

lemma script_loop [steady_rules]:
  assumes "\<And>s. spends (Suc 0) (body s)"
  shows "steady (io_loop script_left body s)"
proof -
  have "ends r w' \<and> ticks w' \<le> ticks w" if "io_loop script_left body s w = (r, w')" for r w w'
    using that
  proof (induction "ticks w" arbitrary: s w rule: less_induct)
    case less
    obtain r1 w1 where first: "body s w = (r1, w1)" by (cases "body s w")
    have b: "ends r1 w1" "ticks w1 \<le> ticks w" "\<And>x. r1 = Value x \<Longrightarrow> ticks w1 + Suc 0 \<le> ticks w"
      using assms [of s] first by (auto simp: spends_def)
    show ?case
    proof (cases "\<exists>s'. r1 = Value (Inl s')")
      case True
      then obtain s' where s': "r1 = Value (Inl s')" ..
      with b(3) have shorter: "ticks w1 < ticks w" by auto
      with less.prems first s' have "io_loop script_left body s' w1 = (r, w')"
        by (simp add: io_loop.simps [of script_left body s w] script_left_def)
      from less.hyps [OF shorter this] b(2) show ?thesis by simp
    next
      case False
      with less.prems first b show ?thesis
        by (auto simp: io_loop.simps [of script_left body s w] split: outcome.splits sum.splits)
    qed
  qed
  then show ?thesis by (auto simp: spends_def)
qed

text \<open>The turns of the main loop: one that goes on took a tick, or leaves no decision pending.\<close>

definition moves :: "(Progress + FlowProcessing) io \<Rightarrow> bool" where
  "moves m \<longleftrightarrow> (\<forall>w r w'. m w = (r, w') \<longrightarrow> ends r w' \<and> ticks w' \<le> ticks w
     \<and> (\<forall>pg. r = Value (Inl pg) \<longrightarrow> pg_pending pg = None \<or> ticks w' < ticks w))"

named_theorems moves_rules

lemma moves_spent: "spends (Suc 0) m \<Longrightarrow> moves m"
  by (fastforce simp: spends_def moves_def)

lemma moves_left [moves_rules]: "moves (io_return (Inr x))"
  by (simp add: moves_def io_return_def)

lemma moves_on [moves_rules]: "pg_pending pg = None \<Longrightarrow> moves (io_return (Inl pg))"
  by (simp add: moves_def io_return_def)

lemma moves_raise [moves_rules]: "moves (io_raise e)"
  by (simp add: moves_def io_raise_def)

lemma moves_bind [moves_rules]:
  assumes "steady m" and "\<And>x. moves (f x)"
  shows "moves (io_bind m f)"
  unfolding moves_def
proof (intro allI impI)
  fix w r w' assume run: "io_bind m f w = (r, w')"
  obtain r1 w1 where first: "m w = (r1, w1)" by (cases "m w")
  have m: "ends r1 w1" "ticks w1 \<le> ticks w" using assms(1) first by (auto simp: spends_def)
  show "ends r w' \<and> ticks w' \<le> ticks w \<and> (\<forall>pg. r = Value (Inl pg) \<longrightarrow> pg_pending pg = None \<or> ticks w' < ticks w)"
  proof (cases r1)
    case (Value x)
    then have "f x w1 = (r, w')" using run first by (simp add: io_bind_def)
    with assms(2) [of x] m show ?thesis unfolding moves_def by fastforce
  qed (use run first m in \<open>auto simp: io_bind_def\<close>)
qed

lemma turn_loop:
  assumes "\<And>s. moves (body s)" and "\<And>s. pg_pending s = None \<Longrightarrow> spends (Suc 0) (body s)"
  shows "steady (io_loop turns_left body s)"
proof -
  have "ends r w' \<and> ticks w' \<le> ticks w" if "io_loop turns_left body s w = (r, w')" for r w w'
    using that
  proof (induction "turns_left s w" arbitrary: s w rule: less_induct)
    case less
    obtain r1 w1 where first: "body s w = (r1, w1)" by (cases "body s w")
    have b: "ends r1 w1" "ticks w1 \<le> ticks w"
        "\<And>s'. r1 = Value (Inl s') \<Longrightarrow> pg_pending s' = None \<or> ticks w1 < ticks w"
        "\<And>s'. r1 = Value (Inl s') \<Longrightarrow> pg_pending s = None \<Longrightarrow> ticks w1 < ticks w"
      using assms(1) [of s] assms(2) [of s] first by (fastforce simp: spends_def moves_def)+
    show ?case
    proof (cases "\<exists>s'. r1 = Value (Inl s')")
      case True
      then obtain s' where s': "r1 = Value (Inl s')" ..
      have fewer: "turns_left s' w1 < turns_left s w"
        using b(2) b(3) [OF s'] b(4) [OF s'] by (auto simp: turns_left_def)
      with less.prems first s' have "io_loop turns_left body s' w1 = (r, w')"
        by (simp add: io_loop.simps [of turns_left body s w])
      from less.hyps [OF fewer this] b(2) show ?thesis by simp
    next
      case False
      with less.prems first b show ?thesis
        by (auto simp: io_loop.simps [of turns_left body s w] split: outcome.splits sum.splits)
    qed
  qed
  then show ?thesis by (auto simp: spends_def)
qed

section \<open>The parts of the worker\<close>

lemmas steady_splits =
  sum.splits option.splits prod.splits StoreError.splits LeaseWait.splits ChildEvent.splits OutputMessage.splits
  WorkspaceFingerprintLease.splits ConnectorAnswer.splits

lemma steady_engine [steady_rules]: "steady (engine_ok host r)" "steady (engine_call host result)"
  by (auto simp: engine_ok_def engine_call_def intro!: steady_rules)

lemma cancelled_spent: "spends (Suc 0) (request_is_cancelled host leased)"
  unfolding request_is_cancelled_def by (rule spends_first [OF read_spent]) (rule steady_return)

lemmas steady_cancelled [steady_rules] = cancelled_spent [THEN spends_less]

lemma steady_renew [steady_rules]: "steady (renew_and_poll_cancellation host leased)"
  unfolding renew_and_poll_cancellation_def
  by (auto simp: Let_def split: steady_splits intro!: steady_rules)

lemma steady_waits [steady_rules]:
  "steady begin_work \<Longrightarrow> steady (await_workspace_fingerprint_with_lease host begin_work finished leased)"
  "steady (wait_for_retry host leased)"
  "steady (io_loop script_left (delay_turn host) leased)"
  unfolding await_workspace_fingerprint_with_lease_def wait_for_retry_def lease_turn_def retry_turn_def delay_turn_def
  by (auto split: steady_splits intro!: steady_rules spends_first [OF tick_spent])

lemma steady_child [steady_rules]: "steady (io_loop script_left (child_turn host) s)"
proof (rule script_loop)
  fix s :: "string \<times> LeasedRequest"
  obtain out leased where "s = (out, leased)" by (cases s)
  then show "spends (Suc 0) (child_turn host s)"
    unfolding child_turn_def
    by (auto split: steady_splits intro!: steady_rules spends_first [OF tick_spent])
qed

lemma steady_command [steady_rules]:
  "steady (execute_command_in_workspace host effect command authority accepted leased)"
  unfolding execute_command_in_workspace_def execute_command_raw_def recheck_workspace_def
  by (auto split: steady_splits CommandExecution.splits intro!: steady_rules)

lemma steady_evidence [steady_rules]: "steady (retain_bytes host prefix message bytes)"
  unfolding retain_bytes_def put_evidence_def Let_def
  by (auto split: steady_splits intro!: steady_rules)

lemma steady_results [steady_rules]:
  "steady (retain_output host bytes)"
  "steady (retain_command_result host success bytes retryable)"
  "steady (retain_failed_command_result host summary retryable bytes)"
  "steady (retain_connector_evidence host bytes)"
  "steady (failed_connector_outcome host summary retryable)"
  unfolding retain_command_result_def retain_failed_command_result_def retain_output_def retain_connector_evidence_def
    failed_connector_outcome_def
  by (auto intro!: steady_rules)

lemma steady_payloads [steady_rules]: "steady (retain_payloads host evidence payloads)"
  by (induction payloads arbitrary: evidence) (auto intro!: steady_rules)

lemma steady_connector [steady_rules]: "steady (execute_connector_step host effect step leased)"
  unfolding execute_connector_step_def connector_result_def Let_def
  by (auto split: steady_splits intro!: steady_rules)

lemma save_spent: "spends (Suc 0) (save_checkpoint host leased revision snapshot transition terminal)"
  unfolding save_checkpoint_def by (rule write_spent)

lemma persist_spent: "spends (Suc 0) (persist_update host leased revision update)"
  unfolding persist_update_def
  by (intro spends_then [OF steady_lift] spends_first [OF save_spent] steady_return)

lemma resume_spent: "spends (Suc 0) (resume_cancelled host leased revision run previous error)"
  unfolding resume_cancelled_def
  by (rule spends_first [OF cancelled_spent])
    (auto split: prod.splits intro!: steady_rules persist_spent [THEN spends_less])

lemma settle_spent: "spends (Suc 0) (settle_update host pg updated)"
  unfolding settle_update_def persist_update_reconciling_cancellation_def
  by (intro spends_first spends_attempt persist_spent)
    (auto split: prod.splits intro!: steady_rules resume_spent)

lemma cancel_spent: "spends (Suc 0) (cancel_run host pg)"
  unfolding cancel_run_def case_prod_unfold
  by (intro spends_then [OF steady_engine(2)] spends_first [OF persist_spent] steady_return)

lemma boundary_spent: "spends (Suc 0) (effect_boundary_authorization host leased)"
  unfolding effect_boundary_authorization_def check_authorization_def refused_authorization_def
  by (intro spends_attempt spends_first [OF read_spent])
    (auto split: steady_splits FlowEffectAuthorization.splits intro!: steady_rules spends_first [OF cancelled_spent])

lemmas steady_saved [steady_rules] =
  save_spent [THEN spends_less] persist_spent [THEN spends_less] settle_spent [THEN spends_less]
  cancel_spent [THEN spends_less] boundary_spent [THEN spends_less]

lemma steady_turns [steady_rules]:
  "steady m \<Longrightarrow> steady (next_turn m)"
  "steady (deny_effect host pg effect)"
  "steady (record_result host pg effect result)"
  "steady (fail_effect host pg effect summary)"
  unfolding fail_effect_def record_result_def next_turn_def deny_effect_def by (auto intro!: steady_rules)

lemma unknown_spent: "spends (Suc 0) (reconcile_unknown host pg effect evidence summary)"
  unfolding reconcile_unknown_def next_turn_def unknown_reconciliation_update_def
  by (intro spends_first spends_then [OF steady_engine(1)] clock_spent) (auto intro!: steady_rules)

lemmas steady_unknown [steady_rules] = unknown_spent [THEN spends_less]

lemma steady_outcomes [steady_rules]:
  "steady (command_outcome host pg effect execution)"
  "steady (connector_outcome host pg effect outcome)"
  unfolding command_outcome_def connector_outcome_def
  by (auto split: CommandExecution.splits ConnectorStepOutcome.splits intro!: steady_rules)

lemma steady_execution [steady_rules]: "steady (execute_prepared host accepted pg effect authority prepared)"
  unfolding execute_prepared_def
  by (auto split: steady_splits PreparedEffect.splits CommandRejection.splits intro!: steady_rules)

lemma steady_started [steady_rules]: "steady (execute_started host accepted pg effect authority prepared)"
  unfolding execute_started_def by (auto split: EffectBoundaryAuthorization.splits intro!: steady_rules)

lemma steady_pinned [steady_rules]: "steady (pin_workspace host accepted root pg effect prepared)"
  unfolding pin_workspace_def Let_def by (auto split: steady_splits PreparedEffect.splits intro!: steady_rules)

lemma steady_start [steady_rules]: "steady (start_effect host accepted root pg effect)"
  unfolding start_effect_def execute_saved_def Let_def
  by (auto split: steady_splits RunDecision.splits intro!: steady_rules)

lemma evaluation_spent: "spends (Suc 0) (evaluate_effect host accepted root pg effect)"
  unfolding evaluate_effect_def
  by (rule spends_first [OF boundary_spent]) (auto split: EffectBoundaryAuthorization.splits intro!: steady_rules)

lemma cancelling_moves: "moves (next_turn (cancel_run host pg))"
  unfolding next_turn_def by (rule moves_spent, rule spends_first [OF cancel_spent]) (rule steady_return)

lemma act_moves:
  assumes "pg_pending pg = None"
  shows "moves (act_on host accepted root pg decision encoded)"
  unfolding act_on_def Let_def
  using assms moves_spent [OF evaluation_spent] moves_spent [OF unknown_spent]
  by (auto split: RunDecision.splits LeaseWait.splits
      intro!: moves_rules cancelling_moves steady_lift steady_waits(2))

lemma steady_act: "steady (act_on host accepted root pg decision encoded)"
  unfolding act_on_def Let_def
  by (auto split: RunDecision.splits steady_splits intro!: steady_rules evaluation_spent [THEN spends_less])

lemma decision_spent: "pg_pending pg = None \<Longrightarrow> spends (Suc 0) (take_decision host pg)"
  unfolding take_decision_def
  by (auto intro!: spends_first [OF cancelled_spent] steady_rules)

lemma process_moves: "moves (process_turn host accepted root pg)"
proof -
  have "steady (take_decision host pg)"
    by (cases "pg_pending pg = None") (auto simp: take_decision_def intro!: steady_rules)
  then show ?thesis
    unfolding process_turn_def
    by (rule moves_bind) (auto split: option.splits prod.splits intro!: moves_rules act_moves)
qed

lemma process_spends: "pg_pending pg = None \<Longrightarrow> spends (Suc 0) (process_turn host accepted root pg)"
  unfolding process_turn_def
  by (rule spends_first [OF decision_spent]) (auto split: option.splits prod.splits intro!: steady_rules steady_act)

lemma steady_unless_stale: "steady m \<Longrightarrow> (\<And>x. steady (f x)) \<Longrightarrow> steady (unless_stale m f)"
  unfolding unless_stale_def by (auto split: sum.splits StoreError.splits intro!: steady_rules)

lemma steady_opened [steady_rules]:
  "steady (process_opened host leased resource accepted root run revision initial upgrade)"
  unfolding process_opened_def
  by (auto split: sum.splits StoreError.splits intro!: steady_rules steady_unless_stale turn_loop process_moves process_spends)

lemma steady_flow [steady_rules]: "steady (process_flow host leased)"
  unfolding process_flow_def
  by (auto split: option.splits prod.splits sum.splits Opened.splits intro!: steady_rules steady_unless_stale)

lemma steady_leased: "steady (process_leased host version delayed leased)"
  unfolding process_leased_def process_operation_def finish_leased_def
  by (auto split: option.splits sum.splits FlowProcessing.splits StoreError.splits intro!: steady_rules steady_unless_stale)


end
