(* ===== verification/Spec2Isabelle.thy ===== *)
theory Spec2Isabelle
  imports Flow_Safety Flow_Bounds Redacted_Output Compaction Store_Witnesses Store_Audited
    Protocol_Guarantees Worker_Witnesses Worker_Progress
begin

text \<open>
  A verification library of \<^verbatim>\<open>pam\<close>, a local automation daemon written in Rust.  Clients hand the
  daemon typed requests; the daemon authorizes the effects of a request, runs declarative
  flows of such effects, keeps everything it must not forget in one SQLite database, and
  gives back compacted, redacted evidence of what happened.  The crates modelled here are the
  ones that decide: what may run, in which order, how often, after which approval, and what
  of it is shown.

  \<^bold>\<open>The parts and how they meet.\<close>  A flow (\<^verbatim>\<open>pam_flow/src/lib.rs\<close>) is a validated graph of
  steps.  The engine (\<^verbatim>\<open>pam_flow/src/engine.rs\<close>) is a deterministic scheduler over it: it
  issues attempts, takes their reports, asks for approvals and hands out a snapshot with
  every transition.  The store (\<^verbatim>\<open>pam_store/src/store.rs\<close>) accepts requests once per idempotency
  key, leases them to workers one at a time per project, commits the snapshots under the
  lease after checking them again, decides authorizations with the policy and spends
  approvals.  The policy (\<^verbatim>\<open>pam_policy/src/lib.rs\<close>) evaluates grants and holds the receipt of
  one approval; its redaction (\<^verbatim>\<open>pam_policy/src/redaction.rs\<close>) hides secrets in the detail of an
  audit event before the store writes it.  The compactor (\<^verbatim>\<open>pam_compact/src/lib.rs\<close>) shortens the
  logs that evidence consists of.  \<^verbatim>\<open>pam_core\<close> has the identities all of them use.  The protocol
  (\<^verbatim>\<open>pam_protocol\<close>) is what clients and the daemon say to each other, and the daemon's worker
  (\<^verbatim>\<open>pam_daemon/src/flow.rs\<close>) executes the steps of a flow.

  \<^bold>\<open>Shared ground.\<close>  \<open>Pam_Prelude\<close> has the machine integers (\<open>u64\<close> and friends as words, with the
  checked and saturating operations the source uses), a sum with the error on the left for Rust's \<^verbatim>\<open>Result\<close> with
  the \<^verbatim>\<open>?\<close> operator as \<open>and_then\<close>, and the fallible loops of the validators.  \<open>Pam_Text\<close> has the
  string library: a \<^verbatim>\<open>String\<close> is the list of its bytes, and \<open>chars\<close> decodes its UTF-8 characters.  \<open>Pam_System\<close> has labelled transition systems and the locales the state machines are
  proved through: \<open>invariant_system\<close> (steps that keep an invariant) with its extensions
  \<open>checked_system\<close> (steps another component checks), \<open>bounded_system\<close> (paths with a length bound) and
  \<open>log_system\<close> (an append-only log); they are interpreted on the transitions of the engine, on
  approval receipts and on the statements and operations of the store.

  \<^bold>\<open>Flow definitions.\<close>  \<open>Flow_Definition\<close> translates the types of \<^verbatim>\<open>lib.rs\<close>, \<^verbatim>\<open>FlowDefinition::validate\<close> with
  every limit and secret screen, the depth-first cycle check, and the normalized text and
  digest.  \<open>Flow_Graph\<close> and \<open>Flow_Bounds\<close> show what validation buys: the check accepts exactly the acyclic
  reference graphs, so the scheduler cannot stall.

  \<^bold>\<open>Flow engine.\<close>  \<open>Flow_Types\<close> and \<open>Flow_Snapshot\<close> hold the snapshot, the reports, the transitions and
  the validators a snapshot passes on \<^verbatim>\<open>resume\<close> and in the store; \<open>Flow_Engine\<close> has one
  definition per operation of \<^verbatim>\<open>FlowRun\<close>.  \<open>Flow_Machine\<close> states the specification, an inductive relation
  with one rule per transition and the invariant of a run; \<open>Flow_Invariant\<close> shows that the
  rules keep it, \<open>Flow_Refinement\<close> that the operations follow the rules.  On this rest the
  properties of all runs, with restarts (\<open>Flow_Runs\<close>, \<open>Flow_Safety\<close>): a stateful attempt is never
  repeated blindly, effects start only when approved and due, a failing call changes nothing,
  finished runs stay finished.  \<open>Flow_Checkpoints\<close> relates the engine to the two independent checks
  of its snapshots, and exhibits the skipped approval both of them refuse.

  \<^bold>\<open>Policy and redaction.\<close>  \<open>Policy\<close> translates grants, \<^verbatim>\<open>evaluate\<close>, the effect fingerprint and \<^verbatim>\<open>Approval\<close>;
  its lemmas give deny-overrides on sets of grants and the single use of a receipt.
  \<open>Redaction\<close> translates every scanner, the merging of ranges, rendering and bounding;
  \<open>Redacted_Output\<close> shows what is masked, that the output is bounded and printable, and exactly when
  the code panics.

  \<^bold>\<open>Log compaction.\<close>  \<open>Compact_Log\<close> follows \<^verbatim>\<open>compact_log\<close> stage by stage; \<open>Compaction\<close> shows that the
  fragments partition the source, failures stay visible and rules commute.

  \<^bold>\<open>Core.\<close>  \<open>Pam_Core\<close> has credentials, the reserved daemon scope, evidence handles and digests.

  \<^bold>\<open>Store.\<close>  \<open>Sql_Tables\<close> has the statements: a table is its rows in \<open>rowid\<close> order, a statement that would
  break a constraint fails, and a transaction that fails leaves the state as it was.
  \<open>Store_Schema\<close> has the row types, the state \<open>Db\<close> and every constraint of the
  migrations as the predicate \<open>schema_ok\<close>.  The operations follow \<^verbatim>\<open>store.rs\<close>: \<open>Store_Audit\<close> (the ledger),
  \<open>Store_Access\<close> (callers, grants, approvals), \<open>Store_Checkpoints\<close> (events, leases, flow snapshots),
  \<open>Store_Requests\<close> (accept, claim, renew, finish, cancel, recover, replay) and \<open>Store_Authorization\<close>
  (authorizing an effect, admitting a flow).  \<open>Store_Lifecycle\<close> has the abstract life cycle of
  a request and what single statements may do; \<open>Store_Operations\<close> lists the operations as the
  worker runs them and decomposes each into those statements.  \<open>Store_Guarantees\<close> has the
  guarantees over all histories, \<open>Store_Views\<close> what the operations leave alone, \<open>Store_Receipts\<close> the
  refinement of the approvals table to the receipts of \<open>Policy\<close>, \<open>Store_Progress\<close> that a claim cannot
  fail on a waiting project.  Two theories join components: \<open>Store_Flow\<close> (a run saved by
  the store is resumed by the engine exactly where it was) and \<open>Store_Audited\<close> (a detail whose
  redaction the ledger still refuses blocks its authorization).

  \<^bold>\<open>Protocol.\<close>  \<open>Pam_Path\<close> has the paths of the standard library.  \<open>Protocol_Contract\<close> has the bounds, the
  capabilities and the validators of \<^verbatim>\<open>contract.rs\<close>, \<open>Protocol_Requests\<close> the requests with their constructors
  and attachments and the checks the daemon applies to an incoming one (\<^verbatim>\<open>lifecycle.rs\<close>),
  \<open>Protocol_Results\<close> the results and events, \<open>Protocol_Codec\<close> the frames of \<^verbatim>\<open>codec.rs\<close> with what the hand-written
  deserializers refuse.  \<open>Protocol_Guarantees\<close> shows that every request a client can build arrives as it
  was sent and is accepted in shape, and which capabilities can be revoked by name.

  \<^bold>\<open>Worker.\<close>  \<open>Worker_Effects\<close> has the stored form of a flow operation, the screens that leave read-only
  git commands and connector calls, the submission of a flow and the results handed back.
  \<open>Worker_Guarantees\<close> shows that the stored form is exact, that the screens at submission and at execution
  agree, and what a prepared command can be.  \<open>Worker_Process\<close> follows \<^verbatim>\<open>process_flow\<close> and \<^verbatim>\<open>process_leased\<close> call by
  call, as a program in the monad of \<open>Worker_Monad\<close>: the state is the database and a log of what
  was authorized, launched and called, and every wait takes a tick of a script, in which others
  run operations of the store and the outside (clock, file system, child process, connectors) answers.
  All scripts together are all interleavings, and a script that ends is a crash.  \<open>Worker_Assertions\<close> has
  the assertions that survive interference, as the locales \<open>stable_assertion\<close> and \<open>recording_assertion\<close>;
  \<open>Worker_Safety\<close> interprets them and shows that nothing happens without a saved start and a fresh
  authorization.  \<open>Worker_Progress\<close> shows that no loop of the worker gets stuck.

  \<^bold>\<open>Bounds.\<close>  The loops of the modelled crates end, and their models are total functions: recursion
  over the data, or \<open>function\<close> with a measure where the source loops over a worklist (the depth-first
  cycle check) or an index (the scanners).  No definition carries fuel.  A loop of the worker may wait
  for as long as the outside likes; \<open>io_loop\<close> is bounded by what is left of the script and gives \<open>Stuck\<close> for a turn that
  takes nothing of it, which \<open>Worker_Progress\<close> excludes.  Counters and times keep their widths: 64 bits with checked, wrapping or
  saturating arithmetic as in the code, and the \<^verbatim>\<open>i64\<close> range where SQLite stores them.

  \<^bold>\<open>Parameters.\<close>  Code that is not part of the repository appears as arguments of the definitions:
  SHA-256 (\<^verbatim>\<open>sha2\<close>), the TOML parser, the MessagePack encoding of checkpoints and frames,
  what the file system, a child process and a connector show to the worker,
  the text of a UUID, the random identifiers and tokens, and the clock.  Hypotheses about them
  are named where they are used (an injective encoding that decodes what it encoded, tokens
  that do not repeat, or a collision of the hash as an alternative of the conclusion), and the
  witnesses use concrete functions.

  \<^bold>\<open>Examples.\<close>  \<open>Flow_Examples\<close>, \<open>Store_Examples\<close>, \<open>Store_Witnesses\<close> and \<open>Worker_Witnesses\<close> evaluate small flows and histories
  in the kernel, up to a worker that launches the command of a flow;
  every property with a hypothesis is applied to one of them.

  \<^bold>\<open>Not modelled.\<close>  The daemon process around the worker (sockets, request dispatch, process
  groups), the command line, the desktop application, the connectors to third-party services, the
  local model runtime and the platform services are I/O around the parts above.  In the
  store, the model registry, the connector settings, the skill inventory, the files behind
  evidence and the migration runner are left out; so is the skill
  library.  \<^verbatim>\<open>Debug\<close> and \<^verbatim>\<open>Display\<close> implementations, error texts that are only shown, and derived
  serialization are not modelled.
\<close>

end
